(* ===== verification/Prelude.thy ===== *)
theory Prelude
  imports Main "HOL-Library.Word"
begin

text \<open>
  Shared vocabulary of the development: the collections of simplification
  rules the component theories fill, decimal text of machine numbers
  (std::to_string), C arrays of length two, and generic facts on lists and
  association lists that several components use.
\<close>

named_theorems guard_simps \<open>unfolding of guards: lookups of a side, a slot, a header\<close>
named_theorems inv_intros \<open>preservation of the component invariants\<close>
named_theorems frame_simps \<open>what an operation leaves unchanged\<close>

section \<open>Arrays of length two\<close>

text \<open>The code keeps per-player data in C arrays indexed by a side 0 or 1.\<close>

type_synonym 'a duo = "'a \<times> 'a"

definition duo_get :: "'a duo \<Rightarrow> nat \<Rightarrow> 'a" where
  "duo_get p i = (if i = 0 then fst p else snd p)"

definition duo_set :: "'a duo \<Rightarrow> nat \<Rightarrow> 'a \<Rightarrow> 'a duo" where
  "duo_set p i v = (if i = 0 then (v, snd p) else (fst p, v))"

lemma duo_get_simps [simp]: "duo_get (a, b) 0 = a" "duo_get (a, b) (Suc i) = b"
  by (simp_all add: duo_get_def)

lemma duo_set_simps [simp]: "duo_set (a, b) 0 v = (v, b)" "duo_set (a, b) (Suc i) v = (a, v)"
  by (simp_all add: duo_set_def)

lemma duo_get_set_same [simp]: "duo_get (duo_set p i v) i = v"
  by (simp add: duo_get_def duo_set_def)

lemma duo_get_set_other: "i < 2 \<Longrightarrow> j < 2 \<Longrightarrow> i \<noteq> j \<Longrightarrow> duo_get (duo_set p i v) j = duo_get p j"
  by (auto simp: duo_get_def duo_set_def)

section \<open>Decimal text\<close>

definition digit_char :: "nat \<Rightarrow> char" where
  "digit_char d = char_of (48 + d)"

definition digit_val :: "char \<Rightarrow> nat" where
  "digit_val c = of_char c - 48"

fun dec_nat :: "nat \<Rightarrow> string" where
  "dec_nat n = (if n < 10 then [digit_char n] else dec_nat (n div 10) @ [digit_char (n mod 10)])"

declare dec_nat.simps [simp del]

definition read_dec :: "string \<Rightarrow> nat" where
  "read_dec s = foldl (\<lambda>acc c. acc * 10 + digit_val c) 0 s"

lemma digit_val_char [simp]: "d < 10 \<Longrightarrow> digit_val (digit_char d) = d"
  by (simp add: digit_val_def digit_char_def)

lemma read_dec_snoc [simp]: "read_dec (s @ [c]) = read_dec s * 10 + digit_val c"
  by (simp add: read_dec_def)

lemma read_dec_nat [simp]: "read_dec (dec_nat n) = n"
proof (induction n rule: dec_nat.induct)
  case (1 n)
  show ?case
  proof (cases "n < 10")
    case True
    then show ?thesis by (simp add: dec_nat.simps [of n] read_dec_def)
  next
    case False
    then have "read_dec (dec_nat n) = read_dec (dec_nat (n div 10)) * 10 + n mod 10"
      by (simp add: dec_nat.simps [of n])
    then show ?thesis using 1 [OF False] by simp
  qed
qed

lemma dec_nat_inj [simp]: "dec_nat m = dec_nat n \<longleftrightarrow> m = n"
  by (metis read_dec_nat)

text \<open>\<open>std::to_string\<close> of an unsigned machine integer.\<close>

definition to_string :: "'a::len word \<Rightarrow> string" where
  "to_string w = dec_nat (unat w)"

lemma to_string_inj [simp]: "to_string v = to_string w \<longleftrightarrow> v = w"
  by (auto simp: to_string_def dest: word_unat_eq_iff [THEN iffD2])

section \<open>Lists\<close>

text \<open>Index of the first element with a property, as the code's search loops compute it.\<close>

fun find_index :: "('a \<Rightarrow> bool) \<Rightarrow> 'a list \<Rightarrow> nat option" where
  "find_index p [] = None"
| "find_index p (x # xs) = (if p x then Some 0 else map_option Suc (find_index p xs))"

lemma find_index_Some:
  "find_index p xs = Some i \<Longrightarrow> i < length xs \<and> p (xs ! i) \<and> (\<forall>j<i. \<not> p (xs ! j))"
proof (induction xs arbitrary: i)
  case Nil
  then show ?case by simp
next
  case (Cons x xs)
  show ?case
  proof (cases "p x")
    case True
    with Cons.prems show ?thesis by simp
  next
    case False
    with Cons.prems obtain k where k: "find_index p xs = Some k" "i = Suc k" by auto
    from Cons.IH [OF k(1)] have *: "k < length xs" "p (xs ! k)" "\<forall>j<k. \<not> p (xs ! j)"
      by auto
    have "\<not> p ((x # xs) ! j)" if "j < i" for j
      using that k(2) *(3) False by (cases j) auto
    then show ?thesis using k(2) * by simp
  qed
qed

lemma find_index_None: "find_index p xs = None \<longleftrightarrow> (\<forall>x\<in>set xs. \<not> p x)"
  by (induction xs) auto

lemma find_index_take:
  "find_index p (take k xs) = Some i \<Longrightarrow> i < k \<and> i < length xs \<and> p (xs ! i)"
  using find_index_Some [of p "take k xs" i] by (auto simp: nth_take)

text \<open>Remove the element at an index (vector::erase of one iterator).\<close>

definition erase_at :: "'a list \<Rightarrow> nat \<Rightarrow> 'a list" where
  "erase_at xs i = take i xs @ drop (Suc i) xs"

lemma erase_at_simps [simp]:
  "erase_at (x # xs) 0 = xs" "erase_at (x # xs) (Suc i) = x # erase_at xs i" "erase_at [] i = []"
  by (simp_all add: erase_at_def)

lemma length_erase_at [simp]: "length (erase_at xs i) = (if i < length xs then length xs - 1 else length xs)"
  by (simp add: erase_at_def)

lemma set_erase_at: "set (erase_at xs i) \<subseteq> set xs"
  by (auto simp: erase_at_def dest: in_set_takeD in_set_dropD)

lemma erase_at_append: "i < length xs \<Longrightarrow> erase_at (xs @ ys) i = erase_at xs i @ ys"
  by (simp add: erase_at_def)

lemma map_erase_at: "map f (erase_at xs i) = erase_at (map f xs) i"
  by (simp add: erase_at_def take_map drop_map)

lemma distinct_erase_at: "distinct xs \<Longrightarrow> distinct (erase_at xs i)"
  using set_take_disj_set_drop_if_distinct [of xs i "Suc i"] by (simp add: erase_at_def)

lemma erase_at_nth_notin: "distinct xs \<Longrightarrow> i < length xs \<Longrightarrow> xs ! i \<notin> set (erase_at xs i)"
proof (induction xs arbitrary: i)
  case Nil
  then show ?case by simp
next
  case (Cons x xs)
  then show ?case using set_erase_at by (cases i) (auto simp: nth_mem)
qed

section \<open>Runs of a partial step and what they preserve\<close>

fun run_opt :: "('m \<Rightarrow> 's \<Rightarrow> 's option) \<Rightarrow> 'm list \<Rightarrow> 's \<Rightarrow> 's option" where
  "run_opt f [] s = Some s"
| "run_opt f (m # ms) s = (case f m s of None \<Rightarrow> None | Some s' \<Rightarrow> run_opt f ms s')"

lemma run_opt_append:
  "run_opt f (xs @ ys) s = Option.bind (run_opt f xs s) (run_opt f ys)"
  by (induction xs arbitrary: s) (auto split: option.splits)

text \<open>A loop over messages whose every step keeps an invariant.\<close>

locale invariant_loop =
  fixes step :: "'m \<Rightarrow> 's \<Rightarrow> 's option"
    and inv :: "'s \<Rightarrow> bool"
  assumes step_inv: "inv s \<Longrightarrow> step m s = Some s' \<Longrightarrow> inv s'"
begin

lemma run_inv: "run_opt step ms s = Some s' \<Longrightarrow> inv s \<Longrightarrow> inv s'"
  by (induction ms arbitrary: s) (auto split: option.splits intro: step_inv)

end

text \<open>A replicated state: a change of what clients see is announced by a dirty
  flag that no step takes back, so that a loop can publish once, at its end.\<close>

locale dirty_loop =
  fixes step :: "'m \<Rightarrow> 's \<Rightarrow> 's option"
    and view :: "'s \<Rightarrow> 'v"
    and dirty :: "'s \<Rightarrow> bool"
  assumes step_dirty: "step m s = Some s' \<Longrightarrow> view s' = view s \<and> dirty s' = dirty s \<or> dirty s'"
begin

lemma run_dirty: "run_opt step ms s = Some s' \<Longrightarrow> view s' = view s \<and> dirty s' = dirty s \<or> dirty s'"
proof (induction ms arbitrary: s)
  case Nil
  then show ?case by simp
next
  case (Cons m ms)
  then obtain t where t: "step m s = Some t" "run_opt step ms t = Some s'"
    by (auto split: option.splits)
  show ?case using step_dirty [OF t(1)] Cons.IH [OF t(2)] by auto
qed

lemma run_clean: "run_opt step ms s = Some s' \<Longrightarrow> \<not> dirty s' \<Longrightarrow> view s' = view s"
  using run_dirty by blast

end

end
