(* ===== verification/Gate.thy ===== *)
theory Gate
  imports Prelude
begin

text \<open>
  The GGPO simulation gate (common/sf4e__GgpoGate.hxx, .cxx): the record
  \<open>gate\<close> is GgpoGateModel, one definition per member function, the result
  classification of the GGPO calls, and the gate run over a sequence of the
  events its host drives into it.
\<close>

section \<open>Phases and result policies\<close>

abbreviation (input) PHASE_NO_SESSION :: int where "PHASE_NO_SESSION \<equiv> 0"
abbreviation (input) PHASE_WAITING_FOR_RUNNING :: int where "PHASE_WAITING_FOR_RUNNING \<equiv> 1"
abbreviation (input) PHASE_RUNNING :: int where "PHASE_RUNNING \<equiv> 2"
abbreviation (input) PHASE_BATTLE_CLOSING :: int where "PHASE_BATTLE_CLOSING \<equiv> 3"

definition PhaseName :: "int \<Rightarrow> string" where
  "PhaseName phase =
     (if phase = PHASE_NO_SESSION then ''no_session''
      else if phase = PHASE_WAITING_FOR_RUNNING then ''waiting_for_running''
      else if phase = PHASE_RUNNING then ''running''
      else if phase = PHASE_BATTLE_CLOSING then ''battle_closing''
      else ''?'')"

datatype advance_policy =
  POLICY_CONTINUE | POLICY_STALL_PREDICTION | POLICY_SKIP_NOT_SYNCED | POLICY_SKIP_OTHER | POLICY_FATAL

definition ClassifyGgpoResult :: "int \<Rightarrow> advance_policy" where
  "ClassifyGgpoResult code =
     (if code = 0 then POLICY_CONTINUE
      else if code = 4 then POLICY_STALL_PREDICTION
      else if code = 6 then POLICY_SKIP_NOT_SYNCED
      else if code = 7 \<or> code = 8 then POLICY_SKIP_OTHER
      else POLICY_FATAL)"

section \<open>The gate state and its operations\<close>

record gate =
  g_phase :: int
  manualPause :: bool
  fatalError :: bool
  predictionStalled :: bool
  connectionWarningActive :: bool
  connectionWarningStartedAtMs :: "32 word"

definition gate_reset :: gate where
  "gate_reset = \<lparr>g_phase = PHASE_NO_SESSION, manualPause = False, fatalError = False,
     predictionStalled = False, connectionWarningActive = False,
     connectionWarningStartedAtMs = 0\<rparr>"

definition OnSessionStarted :: "gate \<Rightarrow> gate" where
  "OnSessionStarted g = g\<lparr>g_phase := PHASE_WAITING_FOR_RUNNING, fatalError := False,
     predictionStalled := False, connectionWarningActive := False,
     connectionWarningStartedAtMs := 0\<rparr>"

definition OnRunning :: "gate \<Rightarrow> gate" where
  "OnRunning g = (if g_phase g = PHASE_WAITING_FOR_RUNNING then g\<lparr>g_phase := PHASE_RUNNING\<rparr> else g)"

definition OnBattleClosing :: "gate \<Rightarrow> gate" where
  "OnBattleClosing g = (if g_phase g \<noteq> PHASE_NO_SESSION then g\<lparr>g_phase := PHASE_BATTLE_CLOSING\<rparr> else g)"

definition OnSessionClosed :: "gate \<Rightarrow> gate" where
  "OnSessionClosed g = g\<lparr>g_phase := PHASE_NO_SESSION, predictionStalled := False,
     connectionWarningActive := False\<rparr>"

definition SetManualPause :: "bool \<Rightarrow> gate \<Rightarrow> gate" where
  "SetManualPause paused g = g\<lparr>manualPause := paused\<rparr>"

definition OnFatal :: "gate \<Rightarrow> gate" where
  "OnFatal g = g\<lparr>fatalError := True\<rparr>"

definition OnConnectionInterrupted :: "32 word \<Rightarrow> gate \<Rightarrow> gate \<times> bool" where
  "OnConnectionInterrupted nowMs g =
     (if connectionWarningActive g then (g, False)
      else (g\<lparr>connectionWarningActive := True, connectionWarningStartedAtMs := nowMs\<rparr>, True))"

definition OnConnectionResumed :: "gate \<Rightarrow> gate \<times> bool" where
  "OnConnectionResumed g =
     (if \<not> connectionWarningActive g then (g, False)
      else (g\<lparr>connectionWarningActive := False\<rparr>, True))"

definition OnPredictionThreshold :: "gate \<Rightarrow> gate" where
  "OnPredictionThreshold g = g\<lparr>predictionStalled := True\<rparr>"

definition OnFrameAccepted :: "gate \<Rightarrow> gate" where
  "OnFrameAccepted g = g\<lparr>predictionStalled := False\<rparr>"

definition CanAdvanceDeterministicFrame :: "gate \<Rightarrow> bool" where
  "CanAdvanceDeterministicFrame g \<longleftrightarrow> g_phase g = PHASE_RUNNING \<and> \<not> manualPause g \<and> \<not> fatalError g"

lemmas gate_defs = gate_reset_def OnSessionStarted_def OnRunning_def OnBattleClosing_def
  OnSessionClosed_def SetManualPause_def OnFatal_def OnConnectionInterrupted_def
  OnConnectionResumed_def OnPredictionThreshold_def OnFrameAccepted_def

section \<open>Event traces\<close>

datatype gate_event = Started | Running | Closing | Closed | Pause bool | Fatal
  | Interrupted "32 word" | Resumed | Threshold | Accepted

text \<open>One event: the new state and the alert the call asks for, if it asks for one
  (\<open>Some True\<close>: a warning began, \<open>Some False\<close>: it ended).\<close>

fun gate_step :: "gate_event \<Rightarrow> gate \<Rightarrow> gate \<times> bool option" where
  "gate_step Started g = (OnSessionStarted g, None)"
| "gate_step Running g = (OnRunning g, None)"
| "gate_step Closing g = (OnBattleClosing g, None)"
| "gate_step Closed g = (OnSessionClosed g, None)"
| "gate_step (Pause b) g = (SetManualPause b g, None)"
| "gate_step Fatal g = (OnFatal g, None)"
| "gate_step (Interrupted t) g =
     (let (g', fresh) = OnConnectionInterrupted t g in (g', if fresh then Some True else None))"
| "gate_step Resumed g =
     (let (g', was) = OnConnectionResumed g in (g', if was then Some False else None))"
| "gate_step Threshold g = (OnPredictionThreshold g, None)"
| "gate_step Accepted g = (OnFrameAccepted g, None)"

fun gate_run :: "gate_event list \<Rightarrow> gate \<Rightarrow> gate \<times> bool list" where
  "gate_run [] g = (g, [])"
| "gate_run (e # es) g =
     (let (g1, a) = gate_step e g; (g2, as) = gate_run es g1
      in (g2, (case a of None \<Rightarrow> as | Some b \<Rightarrow> b # as)))"

lemma gate_run_append:
  "gate_run (xs @ ys) g =
     (fst (gate_run ys (fst (gate_run xs g))),
      snd (gate_run xs g) @ snd (gate_run ys (fst (gate_run xs g))))"
  by (induction xs arbitrary: g) (auto simp: case_prod_unfold Let_def split: option.splits)

lemma gate_run_snoc_state: "fst (gate_run (es @ [e]) g) = fst (gate_step e (fst (gate_run es g)))"
  by (simp add: gate_run_append case_prod_unfold Let_def)

section \<open>The history specification\<close>

text \<open>What the comments promise, read off the history alone: the events since
  the session last started, and the last manual pause request.\<close>

definition since_start :: "gate_event list \<Rightarrow> gate_event list" where
  "since_start es = rev (takeWhile (\<lambda>e. e \<noteq> Started) (rev es))"

definition last_pause :: "gate_event list \<Rightarrow> bool" where
  "last_pause es = (case find (\<lambda>e. \<exists>b. e = Pause b) (rev es) of Some (Pause b) \<Rightarrow> b | _ \<Rightarrow> False)"

definition history_allows :: "gate_event list \<Rightarrow> bool" where
  "history_allows es \<longleftrightarrow> Started \<in> set es \<and> Running \<in> set (since_start es) \<and>
     Closing \<notin> set (since_start es) \<and> Closed \<notin> set (since_start es) \<and>
     Fatal \<notin> set (since_start es) \<and> \<not> last_pause es"

definition history_phase :: "gate_event list \<Rightarrow> int" where
  "history_phase es =
     (if Started \<notin> set es \<or> Closed \<in> set (since_start es) then PHASE_NO_SESSION
      else if Closing \<in> set (since_start es) then PHASE_BATTLE_CLOSING
      else if Running \<in> set (since_start es) then PHASE_RUNNING
      else PHASE_WAITING_FOR_RUNNING)"

lemma since_start_snoc:
  "since_start (es @ [e]) = (if e = Started then [] else since_start es @ [e])"
  by (simp add: since_start_def)

lemma last_pause_snoc:
  "last_pause (es @ [e]) = (case e of Pause b \<Rightarrow> b | _ \<Rightarrow> last_pause es)"
  by (cases e) (auto simp: last_pause_def)

lemma gate_phase_history: "g_phase (fst (gate_run es gate_reset)) = history_phase es"
proof (induction es rule: rev_induct)
  case Nil
  show ?case by (simp add: gate_reset_def history_phase_def since_start_def)
next
  case (snoc e es)
  then show ?case
    by (cases e) (auto simp: gate_run_snoc_state gate_defs since_start_snoc history_phase_def
        Let_def split: if_splits)
qed

lemma gate_fatal_history:
  "fatalError (fst (gate_run es gate_reset)) \<longleftrightarrow> Fatal \<in> set (since_start es)"
proof (induction es rule: rev_induct)
  case Nil
  show ?case by (simp add: gate_reset_def since_start_def)
next
  case (snoc e es)
  then show ?case
    by (cases e) (auto simp: gate_run_snoc_state gate_defs since_start_snoc Let_def)
qed

lemma gate_pause_history: "manualPause (fst (gate_run es gate_reset)) = last_pause es"
proof (induction es rule: rev_induct)
  case Nil
  show ?case by (simp add: gate_reset_def last_pause_def)
next
  case (snoc e es)
  then show ?case
    by (cases e) (auto simp: gate_run_snoc_state gate_defs last_pause_snoc Let_def)
qed

lemmas gate_history = gate_phase_history gate_fatal_history gate_pause_history

section \<open>Properties\<close>

text \<open>
  C39: the gate's verdict after any sequence of events is the history rule: a
  session was started, GGPO reported running since, nothing closed or failed
  since, and the last pause request is not in force. Warnings, prediction stalls
  and overlapping events cannot change it.
\<close>

theorem gate_refines_history:
  "CanAdvanceDeterministicFrame (fst (gate_run es gate_reset)) \<longleftrightarrow> history_allows es"
  by (auto simp: CanAdvanceDeterministicFrame_def gate_history history_phase_def history_allows_def)

definition session_event :: "gate_event \<Rightarrow> bool" where
  "session_event e \<longleftrightarrow> e \<noteq> Started \<and> e \<noteq> Closed"

fun alternating :: "bool \<Rightarrow> bool list \<Rightarrow> bool" where
  "alternating b [] = True"
| "alternating b (x # xs) = (x = b \<and> alternating (\<not> b) xs)"

lemma alerts_alternate:
  "list_all session_event es \<Longrightarrow> alternating (\<not> connectionWarningActive g) (snd (gate_run es g))"
proof (induction es arbitrary: g)
  case Nil
  then show ?case by simp
next
  case (Cons e es)
  then have IH: "alternating (\<not> connectionWarningActive g') (snd (gate_run es g'))" for g' by simp
  show ?case
    using Cons.prems IH [of "fst (gate_step e g)"]
    by (cases e) (auto simp: session_event_def gate_defs Let_def case_prod_unfold)
qed

text \<open>
  While a session lasts, the alerts the gate asks for alternate: a warning
  begins, ends, begins again; no alert is repeated and no end is announced
  without its beginning.
\<close>

theorem gate_alerts_alternate:
  assumes "list_all session_event es" "\<not> connectionWarningActive g"
  shows "alternating True (snd (gate_run es g))"
  using alerts_alternate [OF assms(1), of g] assms(2) by simp

theorem gate_alerts_alternate_witness:
  "alternating True (snd (gate_run [Interrupted 5, Fatal, Interrupted 6, Resumed, Resumed, Interrupted 9] gate_reset)) \<and>
   snd (gate_run [Interrupted 5, Fatal, Interrupted 6, Resumed, Resumed, Interrupted 9] gate_reset) = [True, False, True]"
proof -
  have "list_all session_event [Interrupted 5, Fatal, Interrupted 6, Resumed, Resumed, Interrupted 9]"
    by (simp add: session_event_def)
  moreover have "\<not> connectionWarningActive gate_reset" by (simp add: gate_reset_def)
  ultimately show ?thesis using gate_alerts_alternate by (simp add: gate_defs)
qed

end
