(* ===== verification/Protocol.thy ===== *)
theory Protocol
  imports Prelude
begin

text \<open>
  The session protocol (session/sf4e__SessionProtocol.hxx, .cxx): identifiers,
  lobby and match data, message and result enumerations, the message structs.
  JSON text and the nlohmann library are outside: a received message is a value
  of an abstract type \<open>'j\<close>, and the record \<open>codec\<close> holds the deserialisers the
  NLOHMANN_DEFINE_TYPE macros generate, \<open>None\<close> standing for a thrown
  json::exception.
\<close>

section \<open>Identifiers\<close>

record connection_id =
  cid_host :: string
  cid_user :: string

definition ConnectionID_eq :: "connection_id \<Rightarrow> connection_id \<Rightarrow> bool" where
  "ConnectionID_eq a b \<longleftrightarrow> cid_host a = cid_host b \<and> cid_user a = cid_user b"

lemma ConnectionID_eq_iff [simp]: "ConnectionID_eq a b \<longleftrightarrow> a = b"
  by (cases a; cases b) (simp add: ConnectionID_eq_def)

record lobby_id =
  lid_host :: string
  lid_key :: string

definition LobbyID_eq :: "lobby_id \<Rightarrow> lobby_id \<Rightarrow> bool" where
  "LobbyID_eq a b \<longleftrightarrow>
     (if lid_host a = [] \<or> lid_key a = [] then lid_host b = [] \<or> lid_key b = []
      else lid_host a = lid_host b \<and> lid_key a = lid_key b)"

definition NULL_LOBBY_ID :: lobby_id where
  "NULL_LOBBY_ID = \<lparr>lid_host = [], lid_key = []\<rparr>"

section \<open>Lobby and match data\<close>

record fixed_point =
  fractional :: "16 word"
  integral :: "16 word"

record chara_conditions =
  charaID :: "8 word"
  costume :: "8 word"
  color :: "8 word"
  unused_byte :: "8 word"
  personalAction :: "8 word"
  winQuote :: "8 word"
  ultraCombo :: "8 word"
  handicap :: "8 word"
  unc_edition :: "8 word"

definition zero_chara :: chara_conditions where
  "zero_chara = \<lparr>charaID = 0, costume = 0, color = 0, unused_byte = 0, personalAction = 0,
     winQuote = 0, ultraCombo = 0, handicap = 0, unc_edition = 0\<rparr>"

definition MAX_SF4E_PROTOCOL_USERS :: nat where
  "MAX_SF4E_PROTOCOL_USERS = 4"

definition MF_BATTLE_LOADED :: "64 word" where
  "MF_BATTLE_LOADED = 1"

record member_data =
  connId :: connection_id
  m_name :: string
  m_ip :: string
  m_port :: "16 word"
  m_flags :: "64 word"

record lobby_data =
  lobby_id :: lobby_id
  editionSelect :: bool
  roundCount :: int
  roundTime :: fixed_point
  trainingMode :: bool
  members :: "member_data list"

definition NULL_LOBBY :: lobby_data where
  "NULL_LOBBY = \<lparr>lobby_id = NULL_LOBBY_ID, editionSelect = False, roundCount = 0,
     roundTime = \<lparr>fractional = 0, integral = 0\<rparr>, trainingMode = False, members = []\<rparr>"

record match_data =
  readyMessageNum :: "int duo"
  m_chara :: "chara_conditions duo"
  stageID :: int
  rngSeed :: "32 word"

definition MatchData_Clear :: "match_data \<Rightarrow> match_data" where
  "MatchData_Clear m = m\<lparr>readyMessageNum := (-1, -1), stageID := -1, rngSeed := 0xffffffff,
     m_chara := (zero_chara, zero_chara)\<rparr>"

definition MatchData_init :: match_data where
  "MatchData_init = \<lparr>readyMessageNum = (-1, -1), m_chara = (zero_chara, zero_chara),
     stageID = -1, rngSeed = 0xffffffff\<rparr>"

definition MatchData_ClearReady :: "match_data \<Rightarrow> match_data" where
  "MatchData_ClearReady m = m\<lparr>readyMessageNum := (-1, -1)\<rparr>"

definition MatchData_IsAllReady :: "match_data \<Rightarrow> bool" where
  "MatchData_IsAllReady m \<longleftrightarrow>
     duo_get (readyMessageNum m) 0 \<noteq> -1 \<and> duo_get (readyMessageNum m) 1 \<noteq> -1"

lemma MatchData_Clear_init [simp]: "MatchData_Clear m = MatchData_init"
  by (simp add: MatchData_Clear_def MatchData_init_def)

lemma not_all_ready_cleared [simp]:
  "\<not> MatchData_IsAllReady (MatchData_ClearReady m)" "\<not> MatchData_IsAllReady MatchData_init"
  by (simp_all add: MatchData_IsAllReady_def MatchData_ClearReady_def MatchData_init_def)

section \<open>Messages\<close>

datatype message_type =
    MT_SESSION_HELLO | MT_SESSION_HELLO_RESP
  | MT_SESSION_DATAUPDATE | MT_SESSION_JOINREQ | MT_SESSION_JOINREJ
  | MT_LOBBY_READY | MT_LOBBY_ALLREADY | MT_LOBBY_REPORTRESULTS | MT_LOBBY_RESET
  | MT_LOBBY_SETSETTINGS
  | MT_PREBATTLE_SETENV | MT_PREBATTLE_SETCHARA | MT_PREBATTLE_SETSTAGE
  | MT_BATTLE_LOADED | MT_BATTLE_SYNCED | MT_BATTLE_SNAPSHOT | MT_BATTLE_HASH
  | MT_BATTLE_GGPO_FRAME
  | MT_PUNCH_READY | MT_PUNCH_GO
  | MT_FORWARD

datatype join_result =
  JOIN_OK | JR_REQUEST_INVALID | JR_LOBBY_FULL | JR_NAME_TAKEN | JR_HASH_INVALID

record join_request =
  jr_sidecarHash :: string
  jr_username :: string
  jr_port :: "16 word"

record lobby_settings =
  ls_editionSelect :: bool
  ls_roundCount :: int
  ls_roundTime :: fixed_point
  ls_trainingMode :: bool

record chara_snapshot =
  cs_status :: int
  cs_rootPos :: "32 word list"
  cs_side :: int
  cs_values :: "fixed_point list"

record state_snapshot =
  ss_frameIdx :: int
  ss_chara :: "chara_snapshot duo"

record battle_hash =
  bh_frameIdx :: int
  bh_overall :: "64 word"
  bh_flow :: "64 word"
  bh_chara0 :: "64 word"
  bh_chara1 :: "64 word"
  bh_fromPlayer :: bool

record ggpo_frame =
  gf_src :: connection_id
  gf_dest :: connection_id
  gf_data :: "8 word list"

record 'j forward_message =
  fw_src :: connection_id
  fw_dest :: connection_id
  fw_msg :: 'j

record 'j codec =
  get_type :: "'j \<Rightarrow> message_type option"
  get_helloresp :: "'j \<Rightarrow> connection_id option"
  get_dataupdate :: "'j \<Rightarrow> (lobby_data \<times> match_data) option"
  get_joinreq :: "'j \<Rightarrow> join_request option"
  get_joinrej :: "'j \<Rightarrow> join_result option"
  get_setchara :: "'j \<Rightarrow> chara_conditions option"
  get_setenv :: "'j \<Rightarrow> 32 word option"
  get_setstage :: "'j \<Rightarrow> int option"
  get_setsettings :: "'j \<Rightarrow> lobby_settings option"
  get_lobbyready :: "'j \<Rightarrow> unit option"
  get_results :: "'j \<Rightarrow> int option"
  get_snapshot :: "'j \<Rightarrow> state_snapshot option"
  get_hash :: "'j \<Rightarrow> battle_hash option"
  get_frame :: "'j \<Rightarrow> ggpo_frame option"
  get_forward :: "'j \<Rightarrow> 'j forward_message option"

text \<open>What the server sends: a reply of its own, or a received message passed on.\<close>

datatype 'j reply =
    HelloResp connection_id
  | JoinRej join_result
  | DataUpdate lobby_data match_data
  | AllReady
  | BattleSyncedMsg
  | PunchGoMsg
  | Relayed 'j

text \<open>What a client sends.\<close>

datatype 'j request =
    Hello
  | JoinReq join_request
  | Ready
  | ReportResults int
  | Reset
  | SetSettings lobby_settings
  | SetEnv "32 word"
  | SetChara chara_conditions
  | SetStage int
  | Loaded
  | PunchReadyMsg
  | Snapshot state_snapshot
  | HashMsg battle_hash
  | FrameMsg ggpo_frame
  | ForwardMsg "'j forward_message"

section \<open>Lobby identifiers are compared up to the null lobby\<close>

definition null_id :: "lobby_id \<Rightarrow> bool" where
  "null_id a \<longleftrightarrow> lid_host a = [] \<or> lid_key a = []"

lemma LobbyID_eq_null: "LobbyID_eq a NULL_LOBBY_ID \<longleftrightarrow> null_id a"
  by (auto simp: LobbyID_eq_def NULL_LOBBY_ID_def null_id_def)

lemma LobbyID_eq_cases: "LobbyID_eq a b \<longleftrightarrow> (null_id a \<and> null_id b) \<or> (\<not> null_id a \<and> a = b)"
  by (cases a; cases b) (auto simp: LobbyID_eq_def null_id_def)

end
