(* ===== verification/Session_Server.thy ===== *)
theory Session_Server
  imports Protocol
begin

text \<open>
  The session server (session/sf4e__SessionServer.cxx): its state, one
  definition per handled message, the poll loop of Step with its broadcasts,
  the connection callback and Close. A poll is the list of messages the
  networking library returned, \<open>None\<close> for a failed poll; an element \<open>None\<close> is a
  message enumerated without data. A step that dereferences an iterator outside
  the client vector has no result (\<open>None\<close>).
\<close>

section \<open>State\<close>

type_synonym conn = "32 word"

record session_member =
  mdata :: member_data
  mconn :: conn

record server =
  identity :: string
  sidecarHash :: string
  listening :: bool
  pollGroup :: bool
  cidMap :: "conn \<Rightarrow> connection_id option"
  clients :: "session_member list"
  dataDirty :: bool
  lobbyData :: lobby_data
  matchData :: match_data
  punchReady :: "bool duo"

definition server_init :: "string \<Rightarrow> string \<Rightarrow> bool \<Rightarrow> int \<Rightarrow> fixed_point \<Rightarrow> server" where
  "server_init ident hash edition rounds time =
     \<lparr>identity = ident, sidecarHash = hash, listening = False, pollGroup = True,
      cidMap = (\<lambda>_. None), clients = [], dataDirty = False,
      lobbyData = NULL_LOBBY\<lparr>lobby_id := \<lparr>lid_host = ident, lid_key = ''1''\<rparr>,
        editionSelect := edition, roundCount := rounds, roundTime := time\<rparr>,
      matchData = MatchData_init, punchReady = (False, False)\<rparr>"

definition server_listen :: "bool \<Rightarrow> server \<Rightarrow> server \<times> int" where
  "server_listen created st =
     (if \<not> created then (st\<lparr>listening := False\<rparr>, -1) else (st\<lparr>listening := True\<rparr>, 0))"

section \<open>Lobby operations\<close>

definition ResetBattleSync :: "server \<Rightarrow> server" where
  "ResetBattleSync st = st\<lparr>clients :=
     map (\<lambda>m. m\<lparr>mdata := (mdata m)\<lparr>m_flags := and (m_flags (mdata m)) (not MF_BATTLE_LOADED)\<rparr>\<rparr>)
       (clients st)\<rparr>"

definition ResetLobbyForRematch :: "server \<Rightarrow> server" where
  "ResetLobbyForRematch st =
     (ResetBattleSync (st\<lparr>matchData := MatchData_ClearReady (matchData st)\<rparr>))
       \<lparr>punchReady := (False, False), dataDirty := True\<rparr>"

text \<open>\<open>peer_local\<close> and \<open>peer_text\<close> are IsLocalHost and ToString of the peer's address.\<close>

definition new_member :: "conn \<Rightarrow> 16 word \<Rightarrow> string \<Rightarrow> bool \<Rightarrow> string \<Rightarrow> connection_id \<Rightarrow> session_member" where
  "new_member c port name peer_local peer_text cid =
     \<lparr>mdata = \<lparr>connId = cid, m_name = name, m_ip = (if peer_local then [] else peer_text),
        m_port = port, m_flags = 0\<rparr>, mconn = c\<rparr>"

definition RegisterToWait ::
  "conn \<Rightarrow> 16 word \<Rightarrow> string \<Rightarrow> string \<Rightarrow> bool \<Rightarrow> string \<Rightarrow> connection_id \<Rightarrow> server
     \<Rightarrow> join_result \<times> server" where
  "RegisterToWait c port hash name peer_local peer_text cid st =
     (if hash \<noteq> sidecarHash st then (JR_HASH_INVALID, st)
      else if MAX_SF4E_PROTOCOL_USERS \<le> length (clients st) then (JR_LOBBY_FULL, st)
      else if \<exists>m\<in>set (clients st). m_name (mdata m) = name then (JR_NAME_TAKEN, st)
      else (JOIN_OK, st\<lparr>clients := clients st @ [new_member c port name peer_local peer_text cid]\<rparr>))"

definition HandleResults :: "int \<Rightarrow> server \<Rightarrow> server option" where
  "HandleResults loser st =
     (if loser < 0 \<or> int (length (clients st)) \<le> loser then None
      else Some (st\<lparr>clients := erase_at (clients st @ [clients st ! nat loser]) (nat loser),
                    matchData := MatchData_Clear (matchData st)\<rparr>))"

section \<open>One received message\<close>

record 'j delivery =
  d_conn :: conn
  d_body :: "'j option"
  d_number :: int
  d_local :: bool
  d_addr :: string

text \<open>The variables of one Step: the server, what was sent so far, the two deferred broadcasts.\<close>

record 'j round =
  sv :: server
  sent :: "(conn \<times> 'j reply) list"
  bSendLobbyAllReady :: bool
  bSendBattleSynced :: bool

definition Respond :: "conn \<Rightarrow> 'j reply \<Rightarrow> 'j round \<Rightarrow> 'j round" where
  "Respond c m r = r\<lparr>sent := sent r @ [(c, m)]\<rparr>"

definition BroadcastMessage :: "'j reply \<Rightarrow> 'j round \<Rightarrow> 'j round" where
  "BroadcastMessage m r = r\<lparr>sent := sent r @ map (\<lambda>cl. (mconn cl, m)) (clients (sv r))\<rparr>"

definition side_of :: "conn \<Rightarrow> server \<Rightarrow> nat option" where
  "side_of c st = find_index (\<lambda>m. mconn m = c) (take 2 (clients st))"

definition handle_hello :: "'j delivery \<Rightarrow> 'j round \<Rightarrow> 'j round" where
  "handle_hello d r =
     (let cid = \<lparr>cid_host = identity (sv r), cid_user = to_string (d_conn d)\<rparr>
      in Respond (d_conn d) (HelloResp cid)
           (r\<lparr>sv := (sv r)\<lparr>cidMap := (cidMap (sv r))(d_conn d := Some cid)\<rparr>\<rparr>))"

definition handle_forward :: "'j codec \<Rightarrow> 'j delivery \<Rightarrow> 'j \<Rightarrow> 'j round \<Rightarrow> 'j round" where
  "handle_forward C d j r =
     (case get_forward C j of
        None \<Rightarrow> r
      | Some f \<Rightarrow>
         (case find (\<lambda>m. ConnectionID_eq (connId (mdata m)) (fw_dest f)) (clients (sv r)) of
            Some m \<Rightarrow> Respond (mconn m) (Relayed j) r
          | None \<Rightarrow> r))"

definition handle_joinreq ::
  "'j codec \<Rightarrow> 'j delivery \<Rightarrow> 'j \<Rightarrow> connection_id \<Rightarrow> 'j round \<Rightarrow> 'j round" where
  "handle_joinreq C d j cid r =
     (case get_joinreq C j of
        None \<Rightarrow> Respond (d_conn d) (JoinRej JR_REQUEST_INVALID) r
      | Some q \<Rightarrow>
         (case RegisterToWait (d_conn d) (jr_port q) (jr_sidecarHash q) (jr_username q)
                 (d_local d) (d_addr d) cid (sv r) of
            (JOIN_OK, st) \<Rightarrow> r\<lparr>sv := st\<lparr>dataDirty := True\<rparr>\<rparr>
          | (res, st) \<Rightarrow> Respond (d_conn d) (JoinRej res) (r\<lparr>sv := st\<rparr>)))"

definition handle_setchara :: "'j codec \<Rightarrow> 'j delivery \<Rightarrow> 'j \<Rightarrow> 'j round \<Rightarrow> 'j round" where
  "handle_setchara C d j r =
     (case side_of (d_conn d) (sv r) of
        None \<Rightarrow> r
      | Some side \<Rightarrow>
         (case get_setchara C j of
            None \<Rightarrow> r
          | Some ch \<Rightarrow> r\<lparr>sv := (sv r)\<lparr>dataDirty := True,
              matchData := (matchData (sv r))
                \<lparr>m_chara := duo_set (m_chara (matchData (sv r))) side ch\<rparr>\<rparr>\<rparr>))"

definition handle_setenv :: "'j codec \<Rightarrow> 'j delivery \<Rightarrow> 'j \<Rightarrow> 'j round \<Rightarrow> 'j round" where
  "handle_setenv C d j r =
     (if side_of (d_conn d) (sv r) \<noteq> Some 0 then r
      else (case get_setenv C j of
          None \<Rightarrow> r
        | Some seed \<Rightarrow> r\<lparr>sv := (sv r)\<lparr>dataDirty := True,
            matchData := (matchData (sv r))\<lparr>rngSeed := seed\<rparr>\<rparr>\<rparr>))"

definition handle_setstage :: "'j codec \<Rightarrow> 'j delivery \<Rightarrow> 'j \<Rightarrow> 'j round \<Rightarrow> 'j round" where
  "handle_setstage C d j r =
     (if side_of (d_conn d) (sv r) \<noteq> Some 0 then r
      else (case get_setstage C j of
          None \<Rightarrow> r
        | Some stage \<Rightarrow> r\<lparr>sv := (sv r)\<lparr>dataDirty := True,
            matchData := (matchData (sv r))\<lparr>stageID := stage\<rparr>\<rparr>\<rparr>))"

definition handle_setsettings :: "'j codec \<Rightarrow> 'j delivery \<Rightarrow> 'j \<Rightarrow> 'j round \<Rightarrow> 'j round" where
  "handle_setsettings C d j r =
     (if side_of (d_conn d) (sv r) \<noteq> Some 0 then r
      else (case get_setsettings C j of
          None \<Rightarrow> r
        | Some s \<Rightarrow> r\<lparr>sv := (sv r)\<lparr>dataDirty := True,
            lobbyData := (lobbyData (sv r))\<lparr>editionSelect := ls_editionSelect s,
              roundCount := ls_roundCount s, roundTime := ls_roundTime s,
              trainingMode := ls_trainingMode s\<rparr>\<rparr>\<rparr>))"

text \<open>The loop over the clients sets the sender's flag and folds the conjunction of all flags.\<close>

definition is_loaded :: "session_member \<Rightarrow> bool" where
  "is_loaded m \<longleftrightarrow> and (m_flags (mdata m)) MF_BATTLE_LOADED \<noteq> 0"

definition mark_loaded :: "conn \<Rightarrow> session_member \<Rightarrow> session_member" where
  "mark_loaded c m =
     (if mconn m = c
      then m\<lparr>mdata := (mdata m)\<lparr>m_flags := or (m_flags (mdata m)) MF_BATTLE_LOADED\<rparr>\<rparr>
      else m)"

fun loaded_loop :: "conn \<Rightarrow> session_member list \<Rightarrow> bool \<Rightarrow> session_member list \<times> bool" where
  "loaded_loop c [] b = ([], b)"
| "loaded_loop c (m # ms) b =
     (let m' = mark_loaded c m; (ms', b') = loaded_loop c ms (b \<and> is_loaded m')
      in (m' # ms', b'))"

definition handle_loaded :: "'j delivery \<Rightarrow> 'j round \<Rightarrow> 'j round" where
  "handle_loaded d r =
     (let (cs, all) = loaded_loop (d_conn d) (clients (sv r)) True
      in r\<lparr>sv := (sv r)\<lparr>clients := cs, dataDirty := True\<rparr>, bSendBattleSynced := all\<rparr>)"

definition handle_ready :: "'j codec \<Rightarrow> 'j delivery \<Rightarrow> 'j \<Rightarrow> 'j round \<Rightarrow> 'j round" where
  "handle_ready C d j r =
     (case side_of (d_conn d) (sv r) of
        None \<Rightarrow> r
      | Some side \<Rightarrow>
         (case get_lobbyready C j of
            None \<Rightarrow> r
          | Some _ \<Rightarrow>
             (let md = (matchData (sv r))
                \<lparr>readyMessageNum := duo_set (readyMessageNum (matchData (sv r))) side (d_number d)\<rparr>
              in r\<lparr>sv := (sv r)\<lparr>matchData := md, dataDirty := True\<rparr>,
                   bSendLobbyAllReady := bSendLobbyAllReady r \<or> MatchData_IsAllReady md\<rparr>)))"

definition handle_results :: "'j codec \<Rightarrow> 'j \<Rightarrow> 'j round \<Rightarrow> 'j round option" where
  "handle_results C j r =
     (case get_results C j of
        None \<Rightarrow> Some r
      | Some loser \<Rightarrow>
         (case HandleResults loser (sv r) of
            None \<Rightarrow> None
          | Some st \<Rightarrow> Some (r\<lparr>sv := st\<lparr>dataDirty := True\<rparr>\<rparr>)))"

definition handle_reset :: "'j delivery \<Rightarrow> 'j round \<Rightarrow> 'j round" where
  "handle_reset d r =
     (if side_of (d_conn d) (sv r) = None then r else r\<lparr>sv := ResetLobbyForRematch (sv r)\<rparr>)"

definition handle_verification :: "'j delivery \<Rightarrow> 'j \<Rightarrow> 'j round \<Rightarrow> 'j round" where
  "handle_verification d j r =
     r\<lparr>sent := sent r @
       map (\<lambda>m. (mconn m, Relayed j)) (filter (\<lambda>m. mconn m \<noteq> d_conn d) (clients (sv r)))\<rparr>"

definition handle_punch :: "'j delivery \<Rightarrow> 'j round \<Rightarrow> 'j round" where
  "handle_punch d r =
     (case side_of (d_conn d) (sv r) of
        None \<Rightarrow> r
      | Some side \<Rightarrow>
         (let pr = duo_set (punchReady (sv r)) side True;
              r' = r\<lparr>sv := (sv r)\<lparr>punchReady := pr\<rparr>\<rparr>
          in if duo_get pr 0 \<and> duo_get pr 1
             then (BroadcastMessage PunchGoMsg r')
                    \<lparr>sv := (sv r')\<lparr>punchReady := (False, False)\<rparr>\<rparr>
             else r'))"

definition handle_frame :: "'j codec \<Rightarrow> 'j delivery \<Rightarrow> 'j \<Rightarrow> 'j round \<Rightarrow> 'j round" where
  "handle_frame C d j r =
     (case get_frame C j of
        None \<Rightarrow> r
      | Some f \<Rightarrow>
         if cid_host (gf_src f) = identity (sv r) \<and> cid_user (gf_src f) \<noteq> to_string (d_conn d)
         then r
         else (case find (\<lambda>m. ConnectionID_eq (connId (mdata m)) (gf_dest f)) (clients (sv r)) of
             Some m \<Rightarrow> Respond (mconn m) (Relayed j) r
           | None \<Rightarrow> r))"

definition handle_known ::
  "'j codec \<Rightarrow> 'j delivery \<Rightarrow> 'j \<Rightarrow> message_type \<Rightarrow> connection_id \<Rightarrow> 'j round \<Rightarrow> 'j round option" where
  "handle_known C d j ty cid r =
     (case ty of
        MT_FORWARD \<Rightarrow> Some (handle_forward C d j r)
      | MT_SESSION_JOINREQ \<Rightarrow> Some (handle_joinreq C d j cid r)
      | MT_PREBATTLE_SETCHARA \<Rightarrow> Some (handle_setchara C d j r)
      | MT_PREBATTLE_SETENV \<Rightarrow> Some (handle_setenv C d j r)
      | MT_PREBATTLE_SETSTAGE \<Rightarrow> Some (handle_setstage C d j r)
      | MT_LOBBY_SETSETTINGS \<Rightarrow> Some (handle_setsettings C d j r)
      | MT_BATTLE_LOADED \<Rightarrow> Some (handle_loaded d r)
      | MT_LOBBY_READY \<Rightarrow> Some (handle_ready C d j r)
      | MT_LOBBY_REPORTRESULTS \<Rightarrow> handle_results C j r
      | MT_LOBBY_RESET \<Rightarrow> Some (handle_reset d r)
      | MT_BATTLE_SNAPSHOT \<Rightarrow> Some (handle_verification d j r)
      | MT_BATTLE_HASH \<Rightarrow> Some (handle_verification d j r)
      | MT_PUNCH_READY \<Rightarrow> Some (handle_punch d r)
      | MT_BATTLE_GGPO_FRAME \<Rightarrow> Some (handle_frame C d j r)
      | _ \<Rightarrow> Some r)"

definition handle_delivery :: "'j codec \<Rightarrow> 'j delivery \<Rightarrow> 'j round \<Rightarrow> 'j round option" where
  "handle_delivery C d r =
     (case d_body d of
        None \<Rightarrow> Some r
      | Some j \<Rightarrow>
         (case get_type C j of
            None \<Rightarrow> Some r
          | Some ty \<Rightarrow>
             (case cidMap (sv r) (d_conn d) of
                None \<Rightarrow> Some (if ty = MT_SESSION_HELLO then handle_hello d r else r)
              | Some cid \<Rightarrow> handle_known C d j ty cid r)))"

section \<open>Step, the connection callback and Close\<close>

fun server_loop :: "'j codec \<Rightarrow> 'j delivery option list \<Rightarrow> 'j round \<Rightarrow> ('j round \<times> bool) option" where
  "server_loop C [] r = Some (r, True)"
| "server_loop C (None # ds) r = Some (r, False)"
| "server_loop C (Some d # ds) r =
     (case handle_delivery C d r of None \<Rightarrow> None | Some r' \<Rightarrow> server_loop C ds r')"

definition data_update :: "server \<Rightarrow> 'j reply" where
  "data_update st =
     DataUpdate ((lobbyData st)\<lparr>members := map mdata (clients st)\<rparr>) (matchData st)"

definition flush_round :: "'j round \<Rightarrow> 'j round" where
  "flush_round r =
     (let r1 = (if dataDirty (sv r)
                then (let b = BroadcastMessage (data_update (sv r)) r
                      in b\<lparr>sv := (sv b)\<lparr>dataDirty := False\<rparr>\<rparr>)
                else r);
          r2 = (if bSendLobbyAllReady r1 then BroadcastMessage AllReady r1 else r1)
      in if bSendBattleSynced r2 then BroadcastMessage BattleSyncedMsg r2 else r2)"

definition server_step ::
  "'j codec \<Rightarrow> 'j delivery option list option \<Rightarrow> server \<Rightarrow> (server \<times> (conn \<times> 'j reply) list \<times> int) option" where
  "server_step C poll st =
     (case poll of
        None \<Rightarrow> Some (st, [], -1)
      | Some ds \<Rightarrow>
         (case server_loop C ds
             \<lparr>sv = st, sent = [], bSendLobbyAllReady = False, bSendBattleSynced = False\<rparr> of
            None \<Rightarrow> None
          | Some (r, completed) \<Rightarrow>
              if \<not> completed then Some (sv r, sent r, -1)
              else (let r' = flush_round r in Some (sv r', sent r', 0))))"

datatype conn_state = CS_None | CS_Connecting | CS_FindingRoute | CS_Connected | CS_ClosedByPeer
  | CS_ProblemDetectedLocally

datatype net_action = AcceptConn conn | JoinPollGroup conn | LeavePollGroup conn | CloseConn conn

definition drop_client :: "conn \<Rightarrow> server \<Rightarrow> server" where
  "drop_client c st =
     (case find_index (\<lambda>m. mconn m = c) (clients st) of
        None \<Rightarrow> st
      | Some i \<Rightarrow> st\<lparr>clients := erase_at (clients st) i, dataDirty := True\<rparr>)"

text \<open>\<open>accepted\<close> is whether AcceptConnection returned k_EResultOK.\<close>

definition server_conn_changed ::
  "bool \<Rightarrow> conn_state \<Rightarrow> conn_state \<Rightarrow> conn \<Rightarrow> server \<Rightarrow> server \<times> net_action list" where
  "server_conn_changed accepted new old c st =
     (if new = CS_ClosedByPeer \<or> new = CS_ProblemDetectedLocally then
        (if old = CS_Connected then (drop_client c st, [LeavePollGroup c, CloseConn c])
         else (st, []))
      else if new = CS_Connecting then
        (if \<not> accepted then (st, [AcceptConn c, CloseConn c])
         else (st, [AcceptConn c, JoinPollGroup c]))
      else (st, []))"

definition server_close :: "server \<Rightarrow> (server \<times> net_action list) \<times> int" where
  "server_close st =
     ((st\<lparr>clients := [], pollGroup := False, listening := False\<rparr>,
       concat (map (\<lambda>m. [LeavePollGroup (mconn m), CloseConn (mconn m)]) (clients st))), 0)"

section \<open>Facts on the pieces\<close>

lemma side_of_Some:
  "side_of c st = Some i \<Longrightarrow> i < 2 \<and> i < length (clients st) \<and> mconn (clients st ! i) = c"
  using find_index_take [of "\<lambda>m. mconn m = c" 2 "clients st" i] by (simp add: side_of_def)

lemma ready_lobby_frame [frame_simps]:
  "identity (ResetLobbyForRematch st) = identity st"
  "sidecarHash (ResetLobbyForRematch st) = sidecarHash st"
  "cidMap (ResetLobbyForRematch st) = cidMap st"
  "lobbyData (ResetLobbyForRematch st) = lobbyData st"
  "length (clients (ResetLobbyForRematch st)) = length (clients st)"
  "map mconn (clients (ResetLobbyForRematch st)) = map mconn (clients st)"
  by (simp_all add: ResetLobbyForRematch_def ResetBattleSync_def comp_def)

lemma loaded_loop_fst: "fst (loaded_loop c ms b) = map (mark_loaded c) ms"
  by (induction ms arbitrary: b) (auto simp: Let_def case_prod_unfold)

lemma loaded_loop_snd: "snd (loaded_loop c ms b) \<longleftrightarrow> b \<and> (\<forall>m\<in>set ms. is_loaded (mark_loaded c m))"
  by (induction ms arbitrary: b) (auto simp: Let_def case_prod_unfold)

lemma mark_loaded_frame [frame_simps]:
  "mconn (mark_loaded c m) = mconn m"
  "connId (mdata (mark_loaded c m)) = connId (mdata m)"
  "m_name (mdata (mark_loaded c m)) = m_name (mdata m)"
  "m_ip (mdata (mark_loaded c m)) = m_ip (mdata m)"
  "m_port (mdata (mark_loaded c m)) = m_port (mdata m)"
  by (simp_all add: mark_loaded_def)

lemma or_one_loaded [simp]: "and (or w 1) 1 = (1 :: 'a::len word)"
  by (rule bit_word_eqI) (auto simp: bit_simps)

lemma is_loaded_mark: "is_loaded (mark_loaded c m) \<longleftrightarrow> mconn m = c \<or> is_loaded m"
  by (simp add: is_loaded_def mark_loaded_def MF_BATTLE_LOADED_def)

lemma is_loaded_reset:
  "m \<in> set (clients (ResetBattleSync st)) \<Longrightarrow> \<not> is_loaded m"
  by (auto simp: ResetBattleSync_def is_loaded_def MF_BATTLE_LOADED_def and.assoc)

section \<open>The invariant\<close>

definition own_cid :: "server \<Rightarrow> conn \<Rightarrow> connection_id" where
  "own_cid st c = \<lparr>cid_host = identity st, cid_user = to_string c\<rparr>"

lemma own_cid_inj [simp]: "own_cid st c = own_cid st c' \<longleftrightarrow> c = c'"
  by (simp add: own_cid_def)

lemma own_cid_cong: "identity st = identity st' \<Longrightarrow> own_cid st = own_cid st'"
  by (rule ext) (simp add: own_cid_def)

definition member_ok :: "server \<Rightarrow> session_member \<Rightarrow> bool" where
  "member_ok st m \<longleftrightarrow> connId (mdata m) = own_cid st (mconn m) \<and>
     cidMap st (mconn m) = Some (own_cid st (mconn m))"

definition server_ok :: "server \<Rightarrow> bool" where
  "server_ok st \<longleftrightarrow>
     length (clients st) \<le> MAX_SF4E_PROTOCOL_USERS \<and>
     distinct (map (m_name \<circ> mdata) (clients st)) \<and>
     (\<forall>m\<in>set (clients st). member_ok st m) \<and>
     (\<forall>c cid. cidMap st c = Some cid \<longrightarrow> cid = own_cid st c) \<and>
     \<not> (fst (punchReady st) \<and> snd (punchReady st))"

lemma server_okI:
  assumes "length (clients st) \<le> MAX_SF4E_PROTOCOL_USERS"
    and "distinct (map (m_name \<circ> mdata) (clients st))"
    and "\<And>m. m \<in> set (clients st) \<Longrightarrow> member_ok st m"
    and "\<And>c cid. cidMap st c = Some cid \<Longrightarrow> cid = own_cid st c"
    and "\<not> (fst (punchReady st) \<and> snd (punchReady st))"
  shows "server_ok st"
  using assms by (auto simp: server_ok_def)

text \<open>The invariant reads only the identity, the map, the punch flags and, of the
  clients, their number, connections, identifiers and names.\<close>

definition roster :: "server \<Rightarrow> (conn \<times> connection_id \<times> string) list" where
  "roster st = map (\<lambda>m. (mconn m, connId (mdata m), m_name (mdata m))) (clients st)"

lemma server_ok_roster:
  "server_ok st \<longleftrightarrow>
     length (roster st) \<le> MAX_SF4E_PROTOCOL_USERS \<and> distinct (map (snd \<circ> snd) (roster st)) \<and>
     (\<forall>(c, cid, _)\<in>set (roster st). cid = own_cid st c \<and> cidMap st c = Some (own_cid st c)) \<and>
     (\<forall>c cid. cidMap st c = Some cid \<longrightarrow> cid = own_cid st c) \<and>
     \<not> (fst (punchReady st) \<and> snd (punchReady st))"
  by (simp add: server_ok_def roster_def comp_def member_ok_def)

lemma server_ok_same:
  assumes "server_ok st" "roster st' = roster st" "identity st' = identity st"
    "cidMap st' = cidMap st" "\<not> (fst (punchReady st') \<and> snd (punchReady st'))"
  shows "server_ok st'"
  using assms unfolding server_ok_roster own_cid_def by simp

lemma server_ok_init [inv_intros]: "server_ok (server_init i h e n t)"
  by (simp add: server_ok_def server_init_def)

lemma server_ok_dest:
  assumes "server_ok st"
  shows server_ok_punch: "\<not> (fst (punchReady st) \<and> snd (punchReady st))"
    and server_ok_length: "length (clients st) \<le> MAX_SF4E_PROTOCOL_USERS"
    and server_ok_names: "distinct (map (m_name \<circ> mdata) (clients st))"
    and server_ok_member: "m \<in> set (clients st) \<Longrightarrow> member_ok st m"
    and server_ok_cid: "cidMap st c = Some cid \<Longrightarrow> cid = own_cid st c"
  using assms unfolding server_ok_def by blast+

lemma member_ok_cong:
  "identity st' = identity st \<Longrightarrow> cidMap st' = cidMap st \<Longrightarrow> member_ok st' m = member_ok st m"
  by (simp add: member_ok_def own_cid_def)

text \<open>Removing or reordering clients keeps the invariant.\<close>

lemma server_ok_clients:
  assumes ok: "server_ok st"
    and same: "identity st' = identity st" "cidMap st' = cidMap st" "punchReady st' = punchReady st"
    and cs: "length (clients st') \<le> MAX_SF4E_PROTOCOL_USERS"
      "distinct (map (m_name \<circ> mdata) (clients st'))"
      "\<And>m. m \<in> set (clients st') \<Longrightarrow> member_ok st m"
  shows "server_ok st'"
proof (rule server_okI)
  show "member_ok st' m" if "m \<in> set (clients st')" for m
    using cs(3) [OF that] member_ok_cong [OF same(1,2)] by blast
  show "cid = own_cid st' c" if "cidMap st' c = Some cid" for c cid
    using server_ok_cid [OF ok] that unfolding same own_cid_def by blast
  show "\<not> (fst (punchReady st') \<and> snd (punchReady st'))"
    using server_ok_punch [OF ok] unfolding same by blast
qed (use cs(1,2) in blast)+

lemma roster_map: "(\<And>m. mconn (f m) = mconn m \<and> connId (mdata (f m)) = connId (mdata m) \<and>
    m_name (mdata (f m)) = m_name (mdata m)) \<Longrightarrow>
  roster (st\<lparr>clients := map f (clients st)\<rparr>) = roster st"
  by (simp add: roster_def)

lemma roster_upd [frame_simps]:
  "roster (st\<lparr>dataDirty := d\<rparr>) = roster st" "roster (st\<lparr>lobbyData := l\<rparr>) = roster st"
  "roster (st\<lparr>matchData := md\<rparr>) = roster st" "roster (st\<lparr>punchReady := p\<rparr>) = roster st"
  "roster (st\<lparr>cidMap := cm\<rparr>) = roster st"
  by (simp_all add: roster_def)

lemma server_ok_hello:
  assumes "server_ok st" shows "server_ok (st\<lparr>cidMap := (cidMap st)(c := Some (own_cid st c))\<rparr>)"
proof (rule server_okI)
  show "member_ok (st\<lparr>cidMap := (cidMap st)(c := Some (own_cid st c))\<rparr>) m"
    if "m \<in> set (clients (st\<lparr>cidMap := (cidMap st)(c := Some (own_cid st c))\<rparr>))" for m
    using server_ok_member [OF assms, of m] that by (simp add: member_ok_def own_cid_def)
  show "cid = own_cid (st\<lparr>cidMap := (cidMap st)(c := Some (own_cid st c))\<rparr>) c'"
    if "cidMap (st\<lparr>cidMap := (cidMap st)(c := Some (own_cid st c))\<rparr>) c' = Some cid" for c' cid
    using server_ok_cid [OF assms, of c' cid] that by (simp add: own_cid_def split: if_splits)
qed (use server_ok_dest [OF assms] in auto)

lemma server_ok_rematch [inv_intros]: "server_ok st \<Longrightarrow> server_ok (ResetLobbyForRematch st)"
  by (erule server_ok_same)
    (simp_all add: ResetLobbyForRematch_def ResetBattleSync_def roster_def comp_def)

lemma server_ok_battle_sync [inv_intros]: "server_ok st \<Longrightarrow> server_ok (ResetBattleSync st)"
  by (rule server_ok_same, assumption)
    (simp_all add: ResetBattleSync_def roster_def comp_def server_ok_punch [simplified])

lemma server_ok_register:
  assumes "server_ok st" "cidMap st c = Some cid"
    "RegisterToWait c port hash name loc txt cid st = (res, st')"
  shows "server_ok st'"
proof (cases "res = JOIN_OK")
  case False
  then show ?thesis using assms by (auto simp: RegisterToWait_def split: if_splits)
next
  case True
  have cid: "cid = own_cid st c" by (rule server_ok_cid [OF assms(1,2)])
  let ?m = "new_member c port name loc txt cid"
  from True assms(3) have st': "st' = st\<lparr>clients := clients st @ [?m]\<rparr>"
    and free: "length (clients st) < MAX_SF4E_PROTOCOL_USERS"
      "\<not> (\<exists>m\<in>set (clients st). m_name (mdata m) = name)"
    by (auto simp: RegisterToWait_def split: if_splits)
  have m: "m_name (mdata ?m) = name" "connId (mdata ?m) = cid" "mconn ?m = c"
    by (simp_all add: new_member_def)
  show ?thesis
  proof (rule server_ok_clients [OF assms(1)])
    show "member_ok st m'" if "m' \<in> set (clients st')" for m'
      using that server_ok_member [OF assms(1), of m'] m cid assms(2)
      by (auto simp: member_ok_def st')
  qed (use free m server_ok_names [OF assms(1)] in \<open>auto simp: st'\<close>)
qed

lemma server_ok_results:
  assumes "server_ok st" "HandleResults i st = Some st'"
  shows "server_ok st'"
proof -
  let ?k = "nat i"
  let ?cs = "erase_at (clients st) ?k @ [clients st ! ?k]"
  have k: "?k < length (clients st)" and st': "st' = st\<lparr>clients := ?cs, matchData := MatchData_init\<rparr>"
    using assms(2) by (auto simp: HandleResults_def erase_at_append split: if_splits)
  have fresh: "m_name (mdata (clients st ! ?k)) \<notin> set (erase_at (map (m_name \<circ> mdata) (clients st)) ?k)"
    using k server_ok_names [OF assms(1)] erase_at_nth_notin [of "map (m_name \<circ> mdata) (clients st)" ?k]
    by simp
  show ?thesis
  proof (rule server_ok_clients [OF assms(1)])
    show "length (clients st') \<le> MAX_SF4E_PROTOCOL_USERS"
      using k server_ok_length [OF assms(1)] by (simp add: st')
    show "distinct (map (m_name \<circ> mdata) (clients st'))"
      using server_ok_names [OF assms(1)] fresh by (simp add: st' map_erase_at distinct_erase_at)
    show "member_ok st m" if "m \<in> set (clients st')" for m
      using that k set_erase_at [of "clients st" ?k] server_ok_member [OF assms(1), of m]
      by (auto simp: st')
  qed (simp_all add: st')
qed

lemma server_ok_drop [inv_intros]:
  assumes "server_ok st" shows "server_ok (drop_client c st)"
proof (cases "find_index (\<lambda>m. mconn m = c) (clients st)")
  case None
  then show ?thesis using assms by (simp add: drop_client_def)
next
  case (Some i)
  then have st': "drop_client c st = st\<lparr>clients := erase_at (clients st) i, dataDirty := True\<rparr>"
    by (simp add: drop_client_def)
  show ?thesis
  proof (rule server_ok_clients [OF assms])
    show "member_ok st m" if "m \<in> set (clients (drop_client c st))" for m
      using that set_erase_at [of "clients st" i] server_ok_member [OF assms, of m]
      by (auto simp: st')
  qed (use server_ok_length [OF assms] server_ok_names [OF assms]
      in \<open>auto simp: st' map_erase_at distinct_erase_at\<close>)
qed

lemma server_ok_upd [simp]:
  "server_ok (st\<lparr>dataDirty := d\<rparr>) = server_ok st"
  "server_ok (st\<lparr>lobbyData := l\<rparr>) = server_ok st"
  "server_ok (st\<lparr>matchData := md\<rparr>) = server_ok st"
  "server_ok (st\<lparr>matchData := md, dataDirty := d\<rparr>) = server_ok st"
  "server_ok (st\<lparr>lobbyData := l, dataDirty := d\<rparr>) = server_ok st"
  "server_ok (st\<lparr>listening := b\<rparr>) = server_ok st"
  by (simp_all add: server_ok_def member_ok_def own_cid_def)

lemma server_ok_punch_upd:
  "server_ok st \<Longrightarrow> \<not> (fst p \<and> snd p) \<Longrightarrow> server_ok (st\<lparr>punchReady := p\<rparr>)"
  by (erule server_ok_same) (simp_all add: roster_def)

section \<open>Every message keeps the invariant\<close>

lemma sv_send [simp]: "sv (Respond c m r) = sv r" "sv (BroadcastMessage m r) = sv r"
  by (simp_all add: Respond_def BroadcastMessage_def)

lemma flags_send [simp]:
  "bSendLobbyAllReady (Respond c m r) = bSendLobbyAllReady r"
  "bSendLobbyAllReady (BroadcastMessage m r) = bSendLobbyAllReady r"
  "bSendBattleSynced (Respond c m r) = bSendBattleSynced r"
  "bSendBattleSynced (BroadcastMessage m r) = bSendBattleSynced r"
  by (simp_all add: Respond_def BroadcastMessage_def)

lemma ok_hello [inv_intros]: "server_ok (sv r) \<Longrightarrow> server_ok (sv (handle_hello d r))"
  using server_ok_hello [of "sv r" "d_conn d"] by (simp add: handle_hello_def own_cid_def Let_def)

lemma ok_relay [simp]:
  "sv (handle_forward C d j r) = sv r" "sv (handle_frame C d j r) = sv r"
  "sv (handle_verification d j r) = sv r"
  by (simp_all add: handle_forward_def handle_frame_def handle_verification_def split: option.splits)

lemma ok_joinreq [inv_intros]:
  assumes "server_ok (sv r)" "cidMap (sv r) (d_conn d) = Some cid"
  shows "server_ok (sv (handle_joinreq C d j cid r))"
  using assms(1) server_ok_register [OF assms]
  by (auto simp: handle_joinreq_def split: option.splits join_result.splits prod.splits)

lemma ok_prebattle [inv_intros]:
  assumes "server_ok (sv r)"
  shows "server_ok (sv (handle_setchara C d j r))" "server_ok (sv (handle_setenv C d j r))"
    "server_ok (sv (handle_setstage C d j r))" "server_ok (sv (handle_setsettings C d j r))"
    "server_ok (sv (handle_ready C d j r))" "server_ok (sv (handle_reset d r))"
  using assms
  by (simp_all add: handle_setchara_def handle_setenv_def handle_setstage_def handle_setsettings_def
      handle_ready_def handle_reset_def Let_def server_ok_rematch split: option.splits)

lemma ok_loaded [inv_intros]: "server_ok (sv r) \<Longrightarrow> server_ok (sv (handle_loaded d r))"
  by (rule server_ok_same, assumption)
    (simp_all add: handle_loaded_def roster_def loaded_loop_fst case_prod_unfold Let_def frame_simps
      comp_def server_ok_punch [simplified])

lemma ok_results [inv_intros]:
  "server_ok (sv r) \<Longrightarrow> handle_results C j r = Some r' \<Longrightarrow> server_ok (sv r')"
  by (auto simp: handle_results_def split: option.splits intro: server_ok_results)

lemma ok_punch [inv_intros]: "server_ok (sv r) \<Longrightarrow> server_ok (sv (handle_punch d r))"
  by (auto simp: handle_punch_def Let_def duo_get_def split: option.splits intro: server_ok_punch_upd)

lemma server_ok_known:
  assumes "server_ok (sv r)" "cidMap (sv r) (d_conn d) = Some cid" "handle_known C d j ty cid r = Some r'"
  shows "server_ok (sv r')"
proof -
  note ok = ok_joinreq [OF assms(1,2)] ok_prebattle [OF assms(1)] ok_loaded [OF assms(1)]
    ok_punch [OF assms(1)] assms(1)
  show ?thesis using assms(1) assms(3) [symmetric] ok_results [OF assms(1)]
    by (cases ty) (auto simp: handle_known_def ok)
qed

lemma server_ok_delivery:
  assumes "server_ok (sv r)" "handle_delivery C d r = Some r'" shows "server_ok (sv r')"
  using assms server_ok_known [OF assms(1)]
  by (auto simp: handle_delivery_def intro: ok_hello split: option.splits if_splits)

interpretation srv_inv: invariant_loop "handle_delivery C" "\<lambda>r. server_ok (sv r)" for C
  by unfold_locales (rule server_ok_delivery)

text \<open>The poll loop is a run of \<open>handle_delivery\<close> over the messages before the first
  empty one.\<close>

definition delivered :: "'j delivery option list \<Rightarrow> 'j delivery list" where
  "delivered ds = map the (takeWhile (\<lambda>d. d \<noteq> None) ds)"

lemma server_loop_run:
  "server_loop C ds r = map_option (\<lambda>r'. (r', None \<notin> set ds)) (run_opt (handle_delivery C) (delivered ds) r)"
  by (induction C ds r rule: server_loop.induct) (auto simp: delivered_def split: option.splits)

lemma flush_frame [frame_simps]:
  "sv (flush_round r) = (sv r)\<lparr>dataDirty := False\<rparr>"
  by (cases "dataDirty (sv r)") (simp_all add: flush_round_def Let_def)

definition round0 :: "server \<Rightarrow> 'j round" where
  "round0 st = \<lparr>sv = st, sent = [], bSendLobbyAllReady = False, bSendBattleSynced = False\<rparr>"

lemma server_step_cases:
  assumes "server_step C poll st = Some (st', outs, rc)"
  obtains (failed) "poll = None" "st' = st" "outs = []" "rc = -1"
  | (cut) ds r where "poll = Some ds" "None \<in> set ds" "run_opt (handle_delivery C) (delivered ds) (round0 st) = Some r"
      "st' = sv r" "outs = sent r" "rc = -1"
  | (complete) ds r where "poll = Some ds" "None \<notin> set ds" "run_opt (handle_delivery C) (delivered ds) (round0 st) = Some r"
      "st' = (sv r)\<lparr>dataDirty := False\<rparr>" "outs = sent (flush_round r)" "rc = 0"
proof (cases poll)
  case None
  then show ?thesis using assms failed by (simp add: server_step_def)
next
  case (Some ds)
  then show ?thesis
    using assms cut [of ds] complete [of ds]
    by (cases "None \<in> set ds")
      (auto simp: server_step_def server_loop_run round0_def [symmetric] Let_def frame_simps
        split: option.splits)
qed

lemma server_ok_step:
  assumes "server_ok st" "server_step C poll st = Some (st', outs, rc)" shows "server_ok st'"
  using assms(2)
proof (cases rule: server_step_cases)
  case failed
  then show ?thesis using assms(1) by simp
next
  case (cut ds r)
  then show ?thesis using srv_inv.run_inv [OF cut(3)] assms(1) by (simp add: round0_def)
next
  case (complete ds r)
  then show ?thesis using srv_inv.run_inv [OF complete(3)] assms(1) by (simp add: round0_def)
qed

section \<open>Reachable servers\<close>

text \<open>Everything the hosting process does to a server: construct it, listen, poll,
  deliver a connection callback, reset the lobby or its battle flags, close.\<close>

inductive server_reach :: "'j codec \<Rightarrow> server \<Rightarrow> bool" for C where
  reach_init: "server_reach C (server_init ident hash edition rounds time)"
| reach_listen: "server_reach C st \<Longrightarrow> server_reach C (fst (server_listen created st))"
| reach_step: "server_reach C st \<Longrightarrow> server_step C poll st = Some (st', outs, rc) \<Longrightarrow> server_reach C st'"
| reach_conn: "server_reach C st \<Longrightarrow> server_reach C (fst (server_conn_changed acc new old c st))"
| reach_rematch: "server_reach C st \<Longrightarrow> server_reach C (ResetLobbyForRematch st)"
| reach_sync: "server_reach C st \<Longrightarrow> server_reach C (ResetBattleSync st)"
| reach_close: "server_reach C st \<Longrightarrow> server_reach C (fst (fst (server_close st)))"

lemma server_ok_conn [inv_intros]:
  "server_ok st \<Longrightarrow> server_ok (fst (server_conn_changed acc new old c st))"
  by (simp add: server_conn_changed_def server_ok_drop)

lemma server_ok_close [inv_intros]: "server_ok st \<Longrightarrow> server_ok (fst (fst (server_close st)))"
  by (rule server_ok_clients, assumption) (simp_all add: server_close_def)

lemma reach_ok: "server_reach C st \<Longrightarrow> server_ok st"
  by (induction rule: server_reach.induct)
    (auto simp: server_listen_def intro: inv_intros server_ok_step)

section \<open>What a step publishes\<close>

definition server_view :: "server \<Rightarrow> lobby_data \<times> match_data \<times> member_data list" where
  "server_view st = (lobbyData st, matchData st, map mdata (clients st))"

lemma data_update_view: "server_view st = server_view st' \<Longrightarrow> data_update st = data_update st'"
  by (simp add: server_view_def data_update_def)

lemma view_hello [frame_simps]:
  "server_view (sv (handle_hello d r)) = server_view (sv r)"
  "dataDirty (sv (handle_hello d r)) = dataDirty (sv r)"
  by (simp_all add: handle_hello_def server_view_def Let_def)

lemma view_punch [frame_simps]:
  "server_view (sv (handle_punch d r)) = server_view (sv r)"
  "dataDirty (sv (handle_punch d r)) = dataDirty (sv r)"
  by (simp_all add: handle_punch_def server_view_def Let_def split: option.splits)

lemma dirty_known:
  assumes "handle_known C d j ty cid r = Some r'"
  shows "server_view (sv r') = server_view (sv r) \<and> dataDirty (sv r') = dataDirty (sv r) \<or> dataDirty (sv r')"
proof (cases ty)
  case MT_SESSION_JOINREQ
  then show ?thesis using assms
    by (auto simp: handle_known_def handle_joinreq_def RegisterToWait_def
        split: option.splits if_splits)
qed (use assms in \<open>auto simp: handle_known_def handle_setchara_def handle_setenv_def
      handle_setstage_def handle_setsettings_def handle_loaded_def handle_ready_def
      handle_results_def handle_reset_def ResetLobbyForRematch_def Let_def case_prod_unfold
      frame_simps split: option.splits if_splits\<close>)

lemma dirty_delivery:
  assumes "handle_delivery C d r = Some r'"
  shows "server_view (sv r') = server_view (sv r) \<and> dataDirty (sv r') = dataDirty (sv r) \<or> dataDirty (sv r')"
  using assms
  by (auto simp: handle_delivery_def frame_simps dest: dirty_known split: option.splits if_splits)

interpretation srv_dirty: dirty_loop "handle_delivery C" "\<lambda>r. server_view (sv r)" "\<lambda>r. dataDirty (sv r)" for C
  by unfold_locales (rule dirty_delivery)

text \<open>No message is answered by a broadcast of Step itself.\<close>

fun step_broadcast :: "'j reply \<Rightarrow> bool" where
  "step_broadcast (DataUpdate l m) = True"
| "step_broadcast AllReady = True"
| "step_broadcast BattleSyncedMsg = True"
| "step_broadcast _ = False"

definition no_broadcast :: "'j round \<Rightarrow> bool" where
  "no_broadcast r \<longleftrightarrow> (\<forall>(c, m)\<in>set (sent r). \<not> step_broadcast m)"

lemma no_broadcast_respond [simp]:
  "no_broadcast (Respond c m r) \<longleftrightarrow> no_broadcast r \<and> \<not> step_broadcast m"
  by (auto simp: no_broadcast_def Respond_def)

lemma no_broadcast_all [simp]:
  "no_broadcast (BroadcastMessage m r) \<longleftrightarrow> no_broadcast r \<and> (clients (sv r) \<noteq> [] \<longrightarrow> \<not> step_broadcast m)"
  by (cases "clients (sv r)") (auto simp: no_broadcast_def BroadcastMessage_def)

lemma no_broadcast_upd [simp]:
  "no_broadcast (r\<lparr>sv := s\<rparr>) = no_broadcast r"
  "no_broadcast (r\<lparr>sv := s, bSendLobbyAllReady := a\<rparr>) = no_broadcast r"
  "no_broadcast (r\<lparr>sv := s, bSendBattleSynced := b\<rparr>) = no_broadcast r"
  by (simp_all add: no_broadcast_def)

lemma no_broadcast_known:
  assumes "no_broadcast r" "handle_known C d j ty cid r = Some r'" shows "no_broadcast r'"
proof (cases ty)
  case MT_SESSION_JOINREQ
  then show ?thesis using assms
    by (auto simp: handle_known_def handle_joinreq_def split: option.splits prod.splits join_result.splits)
next
  case MT_BATTLE_SNAPSHOT
  then show ?thesis using assms by (auto simp: handle_known_def handle_verification_def no_broadcast_def)
next
  case MT_BATTLE_HASH
  then show ?thesis using assms by (auto simp: handle_known_def handle_verification_def no_broadcast_def)
qed (use assms in \<open>auto simp: handle_known_def handle_setchara_def handle_setenv_def
      handle_setstage_def handle_setsettings_def handle_loaded_def handle_ready_def
      handle_results_def handle_reset_def handle_punch_def handle_forward_def handle_frame_def
      Let_def case_prod_unfold split: option.splits if_splits\<close>)

lemma no_broadcast_delivery:
  "no_broadcast r \<Longrightarrow> handle_delivery C d r = Some r' \<Longrightarrow> no_broadcast r'"
  using no_broadcast_known
  by (auto simp: handle_delivery_def handle_hello_def Let_def split: option.splits if_splits)

interpretation srv_quiet: invariant_loop "handle_delivery C" "no_broadcast" for C
  by unfold_locales (rule no_broadcast_delivery)

lemma sent_flush:
  "sent (flush_round r) = sent r
     @ (if dataDirty (sv r) then map (\<lambda>m. (mconn m, data_update (sv r))) (clients (sv r)) else [])
     @ (if bSendLobbyAllReady r then map (\<lambda>m. (mconn m, AllReady)) (clients (sv r)) else [])
     @ (if bSendBattleSynced r then map (\<lambda>m. (mconn m, BattleSyncedMsg)) (clients (sv r)) else [])"
  by (simp add: flush_round_def BroadcastMessage_def Let_def)

section \<open>One message at a time\<close>

lemma delivery_known:
  assumes "d_body d = Some j" "get_type C j = Some ty" "cidMap (sv r) (d_conn d) = Some cid"
  shows "handle_delivery C d r = handle_known C d j ty cid r"
  using assms by (simp add: handle_delivery_def)

lemma find_member:
  "find p xs = Some m \<Longrightarrow> m \<in> set xs \<and> p m"
  by (induction xs) (auto split: if_splits)

lemma member_conn_unique:
  assumes "server_ok st" "m \<in> set (clients st)" "m' \<in> set (clients st)"
    "connId (mdata m) = connId (mdata m')"
  shows "mconn m = mconn m'"
  using server_ok_member [OF assms(1,2)] server_ok_member [OF assms(1,3)] assms(4)
  by (simp add: member_ok_def)

lemma find_dest:
  assumes "server_ok st" "m \<in> set (clients st)"
  shows "\<exists>m'. find (\<lambda>x. connId (mdata x) = connId (mdata m)) (clients st) = Some m' \<and> mconn m' = mconn m"
proof -
  have "find (\<lambda>x. connId (mdata x) = connId (mdata m)) (clients st) \<noteq> None"
    using assms(2) by (auto simp: find_None_iff)
  then obtain m' where m': "find (\<lambda>x. connId (mdata x) = connId (mdata m)) (clients st) = Some m'"
    by auto
  then show ?thesis using member_conn_unique [OF assms(1) _ assms(2)] find_member [OF m'] by auto
qed

text \<open>What each kind of message may change of the match and lobby data.\<close>

lemma relay_data [frame_simps]:
  "lobbyData (sv (handle_joinreq C d j cid r)) = lobbyData (sv r)"
  "matchData (sv (handle_joinreq C d j cid r)) = matchData (sv r)"
  "lobbyData (sv (handle_loaded d r)) = lobbyData (sv r)"
  "matchData (sv (handle_loaded d r)) = matchData (sv r)"
  "lobbyData (sv (handle_punch d r)) = lobbyData (sv r)"
  "matchData (sv (handle_punch d r)) = matchData (sv r)"
  by (simp_all add: handle_joinreq_def RegisterToWait_def handle_loaded_def handle_punch_def Let_def
      case_prod_unfold split: option.splits)

lemma match_only [frame_simps]:
  "lobbyData (sv (handle_setchara C d j r)) = lobbyData (sv r)"
  "lobbyData (sv (handle_setenv C d j r)) = lobbyData (sv r)"
  "lobbyData (sv (handle_setstage C d j r)) = lobbyData (sv r)"
  "lobbyData (sv (handle_ready C d j r)) = lobbyData (sv r)"
  "lobbyData (sv (handle_reset d r)) = lobbyData (sv r)"
  "matchData (sv (handle_setsettings C d j r)) = matchData (sv r)"
  "handle_results C j r = Some r' \<Longrightarrow> lobbyData (sv r') = lobbyData (sv r)"
  by (auto simp: handle_setchara_def handle_setenv_def handle_setstage_def handle_ready_def
      handle_setsettings_def handle_reset_def ResetLobbyForRematch_def ResetBattleSync_def
      handle_results_def HandleResults_def Let_def split: option.splits if_splits)

lemma ready_reset_fields [frame_simps]:
  "rngSeed (matchData (sv (handle_ready C d j r))) = rngSeed (matchData (sv r))"
  "stageID (matchData (sv (handle_ready C d j r))) = stageID (matchData (sv r))"
  "m_chara (matchData (sv (handle_ready C d j r))) = m_chara (matchData (sv r))"
  "rngSeed (matchData (sv (handle_reset d r))) = rngSeed (matchData (sv r))"
  "stageID (matchData (sv (handle_reset d r))) = stageID (matchData (sv r))"
  "m_chara (matchData (sv (handle_reset d r))) = m_chara (matchData (sv r))"
  by (simp_all add: handle_ready_def handle_reset_def ResetLobbyForRematch_def ResetBattleSync_def
      MatchData_ClearReady_def Let_def split: option.splits)

lemma set_fields [frame_simps]:
  "stageID (matchData (sv (handle_setenv C d j r))) = stageID (matchData (sv r))"
  "m_chara (matchData (sv (handle_setenv C d j r))) = m_chara (matchData (sv r))"
  "rngSeed (matchData (sv (handle_setstage C d j r))) = rngSeed (matchData (sv r))"
  "m_chara (matchData (sv (handle_setstage C d j r))) = m_chara (matchData (sv r))"
  "rngSeed (matchData (sv (handle_setchara C d j r))) = rngSeed (matchData (sv r))"
  "stageID (matchData (sv (handle_setchara C d j r))) = stageID (matchData (sv r))"
  by (simp_all add: handle_setenv_def handle_setstage_def handle_setchara_def split: option.splits)

lemma host_only:
  "side_of (d_conn d) (sv r) \<noteq> Some 0 \<Longrightarrow> handle_setenv C d j r = r"
  "side_of (d_conn d) (sv r) \<noteq> Some 0 \<Longrightarrow> handle_setstage C d j r = r"
  "side_of (d_conn d) (sv r) \<noteq> Some 0 \<Longrightarrow> handle_setsettings C d j r = r"
  by (simp_all add: handle_setenv_def handle_setstage_def handle_setsettings_def)

lemma own_chara_only:
  "i < 2 \<Longrightarrow> side_of (d_conn d) (sv r) \<noteq> Some i \<Longrightarrow>
   duo_get (m_chara (matchData (sv (handle_setchara C d j r)))) i = duo_get (m_chara (matchData (sv r))) i"
  by (auto simp: handle_setchara_def split: option.splits
      dest: side_of_Some intro!: duo_get_set_other)

lemma lobby_change:
  assumes "handle_known C d j ty cid r = Some r'" "lobbyData (sv r') \<noteq> lobbyData (sv r)"
  shows "ty = MT_LOBBY_SETSETTINGS \<and> side_of (d_conn d) (sv r) = Some 0"
proof (rule ccontr)
  assume "\<not> ?thesis"
  then show False using assms by (cases ty) (auto simp: handle_known_def frame_simps host_only(3))
qed

lemma seed_change:
  assumes "handle_known C d j ty cid r = Some r'" "rngSeed (matchData (sv r')) \<noteq> rngSeed (matchData (sv r))"
  shows "ty = MT_LOBBY_REPORTRESULTS \<or> ty = MT_PREBATTLE_SETENV \<and> side_of (d_conn d) (sv r) = Some 0"
proof (rule ccontr)
  assume "\<not> ?thesis"
  then show False using assms by (cases ty) (auto simp: handle_known_def frame_simps host_only(1))
qed

lemma stage_change:
  assumes "handle_known C d j ty cid r = Some r'" "stageID (matchData (sv r')) \<noteq> stageID (matchData (sv r))"
  shows "ty = MT_LOBBY_REPORTRESULTS \<or> ty = MT_PREBATTLE_SETSTAGE \<and> side_of (d_conn d) (sv r) = Some 0"
proof (rule ccontr)
  assume "\<not> ?thesis"
  then show False using assms by (cases ty) (auto simp: handle_known_def frame_simps host_only(2))
qed

lemma chara_change:
  assumes "handle_known C d j ty cid r = Some r'" "i < 2"
    "duo_get (m_chara (matchData (sv r'))) i \<noteq> duo_get (m_chara (matchData (sv r))) i"
  shows "ty = MT_LOBBY_REPORTRESULTS \<or> ty = MT_PREBATTLE_SETCHARA \<and> side_of (d_conn d) (sv r) = Some i"
  using assms own_chara_only [of i d r C j] by (cases ty) (auto simp: handle_known_def frame_simps)

lemma synced_known:
  assumes "handle_known C d j ty cid r = Some r'" "ty \<noteq> MT_BATTLE_LOADED"
  shows "bSendBattleSynced r' = bSendBattleSynced r"
  using assms
  by (cases ty) (auto simp: handle_known_def handle_forward_def handle_joinreq_def handle_setchara_def
      handle_setenv_def handle_setstage_def handle_setsettings_def handle_ready_def handle_results_def
      handle_reset_def handle_verification_def handle_punch_def handle_frame_def Let_def
      split: option.splits if_splits prod.splits join_result.splits)

lemma all_ready_known:
  assumes "handle_known C d j ty cid r = Some r'"
  shows "bSendLobbyAllReady r' \<longleftrightarrow> bSendLobbyAllReady r \<or>
    (ty = MT_LOBBY_READY \<and> side_of (d_conn d) (sv r) \<noteq> None \<and> get_lobbyready C j \<noteq> None \<and>
     MatchData_IsAllReady (matchData (sv r')))"
  using assms
  by (cases ty) (auto simp: handle_known_def handle_forward_def handle_joinreq_def handle_setchara_def
      handle_setenv_def handle_setstage_def handle_setsettings_def handle_ready_def handle_results_def
      handle_loaded_def handle_reset_def handle_verification_def handle_punch_def handle_frame_def Let_def
      case_prod_unfold split: option.splits if_splits prod.splits join_result.splits)

text \<open>A ready message of a player that leaves both sides ready.\<close>

definition completes_ready :: "'j codec \<Rightarrow> 'j delivery \<Rightarrow> 'j round \<Rightarrow> 'j round \<Rightarrow> bool" where
  "completes_ready C d r r' \<longleftrightarrow>
     (\<exists>j. d_body d = Some j \<and> get_type C j = Some MT_LOBBY_READY) \<and>
     side_of (d_conn d) (sv r) \<noteq> None \<and> MatchData_IsAllReady (matchData (sv r'))"

lemma all_ready_delivery:
  assumes "handle_delivery C d r = Some r'"
  shows "bSendLobbyAllReady r \<Longrightarrow> bSendLobbyAllReady r'"
    and "bSendLobbyAllReady r' \<Longrightarrow> \<not> bSendLobbyAllReady r \<Longrightarrow> completes_ready C d r r'"
  using assms
  by (auto simp: handle_delivery_def handle_hello_def Let_def completes_ready_def
      dest!: all_ready_known split: option.splits if_splits)

lemma all_ready_run:
  assumes "run_opt (handle_delivery C) ds r = Some r'" "bSendLobbyAllReady r'" "\<not> bSendLobbyAllReady r"
  shows "\<exists>ds1 d ds2 r1 r2. ds = ds1 @ d # ds2 \<and> run_opt (handle_delivery C) ds1 r = Some r1 \<and>
    handle_delivery C d r1 = Some r2 \<and> completes_ready C d r1 r2"
  using assms
proof (induction ds arbitrary: r)
  case Nil
  then show ?case by simp
next
  case (Cons d ds)
  then obtain t where t: "handle_delivery C d r = Some t" "run_opt (handle_delivery C) ds t = Some r'"
    by (auto split: option.splits)
  show ?case
  proof (cases "bSendLobbyAllReady t")
    case True
    then have "completes_ready C d r t" using all_ready_delivery(2) [OF t(1)] Cons.prems(3) by blast
    then show ?thesis using t(1)
      by (intro exI [of _ "[]"] exI [of _ d] exI [of _ ds] exI [of _ r] exI [of _ t]) simp
  next
    case False
    from Cons.IH [OF t(2) Cons.prems(2) False] obtain ds1 e ds2 r1 r2 where
      e: "ds = ds1 @ e # ds2" "run_opt (handle_delivery C) ds1 t = Some r1"
        "handle_delivery C e r1 = Some r2" "completes_ready C e r1 r2"
      by blast
    then show ?thesis using t(1)
      by (intro exI [of _ "d # ds1"] exI [of _ e] exI [of _ ds2] exI [of _ r1] exI [of _ r2]) simp
  qed
qed

end
