(* ===== verification/Wire.thy ===== *)
theory Wire
  imports Protocol "HOL-Library.Monad_Syntax"
begin

text \<open>
  The JSON form of the protocol (the NLOHMANN_JSON_SERIALIZE_ENUM and
  NLOHMANN_DEFINE_TYPE tables of session/sf4e__SessionProtocol.hxx,
  Dimps__Math.hxx and Dimps__GameEvents.hxx). The JSON library itself is a
  parameter: \<open>json_ops\<close> are the accessors and constructors the macros expand
  to, the locale \<open>json_lib\<close> states what the library documents of them, and the
  datatype \<open>jval\<close> is a JSON document that satisfies it.
\<close>

section \<open>The JSON library as a parameter\<close>

record 'j json_ops =
  j_is_obj :: "'j \<Rightarrow> bool"
  j_at :: "'j \<Rightarrow> string \<Rightarrow> 'j option"
  j_str :: "'j \<Rightarrow> string option"
  j_int :: "'j \<Rightarrow> int option"
  j_bool :: "'j \<Rightarrow> bool option"
  j_f32 :: "'j \<Rightarrow> 32 word option"
  j_arr :: "'j \<Rightarrow> 'j list option"
  mk_obj :: "(string \<times> 'j) list \<Rightarrow> 'j"
  mk_str :: "string \<Rightarrow> 'j"
  mk_int :: "int \<Rightarrow> 'j"
  mk_bool :: "bool \<Rightarrow> 'j"
  mk_f32 :: "32 word \<Rightarrow> 'j"
  mk_arr :: "'j list \<Rightarrow> 'j"

text \<open>A float is carried by its bit pattern; the library writes a non-finite one as null.\<close>

definition finite_f32 :: "32 word \<Rightarrow> bool" where
  "finite_f32 w \<longleftrightarrow> and (drop_bit 23 w) 0xFF \<noteq> 0xFF"

locale json_lib =
  fixes J :: "'j json_ops"
  assumes obj_is [simp]: "j_is_obj J (mk_obj J kvs)"
    and obj_at [simp]: "j_at J (mk_obj J kvs) k = map_of kvs k"
    and str_str [simp]: "j_str J (mk_str J s) = Some s"
    and int_int [simp]: "j_int J (mk_int J i) = Some i"
    and bool_bool [simp]: "j_bool J (mk_bool J b) = Some b"
    and f32_f32 [simp]: "finite_f32 w \<Longrightarrow> j_f32 J (mk_f32 J w) = Some w"
    and arr_arr [simp]: "j_arr J (mk_arr J xs) = Some xs"

section \<open>A JSON document\<close>

datatype jval = JNull | JBool bool | JInt int | JFloat "32 word" | JStr string | JArr "jval list"
  | JObj "(string \<times> jval) list"

fun jval_at :: "jval \<Rightarrow> string \<Rightarrow> jval option" where
  "jval_at (JObj kvs) k = map_of kvs k"
| "jval_at _ k = None"

definition jval_ops :: "jval json_ops" where
  "jval_ops = \<lparr>j_is_obj = (\<lambda>j. case j of JObj _ \<Rightarrow> True | _ \<Rightarrow> False), j_at = jval_at,
     j_str = (\<lambda>j. case j of JStr s \<Rightarrow> Some s | _ \<Rightarrow> None),
     j_int = (\<lambda>j. case j of JInt i \<Rightarrow> Some i | _ \<Rightarrow> None),
     j_bool = (\<lambda>j. case j of JBool b \<Rightarrow> Some b | _ \<Rightarrow> None),
     j_f32 = (\<lambda>j. case j of JFloat w \<Rightarrow> Some w | _ \<Rightarrow> None),
     j_arr = (\<lambda>j. case j of JArr xs \<Rightarrow> Some xs | _ \<Rightarrow> None),
     mk_obj = JObj, mk_str = JStr, mk_int = JInt, mk_bool = JBool,
     mk_f32 = (\<lambda>w. if finite_f32 w then JFloat w else JNull), mk_arr = JArr\<rparr>"

interpretation jv: json_lib jval_ops
  by unfold_locales (simp_all add: jval_ops_def)

section \<open>Fields, enumerations, arrays\<close>

text \<open>\<open>j.at(k).get_to(x)\<close>, and \<open>j.value(k, d)\<close> of the WITH_DEFAULT tables.\<close>

definition field :: "'j json_ops \<Rightarrow> 'j \<Rightarrow> string \<Rightarrow> ('j \<Rightarrow> 'a option) \<Rightarrow> 'a option" where
  "field J j k get = Option.bind (j_at J j k) get"

definition field_default :: "'j json_ops \<Rightarrow> 'j \<Rightarrow> string \<Rightarrow> ('j \<Rightarrow> 'a option) \<Rightarrow> 'a \<Rightarrow> 'a option" where
  "field_default J j k get d =
     (if \<not> j_is_obj J j then None
      else (case j_at J j k of None \<Rightarrow> Some d | Some v \<Rightarrow> get v))"

definition j_word :: "'j json_ops \<Rightarrow> 'j \<Rightarrow> 'a::len word option" where
  "j_word J j = map_option word_of_int (j_int J j)"

text \<open>Signed fields: \<open>j_sint 31\<close> is an int32_t, \<open>j_sint 63\<close> an int64_t.\<close>

definition j_sint :: "nat \<Rightarrow> 'j json_ops \<Rightarrow> 'j \<Rightarrow> int option" where
  "j_sint n J j = map_option (signed_take_bit n) (j_int J j)"

definition mk_word :: "'j json_ops \<Rightarrow> 'a::len word \<Rightarrow> 'j" where
  "mk_word J w = mk_int J (uint w)"

text \<open>An unknown or non-string value deserialises to the first entry of the table.\<close>

definition enum_to :: "'j json_ops \<Rightarrow> ('e \<times> string) list \<Rightarrow> 'e \<Rightarrow> 'j" where
  "enum_to J tab e = mk_str J (case find (\<lambda>(x, _). x = e) tab of Some (_, s) \<Rightarrow> s | None \<Rightarrow> snd (hd tab))"

definition enum_from :: "'j json_ops \<Rightarrow> ('e \<times> string) list \<Rightarrow> 'j \<Rightarrow> 'e" where
  "enum_from J tab j = (case find (\<lambda>(_, s). j_str J j = Some s) tab of Some (x, _) \<Rightarrow> x | None \<Rightarrow> fst (hd tab))"

fun get_all :: "('j \<Rightarrow> 'a option) \<Rightarrow> 'j list \<Rightarrow> 'a list option" where
  "get_all g [] = Some []"
| "get_all g (x # xs) = do { a \<leftarrow> g x; as \<leftarrow> get_all g xs; Some (a # as) }"

definition j_vector :: "'j json_ops \<Rightarrow> ('j \<Rightarrow> 'a option) \<Rightarrow> 'j \<Rightarrow> 'a list option" where
  "j_vector J g j = do { xs \<leftarrow> j_arr J j; get_all g xs }"

text \<open>A C array of \<open>n\<close> elements takes the first \<open>n\<close> and throws when there are fewer.\<close>

definition j_array :: "'j json_ops \<Rightarrow> nat \<Rightarrow> ('j \<Rightarrow> 'a option) \<Rightarrow> 'j \<Rightarrow> 'a list option" where
  "j_array J n g j = do { xs \<leftarrow> j_arr J j; if length xs < n then None else get_all g (take n xs) }"

definition j_duo :: "'j json_ops \<Rightarrow> ('j \<Rightarrow> 'a option) \<Rightarrow> 'j \<Rightarrow> 'a duo option" where
  "j_duo J g j = map_option (\<lambda>xs. (xs ! 0, xs ! 1)) (j_array J 2 g j)"

definition mk_duo :: "'j json_ops \<Rightarrow> ('a \<Rightarrow> 'j) \<Rightarrow> 'a duo \<Rightarrow> 'j" where
  "mk_duo J f p = mk_arr J [f (fst p), f (snd p)]"

section \<open>The serialisation tables\<close>

definition message_type_table :: "(message_type \<times> string) list" where
  "message_type_table =
    [(MT_SESSION_HELLO, ''hello''), (MT_SESSION_HELLO_RESP, ''hello_resp''),
     (MT_SESSION_DATAUPDATE, ''data_update''), (MT_SESSION_JOINREJ, ''join_rej''),
     (MT_SESSION_JOINREQ, ''join_req''), (MT_LOBBY_READY, ''lobby_ready''),
     (MT_LOBBY_ALLREADY, ''lobby_allready''), (MT_LOBBY_REPORTRESULTS, ''lobby_reportresults''),
     (MT_LOBBY_RESET, ''lobby_reset''), (MT_LOBBY_SETSETTINGS, ''lobby_setsettings''),
     (MT_PREBATTLE_SETENV, ''prebattle_setenv''), (MT_PREBATTLE_SETCHARA, ''prebattle_setchara''),
     (MT_PREBATTLE_SETSTAGE, ''prebattle_setstage''), (MT_BATTLE_LOADED, ''battle_loaded''),
     (MT_BATTLE_SYNCED, ''battle_synced''), (MT_BATTLE_SNAPSHOT, ''battle_snapshot''),
     (MT_BATTLE_HASH, ''battle_hash''), (MT_BATTLE_GGPO_FRAME, ''battle_ggpo_frame''),
     (MT_PUNCH_READY, ''punch_ready''), (MT_PUNCH_GO, ''punch_go''), (MT_FORWARD, ''forward'')]"

definition join_result_table :: "(join_result \<times> string) list" where
  "join_result_table =
    [(JOIN_OK, ''ok''), (JR_REQUEST_INVALID, ''request_invalid''), (JR_LOBBY_FULL, ''lobby_full''),
     (JR_NAME_TAKEN, ''name_taken''), (JR_HASH_INVALID, ''hash_invalid'')]"

lemma message_type_table_ok:
  "distinct (map snd message_type_table)" "distinct (map fst message_type_table)"
  by code_simp+

lemma message_type_table_total: "ty \<in> set (map fst message_type_table)"
  by (cases ty) (simp_all add: message_type_table_def)

section \<open>Structs\<close>

definition to_cid :: "'j json_ops \<Rightarrow> connection_id \<Rightarrow> 'j" where
  "to_cid J c = mk_obj J [(''host'', mk_str J (cid_host c)), (''user'', mk_str J (cid_user c))]"

definition from_cid :: "'j json_ops \<Rightarrow> 'j \<Rightarrow> connection_id option" where
  "from_cid J j = do { h \<leftarrow> field J j ''host'' (j_str J); u \<leftarrow> field J j ''user'' (j_str J);
     Some \<lparr>cid_host = h, cid_user = u\<rparr> }"

definition to_lid :: "'j json_ops \<Rightarrow> lobby_id \<Rightarrow> 'j" where
  "to_lid J l = mk_obj J [(''host'', mk_str J (lid_host l)), (''key'', mk_str J (lid_key l))]"

definition from_lid :: "'j json_ops \<Rightarrow> 'j \<Rightarrow> lobby_id option" where
  "from_lid J j = do { h \<leftarrow> field J j ''host'' (j_str J); k \<leftarrow> field J j ''key'' (j_str J);
     Some \<lparr>lid_host = h, lid_key = k\<rparr> }"

definition to_fixed :: "'j json_ops \<Rightarrow> fixed_point \<Rightarrow> 'j" where
  "to_fixed J f = mk_obj J [(''fractional'', mk_word J (fractional f)),
     (''integral'', mk_int J (sint (integral f)))]"

definition from_fixed :: "'j json_ops \<Rightarrow> 'j \<Rightarrow> fixed_point option" where
  "from_fixed J j = do { f \<leftarrow> field J j ''fractional'' (j_word J);
     i \<leftarrow> field J j ''integral'' (j_word J); Some \<lparr>fractional = f, integral = i\<rparr> }"

definition to_chara :: "'j json_ops \<Rightarrow> chara_conditions \<Rightarrow> 'j" where
  "to_chara J c = mk_obj J [(''charaID'', mk_word J (charaID c)), (''costume'', mk_word J (costume c)),
     (''color'', mk_word J (color c)), (''_unused'', mk_word J (unused_byte c)),
     (''personalAction'', mk_word J (personalAction c)), (''winQuote'', mk_word J (winQuote c)),
     (''ultraCombo'', mk_word J (ultraCombo c)), (''handicap'', mk_word J (handicap c)),
     (''unc_edition'', mk_word J (unc_edition c))]"

definition from_chara :: "'j json_ops \<Rightarrow> 'j \<Rightarrow> chara_conditions option" where
  "from_chara J j = do { a \<leftarrow> field J j ''charaID'' (j_word J); b \<leftarrow> field J j ''costume'' (j_word J);
     c \<leftarrow> field J j ''color'' (j_word J); u \<leftarrow> field J j ''_unused'' (j_word J);
     p \<leftarrow> field J j ''personalAction'' (j_word J); w \<leftarrow> field J j ''winQuote'' (j_word J);
     q \<leftarrow> field J j ''ultraCombo'' (j_word J); h \<leftarrow> field J j ''handicap'' (j_word J);
     e \<leftarrow> field J j ''unc_edition'' (j_word J);
     Some \<lparr>charaID = a, costume = b, color = c, unused_byte = u, personalAction = p, winQuote = w,
       ultraCombo = q, handicap = h, unc_edition = e\<rparr> }"

text \<open>The flags of a member are not part of its table.\<close>

definition to_member :: "'j json_ops \<Rightarrow> member_data \<Rightarrow> 'j" where
  "to_member J m = mk_obj J [(''connId'', to_cid J (connId m)), (''name'', mk_str J (m_name m)),
     (''ip'', mk_str J (m_ip m)), (''port'', mk_word J (m_port m))]"

definition from_member :: "'j json_ops \<Rightarrow> 'j \<Rightarrow> member_data option" where
  "from_member J j = do { c \<leftarrow> field J j ''connId'' (from_cid J); n \<leftarrow> field J j ''name'' (j_str J);
     i \<leftarrow> field J j ''ip'' (j_str J); p \<leftarrow> field J j ''port'' (j_word J);
     Some \<lparr>connId = c, m_name = n, m_ip = i, m_port = p, m_flags = 0\<rparr> }"

definition to_lobby :: "'j json_ops \<Rightarrow> lobby_data \<Rightarrow> 'j" where
  "to_lobby J l = mk_obj J [(''id'', to_lid J (lobby_id l)), (''editionSelect'', mk_bool J (editionSelect l)),
     (''roundCount'', mk_int J (roundCount l)), (''roundTime'', to_fixed J (roundTime l)),
     (''trainingMode'', mk_bool J (trainingMode l)), (''members'', mk_arr J (map (to_member J) (members l)))]"

definition default_time :: fixed_point where
  "default_time = \<lparr>fractional = 0, integral = 99\<rparr>"

definition default_lobby :: lobby_data where
  "default_lobby = \<lparr>lobby_id = \<lparr>lid_host = [], lid_key = []\<rparr>, editionSelect = True, roundCount = 3,
     roundTime = default_time, trainingMode = False, members = []\<rparr>"

definition from_lobby :: "'j json_ops \<Rightarrow> 'j \<Rightarrow> lobby_data option" where
  "from_lobby J j = do { i \<leftarrow> field_default J j ''id'' (from_lid J) (lobby_id default_lobby);
     e \<leftarrow> field_default J j ''editionSelect'' (j_bool J) True;
     n \<leftarrow> field_default J j ''roundCount'' (j_sint 31 J) 3;
     t \<leftarrow> field_default J j ''roundTime'' (from_fixed J) default_time;
     g \<leftarrow> field_default J j ''trainingMode'' (j_bool J) False;
     ms \<leftarrow> field_default J j ''members'' (j_vector J (from_member J)) [];
     Some \<lparr>lobby_id = i, editionSelect = e, roundCount = n, roundTime = t, trainingMode = g, members = ms\<rparr> }"

definition to_match :: "'j json_ops \<Rightarrow> match_data \<Rightarrow> 'j" where
  "to_match J m = mk_obj J [(''readyMessageNum'', mk_duo J (mk_int J) (readyMessageNum m)),
     (''chara'', mk_duo J (to_chara J) (m_chara m)), (''stageID'', mk_int J (stageID m)),
     (''rngSeed'', mk_word J (rngSeed m))]"

definition from_match :: "'j json_ops \<Rightarrow> 'j \<Rightarrow> match_data option" where
  "from_match J j = do { r \<leftarrow> field J j ''readyMessageNum'' (j_duo J (j_sint 63 J));
     c \<leftarrow> field J j ''chara'' (j_duo J (from_chara J)); s \<leftarrow> field J j ''stageID'' (j_sint 63 J);
     g \<leftarrow> field J j ''rngSeed'' (j_word J);
     Some \<lparr>readyMessageNum = r, m_chara = c, stageID = s, rngSeed = g\<rparr> }"

text \<open>The fixed-point fields of a character snapshot, in the order of the table.\<close>

definition snapshot_keys :: "string list" where
  "snapshot_keys = [''vit'', ''vitmax'', ''revenge'', ''revengemax'', ''recoverable'',
     ''recoverablemax'', ''super'', ''supermax'', ''sctimeamt'', ''sctimemax'', ''uctime'',
     ''uctimemax'', ''damage'', ''combodamage'']"

definition to_csnap :: "'j json_ops \<Rightarrow> chara_snapshot \<Rightarrow> 'j" where
  "to_csnap J s = mk_obj J ([(''status'', mk_int J (cs_status s)),
     (''rootPos'', mk_arr J (map (mk_f32 J) (cs_rootPos s))), (''side'', mk_int J (cs_side s))]
     @ zip snapshot_keys (map (to_fixed J) (cs_values s)))"

definition from_csnap :: "'j json_ops \<Rightarrow> 'j \<Rightarrow> chara_snapshot option" where
  "from_csnap J j = do { st \<leftarrow> field J j ''status'' (j_sint 31 J);
     rp \<leftarrow> field J j ''rootPos'' (j_array J 4 (j_f32 J)); sd \<leftarrow> field J j ''side'' (j_sint 31 J);
     vs \<leftarrow> get_all (\<lambda>k. field J j k (from_fixed J)) snapshot_keys;
     Some \<lparr>cs_status = st, cs_rootPos = rp, cs_side = sd, cs_values = vs\<rparr> }"

definition to_snap :: "'j json_ops \<Rightarrow> state_snapshot \<Rightarrow> 'j" where
  "to_snap J s = mk_obj J [(''frameIdx'', mk_int J (ss_frameIdx s)),
     (''chara'', mk_duo J (to_csnap J) (ss_chara s))]"

definition from_snap :: "'j json_ops \<Rightarrow> 'j \<Rightarrow> state_snapshot option" where
  "from_snap J j = do { f \<leftarrow> field J j ''frameIdx'' (j_sint 31 J);
     c \<leftarrow> field J j ''chara'' (j_duo J (from_csnap J)); Some \<lparr>ss_frameIdx = f, ss_chara = c\<rparr> }"

section \<open>Messages\<close>

definition tagged :: "'j json_ops \<Rightarrow> message_type \<Rightarrow> (string \<times> 'j) list \<Rightarrow> 'j" where
  "tagged J ty fs = mk_obj J ((''type'', enum_to J message_type_table ty) # fs)"

definition from_type :: "'j json_ops \<Rightarrow> 'j \<Rightarrow> message_type option" where
  "from_type J j = map_option (enum_from J message_type_table) (j_at J j ''type'')"

definition to_joinreq :: "'j json_ops \<Rightarrow> join_request \<Rightarrow> 'j" where
  "to_joinreq J q = tagged J MT_SESSION_JOINREQ [(''sidecarHash'', mk_str J (jr_sidecarHash q)),
     (''username'', mk_str J (jr_username q)), (''port'', mk_word J (jr_port q))]"

definition from_joinreq :: "'j json_ops \<Rightarrow> 'j \<Rightarrow> join_request option" where
  "from_joinreq J j = do { _ \<leftarrow> from_type J j; h \<leftarrow> field J j ''sidecarHash'' (j_str J);
     u \<leftarrow> field J j ''username'' (j_str J); p \<leftarrow> field J j ''port'' (j_word J);
     Some \<lparr>jr_sidecarHash = h, jr_username = u, jr_port = p\<rparr> }"

definition to_settings :: "'j json_ops \<Rightarrow> lobby_settings \<Rightarrow> 'j" where
  "to_settings J s = tagged J MT_LOBBY_SETSETTINGS [(''editionSelect'', mk_bool J (ls_editionSelect s)),
     (''roundCount'', mk_int J (ls_roundCount s)), (''roundTime'', to_fixed J (ls_roundTime s)),
     (''trainingMode'', mk_bool J (ls_trainingMode s))]"

definition from_settings :: "'j json_ops \<Rightarrow> 'j \<Rightarrow> lobby_settings option" where
  "from_settings J j = do {
     _ \<leftarrow> field_default J j ''type'' (\<lambda>t. Some (enum_from J message_type_table t)) MT_LOBBY_SETSETTINGS;
     e \<leftarrow> field_default J j ''editionSelect'' (j_bool J) True;
     n \<leftarrow> field_default J j ''roundCount'' (j_sint 31 J) 3;
     t \<leftarrow> field_default J j ''roundTime'' (from_fixed J) default_time;
     g \<leftarrow> field_default J j ''trainingMode'' (j_bool J) False;
     Some \<lparr>ls_editionSelect = e, ls_roundCount = n, ls_roundTime = t, ls_trainingMode = g\<rparr> }"

definition to_hash :: "'j json_ops \<Rightarrow> battle_hash \<Rightarrow> 'j" where
  "to_hash J h = tagged J MT_BATTLE_HASH [(''frameIdx'', mk_int J (bh_frameIdx h)),
     (''overall'', mk_word J (bh_overall h)), (''flow'', mk_word J (bh_flow h)),
     (''chara0'', mk_word J (bh_chara0 h)), (''chara1'', mk_word J (bh_chara1 h)),
     (''fromPlayer'', mk_bool J (bh_fromPlayer h))]"

definition from_hash :: "'j json_ops \<Rightarrow> 'j \<Rightarrow> battle_hash option" where
  "from_hash J j = do {
     _ \<leftarrow> field_default J j ''type'' (\<lambda>t. Some (enum_from J message_type_table t)) MT_BATTLE_HASH;
     f \<leftarrow> field_default J j ''frameIdx'' (j_sint 31 J) (-1);
     a \<leftarrow> field_default J j ''overall'' (j_word J) 0; b \<leftarrow> field_default J j ''flow'' (j_word J) 0;
     c \<leftarrow> field_default J j ''chara0'' (j_word J) 0; d \<leftarrow> field_default J j ''chara1'' (j_word J) 0;
     p \<leftarrow> field_default J j ''fromPlayer'' (j_bool J) False;
     Some \<lparr>bh_frameIdx = f, bh_overall = a, bh_flow = b, bh_chara0 = c, bh_chara1 = d, bh_fromPlayer = p\<rparr> }"

definition to_frame :: "'j json_ops \<Rightarrow> ggpo_frame \<Rightarrow> 'j" where
  "to_frame J f = tagged J MT_BATTLE_GGPO_FRAME [(''src'', to_cid J (gf_src f)),
     (''dest'', to_cid J (gf_dest f)), (''data'', mk_arr J (map (mk_word J) (gf_data f)))]"

definition from_frame :: "'j json_ops \<Rightarrow> 'j \<Rightarrow> ggpo_frame option" where
  "from_frame J j = do { _ \<leftarrow> from_type J j; s \<leftarrow> field J j ''src'' (from_cid J);
     d \<leftarrow> field J j ''dest'' (from_cid J); b \<leftarrow> field J j ''data'' (j_vector J (j_word J));
     Some \<lparr>gf_src = s, gf_dest = d, gf_data = b\<rparr> }"

definition to_forward :: "'j json_ops \<Rightarrow> 'j forward_message \<Rightarrow> 'j" where
  "to_forward J f = tagged J MT_FORWARD [(''src'', to_cid J (fw_src f)), (''dest'', to_cid J (fw_dest f)),
     (''msg'', fw_msg f)]"

definition from_forward :: "'j json_ops \<Rightarrow> 'j \<Rightarrow> 'j forward_message option" where
  "from_forward J j = do { _ \<leftarrow> from_type J j; s \<leftarrow> field J j ''src'' (from_cid J);
     d \<leftarrow> field J j ''dest'' (from_cid J); m \<leftarrow> field J j ''msg'' Some;
     Some \<lparr>fw_src = s, fw_dest = d, fw_msg = m\<rparr> }"

text \<open>Messages with a single field beside their type.\<close>

definition to_one :: "'j json_ops \<Rightarrow> message_type \<Rightarrow> string \<Rightarrow> 'j \<Rightarrow> 'j" where
  "to_one J ty k v = tagged J ty [(k, v)]"

definition from_one :: "'j json_ops \<Rightarrow> string \<Rightarrow> ('j \<Rightarrow> 'a option) \<Rightarrow> 'j \<Rightarrow> 'a option" where
  "from_one J k get j = do { _ \<leftarrow> from_type J j; field J j k get }"

definition std_codec :: "'j json_ops \<Rightarrow> 'j codec" where
  "std_codec J = \<lparr>get_type = from_type J,
     get_helloresp = from_one J ''cid'' (from_cid J),
     get_dataupdate = (\<lambda>j. do { _ \<leftarrow> from_type J j; l \<leftarrow> field J j ''lobbyData'' (from_lobby J);
        m \<leftarrow> field J j ''matchData'' (from_match J); Some (l, m) }),
     get_joinreq = from_joinreq J,
     get_joinrej = from_one J ''result'' (\<lambda>r. Some (enum_from J join_result_table r)),
     get_setchara = from_one J ''chara'' (from_chara J),
     get_setenv = from_one J ''rngSeed'' (j_word J),
     get_setstage = from_one J ''stageID'' (j_sint 31 J),
     get_setsettings = from_settings J,
     get_lobbyready = (\<lambda>j. map_option (\<lambda>_. ()) (from_type J j)),
     get_results = from_one J ''loserSide'' (j_sint 31 J),
     get_snapshot = from_one J ''snapshot'' (from_snap J),
     get_hash = from_hash J, get_frame = from_frame J, get_forward = from_forward J\<rparr>"

fun to_reply :: "'j json_ops \<Rightarrow> 'j reply \<Rightarrow> 'j" where
  "to_reply J (HelloResp c) = to_one J MT_SESSION_HELLO_RESP ''cid'' (to_cid J c)"
| "to_reply J (JoinRej r) = to_one J MT_SESSION_JOINREJ ''result'' (enum_to J join_result_table r)"
| "to_reply J (DataUpdate l m) =
     tagged J MT_SESSION_DATAUPDATE [(''lobbyData'', to_lobby J l), (''matchData'', to_match J m)]"
| "to_reply J AllReady = tagged J MT_LOBBY_ALLREADY []"
| "to_reply J BattleSyncedMsg = tagged J MT_BATTLE_SYNCED []"
| "to_reply J PunchGoMsg = tagged J MT_PUNCH_GO []"
| "to_reply J (Relayed j) = j"

fun to_request :: "'j json_ops \<Rightarrow> 'j request \<Rightarrow> 'j" where
  "to_request J Hello = tagged J MT_SESSION_HELLO []"
| "to_request J (JoinReq q) = to_joinreq J q"
| "to_request J Ready = tagged J MT_LOBBY_READY []"
| "to_request J (ReportResults i) = to_one J MT_LOBBY_REPORTRESULTS ''loserSide'' (mk_int J i)"
| "to_request J Reset = tagged J MT_LOBBY_RESET []"
| "to_request J (SetSettings s) = to_settings J s"
| "to_request J (SetEnv w) = to_one J MT_PREBATTLE_SETENV ''rngSeed'' (mk_word J w)"
| "to_request J (SetChara c) = to_one J MT_PREBATTLE_SETCHARA ''chara'' (to_chara J c)"
| "to_request J (SetStage i) = to_one J MT_PREBATTLE_SETSTAGE ''stageID'' (mk_int J i)"
| "to_request J Loaded = tagged J MT_BATTLE_LOADED []"
| "to_request J PunchReadyMsg = tagged J MT_PUNCH_READY []"
| "to_request J (Snapshot s) = to_one J MT_BATTLE_SNAPSHOT ''snapshot'' (to_snap J s)"
| "to_request J (HashMsg h) = to_hash J h"
| "to_request J (FrameMsg f) = to_frame J f"
| "to_request J (ForwardMsg f) = to_forward J f"

section \<open>What survives the wire\<close>

text \<open>Values of the C++ types: integers in the range of their type, arrays of
  their declared length; a member's flags are not transmitted.\<close>

definition fits :: "nat \<Rightarrow> int \<Rightarrow> bool" where
  "fits n i \<longleftrightarrow> - (2 ^ n) \<le> i \<and> i < 2 ^ n"

definition wf_lobby :: "lobby_data \<Rightarrow> bool" where
  "wf_lobby l \<longleftrightarrow> fits 31 (roundCount l) \<and> (\<forall>m\<in>set (members l). m_flags m = 0)"

definition wf_match :: "match_data \<Rightarrow> bool" where
  "wf_match m \<longleftrightarrow> fits 63 (fst (readyMessageNum m)) \<and> fits 63 (snd (readyMessageNum m)) \<and> fits 63 (stageID m)"

definition wf_csnap :: "chara_snapshot \<Rightarrow> bool" where
  "wf_csnap s \<longleftrightarrow> fits 31 (cs_status s) \<and> fits 31 (cs_side s) \<and> length (cs_rootPos s) = 4 \<and>
     (\<forall>w\<in>set (cs_rootPos s). finite_f32 w) \<and> length (cs_values s) = length snapshot_keys"

definition wf_snap :: "state_snapshot \<Rightarrow> bool" where
  "wf_snap s \<longleftrightarrow> fits 31 (ss_frameIdx s) \<and> wf_csnap (fst (ss_chara s)) \<and> wf_csnap (snd (ss_chara s))"

lemma signed_take_bit_fits: "fits n i \<Longrightarrow> signed_take_bit n i = i"
  by (simp add: fits_def signed_take_bit_int_eq_self)

lemma get_all_map: "(\<And>x. x \<in> set xs \<Longrightarrow> g (f x) = Some (h x)) \<Longrightarrow> get_all g (map f xs) = Some (map h xs)"
  by (induction xs) auto

lemma get_all_zip:
  "length ks = length vs \<Longrightarrow> (\<forall>(k, v)\<in>set (zip ks vs). g k = Some v) \<Longrightarrow>
   get_all g ks = Some vs"
  by (induction ks vs rule: list_induct2') auto

context json_lib
begin

lemma at_field [simp]: "field J (mk_obj J kvs) k get = Option.bind (map_of kvs k) get"
  by (simp add: field_def)

lemma at_field_default [simp]:
  "field_default J (mk_obj J kvs) k get d = (case map_of kvs k of None \<Rightarrow> Some d | Some v \<Rightarrow> get v)"
  by (simp add: field_default_def)

lemma word_word [simp]: "j_word J (mk_word J w) = Some w"
  by (simp add: j_word_def mk_word_def)

lemma word_sint [simp]: "j_word J (mk_int J (sint w)) = Some w"
  by (simp add: j_word_def)

lemma sint_int [simp]: "fits n i \<Longrightarrow> j_sint n J (mk_int J i) = Some i"
  by (simp add: j_sint_def signed_take_bit_fits)

lemma enum_enum:
  assumes "distinct (map snd tab)" "distinct (map fst tab)" "e \<in> set (map fst tab)"
  shows "enum_from J tab (enum_to J tab e) = e"
proof -
  obtain x s where f: "find (\<lambda>(x, _). x = e) tab = Some (x, s)"
    using assms(3) by (cases "find (\<lambda>(x, _). x = e) tab") (auto simp: find_None_iff)
  then have xs: "(e, s) \<in> set tab" by (auto simp: find_Some_iff in_set_conv_nth)
  have "find (\<lambda>(_, t). s = t) tab = Some (e, s)"
    using xs assms(1)
    by (induction tab) (auto split: if_splits simp: rev_image_eqI)
  then show ?thesis using f by (simp add: enum_to_def enum_from_def)
qed

lemma vector_vector [simp]:
  "(\<And>x. x \<in> set xs \<Longrightarrow> g (f x) = Some x) \<Longrightarrow> j_vector J g (mk_arr J (map f xs)) = Some xs"
  using get_all_map [of xs g f "\<lambda>x. x"] by (simp add: j_vector_def)

lemma array_array [simp]:
  "length xs = n \<Longrightarrow> (\<And>x. x \<in> set xs \<Longrightarrow> g (f x) = Some x) \<Longrightarrow>
   j_array J n g (mk_arr J (map f xs)) = Some xs"
  using get_all_map [of xs g f "\<lambda>x. x"] by (simp add: j_array_def)

lemma duo_duo [simp]:
  "g (f (fst p)) = Some (fst p) \<Longrightarrow> g (f (snd p)) = Some (snd p) \<Longrightarrow> j_duo J g (mk_duo J f p) = Some p"
  by (simp add: j_duo_def j_array_def mk_duo_def numeral_2_eq_2)

lemma struct_struct [simp]:
  "from_cid J (to_cid J c) = Some c" "from_lid J (to_lid J l) = Some l"
  "from_fixed J (to_fixed J f) = Some f" "from_chara J (to_chara J ch) = Some ch"
  by (simp_all add: to_cid_def from_cid_def to_lid_def from_lid_def to_fixed_def from_fixed_def
      to_chara_def from_chara_def)

lemma member_member [simp]: "m_flags m = 0 \<Longrightarrow> from_member J (to_member J m) = Some m"
  by (simp add: to_member_def from_member_def)

lemma lobby_lobby [simp]: "wf_lobby l \<Longrightarrow> from_lobby J (to_lobby J l) = Some l"
  by (simp add: to_lobby_def from_lobby_def wf_lobby_def)

text \<open>In general a lobby arrives with its members' flags cleared.\<close>

lemma member_wire: "from_member J (to_member J m) = Some (m\<lparr>m_flags := 0\<rparr>)"
  by (simp add: to_member_def from_member_def)

lemma lobby_wire:
  assumes "fits 31 (roundCount l)"
  shows "from_lobby J (to_lobby J l) = Some (l\<lparr>members := map (\<lambda>m. m\<lparr>m_flags := 0\<rparr>) (members l)\<rparr>)"
proof -
  have "j_vector J (from_member J) (mk_arr J (map (to_member J) ms)) = Some (map (\<lambda>m. m\<lparr>m_flags := 0\<rparr>) ms)" for ms
    using get_all_map [of ms "from_member J" "to_member J" "\<lambda>m. m\<lparr>m_flags := 0\<rparr>"]
    by (simp add: j_vector_def member_wire)
  then show ?thesis using assms by (simp add: to_lobby_def from_lobby_def)
qed

lemma match_match [simp]: "wf_match m \<Longrightarrow> from_match J (to_match J m) = Some m"
  by (simp add: to_match_def from_match_def wf_match_def)

lemma csnap_csnap [simp]:
  assumes "wf_csnap s" shows "from_csnap J (to_csnap J s) = Some s"
proof -
  let ?kvs = "zip snapshot_keys (map (to_fixed J) (cs_values s))"
  have len: "length snapshot_keys = length (cs_values s)" using assms by (simp add: wf_csnap_def)
  have *: "field J (to_csnap J s) k (from_fixed J) = Some v"
    if "(k, v) \<in> set (zip snapshot_keys (cs_values s))" for k v
  proof -
    have "(k, to_fixed J v) \<in> set ?kvs"
      using that by (force simp: zip_map2)
    moreover have "distinct (map fst ?kvs)"
      using len by (simp add: snapshot_keys_def)
    ultimately have "map_of ?kvs k = Some (to_fixed J v)" by simp
    moreover have "k \<in> set snapshot_keys" using that by (auto dest: set_zip_leftD)
    ultimately show ?thesis by (auto simp: to_csnap_def snapshot_keys_def)
  qed
  have "get_all (\<lambda>k. field J (to_csnap J s) k (from_fixed J)) snapshot_keys = Some (cs_values s)"
    by (rule get_all_zip [OF len]) (use * in auto)
  moreover have "field J (to_csnap J s) ''status'' (j_sint 31 J) = Some (cs_status s)"
    "field J (to_csnap J s) ''side'' (j_sint 31 J) = Some (cs_side s)"
    "field J (to_csnap J s) ''rootPos'' (j_array J 4 (j_f32 J)) = Some (cs_rootPos s)"
    using assms by (simp_all add: to_csnap_def wf_csnap_def)
  ultimately show ?thesis by (simp add: from_csnap_def)
qed

lemma snap_snap [simp]: "wf_snap s \<Longrightarrow> from_snap J (to_snap J s) = Some s"
  by (simp add: to_snap_def from_snap_def wf_snap_def)

lemma type_type [simp]: "from_type J (tagged J ty fs) = Some ty"
proof -
  have "enum_from J message_type_table (enum_to J message_type_table ty) = ty"
    by (rule enum_enum) (rule message_type_table_ok message_type_table_total)+
  then show ?thesis by (simp add: from_type_def tagged_def)
qed

lemma tagged_field [simp]:
  "k \<noteq> ''type'' \<Longrightarrow> field J (tagged J ty fs) k get = Option.bind (map_of fs k) get"
  by (simp add: tagged_def)

lemma tagged_default [simp]:
  "k \<noteq> ''type'' \<Longrightarrow>
   field_default J (tagged J ty fs) k get d = (case map_of fs k of None \<Rightarrow> Some d | Some v \<Rightarrow> get v)"
  "field_default J (tagged J ty fs) ''type'' (\<lambda>t. Some (e t)) ty' = Some (e (enum_to J message_type_table ty))"
  by (simp_all add: tagged_def)

lemma result_result [simp]: "enum_from J join_result_table (enum_to J join_result_table r) = r"
  by (rule enum_enum) (cases r; simp add: join_result_table_def)+

lemma one_one [simp]:
  "k \<noteq> ''type'' \<Longrightarrow> from_one J k get (to_one J ty k v) = get v"
  "from_type J (to_one J ty k v) = Some ty"
  by (simp_all add: from_one_def to_one_def)

lemma joinreq_joinreq [simp]: "from_joinreq J (to_joinreq J q) = Some q"
  by (simp add: to_joinreq_def from_joinreq_def)

lemma settings_settings [simp]:
  "fits 31 (ls_roundCount s) \<Longrightarrow> from_settings J (to_settings J s) = Some s"
  by (simp add: to_settings_def from_settings_def)

lemma hash_hash [simp]: "fits 31 (bh_frameIdx h) \<Longrightarrow> from_hash J (to_hash J h) = Some h"
  by (simp add: to_hash_def from_hash_def)

lemma frame_frame [simp]: "from_frame J (to_frame J g) = Some g"
  by (simp add: to_frame_def from_frame_def)

lemma forward_forward [simp]: "from_forward J (to_forward J f) = Some f"
  by (simp add: to_forward_def from_forward_def)

lemmas message_message = joinreq_joinreq settings_settings hash_hash frame_frame forward_forward

lemma message_types [simp]:
  "from_type J (to_joinreq J q) = Some MT_SESSION_JOINREQ"
  "from_type J (to_settings J s) = Some MT_LOBBY_SETSETTINGS"
  "from_type J (to_hash J h) = Some MT_BATTLE_HASH"
  "from_type J (to_frame J g) = Some MT_BATTLE_GGPO_FRAME"
  "from_type J (to_forward J f) = Some MT_FORWARD"
  by (simp_all add: to_joinreq_def to_settings_def to_hash_def to_frame_def to_forward_def)

end

section \<open>Round trips\<close>

text \<open>How the other end reads a request or a reply.\<close>

fun wf_request :: "'j request \<Rightarrow> bool" where
  "wf_request (ReportResults i) = fits 31 i"
| "wf_request (SetSettings s) = fits 31 (ls_roundCount s)"
| "wf_request (SetStage i) = fits 31 i"
| "wf_request (Snapshot s) = wf_snap s"
| "wf_request (HashMsg h) = fits 31 (bh_frameIdx h)"
| "wf_request _ = True"

fun reads_request :: "'j codec \<Rightarrow> 'j \<Rightarrow> 'j request \<Rightarrow> bool" where
  "reads_request C j Hello = (get_type C j = Some MT_SESSION_HELLO)"
| "reads_request C j (JoinReq q) = (get_type C j = Some MT_SESSION_JOINREQ \<and> get_joinreq C j = Some q)"
| "reads_request C j Ready = (get_type C j = Some MT_LOBBY_READY \<and> get_lobbyready C j = Some ())"
| "reads_request C j (ReportResults i) =
     (get_type C j = Some MT_LOBBY_REPORTRESULTS \<and> get_results C j = Some i)"
| "reads_request C j Reset = (get_type C j = Some MT_LOBBY_RESET)"
| "reads_request C j (SetSettings s) =
     (get_type C j = Some MT_LOBBY_SETSETTINGS \<and> get_setsettings C j = Some s)"
| "reads_request C j (SetEnv w) = (get_type C j = Some MT_PREBATTLE_SETENV \<and> get_setenv C j = Some w)"
| "reads_request C j (SetChara c) =
     (get_type C j = Some MT_PREBATTLE_SETCHARA \<and> get_setchara C j = Some c)"
| "reads_request C j (SetStage i) =
     (get_type C j = Some MT_PREBATTLE_SETSTAGE \<and> get_setstage C j = Some i)"
| "reads_request C j Loaded = (get_type C j = Some MT_BATTLE_LOADED)"
| "reads_request C j PunchReadyMsg = (get_type C j = Some MT_PUNCH_READY)"
| "reads_request C j (Snapshot s) = (get_type C j = Some MT_BATTLE_SNAPSHOT \<and> get_snapshot C j = Some s)"
| "reads_request C j (HashMsg h) = (get_type C j = Some MT_BATTLE_HASH \<and> get_hash C j = Some h)"
| "reads_request C j (FrameMsg f) = (get_type C j = Some MT_BATTLE_GGPO_FRAME \<and> get_frame C j = Some f)"
| "reads_request C j (ForwardMsg f) = (get_type C j = Some MT_FORWARD \<and> get_forward C j = Some f)"

fun wf_reply :: "'j reply \<Rightarrow> bool" where
  "wf_reply (DataUpdate l m) = (wf_lobby l \<and> wf_match m)"
| "wf_reply (Relayed j) = False"
| "wf_reply _ = True"

fun reads_reply :: "'j codec \<Rightarrow> 'j \<Rightarrow> 'j reply \<Rightarrow> bool" where
  "reads_reply C j (HelloResp c) = (get_type C j = Some MT_SESSION_HELLO_RESP \<and> get_helloresp C j = Some c)"
| "reads_reply C j (JoinRej r) = (get_type C j = Some MT_SESSION_JOINREJ \<and> get_joinrej C j = Some r)"
| "reads_reply C j (DataUpdate l m) =
     (get_type C j = Some MT_SESSION_DATAUPDATE \<and> get_dataupdate C j = Some (l, m))"
| "reads_reply C j AllReady = (get_type C j = Some MT_LOBBY_ALLREADY)"
| "reads_reply C j BattleSyncedMsg = (get_type C j = Some MT_BATTLE_SYNCED)"
| "reads_reply C j PunchGoMsg = (get_type C j = Some MT_PUNCH_GO)"
| "reads_reply C j (Relayed j') = (j = j')"

lemma reads_request_ok: "json_lib J \<Longrightarrow> wf_request q \<Longrightarrow> reads_request (std_codec J) (to_request J q) q"
  by (cases q) (simp_all add: std_codec_def json_lib.message_message json_lib.message_types
      json_lib.one_one json_lib.type_type json_lib.word_word json_lib.sint_int
      json_lib.struct_struct json_lib.snap_snap)

lemma reads_reply_ok: "json_lib J \<Longrightarrow> wf_reply r \<Longrightarrow> reads_reply (std_codec J) (to_reply J r) r"
  by (cases r) (simp_all add: std_codec_def json_lib.one_one json_lib.type_type json_lib.struct_struct
      json_lib.result_result json_lib.tagged_field json_lib.lobby_lobby json_lib.match_match)

text \<open>
  C38: every request a client can send is read back by the server with its type
  and its payload unchanged, whatever JSON library satisfies the documented laws.
\<close>

theorem wire_request_roundtrip:
  assumes "json_lib J" "wf_request q"
  shows "reads_request (std_codec J) (to_request J q) q"
  using assms by (rule reads_request_ok)

theorem wire_request_roundtrip_witness:
  "reads_request (std_codec jval_ops) (to_request jval_ops (ReportResults 1)) (ReportResults 1)"
  by (rule wire_request_roundtrip) (simp_all add: jv.json_lib_axioms fits_def)

text \<open>
  Every reply of the server is read back by a client with its type and its
  payload unchanged; a member's flags are the one thing that is not transmitted.
\<close>

theorem wire_reply_roundtrip:
  assumes "json_lib J" "wf_reply r"
  shows "reads_reply (std_codec J) (to_reply J r) r"
  using assms by (rule reads_reply_ok)

theorem wire_reply_roundtrip_witness:
  "reads_reply (std_codec jval_ops) (to_reply jval_ops (DataUpdate default_lobby MatchData_init))
     (DataUpdate default_lobby MatchData_init)"
  by (rule wire_reply_roundtrip)
    (simp_all add: jv.json_lib_axioms fits_def wf_lobby_def wf_match_def default_lobby_def
      default_time_def MatchData_init_def)

text \<open>
  A message whose type is present but is no known string, or no string at
  all, is taken for a hello; only a missing type is refused.
\<close>

theorem unknown_type_is_hello:
  assumes "j_at J j ''type'' = Some t" "\<forall>(ty, s)\<in>set message_type_table. j_str J t \<noteq> Some s"
  shows "get_type (std_codec J) j = Some MT_SESSION_HELLO"
proof -
  have "find (\<lambda>(_, s). j_str J t = Some s) message_type_table = None"
    using assms(2) by (auto simp: find_None_iff)
  then show ?thesis
    using assms(1) by (simp add: std_codec_def from_type_def enum_from_def message_type_table_def)
qed

theorem unknown_type_is_hello_witness:
  "get_type (std_codec jval_ops) (JObj [(''type'', JInt 7)]) = Some MT_SESSION_HELLO"
  by (rule unknown_type_is_hello) (auto simp: jval_ops_def)

end
