(* ===== verification/Server_Properties.thy ===== *)
theory Server_Properties
  imports Session_Server Wire "HOL-Library.Multiset"
begin

text \<open>
  What the session server guarantees: its invariant over every reachable state,
  the replication of its lobby to the clients, who may change what, and the
  rendezvous messages. Witnesses run the model on JSON documents.
\<close>

section \<open>A concrete lobby for the witnesses\<close>

definition ask :: "conn \<Rightarrow> jval request \<Rightarrow> jval delivery" where
  "ask c q = \<lparr>d_conn = c, d_body = Some (to_request jval_ops q), d_number = 1, d_local = True, d_addr = []\<rparr>"

abbreviation jc :: "jval codec" where
  "jc \<equiv> std_codec jval_ops"

definition srv0 :: server where
  "srv0 = server_init ''h'' ''k'' True 3 default_time"

definition joins :: "conn \<Rightarrow> string \<Rightarrow> jval delivery list" where
  "joins c n = [ask c Hello, ask c (JoinReq \<lparr>jr_sidecarHash = ''k'', jr_username = n, jr_port = 7\<rparr>)]"

definition seat :: "conn \<Rightarrow> string \<Rightarrow> session_member" where
  "seat c n = \<lparr>mdata = \<lparr>connId = \<lparr>cid_host = ''h'', cid_user = to_string c\<rparr>, m_name = n, m_ip = [],
     m_port = 7, m_flags = 0\<rparr>, mconn = c\<rparr>"

definition srv2 :: server where
  "srv2 = srv0\<lparr>cidMap := [1 \<mapsto> \<lparr>cid_host = ''h'', cid_user = ''1''\<rparr>, 2 \<mapsto> \<lparr>cid_host = ''h'', cid_user = ''2''\<rparr>],
     clients := [seat 1 ''a'', seat 2 ''b'']\<rparr>"

lemma ask_simps [simp]:
  "d_conn (ask c q) = c" "d_body (ask c q) = Some (to_request jval_ops q)" "d_number (ask c q) = 1"
  "d_local (ask c q) = True"
  by (simp_all add: ask_def)

lemma jc_simps [simp]:
  "get_type jc = from_type jval_ops" "get_joinreq jc = from_joinreq jval_ops"
  "get_frame jc = from_frame jval_ops" "get_forward jc = from_forward jval_ops"
  "get_results jc = from_one jval_ops ''loserSide'' (j_sint 31 jval_ops)"
  "get_lobbyready jc = (\<lambda>j. map_option (\<lambda>_. ()) (from_type jval_ops j))"
  by (simp_all add: std_codec_def)

lemma to_string_small [simp]: "to_string (1 :: conn) = ''1''" "to_string (2 :: conn) = ''2''" "to_string (3 :: conn) = ''3''"
  by code_simp+

lemma seat_simps [simp]:
  "mconn (seat c n) = c" "connId (mdata (seat c n)) = \<lparr>cid_host = ''h'', cid_user = to_string c\<rparr>"
  "m_name (mdata (seat c n)) = n" "m_flags (mdata (seat c n)) = 0"
  by (simp_all add: seat_def)

lemma srv2_simps [simp]:
  "identity srv2 = ''h''" "sidecarHash srv2 = ''k''" "clients srv2 = [seat 1 ''a'', seat 2 ''b'']"
  "matchData srv2 = MatchData_init" "punchReady srv2 = (False, False)"
  "cidMap srv2 1 = Some \<lparr>cid_host = ''h'', cid_user = ''1''\<rparr>"
  "cidMap srv2 2 = Some \<lparr>cid_host = ''h'', cid_user = ''2''\<rparr>"
  by (simp_all add: srv2_def srv0_def server_init_def)

lemma round0_simps [simp]:
  "sv (round0 st) = st" "sent (round0 st) = []" "bSendLobbyAllReady (round0 st) = False"
  "bSendBattleSynced (round0 st) = False"
  by (simp_all add: round0_def)

text \<open>The lobby \<open>srv2\<close> is what two joins lead to, before the update is broadcast.\<close>

lemma srv2_run:
  "run_opt (handle_delivery jc) (joins 1 ''a'' @ joins 2 ''b'') (round0 srv0) =
     Some \<lparr>sv = srv2\<lparr>dataDirty := True\<rparr>,
       sent = [(1, HelloResp \<lparr>cid_host = ''h'', cid_user = ''1''\<rparr>),
               (2, HelloResp \<lparr>cid_host = ''h'', cid_user = ''2''\<rparr>)],
       bSendLobbyAllReady = False, bSendBattleSynced = False\<rparr>"
  by (simp add: joins_def ask_def round0_def srv0_def server_init_def handle_delivery_def handle_hello_def
      Let_def Respond_def handle_known_def handle_joinreq_def RegisterToWait_def
      MAX_SF4E_PROTOCOL_USERS_def new_member_def srv2_def seat_def)

lemma srv2_reach: "server_reach jc srv2"
proof -
  have *: "delivered (map Some (joins 1 ''a'' @ joins 2 ''b'')) = joins 1 ''a'' @ joins 2 ''b''"
    by (simp add: delivered_def joins_def)
  have "\<exists>outs. server_step jc (Some (map Some (joins 1 ''a'' @ joins 2 ''b''))) srv0 = Some (srv2, outs, 0)"
    using srv2_run
    by (simp add: server_step_def server_loop_run * round0_def [symmetric] frame_simps Let_def
        del: list.map map_append)
      (simp add: srv2_def srv0_def server_init_def)
  then show ?thesis using reach_step [OF reach_init [of jc "''h''" "''k''" True 3 default_time]]
    unfolding srv0_def by blast
qed

text \<open>One poll: the first player picks a stage.\<close>

definition srv2_staged :: server where
  "srv2_staged = srv2\<lparr>matchData := MatchData_init\<lparr>stageID := 5\<rparr>\<rparr>"

lemma srv2_stage_step:
  "\<exists>outs. server_step jc (Some [Some (ask 1 (SetStage 5))]) srv2 = Some (srv2_staged, outs, 0)"
proof -
  have run: "run_opt (handle_delivery jc) [ask 1 (SetStage 5)] (round0 srv2) =
      Some ((round0 srv2)\<lparr>sv := srv2\<lparr>dataDirty := True, matchData := MatchData_init\<lparr>stageID := 5\<rparr>\<rparr>\<rparr>)"
    by (simp add: handle_delivery_def handle_known_def handle_setstage_def side_of_def std_codec_def fits_def)
  then show ?thesis
    by (simp add: server_step_def server_loop_run delivered_def round0_def [symmetric] frame_simps Let_def)
      (simp add: srv2_staged_def srv2_def srv0_def server_init_def)
qed

lemma srv2_staged_view: "server_view srv2_staged \<noteq> server_view srv2"
  by (simp add: server_view_def srv2_staged_def MatchData_init_def)

section \<open>The invariant\<close>

text \<open>
  C30: in every reachable server at most four clients are registered, under
  distinct names, each with the connection identifier the server itself issued
  to its connection, and the two punch flags are never both left set.
\<close>

theorem server_invariant:
  assumes "server_reach C st"
  shows "length (clients st) \<le> MAX_SF4E_PROTOCOL_USERS \<and>
    distinct (map (m_name \<circ> mdata) (clients st)) \<and>
    (\<forall>m\<in>set (clients st). connId (mdata m) = own_cid st (mconn m) \<and>
       cidMap st (mconn m) = Some (own_cid st (mconn m))) \<and>
    \<not> (duo_get (punchReady st) 0 \<and> duo_get (punchReady st) 1)"
  using server_ok_dest(1-3) [OF reach_ok [OF assms]] server_ok_member [OF reach_ok [OF assms]]
  unfolding member_ok_def duo_get_def by (intro conjI ballI) simp_all

theorem server_invariant_witness:
  "length (clients srv2) \<le> MAX_SF4E_PROTOCOL_USERS \<and> distinct (map (m_name \<circ> mdata) (clients srv2))"
  using server_invariant [OF srv2_reach] by blast

section \<open>Replication\<close>

fun is_update :: "'j reply \<Rightarrow> bool" where
  "is_update (DataUpdate l m) = True"
| "is_update _ = False"

lemma is_update_data [simp]: "is_update (data_update st)"
  by (simp add: data_update_def)

lemma step_run:
  assumes "server_step C (Some ds) st = Some (st', outs, 0)"
  shows "\<exists>r. st' = (sv r)\<lparr>dataDirty := False\<rparr> \<and> outs = sent (flush_round r) \<and>
    (\<forall>(c, u)\<in>set (sent r). \<not> is_update u) \<and>
    (server_view (sv r) = server_view st \<and> dataDirty (sv r) = dataDirty st \<or> dataDirty (sv r))"
proof -
  from assms obtain r where r: "run_opt (handle_delivery C) (delivered ds) (round0 st) = Some r"
    and st': "st' = (sv r)\<lparr>dataDirty := False\<rparr>" "outs = sent (flush_round r)"
    by (cases rule: server_step_cases) auto
  have "no_broadcast r"
    using srv_quiet.run_inv [OF r] by (simp add: no_broadcast_def round0_def)
  then have quiet: "\<forall>(c, u)\<in>set (sent r). \<not> is_update u"
    by (fastforce simp: no_broadcast_def elim: is_update.elims)
  have dirty: "server_view (sv r) = server_view st \<and> dataDirty (sv r) = dataDirty st \<or> dataDirty (sv r)"
    using srv_dirty.run_dirty [OF r] by (simp add: round0_def)
  show ?thesis using st' quiet dirty by (intro exI [of _ r]) simp
qed

lemma final_views [simp]:
  "data_update (st\<lparr>dataDirty := d\<rparr>) = data_update st" "server_view (st\<lparr>dataDirty := d\<rparr>) = server_view st"
  by (simp_all add: data_update_def server_view_def)

lemma server_update_final:
  assumes "server_step C (Some ds) st = Some (st', outs, 0)" "(c, u) \<in> set outs" "is_update u"
  shows "u = data_update st' \<and> c \<in> mconn ` set (clients st')"
proof -
  obtain r where r: "st' = (sv r)\<lparr>dataDirty := False\<rparr>" "outs = sent (flush_round r)"
    and quiet: "\<forall>(c, u)\<in>set (sent r). \<not> is_update u"
    using step_run [OF assms(1)] by blast
  then show ?thesis using assms(2,3) by (auto simp: sent_flush split: if_splits)
qed

lemma server_updates_all:
  assumes "server_step C (Some ds) st = Some (st', outs, 0)" "server_view st' \<noteq> server_view st \<or> dataDirty st"
  shows "filter (is_update \<circ> snd) outs = map (\<lambda>m. (mconn m, data_update st')) (clients st')"
proof -
  obtain r where r: "st' = (sv r)\<lparr>dataDirty := False\<rparr>" "outs = sent (flush_round r)"
    and quiet: "\<forall>(c, u)\<in>set (sent r). \<not> is_update u"
    and dirty: "server_view (sv r) = server_view st \<and> dataDirty (sv r) = dataDirty st \<or> dataDirty (sv r)"
    using step_run [OF assms(1)] by blast
  have "filter (is_update \<circ> snd) (sent r) = []" using quiet by (auto simp: filter_empty_conv)
  moreover have "dataDirty (sv r)" using dirty assms(2) by (auto simp: r)
  ultimately show ?thesis by (simp add: r sent_flush filter_map comp_def)
qed



section \<open>Who may change what\<close>

text \<open>
  C37: one message changes the lobby settings only when it is a settings message
  of the first player's connection; the seed and the stage only when it is the
  first player's corresponding message or a result report; and a side's
  character only when that side's own connection chose it, or a result report
  cleared it.
\<close>

theorem server_authority:
  assumes "handle_delivery C d r = Some r'" "d_body d = Some j" "get_type C j = Some ty"
  shows "(lobbyData (sv r') \<noteq> lobbyData (sv r) \<longrightarrow>
      ty = MT_LOBBY_SETSETTINGS \<and> side_of (d_conn d) (sv r) = Some 0) \<and>
    (rngSeed (matchData (sv r')) \<noteq> rngSeed (matchData (sv r)) \<longrightarrow>
      ty = MT_LOBBY_REPORTRESULTS \<or> ty = MT_PREBATTLE_SETENV \<and> side_of (d_conn d) (sv r) = Some 0) \<and>
    (stageID (matchData (sv r')) \<noteq> stageID (matchData (sv r)) \<longrightarrow>
      ty = MT_LOBBY_REPORTRESULTS \<or> ty = MT_PREBATTLE_SETSTAGE \<and> side_of (d_conn d) (sv r) = Some 0) \<and>
    (\<forall>i<2. duo_get (m_chara (matchData (sv r'))) i \<noteq> duo_get (m_chara (matchData (sv r))) i \<longrightarrow>
      ty = MT_LOBBY_REPORTRESULTS \<or> ty = MT_PREBATTLE_SETCHARA \<and> side_of (d_conn d) (sv r) = Some i)"
proof -
  consider (fresh) "lobbyData (sv r') = lobbyData (sv r)" "matchData (sv r') = matchData (sv r)"
    | (known) cid where "handle_known C d j ty cid r = Some r'"
    using assms by (cases "cidMap (sv r) (d_conn d)")
      (auto simp: handle_delivery_def handle_hello_def Let_def split: if_splits)
  then show ?thesis
  proof cases
    case fresh
    then show ?thesis by simp
  next
    case known
    then show ?thesis
      using lobby_change [OF known] seed_change [OF known] stage_change [OF known] chara_change [OF known]
      by blast
  qed
qed

theorem server_authority_witness:
  "\<exists>r'. handle_delivery jc (ask 1 (SetStage 5)) (round0 srv2) = Some r' \<and>
     stageID (matchData (sv r')) \<noteq> stageID (matchData srv2) \<and> side_of 1 srv2 = Some 0"
proof -
  have run: "handle_delivery jc (ask 1 (SetStage 5)) (round0 srv2) =
      Some ((round0 srv2)\<lparr>sv := srv2\<lparr>dataDirty := True, matchData := MatchData_init\<lparr>stageID := 5\<rparr>\<rparr>\<rparr>)"
    by (simp add: handle_delivery_def handle_known_def handle_setstage_def side_of_def std_codec_def fits_def)
  show ?thesis
    using server_authority [OF run, of "to_request jval_ops (SetStage 5)" MT_PREBATTLE_SETSTAGE] run
    by (simp add: MatchData_init_def)
qed

section \<open>Joining\<close>

text \<open>
  A join request is accepted exactly when the build hash matches, a seat is
  free and the name is not taken; the checks are made in that order; acceptance
  seats the sender last and leaves the others as they were, a rejection changes
  nothing.
\<close>

theorem join_outcome:
  "RegisterToWait c port hash name loc txt cid st =
     (if hash = sidecarHash st \<and> length (clients st) < 4 \<and> name \<notin> (m_name \<circ> mdata) ` set (clients st)
      then (JOIN_OK, st\<lparr>clients := clients st @ [new_member c port name loc txt cid]\<rparr>)
      else (if hash \<noteq> sidecarHash st then JR_HASH_INVALID
            else if 4 \<le> length (clients st) then JR_LOBBY_FULL else JR_NAME_TAKEN, st))"
  by (auto simp: RegisterToWait_def MAX_SF4E_PROTOCOL_USERS_def)

lemma join_accepted:
  "hash = sidecarHash st \<Longrightarrow> length (clients st) < 4 \<Longrightarrow> name \<notin> (m_name \<circ> mdata) ` set (clients st) \<Longrightarrow>
   RegisterToWait c port hash name loc txt cid st =
     (JOIN_OK, st\<lparr>clients := clients st @ [new_member c port name loc txt cid]\<rparr>)"
  by (auto simp: RegisterToWait_def MAX_SF4E_PROTOCOL_USERS_def)

section \<open>Result reports\<close>

text \<open>
  A result report for a seated index moves that client to the end of the
  queue, keeps the others in order, loses nobody and clears the match; for any
  other index the code dereferences an iterator outside the vector.
\<close>

theorem results_rotate:
  "HandleResults i st =
     (if 0 \<le> i \<and> nat i < length (clients st)
      then Some (st\<lparr>clients := take (nat i) (clients st) @ drop (Suc (nat i)) (clients st) @ [clients st ! nat i],
                   matchData := MatchData_init\<rparr>)
      else None) \<and>
   (\<forall>st'. HandleResults i st = Some st' \<longrightarrow> mset (clients st') = mset (clients st))"
proof -
  have rot: "HandleResults i st =
     (if 0 \<le> i \<and> nat i < length (clients st)
      then Some (st\<lparr>clients := take (nat i) (clients st) @ drop (Suc (nat i)) (clients st) @ [clients st ! nat i],
                   matchData := MatchData_init\<rparr>)
      else None)"
    by (auto simp: HandleResults_def erase_at_append erase_at_def)
  have perm: "mset (take k xs @ drop (Suc k) xs @ [xs ! k]) = mset xs" if "k < length xs" for k and xs :: "'a list"
  proof -
    have "mset (take k xs @ xs ! k # drop (Suc k) xs) = mset xs"
      using that by (simp add: id_take_nth_drop [symmetric])
    then show ?thesis by simp
  qed
  show ?thesis using rot perm [of "nat i" "clients st"] by auto
qed

theorem results_rotate_witness:
  "HandleResults 0 srv2 = Some (srv2\<lparr>clients := [seat 2 ''b'', seat 1 ''a'']\<rparr>) \<and> HandleResults 2 srv2 = None"
proof -
  have "srv2\<lparr>clients := cs, matchData := MatchData_init\<rparr> = srv2\<lparr>clients := cs\<rparr>" for cs
    by (simp add: srv2_def srv0_def server_init_def)
  then show ?thesis using results_rotate [of 0 srv2] results_rotate [of 2 srv2] by simp
qed

text \<open>
  Nothing checks who reports a result or which side it names: any
  connection that has said hello, seated or not, can rotate the queue with a
  valid index, and crash the server with an index outside it.
\<close>

theorem results_unchecked:
  assumes "cidMap (sv r) (d_conn d) = Some cid" "d_body d = Some j"
    "get_type C j = Some MT_LOBBY_REPORTRESULTS" "get_results C j = Some i"
  shows "handle_delivery C d r =
    (if 0 \<le> i \<and> nat i < length (clients (sv r))
     then Some (r\<lparr>sv := (the (HandleResults i (sv r)))\<lparr>dataDirty := True\<rparr>\<rparr>) else None)"
  using assms by (auto simp: handle_delivery_def handle_known_def handle_results_def HandleResults_def)

theorem results_unchecked_witness:
  "handle_delivery jc (ask 1 (ReportResults 9)) (round0 srv2) = None"
  using results_unchecked [of "round0 srv2" "ask 1 (ReportResults 9)" "\<lparr>cid_host = ''h'', cid_user = ''1''\<rparr>"
      "to_request jval_ops (ReportResults 9)" jc 9]
  by (simp add: fits_def)

section \<open>Relayed traffic\<close>

text \<open>
  A GGPO frame is relayed to one client at most, the one whose identifier
  it names, and only if its source is not another user of this server.
\<close>

theorem frame_relay_authentic:
  assumes "server_reach C (sv r)" "handle_delivery C d r = Some r'" "d_body d = Some j"
    "get_type C j = Some MT_BATTLE_GGPO_FRAME"
  shows "r' = r \<or>
    (\<exists>f m. get_frame C j = Some f \<and> m \<in> set (clients (sv r)) \<and>
       r' = r\<lparr>sent := sent r @ [(mconn m, Relayed j)]\<rparr> \<and> gf_dest f = own_cid (sv r) (mconn m) \<and>
       (cid_host (gf_src f) = identity (sv r) \<longrightarrow> gf_src f = own_cid (sv r) (d_conn d)))"
proof -
  have frame: "r' = handle_frame C d j r \<or> r' = r"
    using assms(2-4) by (auto simp: handle_delivery_def handle_known_def split: option.splits)
  have src: "cid_host x = identity (sv r) \<longrightarrow> cid_user x = to_string (d_conn d) \<longrightarrow> x = own_cid (sv r) (d_conn d)" for x
    by (cases x) (simp add: own_cid_def)
  have member: "connId (mdata m) = own_cid (sv r) (mconn m)" if "m \<in> set (clients (sv r))" for m
    using server_ok_member [OF reach_ok [OF assms(1)] that] by (simp add: member_ok_def)
  show ?thesis
    using frame src member
    by (auto simp: handle_frame_def Respond_def dest!: find_member split: option.splits if_splits)
qed

theorem frame_relay_authentic_witness:
  "\<exists>r' m. handle_delivery jc (ask 1 (FrameMsg \<lparr>gf_src = \<lparr>cid_host = ''h'', cid_user = ''1''\<rparr>,
     gf_dest = \<lparr>cid_host = ''h'', cid_user = ''2''\<rparr>, gf_data = [7]\<rparr>)) (round0 srv2) = Some r' \<and>
     map fst (sent r') = [2] \<and> m \<in> set (clients srv2) \<and> mconn m = 2"
proof -
  let ?f = "\<lparr>gf_src = \<lparr>cid_host = ''h'', cid_user = ''1''\<rparr>,
     gf_dest = \<lparr>cid_host = ''h'', cid_user = ''2''\<rparr>, gf_data = [7]\<rparr>"
  let ?j = "to_request jval_ops (FrameMsg ?f)"
  obtain r' where r': "handle_delivery jc (ask 1 (FrameMsg ?f)) (round0 srv2) = Some r'" "map fst (sent r') = [2]"
    by (simp add: handle_delivery_def handle_known_def handle_frame_def Respond_def)
  have at: "server_reach jc (sv (round0 srv2 :: jval round))"
    "d_body (ask 1 (FrameMsg ?f)) = Some ?j" "get_type jc ?j = Some MT_BATTLE_GGPO_FRAME"
    by (simp_all add: srv2_reach)
  obtain m where m: "m \<in> set (clients srv2)" "mconn m = 2"
    using frame_relay_authentic [OF at(1) r'(1) at(2,3)] r'(2) by (elim disjE exE conjE) simp_all
  show ?thesis by (rule exI [of _ r'], rule exI [of _ m]) (intro conjI r' m)
qed

text \<open>
  The source check of a forwarded message has no effect: whatever source it
  claims, a forward addressed to a seated client is delivered to it.
\<close>

theorem forward_source_unchecked:
  assumes "server_reach C (sv r)" "cidMap (sv r) (d_conn d) = Some cid" "d_body d = Some j"
    "get_type C j = Some MT_FORWARD" "get_forward C j = Some f"
    "m \<in> set (clients (sv r))" "fw_dest f = connId (mdata m)"
  shows "handle_delivery C d r = Some (r\<lparr>sent := sent r @ [(mconn m, Relayed j)]\<rparr>)"
  using assms(2-5,7) find_dest [OF reach_ok [OF assms(1)] assms(6)]
  by (auto simp: handle_delivery_def handle_known_def handle_forward_def Respond_def)

theorem forward_source_unchecked_witness:
  "handle_delivery jc (ask 1 (ForwardMsg \<lparr>fw_src = \<lparr>cid_host = ''h'', cid_user = ''9''\<rparr>,
     fw_dest = \<lparr>cid_host = ''h'', cid_user = ''2''\<rparr>, fw_msg = JNull\<rparr>)) (round0 srv2) =
   Some ((round0 srv2)\<lparr>sent := [(2, Relayed (to_request jval_ops (ForwardMsg
     \<lparr>fw_src = \<lparr>cid_host = ''h'', cid_user = ''9''\<rparr>, fw_dest = \<lparr>cid_host = ''h'', cid_user = ''2''\<rparr>,
      fw_msg = JNull\<rparr>)))]\<rparr>)"
  using forward_source_unchecked [of jc "round0 srv2" "ask 1 (ForwardMsg \<lparr>fw_src = \<lparr>cid_host = ''h'', cid_user = ''9''\<rparr>,
     fw_dest = \<lparr>cid_host = ''h'', cid_user = ''2''\<rparr>, fw_msg = JNull\<rparr>)" "\<lparr>cid_host = ''h'', cid_user = ''1''\<rparr>"
     _ _ "seat 2 ''b''"] srv2_reach
  by simp

section \<open>Rendezvous\<close>

text \<open>
  A punch-ready message of a player sets that side's flag; only when the
  other side was ready already does it send the go, to every client, and then
  both flags are down again; from anyone else it does nothing.
\<close>

theorem punch_rendezvous:
  assumes "server_reach C (sv r)" "cidMap (sv r) (d_conn d) = Some cid" "d_body d = Some j"
    "get_type C j = Some MT_PUNCH_READY"
  shows "handle_delivery C d r = Some
    (case side_of (d_conn d) (sv r) of
       None \<Rightarrow> r
     | Some i \<Rightarrow>
         if duo_get (punchReady (sv r)) (1 - i)
         then r\<lparr>sv := (sv r)\<lparr>punchReady := (False, False)\<rparr>,
                sent := sent r @ map (\<lambda>m. (mconn m, PunchGoMsg)) (clients (sv r))\<rparr>
         else r\<lparr>sv := (sv r)\<lparr>punchReady := duo_set (False, False) i True\<rparr>\<rparr>)"
proof (cases "side_of (d_conn d) (sv r)")
  case None
  then show ?thesis using assms by (simp add: handle_delivery_def handle_known_def handle_punch_def)
next
  case (Some i)
  obtain a b where ab: "punchReady (sv r) = (a, b)" by (cases "punchReady (sv r)")
  have "\<not> (a \<and> b)" using server_ok_punch [OF reach_ok [OF assms(1)]] ab by simp
  moreover have "i = 0 \<or> i = 1" using side_of_Some [OF Some] by auto
  ultimately show ?thesis
    using assms Some ab
    by (auto simp: handle_delivery_def handle_known_def handle_punch_def Let_def BroadcastMessage_def)
qed

theorem punch_rendezvous_witness:
  "handle_delivery jc (ask 2 PunchReadyMsg) (round0 (srv2\<lparr>punchReady := (True, False)\<rparr>)) =
     Some ((round0 (srv2\<lparr>punchReady := (False, False)\<rparr>))\<lparr>sent := [(1, PunchGoMsg), (2, PunchGoMsg)]\<rparr>)"
proof -
  have run: "run_opt (handle_delivery jc) [ask 1 PunchReadyMsg] (round0 srv2) =
      Some (round0 (srv2\<lparr>punchReady := (True, False)\<rparr>))"
    by (simp add: handle_delivery_def handle_known_def handle_punch_def side_of_def Let_def std_codec_def
        round0_def)
  have "\<exists>outs. server_step jc (Some [Some (ask 1 PunchReadyMsg)]) srv2 =
      Some (srv2\<lparr>punchReady := (True, False)\<rparr>, outs, 0)"
    using run by (simp add: server_step_def server_loop_run delivered_def round0_def [symmetric]
        frame_simps Let_def) (simp add: srv2_def srv0_def server_init_def)
  then have reach: "server_reach jc (srv2\<lparr>punchReady := (True, False)\<rparr>)"
    using reach_step [OF srv2_reach] by blast
  show ?thesis
    using punch_rendezvous [of jc "round0 (srv2\<lparr>punchReady := (True, False)\<rparr>)" "ask 2 PunchReadyMsg"
        "\<lparr>cid_host = ''h'', cid_user = ''2''\<rparr>" "to_request jval_ops PunchReadyMsg"] reach
    by (simp add: side_of_def round0_def)
qed

text \<open>
  A battle-loaded message marks its sender and decides the synced
  broadcast: it is asked for exactly when every seated client is then loaded;
  no other message changes that decision.
\<close>

theorem battle_loaded_barrier:
  assumes "handle_delivery C d r = Some r'" "d_body d = Some j" "get_type C j = Some ty"
    "cidMap (sv r) (d_conn d) = Some cid"
  shows "(ty = MT_BATTLE_LOADED \<longrightarrow>
      clients (sv r') = map (mark_loaded (d_conn d)) (clients (sv r)) \<and>
      (bSendBattleSynced r' \<longleftrightarrow> (\<forall>m\<in>set (clients (sv r')). is_loaded m)) \<and>
      (bSendBattleSynced r' \<longleftrightarrow> (\<forall>m\<in>set (clients (sv r)). mconn m = d_conn d \<or> is_loaded m))) \<and>
    (ty \<noteq> MT_BATTLE_LOADED \<longrightarrow> bSendBattleSynced r' = bSendBattleSynced r)"
proof (intro conjI impI)
  assume "ty = MT_BATTLE_LOADED"
  then have r': "r' = handle_loaded d r"
    using assms by (simp add: delivery_known handle_known_def)
  show "clients (sv r') = map (mark_loaded (d_conn d)) (clients (sv r))"
    by (simp add: r' handle_loaded_def case_prod_unfold Let_def loaded_loop_fst)
  then show "bSendBattleSynced r' \<longleftrightarrow> (\<forall>m\<in>set (clients (sv r')). is_loaded m)"
    by (simp add: r' handle_loaded_def case_prod_unfold Let_def loaded_loop_snd)
  show "bSendBattleSynced r' \<longleftrightarrow> (\<forall>m\<in>set (clients (sv r)). mconn m = d_conn d \<or> is_loaded m)"
    by (simp add: r' handle_loaded_def case_prod_unfold Let_def loaded_loop_snd is_loaded_mark)
next
  assume "ty \<noteq> MT_BATTLE_LOADED"
  then show "bSendBattleSynced r' = bSendBattleSynced r"
    using assms by (simp add: delivery_known synced_known)
qed

theorem battle_loaded_barrier_witness:
  "\<exists>r'. handle_delivery jc (ask 1 Loaded) (round0 srv2) = Some r' \<and> \<not> bSendBattleSynced r'"
proof -
  obtain r' where r': "handle_delivery jc (ask 1 Loaded) (round0 srv2) = Some r'"
    by (simp add: handle_delivery_def handle_known_def std_codec_def)
  have "bSendBattleSynced r' \<longleftrightarrow> (\<forall>m\<in>set (clients (sv (round0 srv2 :: jval round))). mconn m = 1 \<or> is_loaded m)"
    using battle_loaded_barrier [OF r', of "to_request jval_ops Loaded" MT_BATTLE_LOADED]
    by (simp add: is_loaded_mark)
  then have "\<not> bSendBattleSynced r'" by (simp add: is_loaded_def)
  with r' show ?thesis by blast
qed

section \<open>Ready\<close>

text \<open>
  The server tells clients that everybody is ready only in a poll in which
  a seated player's ready message left both sides' ready numbers set.
\<close>

theorem all_ready_sound:
  assumes "server_step C (Some ds) st = Some (st', outs, rc)" "(c, AllReady) \<in> set outs"
  shows "\<exists>ds1 d ds2 r1 r2. delivered ds = ds1 @ d # ds2 \<and>
    run_opt (handle_delivery C) ds1 (round0 st) = Some r1 \<and> handle_delivery C d r1 = Some r2 \<and>
    completes_ready C d r1 r2"
  using assms(1)
proof (cases rule: server_step_cases)
  case (complete es r)
  have "no_broadcast r"
    using srv_quiet.run_inv [OF complete(3)] by (simp add: no_broadcast_def round0_def)
  then have "bSendLobbyAllReady r"
    using assms(2) complete(5)
    by (auto simp: sent_flush no_broadcast_def data_update_def split: if_splits)
  then show ?thesis using all_ready_run [OF complete(3)] complete(1) by simp
next
  case (cut es r)
  have "no_broadcast r"
    using srv_quiet.run_inv [OF cut(3)] by (simp add: no_broadcast_def round0_def)
  then show ?thesis using assms(2) cut(5) by (auto simp: no_broadcast_def)
qed (use assms(2) in simp)

theorem all_ready_sound_witness:
  "\<exists>st' outs. server_step jc (Some [Some (ask 1 Ready), Some (ask 2 Ready)]) srv2 = Some (st', outs, 0) \<and>
     (\<exists>ds1 d ds2 r1 r2. delivered [Some (ask 1 Ready), Some (ask 2 Ready)] = ds1 @ d # ds2 \<and>
        run_opt (handle_delivery jc) ds1 (round0 srv2) = Some r1 \<and> handle_delivery jc d r1 = Some r2 \<and>
        completes_ready jc d r1 r2)"
proof -
  have "\<exists>st' outs. server_step jc (Some [Some (ask 1 Ready), Some (ask 2 Ready)]) srv2 = Some (st', outs, 0) \<and>
      (1, AllReady) \<in> set outs"
    by (simp add: server_step_def handle_delivery_def handle_known_def handle_ready_def side_of_def
        Let_def sent_flush MatchData_IsAllReady_def MatchData_init_def round0_def [symmetric])
  then obtain st' outs where
    s: "server_step jc (Some [Some (ask 1 Ready), Some (ask 2 Ready)]) srv2 = Some (st', outs, 0)"
      "(1, AllReady) \<in> set outs" by blast
  show ?thesis using all_ready_sound [OF s] s(1) by blast
qed

text \<open>
  A ready number outlives the player who set it. When the first of three
  clients disconnects after the second was ready, the second becomes side 0 and
  the third side 1, whose number is still set: one more ready message of the
  second client announces to the third, who never sent one, that all are ready.
\<close>

theorem stale_ready:
  assumes "clients st = [a, b, c]" "distinct [mconn a, mconn b, mconn c]"
    "duo_get (readyMessageNum (matchData st)) 1 \<noteq> -1"
    "cidMap st (mconn b) = Some cid"
    "d_conn d = mconn b" "d_body d = Some j" "get_type C j = Some MT_LOBBY_READY"
    "get_lobbyready C j = Some ()" "d_number d \<noteq> -1"
  shows "\<exists>st' outs. server_step C (Some [Some d])
      (fst (server_conn_changed acc CS_ClosedByPeer CS_Connected (mconn a) st)) = Some (st', outs, 0) \<and>
    (mconn c, AllReady) \<in> set outs"
proof -
  let ?st = "fst (server_conn_changed acc CS_ClosedByPeer CS_Connected (mconn a) st)"
  have st: "clients ?st = [b, c]" "matchData ?st = matchData st" "cidMap ?st = cidMap st"
    using assms(1) by (simp_all add: server_conn_changed_def drop_client_def)
  obtain x y where xy: "readyMessageNum (matchData st) = (x, y)"
    by (cases "readyMessageNum (matchData st)")
  show ?thesis
    using assms(2-9) xy
    by (simp add: server_step_def handle_delivery_def handle_known_def handle_ready_def side_of_def
        Let_def sent_flush MatchData_IsAllReady_def st del: ex_simps)
qed

theorem stale_ready_witness:
  "\<exists>st' outs. server_step jc (Some [Some (ask 2 Ready)])
      (fst (server_conn_changed True CS_ClosedByPeer CS_Connected 1
        (srv2\<lparr>clients := [seat 1 ''a'', seat 2 ''b'', seat 3 ''c''],
              matchData := MatchData_init\<lparr>readyMessageNum := (-1, 5)\<rparr>\<rparr>))) = Some (st', outs, 0) \<and>
    (3, AllReady) \<in> set outs"
  using stale_ready [of "srv2\<lparr>clients := [seat 1 ''a'', seat 2 ''b'', seat 3 ''c''],
      matchData := MatchData_init\<lparr>readyMessageNum := (-1, 5)\<rparr>\<rparr>" "seat 1 ''a''" "seat 2 ''b''" "seat 3 ''c''"
      "\<lparr>cid_host = ''h'', cid_user = ''2''\<rparr>" "ask 2 Ready" "to_request jval_ops Ready" jc True]
  by simp

end
