(* ===== verification/C_Strings.thy ===== *)
theory C_Strings
  imports Prelude "HOL-Library.Sublist" "HOL-Library.Char_ord"
begin

text \<open>
  The C string functions the sources call, on character lists without the
  terminator: strchr, strrchr-free searches, strstr, the truncating copy,
  case-insensitive comparison, and the numbers atoi and strtol read. A pointer
  into a string is the rest of the string from there.
\<close>

definition char_lower :: "char \<Rightarrow> char" where
  "char_lower c = (if CHR ''A'' \<le> c \<and> c \<le> CHR ''Z'' then char_of (of_char c + 32 :: nat) else c)"

definition char_upper :: "char \<Rightarrow> char" where
  "char_upper c = (if CHR ''a'' \<le> c \<and> c \<le> CHR ''z'' then char_of (of_char c - 32 :: nat) else c)"

definition stricmp_eq :: "string \<Rightarrow> string \<Rightarrow> bool" where
  "stricmp_eq a b \<longleftrightarrow> map char_lower a = map char_lower b"

definition is_digit :: "char \<Rightarrow> bool" where
  "is_digit c \<longleftrightarrow> CHR ''0'' \<le> c \<and> c \<le> CHR ''9''"

definition is_space :: "char \<Rightarrow> bool" where
  "is_space c \<longleftrightarrow> c \<in> {CHR '' '', CHR 0x09, CHR 0x0A, CHR 0x0B, CHR 0x0C, CHR 0x0D}"

fun strchr :: "string \<Rightarrow> char \<Rightarrow> string option" where
  "strchr [] c = None"
| "strchr (x # xs) c = (if x = c then Some (x # xs) else strchr xs c)"

fun starts :: "string \<Rightarrow> string \<Rightarrow> bool" where
  "starts [] s = True"
| "starts (p # ps) [] = False"
| "starts (p # ps) (x # xs) = (p = x \<and> starts ps xs)"

fun strstr :: "string \<Rightarrow> string \<Rightarrow> string option" where
  "strstr [] needle = (if needle = [] then Some [] else None)"
| "strstr (x # xs) needle = (if starts needle (x # xs) then Some (x # xs) else strstr xs needle)"

text \<open>strncpy_s with _TRUNCATE into a buffer of n bytes.\<close>

definition copy_trunc :: "nat \<Rightarrow> string \<Rightarrow> string" where
  "copy_trunc n s = take (n - 1) s"

text \<open>The value of the digits at the front, and atoi: white space, a sign, digits;
  the result stays in the range of a 32-bit int.\<close>

definition read_digits :: "string \<Rightarrow> nat" where
  "read_digits s = read_dec (takeWhile is_digit s)"

definition clamp_int :: "int \<Rightarrow> int" where
  "clamp_int i = (if i < - (2 ^ 31) then - (2 ^ 31) else if 2 ^ 31 - 1 < i then 2 ^ 31 - 1 else i)"

definition atoi :: "string \<Rightarrow> int" where
  "atoi s = (case dropWhile is_space s of
      [] \<Rightarrow> 0
    | c # cs \<Rightarrow> clamp_int
        (if c = CHR ''-'' then - int (read_digits cs)
         else if c = CHR ''+'' then int (read_digits cs)
         else int (read_digits (c # cs))))"

section \<open>Facts\<close>

lemma starts_prefix: "starts p s \<longleftrightarrow> prefix p s"
  by (induction p s rule: starts.induct) auto

lemma strchr_append: "c \<notin> set xs \<Longrightarrow> strchr (xs @ c # ys) c = Some (c # ys)"
  by (induction xs) auto

lemma strchr_None: "strchr s c = None \<longleftrightarrow> c \<notin> set s"
  by (induction s) auto

lemma strchr_Some: "strchr s c = Some t \<Longrightarrow> \<exists>p. s = p @ t \<and> c \<notin> set p \<and> (\<exists>u. t = c # u)"
proof (induction s)
  case (Cons x xs)
  show ?case
  proof (cases "x = c")
    case True
    then show ?thesis using Cons.prems by (intro exI [of _ "[]"]) auto
  next
    case False
    then obtain p u where "xs = p @ t" "c \<notin> set p" "t = c # u" using Cons by auto
    then show ?thesis using False by (intro exI [of _ "x # p"]) auto
  qed
qed simp

lemma strstr_Some: "strstr s n = Some t \<Longrightarrow> suffix t s \<and> prefix n t"
proof (induction s)
  case (Cons x xs)
  then show ?case
    by (cases "starts n (x # xs)") (auto simp: starts_prefix intro: suffix_ConsI)
qed (auto split: if_splits)

lemma stricmp_refl [simp]: "stricmp_eq s s"
  by (simp add: stricmp_eq_def)

lemma length_copy_trunc: "0 < n \<Longrightarrow> length (copy_trunc n s) < n"
  by (simp add: copy_trunc_def)

lemma copy_trunc_fits: "length s < n \<Longrightarrow> copy_trunc n s = s"
  by (simp add: copy_trunc_def)

lemma of_char_digit_char: "d < 10 \<Longrightarrow> of_char (digit_char d) = 48 + d"
  by (simp add: digit_char_def)

lemma is_digit_digit_char: "d < 10 \<Longrightarrow> is_digit (digit_char d)"
  by (simp add: is_digit_def less_eq_char_def of_char_digit_char)

lemma dec_nat_digits: "c \<in> set (dec_nat n) \<Longrightarrow> is_digit c"
proof (induction n rule: dec_nat.induct)
  case (1 n)
  then show ?case
    by (cases "n < 10") (auto simp: dec_nat.simps [of n] is_digit_digit_char)
qed

lemma dec_nat_nonempty [simp]: "dec_nat n \<noteq> []"
  by (simp add: dec_nat.simps [of n])

lemma read_digits_dec_nat: "c = [] \<or> \<not> is_digit (hd c) \<Longrightarrow> read_digits (dec_nat n @ c) = n"
proof -
  assume c: "c = [] \<or> \<not> is_digit (hd c)"
  have "takeWhile is_digit (dec_nat n @ c) = dec_nat n @ takeWhile is_digit c"
    by (rule takeWhile_append2) (rule dec_nat_digits)
  moreover have "takeWhile is_digit c = []" using c by (cases c) auto
  ultimately show ?thesis by (simp add: read_digits_def)
qed

lemma digit_not_space: "is_digit c \<Longrightarrow> \<not> is_space c"
  by (auto simp: is_digit_def is_space_def less_eq_char_def)

lemma digit_not_sign: "is_digit c \<Longrightarrow> c \<noteq> CHR ''-'' \<and> c \<noteq> CHR ''+''"
  by (auto simp: is_digit_def less_eq_char_def)

text \<open>atoi reads back what to_string wrote.\<close>

lemma atoi_dec_nat:
  assumes "n < 2 ^ 31" "c = [] \<or> \<not> is_digit (hd c)"
  shows "atoi (dec_nat n @ c) = int n"
proof -
  obtain d ds where d: "dec_nat n = d # ds" by (cases "dec_nat n") auto
  then have "is_digit d" using dec_nat_digits [of d n] by simp
  then have "dropWhile is_space (dec_nat n @ c) = d # ds @ c" "d \<noteq> CHR ''-''" "d \<noteq> CHR ''+''"
    using digit_not_space digit_not_sign by (auto simp: d)
  moreover have "read_digits (d # ds @ c) = n" using read_digits_dec_nat [OF assms(2), of n] by (simp add: d)
  ultimately show ?thesis using assms(1) by (simp add: atoi_def clamp_int_def)
qed

end
