(* ===== verification/Udp_Relay.thy ===== *)
theory Udp_Relay
  imports Prelude
begin

text \<open>
  The UDP relay process (relay/ggpo_udp_relay.cxx): packet recognition, the slot
  table of the legacy and version-2 registrations, the active and pending
  generations of the version-3 registration, forwarding, and the idle exit; and
  the registration packet its clients build (session/sf4e__GgpoTransport.cxx).
  Bytes are 8-bit words; ports are in host order. One iteration of the loop of
  main is a function of what select and recvfrom returned.
\<close>

section \<open>Tokens and addresses\<close>

definition byte_isxdigit :: "8 word \<Rightarrow> bool" where
  "byte_isxdigit b \<longleftrightarrow> (0x30 \<le> b \<and> b \<le> 0x39) \<or> (0x41 \<le> b \<and> b \<le> 0x46) \<or> (0x61 \<le> b \<and> b \<le> 0x66)"

definition byte_tolower :: "8 word \<Rightarrow> 8 word" where
  "byte_tolower b = (if 0x41 \<le> b \<and> b \<le> 0x5A then b + 0x20 else b)"

definition IsHexToken :: "8 word list \<Rightarrow> bool" where
  "IsHexToken t \<longleftrightarrow> length t = 32 \<and> (\<forall>b\<in>set t. byte_isxdigit b)"

text \<open>strncmp stops at a terminator common to both.\<close>

fun strncmp_eq :: "nat \<Rightarrow> 8 word list \<Rightarrow> 8 word list \<Rightarrow> bool" where
  "strncmp_eq 0 a b = True"
| "strncmp_eq (Suc n) (x # a) (y # b) = (x = y \<and> (x = 0 \<or> strncmp_eq n a b))"
| "strncmp_eq (Suc n) a b = (a = [] \<and> b = [])"

definition TokenMatches :: "8 word list \<Rightarrow> 8 word list \<Rightarrow> bool" where
  "TokenMatches expected received =
     strncmp_eq 32 (map byte_tolower (take 32 expected)) (map byte_tolower (take 32 received))"

record sockaddr =
  sa_ip :: "32 word"
  sa_port :: "16 word"

definition SameEndpoint :: "sockaddr \<Rightarrow> sockaddr \<Rightarrow> bool" where
  "SameEndpoint a b \<longleftrightarrow> sa_ip a = sa_ip b \<and> sa_port a = sa_port b"

definition SameIp :: "sockaddr \<Rightarrow> sockaddr \<Rightarrow> bool" where
  "SameIp a b \<longleftrightarrow> sa_ip a = sa_ip b"

lemma SameEndpoint_iff [simp]: "SameEndpoint a b \<longleftrightarrow> a = b"
  by (cases a; cases b) (simp add: SameEndpoint_def)

section \<open>Big-endian 64-bit numbers\<close>

definition ReadU64Be :: "8 word list \<Rightarrow> 64 word" where
  "ReadU64Be data = foldl (\<lambda>v b. or (push_bit 8 v) (ucast b)) 0 (take 8 data)"

fun write_be :: "nat \<Rightarrow> 64 word \<Rightarrow> 8 word list" where
  "write_be 0 v = []"
| "write_be (Suc n) v = write_be n (drop_bit 8 v) @ [ucast (and v 0xff)]"

definition WriteU64Be :: "64 word \<Rightarrow> 8 word list" where
  "WriteU64Be v = write_be 8 v"

section \<open>Slots and generations\<close>

record endpoint =
  ep_addr :: sockaddr
  ep_active :: bool

definition no_endpoint :: endpoint where
  "no_endpoint = \<lparr>ep_addr = \<lparr>sa_ip = 0, sa_port = 0\<rparr>, ep_active = False\<rparr>"

record generation_key =
  gk_ready :: "64 word duo"
  gk_valid :: bool

record generation =
  gen_key :: generation_key
  gen_slots :: "endpoint duo"

definition no_generation :: generation where
  "no_generation = \<lparr>gen_key = \<lparr>gk_ready = (0, 0), gk_valid = False\<rparr>, gen_slots = (no_endpoint, no_endpoint)\<rparr>"

definition SameGeneration :: "generation_key \<Rightarrow> generation_key \<Rightarrow> bool" where
  "SameGeneration a b \<longleftrightarrow> gk_valid a \<and> gk_valid b \<and>
     duo_get (gk_ready a) 0 = duo_get (gk_ready b) 0 \<and> duo_get (gk_ready a) 1 = duo_get (gk_ready b) 1"

definition BothSlotsActive :: "endpoint duo \<Rightarrow> bool" where
  "BothSlotsActive slots \<longleftrightarrow> ep_active (duo_get slots 0) \<and> ep_active (duo_get slots 1)"

definition ResetGeneration :: "generation_key \<Rightarrow> generation" where
  "ResetGeneration key = no_generation\<lparr>gen_key := key\<rparr>"

definition FindSlotByEndpoint :: "endpoint duo \<Rightarrow> sockaddr \<Rightarrow> nat option" where
  "FindSlotByEndpoint slots from =
     find (\<lambda>i. ep_active (duo_get slots i) \<and> SameEndpoint (ep_addr (duo_get slots i)) from) [0, 1]"

text \<open>-1 for no slot of the address, -2 for more than one.\<close>

fun by_ip_loop :: "endpoint duo \<Rightarrow> sockaddr \<Rightarrow> nat list \<Rightarrow> int \<Rightarrow> int" where
  "by_ip_loop slots from [] found = found"
| "by_ip_loop slots from (i # is) found =
     (if ep_active (duo_get slots i) \<and> SameIp (ep_addr (duo_get slots i)) from
      then (if 0 \<le> found then -2 else by_ip_loop slots from is (int i))
      else by_ip_loop slots from is found)"

definition FindSlotByIp :: "endpoint duo \<Rightarrow> sockaddr \<Rightarrow> int" where
  "FindSlotByIp slots from = by_ip_loop slots from [0, 1] (-1)"

definition FindSlotForRegistration :: "endpoint duo \<Rightarrow> sockaddr \<Rightarrow> 16 word \<Rightarrow> nat option" where
  "FindSlotForRegistration slots from declaredPort =
     (case FindSlotByEndpoint slots from of
        Some i \<Rightarrow> Some i
      | None \<Rightarrow>
         (case find (\<lambda>i. \<not> ep_active (duo_get slots i)) [0, 1] of
            Some i \<Rightarrow> Some i
          | None \<Rightarrow>
             (if 0 \<le> FindSlotByIp slots from then Some (nat (FindSlotByIp slots from))
              else if declaredPort \<noteq> 0 then
                (case filter (\<lambda>i. ep_active (duo_get slots i) \<and>
                         sa_port (ep_addr (duo_get slots i)) = declaredPort) [0, 1] of
                   [i] \<Rightarrow> Some i
                 | _ \<Rightarrow> None)
              else None)))"

section \<open>The relay\<close>

record relay =
  rl_slots :: "endpoint duo"
  rl_active :: generation
  rl_pending :: generation
  rl_lastTraffic :: "64 word"

definition relay_init :: "64 word \<Rightarrow> relay" where
  "relay_init now = \<lparr>rl_slots = (no_endpoint, no_endpoint), rl_active = no_generation,
     rl_pending = no_generation, rl_lastTraffic = now\<rparr>"

type_synonym datagram = "sockaddr \<times> 8 word list"

definition kMagicReg :: "8 word list" where "kMagicReg = [0x53, 0x46, 0x34, 0x47]"
definition kMagicHealth :: "8 word list" where "kMagicHealth = [0x53, 0x46, 0x34, 0x48]"
definition kRespHealth :: "8 word list" where "kRespHealth = [0x53, 0x46, 0x34, 0x4F, 0x4B]"
definition kRespRegistered :: "8 word list" where "kRespRegistered = [0x53, 0x46, 0x34, 0x52]"
definition kRespWaiting :: "8 word list" where "kRespWaiting = [0x53, 0x46, 0x34, 0x57]"
definition kMaxPacket :: nat where "kMaxPacket = 2048"

definition is_reg :: "nat \<Rightarrow> 8 word list \<Rightarrow> bool" where
  "is_reg n buf \<longleftrightarrow> length buf = n \<and> take 4 buf = kMagicReg"

definition is_reg_v3 :: "8 word list \<Rightarrow> bool" where
  "is_reg_v3 buf \<longleftrightarrow> is_reg 54 buf \<and> buf ! 36 = 3"

definition packet_key :: "8 word list \<Rightarrow> generation_key" where
  "packet_key buf = \<lparr>gk_ready = (ReadU64Be (drop 38 buf), ReadU64Be (drop 46 buf)), gk_valid = True\<rparr>"

definition bind_slot :: "endpoint duo \<Rightarrow> nat \<Rightarrow> sockaddr \<Rightarrow> endpoint duo" where
  "bind_slot slots i from = duo_set slots i \<lparr>ep_addr = from, ep_active = True\<rparr>"

text \<open>A version-3 registration whose token matched and whose slot byte is 0 or 1.\<close>

definition register_v3 :: "sockaddr \<Rightarrow> generation_key \<Rightarrow> nat \<Rightarrow> relay \<Rightarrow> relay \<times> datagram list" where
  "register_v3 from key slot st =
     (if SameGeneration (gen_key (rl_active st)) key
      then (let act = (rl_active st)\<lparr>gen_slots := bind_slot (gen_slots (rl_active st)) slot from\<rparr>
            in (st\<lparr>rl_active := act\<rparr>,
                [(from, if BothSlotsActive (gen_slots act) then kRespRegistered else kRespWaiting)]))
      else (let base = (if SameGeneration (gen_key (rl_pending st)) key then rl_pending st
                        else ResetGeneration key);
                pend = base\<lparr>gen_slots := bind_slot (gen_slots base) slot from\<rparr>
            in if BothSlotsActive (gen_slots pend)
               then (st\<lparr>rl_active := pend, rl_pending := no_generation\<rparr>, [(from, kRespRegistered)])
               else (st\<lparr>rl_pending := pend\<rparr>, [(from, kRespWaiting)])))"

definition register_legacy :: "sockaddr \<Rightarrow> 16 word \<Rightarrow> relay \<Rightarrow> relay \<times> datagram list" where
  "register_legacy from declaredPort st =
     (case FindSlotForRegistration (rl_slots st) from declaredPort of
        None \<Rightarrow> (st, [])
      | Some i \<Rightarrow>
         (let old = duo_get (rl_slots st) i;
              rematchRebind = (ep_active old \<and> \<not> SameEndpoint (ep_addr old) from);
              s1 = bind_slot (rl_slots st) i from;
              peer = (if i = 0 then 1 else 0);
              s2 = (if rematchRebind \<and> ep_active (duo_get s1 peer)
                    then duo_set s1 peer ((duo_get s1 peer)\<lparr>ep_active := False\<rparr>) else s1)
          in (st\<lparr>rl_slots := s2\<rparr>,
              [(from, if BothSlotsActive s2 then kRespRegistered else kRespWaiting)])))"

definition forward_packet :: "sockaddr \<Rightarrow> 8 word list \<Rightarrow> relay \<Rightarrow> relay \<times> datagram list" where
  "forward_packet from buf st =
     (let v3 = gk_valid (gen_key (rl_active st));
          slots = (if v3 then gen_slots (rl_active st) else rl_slots st);
          (slots', src) =
            (case FindSlotByEndpoint slots from of
               Some i \<Rightarrow> (slots, Some i)
             | None \<Rightarrow>
                (let ip = (if v3 then -1 else FindSlotByIp slots from)
                 in if 0 \<le> ip
                    then (duo_set slots (nat ip) ((duo_get slots (nat ip))\<lparr>ep_addr := from\<rparr>), Some (nat ip))
                    else (slots, None)));
          st' = (if v3 then st\<lparr>rl_active := (rl_active st)\<lparr>gen_slots := slots'\<rparr>\<rparr>
                 else st\<lparr>rl_slots := slots'\<rparr>)
      in case src of
           None \<Rightarrow> (st', [])
         | Some i \<Rightarrow>
            (let dst = (if i = 0 then 1 else 0)
             in if \<not> ep_active (duo_get slots' dst) then (st', [])
                else (st', [(ep_addr (duo_get slots' dst), buf)])))"

definition handle_packet :: "8 word list \<Rightarrow> sockaddr \<Rightarrow> 8 word list \<Rightarrow> relay \<Rightarrow> relay \<times> datagram list" where
  "handle_packet token from buf st =
     (if length buf = 4 \<and> buf = kMagicHealth then (st, [(from, kRespHealth)])
      else if is_reg_v3 buf then
        (if \<not> TokenMatches token (drop 4 buf) then (st, [])
         else if 1 < buf ! 37 then (st, [])
         else register_v3 from (packet_key buf) (unat (buf ! 37)) st)
      else if is_reg 36 buf \<or> is_reg 38 buf then
        (if \<not> TokenMatches token (drop 4 buf) then (st, [])
         else register_legacy from
           (if is_reg 38 buf then or (push_bit 8 (ucast (buf ! 36))) (ucast (buf ! 37)) else 0) st)
      else forward_packet from buf st)"

text \<open>What one iteration of the loop sees.\<close>

datatype relay_event =
    SelectFailed bool
  | SelectTimeout "64 word"
  | RecvFailed "64 word"
  | Received "64 word" sockaddr "8 word list"

datatype loop_exit = Continue | Stop

definition idle_expired :: "int \<Rightarrow> 64 word \<Rightarrow> relay \<Rightarrow> bool" where
  "idle_expired idleExitSec now st \<longleftrightarrow> 0 < idleExitSec \<and> word_of_int idleExitSec * 1000 < now - rl_lastTraffic st"

definition relay_iter ::
  "8 word list \<Rightarrow> int \<Rightarrow> relay_event \<Rightarrow> relay \<Rightarrow> relay \<times> datagram list \<times> loop_exit" where
  "relay_iter token idleExitSec ev st =
     (case ev of
        SelectFailed interrupted \<Rightarrow> (st, [], if interrupted then Continue else Stop)
      | SelectTimeout now \<Rightarrow> (st, [], if idle_expired idleExitSec now st then Stop else Continue)
      | RecvFailed now \<Rightarrow> (st, [], if idle_expired idleExitSec now st then Stop else Continue)
      | Received now from buf \<Rightarrow>
          (if idle_expired idleExitSec now st then (st, [], Stop)
           else (let (st', outs) = handle_packet token from (take kMaxPacket buf)
                       (st\<lparr>rl_lastTraffic := now\<rparr>)
                 in (st', outs, Continue))))"

fun relay_run :: "8 word list \<Rightarrow> int \<Rightarrow> relay_event list \<Rightarrow> relay \<Rightarrow> relay \<times> datagram list" where
  "relay_run token idle [] st = (st, [])"
| "relay_run token idle (ev # evs) st =
     (case relay_iter token idle ev st of
        (st', outs, Stop) \<Rightarrow> (st', outs)
      | (st', outs, Continue) \<Rightarrow> (let (st'', outs') = relay_run token idle evs st' in (st'', outs @ outs')))"

text \<open>The registration a client sends, and its check of its arguments.\<close>

definition reg_packet_v3 :: "8 word list \<Rightarrow> 8 word \<Rightarrow> 64 word \<Rightarrow> 64 word \<Rightarrow> 8 word list" where
  "reg_packet_v3 token slot n0 n1 = kMagicReg @ take 32 token @ [3, slot] @ WriteU64Be n0 @ WriteU64Be n1"

section \<open>The wire format\<close>

lemma low_byte: "ucast (ucast (and v 0xff) :: 8 word) = take_bit 8 (v :: 64 word)"
proof -
  have "and v 0xff = take_bit 8 v" by (simp add: take_bit_eq_mask mask_eq_exp_minus_1)
  then show ?thesis by (auto intro!: bit_word_eqI simp: bit_simps)
qed

lemma read_write_be:
  "foldl (\<lambda>v b. or (push_bit 8 v) (ucast b)) acc (write_be n v) =
     (or (push_bit (8 * n) acc) (take_bit (8 * n) v) :: 64 word)"
proof (induction n arbitrary: v)
  case 0
  then show ?case by simp
next
  case (Suc n)
  show ?case
    by (rule bit_word_eqI) (auto simp: Suc low_byte bit_simps)
qed

lemma length_write_be [simp]: "length (write_be n v) = n"
  by (induction n arbitrary: v) auto

lemma u64_roundtrip [simp]: "ReadU64Be (WriteU64Be v @ rest) = v"
  by (simp add: ReadU64Be_def WriteU64Be_def read_write_be) (rule bit_word_eqI, simp add: bit_simps)

lemma u64_roundtrip' [simp]: "ReadU64Be (WriteU64Be v) = v"
  using u64_roundtrip [of v "[]"] by simp

lemma length_WriteU64Be [simp]: "length (WriteU64Be v) = 8"
  by (simp add: WriteU64Be_def)

lemma strncmp_eq_refl: "strncmp_eq n xs xs"
proof (induction n arbitrary: xs)
  case (Suc n)
  then show ?case by (cases xs) auto
qed simp

lemma token_refl: "length t = 32 \<Longrightarrow> TokenMatches t (t @ rest)"
  by (simp add: TokenMatches_def strncmp_eq_refl)

text \<open>What a client sends is what the relay reads.\<close>

lemma reg_packet_parts:
  assumes "length t = 32"
  shows "is_reg_v3 (reg_packet_v3 t s n0 n1)" "reg_packet_v3 t s n0 n1 ! 37 = s"
    "drop 4 (reg_packet_v3 t s n0 n1) = t @ [3, s] @ WriteU64Be n0 @ WriteU64Be n1"
    "packet_key (reg_packet_v3 t s n0 n1) = \<lparr>gk_ready = (n0, n1), gk_valid = True\<rparr>"
    "length (reg_packet_v3 t s n0 n1) = 54"
  using assms
  by (simp_all add: reg_packet_v3_def is_reg_v3_def is_reg_def kMagicReg_def packet_key_def nth_append)

section \<open>The slot table\<close>

text \<open>The interface forwarding relies on: a table that remembers the address bound to
  each of two slots and finds a slot by address.\<close>

locale peer_table =
  fixes bind :: "'t \<Rightarrow> nat \<Rightarrow> sockaddr \<Rightarrow> 't"
    and find_peer :: "'t \<Rightarrow> sockaddr \<Rightarrow> nat option"
    and addr_of :: "'t \<Rightarrow> nat \<Rightarrow> sockaddr option"
  assumes addr_bind: "i < 2 \<Longrightarrow> addr_of (bind t i a) i = Some a"
    and addr_other: "i < 2 \<Longrightarrow> j < 2 \<Longrightarrow> i \<noteq> j \<Longrightarrow> addr_of (bind t i a) j = addr_of t j"
    and find_sound: "find_peer t a = Some i \<Longrightarrow> i < 2 \<and> addr_of t i = Some a"
    and find_complete: "i < 2 \<Longrightarrow> addr_of t i = Some a \<Longrightarrow> find_peer t a \<noteq> None"
begin

lemma find_unique:
  assumes "i < 2" "addr_of t i = Some a" "\<And>j. j < 2 \<Longrightarrow> addr_of t j = Some a \<Longrightarrow> j = i"
  shows "find_peer t a = Some i"
  using find_complete [OF assms(1,2)] find_sound [of t a] assms(3) by fastforce

lemma both_bound:
  assumes "addr_of t 0 = Some a" "addr_of t 1 = Some b" "a \<noteq> b"
  shows "find_peer t a = Some 0" "find_peer t b = Some 1"
proof -
  have "j = 0" if "j < 2" "addr_of t j = Some a" for j
    using that assms by (cases j) (auto simp: less_Suc_eq numeral_2_eq_2)
  then show "find_peer t a = Some 0" using assms(1) by (intro find_unique) auto
  have "j = 1" if "j < 2" "addr_of t j = Some b" for j
    using that assms by (cases j) (auto simp: less_Suc_eq numeral_2_eq_2)
  then show "find_peer t b = Some 1" using assms(2) by (intro find_unique) auto
qed

lemma find_bound: "i < 2 \<Longrightarrow> find_peer (bind t i a) a \<noteq> None"
  using find_complete addr_bind by blast

lemma absent: "find_peer t a = None \<longleftrightarrow> (\<forall>i<2. addr_of t i \<noteq> Some a)"
  using find_complete find_sound by (metis not_None_eq)

end

definition slot_addr :: "endpoint duo \<Rightarrow> nat \<Rightarrow> sockaddr option" where
  "slot_addr slots i = (if ep_active (duo_get slots i) then Some (ep_addr (duo_get slots i)) else None)"

lemma duo_two: "i < 2 \<Longrightarrow> i = 0 \<or> i = Suc 0"
  by auto

interpretation slots: peer_table bind_slot FindSlotByEndpoint slot_addr
proof
  show "slot_addr (bind_slot t i a) i = Some a" for t i a
    by (simp add: slot_addr_def bind_slot_def)
  show "slot_addr (bind_slot t i a) j = slot_addr t j" if "i < 2" "j < 2" "i \<noteq> j" for t i j a
    using that by (simp add: slot_addr_def bind_slot_def duo_get_set_other)
  show "i < 2 \<and> slot_addr t i = Some a" if "FindSlotByEndpoint t a = Some i" for t a i
    using that by (auto simp: FindSlotByEndpoint_def slot_addr_def split: if_splits)
  show "FindSlotByEndpoint t a \<noteq> None" if "i < 2" "slot_addr t i = Some a" for t a i
    using duo_two [OF that(1)] that(2) by (auto simp: FindSlotByEndpoint_def slot_addr_def split: if_splits)
qed

lemma both_active_addr: "BothSlotsActive s \<longleftrightarrow> slot_addr s 0 \<noteq> None \<and> slot_addr s 1 \<noteq> None"
  by (simp add: BothSlotsActive_def slot_addr_def)

lemma both_active_two:
  "i < 2 \<Longrightarrow> j < 2 \<Longrightarrow> i \<noteq> j \<Longrightarrow> BothSlotsActive s \<longleftrightarrow> slot_addr s i \<noteq> None \<and> slot_addr s j \<noteq> None"
  by (auto simp: both_active_addr less_2_cases_iff)

lemma both_active_bind: "i < 2 \<Longrightarrow> BothSlotsActive s \<Longrightarrow> BothSlotsActive (bind_slot s i a)"
  by (auto dest!: duo_two simp: BothSlotsActive_def bind_slot_def duo_set_def duo_get_def)

lemma rebind_same: "i < 2 \<Longrightarrow> slot_addr s i = Some a \<Longrightarrow> bind_slot s i a = s"
  by (cases s) (auto simp: less_2_cases_iff slot_addr_def bind_slot_def split: if_splits)

lemma find_by_ip:
  assumes "FindSlotByIp s a = r" "0 \<le> r"
  shows "nat r < 2 \<and> (\<exists>e. slot_addr s (nat r) = Some e \<and> sa_ip e = sa_ip a) \<and>
    (\<forall>j<2. j \<noteq> nat r \<longrightarrow> (\<forall>e. slot_addr s j = Some e \<longrightarrow> sa_ip e \<noteq> sa_ip a))"
  using assms
  by (auto simp: FindSlotByIp_def slot_addr_def SameIp_def less_2_cases_iff split: if_splits)

section \<open>The invariant of the generations\<close>

definition relay_ok :: "relay \<Rightarrow> bool" where
  "relay_ok st \<longleftrightarrow> (gk_valid (gen_key (rl_active st)) \<longrightarrow> BothSlotsActive (gen_slots (rl_active st))) \<and>
     \<not> BothSlotsActive (gen_slots (rl_pending st))"

inductive relay_reach :: "8 word list \<Rightarrow> int \<Rightarrow> relay \<Rightarrow> bool" for token idle where
  relay_reach_init: "relay_reach token idle (relay_init now)"
| relay_reach_iter: "relay_reach token idle st \<Longrightarrow> relay_iter token idle ev st = (st', outs, Continue) \<Longrightarrow>
    relay_reach token idle st'"

lemma no_generation_simps [simp]:
  "gk_valid (gen_key no_generation) = False" "\<not> BothSlotsActive (gen_slots no_generation)"
  "gen_key (ResetGeneration k) = k" "gen_slots (ResetGeneration k) = (no_endpoint, no_endpoint)"
  "\<not> BothSlotsActive (no_endpoint, no_endpoint)"
  by (simp_all add: no_generation_def ResetGeneration_def BothSlotsActive_def no_endpoint_def)

lemma relay_ok_v3: "relay_ok st \<Longrightarrow> slot < 2 \<Longrightarrow> relay_ok (fst (register_v3 from key slot st))"
  by (auto simp: relay_ok_def register_v3_def Let_def both_active_bind)

lemma relay_ok_legacy: "relay_ok st \<Longrightarrow> relay_ok (fst (register_legacy from p st))"
  by (simp add: relay_ok_def register_legacy_def Let_def split: option.splits)

lemma forward_keeps:
  "rl_pending (fst (forward_packet from buf st)) = rl_pending st"
  "rl_lastTraffic (fst (forward_packet from buf st)) = rl_lastTraffic st"
  "rl_active (fst (forward_packet from buf st)) = rl_active st"
  by (simp_all add: forward_packet_def Let_def case_prod_unfold split: option.splits)

lemma relay_ok_forward: "relay_ok st \<Longrightarrow> relay_ok (fst (forward_packet from buf st))"
  by (simp add: relay_ok_def forward_keeps)

lemma slot_byte: "\<not> 1 < (b :: 8 word) \<Longrightarrow> unat b < 2"
  by (simp add: word_less_nat_alt)

lemma relay_ok_packet: "relay_ok st \<Longrightarrow> relay_ok (fst (handle_packet token from buf st))"
  by (simp add: handle_packet_def relay_ok_v3 relay_ok_legacy relay_ok_forward slot_byte)

lemma relay_ok_traffic [simp]: "relay_ok (st\<lparr>rl_lastTraffic := t\<rparr>) = relay_ok st"
  by (simp add: relay_ok_def)

lemma relay_ok_iter: "relay_ok st \<Longrightarrow> relay_iter token idle ev st = (st', outs, e) \<Longrightarrow> relay_ok st'"
  using relay_ok_packet [of "st\<lparr>rl_lastTraffic := n\<rparr>" for n]
  by (auto simp: relay_iter_def split: relay_event.splits if_splits prod.splits dest: arg_cong [of _ _ fst])
    (metis fst_conv relay_ok_packet relay_ok_traffic)

lemma relay_reach_ok: "relay_reach token idle st \<Longrightarrow> relay_ok st"
  by (induction rule: relay_reach.induct) (auto simp: relay_init_def relay_ok_def [of "\<lparr>rl_slots = s, rl_active = a,
      rl_pending = p, rl_lastTraffic = t\<rparr>" for s a p t] intro: relay_ok_iter)

section \<open>Properties of the relay\<close>

text \<open>
  While a generation is active both of its slots hold an endpoint, and a
  generation with both slots bound is never left pending: promotion happens in
  the iteration that completes it.
\<close>

theorem generation_invariant:
  assumes "relay_reach token idle st"
  shows "(gk_valid (gen_key (rl_active st)) \<longrightarrow> slot_addr (gen_slots (rl_active st)) 0 \<noteq> None \<and>
            slot_addr (gen_slots (rl_active st)) 1 \<noteq> None) \<and>
         (slot_addr (gen_slots (rl_pending st)) 0 = None \<or> slot_addr (gen_slots (rl_pending st)) 1 = None)"
  using relay_reach_ok [OF assms] by (auto simp: relay_ok_def both_active_addr)

definition tok :: "8 word list" where
  "tok = replicate 32 0x61"

definition ep :: "32 word \<Rightarrow> 16 word \<Rightarrow> sockaddr" where
  "ep i p = \<lparr>sa_ip = i, sa_port = p\<rparr>"

lemma tok_length [simp]: "length tok = 32"
  by (simp add: tok_def)

lemma handle_reg_packet:
  assumes "length t = 32" "s = 0 \<or> s = 1"
  shows "handle_packet t a (reg_packet_v3 t s n0 n1) st =
    register_v3 a \<lparr>gk_ready = (n0, n1), gk_valid = True\<rparr> (unat s) st"
proof -
  have "\<not> 1 < s" using assms(2) by auto
  moreover have "length (reg_packet_v3 t s n0 n1) \<noteq> 4" using reg_packet_parts(5) [OF assms(1)] by simp
  ultimately show ?thesis
    using assms by (simp add: handle_packet_def reg_packet_parts token_refl)
qed

theorem generation_invariant_witness:
  "\<exists>st :: relay. rl_pending st = \<lparr>gen_key = \<lparr>gk_ready = (5, 6), gk_valid = True\<rparr>,
       gen_slots = bind_slot (no_endpoint, no_endpoint) 0 (ep 1 2)\<rparr> \<and>
     slot_addr (gen_slots (rl_pending st)) 1 = None"
proof -
  let ?ev = "Received 0 (ep 1 2) (reg_packet_v3 tok 0 5 6)"
  let ?p = "\<lparr>gen_key = \<lparr>gk_ready = (5, 6), gk_valid = True\<rparr>,
       gen_slots = bind_slot (no_endpoint, no_endpoint) 0 (ep 1 2)\<rparr>"
  have "relay_iter tok 900 ?ev (relay_init 0) =
      ((relay_init 0)\<lparr>rl_pending := ?p\<rparr>, [(ep 1 2, kRespWaiting)], Continue)"
    by (simp add: relay_iter_def idle_expired_def relay_init_def kMaxPacket_def reg_packet_parts handle_reg_packet
        register_v3_def SameGeneration_def Let_def ResetGeneration_def no_generation_def bind_slot_def
        BothSlotsActive_def no_endpoint_def)
  from relay_reach_iter [OF relay_reach_init this]
  have "relay_reach tok 900 ((relay_init 0)\<lparr>rl_pending := ?p\<rparr>)" .
  from generation_invariant [OF this] show ?thesis
    by (intro exI [of _ "(relay_init 0)\<lparr>rl_pending := ?p\<rparr>"]) (simp add: slot_addr_def bind_slot_def)
qed

lemma SameGeneration_eq [simp]: "gk_valid key \<Longrightarrow> SameGeneration k key \<longleftrightarrow> k = key"
  by (cases k; cases key) (auto simp: SameGeneration_def prod_eq_iff duo_get_def)

lemma register_v3_active:
  assumes "relay_ok st" "gk_valid key" "gen_key (rl_active st) = key" "i < 2"
  shows "register_v3 a key i st =
    (st\<lparr>rl_active := (rl_active st)\<lparr>gen_slots := bind_slot (gen_slots (rl_active st)) i a\<rparr>\<rparr>,
     [(a, kRespRegistered)])"
  using assms both_active_bind [OF assms(4)] by (simp add: register_v3_def Let_def relay_ok_def)

lemma register_v3_other:
  assumes "gk_valid key" "gen_key (rl_active st) \<noteq> key"
    "base = (if gen_key (rl_pending st) = key then rl_pending st else ResetGeneration key)"
    "pend = base\<lparr>gen_slots := bind_slot (gen_slots base) i a\<rparr>"
  shows "gen_key base = key"
    "register_v3 a key i st =
      (if BothSlotsActive (gen_slots pend)
       then (st\<lparr>rl_active := pend, rl_pending := no_generation\<rparr>, [(a, kRespRegistered)])
       else (st\<lparr>rl_pending := pend\<rparr>, [(a, kRespWaiting)]))"
  using assms by (simp_all add: register_v3_def Let_def)

text \<open>The first registration either leaves the generation active or leaves it pending.\<close>

lemma register_v3_first:
  assumes "relay_ok st" "gk_valid key" "i < 2" "register_v3 a key i st = (st1, outs)"
  shows "(gen_key (rl_active st1) = key \<and> slot_addr (gen_slots (rl_active st1)) i = Some a) \<or>
     (gen_key (rl_active st1) \<noteq> key \<and> gen_key (rl_pending st1) = key \<and>
      slot_addr (gen_slots (rl_pending st1)) i = Some a)"
proof (cases "gen_key (rl_active st) = key")
  case True
  then show ?thesis using assms(4)
    by (auto simp: register_v3_active [OF assms(1,2) True assms(3)] slots.addr_bind [OF assms(3)])
next
  case False
  note other = register_v3_other(1) [OF assms(2) False refl refl]
    register_v3_other(2) [OF assms(2) False refl refl, where i = i and a = a]
  then show ?thesis using assms(4) False
    by (auto simp: slots.addr_bind [OF assms(3)] split: if_splits)
qed

lemma handshake_any:
  assumes ok: "relay_ok st" and key: "gk_valid key" and ij: "i < 2" "j < 2" "i \<noteq> j"
    and first: "register_v3 a key i st = (st1, o1)"
    and second: "register_v3 b key j st1 = (st2, o2)"
  shows "gen_key (rl_active st2) = key \<and> slot_addr (gen_slots (rl_active st2)) i = Some a \<and>
    slot_addr (gen_slots (rl_active st2)) j = Some b \<and> o2 = [(b, kRespRegistered)]"
proof -
  have ok1: "relay_ok st1" using relay_ok_v3 [OF ok ij(1), of a key] first by simp
  note bind = slots.addr_bind [OF ij(2)] slots.addr_other [OF ij(2,1) ij(3) [symmetric]]
  from register_v3_first [OF ok key ij(1) first] show ?thesis
  proof (elim disjE conjE)
    assume act: "gen_key (rl_active st1) = key" "slot_addr (gen_slots (rl_active st1)) i = Some a"
    then show ?thesis using second by (auto simp: register_v3_active [OF ok1 key act(1) ij(2)] bind)
  next
    assume p: "gen_key (rl_active st1) \<noteq> key" "gen_key (rl_pending st1) = key"
      "slot_addr (gen_slots (rl_pending st1)) i = Some a"
    let ?p = "(rl_pending st1)\<lparr>gen_slots := bind_slot (gen_slots (rl_pending st1)) j b\<rparr>"
    have both: "BothSlotsActive (gen_slots ?p)"
      using p(3) by (simp add: both_active_two [OF ij] bind)
    have "register_v3 b key j st1 =
        (st1\<lparr>rl_active := ?p, rl_pending := no_generation\<rparr>, [(b, kRespRegistered)])"
      using register_v3_other(2) [OF key p(1) refl refl, where i = j and a = b] p(2) both by simp
    then show ?thesis using second p(2,3) by (auto simp: bind)
  qed
qed

lemma handshake_complete:
  assumes "relay_reach token idle st" "length token = 32" "{s, s'} = {0, 1}"
    "handle_packet token a (reg_packet_v3 token s n0 n1) st = (st1, o1)"
    "handle_packet token b (reg_packet_v3 token s' n0 n1) st1 = (st2, o2)"
  shows "gen_key (rl_active st2) = \<lparr>gk_ready = (n0, n1), gk_valid = True\<rparr> \<and>
    slot_addr (gen_slots (rl_active st2)) (unat s) = Some a \<and>
    slot_addr (gen_slots (rl_active st2)) (unat s') = Some b \<and>
    o2 = [(b, kRespRegistered)] \<and>
    handle_packet token a (reg_packet_v3 token s n0 n1) st2 = (st2, [(a, kRespRegistered)])"
proof -
  let ?key = "\<lparr>gk_ready = (n0, n1), gk_valid = True\<rparr>"
  have s: "s = 0 \<or> s = 1" "s' = 0 \<or> s' = 1" "s \<noteq> s'" using assms(3) by (auto simp: doubleton_eq_iff)
  then have ij: "unat s < 2" "unat s' < 2" "unat s \<noteq> unat s'" by auto
  have first: "register_v3 a ?key (unat s) st = (st1, o1)"
    using assms(4) handle_reg_packet [OF assms(2) s(1)] by simp
  have second: "register_v3 b ?key (unat s') st1 = (st2, o2)"
    using assms(5) handle_reg_packet [OF assms(2) s(2)] by simp
  have ok: "relay_ok st" by (rule relay_reach_ok [OF assms(1)])
  have ok2: "relay_ok st2"
    using relay_ok_v3 [OF relay_ok_v3 [OF ok ij(1)] ij(2), of b ?key a ?key] first second by simp
  have res: "gen_key (rl_active st2) = ?key" "slot_addr (gen_slots (rl_active st2)) (unat s) = Some a"
    "slot_addr (gen_slots (rl_active st2)) (unat s') = Some b" "o2 = [(b, kRespRegistered)]"
    using handshake_any [OF ok _ ij first second] by simp_all
  have "bind_slot (gen_slots (rl_active st2)) (unat s) a = gen_slots (rl_active st2)"
    by (rule rebind_same [OF ij(1) res(2)])
  then have "register_v3 a ?key (unat s) st2 = (st2, [(a, kRespRegistered)])"
    using register_v3_active [OF ok2 _ res(1) ij(1)] by simp
  then show ?thesis using res handle_reg_packet [OF assms(2) s(1)] by simp
qed

text \<open>
  Handshake. Whatever a reachable relay was doing, once both players of a
  match have sent their registration packets for one generation, in either order
  and from any endpoints, that generation is active and bound to exactly those
  endpoints, the second is answered registered, and so is the first when it
  probes again.
\<close>

theorem v3_handshake:
  assumes "relay_reach token idle st" "length token = 32" "{s, s'} = {0, 1}"
    "handle_packet token a (reg_packet_v3 token s n0 n1) st = (st1, o1)"
    "handle_packet token b (reg_packet_v3 token s' n0 n1) st1 = (st2, o2)"
  shows "gen_key (rl_active st2) = \<lparr>gk_ready = (n0, n1), gk_valid = True\<rparr> \<and>
    slot_addr (gen_slots (rl_active st2)) (unat s) = Some a \<and>
    slot_addr (gen_slots (rl_active st2)) (unat s') = Some b \<and>
    o2 = [(b, kRespRegistered)] \<and>
    handle_packet token a (reg_packet_v3 token s n0 n1) st2 = (st2, [(a, kRespRegistered)])"
  by (rule handshake_complete [OF assms])

theorem v3_handshake_witness:
  "\<exists>st1 st2 o1. handle_packet tok (ep 1 2) (reg_packet_v3 tok 0 5 6) (relay_init 0) = (st1, o1) \<and>
     handle_packet tok (ep 3 4) (reg_packet_v3 tok 1 5 6) st1 = (st2, [(ep 3 4, kRespRegistered)])"
proof -
  obtain st1 o1 where 1: "handle_packet tok (ep 1 2) (reg_packet_v3 tok 0 5 6) (relay_init 0) = (st1, o1)"
    by (cases "handle_packet tok (ep 1 2) (reg_packet_v3 tok 0 5 6) (relay_init 0)")
  obtain st2 o2 where 2: "handle_packet tok (ep 3 4) (reg_packet_v3 tok 1 5 6) st1 = (st2, o2)"
    by (cases "handle_packet tok (ep 3 4) (reg_packet_v3 tok 1 5 6) st1")
  show ?thesis
    using v3_handshake [OF relay_reach_init [of tok 900 0] tok_length _ 1 2] 1 2 by auto
qed

section \<open>Forwarding\<close>

text \<open>Packets the relay answers itself.\<close>

definition control :: "8 word list \<Rightarrow> bool" where
  "control buf \<longleftrightarrow> buf = kMagicHealth \<or> is_reg_v3 buf \<or> is_reg 36 buf \<or> is_reg 38 buf"

lemma kMagicHealth_length [simp]: "length kMagicHealth = 4"
  by (simp add: kMagicHealth_def)

lemma handle_data: "\<not> control buf \<Longrightarrow> handle_packet token from buf st = forward_packet from buf st"
  by (auto simp: handle_packet_def control_def)

lemma forward_v3:
  assumes "gk_valid (gen_key (rl_active st))" "slot_addr (gen_slots (rl_active st)) 0 = Some a"
    "slot_addr (gen_slots (rl_active st)) 1 = Some b" "a \<noteq> b"
  shows "forward_packet from buf st =
    (st, if from = a then [(b, buf)] else if from = b then [(a, buf)] else [])"
proof -
  let ?s = "gen_slots (rl_active st)"
  have a: "FindSlotByEndpoint ?s a = Some 0" and b: "FindSlotByEndpoint ?s b = Some 1"
    using slots.both_bound [OF assms(2-4)] .
  have other: "FindSlotByEndpoint ?s from = None" if "from \<noteq> a" "from \<noteq> b"
    using that assms(2,3) slots.absent [of ?s "from"] by (auto simp: less_2_cases_iff)
  have act: "ep_active (duo_get ?s 0)" "ep_addr (duo_get ?s 0) = a"
    "ep_active (duo_get ?s (Suc 0))" "ep_addr (duo_get ?s (Suc 0)) = b"
    using assms(2,3) by (auto simp: slot_addr_def split: if_splits)
  show ?thesis
    using assms(1) a b other act by (auto simp: forward_packet_def Let_def)
qed

text \<open>
  C34: while a generation is active, its two players reach each other and nobody
  else is heard: a data packet from one bound endpoint goes, unchanged, to the
  other one only; a packet from any other endpoint is dropped; the relay's
  tables do not move.
\<close>

theorem v3_exclusive_forwarding:
  assumes "gk_valid (gen_key (rl_active st))" "slot_addr (gen_slots (rl_active st)) 0 = Some a"
    "slot_addr (gen_slots (rl_active st)) 1 = Some b" "a \<noteq> b" "\<not> control buf"
  shows "handle_packet token from buf st =
    (st, if from = a then [(b, buf)] else if from = b then [(a, buf)] else [])"
  using forward_v3 [OF assms(1-4)] handle_data [OF assms(5)] by simp

theorem v3_exclusive_forwarding_witness:
  "handle_packet tok (ep 3 4) [1, 2, 3] ((relay_init 0)\<lparr>rl_active := \<lparr>gen_key = \<lparr>gk_ready = (5, 6), gk_valid = True\<rparr>,
       gen_slots = (\<lparr>ep_addr = ep 1 2, ep_active = True\<rparr>, \<lparr>ep_addr = ep 3 4, ep_active = True\<rparr>)\<rparr>\<rparr>) =
   ((relay_init 0)\<lparr>rl_active := \<lparr>gen_key = \<lparr>gk_ready = (5, 6), gk_valid = True\<rparr>,
       gen_slots = (\<lparr>ep_addr = ep 1 2, ep_active = True\<rparr>, \<lparr>ep_addr = ep 3 4, ep_active = True\<rparr>)\<rparr>\<rparr>,
    [(ep 1 2, [1, 2, 3])])"
  using v3_exclusive_forwarding [of "(relay_init 0)\<lparr>rl_active := \<lparr>gen_key = \<lparr>gk_ready = (5, 6), gk_valid = True\<rparr>,
       gen_slots = (\<lparr>ep_addr = ep 1 2, ep_active = True\<rparr>, \<lparr>ep_addr = ep 3 4, ep_active = True\<rparr>)\<rparr>\<rparr>"
      "ep 1 2" "ep 3 4" "[1, 2, 3]" tok "ep 3 4"]
  by (simp add: slot_addr_def ep_def control_def is_reg_def is_reg_v3_def kMagicHealth_def)

text \<open>
  The endpoints of the running match change only by a version-3 registration
  carrying the room's token: either one player of the active generation rebinds
  its own slot, or another generation, of which both players have registered,
  replaces it whole. Data, health and legacy packets, wrong tokens and a lone
  registration for another generation leave the match alone.
\<close>

theorem active_generation_change:
  assumes "relay_ok st" "handle_packet token from buf st = (st', outs)" "rl_active st' \<noteq> rl_active st"
  shows "is_reg_v3 buf \<and> TokenMatches token (drop 4 buf) \<and> unat (buf ! 37) < 2 \<and>
    gen_key (rl_active st') = packet_key buf \<and> BothSlotsActive (gen_slots (rl_active st')) \<and>
    (gen_key (rl_active st) = packet_key buf \<longrightarrow>
       gen_slots (rl_active st') = bind_slot (gen_slots (rl_active st)) (unat (buf ! 37)) from) \<and>
    (gen_key (rl_active st) \<noteq> packet_key buf \<longrightarrow>
       gen_key (rl_pending st) = packet_key buf \<and>
       gen_slots (rl_active st') = bind_slot (gen_slots (rl_pending st)) (unat (buf ! 37)) from)"
proof -
  have key: "gk_valid (packet_key buf)" by (simp add: packet_key_def)
  have legacy: "rl_active (fst (register_legacy a p st)) = rl_active st" for a p
    by (simp add: register_legacy_def Let_def split: option.splits)
  have eq: "st' = fst (handle_packet token from buf st)" by (simp add: assms(2))
  have v3: "is_reg_v3 buf \<and> TokenMatches token (drop 4 buf) \<and> \<not> 1 < buf ! 37"
    using assms(3) unfolding eq by (auto simp: handle_packet_def legacy forward_keeps split: if_splits)
  then have st': "st' = fst (register_v3 from (packet_key buf) (unat (buf ! 37)) st)"
    using assms(3) unfolding eq by (auto simp: handle_packet_def legacy forward_keeps split: if_splits)
  have slot: "unat (buf ! 37) < 2" using v3 by (simp add: slot_byte)
  have ok': "relay_ok st'" using relay_ok_v3 [OF assms(1) slot] st' by simp
  show ?thesis
  proof (cases "gen_key (rl_active st) = packet_key buf")
    case True
    then have "rl_active st' = (rl_active st)\<lparr>gen_slots := bind_slot (gen_slots (rl_active st)) (unat (buf ! 37)) from\<rparr>"
      using register_v3_active [OF assms(1) key True slot, of "from"] st' by simp
    then show ?thesis using True v3 slot ok' key by (simp add: relay_ok_def)
  next
    case False
    let ?base = "if gen_key (rl_pending st) = packet_key buf then rl_pending st else ResetGeneration (packet_key buf)"
    let ?pend = "?base\<lparr>gen_slots := bind_slot (gen_slots ?base) (unat (buf ! 37)) from\<rparr>"
    note reg = register_v3_other(2) [OF key False refl refl, where i = "unat (buf ! 37)" and a = "from"]
    have both: "BothSlotsActive (gen_slots ?pend)" and act: "rl_active st' = ?pend"
      using reg st' assms(3) by (auto split: if_splits)
    have "gen_key (rl_pending st) = packet_key buf"
    proof (rule ccontr)
      assume no: "gen_key (rl_pending st) \<noteq> packet_key buf"
      show False using both no
        by (auto simp: BothSlotsActive_def bind_slot_def duo_set_def duo_get_def no_endpoint_def split: if_splits)
    qed
    then show ?thesis using False v3 slot both act key by simp
  qed
qed

theorem active_generation_change_witness:
  "\<exists>st'. handle_packet tok (ep 7 8) (reg_packet_v3 tok 0 5 6)
      ((relay_init 0)\<lparr>rl_active := \<lparr>gen_key = \<lparr>gk_ready = (5, 6), gk_valid = True\<rparr>,
       gen_slots = (\<lparr>ep_addr = ep 1 2, ep_active = True\<rparr>, \<lparr>ep_addr = ep 3 4, ep_active = True\<rparr>)\<rparr>\<rparr>) =
     (st', [(ep 7 8, kRespRegistered)]) \<and> slot_addr (gen_slots (rl_active st')) 0 = Some (ep 7 8)"
proof -
  let ?st = "(relay_init 0)\<lparr>rl_active := \<lparr>gen_key = \<lparr>gk_ready = (5, 6), gk_valid = True\<rparr>,
       gen_slots = (\<lparr>ep_addr = ep 1 2, ep_active = True\<rparr>, \<lparr>ep_addr = ep 3 4, ep_active = True\<rparr>)\<rparr>\<rparr>"
  have ok: "relay_ok ?st" by (simp add: relay_ok_def relay_init_def) (simp add: BothSlotsActive_def)
  have reg: "handle_packet tok (ep 7 8) (reg_packet_v3 tok 0 5 6) ?st =
      (?st\<lparr>rl_active := (rl_active ?st)\<lparr>gen_slots := bind_slot (gen_slots (rl_active ?st)) 0 (ep 7 8)\<rparr>\<rparr>,
       [(ep 7 8, kRespRegistered)])"
    using register_v3_active [OF ok, of "\<lparr>gk_ready = (5, 6), gk_valid = True\<rparr>" 0 "ep 7 8"] by (simp add: handle_reg_packet)
  have "gen_slots (rl_active (?st\<lparr>rl_active := (rl_active ?st)\<lparr>gen_slots := bind_slot (gen_slots (rl_active ?st)) 0 (ep 7 8)\<rparr>\<rparr>))
      = bind_slot (gen_slots (rl_active ?st)) 0 (ep 7 8)"
    using active_generation_change [OF ok reg]
    by (simp add: reg_packet_parts bind_slot_def ep_def relay_init_def no_generation_def)
  then show ?thesis
    by (intro exI [of _ "?st\<lparr>rl_active := (rl_active ?st)\<lparr>gen_slots := bind_slot (gen_slots (rl_active ?st)) 0 (ep 7 8)\<rparr>\<rparr>"]
        conjI reg) (simp add: slot_addr_def bind_slot_def)
qed

section \<open>Legacy and version-2 registrations\<close>

lemma legacy_slot_lt: "FindSlotForRegistration s a p = Some i \<Longrightarrow> i < 2"
  using find_by_ip [of s a "FindSlotByIp s a"]
  by (auto simp: FindSlotForRegistration_def FindSlotByEndpoint_def split: option.splits if_splits)

text \<open>
  A legacy registration takes the sender's own slot, else a free one, else,
  both being taken, the only slot of the sender's address, else the only slot
  with the declared port; two players are never folded into one slot for
  sharing a declared port, and with both slots of one address and port a third
  endpoint is refused.
\<close>

theorem legacy_slot_choice:
  assumes "FindSlotForRegistration s a p = Some i"
  shows "i < 2 \<and>
    (slot_addr s i = Some a \<or> slot_addr s i = None \<or>
     (BothSlotsActive s \<and> (\<forall>j<2. j \<noteq> i \<longrightarrow> slot_addr s j \<noteq> Some a) \<and>
      ((\<exists>e. slot_addr s i = Some e \<and> sa_ip e = sa_ip a) \<and> (\<forall>j<2. \<forall>e. j \<noteq> i \<and> slot_addr s j = Some e \<longrightarrow> sa_ip e \<noteq> sa_ip a) \<or>
       p \<noteq> 0 \<and> (\<exists>e. slot_addr s i = Some e \<and> sa_port e = p) \<and> (\<forall>j<2. \<forall>e. j \<noteq> i \<and> slot_addr s j = Some e \<longrightarrow> sa_port e \<noteq> p))))"
proof (cases "FindSlotByEndpoint s a")
  case (Some k)
  then show ?thesis using assms slots.find_sound [OF Some] by (auto simp: FindSlotForRegistration_def)
next
  case absent: None
  show ?thesis
  proof (cases "BothSlotsActive s")
    case False
    then show ?thesis using assms absent
      by (auto simp: FindSlotForRegistration_def BothSlotsActive_def slot_addr_def split: if_splits)
  next
    case True
    then have full: "find (\<lambda>i. \<not> ep_active (duo_get s i)) [0, 1] = None"
      by (simp add: BothSlotsActive_def)
    have none: "\<forall>j<2. slot_addr s j \<noteq> Some a" using absent slots.absent by blast
    show ?thesis
    proof (cases "0 \<le> FindSlotByIp s a")
      case ip: True
      then have "i = nat (FindSlotByIp s a)"
        using assms absent full by (simp add: FindSlotForRegistration_def)
      then show ?thesis using find_by_ip [OF refl ip] True none by blast
    next
      case False
      then show ?thesis using assms absent full True none
        by (auto simp: FindSlotForRegistration_def slot_addr_def BothSlotsActive_def less_2_cases_iff
            split: if_splits)
    qed
  qed
qed

theorem legacy_slot_choice_witness:
  "slot_addr (\<lparr>ep_addr = ep 1 2, ep_active = True\<rparr>, \<lparr>ep_addr = ep 3 4, ep_active = True\<rparr>) 1 = Some (ep 3 4) \<and>
   FindSlotForRegistration (\<lparr>ep_addr = ep 1 2, ep_active = True\<rparr>, \<lparr>ep_addr = ep 3 4, ep_active = True\<rparr>) (ep 3 9) 0 = Some 1 \<and>
   (1 :: nat) < 2"
proof -
  have find: "FindSlotForRegistration (\<lparr>ep_addr = ep 1 2, ep_active = True\<rparr>, \<lparr>ep_addr = ep 3 4, ep_active = True\<rparr>) (ep 3 9) 0 = Some 1"
    by (simp add: FindSlotForRegistration_def FindSlotByEndpoint_def FindSlotByIp_def SameIp_def ep_def)
  show ?thesis using legacy_slot_choice [OF find] find by (simp add: slot_addr_def)
qed

text \<open>
  Rematch over legacy registrations: when both slots are bound and one
  player comes back from a new endpoint, the other one's slot is invalidated, so
  that the first is told to wait and becomes registered only after the other
  player has registered too.
\<close>

theorem legacy_rematch_waits:
  assumes "BothSlotsActive (rl_slots st)" "FindSlotByEndpoint (rl_slots st) a = None"
    "FindSlotForRegistration (rl_slots st) a p = Some i"
    "register_legacy a p st = (st1, o1)" "register_legacy b q st1 = (st2, o2)" "b \<noteq> a"
  shows "o1 = [(a, kRespWaiting)] \<and> slot_addr (rl_slots st1) i = Some a \<and> slot_addr (rl_slots st1) (1 - i) = None \<and>
    o2 = [(b, kRespRegistered)] \<and> slot_addr (rl_slots st2) i = Some a \<and> slot_addr (rl_slots st2) (1 - i) = Some b"
proof -
  have i: "i = 0 \<or> i = 1" using legacy_slot_lt [OF assms(3)] by auto
  have new: "ep_active (duo_get (rl_slots st) i)" "ep_addr (duo_get (rl_slots st) i) \<noteq> a"
    "ep_active (duo_get (rl_slots st) (1 - i))"
    using assms(1,2) i slots.absent [of "rl_slots st" a]
    by (auto simp: BothSlotsActive_def slot_addr_def less_2_cases_iff split: if_splits)
  obtain x y where xy: "rl_slots st = (x, y)" by (cases "rl_slots st")
  let ?s = "if i = 0 then (\<lparr>ep_addr = a, ep_active = True\<rparr>, y\<lparr>ep_active := False\<rparr>)
            else (x\<lparr>ep_active := False\<rparr>, \<lparr>ep_addr = a, ep_active = True\<rparr>)"
  have 1: "st1 = st\<lparr>rl_slots := ?s\<rparr>" "o1 = [(a, kRespWaiting)]"
    using assms(3,4) i new xy
    by (auto simp: register_legacy_def Let_def bind_slot_def BothSlotsActive_def split: if_splits)
  have "FindSlotForRegistration ?s b q = Some (1 - i)"
    using i assms(6) by (auto simp: FindSlotForRegistration_def FindSlotByEndpoint_def)
  then have 2: "st2 = st1\<lparr>rl_slots := bind_slot ?s (1 - i) b\<rparr>" "o2 = [(b, kRespRegistered)]"
    using assms(5) i 1(1) by (auto simp: register_legacy_def Let_def bind_slot_def BothSlotsActive_def)
  show ?thesis using i 1 2 by (auto simp: slot_addr_def bind_slot_def)
qed

theorem legacy_rematch_waits_witness:
  "\<exists>st1 st2 o2. register_legacy (ep 1 9) 0 ((relay_init 0)\<lparr>rl_slots :=
       (\<lparr>ep_addr = ep 1 2, ep_active = True\<rparr>, \<lparr>ep_addr = ep 3 4, ep_active = True\<rparr>)\<rparr>) = (st1, [(ep 1 9, kRespWaiting)]) \<and>
     register_legacy (ep 3 8) 0 st1 = (st2, o2) \<and> o2 = [(ep 3 8, kRespRegistered)]"
proof -
  let ?st = "(relay_init 0)\<lparr>rl_slots :=
       (\<lparr>ep_addr = ep 1 2, ep_active = True\<rparr>, \<lparr>ep_addr = ep 3 4, ep_active = True\<rparr>)\<rparr>"
  obtain st1 o1 where 1: "register_legacy (ep 1 9) 0 ?st = (st1, o1)" by (cases "register_legacy (ep 1 9) 0 ?st")
  obtain st2 o2 where 2: "register_legacy (ep 3 8) 0 st1 = (st2, o2)" by (cases "register_legacy (ep 3 8) 0 st1")
  have "o1 = [(ep 1 9, kRespWaiting)] \<and> o2 = [(ep 3 8, kRespRegistered)]"
    using legacy_rematch_waits [OF _ _ _ 1 2, of 0]
    by (simp add: BothSlotsActive_def FindSlotByEndpoint_def FindSlotForRegistration_def FindSlotByIp_def
        SameIp_def ep_def)
  then show ?thesis using 1 2 by blast
qed

end
