(* ===== verification/Net_Util.thy ===== *)
theory Net_Util
  imports C_Strings Udp_Relay
begin

text \<open>
  Network helpers (common/sf4e__NetUtil.cxx): trimming a room code, splitting a
  URL, the bounded read of a response body, the outcome of an HTTP request and
  of a download, address resolution, the choice of a LAN address, the TCP probe,
  and the wait for a local port. What WinHTTP, the resolver and the clock return
  are parameters; strings are without their terminator.
\<close>

section \<open>Trimming and URLs\<close>

definition code_blank :: "char \<Rightarrow> bool" where
  "code_blank c \<longleftrightarrow> c = CHR '' '' \<or> c = CHR 0x09 \<or> c = CHR 0x0D \<or> c = CHR 0x0A"

definition TrimRoomCodeInPlace :: "string \<Rightarrow> string" where
  "TrimRoomCodeInPlace buf =
     (let body = dropWhile code_blank buf in rev (dropWhile code_blank (rev body)))"

record url =
  u_host :: string
  u_path :: string
  u_https :: bool
  u_port :: int

definition url_scheme :: "string \<Rightarrow> (string \<times> bool \<times> int) option" where
  "url_scheme s =
     (if starts ''https://'' s then Some (drop 8 s, True, 443)
      else if starts ''http://'' s then Some (drop 7 s, False, 80)
      else None)"

text \<open>A host that does not fit its buffer is an error; a path is cut to its buffer.\<close>

definition ParseHttpUrl :: "string \<Rightarrow> nat \<Rightarrow> nat \<Rightarrow> url option" where
  "ParseHttpUrl s hostLen pathLen =
     (case url_scheme s of
        None \<Rightarrow> None
      | Some (p, https, port) \<Rightarrow>
         (case strchr p CHR ''/'' of
            None \<Rightarrow> Some \<lparr>u_host = copy_trunc hostLen p, u_path = ''/'', u_https = https, u_port = port\<rparr>
          | Some slash \<Rightarrow>
             (let before_colon = (case strchr p CHR '':'' of
                    Some colon \<Rightarrow> (if length slash < length colon then Some colon else None)
                  | None \<Rightarrow> None);
                  len = (case before_colon of
                    Some colon \<Rightarrow> length p - length colon
                  | None \<Rightarrow> length p - length slash)
              in if hostLen \<le> len then None
                 else Some \<lparr>u_host = take len p, u_path = copy_trunc pathLen slash, u_https = https,
                   u_port = (case before_colon of Some colon \<Rightarrow> atoi (tl colon) | None \<Rightarrow> port)\<rparr>)))"

section \<open>HTTP\<close>

text \<open>The Windows error number a result also carries is not modelled.\<close>

datatype http_error = HE_None | HE_InvalidArgs | HE_OpenFailed | HE_ConnectFailed | HE_Timeout
  | HE_SendFailed | HE_ReceiveFailed | HE_HttpStatus | HE_EmptyBody | HE_WriteFailed

record http_result =
  hr_ok :: bool
  hr_error :: http_error
  hr_status :: int

text \<open>One round of the body loop: the bytes available (or a failed query), and the
  bytes the read returned (or a failed read).\<close>

type_synonym body_round = "nat option \<times> string option"

definition body_chunk :: "nat \<Rightarrow> nat \<Rightarrow> body_round \<Rightarrow> string" where
  "body_chunk room have_len r =
     (case r of
        (Some avail, Some bytes) \<Rightarrow>
          take (if room \<le> have_len + avail then room - have_len else avail) bytes
      | _ \<Rightarrow> [])"

fun read_body :: "nat \<Rightarrow> body_round list \<Rightarrow> string \<Rightarrow> string" where
  "read_body room [] body = body"
| "read_body room (r # rs) body =
     (let chunk = body_chunk room (length body) r
      in if chunk = [] then body
         else if room \<le> length body + length chunk then body @ chunk
         else read_body room rs (body @ chunk))"

definition ReadHttpResponseBody :: "nat \<Rightarrow> body_round list \<Rightarrow> string" where
  "ReadHttpResponseBody outBodyLen rs = (if outBodyLen = 0 then [] else read_body (outBodyLen - 1) rs [])"

text \<open>How far a request got.\<close>

record http_env =
  he_open :: bool
  he_connect :: "bool \<times> bool"
  he_request :: bool
  he_send :: "bool \<times> bool"
  he_receive :: "bool \<times> bool"
  he_status :: "32 word"
  he_body :: "body_round list"

text \<open>The second component of a failure: whether it was a timeout.\<close>

definition WinHttpErrorKind :: "bool \<Rightarrow> http_error" where
  "WinHttpErrorKind timeout = (if timeout then HE_Timeout else HE_ConnectFailed)"

definition http_fail :: "http_error \<Rightarrow> int \<Rightarrow> http_result" where
  "http_fail e status = \<lparr>hr_ok = False, hr_error = e, hr_status = status\<rparr>"

definition HttpRequestUtf8 :: "nat \<Rightarrow> http_env \<Rightarrow> http_result \<times> string" where
  "HttpRequestUtf8 outBodyLen E =
     (if outBodyLen = 0 then (http_fail HE_InvalidArgs 0, [])
      else if \<not> he_open E then (http_fail HE_OpenFailed 0, [])
      else if \<not> fst (he_connect E) then (http_fail (WinHttpErrorKind (snd (he_connect E))) 0, [])
      else if \<not> he_request E then (http_fail HE_ConnectFailed 0, [])
      else if \<not> fst (he_send E) then (http_fail (WinHttpErrorKind (snd (he_send E))) 0, [])
      else if \<not> fst (he_receive E) then (http_fail (WinHttpErrorKind (snd (he_receive E))) 0, [])
      else (let status = sint (he_status E); body = ReadHttpResponseBody outBodyLen (he_body E)
            in if he_status E < 200 \<or> 300 \<le> he_status E then (http_fail HE_HttpStatus status, body)
               else if body = [] then (http_fail HE_EmptyBody status, body)
               else (\<lparr>hr_ok = True, hr_error = HE_None, hr_status = status\<rparr>, body)))"

definition HttpGetUtf8WithHeadersInternal :: "nat \<Rightarrow> http_env \<Rightarrow> bool \<times> string" where
  "HttpGetUtf8WithHeadersInternal outBodyLen E =
     (if outBodyLen = 0 then (False, [])
      else if \<not> he_open E \<or> \<not> fst (he_connect E) \<or> \<not> he_request E then (False, [])
      else if \<not> fst (he_send E) \<or> \<not> fst (he_receive E) then (False, [])
      else if he_status E < 200 \<or> 300 \<le> he_status E then (False, [])
      else (let body = ReadHttpResponseBody outBodyLen (he_body E) in (body \<noteq> [], body)))"

definition HttpGetFirstLine :: "nat \<Rightarrow> http_env \<Rightarrow> bool \<times> string" where
  "HttpGetFirstLine outBodyLen E =
     (let (res, body) = HttpRequestUtf8 outBodyLen E in (hr_ok res, TrimRoomCodeInPlace body))"

definition FetchPublicIPv4 :: "nat \<Rightarrow> http_env \<Rightarrow> http_env \<Rightarrow> string option" where
  "FetchPublicIPv4 outIpLen E1 E2 =
     (if outIpLen = 0 then None
      else case HttpGetFirstLine 64 E1 of
        (True, body) \<Rightarrow> Some (copy_trunc outIpLen body)
      | (False, _) \<Rightarrow>
         (case HttpGetFirstLine 64 E2 of
            (True, body) \<Rightarrow> Some (copy_trunc outIpLen body)
          | (False, _) \<Rightarrow> None))"

text \<open>The download loop: each round is a failed read, the end, or the bytes read and
  how many of them were written (None: the write failed).\<close>

datatype download_round = Read_failed | Read_end | Chunk string "nat option"

fun download_loop :: "download_round list \<Rightarrow> string \<Rightarrow> (string \<times> http_error) option" where
  "download_loop [] out = None"
| "download_loop (Read_failed # rs) out = Some (out, HE_ReceiveFailed)"
| "download_loop (Read_end # rs) out = Some (out, HE_None)"
| "download_loop (Chunk bytes written # rs) out =
     (if bytes = [] then Some (out, HE_None)
      else if written = Some (length bytes) then download_loop rs (out @ bytes)
      else Some (out @ (case written of None \<Rightarrow> [] | Some w \<Rightarrow> take w bytes), HE_WriteFailed))"

text \<open>What the download leaves at its destination.\<close>

datatype dest_state = Untouched | Deleted | Holds string

definition download_result :: "download_round list \<Rightarrow> (dest_state \<times> http_error) option" where
  "download_result rs =
     map_option (\<lambda>(out, e).
       if e \<noteq> HE_None then (Deleted, e) else if out = [] then (Deleted, HE_EmptyBody) else (Holds out, HE_None))
     (download_loop rs [])"

definition HttpDownloadUrlUtf8 ::
  "string \<Rightarrow> bool \<Rightarrow> http_env \<Rightarrow> bool \<Rightarrow> download_round list \<Rightarrow> (dest_state \<times> http_error) option" where
  "HttpDownloadUrlUtf8 url hasDest E created rs =
     (if \<not> hasDest \<or> ParseHttpUrl url 256 2048 = None then Some (Untouched, HE_InvalidArgs)
      else if \<not> he_open E then Some (Untouched, HE_OpenFailed)
      else if \<not> fst (he_connect E) then Some (Untouched, HE_ConnectFailed)
      else if \<not> he_request E then Some (Untouched, HE_OpenFailed)
      else if \<not> fst (he_send E) then Some (Untouched, HE_SendFailed)
      else if \<not> fst (he_receive E) then Some (Untouched, HE_ReceiveFailed)
      else if he_status E < 200 \<or> 300 \<le> he_status E then Some (Untouched, HE_HttpStatus)
      else if \<not> created then Some (Untouched, HE_WriteFailed)
      else download_result rs)"

section \<open>Addresses\<close>

record resolver =
  rs_winsock :: bool
  rs_pton :: "string \<Rightarrow> 32 word option"
  rs_ntop :: "32 word \<Rightarrow> string option"
  rs_lookup :: "string \<Rightarrow> 32 word option list option"

text \<open>The first address of the list that can be written out; an entry None is not an IPv4 address.\<close>

fun first_text :: "resolver \<Rightarrow> 32 word option list \<Rightarrow> string option" where
  "first_text R [] = None"
| "first_text R (None # as) = first_text R as"
| "first_text R (Some a # as) = (case rs_ntop R a of Some t \<Rightarrow> Some t | None \<Rightarrow> first_text R as)"

definition ResolveHostToIPv4 :: "resolver \<Rightarrow> string \<Rightarrow> nat \<Rightarrow> string option" where
  "ResolveHostToIPv4 R host outIpLen =
     (if host = [] \<or> outIpLen < 16 then None
      else if \<not> rs_winsock R then None
      else if rs_pton R host \<noteq> None then Some (copy_trunc outIpLen host)
      else case rs_lookup R host of None \<Rightarrow> None | Some as \<Rightarrow> first_text R as)"

text \<open>Adapters as the library lists them: whether they are up, and their addresses as text.\<close>

definition lan_candidate :: "string \<Rightarrow> bool" where
  "lan_candidate t \<longleftrightarrow> \<not> starts ''127.'' t \<and> \<not> starts ''169.254.'' t"

fun lan_scan :: "(bool \<times> string list) list \<Rightarrow> string option" where
  "lan_scan [] = None"
| "lan_scan ((up, ts) # as) =
     (if \<not> up then lan_scan as
      else case find lan_candidate ts of Some t \<Rightarrow> Some t | None \<Rightarrow> lan_scan as)"

definition DetectLanIPv4 :: "nat \<Rightarrow> (bool \<times> string list) list option \<Rightarrow> bool \<times> string" where
  "DetectLanIPv4 outIpLen adapters =
     (case (case adapters of None \<Rightarrow> None | Some as \<Rightarrow> lan_scan as) of
        Some t \<Rightarrow> (True, copy_trunc outIpLen t)
      | None \<Rightarrow> (False, copy_trunc outIpLen ''127.0.0.1''))"

section \<open>Ports\<close>

record connect_env =
  ce_socket :: bool
  ce_connected :: bool
  ce_pending :: bool
  ce_select :: int
  ce_soError :: "int option"

definition ProbeRemoteTcpConnect :: "resolver \<Rightarrow> string \<Rightarrow> 16 word \<Rightarrow> int \<Rightarrow> connect_env \<Rightarrow> bool" where
  "ProbeRemoteTcpConnect R host port timeoutMs E \<longleftrightarrow>
     (if host = [] \<or> port = 0 \<or> timeoutMs \<le> 0 then False
      else if \<not> rs_winsock R \<or> \<not> ce_socket E then False
      else if rs_pton R host = None then False
      else if ce_connected E then True
      else if \<not> ce_pending E then False
      else if ce_select E \<le> 0 then False
      else ce_soError E = Some 0)"

definition ProbeLocalTcpConnect :: "connect_env \<Rightarrow> bool" where
  "ProbeLocalTcpConnect E \<longleftrightarrow> ce_socket E \<and> (ce_connected E \<or> ce_pending E \<and> 0 < ce_select E)"

definition IsLocalUdpPortOpen :: "16 word \<Rightarrow> nat \<Rightarrow> (16 word \<times> nat) list \<Rightarrow> bool" where
  "IsLocalUdpPortOpen port ownerPid table \<longleftrightarrow>
     (\<exists>row\<in>set table. fst row = port \<and> (ownerPid = 0 \<or> snd row = ownerPid))"

text \<open>One round of the wait: the clock at its test and at its end, whether the owner lives
  at the two checks, and what the three probes see.\<close>

record wait_round =
  wr_now :: "64 word"
  wr_alive :: bool
  wr_udp :: "(16 word \<times> nat) list"
  wr_bound :: bool
  wr_tcp :: connect_env
  wr_alive2 :: bool
  wr_now2 :: "64 word"

fun wait_port_loop :: "16 word \<Rightarrow> nat \<Rightarrow> 64 word \<Rightarrow> 64 word \<Rightarrow> wait_round list \<Rightarrow> bool option" where
  "wait_port_loop port pid deadline minAlive [] = None"
| "wait_port_loop port pid deadline minAlive (r # rs) =
     (if \<not> wr_now r < deadline then Some False
      else if pid \<noteq> 0 \<and> \<not> wr_alive r then Some False
      else if IsLocalUdpPortOpen port pid (wr_udp r) \<or> wr_bound r \<or> ProbeLocalTcpConnect (wr_tcp r) then Some True
      else if pid \<noteq> 0 \<and> wr_alive2 r \<and> minAlive \<le> wr_now2 r then Some True
      else wait_port_loop port pid deadline minAlive rs)"

definition WaitForLocalTcpPort ::
  "bool \<Rightarrow> 16 word \<Rightarrow> int \<Rightarrow> nat \<Rightarrow> 64 word \<Rightarrow> 64 word \<Rightarrow> wait_round list \<Rightarrow> bool option" where
  "WaitForLocalTcpPort winsock port timeoutMs ownerPid now now' rs =
     (if port = 0 \<or> timeoutMs \<le> 0 then Some False
      else if \<not> winsock then Some False
      else wait_port_loop port ownerPid (now + word_of_int timeoutMs) (now' + 400) rs)"

section \<open>Facts\<close>

lemma trim_ends:
  "TrimRoomCodeInPlace s = [] \<or> \<not> code_blank (hd (TrimRoomCodeInPlace s)) \<and> \<not> code_blank (last (TrimRoomCodeInPlace s))"
proof (cases "TrimRoomCodeInPlace s = []")
  case False
  let ?b = "dropWhile code_blank s"
  obtain p where p: "?b = TrimRoomCodeInPlace s @ p"
    unfolding TrimRoomCodeInPlace_def Let_def
    by (metis rev_append rev_rev_ident takeWhile_dropWhile_id)
  have "?b \<noteq> []" using False p by auto
  then have "\<not> code_blank (hd ?b)" by (rule hd_dropWhile)
  moreover have "hd ?b = hd (TrimRoomCodeInPlace s)" using False by (subst p) simp
  moreover have "\<not> code_blank (last (TrimRoomCodeInPlace s))"
    using False hd_dropWhile [of code_blank "rev ?b"]
    by (simp add: TrimRoomCodeInPlace_def Let_def last_rev)
  ultimately show ?thesis by simp
qed simp

lemma trim_clean:
  assumes "\<forall>c\<in>set s. \<not> code_blank c"
  shows "TrimRoomCodeInPlace s = s"
proof -
  have "dropWhile code_blank t = t" if "set t = set s" for t
    using that assms by (cases t) auto
  then show ?thesis by (simp add: TrimRoomCodeInPlace_def Let_def)
qed

lemma body_chunk_length: "length body \<le> room \<Longrightarrow> length body + length (body_chunk room (length body) r) \<le> room \<or>
    body_chunk room (length body) r = []"
  by (auto simp: body_chunk_def split: prod.splits option.splits)

lemma read_body_bounded: "length body \<le> room \<Longrightarrow> length (read_body room rs body) \<le> room"
proof (induction rs arbitrary: body)
  case (Cons r rs)
  then show ?case using body_chunk_length [OF Cons.prems, of r] by (auto simp: Let_def)
qed simp

lemma response_fits: "0 < n \<Longrightarrow> length (ReadHttpResponseBody n rs) < n"
  using read_body_bounded [of "[]" "n - 1" rs] by (simp add: ReadHttpResponseBody_def)

lemma request_ok:
  assumes "HttpRequestUtf8 n E = (res, body)" "hr_ok res"
  shows "200 \<le> he_status E \<and> he_status E < 300 \<and> body \<noteq> [] \<and> length body < n"
  using assms response_fits [of n "he_body E"]
  by (auto simp: HttpRequestUtf8_def http_fail_def Let_def split: if_splits)

text \<open>The text of a URL without a port.\<close>

lemma https_scheme: "url_scheme (''https://'' @ p) = Some (p, True, 443)"
  by (simp add: url_scheme_def)

lemma parse_url_default:
  assumes "CHR ''/'' \<notin> set host" "CHR '':'' \<notin> set host" "length host < hn"
  shows "ParseHttpUrl (''https://'' @ host @ ''/'' @ path) hn pn =
    Some \<lparr>u_host = host, u_path = copy_trunc pn (CHR ''/'' # path), u_https = True, u_port = 443\<rparr>"
proof -
  let ?p = "host @ CHR ''/'' # path"
  have sl: "strchr ?p CHR ''/'' = Some (CHR ''/'' # path)" using assms(1) by (rule strchr_append)
  have co: "strchr ?p CHR '':'' = Some c \<Longrightarrow> length c \<le> length path" for c
  proof -
    assume c: "strchr ?p CHR '':'' = Some c"
    then obtain q u where h: "?p = q @ CHR '':'' # u" "c = CHR '':'' # u" by (auto dest: strchr_Some)
    from h(1) obtain us where "host = q @ us \<and> us @ CHR ''/'' # path = CHR '':'' # u \<or>
        host @ us = q \<and> CHR ''/'' # path = us @ CHR '':'' # u"
      by (auto simp: append_eq_append_conv2)
    then show ?thesis using assms(2) h(2) by (cases us) auto
  qed
  have "ParseHttpUrl (''https://'' @ ?p) hn pn =
      Some \<lparr>u_host = host, u_path = copy_trunc pn (CHR ''/'' # path), u_https = True, u_port = 443\<rparr>"
    unfolding ParseHttpUrl_def https_scheme using assms(3) co by (auto simp: sl split: option.splits)
  then show ?thesis by simp
qed

lemma parse_url_port:
  assumes "CHR ''/'' \<notin> set host" "CHR '':'' \<notin> set host" "length host < hn" "n < 2 ^ 31"
  shows "ParseHttpUrl (''https://'' @ host @ '':'' @ dec_nat n @ ''/'' @ path) hn pn =
    Some \<lparr>u_host = host, u_path = copy_trunc pn (CHR ''/'' # path), u_https = True, u_port = int n\<rparr>"
proof -
  let ?p = "host @ CHR '':'' # dec_nat n @ CHR ''/'' # path"
  have "CHR ''/'' \<notin> set (host @ CHR '':'' # dec_nat n)"
    using assms(1) dec_nat_digits [of "CHR ''/''" n] by (auto simp: is_digit_def less_eq_char_def)
  then have sl: "strchr ?p CHR ''/'' = Some (CHR ''/'' # path)"
    using strchr_append [of "CHR ''/''" "host @ CHR '':'' # dec_nat n" path] by simp
  have co: "strchr ?p CHR '':'' = Some (CHR '':'' # dec_nat n @ CHR ''/'' # path)"
    using assms(2) by (rule strchr_append)
  have port: "atoi (dec_nat n @ CHR ''/'' # path) = int n"
    by (rule atoi_dec_nat [OF assms(4)]) (simp add: is_digit_def less_eq_char_def)
  have "ParseHttpUrl (''https://'' @ ?p) hn pn =
      Some \<lparr>u_host = host, u_path = copy_trunc pn (CHR ''/'' # path), u_https = True, u_port = int n\<rparr>"
    unfolding ParseHttpUrl_def https_scheme using assms(3) by (simp add: sl co port)
  then show ?thesis by simp
qed

lemma download_loop_complete:
  "download_loop rs out = Some (out', HE_None) \<Longrightarrow>
    \<exists>chunks rest. out' = out @ concat chunks \<and>
      rs = map (\<lambda>c. Chunk c (Some (length c))) chunks @ rest \<and> (\<exists>e rest'. rest = e # rest' \<and> (e = Read_end \<or> (\<exists>w. e = Chunk [] w)))"
proof (induction rs out rule: download_loop.induct)
  case (4 bytes written rs out)
  show ?case
  proof (cases "bytes = [] \<or> written \<noteq> Some (length bytes)")
    case True
    then have "bytes = []" "out' = out" using 4(2) by (auto split: if_splits)
    then show ?thesis
      by (intro exI [of _ "[]"] exI [of _ "Chunk bytes written # rs"]) simp
  next
    case False
    then obtain chunks rest where "out' = (out @ bytes) @ concat chunks"
      "rs = map (\<lambda>c. Chunk c (Some (length c))) chunks @ rest"
      "\<exists>e rest'. rest = e # rest' \<and> (e = Read_end \<or> (\<exists>w. e = Chunk [] w))"
      using 4 by auto
    then show ?thesis using False by (intro exI [of _ "bytes # chunks"] exI [of _ rest]) auto
  qed
qed (auto intro: exI [of _ "[]"])

lemma download_result_cases:
  assumes "download_result rs = Some (d, e)"
  shows "d = Deleted \<and> e \<noteq> HE_None \<or> (\<exists>text. d = Holds text \<and> e = HE_None \<and> text \<noteq> [] \<and> download_loop rs [] = Some (text, HE_None))"
  using assms by (auto simp: download_result_def split: if_splits)

text \<open>
  A downloaded file is whole or absent. A download reports success exactly when
  it leaves a file; the file is then not empty and exactly what the server sent up
  to its end, every chunk written in full, after a 2xx answer. On a failure the
  destination is as it was or removed.
\<close>

theorem download_whole:
  assumes "HttpDownloadUrlUtf8 url hasDest E created rs = Some (d, e)"
  shows "(e = HE_None \<longleftrightarrow> (\<exists>text. d = Holds text)) \<and>
    (\<forall>text. d = Holds text \<longrightarrow> text \<noteq> [] \<and> 200 \<le> he_status E \<and> he_status E < 300 \<and>
       (\<exists>chunks rest. text = concat chunks \<and> rs = map (\<lambda>c. Chunk c (Some (length c))) chunks @ rest \<and>
          (\<exists>x rest'. rest = x # rest' \<and> (x = Read_end \<or> (\<exists>w. x = Chunk [] w)))))"
proof (cases "d = Untouched")
  case True
  then show ?thesis
    using assms by (auto simp: HttpDownloadUrlUtf8_def download_result_def split: if_splits)
next
  case False
  then have r: "download_result rs = Some (d, e)" and s: "200 \<le> he_status E" "he_status E < 300"
    using assms by (auto simp: HttpDownloadUrlUtf8_def split: if_splits)
  show ?thesis
    using download_result_cases [OF r] download_loop_complete [of rs "[]"] s by auto
qed

definition http_ok :: http_env where
  "http_ok = \<lparr>he_open = True, he_connect = (True, False), he_request = True, he_send = (True, False),
     he_receive = (True, False), he_status = 200, he_body = []\<rparr>"

theorem download_whole_witness:
  "HttpDownloadUrlUtf8 ''http://a/b'' True http_ok True [Chunk ''ab'' (Some 2), Chunk ''c'' (Some 1), Read_end] =
     Some (Holds ''abc'', HE_None) \<and> \<not> (\<exists>text. Deleted = Holds text)"
proof -
  have d: "HttpDownloadUrlUtf8 ''http://a/b'' True http_ok True [Chunk ''ab'' (Some 2), Chunk ''c'' (Some 1), Read_end] =
      Some (Holds ''abc'', HE_None)"
    by (simp add: HttpDownloadUrlUtf8_def download_result_def http_ok_def ParseHttpUrl_def url_scheme_def Let_def)
  show ?thesis using download_whole [OF d] d by auto
qed

lemma wait_port_bounded:
  "\<exists>r\<in>set rs. \<not> wr_now r < deadline \<Longrightarrow> wait_port_loop port pid deadline minAlive rs \<noteq> None"
  by (induction rs) auto

lemma first_text_text:
  "first_text R as = Some t \<Longrightarrow> \<exists>a. Some a \<in> set as \<and> rs_ntop R a = Some t"
  by (induction R as rule: first_text.induct) (auto split: option.splits)

lemma lan_scan_candidate: "lan_scan as = Some t \<Longrightarrow> lan_candidate t"
  by (induction as rule: lan_scan.induct) (auto split: if_splits option.splits simp: find_Some_iff)

end
