(* ===== verification/Netplay_Config.thy ===== *)
theory Netplay_Config
  imports Prelude
begin

text \<open>
  The configuration the launcher hands to the sidecar
  (common/sf4e__NetplayConfig.hxx): its fields at their widths, whether it asks
  for netplay, and the disconnect tolerance derived from the input delay.
\<close>

datatype netplay_mode = NM_Idle | NM_Host | NM_Join

fun mode_int :: "netplay_mode \<Rightarrow> int" where
  "mode_int NM_Idle = 0"
| "mode_int NM_Host = 1"
| "mode_int NM_Join = 2"

definition SF4E_NETPLAY_CONFIG_VERSION :: int where "SF4E_NETPLAY_CONFIG_VERSION = 9"

record netplay_config =
  nc_version :: int
  nc_mode :: int
  nc_sessionHost :: string
  nc_sessionPort :: "16 word"
  nc_roomKey :: string
  nc_displayName :: string
  nc_inputDelay :: "8 word"
  nc_ggpoPort :: "16 word"
  nc_editionSelect :: "8 word"
  nc_roundCount :: int
  nc_roundTimeIntegral :: int
  nc_useRelay :: "8 word"
  nc_devOverlay :: "8 word"
  nc_deviceType :: "8 word"
  nc_deviceIdx :: "8 word"
  nc_useCentralSession :: "8 word"
  nc_relayRoomCode :: string
  nc_ggpoTransport :: "8 word"
  nc_playerRole :: "8 word"
  nc_ggpoRemotePort :: "16 word"
  nc_ggpoRemoteHost :: string
  nc_matchId :: string
  nc_ggpoRoomToken :: string
  nc_ggpoDisconnectTimeoutMs :: "16 word"
  nc_ggpoDisconnectNotifyMs :: "16 word"
  nc_trainingMode :: "8 word"

definition default_config :: netplay_config where
  "default_config =
     \<lparr>nc_version = SF4E_NETPLAY_CONFIG_VERSION, nc_mode = mode_int NM_Idle, nc_sessionHost = [],
      nc_sessionPort = 23456, nc_roomKey = [], nc_displayName = [], nc_inputDelay = 2,
      nc_ggpoPort = 23457, nc_editionSelect = 1, nc_roundCount = 3, nc_roundTimeIntegral = 99,
      nc_useRelay = 1, nc_devOverlay = 0, nc_deviceType = 0xff, nc_deviceIdx = 0xff,
      nc_useCentralSession = 0, nc_relayRoomCode = [], nc_ggpoTransport = 0, nc_playerRole = 0,
      nc_ggpoRemotePort = 0, nc_ggpoRemoteHost = [], nc_matchId = [], nc_ggpoRoomToken = [],
      nc_ggpoDisconnectTimeoutMs = 3000, nc_ggpoDisconnectNotifyMs = 1500, nc_trainingMode = 0\<rparr>"

text \<open>Every byte zero, as memset leaves the structure.\<close>

definition zero_config :: netplay_config where
  "zero_config =
     \<lparr>nc_version = 0, nc_mode = 0, nc_sessionHost = [], nc_sessionPort = 0, nc_roomKey = [], nc_displayName = [],
      nc_inputDelay = 0, nc_ggpoPort = 0, nc_editionSelect = 0, nc_roundCount = 0, nc_roundTimeIntegral = 0,
      nc_useRelay = 0, nc_devOverlay = 0, nc_deviceType = 0, nc_deviceIdx = 0,
      nc_useCentralSession = 0, nc_relayRoomCode = [], nc_ggpoTransport = 0, nc_playerRole = 0,
      nc_ggpoRemotePort = 0, nc_ggpoRemoteHost = [], nc_matchId = [], nc_ggpoRoomToken = [],
      nc_ggpoDisconnectTimeoutMs = 0, nc_ggpoDisconnectNotifyMs = 0, nc_trainingMode = 0\<rparr>"

definition NetplayConfigIsActive :: "netplay_config \<Rightarrow> bool" where
  "NetplayConfigIsActive cfg \<longleftrightarrow> nc_mode cfg = mode_int NM_Host \<or> nc_mode cfg = mode_int NM_Join"

text \<open>The sum is an int, cut to 16 bits by the conversion.\<close>

definition disconnect_timeout :: "8 word \<Rightarrow> 16 word" where
  "disconnect_timeout delay =
     (let t = word_of_int (1000 + uint delay * 500) :: 16 word in if t < 3000 then 3000 else t)"

definition NetplayConfigApplyGgpoDisconnectDefaults :: "netplay_config \<Rightarrow> netplay_config" where
  "NetplayConfigApplyGgpoDisconnectDefaults cfg =
     (let t = disconnect_timeout (nc_inputDelay cfg)
      in cfg\<lparr>nc_ggpoDisconnectTimeoutMs := t, nc_ggpoDisconnectNotifyMs := t div 2\<rparr>)"

section \<open>The tolerance\<close>

lemma unat_word16_of_nat: "unat (word_of_int (int n) :: 16 word) = n mod 65536"
proof -
  have "(word_of_int (int n) :: 16 word) = word_of_nat n" by (rule of_int_of_nat_eq)
  then show ?thesis using unat_of_nat [of n, where 'a = 16] by simp
qed

lemma disconnect_timeout_unat:
  "unat (disconnect_timeout d) = max 3000 ((1000 + unat d * 500) mod 65536)"
proof -
  let ?t = "word_of_int (1000 + uint d * 500) :: 16 word"
  have "1000 + uint d * 500 = int (1000 + unat d * 500)" by simp
  then have t: "unat ?t = (1000 + unat d * 500) mod 65536"
    by (simp only: unat_word16_of_nat)
  have "?t < 3000 \<longleftrightarrow> unat ?t < 3000" by (simp add: word_less_nat_alt)
  then show ?thesis
    by (cases "?t < 3000") (simp_all only: disconnect_timeout_def Let_def t if_True if_False, simp_all)
qed

end
