(* ===== verification/State_Hash.thy ===== *)
theory State_Hash
  imports Protocol "HOL-Library.Signed_Division"
begin

text \<open>
  Semantic state hashing (common/sf4e__StateHash.hxx) and the desync checkpoints
  built on it (ComputeSemanticHashes, CaptureHashCheckpoint, FindHashCheckpoint,
  ClearHashCheckpoints, CaptureSnapshot of sf4e/sf4e__Game__Battle__System.cxx).
  What the game's accessors return for one frame is the record \<open>sim_state\<close>; an
  index outside the checkpoint array has no result (\<open>None\<close>).
\<close>

section \<open>The FNV-1a hasher\<close>

type_synonym hasher = "64 word"

definition fnv_offset :: "64 word" where "fnv_offset = 14695981039346656037"
definition fnv_prime :: "64 word" where "fnv_prime = 1099511628211"

definition U8 :: "8 word \<Rightarrow> hasher \<Rightarrow> hasher" where
  "U8 v h = (xor h (ucast v)) * fnv_prime"

definition U16 :: "16 word \<Rightarrow> hasher \<Rightarrow> hasher" where
  "U16 v h = U8 (ucast (drop_bit 8 v)) (U8 (ucast (and v 0xff)) h)"

definition U32 :: "32 word \<Rightarrow> hasher \<Rightarrow> hasher" where
  "U32 v h = U8 (ucast (and (drop_bit 24 v) 0xff)) (U8 (ucast (and (drop_bit 16 v) 0xff))
     (U8 (ucast (and (drop_bit 8 v) 0xff)) (U8 (ucast (and v 0xff)) h)))"

definition U64 :: "64 word \<Rightarrow> hasher \<Rightarrow> hasher" where
  "U64 v h = U32 (ucast (drop_bit 32 v)) (U32 (ucast (and v 0xffffffff)) h)"

definition I16 :: "16 word \<Rightarrow> hasher \<Rightarrow> hasher" where
  "I16 v = U16 v"

definition I32 :: "32 word \<Rightarrow> hasher \<Rightarrow> hasher" where
  "I32 v = U32 v"

text \<open>A float is its bit pattern.\<close>

definition F32 :: "32 word \<Rightarrow> hasher \<Rightarrow> hasher" where
  "F32 bits = U32 bits"

definition Fixed :: "fixed_point \<Rightarrow> hasher \<Rightarrow> hasher" where
  "Fixed f h = I16 (integral f) (U16 (fractional f) h)"

section \<open>The hashed state\<close>

record actor =
  a_status :: "32 word"
  a_side :: "32 word"
  a_rootPos :: "32 word list"
  a_values :: "fixed_point list"

record sim_state =
  numFrames :: fixed_point
  flowWords :: "32 word list"
  flowFrames :: "fixed_point list"
  actors :: "actor duo"

text \<open>Current and previous flow, current and previous substate; the frames of the current
  flow and substate, then of the previous ones; four coordinates; vitality to damage.\<close>

definition wf_actor :: "actor \<Rightarrow> bool" where
  "wf_actor a \<longleftrightarrow> length (a_rootPos a) = 4 \<and> length (a_values a) = 14"

definition wf_sim :: "sim_state \<Rightarrow> bool" where
  "wf_sim s \<longleftrightarrow> length (flowWords s) = 4 \<and> length (flowFrames s) = 4 \<and>
     wf_actor (fst (actors s)) \<and> wf_actor (snd (actors s))"

record semantic_hashes =
  sh_overall :: "64 word"
  sh_flow :: "64 word"
  sh_chara :: "64 word duo"

definition hash_flow :: "sim_state \<Rightarrow> 64 word" where
  "hash_flow s = fold Fixed (flowFrames s) (fold U32 (flowWords s) (Fixed (numFrames s) fnv_offset))"

definition hash_actor :: "actor \<Rightarrow> 64 word" where
  "hash_actor a = fold Fixed (a_values a) (fold F32 (a_rootPos a) (I32 (a_side a) (I32 (a_status a) fnv_offset)))"

definition ComputeSemanticHashes :: "sim_state \<Rightarrow> semantic_hashes" where
  "ComputeSemanticHashes s =
     (let f = hash_flow s; c0 = hash_actor (duo_get (actors s) 0); c1 = hash_actor (duo_get (actors s) 1)
      in \<lparr>sh_overall = U64 c1 (U64 c0 (U64 f fnv_offset)), sh_flow = f, sh_chara = (c0, c1)\<rparr>)"

section \<open>The checkpoint ring\<close>

definition NUM_HASH_CHECKPOINTS :: nat where "NUM_HASH_CHECKPOINTS = 64"
definition HASH_CHECKPOINT_INTERVAL :: int where "HASH_CHECKPOINT_INTERVAL = 30"
definition HASH_CHECKPOINT_AGE_FRAMES :: int where "HASH_CHECKPOINT_AGE_FRAMES = 30"

record checkpoint =
  cp_frameIdx :: int
  cp_valid :: bool
  cp_sent :: bool
  cp_hashes :: semantic_hashes

definition no_checkpoint :: checkpoint where
  "no_checkpoint = \<lparr>cp_frameIdx = -1, cp_valid = False, cp_sent = False,
     cp_hashes = \<lparr>sh_overall = 0, sh_flow = 0, sh_chara = (0, 0)\<rparr>\<rparr>"

definition ClearHashCheckpoints :: "checkpoint list" where
  "ClearHashCheckpoints = replicate NUM_HASH_CHECKPOINTS no_checkpoint"

text \<open>The C++ index: both operators truncate towards zero, so a negative frame gives a
  negative index.\<close>

definition ring_index :: "int \<Rightarrow> int" where
  "ring_index frameIdx = (frameIdx sdiv HASH_CHECKPOINT_INTERVAL) smod int NUM_HASH_CHECKPOINTS"

definition sim_frame :: "sim_state \<Rightarrow> int" where
  "sim_frame s = sint (integral (numFrames s))"

definition CaptureHashCheckpoint :: "sim_state \<Rightarrow> checkpoint list \<Rightarrow> checkpoint list option" where
  "CaptureHashCheckpoint s ring =
     (let frameIdx = sim_frame s in
      if frameIdx smod HASH_CHECKPOINT_INTERVAL \<noteq> 0 then Some ring
      else (let i = ring_index frameIdx in
        if i < 0 \<or> int (length ring) \<le> i then None
        else (let slot = ring ! nat i;
                  slot1 = (if cp_frameIdx slot \<noteq> frameIdx
                           then slot\<lparr>cp_frameIdx := frameIdx, cp_sent := False\<rparr> else slot)
              in Some (ring[nat i := slot1\<lparr>cp_hashes := ComputeSemanticHashes s, cp_valid := True\<rparr>]))))"

definition FindHashCheckpoint :: "int \<Rightarrow> checkpoint list \<Rightarrow> checkpoint option" where
  "FindHashCheckpoint frameIdx ring =
     (if frameIdx < 0 \<or> frameIdx smod HASH_CHECKPOINT_INTERVAL \<noteq> 0 then None
      else (let slot = ring ! nat (ring_index frameIdx)
            in if cp_valid slot \<and> cp_frameIdx slot = frameIdx then Some slot else None))"

text \<open>The one-second snapshot of the same state; \<open>a_values\<close> is in the order of the hash,
  which reads the combo damage before the damage.\<close>

definition chara_of :: "actor \<Rightarrow> chara_snapshot" where
  "chara_of a = \<lparr>cs_status = sint (a_status a), cs_rootPos = a_rootPos a, cs_side = sint (a_side a),
     cs_values = take 12 (a_values a) @ [a_values a ! 13, a_values a ! 12]\<rparr>"

definition snapshot_of :: "sim_state \<Rightarrow> state_snapshot" where
  "snapshot_of s = \<lparr>ss_frameIdx = sim_frame s,
     ss_chara = (chara_of (duo_get (actors s) 0), chara_of (duo_get (actors s) 1))\<rparr>"

section \<open>Hashing a byte sequence\<close>

definition hash_bytes :: "8 word list \<Rightarrow> hasher \<Rightarrow> hasher" where
  "hash_bytes bs h = fold U8 bs h"

definition le16 :: "16 word \<Rightarrow> 8 word list" where
  "le16 v = [ucast (and v 0xff), ucast (drop_bit 8 v)]"

definition le32 :: "32 word \<Rightarrow> 8 word list" where
  "le32 v = [ucast (and v 0xff), ucast (and (drop_bit 8 v) 0xff), ucast (and (drop_bit 16 v) 0xff),
     ucast (and (drop_bit 24 v) 0xff)]"

definition le_fixed :: "fixed_point \<Rightarrow> 8 word list" where
  "le_fixed f = le16 (fractional f) @ le16 (integral f)"

definition flow_bytes :: "sim_state \<Rightarrow> 8 word list" where
  "flow_bytes s = le_fixed (numFrames s) @ concat (map le32 (flowWords s)) @ concat (map le_fixed (flowFrames s))"

definition actor_bytes :: "actor \<Rightarrow> 8 word list" where
  "actor_bytes a = le32 (a_status a) @ le32 (a_side a) @ concat (map le32 (a_rootPos a)) @
     concat (map le_fixed (a_values a))"

lemma hash_bytes_append [simp]: "hash_bytes (xs @ ys) h = hash_bytes ys (hash_bytes xs h)"
  by (simp add: hash_bytes_def)

lemma hash_bytes_le:
  "U16 v h = hash_bytes (le16 v) h" "U32 w h = hash_bytes (le32 w) h" "Fixed f h = hash_bytes (le_fixed f) h"
  by (simp_all add: U16_def U32_def Fixed_def I16_def hash_bytes_def le16_def le32_def le_fixed_def)

lemma hash_bytes_concat: "fold (\<lambda>x. hash_bytes (f x)) xs h = hash_bytes (concat (map f xs)) h"
  by (induction xs arbitrary: h) (simp_all add: hash_bytes_def)

lemma hash_as_bytes:
  "hash_flow s = hash_bytes (flow_bytes s) fnv_offset" "hash_actor a = hash_bytes (actor_bytes a) fnv_offset"
proof -
  have eq: "U32 = (\<lambda>w. hash_bytes (le32 w))" "Fixed = (\<lambda>f. hash_bytes (le_fixed f))" "F32 = (\<lambda>w. hash_bytes (le32 w))"
    by (simp_all add: fun_eq_iff hash_bytes_le F32_def)
  show "hash_flow s = hash_bytes (flow_bytes s) fnv_offset" "hash_actor a = hash_bytes (actor_bytes a) fnv_offset"
    by (simp_all add: hash_flow_def hash_actor_def flow_bytes_def actor_bytes_def I32_def eq hash_bytes_concat)
qed

text \<open>One step is injective in the state and in the byte: the prime is invertible.\<close>

definition fnv_inverse :: "64 word" where "fnv_inverse = 14886173955864302971"

lemma fnv_inverse: "fnv_prime * fnv_inverse = 1"
  by (simp add: fnv_prime_def fnv_inverse_def)

lemma U8_inj_state: "U8 v h = U8 v h' \<longleftrightarrow> h = h'"
proof
  assume "U8 v h = U8 v h'"
  then have "xor h (ucast v) * (fnv_prime * fnv_inverse) = xor h' (ucast v) * (fnv_prime * fnv_inverse)"
    by (simp add: U8_def mult.assoc [symmetric])
  then have "xor h (ucast v) = xor h' (ucast v)" by (simp add: fnv_inverse)
  then have "xor (xor h (ucast v)) (ucast v) = xor (xor h' (ucast v)) (ucast v)" by simp
  then show "h = h'" by (simp add: xor.assoc)
qed simp

lemma U8_inj_byte: "U8 v h = U8 w h \<longleftrightarrow> v = w"
proof
  assume "U8 v h = U8 w h"
  then have "xor h (ucast v) * (fnv_prime * fnv_inverse) = xor h (ucast w) * (fnv_prime * fnv_inverse)"
    by (simp add: U8_def mult.assoc [symmetric])
  then have "xor h (ucast v) = xor h (ucast w)" by (simp add: fnv_inverse)
  then have "xor h (xor h (ucast v)) = xor h (xor h (ucast w))" by simp
  then have "(ucast v :: 64 word) = ucast w" by (simp add: xor.assoc [symmetric])
  then have bits: "bit (ucast v :: 64 word) n = bit (ucast w :: 64 word) n" for n by simp
  show "v = w"
  proof (rule bit_word_eqI)
    fix n assume "n < LENGTH(8)"
    then show "bit v n = bit w n" using bits [of n] by (simp add: bit_ucast_iff)
  qed
qed simp

lemma hash_bytes_inj_state: "hash_bytes bs h = hash_bytes bs h' \<longleftrightarrow> h = h'"
  by (induction bs arbitrary: h h') (simp_all add: hash_bytes_def U8_inj_state)

text \<open>Two byte sequences that differ in exactly one place hash differently.\<close>

definition differ_once :: "'a list \<Rightarrow> 'a list \<Rightarrow> bool" where
  "differ_once xs ys \<longleftrightarrow> length xs = length ys \<and> (\<exists>i<length xs. xs ! i \<noteq> ys ! i \<and> (\<forall>j<length xs. j \<noteq> i \<longrightarrow> xs ! j = ys ! j))"

lemma differ_once_split:
  assumes "differ_once xs ys"
  shows "\<exists>pre x y post. xs = pre @ x # post \<and> ys = pre @ y # post \<and> x \<noteq> y"
proof -
  from assms obtain i where i: "length xs = length ys" "i < length xs" "xs ! i \<noteq> ys ! i"
    "\<forall>j<length xs. j \<noteq> i \<longrightarrow> xs ! j = ys ! j" by (auto simp: differ_once_def)
  have pre: "take i ys = take i xs" using i by (intro nth_equalityI) auto
  have post: "drop (Suc i) ys = drop (Suc i) xs" using i by (intro nth_equalityI) auto
  have "xs = take i xs @ xs ! i # drop (Suc i) xs" using i by (simp add: id_take_nth_drop)
  moreover have "ys = take i xs @ ys ! i # drop (Suc i) xs"
    using i id_take_nth_drop [of i ys] by (simp add: pre post)
  ultimately show ?thesis using i(3) by blast
qed

lemma hash_differ_once: "differ_once xs ys \<Longrightarrow> hash_bytes xs h \<noteq> hash_bytes ys h"
  using U8_inj_byte
  by (auto dest!: differ_once_split simp: hash_bytes_inj_state) (simp add: hash_bytes_def U8_inj_state U8_inj_byte
      hash_bytes_inj_state [unfolded hash_bytes_def])

text \<open>
  The canonical encoding misses no single-byte divergence: if the flow, or a
  character, of two peers' states for a frame differs in exactly one encoded
  byte, that subsystem's hash differs; and a differing hash always means a
  differing encoding.
\<close>

theorem hash_detects_byte:
  "(differ_once (flow_bytes s) (flow_bytes t) \<longrightarrow> sh_flow (ComputeSemanticHashes s) \<noteq> sh_flow (ComputeSemanticHashes t)) \<and>
   (\<forall>i. differ_once (actor_bytes (duo_get (actors s) i)) (actor_bytes (duo_get (actors t) i)) \<longrightarrow>
      duo_get (sh_chara (ComputeSemanticHashes s)) i \<noteq> duo_get (sh_chara (ComputeSemanticHashes t)) i) \<and>
   (sh_flow (ComputeSemanticHashes s) \<noteq> sh_flow (ComputeSemanticHashes t) \<longrightarrow> flow_bytes s \<noteq> flow_bytes t) \<and>
   (sh_overall (ComputeSemanticHashes s) \<noteq> sh_overall (ComputeSemanticHashes t) \<longrightarrow>
      flow_bytes s \<noteq> flow_bytes t \<or> actor_bytes (fst (actors s)) \<noteq> actor_bytes (fst (actors t)) \<or>
      actor_bytes (snd (actors s)) \<noteq> actor_bytes (snd (actors t)))"
proof -
  have chara: "duo_get (sh_chara (ComputeSemanticHashes u)) i = hash_bytes (actor_bytes (duo_get (actors u) i)) fnv_offset" for u i
    by (simp add: ComputeSemanticHashes_def Let_def hash_as_bytes duo_get_def)
  have flow: "sh_flow (ComputeSemanticHashes u) = hash_bytes (flow_bytes u) fnv_offset" for u
    by (simp add: ComputeSemanticHashes_def Let_def hash_as_bytes)
  have overall: "sh_overall (ComputeSemanticHashes u) = U64 (hash_bytes (actor_bytes (snd (actors u))) fnv_offset)
      (U64 (hash_bytes (actor_bytes (fst (actors u))) fnv_offset) (U64 (hash_bytes (flow_bytes u) fnv_offset) fnv_offset))" for u
    by (simp add: ComputeSemanticHashes_def Let_def hash_as_bytes duo_get_def)
  show ?thesis unfolding chara flow overall using hash_differ_once by metis
qed

definition sample_actor :: actor where
  "sample_actor = \<lparr>a_status = 1, a_side = 0, a_rootPos = [0, 0, 0, 0],
     a_values = replicate 14 \<lparr>fractional = 0, integral = 0\<rparr>\<rparr>"

definition sample_sim :: "16 word \<Rightarrow> sim_state" where
  "sample_sim n = \<lparr>numFrames = \<lparr>fractional = 0, integral = n\<rparr>, flowWords = [0, 0, 0, 0],
     flowFrames = replicate 4 \<lparr>fractional = 0, integral = 0\<rparr>, actors = (sample_actor, sample_actor)\<rparr>"

theorem hash_detects_byte_witness:
  "sh_flow (ComputeSemanticHashes (sample_sim 30)) \<noteq> sh_flow (ComputeSemanticHashes (sample_sim 60))"
proof -
  have "differ_once (flow_bytes (sample_sim 30)) (flow_bytes (sample_sim 60))"
    unfolding differ_once_def
    by (intro conjI exI [of _ 2] allI impI)
      (auto simp: flow_bytes_def sample_sim_def le_fixed_def le16_def nth_append nth_Cons split: nat.splits)
  then show ?thesis using hash_detects_byte [of "sample_sim 30" "sample_sim 60"] by blast
qed

section \<open>The ring keeps the last 64 checkpoints\<close>

lemma sdiv_smod_nonneg:
  assumes "0 \<le> (a :: int)" "0 < b"
  shows "a sdiv b = a div b" "a smod b = a mod b"
  using assms by (cases "a = 0"; simp add: signed_divide_int_def signed_modulo_int_def)+

lemma ring_index_nonneg:
  assumes "0 \<le> f" shows "ring_index f = (f div 30) mod 64" "0 \<le> ring_index f" "ring_index f < 64"
proof -
  have "0 \<le> f div 30" using assms by simp
  then show "ring_index f = (f div 30) mod 64"
    using assms by (simp add: ring_index_def HASH_CHECKPOINT_INTERVAL_def NUM_HASH_CHECKPOINTS_def sdiv_smod_nonneg)
  then show "0 \<le> ring_index f" "ring_index f < 64" by simp_all
qed

lemma smod_nonneg: "0 \<le> f \<Longrightarrow> f smod HASH_CHECKPOINT_INTERVAL = f mod 30"
  by (simp add: HASH_CHECKPOINT_INTERVAL_def sdiv_smod_nonneg)

definition put_checkpoint :: "sim_state \<Rightarrow> checkpoint list \<Rightarrow> checkpoint list" where
  "put_checkpoint s ring =
     (let i = nat (ring_index (sim_frame s)); slot = ring ! i;
          slot1 = (if cp_frameIdx slot \<noteq> sim_frame s
                   then slot\<lparr>cp_frameIdx := sim_frame s, cp_sent := False\<rparr> else slot)
      in ring[i := slot1\<lparr>cp_hashes := ComputeSemanticHashes s, cp_valid := True\<rparr>])"

lemma capture_put:
  assumes "0 \<le> sim_frame s" "sim_frame s mod 30 = 0" "length ring = 64"
  shows "CaptureHashCheckpoint s ring = Some (put_checkpoint s ring)"
  using assms ring_index_nonneg(2,3) [OF assms(1)]
  by (simp add: CaptureHashCheckpoint_def put_checkpoint_def smod_nonneg Let_def)

lemma length_put [simp]: "length (put_checkpoint s ring) = length ring"
  by (simp add: put_checkpoint_def Let_def)

lemma find_put_same:
  assumes "0 \<le> sim_frame s" "sim_frame s mod 30 = 0" "length ring = 64"
  shows "\<exists>c. FindHashCheckpoint (sim_frame s) (put_checkpoint s ring) = Some c \<and> cp_hashes c = ComputeSemanticHashes s"
  using assms ring_index_nonneg(2,3) [OF assms(1)]
  by (simp add: FindHashCheckpoint_def put_checkpoint_def smod_nonneg Let_def)

lemma find_put_other:
  assumes "0 \<le> sim_frame s" "0 \<le> g" "ring_index g \<noteq> ring_index (sim_frame s)"
  shows "FindHashCheckpoint g (put_checkpoint s ring) = FindHashCheckpoint g ring"
proof -
  have "nat (ring_index g) \<noteq> nat (ring_index (sim_frame s))"
    using assms(3) ring_index_nonneg(2) [OF assms(1)] ring_index_nonneg(2) [OF assms(2)] by simp
  then show ?thesis by (simp add: FindHashCheckpoint_def put_checkpoint_def Let_def)
qed

text \<open>Checkpoint frames closer than 64 intervals occupy different slots.\<close>

lemma ring_index_apart:
  assumes "0 \<le> f" "f < g" "g < f + 1920" "f mod 30 = 0" "g mod 30 = 0"
  shows "ring_index f \<noteq> ring_index g"
proof
  assume eq: "ring_index f = ring_index g"
  obtain a b where ab: "f = 30 * a" "g = 30 * b" using assms(4,5) by (metis mod_0_imp_dvd dvdE)
  then have "a mod 64 = b mod 64" "a < b" "b < a + 64"
    using eq assms ring_index_nonneg(1) [OF assms(1)] ring_index_nonneg(1) [of g] by simp_all
  then have "(b - a) mod 64 = 0" by (metis mod_diff_cong mod_0 diff_self)
  then show False using \<open>a < b\<close> \<open>b < a + 64\<close> by auto
qed

fun capture_run :: "sim_state list \<Rightarrow> checkpoint list \<Rightarrow> checkpoint list option" where
  "capture_run [] ring = Some ring"
| "capture_run (s # ss) ring =
     (case CaptureHashCheckpoint s ring of None \<Rightarrow> None | Some r \<Rightarrow> capture_run ss r)"

lemma capture_run_find:
  assumes "length ring = 64" "FindHashCheckpoint f ring = Some c" "0 \<le> f" "f mod 30 = 0"
    "\<forall>s\<in>set ss. f < sim_frame s \<and> sim_frame s < f + 1920"
  shows "\<exists>r c'. capture_run ss ring = Some r \<and> length r = 64 \<and> FindHashCheckpoint f r = Some c' \<and>
    cp_hashes c' = cp_hashes c"
  using assms
proof (induction ss arbitrary: ring)
  case Nil
  then show ?case by auto
next
  case (Cons s ss)
  show ?case
  proof (cases "sim_frame s mod 30 = 0")
    case False
    then have "CaptureHashCheckpoint s ring = Some ring"
      using Cons.prems by (simp add: CaptureHashCheckpoint_def smod_nonneg Let_def)
    then show ?thesis using Cons.IH [OF Cons.prems(1-4)] Cons.prems(5) by simp
  next
    case True
    have s: "0 \<le> sim_frame s" "f < sim_frame s" "sim_frame s < f + 1920" using Cons.prems by auto
    have find: "FindHashCheckpoint f (put_checkpoint s ring) = Some c"
      using find_put_other [OF s(1) Cons.prems(3)] ring_index_apart [OF Cons.prems(3) s(2,3) Cons.prems(4) True]
        Cons.prems(2) by simp
    show ?thesis
      using Cons.IH [of "put_checkpoint s ring"] Cons.prems find
      by (simp add: capture_put [OF s(1) True Cons.prems(1)])
  qed
qed

text \<open>
  A checkpoint taken at a multiple of 30 frames is found again, with the
  hashes of its frame, after any further captures, rollback re-captures of later
  frames included, that stay within the following 64 intervals; none of those
  captures leaves the array.
\<close>

theorem checkpoint_retained:
  assumes "length ring = 64" "0 \<le> sim_frame s" "sim_frame s mod 30 = 0"
    "\<forall>t\<in>set ss. sim_frame s < sim_frame t \<and> sim_frame t < sim_frame s + 1920"
  shows "\<exists>r c. capture_run (s # ss) ring = Some r \<and> FindHashCheckpoint (sim_frame s) r = Some c \<and>
    cp_hashes c = ComputeSemanticHashes s"
proof -
  obtain c where c: "FindHashCheckpoint (sim_frame s) (put_checkpoint s ring) = Some c"
    "cp_hashes c = ComputeSemanticHashes s" using find_put_same [OF assms(2,3,1)] by blast
  show ?thesis
    using capture_run_find [OF _ c(1) assms(2,3,4)] assms(1) c(2)
    by (auto simp: capture_put [OF assms(2,3,1)])
qed

theorem checkpoint_retained_witness:
  "\<exists>r c. capture_run [sample_sim 30, sample_sim 60, sample_sim 61] ClearHashCheckpoints = Some r \<and>
     FindHashCheckpoint (sim_frame (sample_sim 30)) r = Some c \<and> cp_hashes c = ComputeSemanticHashes (sample_sim 30)"
  by (rule checkpoint_retained) (simp_all add: ClearHashCheckpoints_def NUM_HASH_CHECKPOINTS_def sim_frame_def sample_sim_def)

text \<open>
  The frame counter is read as a signed 16-bit number. Past 32767 frames it
  is negative, and a capture then indexes before the array unless the interval
  number is a multiple of 64: the write is undefined exactly there.
\<close>

theorem capture_out_of_bounds:
  assumes "length ring = 64"
  shows "CaptureHashCheckpoint s ring = None \<longleftrightarrow>
    sim_frame s < 0 \<and> (- sim_frame s) mod 30 = 0 \<and> ((- sim_frame s) div 30) mod 64 \<noteq> 0"
proof (cases "0 \<le> sim_frame s")
  case True
  then show ?thesis
    using assms ring_index_nonneg(2,3) [OF True]
    by (auto simp: CaptureHashCheckpoint_def Let_def)
next
  case False
  define f where "f = - sim_frame s"
  have f: "sim_frame s = - f" "0 < f" using False by (simp_all add: f_def)
  have m: "sim_frame s smod 30 = - (f mod 30)"
    using f by (simp add: signed_modulo_int_def signed_divide_int_def minus_mod_eq_mult_div [symmetric])
  have i: "ring_index (sim_frame s) = - ((f div 30) mod 64)"
  proof (cases "f div 30 = 0")
    case True
    then show ?thesis using f by (simp add: ring_index_def HASH_CHECKPOINT_INTERVAL_def NUM_HASH_CHECKPOINTS_def
        signed_divide_int_def signed_modulo_int_def)
  next
    case nz: False
    then have "0 < f div 30" using f by (simp add: pos_imp_zdiv_pos_iff)
    then show ?thesis using f
      by (simp add: ring_index_def HASH_CHECKPOINT_INTERVAL_def NUM_HASH_CHECKPOINTS_def
          signed_divide_int_def signed_modulo_int_def minus_mod_eq_mult_div [symmetric])
  qed
  have "(f div 30) mod 64 \<noteq> 0 \<longleftrightarrow> - ((f div 30) mod 64) < 0"
    using pos_mod_sign [of 64 "f div 30"] by linarith
  then show ?thesis
    using assms f m i by (simp add: CaptureHashCheckpoint_def HASH_CHECKPOINT_INTERVAL_def Let_def)
qed

theorem capture_out_of_bounds_witness:
  "sim_frame (sample_sim 0x8008) = - 32760 \<and> CaptureHashCheckpoint (sample_sim 0x8008) ClearHashCheckpoints = None"
proof -
  have frame: "sim_frame (sample_sim 0x8008) = - 32760" by (simp add: sim_frame_def sample_sim_def)
  show ?thesis
    using capture_out_of_bounds [of ClearHashCheckpoints "sample_sim 0x8008"] frame
    by (simp add: ClearHashCheckpoints_def NUM_HASH_CHECKPOINTS_def)
qed

end
