(* ===== verification/Ordered_Map.thy ===== *)
theory Ordered_Map
  imports Prelude
begin

text \<open>
  std::map with integer keys, as the client uses it: an association list with
  strictly increasing keys. \<open>table\<close> is what its users rely on, \<open>bounded_table\<close>
  adds the size and the first element for the bounded buffer.
\<close>

type_synonym 'v omap = "(int \<times> 'v) list"

definition om_find :: "int \<Rightarrow> 'v omap \<Rightarrow> 'v option" where
  "om_find k m = map_of m k"

fun om_assign :: "int \<Rightarrow> 'v \<Rightarrow> 'v omap \<Rightarrow> 'v omap" where
  "om_assign k v [] = [(k, v)]"
| "om_assign k v ((k', v') # m) =
     (if k < k' then (k, v) # (k', v') # m
      else if k = k' then (k, v) # m
      else (k', v') # om_assign k v m)"

definition om_emplace :: "int \<Rightarrow> 'v \<Rightarrow> 'v omap \<Rightarrow> 'v omap" where
  "om_emplace k v m = (if om_find k m = None then om_assign k v m else m)"

definition om_erase :: "int \<Rightarrow> 'v omap \<Rightarrow> 'v omap" where
  "om_erase k m = filter (\<lambda>(k', _). k' \<noteq> k) m"

definition om_ok :: "'v omap \<Rightarrow> bool" where
  "om_ok m \<longleftrightarrow> sorted_wrt (<) (map fst m)"

locale table =
  fixes find :: "'k \<Rightarrow> 'm \<Rightarrow> 'v option"
    and assign :: "'k \<Rightarrow> 'v \<Rightarrow> 'm \<Rightarrow> 'm"
    and erase :: "'k \<Rightarrow> 'm \<Rightarrow> 'm"
    and ok :: "'m \<Rightarrow> bool"
  assumes find_assign: "ok m \<Longrightarrow> find k' (assign k v m) = (if k' = k then Some v else find k' m)"
    and find_erase: "ok m \<Longrightarrow> find k' (erase k m) = (if k' = k then None else find k' m)"
    and ok_assign: "ok m \<Longrightarrow> ok (assign k v m)"
    and ok_erase: "ok m \<Longrightarrow> ok (erase k m)"
begin

definition emplace :: "'k \<Rightarrow> 'v \<Rightarrow> 'm \<Rightarrow> 'm" where
  "emplace k v m = (if find k m = None then assign k v m else m)"

lemma find_emplace: "ok m \<Longrightarrow> find k' (emplace k v m) = (if k' = k \<and> find k m = None then Some v else find k' m)"
  by (simp add: emplace_def find_assign)

lemma ok_emplace: "ok m \<Longrightarrow> ok (emplace k v m)"
  by (simp add: emplace_def ok_assign)

lemma assign_erase: "ok m \<Longrightarrow> find k (erase k (assign k v m)) = None"
  by (simp add: find_erase ok_assign)

end

locale bounded_table = table +
  fixes size :: "'b \<Rightarrow> nat" and evict :: "'b \<Rightarrow> 'b"
  assumes size_assign: "size (assign k v m) \<le> Suc (size m)"
    and size_evict: "size m \<noteq> 0 \<Longrightarrow> size (evict m) < size m"
    and ok_evict: "ok m \<Longrightarrow> ok (evict m)"
begin

lemma bounded_store:
  assumes "size m \<le> n" "0 < n"
  shows "size (assign k v (if n \<le> size m then evict m else m)) \<le> n"
proof (cases "n \<le> size m")
  case True
  then have "size (evict m) < size m" using assms by (intro size_evict) simp
  then show ?thesis using True assms size_assign [of k v "evict m"] by simp
next
  case False
  then show ?thesis using size_assign [of k v m] by simp
qed

lemma store_found: "ok m \<Longrightarrow> find k (assign k v (if b then evict m else m)) = Some v"
  by (simp add: find_assign ok_evict)

end

lemma om_keys_assign: "set (map fst (om_assign k v m)) = insert k (set (map fst m))"
  by (induction k v m rule: om_assign.induct) auto

lemma om_assign_ok: "om_ok m \<Longrightarrow> om_ok (om_assign k v m)"
proof (induction k v m rule: om_assign.induct)
  case (2 k v k' v' m)
  then show ?case using om_keys_assign [of k v m] by (force simp: om_ok_def)
qed (simp add: om_ok_def)

lemma om_find_notin: "k \<notin> set (map fst m) \<Longrightarrow> om_find k m = None"
  by (simp add: om_find_def map_of_eq_None_iff)

lemma om_find_assign: "om_ok m \<Longrightarrow> om_find k' (om_assign k v m) = (if k' = k then Some v else om_find k' m)"
proof (induction k v m rule: om_assign.induct)
  case (2 k v k2 v2 m)
  then show ?case by (auto simp: om_ok_def om_find_def)
qed (simp add: om_find_def)

lemma om_find_erase: "om_find k' (om_erase k m) = (if k' = k then None else om_find k' m)"
  by (induction m) (auto simp: om_find_def om_erase_def)

lemma om_erase_ok: "om_ok m \<Longrightarrow> om_ok (om_erase k m)"
  by (induction m) (auto simp: om_ok_def om_erase_def)

lemma om_length_assign: "length (om_assign k v m) \<le> Suc (length m)"
  by (induction k v m rule: om_assign.induct) auto

interpretation om: bounded_table om_find om_assign om_erase om_ok length tl
proof
  show "om_ok m \<Longrightarrow> om_ok (tl m)" for m :: "'v omap"
    by (cases m) (auto simp: om_ok_def)
qed (simp_all add: om_find_assign om_find_erase om_assign_ok om_erase_ok om_length_assign)

lemma om_emplace_eq: "om_emplace = om.emplace"
  by (simp add: fun_eq_iff om_emplace_def om.emplace_def)

lemma om_ok_Nil [simp]: "om_ok []"
  by (simp add: om_ok_def)

lemma om_find_Nil [simp]: "om_find k [] = None"
  by (simp add: om_find_def)

end
