(* ===== verification/Session_Client.thy ===== *)
theory Session_Client
  imports Session_Server State_Hash Ordered_Map Wire
begin

text \<open>
  The session client (session/sf4e__SessionClient.cxx): its state, the part of
  the battle system it shares (snapshot map, checkpoint ring, frame counter,
  leaving flag), the message loop and the two reconciliation passes of Step,
  the desync report, the connection callback and the send operations. What a
  call does outside is an effect, in order; whether a send succeeds is a
  parameter \<open>ok\<close> of the number of effects before it.
\<close>

section \<open>State and effects\<close>

datatype error_type = SCE_UNKNOWN | SCE_JOIN_REJECTED_HASH_INVALID | SCE_JOIN_REJECTED_LOBBY_FULL
  | SCE_JOIN_REJECTED_NAME_TAKEN | SCE_JOIN_REJECTED_REQUEST_INVALID

record tunnel_stats =
  sendCount :: "64 word"
  sendBytes :: "64 word"
  recvCount :: "64 word"
  recvBytes :: "64 word"

record client =
  c_name :: string
  c_lobby :: lobby_data
  c_match :: match_data
  c_outstanding :: int
  c_snapshotsEnabled :: bool
  c_sidecarHash :: string
  c_ggpoPort :: "16 word"
  c_useRelay :: bool
  c_pendingSnaps :: "state_snapshot omap"
  c_pendingHashes :: "battle_hash omap"
  c_cid :: connection_id
  c_connected :: bool
  c_conn :: "conn option"
  c_stats :: tunnel_stats
  c_punchGo :: bool

record snap_entry =
  se_snap :: state_snapshot
  se_sent :: bool
  se_confirmed :: bool

record game =
  g_snaps :: "snap_entry omap"
  g_ring :: "checkpoint list"
  g_frame :: int
  g_leaving :: bool

datatype 'j effect =
    Send "'j request"
  | CallError error_type
  | CallReady
  | CallSynced
  | CloseConnection
  | Inject connection_id "8 word list"
  | Mismatch int bool bool bool "int list"
  | Alert string
  | ControlPlaneLoss

record 'j cround =
  cl :: client
  gm :: game
  eff :: "'j effect list"

definition emit :: "'j effect \<Rightarrow> 'j cround \<Rightarrow> 'j cround" where
  "emit e r = r\<lparr>eff := eff r @ [e]\<rparr>"

definition MAX_PENDING_REMOTE_HASHES :: nat where "MAX_PENDING_REMOTE_HASHES = 64"

definition client_init :: "string \<Rightarrow> 16 word \<Rightarrow> string \<Rightarrow> client" where
  "client_init hash port name =
     \<lparr>c_name = name, c_lobby = NULL_LOBBY, c_match = MatchData_init, c_outstanding = -1,
      c_snapshotsEnabled = False, c_sidecarHash = hash, c_ggpoPort = port, c_useRelay = True,
      c_pendingSnaps = [], c_pendingHashes = [], c_cid = \<lparr>cid_host = [], cid_user = []\<rparr>,
      c_connected = False, c_conn = None,
      c_stats = \<lparr>sendCount = 0, sendBytes = 0, recvCount = 0, recvBytes = 0\<rparr>, c_punchGo = False\<rparr>"

text \<open>Connect to an existing local connection, and to an address.\<close>

definition connect_local :: "conn \<Rightarrow> client \<Rightarrow> client" where
  "connect_local c st = st\<lparr>c_snapshotsEnabled := False, c_conn := Some c, c_connected := True\<rparr>"

definition connect_addr :: "conn option \<Rightarrow> client \<Rightarrow> client" where
  "connect_addr created st = st\<lparr>c_snapshotsEnabled := True, c_conn := created\<rparr>"

definition Disconnect :: "client \<Rightarrow> client" where
  "Disconnect st =
     (if c_conn st \<noteq> None then st\<lparr>c_conn := None, c_connected := False, c_lobby := NULL_LOBBY\<rparr> else st)"

definition IsLocalPlayer :: "client \<Rightarrow> bool" where
  "IsLocalPlayer st \<longleftrightarrow> (\<exists>m\<in>set (take 2 (members (c_lobby st))). ConnectionID_eq (connId m) (c_cid st))"

section \<open>The desync report\<close>

definition nearby_frames :: "checkpoint list \<Rightarrow> int \<Rightarrow> int list" where
  "nearby_frames ring frameIdx =
     map cp_frameIdx (filter (\<lambda>cp. cp_valid cp \<and> cp_frameIdx cp \<noteq> frameIdx \<and>
       -90 \<le> cp_frameIdx cp - frameIdx \<and> cp_frameIdx cp - frameIdx \<le> 90) ring)"

definition ReportHashMismatch :: "bool \<Rightarrow> checkpoint \<Rightarrow> battle_hash \<Rightarrow> 'j cround \<Rightarrow> 'j cround" where
  "ReportHashMismatch strict local remote r =
     (if sh_overall (cp_hashes local) = bh_overall remote then r
      else (let r1 = emit (Mismatch (cp_frameIdx local)
                (sh_flow (cp_hashes local) = bh_flow remote)
                (duo_get (sh_chara (cp_hashes local)) 0 = bh_chara0 remote)
                (duo_get (sh_chara (cp_hashes local)) 1 = bh_chara1 remote)
                (nearby_frames (g_ring (gm r)) (cp_frameIdx local))) r
            in if strict \<and> bh_fromPlayer remote \<and> IsLocalPlayer (cl r1)
               then r1\<lparr>gm := (gm r1)\<lparr>g_leaving := True\<rparr>\<rparr> else r1))"

section \<open>Received messages\<close>

definition map_join_error :: "join_result \<Rightarrow> error_type" where
  "map_join_error res =
     (case res of
        JR_HASH_INVALID \<Rightarrow> SCE_JOIN_REJECTED_HASH_INVALID
      | JR_LOBBY_FULL \<Rightarrow> SCE_JOIN_REJECTED_LOBBY_FULL
      | JR_NAME_TAKEN \<Rightarrow> SCE_JOIN_REJECTED_NAME_TAKEN
      | JR_REQUEST_INVALID \<Rightarrow> SCE_JOIN_REJECTED_REQUEST_INVALID
      | _ \<Rightarrow> SCE_UNKNOWN)"

definition client_helloresp :: "connection_id \<Rightarrow> 'j cround \<Rightarrow> 'j cround" where
  "client_helloresp cid r =
     (let st = (cl r)\<lparr>c_cid := cid\<rparr>
      in emit (Send (JoinReq \<lparr>jr_sidecarHash = c_sidecarHash st, jr_username = c_name st,
           jr_port = c_ggpoPort st\<rparr>)) (r\<lparr>cl := st\<rparr>))"

definition client_joinrej :: "join_result \<Rightarrow> 'j cround \<Rightarrow> 'j cround" where
  "client_joinrej res r =
     (emit CloseConnection (emit (CallError (map_join_error res)) r))\<lparr>cl := (cl r)\<lparr>c_conn := None\<rparr>\<rparr>"

text \<open>The outstanding ready request is settled when the update carries its number on the
  first of the two player seats that bears this client's name.\<close>

definition client_dataupdate :: "lobby_data \<Rightarrow> match_data \<Rightarrow> 'j cround \<Rightarrow> 'j cround" where
  "client_dataupdate l m r =
     (let st = (cl r)\<lparr>c_lobby := l, c_match := m\<rparr>;
          st' = (if -1 < c_outstanding st
                 then (case find_index (\<lambda>x. m_name x = c_name st) (take 2 (members l)) of
                     Some i \<Rightarrow> (if duo_get (readyMessageNum m) i = c_outstanding st
                                then st\<lparr>c_outstanding := -1\<rparr> else st)
                   | None \<Rightarrow> st)
                 else st)
      in r\<lparr>cl := st'\<rparr>)"

definition client_snapshot :: "state_snapshot \<Rightarrow> 'j cround \<Rightarrow> 'j cround" where
  "client_snapshot s r =
     (case om_find (ss_frameIdx s) (g_snaps (gm r)) of
        Some e \<Rightarrow>
          (let g = (if s \<noteq> se_snap e then (gm r)\<lparr>g_leaving := True\<rparr> else gm r);
               e' = e\<lparr>se_confirmed := True\<rparr>
           in r\<lparr>gm := g\<lparr>g_snaps := (if se_sent e' then om_erase (ss_frameIdx s) (g_snaps g)
                                    else om_assign (ss_frameIdx s) e' (g_snaps g))\<rparr>\<rparr>)
      | None \<Rightarrow> r\<lparr>cl := (cl r)\<lparr>c_pendingSnaps := om_emplace (ss_frameIdx s) s (c_pendingSnaps (cl r))\<rparr>\<rparr>)"

definition client_hash :: "battle_hash \<Rightarrow> 'j cround \<Rightarrow> 'j cround" where
  "client_hash h r =
     r\<lparr>cl := (cl r)\<lparr>c_pendingHashes := om_assign (bh_frameIdx h) h
        (if MAX_PENDING_REMOTE_HASHES \<le> length (c_pendingHashes (cl r))
         then tl (c_pendingHashes (cl r)) else c_pendingHashes (cl r))\<rparr>\<rparr>"

definition OnGgpoFrameReceived :: "ggpo_frame \<Rightarrow> 'j cround \<Rightarrow> 'j cround" where
  "OnGgpoFrameReceived f r =
     (if \<not> ConnectionID_eq (gf_dest f) (c_cid (cl r)) then r
      else emit (Inject (gf_src f) (gf_data f))
        (r\<lparr>cl := (cl r)\<lparr>c_stats := (c_stats (cl r))
           \<lparr>recvCount := recvCount (c_stats (cl r)) + 1,
            recvBytes := recvBytes (c_stats (cl r)) + of_nat (length (gf_data f))\<rparr>\<rparr>\<rparr>))"

text \<open>The boolean: whether the loop goes on. A rejected join makes Step return -1.\<close>

definition client_message :: "'j codec \<Rightarrow> 'j option \<Rightarrow> 'j cround \<Rightarrow> 'j cround \<times> bool" where
  "client_message C body r =
     (case body of
        None \<Rightarrow> (r, True)
      | Some j \<Rightarrow>
         (case get_type C j of
            None \<Rightarrow> (r, True)
          | Some ty \<Rightarrow>
             (if ty = MT_SESSION_HELLO_RESP then
                (case get_helloresp C j of None \<Rightarrow> r | Some c \<Rightarrow> client_helloresp c r, True)
              else if ty = MT_SESSION_JOINREJ then
                (case get_joinrej C j of None \<Rightarrow> (r, True) | Some res \<Rightarrow> (client_joinrej res r, False))
              else if ty = MT_SESSION_DATAUPDATE then
                (case get_dataupdate C j of None \<Rightarrow> r | Some (l, m) \<Rightarrow> client_dataupdate l m r, True)
              else if ty = MT_LOBBY_ALLREADY then (emit CallReady r, True)
              else if ty = MT_BATTLE_SYNCED then (emit CallSynced r, True)
              else if ty = MT_BATTLE_SNAPSHOT then
                (case get_snapshot C j of None \<Rightarrow> r | Some s \<Rightarrow> client_snapshot s r, True)
              else if ty = MT_BATTLE_HASH then
                (case get_hash C j of None \<Rightarrow> r | Some h \<Rightarrow> client_hash h r, True)
              else if ty = MT_BATTLE_GGPO_FRAME then
                (case get_frame C j of None \<Rightarrow> r | Some f \<Rightarrow> OnGgpoFrameReceived f r, True)
              else if ty = MT_PUNCH_GO then (r\<lparr>cl := (cl r)\<lparr>c_punchGo := True\<rparr>\<rparr>, True)
              else (r, True))))"

text \<open>Messages as the library returned them; an element \<open>None\<close> was enumerated without data.\<close>

fun client_loop :: "'j codec \<Rightarrow> 'j option option list \<Rightarrow> 'j cround \<Rightarrow> 'j cround \<times> bool" where
  "client_loop C [] r = (r, True)"
| "client_loop C (None # ms) r = (r, False)"
| "client_loop C (Some m # ms) r =
     (case client_message C m r of (r', True) \<Rightarrow> client_loop C ms r' | (r', False) \<Rightarrow> (r', False))"

section \<open>Reconciliation\<close>

definition confirm_entry :: "int \<Rightarrow> snap_entry \<Rightarrow> 'j cround \<Rightarrow> snap_entry \<times> 'j cround" where
  "confirm_entry k e r =
     (if se_confirmed e then (e, r)
      else (case om_find k (c_pendingSnaps (cl r)) of
          None \<Rightarrow> (e, r)
        | Some s \<Rightarrow> (e\<lparr>se_confirmed := True\<rparr>,
            if s \<noteq> se_snap e then r\<lparr>gm := (gm r)\<lparr>g_leaving := True\<rparr>\<rparr> else r)))"

fun reconcile_snaps :: "int \<Rightarrow> snap_entry omap \<Rightarrow> 'j cround \<Rightarrow> snap_entry omap \<times> 'j cround" where
  "reconcile_snaps frame [] r = ([], r)"
| "reconcile_snaps frame ((k, e) # m) r =
     (if frame - k < 60 then (let (m', r') = reconcile_snaps frame m r in ((k, e) # m', r'))
      else (let r1 = (if se_sent e then r else emit (Send (Snapshot (se_snap e))) r);
                (e2, r2) = confirm_entry k (e\<lparr>se_sent := True\<rparr>) r1;
                (m', r') = reconcile_snaps frame m r2
            in (if se_confirmed e2 \<and> se_sent e2 then m' else (k, e2) # m', r')))"

definition hash_message :: "checkpoint \<Rightarrow> battle_hash" where
  "hash_message cp = \<lparr>bh_frameIdx = cp_frameIdx cp, bh_overall = sh_overall (cp_hashes cp),
     bh_flow = sh_flow (cp_hashes cp), bh_chara0 = duo_get (sh_chara (cp_hashes cp)) 0,
     bh_chara1 = duo_get (sh_chara (cp_hashes cp)) 1, bh_fromPlayer = True\<rparr>"

definition exchange_hash ::
  "(nat \<Rightarrow> bool) \<Rightarrow> bool \<Rightarrow> bool \<Rightarrow> checkpoint \<Rightarrow> 'j cround \<Rightarrow> checkpoint \<times> 'j cround" where
  "exchange_hash ok strict isPlayer cp r =
     (let sending = (\<not> cp_sent cp \<and> isPlayer);
          cp1 = (if sending \<and> ok (length (eff r)) then cp\<lparr>cp_sent := True\<rparr> else cp);
          r1 = (if sending then emit (Send (HashMsg (hash_message cp))) r else r)
      in (cp1,
          case om_find (cp_frameIdx cp) (c_pendingHashes (cl r1)) of
            None \<Rightarrow> r1
          | Some h \<Rightarrow>
              (let r2 = ReportHashMismatch strict cp1 h r1
               in r2\<lparr>cl := (cl r2)\<lparr>c_pendingHashes := om_erase (cp_frameIdx cp) (c_pendingHashes (cl r2))\<rparr>\<rparr>)))"

fun reconcile_hashes ::
  "(nat \<Rightarrow> bool) \<Rightarrow> bool \<Rightarrow> int \<Rightarrow> bool \<Rightarrow> checkpoint list \<Rightarrow> 'j cround \<Rightarrow> checkpoint list \<times> 'j cround" where
  "reconcile_hashes ok strict frame isPlayer [] r = ([], r)"
| "reconcile_hashes ok strict frame isPlayer (cp # cps) r =
     (if \<not> cp_valid cp \<or> frame - cp_frameIdx cp < HASH_CHECKPOINT_AGE_FRAMES
      then (let (cps', r') = reconcile_hashes ok strict frame isPlayer cps r in (cp # cps', r'))
      else (let (cp1, r1) = exchange_hash ok strict isPlayer cp r;
                (cps', r') = reconcile_hashes ok strict frame isPlayer cps r1
            in (cp1 # cps', r')))"

definition reconcile :: "(nat \<Rightarrow> bool) \<Rightarrow> bool \<Rightarrow> 'j cround \<Rightarrow> 'j cround" where
  "reconcile ok strict r =
     (let frame = g_frame (gm r);
          (snaps, r1) = reconcile_snaps frame (g_snaps (gm r)) r;
          r2 = r1\<lparr>gm := (gm r1)\<lparr>g_snaps := snaps\<rparr>\<rparr>;
          (ring, r3) = reconcile_hashes ok strict frame (IsLocalPlayer (cl r2)) (g_ring (gm r2)) r2
      in r3\<lparr>gm := (gm r3)\<lparr>g_ring := ring\<rparr>\<rparr>)"

definition client_step ::
  "'j codec \<Rightarrow> (nat \<Rightarrow> bool) \<Rightarrow> bool \<Rightarrow> 'j option option list option \<Rightarrow> client \<Rightarrow> game \<Rightarrow> 'j cround \<times> int" where
  "client_step C ok strict poll st g =
     (let r = \<lparr>cl = st, gm = g, eff = []\<rparr>
      in if c_conn st = None \<or> \<not> c_connected st then (r, 0)
         else (case poll of
             None \<Rightarrow> (r, -1)
           | Some ms \<Rightarrow>
              (case client_loop C ms r of
                 (r', False) \<Rightarrow> (r', -1)
               | (r', True) \<Rightarrow> (if c_snapshotsEnabled (cl r') then reconcile ok strict r' else r', 0))))"

section \<open>The connection callback and the send operations\<close>

text \<open>\<open>inSession\<close>: a GGPO session exists. The hello is sent on the connection.\<close>

definition client_conn_changed ::
  "bool \<Rightarrow> conn_state \<Rightarrow> conn_state \<Rightarrow> client \<Rightarrow> client \<times> 'j effect list" where
  "client_conn_changed inSession new old st =
     (let wasInMatch = (old = CS_Connected \<and> inSession)
      in if new = CS_ClosedByPeer \<or> new = CS_ProblemDetectedLocally then
           (st\<lparr>c_conn := None, c_connected := False\<rparr>,
            (if old = CS_Connecting
             then [Alert ''Could not connect to the game room. Check your internet and try again.'']
             else if \<not> wasInMatch \<and> new = CS_ProblemDetectedLocally
             then [Alert ''Lost connection to the game room. Check your internet and try again.'']
             else []) @ [CloseConnection] @ (if wasInMatch then [ControlPlaneLoss] else []))
         else if new = CS_Connected then (st\<lparr>c_connected := True\<rparr>, [Send Hello])
         else (st, []))"

text \<open>\<open>number\<close> is the message number of a successful send; a failed one leaves the output
  argument as it was.\<close>

definition Lobby_Ready :: "int option \<Rightarrow> client \<Rightarrow> client \<times> 'j request" where
  "Lobby_Ready number st = (case number of Some n \<Rightarrow> st\<lparr>c_outstanding := n\<rparr> | None \<Rightarrow> st, Ready)"

definition Lobby_ReportResults :: "int \<Rightarrow> 'j request" where
  "Lobby_ReportResults loserSide = ReportResults loserSide"

definition Lobby_ResetRematch :: "'j request" where
  "Lobby_ResetRematch = Reset"

definition Lobby_SetSettings :: "bool \<Rightarrow> int \<Rightarrow> fixed_point \<Rightarrow> bool \<Rightarrow> 'j request" where
  "Lobby_SetSettings edition rounds time training =
     SetSettings \<lparr>ls_editionSelect = edition, ls_roundCount = rounds, ls_roundTime = time, ls_trainingMode = training\<rparr>"

definition PreBattle_SetEnv :: "32 word \<Rightarrow> 'j request" where
  "PreBattle_SetEnv seed = SetEnv seed"

definition PreBattle_SetChara :: "chara_conditions \<Rightarrow> 'j request" where
  "PreBattle_SetChara ch = SetChara ch"

definition PreBattle_SetStage :: "int \<Rightarrow> 'j request" where
  "PreBattle_SetStage stage = SetStage stage"

definition Battle_Loaded :: "'j request" where
  "Battle_Loaded = Loaded"

definition Punch_Reset :: "client \<Rightarrow> client" where
  "Punch_Reset st = st\<lparr>c_punchGo := False\<rparr>"

definition Punch_SendReady :: "'j request" where
  "Punch_SendReady = PunchReadyMsg"

definition Forward :: "connection_id \<Rightarrow> 'j \<Rightarrow> client \<Rightarrow> 'j request" where
  "Forward dest j st = ForwardMsg \<lparr>fw_src = c_cid st, fw_dest = dest, fw_msg = j\<rparr>"

text \<open>\<open>textLength\<close> is the length of the serialised message.\<close>

definition SendGgpoFrame ::
  "('j request \<Rightarrow> nat) \<Rightarrow> connection_id \<Rightarrow> 8 word list \<Rightarrow> client \<Rightarrow> client \<times> 'j request option" where
  "SendGgpoFrame textLength dest bytes st =
     (if c_conn st = None \<or> bytes = [] then (st, None)
      else (let m = FrameMsg \<lparr>gf_src = c_cid st, gf_dest = dest, gf_data = bytes\<rparr>
            in (st\<lparr>c_stats := (c_stats st)\<lparr>sendCount := sendCount (c_stats st) + 1,
                  sendBytes := sendBytes (c_stats st) + of_nat (textLength m)\<rparr>\<rparr>, Some m)))"

section \<open>Facts\<close>

lemma emit_simps [simp]: "cl (emit e r) = cl r" "gm (emit e r) = gm r" "eff (emit e r) = eff r @ [e]"
  by (simp_all add: emit_def)

definition aged :: "int \<Rightarrow> int \<Rightarrow> bool" where
  "aged frame k \<longleftrightarrow> 60 \<le> frame - k"

definition mismatched :: "client \<Rightarrow> int \<Rightarrow> snap_entry \<Rightarrow> bool" where
  "mismatched st k e \<longleftrightarrow> \<not> se_confirmed e \<and> (\<exists>s. om_find k (c_pendingSnaps st) = Some s \<and> s \<noteq> se_snap e)"

definition settled :: "client \<Rightarrow> int \<Rightarrow> snap_entry \<Rightarrow> bool" where
  "settled st k e \<longleftrightarrow> se_confirmed e \<or> om_find k (c_pendingSnaps st) \<noteq> None"

definition unsent_of :: "int \<Rightarrow> snap_entry omap \<Rightarrow> state_snapshot list" where
  "unsent_of frame m = map (\<lambda>(k, e). se_snap e) (filter (\<lambda>(k, e). aged frame k \<and> \<not> se_sent e) m)"

definition kept_of :: "client \<Rightarrow> int \<Rightarrow> snap_entry omap \<Rightarrow> snap_entry omap" where
  "kept_of st frame m = map (\<lambda>(k, e). (k, if aged frame k then e\<lparr>se_sent := True\<rparr> else e))
     (filter (\<lambda>(k, e). \<not> (aged frame k \<and> settled st k e)) m)"

lemma confirm_entry_frame [frame_simps]:
  "cl (snd (confirm_entry k e r)) = cl r" "eff (snd (confirm_entry k e r)) = eff r"
  "g_snaps (gm (snd (confirm_entry k e r))) = g_snaps (gm r)"
  "g_ring (gm (snd (confirm_entry k e r))) = g_ring (gm r)"
  "g_frame (gm (snd (confirm_entry k e r))) = g_frame (gm r)"
  "se_sent (fst (confirm_entry k e r)) = se_sent e"
  by (simp_all add: confirm_entry_def split: option.splits)

lemma confirm_entry_leaving:
  "g_leaving (gm (snd (confirm_entry k e r))) \<longleftrightarrow> g_leaving (gm r) \<or> mismatched (cl r) k e"
  by (auto simp: confirm_entry_def mismatched_def split: option.splits)

lemma confirm_entry_state:
  "se_confirmed (fst (confirm_entry k e r)) \<longleftrightarrow> settled (cl r) k e"
  "\<not> settled (cl r) k e \<Longrightarrow> fst (confirm_entry k e r) = e"
  by (auto simp: confirm_entry_def settled_def split: option.splits)

lemma reconcile_snaps_frame:
  "cl (snd (reconcile_snaps frame m r)) = cl r \<and> g_ring (gm (snd (reconcile_snaps frame m r))) = g_ring (gm r) \<and>
   g_frame (gm (snd (reconcile_snaps frame m r))) = g_frame (gm r)"
proof (induction m arbitrary: r)
  case (Cons ke m)
  then show ?case
    by (cases ke) (simp add: Let_def case_prod_unfold frame_simps)
qed simp

lemma reconcile_snaps_spec:
  "fst (reconcile_snaps frame m r) = kept_of (cl r) frame m \<and>
   eff (snd (reconcile_snaps frame m r)) = eff r @ map (Send \<circ> Snapshot) (unsent_of frame m) \<and>
   (g_leaving (gm (snd (reconcile_snaps frame m r))) \<longleftrightarrow>
      g_leaving (gm r) \<or> (\<exists>(k, e)\<in>set m. aged frame k \<and> mismatched (cl r) k e))"
proof (induction m arbitrary: r)
  case Nil
  then show ?case by (simp add: kept_of_def unsent_of_def)
next
  case (Cons ke m)
  obtain k e where ke: "ke = (k, e)" by (cases ke)
  have sent: "mismatched st k (e\<lparr>se_sent := b\<rparr>) = mismatched st k e"
    "settled st k (e\<lparr>se_sent := b\<rparr>) = settled st k e" for st b
    by (simp_all add: mismatched_def settled_def)
  show ?case
  proof (cases "aged frame k")
    case False
    then show ?thesis using Cons
      by (simp add: ke aged_def kept_of_def unsent_of_def Let_def case_prod_unfold)
  next
    case True
    then have lt: "\<not> frame - k < 60" by (simp add: aged_def)
    show ?thesis using Cons True lt
      by (auto simp: ke kept_of_def unsent_of_def Let_def case_prod_unfold frame_simps sent
          confirm_entry_leaving confirm_entry_state)
  qed
qed

text \<open>
  The snapshot pass does what it means to: every local snapshot at least 60
  frames old is sent exactly if it was not before, in frame order; those whose
  remote counterpart has arrived are settled and dropped; the match is left
  exactly when one of these differs from its counterpart; younger snapshots and
  the rest of the client are untouched.
\<close>

theorem snapshot_pass:
  "fst (reconcile_snaps frame m r) = kept_of (cl r) frame m \<and>
   eff (snd (reconcile_snaps frame m r)) = eff r @ map (Send \<circ> Snapshot) (unsent_of frame m) \<and>
   cl (snd (reconcile_snaps frame m r)) = cl r \<and>
   (g_leaving (gm (snd (reconcile_snaps frame m r))) \<longleftrightarrow>
      g_leaving (gm r) \<or> (\<exists>k e. (k, e) \<in> set m \<and> aged frame k \<and> mismatched (cl r) k e))"
  using reconcile_snaps_spec [of frame m r] reconcile_snaps_frame [of frame m r] by fast

text \<open>
  A desync is seen whichever side is ahead. For one frame, a local snapshot
  not yet confirmed and a remote one: if the remote arrives when the local one
  exists, or arrives first and waits until the local one has aged, the match is
  left exactly when the two differ (or it was being left already).
\<close>

theorem snapshot_either_order:
  assumes "om_find (ss_frameIdx remote) (g_snaps (gm r)) = Some e" "\<not> se_confirmed e"
    "om_find (ss_frameIdx remote) (c_pendingSnaps (cl r')) = Some remote" "aged frame (ss_frameIdx remote)"
  shows "(g_leaving (gm (client_snapshot remote r)) \<longleftrightarrow> g_leaving (gm r) \<or> remote \<noteq> se_snap e) \<and>
    (g_leaving (gm (snd (reconcile_snaps frame [(ss_frameIdx remote, e)] r'))) \<longleftrightarrow>
       g_leaving (gm r') \<or> remote \<noteq> se_snap e)"
proof -
  have "g_leaving (gm (client_snapshot remote r)) \<longleftrightarrow> g_leaving (gm r) \<or> remote \<noteq> se_snap e"
    using assms(1) by (simp add: client_snapshot_def Let_def)
  moreover have "mismatched (cl r') (ss_frameIdx remote) e \<longleftrightarrow> remote \<noteq> se_snap e"
    using assms(2,3) by (simp add: mismatched_def)
  ultimately show ?thesis
    using reconcile_snaps_spec [of frame "[(ss_frameIdx remote, e)]" r'] assms(4) by simp
qed

definition snap_at :: "int \<Rightarrow> int \<Rightarrow> state_snapshot" where
  "snap_at frame status =
     (let c = \<lparr>cs_status = status, cs_rootPos = [0, 0, 0, 0], cs_side = 0, cs_values = []\<rparr>
      in \<lparr>ss_frameIdx = frame, ss_chara = (c, c)\<rparr>)"

definition game0 :: game where
  "game0 = \<lparr>g_snaps = [], g_ring = ClearHashCheckpoints, g_frame = 0, g_leaving = False\<rparr>"

theorem snapshot_either_order_witness:
  "g_leaving (gm (client_snapshot (snap_at 60 1)
     (\<lparr>cl = client_init [] 1 [], gm = game0\<lparr>g_snaps := [(60, \<lparr>se_snap = snap_at 60 2, se_sent = True, se_confirmed = False\<rparr>)]\<rparr>,
       eff = []\<rparr> :: unit cround)))"
proof -
  let ?r = "\<lparr>cl = client_init [] 1 [], gm = game0\<lparr>g_snaps := [(60, \<lparr>se_snap = snap_at 60 2, se_sent = True, se_confirmed = False\<rparr>)]\<rparr>,
       eff = []\<rparr> :: unit cround"
  let ?r' = "\<lparr>cl = (client_init [] 1 [])\<lparr>c_pendingSnaps := [(60, snap_at 60 1)]\<rparr>, gm = game0, eff = []\<rparr> :: unit cround"
  show ?thesis
    using snapshot_either_order [of "snap_at 60 1" ?r "\<lparr>se_snap = snap_at 60 2, se_sent = True, se_confirmed = False\<rparr>" ?r' 200]
    by (simp add: snap_at_def Let_def om_find_def aged_def)
qed

section \<open>The hash pass\<close>

lemma report_frame [frame_simps]:
  "cl (ReportHashMismatch strict cp h r) = cl r"
  "g_snaps (gm (ReportHashMismatch strict cp h r)) = g_snaps (gm r)"
  "g_ring (gm (ReportHashMismatch strict cp h r)) = g_ring (gm r)"
  by (simp_all add: ReportHashMismatch_def Let_def)

lemma report_leaving:
  "g_leaving (gm (ReportHashMismatch strict cp h r)) \<longleftrightarrow> g_leaving (gm r) \<or>
     (sh_overall (cp_hashes cp) \<noteq> bh_overall h \<and> strict \<and> bh_fromPlayer h \<and> IsLocalPlayer (cl r))"
  by (auto simp: ReportHashMismatch_def Let_def)

definition same_seat :: "client \<Rightarrow> client \<Rightarrow> bool" where
  "same_seat a b \<longleftrightarrow> c_lobby a = c_lobby b \<and> c_cid a = c_cid b"

lemma IsLocalPlayer_cong: "same_seat a b \<Longrightarrow> IsLocalPlayer a = IsLocalPlayer b"
  by (simp add: same_seat_def IsLocalPlayer_def)

definition due :: "int \<Rightarrow> checkpoint \<Rightarrow> bool" where
  "due frame cp \<longleftrightarrow> cp_valid cp \<and> HASH_CHECKPOINT_AGE_FRAMES \<le> frame - cp_frameIdx cp"

lemma exchange_seat: "IsLocalPlayer (cl (snd (exchange_hash ok strict p cp r))) = IsLocalPlayer (cl r)"
  by (rule IsLocalPlayer_cong)
    (simp add: same_seat_def exchange_hash_def frame_simps Let_def split: option.splits)

lemma exchange_pending:
  "om_find k (c_pendingHashes (cl (snd (exchange_hash ok strict p cp r)))) =
     (if k = cp_frameIdx cp then None else om_find k (c_pendingHashes (cl r)))"
  by (auto simp: exchange_hash_def frame_simps Let_def om_find_erase split: option.splits)

lemma exchange_leaving:
  "g_leaving (gm (snd (exchange_hash ok strict p cp r))) \<longleftrightarrow> g_leaving (gm r) \<or>
     (strict \<and> IsLocalPlayer (cl r) \<and> (\<exists>h. om_find (cp_frameIdx cp) (c_pendingHashes (cl r)) = Some h \<and>
        bh_fromPlayer h \<and> sh_overall (cp_hashes cp) \<noteq> bh_overall h))"
  by (auto simp: exchange_hash_def Let_def report_leaving split: option.splits)

lemma exchange_frame [frame_simps]:
  "g_snaps (gm (snd (exchange_hash ok strict p cp r))) = g_snaps (gm r)"
  "g_ring (gm (snd (exchange_hash ok strict p cp r))) = g_ring (gm r)"
  "c_pendingSnaps (cl (snd (exchange_hash ok strict p cp r))) = c_pendingSnaps (cl r)"
  by (auto simp: exchange_hash_def frame_simps Let_def split: option.splits)

lemma reconcile_hashes_leaving:
  "g_leaving (gm (snd (reconcile_hashes ok strict frame p cps r))) \<Longrightarrow> \<not> g_leaving (gm r) \<Longrightarrow>
   strict \<and> IsLocalPlayer (cl r) \<and>
   (\<exists>cp h. cp \<in> set cps \<and> due frame cp \<and> om_find (cp_frameIdx cp) (c_pendingHashes (cl r)) = Some h \<and>
      bh_fromPlayer h \<and> sh_overall (cp_hashes cp) \<noteq> bh_overall h)"
proof (induction cps arbitrary: r)
  case Nil
  then show ?case by simp
next
  case (Cons cp cps)
  show ?case
  proof (cases "due frame cp")
    case False
    then have "snd (reconcile_hashes ok strict frame p (cp # cps) r) = snd (reconcile_hashes ok strict frame p cps r)"
      by (auto simp: due_def Let_def case_prod_unfold)
    then have "g_leaving (gm (snd (reconcile_hashes ok strict frame p cps r)))" using Cons.prems(1) by simp
    from Cons.IH [OF this Cons.prems(2)] show ?thesis by (meson list.set_intros(2))
  next
    case True
    define q where "q = snd (exchange_hash ok strict p cp r)"
    have step: "snd (reconcile_hashes ok strict frame p (cp # cps) r) = snd (reconcile_hashes ok strict frame p cps q)"
      using True by (auto simp: q_def due_def Let_def case_prod_unfold)
    show ?thesis
    proof (cases "g_leaving (gm q)")
      case True
      then show ?thesis
        using Cons.prems(2) \<open>due frame cp\<close> by (auto simp: q_def exchange_leaving)
    next
      case False
      from Cons.IH [OF _ False] Cons.prems(1)
      have *: "strict \<and> IsLocalPlayer (cl q) \<and>
        (\<exists>c h. c \<in> set cps \<and> due frame c \<and> om_find (cp_frameIdx c) (c_pendingHashes (cl q)) = Some h \<and>
          bh_fromPlayer h \<and> sh_overall (cp_hashes c) \<noteq> bh_overall h)"
        unfolding step by blast
      then show ?thesis by (auto simp: q_def exchange_seat exchange_pending split: if_splits)
    qed
  qed
qed

text \<open>
  The hash exchange ends a match only in strict mode and between players: a
  checkpoint past the rollback window whose overall hash differs from one a
  player sent for the same frame, on a client that holds a player seat. A
  spectator's hash, or a mismatch seen by a spectator, never does, and without
  strict mode nothing does.
\<close>

theorem hash_termination_guard:
  assumes "g_leaving (gm (snd (reconcile_hashes ok strict frame p cps r)))" "\<not> g_leaving (gm r)"
  shows "strict \<and> IsLocalPlayer (cl r) \<and>
   (\<exists>cp h. cp \<in> set cps \<and> cp_valid cp \<and> 30 \<le> frame - cp_frameIdx cp \<and>
      om_find (cp_frameIdx cp) (c_pendingHashes (cl r)) = Some h \<and> bh_fromPlayer h \<and>
      sh_overall (cp_hashes cp) \<noteq> bh_overall h)"
  using reconcile_hashes_leaving [OF assms] by (auto simp: due_def HASH_CHECKPOINT_AGE_FRAMES_def)

definition player_client :: client where
  "player_client = (client_init [] 1 ''a'')\<lparr>c_lobby := NULL_LOBBY\<lparr>members := [\<lparr>connId = \<lparr>cid_host = [], cid_user = []\<rparr>,
     m_name = ''a'', m_ip = [], m_port = 1, m_flags = 0\<rparr>]\<rparr>,
     c_pendingHashes := [(30, \<lparr>bh_frameIdx = 30, bh_overall = 1, bh_flow = 0, bh_chara0 = 0, bh_chara1 = 0, bh_fromPlayer = True\<rparr>)]\<rparr>"

theorem hash_termination_guard_witness:
  "IsLocalPlayer player_client"
proof -
  let ?cp = "no_checkpoint\<lparr>cp_frameIdx := 30, cp_valid := True\<rparr>"
  let ?r = "\<lparr>cl = player_client, gm = game0, eff = []\<rparr> :: unit cround"
  have "g_leaving (gm (snd (reconcile_hashes (\<lambda>_. True) True 90 True [?cp] ?r)))"
    by (simp add: HASH_CHECKPOINT_AGE_FRAMES_def no_checkpoint_def player_client_def om_find_def Let_def
        case_prod_unfold exchange_leaving IsLocalPlayer_def NULL_LOBBY_def client_init_def)
  from hash_termination_guard [OF this] show ?thesis by (simp add: game0_def)
qed

section \<open>Bounded buffers\<close>

definition client_ok :: "client \<Rightarrow> bool" where
  "client_ok st \<longleftrightarrow> om_ok (c_pendingSnaps st) \<and> om_ok (c_pendingHashes st) \<and>
     length (c_pendingHashes st) \<le> MAX_PENDING_REMOTE_HASHES"

definition round_ok :: "'j cround \<Rightarrow> bool" where
  "round_ok r \<longleftrightarrow> client_ok (cl r) \<and> om_ok (g_snaps (gm r))"

lemma ok_hash: "round_ok r \<Longrightarrow> round_ok (client_hash h r)"
  using om.bounded_store [of "c_pendingHashes (cl r)" MAX_PENDING_REMOTE_HASHES "bh_frameIdx h" h]
  by (auto simp: round_ok_def client_ok_def client_hash_def MAX_PENDING_REMOTE_HASHES_def
      intro!: om.ok_assign om.ok_evict split: if_splits)

lemma ok_snapshot: "round_ok r \<Longrightarrow> round_ok (client_snapshot s r)"
  by (auto simp: round_ok_def client_ok_def client_snapshot_def Let_def om_emplace_eq
      intro: om.ok_emplace om.ok_assign om.ok_erase split: option.splits)

lemma ok_emit [simp]: "round_ok (emit e r) = round_ok r"
  by (simp add: round_ok_def)

lemma ok_others:
  assumes "round_ok r"
  shows "round_ok (client_helloresp c r)" "round_ok (client_joinrej res r)" "round_ok (client_dataupdate l m r)"
    "round_ok (OnGgpoFrameReceived f r)" "round_ok (r\<lparr>cl := (cl r)\<lparr>c_punchGo := b\<rparr>\<rparr>)"
  using assms
  by (simp_all add: round_ok_def client_ok_def client_helloresp_def client_joinrej_def client_dataupdate_def
      OnGgpoFrameReceived_def Let_def split: option.splits)

lemma ok_message:
  assumes "round_ok r" shows "round_ok (fst (client_message C b r))"
proof (cases b)
  case (Some j)
  note ok = ok_hash [OF assms] ok_snapshot [OF assms] ok_others [OF assms]
  show ?thesis
  proof (cases "get_type C j")
    case ty: (Some ty)
    then show ?thesis using Some assms
      by (cases ty) (simp_all add: client_message_def ok split: option.splits prod.splits)
  qed (simp add: Some client_message_def assms)
qed (simp add: client_message_def assms)

lemma ok_loop: "round_ok r \<Longrightarrow> round_ok (fst (client_loop C ms r))"
proof (induction C ms r rule: client_loop.induct)
  case (3 C m ms r)
  then show ?case using ok_message [of r C m]
    by (cases "client_message C m r") (auto split: bool.splits)
qed simp_all

lemma kept_ok: "om_ok m \<Longrightarrow> om_ok (kept_of st frame m)"
  by (induction m) (auto simp: kept_of_def om_ok_def)

lemma erase_length: "length (om_erase k m) \<le> length m"
  by (simp add: om_erase_def)

lemma ok_erase_hashes: "client_ok st \<Longrightarrow> client_ok (st\<lparr>c_pendingHashes := om_erase k (c_pendingHashes st)\<rparr>)"
  using erase_length [of k "c_pendingHashes st"] by (simp add: client_ok_def om_erase_ok)

lemma ok_exchange: "round_ok r \<Longrightarrow> round_ok (snd (exchange_hash ok strict p cp r))"
  by (simp add: exchange_hash_def round_ok_def frame_simps Let_def ok_erase_hashes split: option.splits)

lemma ok_hashes: "round_ok r \<Longrightarrow> round_ok (snd (reconcile_hashes ok strict frame p cps r))"
proof (induction cps arbitrary: r)
  case (Cons cp cps)
  then show ?case using ok_exchange [of r ok strict p cp]
    by (simp add: Let_def case_prod_unfold)
qed simp

text \<open>
  The client's maps stay ordered and the buffer of remote hashes never holds
  more than 64 entries, whatever the server sends, in whatever order.
\<close>

theorem client_buffers_bounded:
  assumes "client_ok st" "om_ok (g_snaps g)" "client_step C ok strict poll st g = (r, rc)"
  shows "client_ok (cl r) \<and> om_ok (g_snaps (gm r)) \<and> length (c_pendingHashes (cl r)) \<le> 64"
proof -
  have start: "round_ok \<lparr>cl = st, gm = g, eff = []\<rparr>" using assms(1,2) by (simp add: round_ok_def)
  have rec: "round_ok (reconcile ok strict q)" if q: "round_ok q" for q :: "'a cround"
  proof -
    let ?s = "reconcile_snaps (g_frame (gm q)) (g_snaps (gm q)) q"
    let ?r2 = "(snd ?s)\<lparr>gm := (gm (snd ?s))\<lparr>g_snaps := fst ?s\<rparr>\<rparr>"
    have "round_ok ?r2"
      using q reconcile_snaps_spec [of "g_frame (gm q)" "g_snaps (gm q)" q]
        reconcile_snaps_frame [of "g_frame (gm q)" "g_snaps (gm q)" q] kept_ok
      by (simp add: round_ok_def)
    from ok_hashes [OF this] show ?thesis
      by (simp add: reconcile_def Let_def case_prod_unfold round_ok_def)
  qed
  have "round_ok r"
    using assms(3) start ok_loop [OF start] rec
    by (auto simp: client_step_def Let_def case_prod_unfold split: if_splits option.splits bool.splits
        dest: arg_cong [of _ _ fst])
  then show ?thesis by (simp add: round_ok_def client_ok_def MAX_PENDING_REMOTE_HASHES_def)
qed

theorem client_buffers_bounded_witness:
  "\<exists>r rc. client_step (std_codec jval_ops) (\<lambda>_. True) False (Some []) ((client_init [] 1 [])\<lparr>c_conn := Some 1, c_connected := True\<rparr>) game0
     = (r, rc) \<and> length (c_pendingHashes (cl r)) \<le> 64"
proof -
  let ?st = "(client_init [] 1 [])\<lparr>c_conn := Some 1, c_connected := True\<rparr>"
  obtain r rc where s: "client_step (std_codec jval_ops) (\<lambda>_. True) False (Some []) ?st game0 = (r, rc)"
    by (cases "client_step (std_codec jval_ops) (\<lambda>_. True) False (Some []) ?st game0")
  have ok: "client_ok ?st" "om_ok (g_snaps game0)" by (simp_all add: client_ok_def client_init_def game0_def)
  show ?thesis using client_buffers_bounded [OF ok s] s by blast
qed

end
