(* ===== verification/Transport.thy ===== *)
theory Transport
  imports Net_Util Netplay_Config Session_Client
begin

text \<open>
  Choosing and preparing the GGPO transport (session/sf4e__GgpoTransport.cxx):
  the mode and its override, the UDP probe, relay health and registration, the
  P2P punch alone and coordinated through the session, the NAT probe, and
  PrepareForBattle. Loops over the clock take the ticks they read and what the
  network returned as lists; \<open>None\<close> means the list ended before the loop returned.
\<close>

section \<open>Modes\<close>

type_synonym transport_mode = "8 word"

definition LegacySessionTunnel :: transport_mode where "LegacySessionTunnel = 0"
definition UdpRelay :: transport_mode where "UdpRelay = 1"
definition P2p :: transport_mode where "P2p = 2"

lemmas mode_defs = LegacySessionTunnel_def UdpRelay_def P2p_def

definition ParseTransportEnv :: "string option \<Rightarrow> 8 word \<Rightarrow> transport_mode" where
  "ParseTransportEnv env configTransport =
     (case env of
        None \<Rightarrow> configTransport
      | Some e \<Rightarrow>
          (if e = [] then configTransport
           else if stricmp_eq e ''legacy'' then LegacySessionTunnel
           else if stricmp_eq e ''udp'' then UdpRelay
           else if stricmp_eq e ''p2p'' then P2p
           else configTransport))"

definition TransportModeLabel :: "transport_mode \<Rightarrow> string" where
  "TransportModeLabel m =
     (if m = UdpRelay then ''udp_relay'' else if m = P2p then ''p2p'' else ''legacy_session_tunnel'')"

section \<open>Probes\<close>

record sockaddr_in = sockaddr +
  sa_family :: "16 word"

definition AF_INET :: "16 word" where "AF_INET = 2"

definition SameUdpEndpoint :: "sockaddr_in \<Rightarrow> sockaddr_in \<Rightarrow> bool" where
  "SameUdpEndpoint a b \<longleftrightarrow> sa_family a = sa_family b \<and> sa_ip a = sa_ip b \<and> sa_port a = sa_port b"

text \<open>What one probe met: whether sendto succeeded, select's result, and the datagram.\<close>

record probe =
  p_sent :: bool
  p_ready :: int
  p_recv :: "(sockaddr_in \<times> 8 word list) option"

definition SendProbeAndWait :: "sockaddr_in \<Rightarrow> probe \<Rightarrow> bool" where
  "SendProbeAndWait dest p \<longleftrightarrow>
     (if \<not> p_sent p then False
      else if p_ready p \<le> 0 then False
      else case p_recv p of
        None \<Rightarrow> False
      | Some (from, bytes) \<Rightarrow> 0 < length bytes \<and> SameUdpEndpoint from dest)"

text \<open>A zeroed buffer of eight bytes after the receive.\<close>

definition response_buf :: "probe \<Rightarrow> 8 word list" where
  "response_buf p = take 8 ((case p_recv p of None \<Rightarrow> [] | Some (from, bytes) \<Rightarrow> bytes) @ replicate 8 0)"

record udp_env =
  ue_winsock :: bool
  ue_socket :: bool
  ue_bind :: bool
  ue_start :: "32 word"
  ue_polls :: "(32 word \<times> probe) list"

definition resolve_dest :: "resolver \<Rightarrow> string \<Rightarrow> 16 word \<Rightarrow> sockaddr_in option" where
  "resolve_dest R host port =
     (case ResolveHostToIPv4 R host 64 of
        None \<Rightarrow> None
      | Some text \<Rightarrow> map_option (\<lambda>ip. \<lparr>sa_ip = ip, sa_port = port, sa_family = AF_INET\<rparr>) (rs_pton R text))"

definition ProbeUdpRelayHealth :: "resolver \<Rightarrow> string \<Rightarrow> 16 word \<Rightarrow> udp_env \<Rightarrow> bool \<times> datagram list" where
  "ProbeUdpRelayHealth R relayHost relayPort E =
     (if relayHost = [] \<or> relayPort = 0 \<or> \<not> ue_winsock E \<or> \<not> ue_socket E then (False, [])
      else case resolve_dest R relayHost relayPort of
        None \<Rightarrow> (False, [])
      | Some dest \<Rightarrow>
          (case ue_polls E of
             [] \<Rightarrow> False
           | (tick, p) # ps \<Rightarrow> SendProbeAndWait dest p \<and> take 5 (response_buf p) = kRespHealth,
           [(sockaddr.truncate dest, kMagicHealth)]))"

section \<open>Registration\<close>

text \<open>The loop: the result, and the datagrams handed to sendto. A waiting answer only logs.\<close>

fun register_loop ::
  "sockaddr_in \<Rightarrow> 8 word list \<Rightarrow> 32 word \<Rightarrow> (32 word \<times> probe) list \<Rightarrow> bool option \<times> datagram list" where
  "register_loop dest pkt deadline [] = (None, [])"
| "register_loop dest pkt deadline ((tick, p) # ps) =
     (if \<not> tick < deadline then (Some False, [])
      else (let (res, out) =
              (if SendProbeAndWait dest p \<and> take 4 (response_buf p) = kRespRegistered then (Some True, [])
               else register_loop dest pkt deadline ps)
            in (res, (sockaddr.truncate dest, pkt) # out)))"

definition registration_args :: "string \<Rightarrow> string \<Rightarrow> 16 word \<Rightarrow> 8 word \<Rightarrow> int \<Rightarrow> int \<Rightarrow> bool" where
  "registration_args relayHost roomTokenHex localGgpoPort playerSlot n0 n1 \<longleftrightarrow>
     relayHost \<noteq> [] \<and> length roomTokenHex = 32 \<and> localGgpoPort \<noteq> 0 \<and> playerSlot \<le> 1 \<and> 0 \<le> n0 \<and> 0 \<le> n1"

definition registration_packet :: "string \<Rightarrow> 8 word \<Rightarrow> int \<Rightarrow> int \<Rightarrow> 8 word list" where
  "registration_packet roomTokenHex playerSlot n0 n1 =
     reg_packet_v3 (map of_char roomTokenHex) playerSlot (word_of_int n0) (word_of_int n1)"

definition RegisterWithUdpRelay ::
  "resolver \<Rightarrow> string \<Rightarrow> 16 word \<Rightarrow> string \<Rightarrow> 16 word \<Rightarrow> 8 word \<Rightarrow> int \<Rightarrow> int \<Rightarrow> 32 word \<Rightarrow> udp_env
    \<Rightarrow> bool option \<times> datagram list" where
  "RegisterWithUdpRelay R relayHost relayPort roomTokenHex localGgpoPort playerSlot n0 n1 timeoutMs E =
     (if \<not> registration_args relayHost roomTokenHex localGgpoPort playerSlot n0 n1 then (Some False, [])
      else if \<not> ue_winsock E \<or> \<not> ue_socket E \<or> \<not> ue_bind E then (Some False, [])
      else case resolve_dest R relayHost relayPort of
        None \<Rightarrow> (Some False, [])
      | Some dest \<Rightarrow>
          register_loop dest
            (registration_packet roomTokenHex playerSlot n0 n1)
            (ue_start E + timeoutMs) (ue_polls E))"

section \<open>The punch\<close>

definition punch_payload :: "8 word list" where
  "punch_payload = map of_char ''SF4E_PUNCH''"

definition got_bytes :: "probe \<Rightarrow> bool" where
  "got_bytes p = (case p_recv p of None \<Rightarrow> False | Some (from, bytes) \<Rightarrow> 0 < length bytes)"

text \<open>Any datagram ends the loop; its sender is not looked at.\<close>

fun punch_loop :: "sockaddr_in \<Rightarrow> 32 word \<Rightarrow> (32 word \<times> probe) list \<Rightarrow> bool option \<times> datagram list" where
  "punch_loop peer deadline [] = (None, [])"
| "punch_loop peer deadline ((tick, p) # ps) =
     (if \<not> tick < deadline then (Some False, [])
      else (let (res, out) =
              (if 0 < p_ready p \<and> got_bytes p then (Some True, [])
               else punch_loop peer deadline ps)
            in (res, (sockaddr.truncate peer, punch_payload) # out)))"

definition TryP2pPunch ::
  "resolver \<Rightarrow> string \<Rightarrow> 16 word \<Rightarrow> 32 word \<Rightarrow> udp_env \<Rightarrow> bool option \<times> datagram list" where
  "TryP2pPunch R peerHost peerPort timeoutMs E =
     (if peerHost = [] \<or> peerPort = 0 then (Some False, [])
      else if \<not> ue_winsock E \<or> \<not> ue_socket E \<or> \<not> ue_bind E then (Some False, [])
      else case rs_pton R peerHost of
        None \<Rightarrow> (Some False, [])
      | Some ip \<Rightarrow>
          punch_loop \<lparr>sa_ip = ip, sa_port = peerPort, sa_family = AF_INET\<rparr> (ue_start E + timeoutMs) (ue_polls E))"

text \<open>A round of the coordinated punch: the clock, the status callbacks the library
  delivers (in a GGPO session or not, new and old state), and what the client polls.\<close>

record 'j coord_round =
  co_tick :: "32 word"
  co_callbacks :: "(bool \<times> conn_state \<times> conn_state) list"
  co_poll :: "'j option option list option"

fun client_callbacks ::
  "(bool \<times> conn_state \<times> conn_state) list \<Rightarrow> client \<Rightarrow> client \<times> 'j effect list" where
  "client_callbacks [] st = (st, [])"
| "client_callbacks ((inSession, new, old) # cs) st =
     (let (st1, e1) = client_conn_changed inSession new old st;
          (st2, e2) = client_callbacks cs st1
      in (st2, e1 @ e2))"

fun coord_loop ::
  "'j codec \<Rightarrow> (nat \<Rightarrow> bool) \<Rightarrow> bool \<Rightarrow> 32 word \<Rightarrow> 'j coord_round list \<Rightarrow> 'j cround \<Rightarrow> bool option \<times> 'j cround" where
  "coord_loop C ok strict deadline [] r = (None, r)"
| "coord_loop C ok strict deadline (x # xs) r =
     (if \<not> co_tick x < deadline then (Some True, r)
      else (let (st1, e1) = client_callbacks (co_callbacks x) (cl r);
                (r2, rc) = client_step C ok strict (co_poll x) st1 (gm r);
                r3 = r2\<lparr>eff := eff r @ e1 @ eff r2\<rparr>
            in if rc < 0 then (Some False, r3)
               else if c_punchGo (cl r3) then (Some True, r3)
               else coord_loop C ok strict deadline xs r3))"

record 'j prep_env =
  pe_override :: "string option"
  pe_codec :: "'j codec"
  pe_ok :: "nat \<Rightarrow> bool"
  pe_strict :: bool
  pe_punchSent :: bool
  pe_coordStart :: "32 word"
  pe_coord :: "'j coord_round list"
  pe_punch1 :: udp_env
  pe_punch2 :: udp_env
  pe_health :: "udp_env duo"
  pe_register :: "udp_env duo"

definition TryCoordinatedP2pPunch ::
  "resolver \<Rightarrow> 'j prep_env \<Rightarrow> string \<Rightarrow> 16 word \<Rightarrow> 16 word \<Rightarrow> 32 word \<Rightarrow> 'j cround
    \<Rightarrow> bool option \<times> 'j cround \<times> datagram list" where
  "TryCoordinatedP2pPunch R E peerHost peerPort localGgpoPort timeoutMs r =
     (if peerHost = [] \<or> peerPort = 0 \<or> localGgpoPort = 0 then (Some False, r, [])
      else (let r1 = emit (Send Punch_SendReady) (r\<lparr>cl := Punch_Reset (cl r)\<rparr>)
            in if \<not> pe_punchSent E then (Some False, r1, [])
               else (case coord_loop (pe_codec E) (pe_ok E) (pe_strict E) (pe_coordStart E + timeoutMs) (pe_coord E) r1 of
                   (Some True, r2) \<Rightarrow>
                     (let (res, out) = TryP2pPunch R peerHost peerPort 2000 (pe_punch1 E) in (res, r2, out))
                 | (res, r2) \<Rightarrow> (res, r2, []))))"

section \<open>The NAT probe\<close>

record nat_result =
  nr_ok :: bool
  nr_ip :: string
  nr_port :: "16 word"

definition quote :: char where "quote = CHR 0x22"

text \<open>From the key: the next quote, the one after it, and the text up to the third.\<close>

definition observed_ip :: "string \<Rightarrow> string" where
  "observed_ip ipKey =
     (case strchr ipKey quote of
        None \<Rightarrow> []
      | Some q0 \<Rightarrow>
         (case strchr (tl q0) quote of
            None \<Rightarrow> []
          | Some q1 \<Rightarrow>
             (case strchr (tl q1) quote of
                None \<Rightarrow> []
              | Some q2 \<Rightarrow>
                  (let n = length q1 - length q2 - 1 in if n < 64 then take n (tl q1) else []))))"

definition observed_port :: "string \<Rightarrow> 16 word" where
  "observed_port portKey =
     (case strchr portKey CHR '':'' of None \<Rightarrow> 0 | Some colon \<Rightarrow> word_of_int (atoi (tl colon)))"

definition read_nat_response :: "string \<Rightarrow> nat_result" where
  "read_nat_response response =
     (let ip = (case strstr response ([quote] @ ''observedIp'' @ [quote]) of None \<Rightarrow> [] | Some k \<Rightarrow> observed_ip k);
          port = (case strstr response ([quote] @ ''observedPort'' @ [quote]) of None \<Rightarrow> 0 | Some k \<Rightarrow> observed_port k)
      in \<lparr>nr_ok = (ip \<noteq> [] \<and> 0 < port), nr_ip = ip, nr_port = port\<rparr>)"

definition no_nat_result :: nat_result where
  "no_nat_result = \<lparr>nr_ok = False, nr_ip = [], nr_port = 0\<rparr>"

text \<open>The response buffer holds 255 bytes and a terminator.\<close>

definition NatProbe :: "resolver \<Rightarrow> string \<Rightarrow> 16 word \<Rightarrow> udp_env \<Rightarrow> nat_result" where
  "NatProbe R brokerHost probePort E =
     (if brokerHost = [] \<or> probePort = 0 \<or> \<not> ue_winsock E \<or> \<not> ue_socket E then no_nat_result
      else case resolve_dest R brokerHost probePort of
        None \<Rightarrow> no_nat_result
      | Some dest \<Rightarrow>
         (case ue_polls E of
            [] \<Rightarrow> no_nat_result
          | (tick, p) # ps \<Rightarrow>
             (if \<not> SendProbeAndWait dest p then no_nat_result
              else read_nat_response
                (takeWhile (\<lambda>c. c \<noteq> CHR 0x00)
                  (map (\<lambda>b. char_of (unat b)) (take 255 (case p_recv p of None \<Rightarrow> [] | Some (from, bytes) \<Rightarrow> bytes)))))))"

section \<open>PrepareForBattle\<close>

definition player_slot :: "client \<Rightarrow> nat option" where
  "player_slot st = find_index (\<lambda>m. ConnectionID_eq (connId m) (c_cid st)) (take 2 (members (c_lobby st)))"

definition relay_endpoint :: "netplay_config \<Rightarrow> string \<times> 16 word" where
  "relay_endpoint cfg =
     (if nc_ggpoRemoteHost cfg \<noteq> [] then nc_ggpoRemoteHost cfg else nc_sessionHost cfg, nc_ggpoRemotePort cfg)"

text \<open>The client is absent when no session is open.\<close>

record 'j prep =
  pr_cfg :: netplay_config
  pr_client :: "'j cround option"
  pr_alerts :: "string list"
  pr_sent :: "datagram list"

definition prep_alert :: "string \<Rightarrow> 'j prep \<Rightarrow> 'j prep" where
  "prep_alert a s = s\<lparr>pr_alerts := pr_alerts s @ [a]\<rparr>"

definition relay_health :: "resolver \<Rightarrow> 'j prep_env \<Rightarrow> string \<Rightarrow> 16 word \<Rightarrow> bool \<times> datagram list" where
  "relay_health R E host port =
     (case ProbeUdpRelayHealth R host port (fst (pe_health E)) of
        (True, o1) \<Rightarrow> (True, o1)
      | (False, o1) \<Rightarrow>
         (let (h2, o2) = ProbeUdpRelayHealth R host port (snd (pe_health E)) in (h2, o1 @ o2)))"

definition relay_register ::
  "resolver \<Rightarrow> 'j prep_env \<Rightarrow> netplay_config \<Rightarrow> string \<Rightarrow> 16 word \<Rightarrow> nat \<Rightarrow> match_data \<Rightarrow> bool option \<times> datagram list" where
  "relay_register R E cfg host port slot m =
     (let attempt = RegisterWithUdpRelay R host port (nc_ggpoRoomToken cfg) (nc_ggpoPort cfg) (of_nat slot)
            (duo_get (readyMessageNum m) 0) (duo_get (readyMessageNum m) 1) 15000
      in case attempt (fst (pe_register E)) of
           (Some False, o1) \<Rightarrow> (let (r2, o2) = attempt (snd (pe_register E)) in (r2, o1 @ o2))
         | r1 \<Rightarrow> r1)"

definition relay_failed :: "'j prep \<Rightarrow> bool option \<times> 'j prep" where
  "relay_failed s = (Some False, prep_alert ''UDP relay unavailable. Return to lobby and Get code again.'' s)"

definition relay_register_slot ::
  "resolver \<Rightarrow> 'j prep_env \<Rightarrow> string \<Rightarrow> 16 word \<Rightarrow> client \<Rightarrow> nat \<Rightarrow> 'j prep \<Rightarrow> bool option \<times> 'j prep" where
  "relay_register_slot R E host port st slot s =
     (let (healthy, o1) = relay_health R E host port; s1 = s\<lparr>pr_sent := pr_sent s @ o1\<rparr>
      in if \<not> healthy then relay_failed s1
         else (let (res, o2) = relay_register R E (pr_cfg s) host port slot (c_match st);
                   s2 = s1\<lparr>pr_sent := pr_sent s1 @ o2\<rparr>
               in if res = Some True
                  then (res, s2\<lparr>pr_cfg := (pr_cfg s)\<lparr>nc_ggpoRemoteHost := copy_trunc 64 host,
                      nc_ggpoRemotePort := port, nc_ggpoTransport := UdpRelay\<rparr>\<rparr>)
                  else if res = Some False then relay_failed s2
                  else (res, s2)))"

definition prepare_relay :: "resolver \<Rightarrow> 'j prep_env \<Rightarrow> 'j prep \<Rightarrow> bool option \<times> 'j prep" where
  "prepare_relay R E s =
     (let (host, port) = relay_endpoint (pr_cfg s)
      in if host = [] \<or> port = 0 then relay_failed s
         else if nc_ggpoRoomToken (pr_cfg s) = [] then relay_failed s
         else case pr_client s of
           None \<Rightarrow> relay_failed s
         | Some r \<Rightarrow>
            (if \<not> MatchData_IsAllReady (c_match (cl r)) then relay_failed s
             else case player_slot (cl r) of
               None \<Rightarrow> (Some False, s)
             | Some slot \<Rightarrow> relay_register_slot R E host port (cl r) slot s))"

definition try_punch :: "resolver \<Rightarrow> 'j prep_env \<Rightarrow> 'j prep \<Rightarrow> bool option \<times> 'j prep" where
  "try_punch R E s =
     (let cfg = pr_cfg s; host = nc_ggpoRemoteHost cfg; port = nc_ggpoRemotePort cfg;
          (res1, s1) = (case pr_client s of
              None \<Rightarrow> (Some False, s)
            | Some r \<Rightarrow>
                (let (res, r', out) = TryCoordinatedP2pPunch R E host port (nc_ggpoPort cfg) 3000 r
                 in (res, s\<lparr>pr_client := Some r', pr_sent := pr_sent s @ out\<rparr>)))
      in if host = [] \<or> port = 0 then (Some False, s)
         else if res1 = Some False
         then (let (res2, out) = TryP2pPunch R host port 2000 (pe_punch2 E)
               in (res2, s1\<lparr>pr_sent := pr_sent s1 @ out\<rparr>))
         else (res1, s1))"

text \<open>The result, the effective mode, and the state after.\<close>

definition PrepareForBattle ::
  "resolver \<Rightarrow> 'j prep_env \<Rightarrow> 'j prep \<Rightarrow> bool option \<times> transport_mode \<times> 'j prep" where
  "PrepareForBattle R E s =
     (let env = pe_override E; is = (\<lambda>v. case env of None \<Rightarrow> False | Some e \<Rightarrow> stricmp_eq e v);
          requested = ParseTransportEnv env (nc_ggpoTransport (pr_cfg s));
          relay = (\<lambda>s. let (res, s') = prepare_relay R E s in (res, UdpRelay, s'))
      in if is ''legacy''
         then (Some True, LegacySessionTunnel, s\<lparr>pr_cfg := (pr_cfg s)\<lparr>nc_ggpoTransport := LegacySessionTunnel\<rparr>\<rparr>)
         else if requested = LegacySessionTunnel
         then (Some False, UdpRelay, prep_alert ''UDP relay required. Return to lobby and Get code again.'' s)
         else if requested = P2p
         then (case try_punch R E s of
             (Some True, s1) \<Rightarrow> (Some True, P2p, s1\<lparr>pr_cfg := (pr_cfg s1)\<lparr>nc_ggpoTransport := P2p\<rparr>\<rparr>)
           | (None, s1) \<Rightarrow> (None, P2p, s1)
           | (Some False, s1) \<Rightarrow>
               (if is ''p2p'' \<and> \<not> is ''auto''
                then (Some False, P2p, prep_alert ''P2P setup failed. Return to lobby and retry.'' s1)
                else relay s1))
         else if requested = UdpRelay then relay s
         else (Some False, requested, s))"

section \<open>The loops\<close>

text \<open>What the loops against the clock have in common: poll until a hit or the deadline.\<close>

fun poll_until :: "('p \<Rightarrow> bool) \<Rightarrow> 32 word \<Rightarrow> (32 word \<times> 'p) list \<Rightarrow> bool option" where
  "poll_until hit d [] = None"
| "poll_until hit d (x # ps) =
     (if \<not> fst x < d then Some False else if hit (snd x) then Some True else poll_until hit d ps)"

lemma poll_until_true:
  "poll_until hit d ps = Some True \<longleftrightarrow>
     (\<exists>pre x post. ps = pre @ x # post \<and> (\<forall>y\<in>set pre. fst y < d \<and> \<not> hit (snd y)) \<and> fst x < d \<and> hit (snd x))"
proof (induction ps)
  case (Cons x ps)
  show ?case
  proof (cases "fst x < d \<and> \<not> hit (snd x)")
    case True
    have "(\<exists>pre y post. x # ps = pre @ y # post \<and> (\<forall>y\<in>set pre. fst y < d \<and> \<not> hit (snd y)) \<and> fst y < d \<and> hit (snd y)) \<longleftrightarrow>
      (\<exists>pre y post. ps = pre @ y # post \<and> (\<forall>y\<in>set pre. fst y < d \<and> \<not> hit (snd y)) \<and> fst y < d \<and> hit (snd y))"
      (is "?A \<longleftrightarrow> ?B")
    proof
      assume ?A
      then obtain pre y post where h: "x # ps = pre @ y # post" "\<forall>y\<in>set pre. fst y < d \<and> \<not> hit (snd y)"
        "fst y < d" "hit (snd y)" by blast
      then obtain pre' where "pre = x # pre'" using True by (cases pre) auto
      then have "ps = pre' @ y # post" "\<forall>y\<in>set pre'. fst y < d \<and> \<not> hit (snd y)" using h by simp_all
      then show ?B using h(3,4) by blast
    next
      assume ?B
      then obtain pre y post where "ps = pre @ y # post" "\<forall>y\<in>set pre. fst y < d \<and> \<not> hit (snd y)"
        "fst y < d" "hit (snd y)" by blast
      then show ?A using True by (intro exI [of _ "x # pre"] exI [of _ y] exI [of _ post]) simp
    qed
    then show ?thesis using True Cons.IH by simp
  next
    case False
    have "fst x < d \<and> hit (snd x)" if "x # ps = pre @ y # post" "\<forall>z\<in>set pre. fst z < d \<and> \<not> hit (snd z)"
      "fst y < d" "hit (snd y)" for pre y post
      using that False by (cases pre) auto
    moreover have "\<exists>pre y post. x # ps = pre @ y # post \<and> (\<forall>z\<in>set pre. fst z < d \<and> \<not> hit (snd z)) \<and>
        fst y < d \<and> hit (snd y)" if "fst x < d" "hit (snd x)"
      using that by (intro exI [of _ "[]"] exI [of _ x] exI [of _ ps]) simp
    moreover have "poll_until hit d (x # ps) = Some True \<longleftrightarrow> fst x < d \<and> hit (snd x)" using False by simp
    ultimately show ?thesis by blast
  qed
qed simp

lemma poll_until_returns: "\<exists>x\<in>set ps. \<not> fst x < d \<Longrightarrow> poll_until hit d ps \<noteq> None"
  by (induction ps) auto

lemma poll_until_false: "poll_until hit d ps = Some False \<Longrightarrow> \<exists>x\<in>set ps. \<not> fst x < d"
  by (induction ps) (auto split: if_splits)

definition relay_says :: "sockaddr_in \<Rightarrow> 8 word list \<Rightarrow> probe \<Rightarrow> bool" where
  "relay_says dest resp p \<longleftrightarrow> SendProbeAndWait dest p \<and> take (length resp) (response_buf p) = resp"

lemma resp_lengths [simp]: "length kRespRegistered = 4" "length kRespWaiting = 4" "length kRespHealth = 5"
  by (simp_all add: kRespRegistered_def kRespWaiting_def kRespHealth_def)

lemma register_loop_poll:
  "fst (register_loop dest pkt d ps) = poll_until (relay_says dest kRespRegistered) d ps"
  by (induction ps) (auto simp: relay_says_def case_prod_unfold Let_def)

lemma punch_loop_poll:
  "fst (punch_loop peer d ps) = poll_until (\<lambda>p. 0 < p_ready p \<and> got_bytes p) d ps"
  by (induction ps) (auto simp: case_prod_unfold Let_def)

lemma register_loop_sent: "set (snd (register_loop dest pkt d ps)) \<subseteq> {(sockaddr.truncate dest, pkt)}"
proof (induction ps)
  case (Cons x ps)
  then show ?case by (cases x) (simp add: case_prod_unfold Let_def)
qed simp

lemma coord_loop_returns:
  "\<exists>x\<in>set xs. \<not> co_tick x < d \<Longrightarrow> fst (coord_loop C ok strict d xs r) \<noteq> None"
proof (induction xs arbitrary: r)
  case (Cons x xs)
  show ?case
  proof (cases "co_tick x < d")
    case True
    then have "\<exists>y\<in>set xs. \<not> co_tick y < d" using Cons.prems by auto
    from Cons.IH [OF this] show ?thesis by (auto simp: case_prod_unfold Let_def)
  qed simp
qed simp

section \<open>The registration\<close>

lemma register_returns:
  assumes "\<exists>x\<in>set (ue_polls E). \<not> fst x < ue_start E + timeoutMs"
  shows "fst (RegisterWithUdpRelay R host port token local slot n0 n1 timeoutMs E) \<noteq> None"
  using poll_until_returns [OF assms]
  by (auto simp: RegisterWithUdpRelay_def register_loop_poll split: option.splits)

lemma register_result:
  assumes "registration_args host token local slot n0 n1" "ue_winsock E \<and> ue_socket E \<and> ue_bind E"
    "resolve_dest R host port = Some dest"
  shows "fst (RegisterWithUdpRelay R host port token local slot n0 n1 timeoutMs E) =
    poll_until (relay_says dest kRespRegistered) (ue_start E + timeoutMs) (ue_polls E)"
  using assms by (simp add: RegisterWithUdpRelay_def register_loop_poll)

text \<open>The relay answers a probe: the datagram it receives is one the relay sent it.\<close>

definition answers :: "sockaddr_in \<Rightarrow> sockaddr \<Rightarrow> datagram list \<Rightarrow> probe \<Rightarrow> bool" where
  "answers dest me outs p \<longleftrightarrow> p_sent p \<and> 0 < p_ready p \<and>
     (\<exists>bytes. (me, bytes) \<in> set outs \<and> p_recv p = Some (dest, bytes))"

lemma answers_says:
  assumes "answers dest me [(me, resp)] p" "0 < length resp" "length resp \<le> 8"
  shows "relay_says dest resp p"
  using assms by (auto simp: answers_def relay_says_def SendProbeAndWait_def response_buf_def SameUdpEndpoint_def)

lemma slot_cases: "(s :: 8 word) \<le> 1 \<Longrightarrow> {s, 1 - s} = {0, 1}"
proof -
  assume "s \<le> 1"
  then have "unat s = 0 \<or> unat s = 1" unfolding word_le_nat_alt by auto
  then have "s = 0 \<or> s = 1" by (metis unat_0 unat_1 word_unat_eq_iff)
  then show ?thesis by auto
qed

text \<open>
  C33: registration succeeds through the relay. The two players of a ready match
  register with one relay, whose token is their room token, while a first player's
  probe, a second player's probe and the first player's next probe reach it before
  their deadlines and are answered: both registrations return true, and the relay
  forwards between exactly the two endpoints, whatever it was doing before.
\<close>

theorem registration_through_relay:
  assumes "relay_reach (map of_char token) idle st"
    "registration_args host token portA slot n0 n1" "registration_args host token portB (1 - slot) n0 n1"
    "ue_winsock A \<and> ue_socket A \<and> ue_bind A" "ue_winsock B \<and> ue_socket B \<and> ue_bind B"
    "resolve_dest R host port = Some dest"
    "handle_packet (map of_char token) a (registration_packet token slot n0 n1) st = (st1, o1)"
    "handle_packet (map of_char token) b (registration_packet token (1 - slot) n0 n1) st1 = (st2, o2)"
    "handle_packet (map of_char token) a (registration_packet token slot n0 n1) st2 = (st3, o3)"
    "ue_polls A = (t1, p1) # (t2, p2) # restA" "t1 < ue_start A + timeout" "t2 < ue_start A + timeout"
    "ue_polls B = (t3, p3) # restB" "t3 < ue_start B + timeout"
    "answers dest b o2 p3" "answers dest a o3 p2"
  shows "fst (RegisterWithUdpRelay R host port token portA slot n0 n1 timeout A) = Some True \<and>
    fst (RegisterWithUdpRelay R host port token portB (1 - slot) n0 n1 timeout B) = Some True \<and>
    slot_addr (gen_slots (rl_active st3)) (unat slot) = Some a \<and>
    slot_addr (gen_slots (rl_active st3)) (unat (1 - slot)) = Some b \<and>
    gen_key (rl_active st3) = \<lparr>gk_ready = (word_of_int n0, word_of_int n1), gk_valid = True\<rparr>"
proof -
  have len: "length (map of_char token :: 8 word list) = 32" using assms(2) by (simp add: registration_args_def)
  have slots: "{slot, 1 - slot} = {0, 1}" using assms(2) by (simp add: registration_args_def slot_cases)
  have hs: "gen_key (rl_active st2) = \<lparr>gk_ready = (word_of_int n0, word_of_int n1), gk_valid = True\<rparr>"
      "slot_addr (gen_slots (rl_active st2)) (unat slot) = Some a"
      "slot_addr (gen_slots (rl_active st2)) (unat (1 - slot)) = Some b"
      "o2 = [(b, kRespRegistered)]" "st3 = st2" "o3 = [(a, kRespRegistered)]"
    using handshake_complete [OF assms(1) len slots assms(7,8) [unfolded registration_packet_def]] assms(9)
    by (simp_all add: registration_packet_def)
  have "relay_says dest kRespRegistered p3" "relay_says dest kRespRegistered p2"
    using answers_says [of dest b kRespRegistered p3] answers_says [of dest a kRespRegistered p2]
      assms(15,16) hs(4,6) by simp_all
  then show ?thesis
    using assms(10-14) hs
    by (simp add: register_result [OF assms(2,4,6)] register_result [OF assms(3,5,6)])
qed

section \<open>What PrepareForBattle promises\<close>

lemma relay_failed_simps [simp]:
  "fst (relay_failed s) = Some False" "pr_cfg (snd (relay_failed s)) = pr_cfg s"
  "pr_client (snd (relay_failed s)) = pr_client s"
  by (simp_all add: relay_failed_def prep_alert_def)

lemma relay_register_slot_cases:
  "(fst (relay_register_slot R E host port st slot s) \<noteq> Some True \<longrightarrow>
      pr_cfg (snd (relay_register_slot R E host port st slot s)) = pr_cfg s) \<and>
   (fst (relay_register_slot R E host port st slot s) = Some True \<longrightarrow>
      nc_ggpoTransport (pr_cfg (snd (relay_register_slot R E host port st slot s))) = UdpRelay \<and>
      fst (relay_register R E (pr_cfg s) host port slot (c_match st)) = Some True)"
  by (simp add: relay_register_slot_def Let_def case_prod_unfold)

lemma prepare_relay_cases:
  assumes "prepare_relay R E s = (res, s')"
  shows "(res \<noteq> Some True \<longrightarrow> pr_cfg s' = pr_cfg s) \<and>
    (res = Some True \<longrightarrow> nc_ggpoTransport (pr_cfg s') = UdpRelay)"
proof -
  have "(fst (prepare_relay R E s) \<noteq> Some True \<longrightarrow> pr_cfg (snd (prepare_relay R E s)) = pr_cfg s) \<and>
    (fst (prepare_relay R E s) = Some True \<longrightarrow> nc_ggpoTransport (pr_cfg (snd (prepare_relay R E s))) = UdpRelay)"
    by (simp add: prepare_relay_def case_prod_unfold Let_def relay_register_slot_cases split: option.split)
  then show ?thesis using assms by simp
qed

lemma try_punch_cfg: "try_punch R E s = (res, s') \<Longrightarrow> pr_cfg s' = pr_cfg s"
  by (auto simp: try_punch_def Let_def case_prod_unfold split: if_splits option.splits)

lemma prepare_modes:
  assumes "PrepareForBattle R E s = (res, m, s')"
    "\<not> (\<exists>e. pe_override E = Some e \<and> stricmp_eq e ''legacy'')"
  shows "m \<noteq> LegacySessionTunnel \<and>
    (res = Some True \<longrightarrow> nc_ggpoTransport (pr_cfg s') = m \<and> (m = UdpRelay \<or> m = P2p)) \<and>
    (res \<noteq> Some True \<longrightarrow> pr_cfg s' = pr_cfg s)"
proof -
  have legacy: "\<not> (case pe_override E of None \<Rightarrow> False | Some e \<Rightarrow> stricmp_eq e ''legacy'')"
    using assms(2) by (simp split: option.splits)
  obtain pres ps where punch: "try_punch R E s = (pres, ps)" by fastforce
  obtain rres rs where relay: "prepare_relay R E s = (rres, rs)" by fastforce
  obtain rres' rs' where relay': "prepare_relay R E ps = (rres', rs')" by fastforce
  show ?thesis
    using assms(1) legacy try_punch_cfg [OF punch] prepare_relay_cases [OF relay] prepare_relay_cases [OF relay']
    by (simp add: PrepareForBattle_def Let_def punch relay relay' mode_defs prep_alert_def
        split: if_splits option.splits bool.splits) auto
qed

text \<open>
  The session tunnel is never chosen silently. Unless the environment asks for
  it by name, PrepareForBattle never reports the tunnel as the effective mode; it
  succeeds only with the relay or a punched connection, with the configuration set
  to that mode; and when it does not succeed the configuration is unchanged.
\<close>

theorem no_silent_tunnel:
  assumes "PrepareForBattle R E s = (res, m, s')"
    "\<not> (\<exists>e. pe_override E = Some e \<and> stricmp_eq e ''legacy'')"
  shows "m \<noteq> LegacySessionTunnel \<and>
    (res = Some True \<longrightarrow> nc_ggpoTransport (pr_cfg s') = m \<and> (m = UdpRelay \<or> m = P2p)) \<and>
    (res \<noteq> Some True \<longrightarrow> pr_cfg s' = pr_cfg s)"
  using prepare_modes [OF assms] .

text \<open>A prepared match against a relay that answers at once.\<close>

definition resolver0 :: resolver where
  "resolver0 = \<lparr>rs_winsock = True, rs_pton = (\<lambda>t. if t = ''1.0.0.7'' then Some 7 else None),
     rs_ntop = (\<lambda>a. None), rs_lookup = (\<lambda>t. None)\<rparr>"

definition relay0 :: sockaddr_in where
  "relay0 = \<lparr>sa_ip = 7, sa_port = 9000, sa_family = AF_INET\<rparr>"

definition answer0 :: "8 word list \<Rightarrow> udp_env" where
  "answer0 resp = \<lparr>ue_winsock = True, ue_socket = True, ue_bind = True, ue_start = 5,
     ue_polls = [(6, \<lparr>p_sent = True, p_ready = 1, p_recv = Some (relay0, resp)\<rparr>)]\<rparr>"

definition env0 :: "jval prep_env" where
  "env0 = \<lparr>pe_override = None, pe_codec = std_codec jval_ops, pe_ok = (\<lambda>n. True), pe_strict = False,
     pe_punchSent = False, pe_coordStart = 0, pe_coord = [], pe_punch1 = answer0 [], pe_punch2 = answer0 [],
     pe_health = (answer0 kRespHealth, answer0 []), pe_register = (answer0 kRespRegistered, answer0 [])\<rparr>"

definition ready_client :: client where
  "ready_client = player_client\<lparr>c_match := MatchData_init\<lparr>readyMessageNum := (3, 4)\<rparr>\<rparr>"

definition prep0 :: "jval prep" where
  "prep0 = \<lparr>pr_cfg = default_config\<lparr>nc_ggpoTransport := UdpRelay, nc_ggpoRemoteHost := ''1.0.0.7'',
        nc_ggpoRemotePort := 9000, nc_ggpoRoomToken := replicate 32 CHR ''a''\<rparr>,
     pr_client = Some \<lparr>cl = ready_client, gm = game0, eff = []\<rparr>, pr_alerts = [], pr_sent = []\<rparr>"

lemma relay0_dest: "resolve_dest resolver0 ''1.0.0.7'' 9000 = Some relay0"
  by (simp add: resolve_dest_def ResolveHostToIPv4_def resolver0_def relay0_def copy_trunc_def)

lemma answer0_simps [simp]:
  "ue_winsock (answer0 b)" "ue_socket (answer0 b)" "ue_bind (answer0 b)" "ue_start (answer0 b) = 5"
  "ue_polls (answer0 b) = [(6, \<lparr>p_sent = True, p_ready = 1, p_recv = Some (relay0, b)\<rparr>)]"
  by (simp_all add: answer0_def)

lemma prep0_relay:
  "\<exists>s'. prepare_relay resolver0 env0 prep0 = (Some True, s')"
proof -
  have h: "relay_health resolver0 env0 ''1.0.0.7'' 9000 = (True, [(sockaddr.truncate relay0, kMagicHealth)])"
    by (simp add: relay_health_def env0_def ProbeUdpRelayHealth_def relay0_dest SendProbeAndWait_def
        SameUdpEndpoint_def response_buf_def kRespHealth_def)
  have args: "registration_args ''1.0.0.7'' (replicate 32 CHR ''a'') 23457 0 3 4"
    by (simp add: registration_args_def)
  let ?reg = "RegisterWithUdpRelay resolver0 ''1.0.0.7'' 9000 (replicate 32 CHR ''a'') 23457 0 3 4 15000 (answer0 kRespRegistered)"
  have "fst ?reg = Some True"
    by (simp add: register_result [OF args _ relay0_dest] relay_says_def SendProbeAndWait_def
        SameUdpEndpoint_def response_buf_def kRespRegistered_def)
  then obtain o2 where reg: "?reg = (Some True, o2)" by (cases ?reg) simp
  have "fst (relay_register resolver0 env0 (pr_cfg prep0) ''1.0.0.7'' 9000 0 (c_match ready_client)) = Some True"
    by (simp add: relay_register_def env0_def prep0_def default_config_def ready_client_def MatchData_init_def reg)
  then have "fst (relay_register_slot resolver0 env0 ''1.0.0.7'' 9000 ready_client 0 prep0) = Some True"
    by (simp add: relay_register_slot_def h case_prod_unfold Let_def prep0_def)
  moreover have "player_slot ready_client = Some 0"
    by (simp add: player_slot_def ready_client_def player_client_def client_init_def NULL_LOBBY_def)
  moreover have "MatchData_IsAllReady (c_match ready_client)"
    by (simp add: MatchData_IsAllReady_def ready_client_def)
  moreover have "relay_endpoint (pr_cfg prep0) = (''1.0.0.7'', 9000)" "nc_ggpoRoomToken (pr_cfg prep0) \<noteq> []"
    "pr_client prep0 = Some \<lparr>cl = ready_client, gm = game0, eff = []\<rparr>"
    by (simp_all add: prep0_def relay_endpoint_def)
  ultimately have "fst (prepare_relay resolver0 env0 prep0) = Some True"
    by (simp add: prepare_relay_def)
  then show ?thesis by (metis prod.collapse)
qed

definition polls0 :: "8 word list list \<Rightarrow> udp_env" where
  "polls0 resps = \<lparr>ue_winsock = True, ue_socket = True, ue_bind = True, ue_start = 5,
     ue_polls = map (\<lambda>resp. (6, \<lparr>p_sent = True, p_ready = 1, p_recv = Some (relay0, resp)\<rparr>)) resps\<rparr>"

definition room0 :: string where "room0 = replicate 32 CHR ''a''"

theorem registration_through_relay_witness:
  "fst (RegisterWithUdpRelay resolver0 ''1.0.0.7'' 9000 room0 23457 0 3 4 15000
      (polls0 [kRespWaiting, kRespRegistered])) = Some True \<and>
   fst (RegisterWithUdpRelay resolver0 ''1.0.0.7'' 9000 room0 23458 (1 - 0) 3 4 15000
      (polls0 [kRespRegistered])) = Some True"
proof -
  let ?t = "map of_char room0 :: 8 word list"
  let ?p = "\<lambda>i. registration_packet room0 i 3 4"
  obtain st1 o1 where 1: "handle_packet ?t (ep 1 2) (?p 0) (relay_init 0) = (st1, o1)" by fastforce
  obtain st2 o2 where 2: "handle_packet ?t (ep 3 4) (?p (1 - 0)) st1 = (st2, o2)" by fastforce
  obtain st3 o3 where 3: "handle_packet ?t (ep 1 2) (?p 0) st2 = (st3, o3)" by fastforce
  have len: "length ?t = 32" by (simp add: room0_def)
  have args: "registration_args ''1.0.0.7'' room0 23457 0 3 4" "registration_args ''1.0.0.7'' room0 23458 (1 - 0) 3 4"
    by (simp_all add: registration_args_def room0_def)
  have o: "o2 = [(ep 3 4, kRespRegistered)]" "o3 = [(ep 1 2, kRespRegistered)]"
    using handshake_complete [OF relay_reach_init len _ 1 [unfolded registration_packet_def] 2 [unfolded registration_packet_def]]
      3 by (simp_all add: registration_packet_def)
  let ?pr = "\<lambda>resp. \<lparr>p_sent = True, p_ready = 1, p_recv = Some (relay0, resp)\<rparr>"
  have polls: "ue_polls (polls0 [kRespWaiting, kRespRegistered]) = [(6, ?pr kRespWaiting), (6, ?pr kRespRegistered)]"
    "ue_polls (polls0 [kRespRegistered]) = [(6, ?pr kRespRegistered)]"
    by (simp_all add: polls0_def)
  have ans: "answers relay0 (ep 3 4) o2 (?pr kRespRegistered)" "answers relay0 (ep 1 2) o3 (?pr kRespRegistered)"
    by (simp_all add: answers_def o)
  have env: "ue_winsock (polls0 r) \<and> ue_socket (polls0 r) \<and> ue_bind (polls0 r)" "6 < ue_start (polls0 r) + 15000" for r
    by (simp_all add: polls0_def)
  show ?thesis
    using registration_through_relay [OF relay_reach_init args env(1) env(1) relay0_dest 1 2 3 polls(1) env(2) env(2)
        polls(2) env(2) ans] by blast
qed

theorem no_silent_tunnel_witness:
  "\<exists>s'. PrepareForBattle resolver0 env0 prep0 = (Some True, UdpRelay, s') \<and> nc_ggpoTransport (pr_cfg s') = UdpRelay"
proof -
  obtain s' where s': "prepare_relay resolver0 env0 prep0 = (Some True, s')" using prep0_relay by blast
  have p: "PrepareForBattle resolver0 env0 prep0 = (Some True, UdpRelay, s')"
    using s' by (simp add: PrepareForBattle_def Let_def env0_def [THEN arg_cong [of _ _ pe_override]] ParseTransportEnv_def
        prep0_def mode_defs)
  show ?thesis using no_silent_tunnel [OF p] p by (simp add: env0_def)
qed

lemma poll_until_in: "poll_until hit d ps = Some True \<Longrightarrow> \<exists>x\<in>set ps. fst x < d \<and> hit (snd x)"
  unfolding poll_until_true by (metis in_set_conv_decomp)

lemma register_true_hit:
  assumes "fst (RegisterWithUdpRelay R host port token local slot n0 n1 timeoutMs E) = Some True"
  shows "registration_args host token local slot n0 n1 \<and>
    (\<exists>dest x. resolve_dest R host port = Some dest \<and> x \<in> set (ue_polls E) \<and> fst x < ue_start E + timeoutMs \<and>
      relay_says dest kRespRegistered (snd x))"
proof -
  have args: "registration_args host token local slot n0 n1" "ue_winsock E \<and> ue_socket E \<and> ue_bind E"
    using assms by (auto simp: RegisterWithUdpRelay_def split: if_splits)
  obtain dest where dest: "resolve_dest R host port = Some dest"
    using assms args by (auto simp: RegisterWithUdpRelay_def split: option.splits)
  show ?thesis
    using poll_until_in assms args(1) dest unfolding register_result [OF args dest] by blast
qed

lemma relay_register_hit:
  assumes "fst (relay_register R E cfg host port slot m) = Some True"
  shows "\<exists>A\<in>{fst (pe_register E), snd (pe_register E)}. fst (RegisterWithUdpRelay R host port (nc_ggpoRoomToken cfg)
    (nc_ggpoPort cfg) (of_nat slot) (duo_get (readyMessageNum m) 0) (duo_get (readyMessageNum m) 1) 15000 A) = Some True"
proof -
  let ?at = "RegisterWithUdpRelay R host port (nc_ggpoRoomToken cfg)
    (nc_ggpoPort cfg) (of_nat slot) (duo_get (readyMessageNum m) 0) (duo_get (readyMessageNum m) 1) 15000"
  obtain r1 o1 where 1: "?at (fst (pe_register E)) = (r1, o1)" by fastforce
  obtain r2 o2 where 2: "?at (snd (pe_register E)) = (r2, o2)" by fastforce
  have "r1 = Some True \<or> r2 = Some True"
    using assms 1 2 by (simp add: relay_register_def split: option.splits bool.splits)
  then show ?thesis using 1 2 by auto
qed

text \<open>
  A battle is prepared over the relay only when it can be: both sides are
  ready, this client holds a player seat, and the relay itself answered
  "registered" to the registration of that seat for that pair of ready numbers
  before the deadline of one of the two attempts.
\<close>

theorem relay_prepared_sound:
  assumes "prepare_relay R E s = (Some True, s')"
  shows "\<exists>r slot A dest x. pr_client s = Some r \<and> MatchData_IsAllReady (c_match (cl r)) \<and>
    player_slot (cl r) = Some slot \<and> A \<in> {fst (pe_register E), snd (pe_register E)} \<and>
    resolve_dest R (fst (relay_endpoint (pr_cfg s))) (snd (relay_endpoint (pr_cfg s))) = Some dest \<and>
    x \<in> set (ue_polls A) \<and> fst x < ue_start A + 15000 \<and> relay_says dest kRespRegistered (snd x)"
proof -
  let ?h = "fst (relay_endpoint (pr_cfg s))" and ?p = "snd (relay_endpoint (pr_cfg s))"
  have "\<exists>r slot. pr_client s = Some r \<and> MatchData_IsAllReady (c_match (cl r)) \<and> player_slot (cl r) = Some slot \<and>
      fst (relay_register_slot R E ?h ?p (cl r) slot s) = Some True"
    using assms
    by (auto simp: prepare_relay_def case_prod_unfold Let_def relay_failed_def split: if_splits option.splits)
  then show ?thesis
    using relay_register_slot_cases relay_register_hit register_true_hit by meson
qed

section \<open>The clock\<close>

text \<open>
  The deadlines are 32-bit ticks compared with <, so that they fail around the
  wrap of the tick count (every 49.7 days): when start + timeout passes 2^32, a
  registration gives up at its first look at the clock and sends nothing, however
  healthy the relay.
\<close>

theorem register_gives_up_at_wrap:
  assumes "2 ^ 32 \<le> unat (ue_start E) + unat timeoutMs" "ue_polls E = (t, p) # ps" "ue_start E \<le> t"
  shows "RegisterWithUdpRelay R host port token local slot n0 n1 timeoutMs E = (Some False, [])"
proof -
  have lt: "unat timeoutMs < 2 ^ 32" "unat (ue_start E) < 2 ^ 32"
    using unsigned_less [of timeoutMs] unsigned_less [of "ue_start E"] by simp_all
  then have "unat (ue_start E + timeoutMs) = unat (ue_start E) + unat timeoutMs - 2 ^ 32"
    using assms(1) by (simp add: unat_word_ariths le_mod_geq)
  then have "unat (ue_start E + timeoutMs) < unat (ue_start E)" using assms(1) lt by linarith
  then have "\<not> t < ue_start E + timeoutMs"
    using assms(3) by (simp add: word_less_nat_alt word_le_nat_alt)
  then show ?thesis
    using assms(2) by (simp add: RegisterWithUdpRelay_def split: option.splits)
qed

definition late0 :: udp_env where
  "late0 = (answer0 kRespRegistered)\<lparr>ue_start := 0xFFFFFFF0, ue_polls :=
     [(0xFFFFFFF0, \<lparr>p_sent = True, p_ready = 1, p_recv = Some (relay0, kRespRegistered)\<rparr>)]\<rparr>"

theorem register_gives_up_at_wrap_witness:
  "RegisterWithUdpRelay resolver0 ''1.0.0.7'' 9000 (replicate 32 CHR ''a'') 23457 0 3 4 15000 late0 = (Some False, [])"
proof -
  have s: "ue_start late0 = 0xFFFFFFF0" and
    p: "ue_polls late0 = [(ue_start late0, \<lparr>p_sent = True, p_ready = 1, p_recv = Some (relay0, kRespRegistered)\<rparr>)]"
    by (simp_all add: late0_def)
  have "2 ^ 32 \<le> unat (ue_start late0) + unat (15000 :: 32 word)" unfolding s by simp
  then show ?thesis by (rule register_gives_up_at_wrap [OF _ p order_refl])
qed

theorem relay_prepared_sound_witness:
  "\<exists>r. pr_client prep0 = Some r \<and> player_slot (cl r) \<noteq> None"
proof -
  obtain s' where s': "prepare_relay resolver0 env0 prep0 = (Some True, s')" using prep0_relay by blast
  show ?thesis using relay_prepared_sound [OF s'] by auto
qed

section \<open>What the NAT probe reads\<close>

text \<open>
  The address is never read. The search for the value starts at the quote that
  opens the key, so that what is copied is the text between the key and its value
  (a colon), and the probe reports success with it whenever the port is good.
\<close>

theorem nat_probe_reads_separator:
  assumes "strstr response ([quote] @ ''observedIp'' @ [quote]) =
      Some ([quote] @ ''observedIp'' @ [quote] @ gap @ [quote] @ rest)"
    "quote \<notin> set gap" "length gap < 64"
  shows "nr_ip (read_nat_response response) = gap \<and>
    (nr_ok (read_nat_response response) \<longleftrightarrow> gap \<noteq> [] \<and> 0 < nr_port (read_nat_response response))"
proof -
  have "observed_ip ([quote] @ ''observedIp'' @ [quote] @ gap @ [quote] @ rest) = gap"
    using assms(2,3) by (simp add: observed_ip_def strchr_append quote_def)
  then show ?thesis
    using assms(1) by (simp add: read_nat_response_def Let_def)
qed

definition nat_reply :: string where
  "nat_reply = ''{'' @ [quote] @ ''observedIp'' @ [quote] @ '':'' @ [quote] @ ''5.6.7.8'' @ [quote] @ '','' @
     [quote] @ ''observedPort'' @ [quote] @ '':4242}''"

theorem nat_probe_reads_separator_witness:
  "read_nat_response nat_reply = \<lparr>nr_ok = True, nr_ip = '':'', nr_port = 4242\<rparr>"
proof -
  let ?rest = "''5.6.7.8'' @ [quote] @ '','' @ [quote] @ ''observedPort'' @ [quote] @ '':4242}''"
  have 1: "strstr nat_reply ([quote] @ ''observedIp'' @ [quote]) =
      Some ([quote] @ ''observedIp'' @ [quote] @ '':'' @ [quote] @ ?rest)"
    by (simp add: nat_reply_def quote_def)
  have 2: "nr_port (read_nat_response nat_reply) = 4242"
    by (simp add: read_nat_response_def Let_def nat_reply_def quote_def observed_port_def) (simp add: atoi_def is_space_def
        read_digits_def is_digit_def read_dec_def digit_val_def clamp_int_def less_eq_char_def)
  show ?thesis using nat_probe_reads_separator [OF 1] 2 by (simp add: quote_def)
qed

end
