(* ===== verification/Tunnel.thy ===== *)
theory Tunnel
  imports Session_Client
begin

text \<open>
  The session tunnel for GGPO (session/sf4e__GgpoRelay.cxx): a loopback port per
  remote member stands for it towards the local GGPO; what GGPO sends to such a
  port goes to the member through the session, and what the session brings from a
  member is sent to the local GGPO from its port. What recvfrom returns is a list
  per peer.
\<close>

definition GGPO_RELAY_VIRTUAL_BASE :: "16 word" where "GGPO_RELAY_VIRTUAL_BASE = 40000"

record virtual_peer =
  vp_connId :: connection_id
  vp_open :: bool
  vp_port :: "16 word"

record transport_stats =
  ts_outFrames :: "64 word"
  ts_outBytes :: "64 word"
  ts_inFrames :: "64 word"
  ts_inBytes :: "64 word"

definition no_stats :: transport_stats where
  "no_stats = \<lparr>ts_outFrames = 0, ts_outBytes = 0, ts_inFrames = 0, ts_inBytes = 0\<rparr>"

record tunnel =
  tn_active :: bool
  tn_winsock :: bool
  tn_localPort :: "16 word"
  tn_client :: bool
  tn_peers :: "virtual_peer list"
  tn_stats :: transport_stats

definition tunnel_init :: tunnel where
  "tunnel_init = \<lparr>tn_active = False, tn_winsock = False, tn_localPort = 0, tn_client = False,
     tn_peers = [], tn_stats = no_stats\<rparr>"

definition ResetStats :: "tunnel \<Rightarrow> tunnel" where
  "ResetStats tn = tn\<lparr>tn_stats := no_stats\<rparr>"

definition tunnel_EnsureWinsock :: "bool \<Rightarrow> tunnel \<Rightarrow> bool \<times> tunnel" where
  "tunnel_EnsureWinsock startup tn =
     (if tn_winsock tn then (True, tn)
      else if \<not> startup then (False, tn) else (True, tn\<lparr>tn_winsock := True\<rparr>))"

definition CloseSockets :: "tunnel \<Rightarrow> tunnel" where
  "CloseSockets tn = tn\<lparr>tn_peers := map (\<lambda>p. p\<lparr>vp_open := False\<rparr>) (tn_peers tn)\<rparr>"

definition tunnel_Reset :: "tunnel \<Rightarrow> tunnel" where
  "tunnel_Reset tn = (CloseSockets tn)\<lparr>tn_active := False, tn_localPort := 0, tn_client := False, tn_peers := []\<rparr>"

text \<open>\<open>bindable\<close>: whether a socket can be created and bound to a loopback port.\<close>

definition CreateVirtualPeer ::
  "bool \<Rightarrow> (16 word \<Rightarrow> bool) \<Rightarrow> connection_id \<Rightarrow> 16 word \<Rightarrow> tunnel \<Rightarrow> bool \<times> tunnel" where
  "CreateVirtualPeer startup bindable who port tn =
     (let (ok, tn1) = tunnel_EnsureWinsock startup tn
      in if \<not> ok \<or> \<not> bindable port then (False, tn1)
         else (True, tn1\<lparr>tn_peers := tn_peers tn1 @ [\<lparr>vp_connId = who, vp_open = True, vp_port = port\<rparr>]\<rparr>))"

fun create_peers ::
  "bool \<Rightarrow> (16 word \<Rightarrow> bool) \<Rightarrow> connection_id \<Rightarrow> member_data list \<Rightarrow> 16 word \<Rightarrow> tunnel \<Rightarrow> bool \<times> tunnel" where
  "create_peers startup bindable own [] next tn = (True, tn)"
| "create_peers startup bindable own (m # ms) next tn =
     (if ConnectionID_eq (connId m) own then create_peers startup bindable own ms next tn
      else case CreateVirtualPeer startup bindable (connId m) next tn of
        (False, tn') \<Rightarrow> (False, tunnel_Reset tn')
      | (True, tn') \<Rightarrow> create_peers startup bindable own ms (next + 1) tn')"

definition Start ::
  "bool \<Rightarrow> (16 word \<Rightarrow> bool) \<Rightarrow> 16 word \<Rightarrow> client option \<Rightarrow> tunnel \<Rightarrow> bool \<times> tunnel" where
  "Start startup bindable localGgpoPort client tn =
     (let tn0 = tunnel_Reset tn
      in case client of
           None \<Rightarrow> (False, tn0)
         | Some st \<Rightarrow>
            (if localGgpoPort = 0 then (False, tn0)
             else (let (ok, tn1) = tunnel_EnsureWinsock startup tn0
                   in if \<not> ok then (False, tn1)
                      else create_peers startup bindable (c_cid st) (members (c_lobby st)) GGPO_RELAY_VIRTUAL_BASE
                        (tn1\<lparr>tn_localPort := localGgpoPort, tn_client := True, tn_active := True\<rparr>))))"

definition GetRemoteEndpoint :: "connection_id \<Rightarrow> tunnel \<Rightarrow> (string \<times> 16 word) option" where
  "GetRemoteEndpoint remoteConn tn =
     (if \<not> tn_active tn then None
      else map_option (\<lambda>p. (''127.0.0.1'', vp_port p))
        (find (\<lambda>p. ConnectionID_eq (vp_connId p) remoteConn) (tn_peers tn)))"

text \<open>A loopback datagram: from port, to port, bytes.\<close>

type_synonym loopback = "16 word \<times> 16 word \<times> 8 word list"

definition InjectFromPeer :: "connection_id \<Rightarrow> 8 word list \<Rightarrow> tunnel \<Rightarrow> tunnel \<times> loopback list" where
  "InjectFromPeer src bytes tn =
     (if \<not> tn_active tn \<or> bytes = [] then (tn, [])
      else case find (\<lambda>p. ConnectionID_eq (vp_connId p) src \<and> vp_open p) (tn_peers tn) of
        None \<Rightarrow> (tn, [])
      | Some p \<Rightarrow> (tn\<lparr>tn_stats := (tn_stats tn)\<lparr>ts_inFrames := ts_inFrames (tn_stats tn) + 1,
            ts_inBytes := ts_inBytes (tn_stats tn) + of_nat (length bytes)\<rparr>\<rparr>,
          [(vp_port p, tn_localPort tn, bytes)]))"

text \<open>Datagrams waiting at a virtual port; one that does not fit the buffer is an error.\<close>

definition pump_buf :: nat where "pump_buf = 2048"

fun pump_peer ::
  "('j request \<Rightarrow> nat) \<Rightarrow> connection_id \<Rightarrow> 8 word list option list \<Rightarrow> tunnel \<Rightarrow> client \<Rightarrow> tunnel \<times> client \<times> 'j request list" where
  "pump_peer len dest [] tn st = (tn, st, [])"
| "pump_peer len dest (None # ds) tn st = (tn, st, [])"
| "pump_peer len dest (Some bytes # ds) tn st =
     (if bytes = [] \<or> pump_buf < length bytes then (tn, st, [])
      else (let tn1 = tn\<lparr>tn_stats := (tn_stats tn)\<lparr>ts_outFrames := ts_outFrames (tn_stats tn) + 1,
                  ts_outBytes := ts_outBytes (tn_stats tn) + of_nat (length bytes)\<rparr>\<rparr>;
                (st1, q) = SendGgpoFrame len dest bytes st;
                (tn2, st2, qs) = pump_peer len dest ds tn1 st1
            in (tn2, st2, (case q of None \<Rightarrow> [] | Some m \<Rightarrow> [m]) @ qs)))"

fun pump_peers ::
  "('j request \<Rightarrow> nat) \<Rightarrow> (connection_id \<Rightarrow> 8 word list option list) \<Rightarrow> virtual_peer list \<Rightarrow> tunnel \<Rightarrow> client
    \<Rightarrow> tunnel \<times> client \<times> 'j request list" where
  "pump_peers len waiting [] tn st = (tn, st, [])"
| "pump_peers len waiting (p # ps) tn st =
     (if \<not> vp_open p then pump_peers len waiting ps tn st
      else (let (tn1, st1, q1) = pump_peer len (vp_connId p) (waiting (vp_connId p)) tn st;
                (tn2, st2, q2) = pump_peers len waiting ps tn1 st1
            in (tn2, st2, q1 @ q2)))"

definition Pump ::
  "('j request \<Rightarrow> nat) \<Rightarrow> (connection_id \<Rightarrow> 8 word list option list) \<Rightarrow> tunnel \<Rightarrow> client \<Rightarrow> tunnel \<times> client \<times> 'j request list" where
  "Pump len waiting tn st =
     (if \<not> tn_active tn \<or> \<not> tn_client tn then (tn, st, []) else pump_peers len waiting (tn_peers tn) tn st)"

section \<open>The peers of a started tunnel\<close>

definition others :: "connection_id \<Rightarrow> member_data list \<Rightarrow> connection_id list" where
  "others own ms = filter (\<lambda>c. c \<noteq> own) (map connId ms)"

definition peer_at :: "16 word \<Rightarrow> connection_id \<Rightarrow> virtual_peer" where
  "peer_at port c = \<lparr>vp_connId = c, vp_open = True, vp_port = port\<rparr>"

fun peers_from :: "16 word \<Rightarrow> connection_id list \<Rightarrow> virtual_peer list" where
  "peers_from next [] = []"
| "peers_from next (c # cs) = peer_at next c # peers_from (next + 1) cs"

lemma create_peers_ok:
  "create_peers startup bindable own ms next tn = (True, tn') \<Longrightarrow>
     tn_peers tn' = tn_peers tn @ peers_from next (others own ms) \<and> tn_active tn' = tn_active tn \<and>
     tn_client tn' = tn_client tn \<and> tn_localPort tn' = tn_localPort tn"
proof (induction ms arbitrary: "next" tn)
  case (Cons m ms)
  show ?case
  proof (cases "connId m = own")
    case True
    then show ?thesis using Cons by (simp add: others_def)
  next
    case False
    then obtain t where t: "CreateVirtualPeer startup bindable (connId m) next tn = (True, t)"
      "create_peers startup bindable own ms (next + 1) t = (True, tn')"
      using Cons.prems by (auto split: prod.splits bool.splits)
    have "tn_peers t = tn_peers tn @ [peer_at next (connId m)] \<and> tn_active t = tn_active tn \<and>
        tn_client t = tn_client tn \<and> tn_localPort t = tn_localPort tn"
      using t(1) by (auto simp: CreateVirtualPeer_def tunnel_EnsureWinsock_def peer_at_def split: if_splits)
    then show ?thesis using Cons.IH [OF t(2)] False by (simp add: others_def)
  qed
qed (simp add: others_def)

lemma start_ok:
  assumes "Start startup bindable port (Some st) tn = (True, tn')"
  shows "tn_peers tn' = peers_from GGPO_RELAY_VIRTUAL_BASE (others (c_cid st) (members (c_lobby st)))"
    "tn_active tn'" "tn_client tn'" "tn_localPort tn' = port"
proof -
  obtain t where t: "create_peers startup bindable (c_cid st) (members (c_lobby st)) GGPO_RELAY_VIRTUAL_BASE
      (t\<lparr>tn_localPort := port, tn_client := True, tn_active := True\<rparr>) = (True, tn')"
    "tn_peers t = []"
    using assms by (auto simp: Start_def Let_def tunnel_EnsureWinsock_def tunnel_Reset_def split: if_splits)
  show "tn_peers tn' = peers_from GGPO_RELAY_VIRTUAL_BASE (others (c_cid st) (members (c_lobby st)))"
    "tn_active tn'" "tn_client tn'" "tn_localPort tn' = port"
    using create_peers_ok [OF t(1)] t(2) by simp_all
qed

lemma start_succeeds:
  assumes "\<forall>p. bindable p" "port \<noteq> 0"
  shows "\<exists>tn'. Start True bindable port (Some st) tn = (True, tn')"
proof -
  have "\<exists>t'. create_peers True bindable own ms n t = (True, t')" for own ms n t
    using assms(1)
    by (induction ms arbitrary: n t) (auto simp: CreateVirtualPeer_def tunnel_EnsureWinsock_def)
  then show ?thesis using assms(2) by (auto simp: Start_def Let_def tunnel_EnsureWinsock_def)
qed

lemma find_peer:
  "c \<in> set cs \<Longrightarrow> \<exists>p. find (\<lambda>p. vp_connId p = c \<and> vp_open p) (peers_from n cs) = Some p \<and>
     find (\<lambda>p. vp_connId p = c) (peers_from n cs) = Some p \<and> vp_connId p = c \<and> vp_open p"
  by (induction cs arbitrary: n) (auto simp: peer_at_def)

lemma length_peers_from [simp]: "length (peers_from n cs) = length cs"
  by (induction cs arbitrary: n) simp_all

lemma peers_from_nth: "i < length cs \<Longrightarrow> peers_from n cs ! i = peer_at (n + of_nat i) (cs ! i)"
proof (induction cs arbitrary: n i)
  case (Cons c cs)
  then show ?case by (cases i) (simp_all add: algebra_simps)
qed simp

lemma peers_from_ids: "map vp_connId (peers_from n cs) = cs"
  by (induction cs arbitrary: n) (simp_all add: peer_at_def)

lemma peers_from_ports: "map vp_port (peers_from n cs) = map (\<lambda>i. n + of_nat i) [0..<length cs]"
  by (rule nth_equalityI) (simp_all add: peers_from_nth peer_at_def)

lemma word16_of_nat_inj:
  assumes "(of_nat i :: 16 word) = of_nat j" "i < 65536" "j < 65536"
  shows "i = j"
proof -
  have "unat (of_nat k :: 16 word) = k" if "k < 65536" for k
    unfolding unat_of_nat using that by simp
  then show ?thesis using assms by metis
qed

lemma distinct_ports: "k \<le> 65536 \<Longrightarrow> distinct (map (\<lambda>i. n + of_nat i :: 16 word) [0..<k])"
  by (auto simp: distinct_map inj_on_def dest: word16_of_nat_inj)

lemma start_endpoint:
  assumes "Start startup bindable port (Some st) tn = (True, tn')" "c \<in> connId ` set (members (c_lobby st))" "c \<noteq> c_cid st"
  shows "\<exists>v. GetRemoteEndpoint c tn' = Some (''127.0.0.1'', v) \<and>
    (\<forall>bytes. bytes \<noteq> [] \<longrightarrow> snd (InjectFromPeer c bytes tn') = [(v, port, bytes)])"
proof -
  have "c \<in> set (others (c_cid st) (members (c_lobby st)))" using assms(2,3) by (auto simp: others_def)
  from find_peer [OF this, of GGPO_RELAY_VIRTUAL_BASE]
  obtain p where "find (\<lambda>p. vp_connId p = c \<and> vp_open p) (tn_peers tn') = Some p"
    "find (\<lambda>p. vp_connId p = c) (tn_peers tn') = Some p"
    by (auto simp: start_ok(1) [OF assms(1)])
  then show ?thesis
    using start_ok(2-4) [OF assms(1)] by (auto simp: GetRemoteEndpoint_def InjectFromPeer_def)
qed

lemma pump_one:
  assumes "bytes \<noteq> []" "length bytes \<le> 2048" "c_conn st \<noteq> None"
  shows "snd (snd (pump_peer len dest [Some bytes] tn st)) = [FrameMsg \<lparr>gf_src = c_cid st, gf_dest = dest, gf_data = bytes\<rparr>]"
  using assms by (simp add: pump_buf_def SendGgpoFrame_def Let_def)

text \<open>
  The virtual ports. A started tunnel has one endpoint for every other member
  of the lobby, in lobby order, on consecutive ports from 40000, none for the
  client itself, and distinct members get distinct ports as long as fewer than
  65536 are in the lobby.
\<close>

theorem tunnel_ports:
  assumes "Start startup bindable port (Some st) tn = (True, tn')"
  shows "map vp_connId (tn_peers tn') = others (c_cid st) (members (c_lobby st)) \<and>
    map vp_port (tn_peers tn') = map (\<lambda>i. 40000 + of_nat i) [0..<length (tn_peers tn')] \<and>
    GetRemoteEndpoint (c_cid st) tn' = None \<and>
    (length (tn_peers tn') < 65536 \<longrightarrow> distinct (map vp_port (tn_peers tn')))"
proof -
  let ?cs = "others (c_cid st) (members (c_lobby st))"
  have "c_cid st \<notin> vp_connId ` set (peers_from GGPO_RELAY_VIRTUAL_BASE ?cs)"
    using peers_from_ids [of GGPO_RELAY_VIRTUAL_BASE ?cs] by (metis (mono_tags, lifting) list.set_map others_def mem_Collect_eq set_filter)
  then have "find (\<lambda>p. vp_connId p = c_cid st) (tn_peers tn') = None"
    by (simp add: start_ok(1) [OF assms] find_None_iff) (metis imageI)
  then show ?thesis
    using distinct_ports [of "length ?cs" 40000]
    by (simp add: start_ok(1) [OF assms] peers_from_ids peers_from_ports GGPO_RELAY_VIRTUAL_BASE_def GetRemoteEndpoint_def)
qed

definition lobby_client :: client where
  "lobby_client = (client_init [] 1 ''a'')\<lparr>c_cid := \<lparr>cid_host = ''h'', cid_user = ''1''\<rparr>, c_lobby := NULL_LOBBY\<lparr>members :=
     map (\<lambda>u. \<lparr>connId = \<lparr>cid_host = ''h'', cid_user = u\<rparr>, m_name = u, m_ip = [], m_port = 1, m_flags = 0\<rparr>)
       [''1'', ''2'', ''3'']\<rparr>\<rparr>"

theorem tunnel_ports_witness:
  "\<exists>tn'. Start True (\<lambda>p. True) 9 (Some lobby_client) tunnel_init = (True, tn') \<and>
     map vp_port (tn_peers tn') = [40000, 40001]"
proof -
  obtain tn' where s: "Start True (\<lambda>p. True) 9 (Some lobby_client) tunnel_init = (True, tn')"
    using start_succeeds [of "\<lambda>p. True" 9] by auto
  have "map vp_connId (tn_peers tn') = [\<lparr>cid_host = ''h'', cid_user = ''2''\<rparr>, \<lparr>cid_host = ''h'', cid_user = ''3''\<rparr>]"
    using tunnel_ports [OF s] by (simp add: others_def lobby_client_def)
  then have "length (tn_peers tn') = 2" by (metis length_map list.size(3,4) One_nat_def Suc_1 add.right_neutral add_Suc_right)
  then show ?thesis using s tunnel_ports [OF s] by (simp add: upt_rec)
qed

end
