(* ===== verification/Pacing.thy ===== *)
theory Pacing
  imports Complex_Main C_Strings
begin

text \<open>
  Time-sync pacing (common/sf4e__PacingController.hxx, the development overrides
  of sf4e__Game__Battle__System.cxx, the paced wait of sf4e__UserApp.cxx): the
  record \<open>pacer\<close> is PacingController, one definition per member function.
  The doubles are exact rationals: rounding is not modelled. The counters keep
  their width.
\<close>

section \<open>The controller\<close>

record pacer =
  maxRecommendationFrames :: rat
  maxStepMs :: rat
  minWaitMs :: rat
  p_enabled :: bool
  outstandingMs :: rat
  recommendationsReceived :: "32 word"
  framesRecommendedTotal :: "64 word"
  msAcceptedTotal :: rat
  msAppliedTotal :: rat
  maxSingleWaitMs :: rat
  maxOutstandingMs :: rat
  msDiscardedOnReset :: rat
  msReplacedTotal :: rat
  msDiscardedDisabled :: rat
  waitRequests :: "64 word"
  msRequestedTotal :: rat
  maxRequestedWaitMs :: rat
  waitFailures :: "32 word"
  waitTimeouts :: "32 word"
  fallbackSleeps :: "32 word"

definition ResetStats :: "pacer \<Rightarrow> pacer" where
  "ResetStats p = p\<lparr>recommendationsReceived := 0, framesRecommendedTotal := 0, msAcceptedTotal := 0,
     msAppliedTotal := 0, maxSingleWaitMs := 0, maxOutstandingMs := 0, msDiscardedOnReset := 0,
     msReplacedTotal := 0, msDiscardedDisabled := 0, waitRequests := 0, msRequestedTotal := 0,
     maxRequestedWaitMs := 0, waitFailures := 0, waitTimeouts := 0, fallbackSleeps := 0\<rparr>"

definition InitDefaults :: "pacer \<Rightarrow> pacer" where
  "InitDefaults p = ResetStats (p\<lparr>maxRecommendationFrames := 9, maxStepMs := 3, minWaitMs := 1,
     p_enabled := True, outstandingMs := 0\<rparr>)"

definition pacer_Reset :: "pacer \<Rightarrow> pacer" where
  "pacer_Reset p = p\<lparr>msDiscardedOnReset := msDiscardedOnReset p + outstandingMs p, outstandingMs := 0\<rparr>"

definition frames_ms :: "rat \<Rightarrow> int \<Rightarrow> rat" where
  "frames_ms most framesAhead =
     (if of_int framesAhead > most then most else of_int framesAhead) * (1000 / 60)"

definition note_recommendation :: "int \<Rightarrow> pacer \<Rightarrow> pacer" where
  "note_recommendation n p = p\<lparr>framesRecommendedTotal := framesRecommendedTotal p + of_int n\<rparr>"

definition accept_ms :: "rat \<Rightarrow> pacer \<Rightarrow> pacer" where
  "accept_ms ms p = p\<lparr>msReplacedTotal := msReplacedTotal p + outstandingMs p, outstandingMs := ms,
     msAcceptedTotal := msAcceptedTotal p + ms, maxOutstandingMs := max (maxOutstandingMs p) ms\<rparr>"

definition OnRecommendation :: "int \<Rightarrow> pacer \<Rightarrow> pacer" where
  "OnRecommendation framesAhead p0 =
     (let p = p0\<lparr>recommendationsReceived := recommendationsReceived p0 + 1\<rparr>
      in if framesAhead \<le> 0 then p
         else let p1 = note_recommendation framesAhead p;
                  ms = frames_ms (maxRecommendationFrames p1) framesAhead
              in if \<not> p_enabled p1 then p1\<lparr>msDiscardedDisabled := msDiscardedDisabled p1 + ms\<rparr>
                 else accept_ms ms p1)"

definition NextWaitMs :: "pacer \<Rightarrow> rat" where
  "NextWaitMs p =
     (if \<not> p_enabled p \<or> outstandingMs p < minWaitMs p then 0
      else if outstandingMs p < maxStepMs p then outstandingMs p else maxStepMs p)"

definition OnWaitRequested :: "rat \<Rightarrow> pacer \<Rightarrow> pacer" where
  "OnWaitRequested requestedMs p =
     (if requestedMs \<le> 0 then p
      else p\<lparr>waitRequests := waitRequests p + 1, msRequestedTotal := msRequestedTotal p + requestedMs,
             maxRequestedWaitMs := max (maxRequestedWaitMs p) requestedMs\<rparr>)"

definition OnWaitFailure :: "bool \<Rightarrow> pacer \<Rightarrow> pacer" where
  "OnWaitFailure timeout p =
     (let p1 = p\<lparr>waitFailures := waitFailures p + 1\<rparr>
      in if timeout then p1\<lparr>waitTimeouts := waitTimeouts p1 + 1\<rparr> else p1)"

definition OnFallbackSleep :: "pacer \<Rightarrow> pacer" where
  "OnFallbackSleep p = p\<lparr>fallbackSleeps := fallbackSleeps p + 1\<rparr>"

definition OnWaited :: "rat \<Rightarrow> pacer \<Rightarrow> pacer" where
  "OnWaited actualMs p =
     (if actualMs \<le> 0 then p
      else p\<lparr>msAppliedTotal := msAppliedTotal p + actualMs,
             maxSingleWaitMs := max (maxSingleWaitMs p) actualMs,
             outstandingMs := (if outstandingMs p - actualMs < 0 then 0 else outstandingMs p - actualMs)\<rparr>)"

lemmas pacer_defs = ResetStats_def InitDefaults_def pacer_Reset_def OnRecommendation_def
  note_recommendation_def accept_ms_def OnWaitRequested_def OnWaitFailure_def OnFallbackSleep_def
  OnWaited_def

section \<open>Development overrides and the session reset\<close>

text \<open>A decimal prefix as atof reads it: white space, sign, digits, a fraction, an
  exponent. The spellings inf, nan and hexadecimal read as 0 here; the range
  checks below reject the first two as the code's do.\<close>

definition read_frac :: "string \<Rightarrow> rat" where
  "read_frac s = of_nat (read_dec s) / 10 ^ length s"

definition read_exp :: "string \<Rightarrow> int" where
  "read_exp s = (case s of
      e # c # cs \<Rightarrow>
        if e = CHR ''e'' \<or> e = CHR ''E'' then
          (if c = CHR ''-'' then - int (read_digits cs)
           else if c = CHR ''+'' then int (read_digits cs) else int (read_digits (c # cs)))
        else 0
    | _ \<Rightarrow> 0)"

definition scale10 :: "int \<Rightarrow> rat \<Rightarrow> rat" where
  "scale10 e m = (if 0 \<le> e then m * 10 ^ nat e else m / 10 ^ nat (- e))"

definition atof_mantissa :: "string \<Rightarrow> rat \<times> string" where
  "atof_mantissa s =
     (let ip = takeWhile is_digit s; rest = dropWhile is_digit s
      in case rest of
           c # cs \<Rightarrow>
             if c = CHR ''.'' then
               (of_nat (read_dec ip) + read_frac (takeWhile is_digit cs),
                if ip = [] \<and> takeWhile is_digit cs = [] then [] else dropWhile is_digit cs)
             else (of_nat (read_dec ip), if ip = [] then [] else rest)
         | [] \<Rightarrow> (of_nat (read_dec ip), []))"

definition atof_unsigned :: "string \<Rightarrow> rat" where
  "atof_unsigned s = (let (m, rest) = atof_mantissa s in scale10 (read_exp rest) m)"

definition atof :: "string \<Rightarrow> rat" where
  "atof s = (case dropWhile is_space s of
      [] \<Rightarrow> 0
    | c # cs \<Rightarrow> if c = CHR ''-'' then - atof_unsigned cs
                else if c = CHR ''+'' then atof_unsigned cs else atof_unsigned (c # cs))"

text \<open>An environment: the value getenv returns for a name, if it is set.\<close>

type_synonym environment = "string \<Rightarrow> string option"

definition env_override :: "string option \<Rightarrow> rat \<Rightarrow> rat \<Rightarrow> rat" where
  "env_override e most old =
     (case e of
        Some (c # cs) \<Rightarrow> (let v = atof (c # cs) in if 0 < v \<and> v \<le> most then v else old)
      | _ \<Rightarrow> old)"

definition env_disables :: "string option \<Rightarrow> bool" where
  "env_disables e = (case e of Some (c # cs) \<Rightarrow> c = CHR ''0'' | _ \<Rightarrow> False)"

definition ResetPacerForSession :: "environment \<Rightarrow> pacer \<Rightarrow> pacer" where
  "ResetPacerForSession env p =
     ResetStats (pacer_Reset (p\<lparr>
       p_enabled := \<not> env_disables (env ''SF4E_GGPO_DISTRIBUTED_TIMESYNC''),
       maxStepMs := env_override (env ''SF4E_PACING_MAX_STEP_MS'') 20 (maxStepMs p),
       maxRecommendationFrames :=
         env_override (env ''SF4E_PACING_MAX_FRAMES'') 30 (maxRecommendationFrames p)\<rparr>))"

text \<open>The static initialiser of fSystem::pacer.\<close>

definition pacer_static :: pacer where
  "pacer_static = \<lparr>maxRecommendationFrames = 9, maxStepMs = 3, minWaitMs = 1, p_enabled = True,
     outstandingMs = 0, recommendationsReceived = 0, framesRecommendedTotal = 0, msAcceptedTotal = 0,
     msAppliedTotal = 0, maxSingleWaitMs = 0, maxOutstandingMs = 0, msDiscardedOnReset = 0,
     msReplacedTotal = 0, msDiscardedDisabled = 0, waitRequests = 0, msRequestedTotal = 0,
     maxRequestedWaitMs = 0, waitFailures = 0, waitTimeouts = 0, fallbackSleeps = 0\<rparr>"

section \<open>The paced wait of the outer tick\<close>

datatype paced_result = PACED_WAIT_TIMER | PACED_WAIT_FALLBACK_SLEEP | PACED_WAIT_TIMEOUT | PACED_WAIT_FAILED

datatype timer = T_INVALID | T_NULL | T_HANDLE

text \<open>What the system answers: the two ways to create a timer, whether it can be
  set, and the wait result.\<close>

record timer_os =
  os_highres :: bool
  os_plain :: bool
  os_set :: bool
  os_wait :: int

definition create_timer :: "timer_os \<Rightarrow> timer \<Rightarrow> timer" where
  "create_timer os t =
     (if t \<noteq> T_INVALID then t else if os_highres os \<or> os_plain os then T_HANDLE else T_NULL)"

definition PacedWaitMs :: "timer_os \<Rightarrow> timer \<Rightarrow> timer \<times> paced_result" where
  "PacedWaitMs os t0 =
     (let t = create_timer os t0
      in (t, if t = T_HANDLE \<and> os_set os
             then (if os_wait os = 0 then PACED_WAIT_TIMER
                   else if os_wait os = 258 then PACED_WAIT_TIMEOUT else PACED_WAIT_FAILED)
             else PACED_WAIT_FALLBACK_SLEEP))"

definition note_wait_result :: "paced_result \<Rightarrow> pacer \<Rightarrow> pacer" where
  "note_wait_result r p =
     (case r of PACED_WAIT_FALLBACK_SLEEP \<Rightarrow> OnFallbackSleep p
      | PACED_WAIT_TIMEOUT \<Rightarrow> OnWaitFailure True p
      | PACED_WAIT_FAILED \<Rightarrow> OnWaitFailure False p
      | PACED_WAIT_TIMER \<Rightarrow> p)"

text \<open>One outer tick; the measured wait and its result come from the system.\<close>

definition PaceTick :: "bool \<Rightarrow> bool \<Rightarrow> bool \<Rightarrow> rat \<times> paced_result \<Rightarrow> pacer \<Rightarrow> pacer" where
  "PaceTick hasSession mayAdvance stalled w p =
     (if p_enabled p \<and> hasSession \<and> mayAdvance \<and> \<not> stalled
      then (let want = NextWaitMs p
            in if 0 < want
               then note_wait_result (snd w) (OnWaited (fst w) (OnWaitRequested want p))
               else p)
      else p)"

section \<open>The controller over a whole process\<close>

text \<open>Everything the host drives into the controller.\<close>

datatype pacer_op =
    Recommend int
  | Tick bool bool bool rat paced_result
  | LifecycleReset
  | NewSession "string option" "string option" "string option"

definition session_env :: "string option \<Rightarrow> string option \<Rightarrow> string option \<Rightarrow> environment" where
  "session_env en st fr = (\<lambda>v. if v = ''SF4E_GGPO_DISTRIBUTED_TIMESYNC'' then en
     else if v = ''SF4E_PACING_MAX_STEP_MS'' then st
     else if v = ''SF4E_PACING_MAX_FRAMES'' then fr else None)"

fun pacer_step :: "pacer_op \<Rightarrow> pacer \<Rightarrow> pacer" where
  "pacer_step (Recommend n) p = OnRecommendation n p"
| "pacer_step (Tick s a st w r) p = PaceTick s a st (w, r) p"
| "pacer_step LifecycleReset p = pacer_Reset p"
| "pacer_step (NewSession en st fr) p = ResetPacerForSession (session_env en st fr) p"

definition pacer_run :: "pacer_op list \<Rightarrow> pacer" where
  "pacer_run ops = fold pacer_step ops pacer_static"

text \<open>The well-formed states.\<close>

definition pacer_ok :: "pacer \<Rightarrow> bool" where
  "pacer_ok p \<longleftrightarrow> 0 < maxStepMs p \<and> maxStepMs p \<le> 20 \<and> minWaitMs p = 1 \<and>
     0 < maxRecommendationFrames p \<and> maxRecommendationFrames p \<le> 30 \<and>
     0 \<le> outstandingMs p \<and> outstandingMs p \<le> maxRecommendationFrames p * (1000 / 60) \<and>
     outstandingMs p \<le> 500 \<and> 0 \<le> maxOutstandingMs p \<and> maxOutstandingMs p \<le> 500"

text \<open>What became of the milliseconds the controller accepted.\<close>

definition ledger :: "pacer \<Rightarrow> rat" where
  "ledger p = outstandingMs p + msAppliedTotal p + msReplacedTotal p + msDiscardedOnReset p - msAcceptedTotal p"

lemma frames_ms_bounds:
  "0 < most \<Longrightarrow> 0 < n \<Longrightarrow> 0 \<le> frames_ms most n \<and> frames_ms most n \<le> most * (1000 / 60)"
  by (simp add: frames_ms_def)

lemma frames_ms_le: "0 < most \<Longrightarrow> most \<le> 30 \<Longrightarrow> 0 < n \<Longrightarrow> frames_ms most n \<le> 500"
  by (auto simp: frames_ms_def)

lemma env_override_range:
  "0 < old \<Longrightarrow> old \<le> most \<Longrightarrow> 0 < env_override e most old \<and> env_override e most old \<le> most"
  by (auto simp: env_override_def Let_def split: option.split list.split)

lemma pacer_ok_Reset [inv_intros]: "pacer_ok p \<Longrightarrow> pacer_ok (pacer_Reset p)"
  by (simp add: pacer_ok_def pacer_Reset_def)

lemma pacer_ok_recommend [inv_intros]: "pacer_ok p \<Longrightarrow> pacer_ok (OnRecommendation n p)"
  using frames_ms_bounds [of "maxRecommendationFrames p" n] frames_ms_le [of "maxRecommendationFrames p" n]
  by (auto simp: pacer_ok_def OnRecommendation_def note_recommendation_def accept_ms_def Let_def)

lemma pacer_ok_note [simp]: "pacer_ok (note_wait_result r p) = pacer_ok p"
  by (cases r) (simp_all add: note_wait_result_def OnFallbackSleep_def OnWaitFailure_def pacer_ok_def Let_def)

lemma pacer_ok_requested [simp]: "pacer_ok (OnWaitRequested m p) = pacer_ok p"
  by (simp add: OnWaitRequested_def pacer_ok_def)

lemma pacer_ok_waited [inv_intros]: "pacer_ok p \<Longrightarrow> pacer_ok (OnWaited m p)"
  by (auto simp: OnWaited_def pacer_ok_def)

lemma pacer_ok_tick [inv_intros]: "pacer_ok p \<Longrightarrow> pacer_ok (PaceTick s a st w p)"
  by (simp add: PaceTick_def Let_def pacer_ok_waited)

lemma pacer_ok_session [inv_intros]: "pacer_ok p \<Longrightarrow> pacer_ok (ResetPacerForSession env p)"
  using env_override_range [of "maxStepMs p" 20] env_override_range [of "maxRecommendationFrames p" 30]
  by (simp add: pacer_ok_def ResetPacerForSession_def ResetStats_def pacer_Reset_def less_imp_le)

lemma pacer_ok_step: "pacer_ok p \<Longrightarrow> pacer_ok (pacer_step op p)"
  by (cases op) (auto intro: inv_intros)

lemma pacer_ok_fold: "pacer_ok p \<Longrightarrow> pacer_ok (fold pacer_step ops p)"
  by (induction ops arbitrary: p) (auto intro: pacer_ok_step)

lemma pacer_ok_static: "pacer_ok pacer_static"
  by (simp add: pacer_ok_def pacer_static_def)

lemma pacer_ok_run: "pacer_ok (pacer_run ops)"
  by (simp add: pacer_run_def pacer_ok_fold pacer_ok_static)

lemma NextWaitMs_range: "pacer_ok p \<Longrightarrow> 0 \<le> NextWaitMs p \<and> NextWaitMs p \<le> maxStepMs p \<and> NextWaitMs p \<le> outstandingMs p"
  by (auto simp: NextWaitMs_def pacer_ok_def)

text \<open>
  However recommendations, ticks, resets and new sessions with any
  environment are interleaved, the pacing debt stays between 0 and the
  clamped recommendation (at most 500 ms), and the wait asked of one outer tick
  is at most the step cap, itself at most 20 ms, and never more than the debt.
\<close>

theorem pacing_bounded:
  "0 \<le> outstandingMs (pacer_run ops) \<and>
   outstandingMs (pacer_run ops) \<le> maxRecommendationFrames (pacer_run ops) * (1000 / 60) \<and>
   maxOutstandingMs (pacer_run ops) \<le> 500 \<and>
   0 \<le> NextWaitMs (pacer_run ops) \<and> NextWaitMs (pacer_run ops) \<le> outstandingMs (pacer_run ops) \<and>
   NextWaitMs (pacer_run ops) \<le> maxStepMs (pacer_run ops) \<and> maxStepMs (pacer_run ops) \<le> 20"
  using pacer_ok_run [of ops] NextWaitMs_range [OF pacer_ok_run [of ops]]
  by (simp add: pacer_ok_def)

section \<open>Accounting\<close>

lemma ledger_note [simp]: "ledger (note_wait_result r p) = ledger p"
  by (cases r) (simp_all add: note_wait_result_def OnFallbackSleep_def OnWaitFailure_def ledger_def Let_def)

lemma ledger_requested [simp]: "ledger (OnWaitRequested m p) = ledger p"
  by (simp add: OnWaitRequested_def ledger_def)

lemma ledger_waited: "0 \<le> outstandingMs p \<Longrightarrow>
   ledger (OnWaited m p) = ledger p + (if outstandingMs p < m then m - outstandingMs p else 0)"
  by (simp add: OnWaited_def ledger_def)

lemma ledger_recommend [simp]: "ledger (OnRecommendation n p) = ledger p"
  by (simp add: OnRecommendation_def note_recommendation_def accept_ms_def ledger_def Let_def)

lemma ledger_reset [simp]: "ledger (pacer_Reset p) = ledger p"
  by (simp add: pacer_Reset_def ledger_def)

lemma ledger_session [simp]: "ledger (ResetPacerForSession env p) = 0"
  by (simp add: ResetPacerForSession_def ResetStats_def pacer_Reset_def ledger_def)

lemma outstanding_requested [simp]: "outstandingMs (OnWaitRequested m p) = outstandingMs p"
  by (simp add: OnWaitRequested_def)

lemma ledger_tick: "pacer_ok p \<Longrightarrow> ledger p \<le> ledger (PaceTick s a st w p)"
  by (simp add: PaceTick_def Let_def ledger_waited pacer_ok_def)

lemma ledger_step: "pacer_ok p \<Longrightarrow> 0 \<le> ledger p \<Longrightarrow> 0 \<le> ledger (pacer_step op p)"
  using ledger_tick [of p] by (cases op) (auto intro: order_trans)

lemma ledger_fold: "pacer_ok p \<Longrightarrow> 0 \<le> ledger p \<Longrightarrow> 0 \<le> ledger (fold pacer_step ops p)"
  by (induction ops arbitrary: p) (auto intro: ledger_step pacer_ok_step)

text \<open>
  No accepted correction is lost: at every point of a process the accepted
  milliseconds are covered by what is still owed, was actually waited, was
  replaced by a fresh estimate, or was discarded by a reset.
\<close>

theorem pacing_accounts:
  "msAcceptedTotal (pacer_run ops) \<le> outstandingMs (pacer_run ops) + msAppliedTotal (pacer_run ops) +
     msReplacedTotal (pacer_run ops) + msDiscardedOnReset (pacer_run ops)"
  using ledger_fold [OF pacer_ok_static, of ops]
  by (simp add: pacer_run_def ledger_def pacer_static_def)

section \<open>Repayment\<close>

text \<open>Ticks whose measured wait is at least what was requested.\<close>

fun repay :: "(rat \<times> paced_result) list \<Rightarrow> pacer \<Rightarrow> pacer" where
  "repay [] p = p"
| "repay (w # ws) p = repay ws (PaceTick True True False w p)"

fun honest_waits :: "(rat \<times> paced_result) list \<Rightarrow> pacer \<Rightarrow> bool" where
  "honest_waits [] p = True"
| "honest_waits (w # ws) p = (NextWaitMs p \<le> fst w \<and> honest_waits ws (PaceTick True True False w p))"

lemma tick_config [simp]:
  "maxStepMs (PaceTick s a st w p) = maxStepMs p" "minWaitMs (PaceTick s a st w p) = minWaitMs p"
  "p_enabled (PaceTick s a st w p) = p_enabled p"
  by (cases "snd w"; simp add: PaceTick_def note_wait_result_def OnFallbackSleep_def OnWaitFailure_def
      OnWaited_def OnWaitRequested_def Let_def)+

lemma outstanding_note [simp]: "outstandingMs (note_wait_result r p) = outstandingMs p"
  by (cases r) (simp_all add: note_wait_result_def OnFallbackSleep_def OnWaitFailure_def Let_def)

lemma tick_outstanding:
  assumes "pacer_ok p" "0 < NextWaitMs p" "NextWaitMs p \<le> fst w" "p_enabled p"
  shows "outstandingMs (PaceTick True True False w p) \<le> max 0 (outstandingMs p - maxStepMs p)"
  using assms by (auto simp: PaceTick_def OnWaited_def NextWaitMs_def Let_def pacer_ok_def split: if_splits)

lemma tick_idle: "NextWaitMs p = 0 \<Longrightarrow> PaceTick True True False w p = p"
  by (simp add: PaceTick_def Let_def)

lemma NextWaitMs_0: "outstandingMs p \<le> 0 \<Longrightarrow> minWaitMs p = 1 \<Longrightarrow> NextWaitMs p = 0"
  by (simp add: NextWaitMs_def)

lemma repay_idle: "NextWaitMs p = 0 \<Longrightarrow> repay ws p = p"
  by (induction ws) (simp_all add: tick_idle)

lemma repay_bound:
  "pacer_ok p \<Longrightarrow> p_enabled p \<Longrightarrow> honest_waits ws p \<Longrightarrow>
   outstandingMs p \<le> of_nat (length ws) * maxStepMs p \<Longrightarrow> NextWaitMs (repay ws p) = 0"
proof (induction ws arbitrary: p)
  case Nil
  then show ?case by (simp add: NextWaitMs_0 pacer_ok_def)
next
  case (Cons w ws)
  show ?case
  proof (cases "NextWaitMs p = 0")
    case True
    then show ?thesis by (simp only: repay_idle)
  next
    case False
    let ?q = "PaceTick True True False w p"
    have pos: "0 < NextWaitMs p" using NextWaitMs_range [OF Cons.prems(1)] False by simp
    have "outstandingMs ?q \<le> max 0 (outstandingMs p - maxStepMs p)"
      using tick_outstanding [OF Cons.prems(1) pos] Cons.prems(2,3) by simp
    also have "\<dots> \<le> of_nat (length ws) * maxStepMs p"
      using Cons.prems(1,4) by (simp add: algebra_simps pacer_ok_def)
    finally have "NextWaitMs (repay ws ?q) = 0"
      using Cons.prems by (intro Cons.IH) (auto intro: inv_intros)
    then show ?thesis by simp
  qed
qed

text \<open>
  C23: The debt is repaid in a bounded number of outer ticks: whatever debt a
  process has built up, once the debt divided by the step cap many ticks have
  each waited at least as long as they were asked to, no further wait is
  requested.
\<close>

theorem debt_is_repaid:
  assumes "p_enabled (pacer_run ops)" and "honest_waits ws (pacer_run ops)"
    and "outstandingMs (pacer_run ops) \<le> of_nat (length ws) * maxStepMs (pacer_run ops)"
  shows "NextWaitMs (repay ws (pacer_run ops)) = 0"
  by (rule repay_bound [OF pacer_ok_run assms])

theorem debt_is_repaid_witness:
  "NextWaitMs (repay (replicate 17 (3, PACED_WAIT_TIMER)) (pacer_run [Recommend 3])) = 0 \<and>
   NextWaitMs (pacer_run [Recommend 3]) = 3"
proof -
  have run: "pacer_run [Recommend 3] = OnRecommendation 3 pacer_static" by (simp add: pacer_run_def)
  note d = pacer_defs pacer_static_def frames_ms_def NextWaitMs_def PaceTick_def note_wait_result_def
    eval_nat_numeral
  have "NextWaitMs (repay (replicate 17 (3, PACED_WAIT_TIMER)) (pacer_run [Recommend 3])) = 0"
    by (rule debt_is_repaid) (simp_all add: run d)
  then show ?thesis by (simp add: run d)
qed

end
