(* ===== verification/App_State.thy ===== *)
theory App_State
  imports Gate Pacing Tunnel Netplay_Config
begin

text \<open>
  The sidecar's process state as one record: the statics of the battle system
  (sf4e__Game__Battle__System.cxx), of the netplay facade
  (sf4e__NetplayFacade.cxx), of the user application (sf4e__UserApp.cxx), of the
  VsBattle event (sf4e__GameEvents.cxx) and of the pad system (sf4e__Pad.cxx),
  with the helpers the three share. What an operation does outside the process
  state (engine updates, GGPO calls, save slots, the tunnel, alerts) is appended
  to a list of actions, in order. The tick counter is an argument of the
  operations that read it.
\<close>

section \<open>Players, pads, transport status\<close>

type_synonym pad = "32 word \<times> 32 word"

definition GGPO_INVALID_HANDLE :: int where "GGPO_INVALID_HANDLE = -1"

datatype player_type = PT_LOCAL | PT_REMOTE | PT_SPECTATOR

record player_info =
  pi_type :: player_type
  pi_handle :: int

datatype sync_phase = SP_None | SP_Starting | SP_Connected | SP_Synchronizing | SP_Running

record transport_status =
  ts_effectiveMode :: "8 word"
  ts_legacyTunnel :: bool
  ts_remoteHost :: string
  ts_remotePort :: "16 word"

definition no_transport_status :: transport_status where
  "no_transport_status = \<lparr>ts_effectiveMode = 0, ts_legacyTunnel = False, ts_remoteHost = [], ts_remotePort = 0\<rparr>"

record netplay =
  np_client :: client
  np_deviceType :: "8 word"
  np_deviceIdx :: "8 word"
  np_delay :: "8 word"

definition NETPLAY_SESSION_HOST_LEN :: nat where "NETPLAY_SESSION_HOST_LEN = 64"

section \<open>Actions\<close>

text \<open>The alerts, by what they say.\<close>

datatype alert =
    Al_InputFailed | Al_SyncFailed | Al_CannotStart | Al_CannotAddPlayers | Al_BufferFull
  | Al_Unstable | Al_Restored | Al_OpponentLeft | Al_SyncTimeout | Al_RoomLost | Al_ReturnedToMenu
  | Al_ServerFailed | Al_Graphics | Al_WaitOpponentMenu | Al_WaitOpponentLobby | Al_RelayUnavailable
  | Al_RelayRequired | Al_TunnelFailed | Al_NoEndpoint | Al_NoHost | Al_GgpoSyncFailed | Al_UsingTunnel
  | Al_Text string

datatype action =
    Act_EngineUpdate "pad duo"
  | Act_SyncSounds
  | Act_GgpoClose
  | Act_GgpoStart nat "16 word"
  | Act_GgpoSpectate string "16 word"
  | Act_GgpoTimeouts "16 word" "16 word"
  | Act_SaveSlot nat int
  | Act_LoadSlot nat
  | Act_FreeSlot nat
  | Act_TunnelReset
  | Act_EngineCloseBattle
  | Act_Alert alert
  | Act_Disconnect
  | Act_ServerClose
  | Act_StartSession string
  | Act_StartServer "16 word"
  | Act_SendSettings lobby_settings
  | Act_SendLoaded
  | Act_SendResetRematch
  | Act_ServerResetRematch
  | Act_StartMatch bool int fixed_point
  | Act_PreBattle "chara_conditions duo" int
  | Act_ReplaceNextEvent
  | Act_SessionSend
  | Act_SessionClose
  | Act_ClientError error_type
  | Act_Loopback loopback
  | Act_BattleAssigned nat
  | Act_GgpoIdle
  | Act_AddInput int pad
  | Act_FrameDelay int "8 word"
  | Act_GgpoPlayers "(player_type \<times> string \<times> 16 word) list"
  | Act_TunnelStart
  | Act_EnginePostUpdate
  | Act_TerminateEvent
  | Act_SetFlow int
  | Act_SetOnline
  | Act_SetSeed "32 word"
  | Act_Wait rat

section \<open>The process\<close>

record app =
  gt :: gate
  upd :: bool
  haltAfterNext :: bool
  interrupted :: bool
  ggpo :: bool
  localHandle :: int
  plys :: "player_info list"
  pc :: pacer
  sim :: sim_state
  haveSystem :: bool
  ag :: game
  playbackFrame :: int
  playbackData :: "pad duo list"
  pads :: "pad duo"
  extraFrames :: int
  nextFlow :: int
  slotUsed :: "bool list"
  lastSaveFrame :: int
  pureSounds :: bool
  randEvery :: int
  lastRandFrame :: int
  randInputs :: pad
  lastFlags :: int
  vsTerminate :: bool
  vsOverrideSeed :: bool
  vsSeed :: "32 word"
  vsForceOnline :: bool
  vsBlockInit :: bool
  vsBlockTerm :: bool
  vsSynced :: bool
  vsSentLoaded :: bool
  skipToVersus :: bool
  preHook :: bool
  battleHook :: bool
  cfg :: netplay_config
  brokerHost :: string
  brokerPort :: "16 word"
  transport :: transport_status
  syncPhase :: sync_phase
  battleStartTick :: "32 word"
  fallbackTried :: bool
  autoPending :: bool
  graphicsWarned :: bool
  deferClose :: bool
  deferredPending :: bool
  deferUntil :: "32 word"
  dwellTicks :: int
  framesSinceReady :: int
  gameReady :: bool
  padCaptured :: bool
  configLogged :: bool
  sentSettings :: bool
  controlLost :: bool
  lostAtFrame :: int
  net :: "netplay option"
  srv :: bool
  pendingStart :: bool
  tun :: tunnel
  acts :: "action list"

text \<open>GgpoRelay::IsActive.\<close>

definition tunnelOn :: "app \<Rightarrow> bool" where
  "tunnelOn s = tn_active (tun s)"

definition act :: "action \<Rightarrow> app \<Rightarrow> app" where
  "act a s = s\<lparr>acts := acts s @ [a]\<rparr>"

definition PLAYBACK_MAX :: nat where "PLAYBACK_MAX = 60"

text \<open>The statics as the sidecar is loaded. The hooks the developer overlay drives are
  in \<open>extraFrames\<close>, \<open>haltAfterNext\<close> and \<open>randEvery\<close>.\<close>

definition app_static :: "sim_state \<Rightarrow> app" where
  "app_static m =
     \<lparr>gt = gate_reset, upd = True, haltAfterNext = False, interrupted = False, ggpo = False,
      localHandle = GGPO_INVALID_HANDLE,
      plys = replicate MAX_SF4E_PROTOCOL_USERS \<lparr>pi_type = PT_LOCAL, pi_handle = 0\<rparr>,
      pc = pacer_static, sim = m, haveSystem = False,
      ag = \<lparr>g_snaps = [], g_ring = ClearHashCheckpoints, g_frame = sim_frame m, g_leaving = False\<rparr>,
      playbackFrame = -1, playbackData = replicate PLAYBACK_MAX ((0, 0), (0, 0)), pads = ((0, 0), (0, 0)),
      extraFrames = 0, nextFlow = -1, slotUsed = replicate 10 False, lastSaveFrame = -1, pureSounds = True,
      randEvery = 0, lastRandFrame = -1, randInputs = (0, 0), lastFlags = 0,
      vsTerminate = False, vsOverrideSeed = False, vsSeed = 0xffffffff, vsForceOnline = False,
      vsBlockInit = False, vsBlockTerm = False, vsSynced = False, vsSentLoaded = False,
      skipToVersus = False, preHook = False, battleHook = False,
      cfg = zero_config, brokerHost = [], brokerPort = 0, transport = no_transport_status, syncPhase = SP_None,
      battleStartTick = 0, fallbackTried = False, autoPending = False, graphicsWarned = False,
      deferClose = False, deferredPending = False, deferUntil = 0, dwellTicks = 0, framesSinceReady = 0,
      gameReady = False, padCaptured = False, configLogged = False, sentSettings = False,
      controlLost = False, lostAtFrame = -1, net = None, srv = False, pendingStart = False,
      tun = tunnel_init, acts = []\<rparr>"

text \<open>The battle flow register is the first of the flow words of the simulation.\<close>

definition BF_IDLE :: "32 word" where "BF_IDLE = 16"
definition BF_MATCH_START :: int where "BF_MATCH_START = 12"

definition battle_flow :: "app \<Rightarrow> 32 word" where
  "battle_flow s = hd (flowWords (sim s))"

definition set_leaving :: "app \<Rightarrow> app" where
  "set_leaving s = (if haveSystem s then s\<lparr>ag := (ag s)\<lparr>g_leaving := True\<rparr>\<rparr> else s)"

section \<open>Facade helpers the battle system calls\<close>

definition PushAlert :: "alert \<Rightarrow> app \<Rightarrow> app" where
  "PushAlert msg s = act (Act_Alert msg) s"

definition app_client :: "app \<Rightarrow> client option" where
  "app_client s = map_option np_client (net s)"

definition upd_client :: "(client \<Rightarrow> client) \<Rightarrow> app \<Rightarrow> app" where
  "upd_client f s = s\<lparr>net := map_option (\<lambda>n. n\<lparr>np_client := f (np_client n)\<rparr>) (net s)\<rparr>"

definition ClearBattleState :: "app \<Rightarrow> app" where
  "ClearBattleState s =
     upd_client (\<lambda>c. c\<lparr>c_pendingSnaps := [], c_pendingHashes := []\<rparr>)
       (s\<lparr>ag := (ag s)\<lparr>g_snaps := [], g_ring := ClearHashCheckpoints\<rparr>\<rparr>)"

definition CancelDeferredGgpoClose :: "app \<Rightarrow> app" where
  "CancelDeferredGgpoClose s = s\<lparr>deferClose := False, deferredPending := False, deferUntil := 0\<rparr>"

definition ShouldDeferGgpoClose :: "32 word \<Rightarrow> app \<Rightarrow> bool \<times> app" where
  "ShouldDeferGgpoClose now s =
     (if \<not> deferClose s then (False, s)
      else if now < deferUntil s then (True, s)
      else (False, s\<lparr>deferClose := False\<rparr>))"

definition no_defer :: "app \<Rightarrow> app" where
  "no_defer s = s\<lparr>deferClose := False, deferredPending := False\<rparr>"

definition spectator_count :: "client \<Rightarrow> nat" where
  "spectator_count c = length (members (c_lobby c)) - 2"

definition NotifyMatchEnded :: "32 word \<Rightarrow> app \<Rightarrow> app" where
  "NotifyMatchEnded now s0 =
     (let s = ClearBattleState s0
      in if controlLost s then no_defer s
         else (case app_client s of
                 None \<Rightarrow> no_defer s
               | Some c \<Rightarrow>
                   if 0 < spectator_count c
                   then s\<lparr>deferClose := True, deferredPending := True, deferUntil := now + 120000\<rparr>
                   else no_defer s))"

definition NotifyGgpoSyncPhase :: "sync_phase \<Rightarrow> app \<Rightarrow> app" where
  "NotifyGgpoSyncPhase p s = s\<lparr>syncPhase := p\<rparr>"

definition TunnelReset :: "app \<Rightarrow> app" where
  "TunnelReset s = act Act_TunnelReset (s\<lparr>tun := tunnel_Reset (tun s)\<rparr>)"

section \<open>The gate of the deterministic frame\<close>

definition MayAdvanceDeterministicFrame :: "app \<Rightarrow> bool" where
  "MayAdvanceDeterministicFrame s =
     (if \<not> ggpo s then upd s else upd s \<and> CanAdvanceDeterministicFrame (gt s))"

section \<open>Pads\<close>

text \<open>A side's mapped and raw buttons: the playback data while a playback frame is set.\<close>

definition read_pads :: "app \<Rightarrow> pad duo" where
  "read_pads s = (if -1 < playbackFrame s then playbackData s ! nat (playbackFrame s) else pads s)"

definition GetButtons_MappedOn :: "nat \<Rightarrow> app \<Rightarrow> 32 word" where
  "GetButtons_MappedOn i s = fst (duo_get (read_pads s) i)"

definition GetButtons_RawOn :: "nat \<Rightarrow> app \<Rightarrow> 32 word" where
  "GetButtons_RawOn i s = snd (duo_get (read_pads s) i)"

end
