(* ===== verification/Mementos.thy ===== *)
theory Mementos
  imports Prelude
begin

text \<open>
  Memento keys and the key part of a save state (sf4e__Game.cxx,
  GameMementoKey; sf4e__Game__Battle__System.cxx, RecordAllToInternalMementos,
  RestoreAllFromInternalMementos and the key handling of SaveState). Key
  structures sit at addresses of the game's memory and own an allocated block
  each; the game engine's own record, restore and clear methods are the
  parameter \<open>engine\<close>, and what the code relies on of them is \<open>engine_laws\<close>.
\<close>

section \<open>Keys and memory\<close>

type_synonym memento_id = "32 word \<times> 32 word"

definition GGPO_MEMENTO_ID :: memento_id where "GGPO_MEMENTO_ID = (1, 1)"

record rkey =
  k_obj :: nat
  k_meta :: nat
  k_num :: int
  k_mem :: nat
  k_size :: int
  k_next :: int

definition zero_key :: rkey where
  "zero_key = \<lparr>k_obj = 0, k_meta = 0, k_num = 0, k_mem = 0, k_size = 0, k_next = 0\<rparr>"

text \<open>\<open>keys\<close>: the key structure at each address. \<open>tracked\<close>: the set trackedKeys in
  address order. \<open>blocks\<close>: the allocated memento memory, by address, with what
  each memento in it captured. \<open>live\<close>: the simulation state of the object whose
  internal key is at that address. \<open>alloc\<close>: the allocator's own state.\<close>

record ('c, 'a) mem =
  keys :: "nat \<Rightarrow> rkey"
  tracked :: "nat list"
  blocks :: "nat \<Rightarrow> (memento_id \<Rightarrow> 'c option) option"
  live :: "nat \<Rightarrow> 'c"
  alloc :: 'a

datatype munit = U_SYSTEM | U_CHARA | U_EFFECT | U_VFX | U_COMMAND | U_HUD | U_CAMERA | U_TRAINING

record ('c, 'a) engine =
  unit_keys :: "munit \<Rightarrow> nat list"
  en_init :: "nat \<Rightarrow> nat \<Rightarrow> int \<Rightarrow> ('c, 'a) mem \<Rightarrow> ('c, 'a) mem"
  en_clear :: "nat \<Rightarrow> ('c, 'a) mem \<Rightarrow> ('c, 'a) mem"
  en_record :: "munit \<Rightarrow> memento_id \<Rightarrow> ('c, 'a) mem \<Rightarrow> ('c, 'a) mem"
  en_restore :: "munit \<Rightarrow> memento_id \<Rightarrow> ('c, 'a) mem \<Rightarrow> ('c, 'a) mem"
  en_resetLive :: "nat \<Rightarrow> (nat \<Rightarrow> 'c) \<Rightarrow> nat \<Rightarrow> 'c"
  en_ok :: "(nat \<Rightarrow> (memento_id \<Rightarrow> 'c option) option) \<Rightarrow> 'a \<Rightarrow> bool"

text \<open>The two detours that keep the tracked set.\<close>

definition key_Initialize :: "('c, 'a) engine \<Rightarrow> nat \<Rightarrow> nat \<Rightarrow> int \<Rightarrow> ('c, 'a) mem \<Rightarrow> ('c, 'a) mem" where
  "key_Initialize E a obj n m = (let m1 = en_init E a obj n m in
     m1\<lparr>tracked := (if a \<in> set (tracked m1) then tracked m1 else insort a (tracked m1))\<rparr>)"

definition key_ClearKey :: "('c, 'a) engine \<Rightarrow> nat \<Rightarrow> ('c, 'a) mem \<Rightarrow> ('c, 'a) mem" where
  "key_ClearKey E a m = (let m1 = en_clear E a m in m1\<lparr>tracked := filter (\<lambda>k. k \<noteq> a) (tracked m1)\<rparr>)"

section \<open>Recording and restoring every unit\<close>

definition munits :: "munit list" where
  "munits = [U_SYSTEM, U_CHARA, U_EFFECT, U_VFX, U_COMMAND, U_HUD, U_CAMERA, U_TRAINING]"

definition RecordAllToInternalMementos ::
    "('c, 'a) engine \<Rightarrow> memento_id \<Rightarrow> ('c, 'a) mem \<Rightarrow> ('c, 'a) mem" where
  "RecordAllToInternalMementos E i m = fold (\<lambda>u. en_record E u i) munits m"

definition ResetAfterMemento :: "('c, 'a) engine \<Rightarrow> nat \<Rightarrow> ('c, 'a) mem \<Rightarrow> ('c, 'a) mem" where
  "ResetAfterMemento E actor m = m\<lparr>live := en_resetLive E actor (live m)\<rparr>"

definition RestoreAllFromInternalMementos ::
    "('c, 'a) engine \<Rightarrow> memento_id \<Rightarrow> ('c, 'a) mem \<Rightarrow> ('c, 'a) mem" where
  "RestoreAllFromInternalMementos E i m =
     ResetAfterMemento E 1 (ResetAfterMemento E 0 (fold (\<lambda>u. en_restore E u i) munits m))"

section \<open>The key loops of SaveState\<close>

type_synonym saved_keys = "(nat \<times> rkey) list"

definition put_key :: "nat \<Rightarrow> rkey \<Rightarrow> ('c, 'a) mem \<Rightarrow> ('c, 'a) mem" where
  "put_key k r m = m\<lparr>keys := (keys m)(k := r)\<rparr>"

text \<open>Copy a key out and zero it in place (the loops of Save and of Load's backup).\<close>

definition take_key :: "nat \<Rightarrow> ('c, 'a) mem \<times> saved_keys \<Rightarrow> ('c, 'a) mem \<times> saved_keys" where
  "take_key k p = (put_key k zero_key (fst p), snd p @ [(k, keys (fst p) k)])"

definition take_keys :: "('c, 'a) mem \<Rightarrow> saved_keys \<Rightarrow> ('c, 'a) mem \<times> saved_keys" where
  "take_keys m dst = fold take_key (tracked m) (m, dst)"

definition install_keys :: "saved_keys \<Rightarrow> ('c, 'a) mem \<Rightarrow> ('c, 'a) mem" where
  "install_keys ks m = fold (\<lambda>(k, r). put_key k r) ks m"

definition zero_keys :: "saved_keys \<Rightarrow> ('c, 'a) mem \<Rightarrow> ('c, 'a) mem" where
  "zero_keys ks m = fold (\<lambda>(k, r) m. if k \<noteq> 0 then put_key k zero_key m else m) ks m"

definition clear_keys :: "('c, 'a) engine \<Rightarrow> saved_keys \<Rightarrow> ('c, 'a) mem \<Rightarrow> ('c, 'a) mem" where
  "clear_keys E ks m =
     fold (\<lambda>(k, r) m. if k \<noteq> 0 then put_key k zero_key (en_clear E k m) else m) ks m"

definition save_keys :: "('c, 'a) engine \<Rightarrow> ('c, 'a) mem \<Rightarrow> ('c, 'a) mem \<times> saved_keys" where
  "save_keys E m = take_keys (RecordAllToInternalMementos E GGPO_MEMENTO_ID m) []"

definition copy_keys_into_place :: "('c, 'a) engine \<Rightarrow> saved_keys \<Rightarrow> ('c, 'a) mem \<Rightarrow> ('c, 'a) mem" where
  "copy_keys_into_place E ks m = RestoreAllFromInternalMementos E GGPO_MEMENTO_ID (install_keys ks m)"

definition load_keys :: "('c, 'a) engine \<Rightarrow> saved_keys \<Rightarrow> ('c, 'a) mem \<Rightarrow> ('c, 'a) mem" where
  "load_keys E ks m =
     (let (m1, tmp) = take_keys m []; m2 = copy_keys_into_place E ks m1
      in install_keys tmp (zero_keys ks m2))"

definition free_keys :: "('c, 'a) engine \<Rightarrow> saved_keys \<Rightarrow> ('c, 'a) mem \<Rightarrow> ('c, 'a) mem" where
  "free_keys E victim m =
     (let (m1, tmp) = save_keys E m; m2 = copy_keys_into_place E victim m1
      in copy_keys_into_place E tmp (clear_keys E victim m2))"

section \<open>What the code relies on\<close>

definition all_keys :: "('c, 'a) engine \<Rightarrow> nat list" where
  "all_keys E = concat (map (unit_keys E) munits)"

definition holds :: "('c, 'a) mem \<Rightarrow> rkey \<Rightarrow> memento_id \<Rightarrow> 'c option" where
  "holds m r i = (case blocks m (k_mem r) of None \<Rightarrow> None | Some f \<Rightarrow> f i)"

definition owned :: "('c, 'a) mem \<Rightarrow> nat set \<Rightarrow> nat set" where
  "owned m U = (\<lambda>k. k_mem (keys m k)) ` U - {0}"

text \<open>The keys in place own distinct allocated blocks.\<close>

definition live_sep :: "('c, 'a) engine \<Rightarrow> ('c, 'a) mem \<Rightarrow> bool" where
  "live_sep E m \<longleftrightarrow> en_ok E (blocks m) (alloc m) \<and> blocks m 0 = None \<and>
     (\<forall>k. k_mem (keys m k) \<noteq> 0 \<longrightarrow> k \<in> set (all_keys E) \<and> blocks m (k_mem (keys m k)) \<noteq> None) \<and>
     (\<forall>k k'. k_mem (keys m k) \<noteq> 0 \<longrightarrow> k_mem (keys m k) = k_mem (keys m k') \<longrightarrow> k = k')"

text \<open>Recording the objects of the keys \<open>U\<close>: every key of \<open>U\<close> is initialised afresh
  (the old block freed, the key tracked) and owns a block that captures its live
  object; nothing else moves.\<close>

definition recorded :: "nat set \<Rightarrow> memento_id \<Rightarrow> ('c, 'a) mem \<Rightarrow> ('c, 'a) mem \<Rightarrow> bool" where
  "recorded U i m m' \<longleftrightarrow>
     live m' = live m \<and>
     (\<forall>k. k \<notin> U \<longrightarrow> keys m' k = keys m k) \<and>
     (\<forall>k\<in>U. k_mem (keys m' k) \<noteq> 0 \<and> holds m' (keys m' k) i = Some (live m k)) \<and>
     (\<forall>k\<in>U. blocks m (k_mem (keys m' k)) = None \<or> k_mem (keys m' k) \<in> owned m U) \<and>
     inj_on (\<lambda>k. k_mem (keys m' k)) U \<and>
     (\<forall>b. b \<notin> owned m U \<longrightarrow> blocks m b \<noteq> None \<longrightarrow> blocks m' b = blocks m b) \<and>
     (\<forall>b. blocks m' b \<noteq> None \<longrightarrow> blocks m b \<noteq> None \<and> b \<notin> owned m U \<or> b \<in> owned m' U) \<and>
     set (tracked m') = set (tracked m) \<union> U \<and> distinct (tracked m')"

text \<open>Restoring them: every object whose key holds a memento of that id takes its
  state; only the live state changes.\<close>

definition restored :: "nat set \<Rightarrow> memento_id \<Rightarrow> ('c, 'a) mem \<Rightarrow> ('c, 'a) mem \<Rightarrow> bool" where
  "restored U i m m' \<longleftrightarrow> keys m' = keys m \<and> tracked m' = tracked m \<and> blocks m' = blocks m \<and>
     alloc m' = alloc m \<and> (\<forall>k. k \<notin> U \<longrightarrow> live m' k = live m k) \<and>
     (\<forall>k\<in>U. \<forall>c. holds m (keys m k) i = Some c \<longrightarrow> live m' k = c)"

text \<open>Clearing one key in place frees its block.\<close>

definition cleared :: "nat \<Rightarrow> ('c, 'a) mem \<Rightarrow> ('c, 'a) mem \<Rightarrow> bool" where
  "cleared k m m' \<longleftrightarrow> live m' = live m \<and> tracked m' = tracked m \<and>
     (\<forall>k'. k' \<noteq> k \<longrightarrow> keys m' k' = keys m k') \<and>
     blocks m' = (blocks m)(k_mem (keys m k) := None)"

definition engine_laws :: "('c, 'a) engine \<Rightarrow> bool" where
  "engine_laws E \<longleftrightarrow> distinct (all_keys E) \<and> 0 \<notin> set (all_keys E) \<and>
     (\<forall>a L k. k \<notin> set (all_keys E) \<longrightarrow> en_resetLive E a L k = L k) \<and>
     (\<forall>u i m. live_sep E m \<longrightarrow> distinct (tracked m) \<longrightarrow>
        recorded (set (unit_keys E u)) i m (en_record E u i m) \<and>
        en_ok E (blocks (en_record E u i m)) (alloc (en_record E u i m))) \<and>
     (\<forall>u i m. restored (set (unit_keys E u)) i m (en_restore E u i m)) \<and>
     (\<forall>k m. en_ok E (blocks m) (alloc m) \<longrightarrow> blocks m (k_mem (keys m k)) \<noteq> None \<longrightarrow>
        cleared k m (en_clear E k m) \<and> en_ok E (blocks (en_clear E k m)) (alloc (en_clear E k m)))"

section \<open>Recording composes over the units\<close>

lemma holds_cong: "blocks m (k_mem r) = blocks m' (k_mem r) \<Longrightarrow> holds m r i = holds m' r i"
  by (simp add: holds_def)

lemma owned_in: "k \<in> U \<Longrightarrow> k_mem (keys m k) \<noteq> 0 \<Longrightarrow> k_mem (keys m k) \<in> owned m U"
  by (simp add: owned_def)

lemma recorded_new_allocated:
  "recorded U i m m' \<Longrightarrow> k \<in> U \<Longrightarrow> blocks m' (k_mem (keys m' k)) \<noteq> None"
  by (auto simp: recorded_def holds_def split: option.splits)

lemma recorded_parts:
  assumes "recorded U i m m'"
  shows recorded_kept: "b \<notin> owned m U \<Longrightarrow> blocks m b \<noteq> None \<Longrightarrow> blocks m' b = blocks m b"
    and recorded_fresh: "k \<in> U \<Longrightarrow> blocks m (k_mem (keys m' k)) \<noteq> None \<Longrightarrow> k_mem (keys m' k) \<in> owned m U"
    and recorded_keys: "k \<notin> U \<Longrightarrow> keys m' k = keys m k"
    and recorded_cover: "blocks m' b \<noteq> None \<Longrightarrow> b \<notin> owned m' U \<Longrightarrow> blocks m b \<noteq> None \<and> b \<notin> owned m U"
    and recorded_inj: "k \<in> U \<Longrightarrow> k' \<in> U \<Longrightarrow> k_mem (keys m' k) = k_mem (keys m' k') \<Longrightarrow> k = k'"
    and recorded_holds: "k \<in> U \<Longrightarrow> k_mem (keys m' k) \<noteq> 0 \<and> holds m' (keys m' k) i = Some (live m k)"
    and recorded_rest: "live m' = live m" "set (tracked m') = set (tracked m) \<union> U" "distinct (tracked m')"
proof -
  note r = assms [unfolded recorded_def]
  show "b \<notin> owned m U \<Longrightarrow> blocks m b \<noteq> None \<Longrightarrow> blocks m' b = blocks m b" using r by blast
  show "k \<in> U \<Longrightarrow> blocks m (k_mem (keys m' k)) \<noteq> None \<Longrightarrow> k_mem (keys m' k) \<in> owned m U" using r by auto
  show "k \<notin> U \<Longrightarrow> keys m' k = keys m k" using r by blast
  show "blocks m' b \<noteq> None \<Longrightarrow> b \<notin> owned m' U \<Longrightarrow> blocks m b \<noteq> None \<and> b \<notin> owned m U" using r by blast
  show "k \<in> U \<Longrightarrow> k' \<in> U \<Longrightarrow> k_mem (keys m' k) = k_mem (keys m' k') \<Longrightarrow> k = k'"
    using r unfolding inj_on_def by blast
  show "k \<in> U \<Longrightarrow> k_mem (keys m' k) \<noteq> 0 \<and> holds m' (keys m' k) i = Some (live m k)" using r by blast
  show "live m' = live m" "set (tracked m') = set (tracked m) \<union> U" "distinct (tracked m')" using r by blast+
qed

lemma owned_eq: "(\<And>k. k \<in> V \<Longrightarrow> keys m k = keys m' k) \<Longrightarrow> owned m V = owned m' V"
  unfolding owned_def by (metis (mono_tags, lifting) image_cong)

lemma owned_Un: "owned m (U \<union> V) = owned m U \<union> owned m V"
  by (auto simp: owned_def)

lemma live_sepD:
  assumes "live_sep E m" "k_mem (keys m k) \<noteq> 0"
  shows "k \<in> set (all_keys E)" "blocks m (k_mem (keys m k)) \<noteq> None"
    and "k_mem (keys m k) = k_mem (keys m k') \<Longrightarrow> k = k'"
  using assms by (auto simp: live_sep_def)

lemma owned_disjoint: "live_sep E m \<Longrightarrow> U \<inter> V = {} \<Longrightarrow> owned m U \<inter> owned m V = {}"
proof -
  assume s: "live_sep E m" and d: "U \<inter> V = {}"
  have False if "k \<in> U" "k' \<in> V" "k_mem (keys m k) = k_mem (keys m k')" "k_mem (keys m k) \<noteq> 0" for k k'
    using live_sepD(3) [OF s that(4,3)] that(1,2) d by blast
  then show ?thesis by (auto simp: owned_def)
qed

lemma owned_allocated: "live_sep E m \<Longrightarrow> b \<in> owned m U \<Longrightarrow> blocks m b \<noteq> None"
  using live_sepD(2) [of E m] by (auto simp: owned_def)

lemma owned_elem: "live_sep E m \<Longrightarrow> k_mem (keys m k) \<noteq> 0 \<Longrightarrow> k_mem (keys m k) \<in> owned m U \<longleftrightarrow> k \<in> U"
  using live_sepD(3) [of E m k] by (auto simp: owned_def)

lemma recorded_live_sep:
  assumes r: "recorded U i m m'" and s: "live_sep E m" and ok: "en_ok E (blocks m') (alloc m')"
    and U: "U \<subseteq> set (all_keys E)"
  shows "live_sep E m'"
proof -
  note other = recorded_keys [OF r]
  have kept: "blocks m' (k_mem (keys m k)) \<noteq> None" if "k \<notin> U" "k_mem (keys m k) \<noteq> 0" for k
    using recorded_kept [OF r] live_sepD(2) [OF s that(2)] owned_elem [OF s that(2)] that(1) by metis
  have new: "k_mem (keys m' k) \<noteq> k_mem (keys m k')" if "k \<in> U" "k' \<notin> U" "k_mem (keys m k') \<noteq> 0" for k k'
    using recorded_fresh [OF r that(1)] live_sepD(2) [OF s that(3)] owned_elem [OF s that(3)] that(2) by metis
  have "0 \<notin> owned m' U" by (simp add: owned_def)
  then have z: "blocks m' 0 = None" using recorded_cover [OF r, of 0] s by (cases "blocks m' 0") (auto simp: live_sep_def)
  have "k \<in> set (all_keys E) \<and> blocks m' (k_mem (keys m' k)) \<noteq> None" if "k_mem (keys m' k) \<noteq> 0" for k
  proof (cases "k \<in> U")
    case True
    then show ?thesis using recorded_new_allocated [OF r True] U by blast
  next
    case False
    then show ?thesis using that other [OF False] kept [OF False] live_sepD(1) [OF s, of k] by simp
  qed
  moreover have "k = k'" if "k_mem (keys m' k) \<noteq> 0" "k_mem (keys m' k) = k_mem (keys m' k')" for k k'
  proof (cases "k \<in> U"; cases "k' \<in> U")
    show "k \<in> U \<Longrightarrow> k' \<in> U \<Longrightarrow> k = k'" using recorded_inj [OF r] that(2) by blast
    show "k \<in> U \<Longrightarrow> k' \<notin> U \<Longrightarrow> k = k'" using new [of k k'] other [of k'] that by auto
    show "k \<notin> U \<Longrightarrow> k' \<in> U \<Longrightarrow> k = k'" using new [of k' k] other [of k] that by auto
    show "k \<notin> U \<Longrightarrow> k' \<notin> U \<Longrightarrow> k = k'" using live_sepD(3) [OF s, of k k'] other that by metis
  qed
  ultimately show ?thesis using ok z by (auto simp: live_sep_def)
qed

lemma recorded_compose:
  assumes r: "recorded U i m m1" and q: "recorded V i m1 m2" and s: "live_sep E m" and d: "U \<inter> V = {}"
  shows "recorded (U \<union> V) i m m2"
proof -
  have inU: "keys m2 k = keys m1 k" if "k \<in> U" for k using recorded_keys [OF q] that d by blast
  have "keys m1 k = keys m k" if "k \<in> V" for k using recorded_keys [OF r] that d by blast
  then have oV: "owned m1 V = owned m V" by (rule owned_eq)
  have oU: "owned m2 U = owned m1 U" by (rule owned_eq) (rule inU)
  have dis: "owned m U \<inter> owned m V = {}" by (rule owned_disjoint [OF s d])
  have notV: "k_mem (keys m1 k) \<notin> owned m V" if "k \<in> U" for k
    using recorded_fresh [OF r that] owned_allocated [OF s] dis by blast
  have keptU: "blocks m2 (k_mem (keys m1 k)) = blocks m1 (k_mem (keys m1 k))" if "k \<in> U" for k
    using recorded_kept [OF q _ recorded_new_allocated [OF r that]] notV [OF that] oV by simp
  have newV: "k_mem (keys m2 k) \<in> owned m (U \<union> V)"
    if k: "k \<in> V" "blocks m (k_mem (keys m2 k)) \<noteq> None" for k
  proof (rule ccontr)
    assume n: "\<not> ?thesis"
    then have "blocks m1 (k_mem (keys m2 k)) = blocks m (k_mem (keys m2 k))"
      using recorded_kept [OF r _ k(2)] by (simp add: owned_Un)
    then have "k_mem (keys m2 k) \<in> owned m1 V" using recorded_fresh [OF q k(1)] k(2) by simp
    then show False using n oV by (simp add: owned_Un)
  qed
  have newU: "k_mem (keys m2 k) \<in> owned m (U \<union> V)"
    if k: "k \<in> U" "blocks m (k_mem (keys m2 k)) \<noteq> None" for k
    using recorded_fresh [OF r k(1)] k inU [OF k(1)] by (simp add: owned_Un)
  have diff: "k_mem (keys m2 k) \<noteq> k_mem (keys m2 k')" if k: "k \<in> U" "k' \<in> V" for k k'
  proof
    assume e: "k_mem (keys m2 k) = k_mem (keys m2 k')"
    then have "blocks m1 (k_mem (keys m2 k')) \<noteq> None"
      using recorded_new_allocated [OF r k(1)] inU [OF k(1)] by simp
    then have "k_mem (keys m2 k') \<in> owned m V" using recorded_fresh [OF q k(2)] oV by simp
    then show False using notV [OF k(1)] e inU [OF k(1)] by simp
  qed
  have "k_mem (keys m2 k) \<noteq> 0 \<and> holds m2 (keys m2 k) i = Some (live m k)" if "k \<in> U \<union> V" for k
  proof (cases "k \<in> U")
    case True
    have "holds m2 (keys m1 k) i = holds m1 (keys m1 k) i" by (rule holds_cong [OF keptU [OF True]])
    then show ?thesis using recorded_holds [OF r True] inU [OF True] by simp
  next
    case False
    then show ?thesis using that recorded_holds [OF q, of k] recorded_rest(1) [OF r] by simp
  qed
  moreover have "blocks m (k_mem (keys m2 k)) = None \<or> k_mem (keys m2 k) \<in> owned m (U \<union> V)"
    if "k \<in> U \<union> V" for k
    using that newU newV by blast
  moreover have "inj_on (\<lambda>k. k_mem (keys m2 k)) (U \<union> V)"
  proof (rule inj_onI)
    fix k k' assume *: "k \<in> U \<union> V" "k' \<in> U \<union> V" "k_mem (keys m2 k) = k_mem (keys m2 k')"
    show "k = k'"
    proof (cases "k \<in> U")
      case True
      then have k': "k' \<in> U" using * diff by blast
      then show ?thesis using recorded_inj [OF r True k'] inU *(3) True by simp
    next
      case False
      then have "k \<in> V" "k' \<in> V" using * diff [of k' k] by auto
      then show ?thesis using recorded_inj [OF q] *(3) by blast
    qed
  qed
  moreover have "blocks m2 b = blocks m b" if "b \<notin> owned m (U \<union> V)" "blocks m b \<noteq> None" for b
  proof -
    have "blocks m1 b = blocks m b" using recorded_kept [OF r] that by (simp add: owned_Un)
    then show ?thesis using recorded_kept [OF q, of b] that oV by (simp add: owned_Un)
  qed
  moreover have "blocks m b \<noteq> None \<and> b \<notin> owned m (U \<union> V) \<or> b \<in> owned m2 (U \<union> V)" if b: "blocks m2 b \<noteq> None" for b
  proof (cases "b \<in> owned m2 (U \<union> V)")
    case False
    then have "b \<notin> owned m2 V" "b \<notin> owned m1 U" by (simp_all add: owned_Un oU)
    then show ?thesis using recorded_cover [OF q b] recorded_cover [OF r] oV by (simp add: owned_Un)
  qed simp
  moreover have "\<forall>k. k \<notin> U \<union> V \<longrightarrow> keys m2 k = keys m k"
    using recorded_keys [OF r] recorded_keys [OF q] by simp
  moreover have "live m2 = live m" "set (tracked m2) = set (tracked m) \<union> (U \<union> V)" "distinct (tracked m2)"
    using recorded_rest [OF r] recorded_rest [OF q] by auto
  ultimately show ?thesis unfolding recorded_def by blast
qed

section \<open>Recording and restoring everything\<close>

lemma engine_laws_record:
  assumes "engine_laws E" "live_sep E m" "distinct (tracked m)"
  shows "recorded (set (unit_keys E u)) i m (en_record E u i m)"
    and "en_ok E (blocks (en_record E u i m)) (alloc (en_record E u i m))"
  using assms unfolding engine_laws_def by blast+

lemma engine_laws_restore: "engine_laws E \<Longrightarrow> restored (set (unit_keys E u)) i m (en_restore E u i m)"
  unfolding engine_laws_def by blast

lemma engine_laws_clear:
  assumes "engine_laws E" "en_ok E (blocks m) (alloc m)" "blocks m (k_mem (keys m k)) \<noteq> None"
  shows "cleared k m (en_clear E k m)" "en_ok E (blocks (en_clear E k m)) (alloc (en_clear E k m))"
  using assms unfolding engine_laws_def by blast+

lemma engine_laws_keys: "engine_laws E \<Longrightarrow> distinct (all_keys E)" "engine_laws E \<Longrightarrow> 0 \<notin> set (all_keys E)"
  by (simp_all add: engine_laws_def)

lemma record_units:
  assumes L: "engine_laws E"
  shows "live_sep E m \<Longrightarrow> distinct (tracked m) \<Longrightarrow> distinct (concat (map (unit_keys E) us)) \<Longrightarrow>
    set (concat (map (unit_keys E) us)) \<subseteq> set (all_keys E) \<Longrightarrow>
    recorded (set (concat (map (unit_keys E) us))) i m (fold (\<lambda>u. en_record E u i) us m) \<and>
    live_sep E (fold (\<lambda>u. en_record E u i) us m)"
proof (induction us arbitrary: m)
  case Nil
  then show ?case by (simp add: recorded_def)
next
  case (Cons u us)
  let ?m1 = "en_record E u i m"
  let ?U = "set (unit_keys E u)" and ?V = "set (concat (map (unit_keys E) us))"
  note r = engine_laws_record [OF L Cons.prems(1,2), of u i]
  have sub: "?U \<subseteq> set (all_keys E)" "?V \<subseteq> set (all_keys E)" using Cons.prems(4) by auto
  have s1: "live_sep E ?m1" by (rule recorded_live_sep [OF r(1) Cons.prems(1) r(2) sub(1)])
  have d: "distinct (concat (map (unit_keys E) us))" "?U \<inter> ?V = {}" using Cons.prems(3) by auto
  have "recorded ?V i ?m1 (fold (\<lambda>u. en_record E u i) us ?m1) \<and>
      live_sep E (fold (\<lambda>u. en_record E u i) us ?m1)"
    by (rule Cons.IH [OF s1 recorded_rest(3) [OF r(1)] d(1) sub(2)])
  with recorded_compose [OF r(1) _ Cons.prems(1) d(2)] show ?case by simp
qed

lemma RecordAll_recorded:
  assumes "engine_laws E" "live_sep E m" "distinct (tracked m)"
  shows "recorded (set (all_keys E)) i m (RecordAllToInternalMementos E i m)"
    and "live_sep E (RecordAllToInternalMementos E i m)"
  using record_units [OF assms(1-3), of munits i] engine_laws_keys(1) [OF assms(1)]
  by (simp_all add: RecordAllToInternalMementos_def all_keys_def)

lemma restore_units:
  assumes L: "engine_laws E"
  shows "distinct (concat (map (unit_keys E) us)) \<Longrightarrow>
    restored (set (concat (map (unit_keys E) us))) i m (fold (\<lambda>u. en_restore E u i) us m)"
proof (induction us arbitrary: m)
  case Nil
  then show ?case by (simp add: restored_def)
next
  case (Cons u us)
  let ?m1 = "en_restore E u i m"
  have r: "restored (set (unit_keys E u)) i m ?m1" by (rule engine_laws_restore [OF L])
  have "restored (set (concat (map (unit_keys E) us))) i ?m1 (fold (\<lambda>u. en_restore E u i) us ?m1)"
    using Cons by simp
  moreover have "set (unit_keys E u) \<inter> set (concat (map (unit_keys E) us)) = {}"
    using Cons.prems by auto
  ultimately show ?case using r by (auto simp: restored_def holds_def disjoint_iff)
qed

text \<open>The two post-restore resets.\<close>

definition resets :: "('c, 'a) engine \<Rightarrow> (nat \<Rightarrow> 'c) \<Rightarrow> nat \<Rightarrow> 'c" where
  "resets E L = en_resetLive E 1 (en_resetLive E 0 L)"

lemma RestoreAll_frame:
  assumes "engine_laws E"
  shows "keys (RestoreAllFromInternalMementos E i m) = keys m"
    "tracked (RestoreAllFromInternalMementos E i m) = tracked m"
    "blocks (RestoreAllFromInternalMementos E i m) = blocks m"
    "alloc (RestoreAllFromInternalMementos E i m) = alloc m"
  using restore_units [OF assms, of munits i m] engine_laws_keys(1) [OF assms]
  by (simp_all add: RestoreAllFromInternalMementos_def ResetAfterMemento_def all_keys_def restored_def)

lemma RestoreAll_live:
  assumes L: "engine_laws E" and h: "\<And>k. k \<in> set (all_keys E) \<Longrightarrow> holds m (keys m k) i = Some (S k)"
  shows "live (RestoreAllFromInternalMementos E i m) =
     resets E (\<lambda>k. if k \<in> set (all_keys E) then S k else live m k)"
proof -
  have r: "restored (set (all_keys E)) i m (fold (\<lambda>u. en_restore E u i) munits m)"
    using restore_units [OF L, of munits i m] engine_laws_keys(1) [OF L] by (simp add: all_keys_def)
  have "live (fold (\<lambda>u. en_restore E u i) munits m) = (\<lambda>k. if k \<in> set (all_keys E) then S k else live m k)"
    using r h by (auto simp: restored_def)
  then show ?thesis by (simp add: RestoreAllFromInternalMementos_def ResetAfterMemento_def resets_def)
qed

lemma resets_other: "engine_laws E \<Longrightarrow> k \<notin> set (all_keys E) \<Longrightarrow> resets E L k = L k"
  by (simp add: engine_laws_def resets_def)

section \<open>The key loops\<close>

lemma put_key_simps [simp]:
  "keys (put_key k r m) = (keys m)(k := r)" "tracked (put_key k r m) = tracked m"
  "blocks (put_key k r m) = blocks m" "live (put_key k r m) = live m" "alloc (put_key k r m) = alloc m"
  by (simp_all add: put_key_def)

lemma take_keys_aux:
  "distinct ks \<Longrightarrow> fold take_key ks (m, dst) =
     (m\<lparr>keys := (\<lambda>k. if k \<in> set ks then zero_key else keys m k)\<rparr>, dst @ map (\<lambda>k. (k, keys m k)) ks)"
proof (induction ks arbitrary: m dst)
  case Nil
  then show ?case by simp
next
  case (Cons k ks)
  then have "map (\<lambda>j. (j, keys (put_key k zero_key m) j)) ks = map (\<lambda>j. (j, keys m j)) ks" by auto
  then show ?case using Cons
    by (auto simp: take_key_def put_key_def fun_eq_iff intro!: arg_cong [where f = "\<lambda>x. m\<lparr>keys := x\<rparr>"])
qed

lemma take_keys_eq:
  "distinct (tracked m) \<Longrightarrow> take_keys m dst =
     (m\<lparr>keys := (\<lambda>k. if k \<in> set (tracked m) then zero_key else keys m k)\<rparr>,
      dst @ map (\<lambda>k. (k, keys m k)) (tracked m))"
  by (simp add: take_keys_def take_keys_aux)

definition over :: "saved_keys \<Rightarrow> (nat \<Rightarrow> rkey) \<Rightarrow> nat \<Rightarrow> rkey" where
  "over ks f k = (case map_of ks k of None \<Rightarrow> f k | Some r \<Rightarrow> r)"

lemma install_keys_eq:
  "distinct (map fst ks) \<Longrightarrow> install_keys ks m = m\<lparr>keys := over ks (keys m)\<rparr>"
proof (induction ks arbitrary: m)
  case Nil
  then show ?case by (simp add: install_keys_def over_def)
next
  case (Cons p ks)
  obtain k r where p: "p = (k, r)" by (cases p)
  have "map_of ks k = None" using Cons.prems p by (force simp: map_of_eq_None_iff)
  then have "over ks ((keys m)(k := r)) = over (p # ks) (keys m)"
    by (auto simp: over_def p fun_eq_iff split: option.split)
  with Cons show ?case by (simp add: install_keys_def p put_key_def)
qed

lemma zero_keys_eq:
  "0 \<notin> fst ` set ks \<Longrightarrow>
   zero_keys ks m = m\<lparr>keys := (\<lambda>k. if k \<in> fst ` set ks then zero_key else keys m k)\<rparr>"
proof (induction ks arbitrary: m)
  case Nil
  then show ?case by (simp add: zero_keys_def)
next
  case (Cons p ks)
  obtain k r where p: "p = (k, r)" by (cases p)
  from Cons show ?case
    by (auto simp: zero_keys_def p put_key_def fun_eq_iff intro!: arg_cong [where f = "\<lambda>x. m\<lparr>keys := x\<rparr>"])
qed

lemma clear_keys_effect:
  assumes L: "engine_laws E"
  shows "en_ok E (blocks m) (alloc m) \<Longrightarrow> distinct (map fst ks) \<Longrightarrow> 0 \<notin> fst ` set ks \<Longrightarrow>
    distinct (map (k_mem \<circ> snd) ks) \<Longrightarrow> \<forall>(k, r)\<in>set ks. keys m k = r \<and> blocks m (k_mem r) \<noteq> None \<Longrightarrow>
    en_ok E (blocks (clear_keys E ks m)) (alloc (clear_keys E ks m)) \<and>
    live (clear_keys E ks m) = live m \<and> tracked (clear_keys E ks m) = tracked m \<and>
    keys (clear_keys E ks m) = (\<lambda>k. if k \<in> fst ` set ks then zero_key else keys m k) \<and>
    blocks (clear_keys E ks m) = (\<lambda>b. if b \<in> (k_mem \<circ> snd) ` set ks then None else blocks m b)"
proof (induction ks arbitrary: m)
  case Nil
  then show ?case by (simp add: clear_keys_def)
next
  case (Cons p ks)
  obtain k r where p: "p = (k, r)" by (cases p)
  have kr: "keys m k = r" "blocks m (k_mem r) \<noteq> None" "k \<noteq> 0" using Cons.prems p by auto
  have c: "cleared k m (en_clear E k m)" "en_ok E (blocks (en_clear E k m)) (alloc (en_clear E k m))"
    using engine_laws_clear [OF L Cons.prems(1), of k] kr by simp_all
  define m1 where "m1 = put_key k zero_key (en_clear E k m)"
  have m1: "blocks m1 = (blocks m)(k_mem r := None)" "live m1 = live m" "tracked m1 = tracked m"
      "keys m1 = (keys m)(k := zero_key)" "en_ok E (blocks m1) (alloc m1)"
    using c kr(1) by (auto simp: m1_def cleared_def fun_eq_iff)
  have rest: "\<forall>(k', r')\<in>set ks. k' \<noteq> k \<and> k_mem r' \<noteq> k_mem r"
    using Cons.prems(2,4) p by (force simp: image_iff)
  then have pre: "\<forall>(k', r')\<in>set ks. keys m1 k' = r' \<and> blocks m1 (k_mem r') \<noteq> None"
    using Cons.prems(5) by (auto simp: m1 p)
  have d: "distinct (map fst ks)" "0 \<notin> fst ` set ks" "distinct (map (k_mem \<circ> snd) ks)"
    using Cons.prems by (simp_all add: comp_def)
  have fold: "clear_keys E (p # ks) m = clear_keys E ks m1" using kr(3) by (simp add: clear_keys_def p m1_def)
  from Cons.IH [OF m1(5) d pre] show ?case
    unfolding fold by (auto simp: m1 p fun_eq_iff)
qed

section \<open>The heap invariant of the save states\<close>

text \<open>\<open>sv\<close>: the saved keys of every save state, temporary ones included. The
  blocks they own are allocated, distinct from each other and from the ones the
  keys in place own, and nothing else is allocated.\<close>

definition slots_sep :: "('c, 'a) engine \<Rightarrow> ('c, 'a) mem \<Rightarrow> (nat \<Rightarrow> saved_keys) \<Rightarrow> bool" where
  "slots_sep E m sv \<longleftrightarrow>
     (\<forall>i. distinct (map fst (sv i)) \<and> fst ` set (sv i) \<subseteq> set (all_keys E)) \<and>
     (\<forall>i k r. (k, r) \<in> set (sv i) \<longrightarrow> k_mem r \<noteq> 0 \<and> blocks m (k_mem r) \<noteq> None \<and>
        k_mem r \<notin> owned m (set (all_keys E))) \<and>
     (\<forall>i j k k' r r'. (k, r) \<in> set (sv i) \<longrightarrow> (k', r') \<in> set (sv j) \<longrightarrow> k_mem r = k_mem r' \<longrightarrow> i = j \<and> k = k')"

definition tight :: "('c, 'a) engine \<Rightarrow> ('c, 'a) mem \<Rightarrow> (nat \<Rightarrow> saved_keys) \<Rightarrow> bool" where
  "tight E m sv \<longleftrightarrow> (\<forall>b. blocks m b \<noteq> None \<longrightarrow>
     b \<in> owned m (set (all_keys E)) \<or> (\<exists>i k r. (k, r) \<in> set (sv i) \<and> b = k_mem r))"

definition heap_ok :: "('c, 'a) engine \<Rightarrow> ('c, 'a) mem \<Rightarrow> (nat \<Rightarrow> saved_keys) \<Rightarrow> bool" where
  "heap_ok E m sv \<longleftrightarrow> live_sep E m \<and> distinct (tracked m) \<and> set (tracked m) \<subseteq> set (all_keys E) \<and>
     (\<forall>k. k \<notin> set (tracked m) \<longrightarrow> keys m k = zero_key) \<and> slots_sep E m sv \<and> tight E m sv"

text \<open>A saved key list captures a live state: restoring from it brings that state back.\<close>

definition captures :: "('c, 'a) engine \<Rightarrow> ('c, 'a) mem \<Rightarrow> saved_keys \<Rightarrow> (nat \<Rightarrow> 'c) \<Rightarrow> bool" where
  "captures E m ks S \<longleftrightarrow> distinct (map fst ks) \<and>
     (\<forall>k\<in>set (all_keys E). \<exists>r. (k, r) \<in> set ks \<and> holds m r GGPO_MEMENTO_ID = Some (S k))"

lemma zero_key_mem [simp]: "k_mem zero_key = 0"
  by (simp add: zero_key_def)

lemma slots_sepD:
  assumes "slots_sep E m sv"
  shows "distinct (map fst (sv i))" "fst ` set (sv i) \<subseteq> set (all_keys E)"
    and "(k, r) \<in> set (sv i) \<Longrightarrow> k_mem r \<noteq> 0 \<and> blocks m (k_mem r) \<noteq> None \<and> k_mem r \<notin> owned m (set (all_keys E))"
    and "(k, r) \<in> set (sv i) \<Longrightarrow> (k', r') \<in> set (sv j) \<Longrightarrow> k_mem r = k_mem r' \<Longrightarrow> i = j \<and> k = k'"
proof -
  note a = assms [unfolded slots_sep_def]
  show "distinct (map fst (sv i))" "fst ` set (sv i) \<subseteq> set (all_keys E)" using a by blast+
  show "(k, r) \<in> set (sv i) \<Longrightarrow> k_mem r \<noteq> 0 \<and> blocks m (k_mem r) \<noteq> None \<and> k_mem r \<notin> owned m (set (all_keys E))"
    using a by blast
  show "(k, r) \<in> set (sv i) \<Longrightarrow> (k', r') \<in> set (sv j) \<Longrightarrow> k_mem r = k_mem r' \<Longrightarrow> i = j \<and> k = k'"
    using a by blast
qed

lemma slots_sep_drop: "slots_sep E m sv \<Longrightarrow> slots_sep E m (sv(i := []))"
  unfolding slots_sep_def by (auto split: if_splits)

lemma captures_kept:
  assumes "captures E m ks S" "\<And>k r. (k, r) \<in> set ks \<Longrightarrow> blocks m' (k_mem r) = blocks m (k_mem r)"
  shows "captures E m' ks S"
  using assms holds_cong unfolding captures_def by metis

subsection \<open>Save\<close>

lemma save_keys_effect:
  assumes L: "engine_laws E" and h: "heap_ok E m sv"
  defines "m1 \<equiv> RecordAllToInternalMementos E GGPO_MEMENTO_ID m"
  shows "save_keys E m = (m1\<lparr>keys := (\<lambda>_. zero_key)\<rparr>, map (\<lambda>k. (k, keys m1 k)) (tracked m1))"
    and "set (tracked m1) = set (all_keys E)" "distinct (tracked m1)"
    and "recorded (set (all_keys E)) GGPO_MEMENTO_ID m m1" "live_sep E m1"
proof -
  have s: "live_sep E m" "distinct (tracked m)" "set (tracked m) \<subseteq> set (all_keys E)"
    using h by (auto simp: heap_ok_def)
  note r = RecordAll_recorded [OF L s(1,2), of GGPO_MEMENTO_ID, folded m1_def]
  show "recorded (set (all_keys E)) GGPO_MEMENTO_ID m m1" "live_sep E m1" by (rule r)+
  show t: "set (tracked m1) = set (all_keys E)" "distinct (tracked m1)"
    using recorded_rest(2,3) [OF r(1)] s(3) by auto
  have "keys m1 k = zero_key" if "k \<notin> set (tracked m1)" for k
    using that t(1) s(3) h recorded_keys [OF r(1), of k] by (auto simp: heap_ok_def)
  then have "(\<lambda>k. if k \<in> set (tracked m1) then zero_key else keys m1 k) = (\<lambda>_. zero_key)" by auto
  then show "save_keys E m = (m1\<lparr>keys := (\<lambda>_. zero_key)\<rparr>, map (\<lambda>k. (k, keys m1 k)) (tracked m1))"
    by (simp add: save_keys_def m1_def [symmetric] take_keys_eq [OF t(2)])
qed

lemma save_keys_ok:
  assumes L: "engine_laws E" and h: "heap_ok E m sv" and empty: "sv i = []"
    and s: "save_keys E m = (m', ks)"
  shows "heap_ok E m' (sv(i := ks))" "captures E m' ks (live m)" "live m' = live m"
    "set (map fst ks) = set (all_keys E)" "\<And>k. keys m' k = zero_key"
    "\<And>j k r. (k, r) \<in> set (sv j) \<Longrightarrow> blocks m' (k_mem r) = blocks m (k_mem r)"
proof -
  define m1 where "m1 = RecordAllToInternalMementos E GGPO_MEMENTO_ID m"
  note e = save_keys_effect [OF L h, folded m1_def]
  let ?K = "set (all_keys E)"
  have m': "m' = m1\<lparr>keys := (\<lambda>_. zero_key)\<rparr>" and ks: "ks = map (\<lambda>k. (k, keys m1 k)) (tracked m1)"
    using s e(1) by simp_all
  note r = e(4)
  have sep: "slots_sep E m sv" and ti: "tight E m sv" and ls: "live_sep E m" using h by (simp_all add: heap_ok_def)
  have in_ks: "(k, q) \<in> set ks \<longleftrightarrow> k \<in> ?K \<and> q = keys m1 k" for k q by (auto simp: ks e(2))
  show live: "live m' = live m" by (simp add: m' recorded_rest(1) [OF r])
  show "set (map fst ks) = ?K" by (auto simp: ks e(2))
  show "keys m' k = zero_key" for k by (simp add: m')
  show kept: "blocks m' (k_mem q) = blocks m (k_mem q)" if "(k, q) \<in> set (sv j)" for j k q
    using recorded_kept [OF r] slots_sepD(3) [OF sep that] by (simp add: m')
  have dks: "distinct (map fst ks)" using e(3) by (simp add: ks comp_def)
  have "holds m' (keys m1 k) GGPO_MEMENTO_ID = Some (live m k)" if "k \<in> ?K" for k
    using recorded_holds [OF r that] by (simp add: m' holds_def)
  then show "captures E m' ks (live m)" using dks in_ks by (auto simp: captures_def)
  have o': "owned m' U = {}" for U by (auto simp: owned_def m')
  have ls': "live_sep E m'" using e(5) by (simp add: live_sep_def m')
  have new: "k_mem (keys m1 k) \<noteq> 0" "blocks m' (k_mem (keys m1 k)) \<noteq> None" if "k \<in> ?K" for k
    using recorded_holds [OF r that] recorded_new_allocated [OF r that] by (simp_all add: m')
  have fresh: "k_mem (keys m1 k) \<noteq> k_mem q" if "k \<in> ?K" "(k', q) \<in> set (sv j)" for k k' q j
    using recorded_fresh [OF r that(1)] slots_sepD(3) [OF sep that(2)] by metis
  have "slots_sep E m' (sv(i := ks))"
    unfolding slots_sep_def
  proof (intro conjI allI impI)
    fix j show "distinct (map fst ((sv(i := ks)) j))" using dks slots_sepD(1) [OF sep] by simp
  next
    fix j show "fst ` set ((sv(i := ks)) j) \<subseteq> ?K" using slots_sepD(2) [OF sep] by (auto simp: in_ks)
  next
    fix j k q assume a: "(k, q) \<in> set ((sv(i := ks)) j)"
    show "k_mem q \<noteq> 0"
      using a slots_sepD(3) [OF sep, of k q j] new(1) by (auto simp: in_ks split: if_splits)
    show "blocks m' (k_mem q) \<noteq> None"
    proof (cases "j = i")
      case True then show ?thesis using a new(2) by (auto simp: in_ks)
    next
      case False
      then have "(k, q) \<in> set (sv j)" using a by simp
      then show ?thesis using slots_sepD(3) [OF sep] kept by metis
    qed
    show "k_mem q \<notin> owned m' ?K" by (simp add: o')
  next
    fix j j' k k' q q'
    assume a: "(k, q) \<in> set ((sv(i := ks)) j)" "(k', q') \<in> set ((sv(i := ks)) j')" "k_mem q = k_mem q'"
    show "j = j'" "k = k'"
      using a fresh [of k k' q' j'] fresh [of k' k q j] slots_sepD(4) [OF sep, of k q j k' q' j']
        recorded_inj [OF r, of k k']
      by (auto simp: in_ks split: if_splits)
  qed
  moreover have "tight E m' (sv(i := ks))"
    unfolding tight_def
  proof (intro allI impI disjI2)
    fix b assume b: "blocks m' b \<noteq> None"
    show "\<exists>j k q. (k, q) \<in> set ((sv(i := ks)) j) \<and> b = k_mem q"
    proof (cases "b \<in> owned m1 ?K")
      case True
      then obtain k where "k \<in> ?K" "b = k_mem (keys m1 k)" by (auto simp: owned_def)
      then show ?thesis by (intro exI [of _ i] exI [of _ k]) (simp add: in_ks)
    next
      case False
      then have "blocks m b \<noteq> None \<and> b \<notin> owned m ?K" using recorded_cover [OF r, of b] b by (simp add: m')
      then obtain j k q where q: "(k, q) \<in> set (sv j)" "b = k_mem q" using ti unfolding tight_def by blast
      moreover have "j \<noteq> i" using q(1) empty by auto
      ultimately show ?thesis by (intro exI [of _ j] exI [of _ k] exI [of _ q]) simp
    qed
  qed
  ultimately show "heap_ok E m' (sv(i := ks))"
    using ls' e(2,3) by (simp add: heap_ok_def m')
qed

subsection \<open>Load\<close>

lemma over_map: "over (map (\<lambda>k. (k, f k)) ks) g k = (if k \<in> set ks then f k else g k)"
  by (simp add: over_def map_of_map_keys map_of_map_restrict restrict_map_def)

lemma over_in: "distinct (map fst ks) \<Longrightarrow> (k, r) \<in> set ks \<Longrightarrow> over ks f k = r"
  by (simp add: over_def)

lemma over_out: "k \<notin> fst ` set ks \<Longrightarrow> over ks f k = f k"
  by (simp add: over_def map_of_eq_None_iff [symmetric])

lemma RestoreAll_outside:
  assumes L: "engine_laws E" and k: "k \<notin> set (all_keys E)"
  shows "live (RestoreAllFromInternalMementos E i m) k = live m k"
proof -
  have "restored (set (all_keys E)) i m (fold (\<lambda>u. en_restore E u i) munits m)"
    using restore_units [OF L, of munits i m] engine_laws_keys(1) [OF L] by (simp add: all_keys_def)
  then show ?thesis using k L
    by (simp add: RestoreAllFromInternalMementos_def ResetAfterMemento_def restored_def engine_laws_def)
qed

lemma copy_keys_into_place_frame:
  assumes "engine_laws E" "distinct (map fst ks)"
  shows "keys (copy_keys_into_place E ks m) = over ks (keys m)"
    "tracked (copy_keys_into_place E ks m) = tracked m"
    "blocks (copy_keys_into_place E ks m) = blocks m"
    "alloc (copy_keys_into_place E ks m) = alloc m"
    "k \<notin> set (all_keys E) \<Longrightarrow> live (copy_keys_into_place E ks m) k = live m k"
  using RestoreAll_frame [OF assms(1), of GGPO_MEMENTO_ID "install_keys ks m"]
    RestoreAll_outside [OF assms(1), of k GGPO_MEMENTO_ID "install_keys ks m"]
  by (simp_all add: copy_keys_into_place_def install_keys_eq [OF assms(2)])

lemma copy_keys_into_place_live:
  assumes L: "engine_laws E" and c: "captures E m ks S"
  shows "live (copy_keys_into_place E ks m) =
     resets E (\<lambda>k. if k \<in> set (all_keys E) then S k else live m k)"
proof -
  have d: "distinct (map fst ks)" using c by (simp add: captures_def)
  have "holds (install_keys ks m) (keys (install_keys ks m) k) GGPO_MEMENTO_ID = Some (S k)"
    if "k \<in> set (all_keys E)" for k
  proof -
    obtain r where r: "(k, r) \<in> set ks" "holds m r GGPO_MEMENTO_ID = Some (S k)"
      using c \<open>k \<in> set (all_keys E)\<close> by (auto simp: captures_def)
    then show ?thesis using over_in [OF d r(1)] by (simp add: install_keys_eq [OF d] holds_def)
  qed
  from RestoreAll_live [OF L this] show ?thesis
    by (simp add: copy_keys_into_place_def install_keys_eq [OF d] cong: if_cong)
qed

lemma load_keys_ok:
  assumes L: "engine_laws E" and h: "heap_ok E m sv"
  shows "keys (load_keys E (sv i) m) = keys m" "tracked (load_keys E (sv i) m) = tracked m"
    "blocks (load_keys E (sv i) m) = blocks m" "alloc (load_keys E (sv i) m) = alloc m"
    "captures E m (sv i) S \<Longrightarrow>
       live (load_keys E (sv i) m) = resets E (\<lambda>k. if k \<in> set (all_keys E) then S k else live m k)"
proof -
  have sep: "slots_sep E m sv" and d: "distinct (tracked m)"
    and z: "\<And>k. k \<notin> set (tracked m) \<Longrightarrow> keys m k = zero_key"
    using h by (auto simp: heap_ok_def)
  note dk = slots_sepD(1) [OF sep, of i]
  have nz: "0 \<notin> fst ` set (sv i)" using slots_sepD(2) [OF sep, of i] engine_laws_keys(2) [OF L] by blast
  define m1 where "m1 = m\<lparr>keys := (\<lambda>_. zero_key)\<rparr>"
  define m2 where "m2 = copy_keys_into_place E (sv i) m1"
  note f = copy_keys_into_place_frame [OF L dk, where m = m1, folded m2_def]
  have t: "take_keys m [] = (m1, map (\<lambda>k. (k, keys m k)) (tracked m))"
    using z by (auto simp: take_keys_eq [OF d] m1_def fun_eq_iff intro!: arg_cong [where f = "\<lambda>x. m\<lparr>keys := x\<rparr>"])
  have "(if k \<in> fst ` set (sv i) then zero_key else keys m2 k) = zero_key" for k
    using over_out [of k "sv i" "keys m1"] by (auto simp: f(1) m1_def)
  then have z2: "zero_keys (sv i) m2 = m2\<lparr>keys := (\<lambda>_. zero_key)\<rparr>" by (simp add: zero_keys_eq [OF nz])
  have "over (map (\<lambda>k. (k, keys m k)) (tracked m)) (\<lambda>_. zero_key) = keys m"
    using z by (auto simp: over_map fun_eq_iff)
  moreover have "distinct (map fst (map (\<lambda>k. (k, keys m k)) (tracked m)))" using d by (simp add: comp_def)
  ultimately have *: "load_keys E (sv i) m = m2\<lparr>keys := keys m\<rparr>"
    by (simp add: load_keys_def t m2_def [symmetric] z2 install_keys_eq)
  show "keys (load_keys E (sv i) m) = keys m" "tracked (load_keys E (sv i) m) = tracked m"
    "blocks (load_keys E (sv i) m) = blocks m" "alloc (load_keys E (sv i) m) = alloc m"
    by (simp_all add: * f m1_def)
  assume c: "captures E m (sv i) S"
  then have "captures E m1 (sv i) S" by (rule captures_kept) (simp add: m1_def)
  from copy_keys_into_place_live [OF L this]
  show "live (load_keys E (sv i) m) = resets E (\<lambda>k. if k \<in> set (all_keys E) then S k else live m k)"
    by (simp add: * m2_def m1_def cong: if_cong)
qed

lemma heap_ok_cong:
  "keys m' = keys m \<Longrightarrow> tracked m' = tracked m \<Longrightarrow> blocks m' = blocks m \<Longrightarrow> alloc m' = alloc m \<Longrightarrow>
   heap_ok E m' sv = heap_ok E m sv"
  by (simp add: heap_ok_def live_sep_def slots_sep_def tight_def owned_def)

subsection \<open>Free\<close>

text \<open>A key list leaves the save states and becomes the keys in place.\<close>

lemma heap_ok_install:
  assumes h: "heap_ok E m sv" and z: "\<And>k. keys m k = zero_key" and t: "fst ` set (sv i) = set (tracked m)"
    and m': "keys m' = over (sv i) (keys m)" "tracked m' = tracked m" "blocks m' = blocks m" "alloc m' = alloc m"
  shows "heap_ok E m' (sv(i := []))"
proof -
  have sep: "slots_sep E m sv" and ti: "tight E m sv" and ls: "live_sep E m"
    and tr: "set (tracked m) \<subseteq> set (all_keys E)" "distinct (tracked m)"
    using h by (auto simp: heap_ok_def)
  note d = slots_sepD(1) [OF sep, of i]
  have in_i: "(k, keys m' k) \<in> set (sv i)" if k: "k \<in> set (tracked m)" for k
  proof -
    obtain r where "(k, r) \<in> set (sv i)" using k t by force
    then show ?thesis using over_in [OF d] by (simp add: m'(1))
  qed
  have out: "keys m' k = zero_key" if "k \<notin> set (tracked m)" for k
    using that over_out [of k "sv i"] t z by (simp add: m'(1))
  have nz: "k \<in> set (tracked m)" if "k_mem (keys m' k) \<noteq> 0" for k
    using that out by fastforce
  have "live_sep E m'"
    unfolding live_sep_def
  proof (intro conjI allI impI)
    show "en_ok E (blocks m') (alloc m')" "blocks m' 0 = None" using ls by (simp_all add: live_sep_def m')
  next
    fix k assume "k_mem (keys m' k) \<noteq> 0"
    from nz [OF this] show "k \<in> set (all_keys E)" "blocks m' (k_mem (keys m' k)) \<noteq> None"
      using tr slots_sepD(3) [OF sep in_i] by (auto simp: m')
  next
    fix k k' assume a: "k_mem (keys m' k) \<noteq> 0" "k_mem (keys m' k) = k_mem (keys m' k')"
    then have "k \<in> set (tracked m)" "k' \<in> set (tracked m)" using nz by auto
    then show "k = k'" using slots_sepD(4) [OF sep in_i in_i] a(2) by blast
  qed
  moreover have "slots_sep E m' (sv(i := []))"
    unfolding slots_sep_def
  proof (intro conjI allI impI)
    fix j show "distinct (map fst ((sv(i := [])) j))" using slots_sepD(1) [OF sep] by simp
    show "fst ` set ((sv(i := [])) j) \<subseteq> set (all_keys E)" using slots_sepD(2) [OF sep] by simp
  next
    fix j k q assume a: "(k, q) \<in> set ((sv(i := [])) j)"
    then have j: "(k, q) \<in> set (sv j)" "j \<noteq> i" by (auto split: if_splits)
    show "k_mem q \<noteq> 0" "blocks m' (k_mem q) \<noteq> None" using slots_sepD(3) [OF sep j(1)] by (simp_all add: m')
    show "k_mem q \<notin> owned m' (set (all_keys E))"
    proof
      assume "k_mem q \<in> owned m' (set (all_keys E))"
      then obtain k' where k': "k_mem q = k_mem (keys m' k')" "k_mem (keys m' k') \<noteq> 0" by (auto simp: owned_def)
      then show False using slots_sepD(4) [OF sep j(1) in_i [OF nz [OF k'(2)]] k'(1)] j(2) by blast
    qed
  next
    fix j j' k k' q q'
    assume a: "(k, q) \<in> set ((sv(i := [])) j)" "(k', q') \<in> set ((sv(i := [])) j')" "k_mem q = k_mem q'"
    then have "(k, q) \<in> set (sv j)" "(k', q') \<in> set (sv j')" by (auto split: if_splits)
    from slots_sepD(4) [OF sep this a(3)] show "j = j'" "k = k'" by auto
  qed
  moreover have "tight E m' (sv(i := []))"
    unfolding tight_def
  proof (intro allI impI)
    fix b assume b: "blocks m' b \<noteq> None"
    have "owned m (set (all_keys E)) = {}" by (auto simp: owned_def z)
    then obtain j k q where q: "(k, q) \<in> set (sv j)" "b = k_mem q"
      using ti b unfolding tight_def by (auto simp: m')
    show "b \<in> owned m' (set (all_keys E)) \<or> (\<exists>j k q. (k, q) \<in> set ((sv(i := [])) j) \<and> b = k_mem q)"
    proof (cases "j = i")
      case True
      then have k: "k \<in> set (tracked m)" using q(1) t by force
      have "keys m' k = q" using q(1) True over_in [OF d] by (simp add: m')
      then have "b \<in> owned m' (set (all_keys E))"
        using slots_sepD(3) [OF sep q(1)] q(2) k tr owned_in [of k "set (all_keys E)" m'] by auto
      then show ?thesis ..
    next
      case False
      then show ?thesis using q by (intro disjI2 exI [of _ j] exI [of _ k] exI [of _ q]) simp
    qed
  qed
  ultimately show ?thesis using tr out by (simp add: heap_ok_def m'(2))
qed

lemma heap_ok_clear:
  assumes L: "engine_laws E" and h: "heap_ok E m sv" and z: "\<And>k. keys m k = zero_key"
    and m2: "keys m2 = over (sv i) (keys m)" "tracked m2 = tracked m" "blocks m2 = blocks m" "alloc m2 = alloc m"
  defines "m3 \<equiv> clear_keys E (sv i) m2"
  shows "heap_ok E m3 (sv(i := []))" "keys m3 = (\<lambda>_. zero_key)" "tracked m3 = tracked m" "live m3 = live m2"
    "\<And>j k r. j \<noteq> i \<Longrightarrow> (k, r) \<in> set (sv j) \<Longrightarrow> blocks m3 (k_mem r) = blocks m (k_mem r)"
    "\<And>k r. (k, r) \<in> set (sv i) \<Longrightarrow> blocks m3 (k_mem r) = None"
proof -
  have sep: "slots_sep E m sv" and ti: "tight E m sv" and ls: "live_sep E m"
    and tr: "set (tracked m) \<subseteq> set (all_keys E)" "distinct (tracked m)"
    using h by (auto simp: heap_ok_def)
  note d = slots_sepD(1) [OF sep, of i]
  have ok: "en_ok E (blocks m2) (alloc m2)" using ls by (simp add: live_sep_def m2)
  have n0: "0 \<notin> fst ` set (sv i)" using slots_sepD(2) [OF sep, of i] engine_laws_keys(2) [OF L] by blast
  have dm: "distinct (map (k_mem \<circ> snd) (sv i))"
  proof -
    have "inj_on (k_mem \<circ> snd) (set (sv i))"
    proof (rule inj_onI)
      fix p p' assume a: "p \<in> set (sv i)" "p' \<in> set (sv i)" "(k_mem \<circ> snd) p = (k_mem \<circ> snd) p'"
      obtain k r k' r' where p: "p = (k, r)" "p' = (k', r')" by (cases p, cases p')
      have "k = k'" using slots_sepD(4) [OF sep, of k r i k' r' i] a by (simp add: p)
      then show "p = p'" using a d by (auto simp: p dest: eq_key_imp_eq_value)
    qed
    then show ?thesis using d by (simp add: distinct_map)
  qed
  have inst: "\<forall>(k, r)\<in>set (sv i). keys m2 k = r \<and> blocks m2 (k_mem r) \<noteq> None"
    using over_in [OF d] slots_sepD(3) [OF sep] by (auto simp: m2)
  note e = clear_keys_effect [OF L ok d n0 dm inst, folded m3_def]
  show k3: "keys m3 = (\<lambda>_. zero_key)"
    using e over_out [of _ "sv i" "keys m"] z by (auto simp: fun_eq_iff m2)
  show t3: "tracked m3 = tracked m" and "live m3 = live m2" using e by (simp_all add: m2)
  have b3: "blocks m3 = (\<lambda>b. if b \<in> (k_mem \<circ> snd) ` set (sv i) then None else blocks m b)"
    using e by (simp add: m2 cong: if_cong)
  show kept: "blocks m3 (k_mem r) = blocks m (k_mem r)" if "j \<noteq> i" "(k, r) \<in> set (sv j)" for j k r
  proof -
    have "k_mem r \<noteq> k_mem r'" if "(k', r') \<in> set (sv i)" for k' r'
      using slots_sepD(4) [OF sep \<open>(k, r) \<in> set (sv j)\<close> that] \<open>j \<noteq> i\<close> by blast
    then have "k_mem r \<notin> (k_mem \<circ> snd) ` set (sv i)" by force
    then show ?thesis by (simp add: b3)
  qed
  show "blocks m3 (k_mem r) = None" if "(k, r) \<in> set (sv i)" for k r using that by (force simp: b3)
  have o3: "owned m3 U = {}" and o: "owned m U = {}" for U by (auto simp: owned_def k3 z)
  have "en_ok E (blocks m3) (alloc m3)" using e by blast
  moreover have "blocks m3 0 = None" using ls by (simp add: b3 live_sep_def)
  ultimately have "live_sep E m3" by (simp add: live_sep_def k3)
  moreover have "slots_sep E m3 (sv(i := []))"
    unfolding slots_sep_def
  proof (intro conjI allI impI)
    fix j show "distinct (map fst ((sv(i := [])) j))" using slots_sepD(1) [OF sep] by simp
    show "fst ` set ((sv(i := [])) j) \<subseteq> set (all_keys E)" using slots_sepD(2) [OF sep] by simp
  next
    fix j k q assume a: "(k, q) \<in> set ((sv(i := [])) j)"
    then have j: "(k, q) \<in> set (sv j)" "j \<noteq> i" by (auto split: if_splits)
    show "k_mem q \<noteq> 0" "blocks m3 (k_mem q) \<noteq> None"
      using slots_sepD(3) [OF sep j(1)] kept [OF j(2,1)] by simp_all
    show "k_mem q \<notin> owned m3 (set (all_keys E))" by (simp add: o3)
  next
    fix j j' k k' q q'
    assume a: "(k, q) \<in> set ((sv(i := [])) j)" "(k', q') \<in> set ((sv(i := [])) j')" "k_mem q = k_mem q'"
    then have "(k, q) \<in> set (sv j)" "(k', q') \<in> set (sv j')" by (auto split: if_splits)
    from slots_sepD(4) [OF sep this a(3)] show "j = j'" "k = k'" by auto
  qed
  moreover have "tight E m3 (sv(i := []))"
    unfolding tight_def
  proof (intro allI impI disjI2)
    fix b assume b: "blocks m3 b \<noteq> None"
    then have "blocks m b \<noteq> None" "b \<notin> (k_mem \<circ> snd) ` set (sv i)" by (auto simp: b3 split: if_splits)
    then obtain j k q where q: "(k, q) \<in> set (sv j)" "b = k_mem q"
      using ti unfolding tight_def by (auto simp: o)
    moreover have "j \<noteq> i" using q \<open>b \<notin> _\<close> by force
    ultimately show "\<exists>j k q. (k, q) \<in> set ((sv(i := [])) j) \<and> b = k_mem q"
      by (intro exI [of _ j] exI [of _ k] exI [of _ q]) simp
  qed
  ultimately show "heap_ok E m3 (sv(i := []))" using tr by (simp add: heap_ok_def k3 t3)
qed

text \<open>\<open>t\<close> is an index no other save state uses: the temporary state of Free.\<close>

lemma free_keys_ok:
  assumes L: "engine_laws E" and h: "heap_ok E m sv" and t: "sv t = []" "t \<noteq> i"
  shows "heap_ok E (free_keys E (sv i) m) (sv(i := []))"
    "live (free_keys E (sv i) m) = resets E (live m)"
    "\<And>j k r. j \<noteq> i \<Longrightarrow> (k, r) \<in> set (sv j) \<Longrightarrow> blocks (free_keys E (sv i) m) (k_mem r) = blocks m (k_mem r)"
    "\<And>k r. (k, r) \<in> set (sv i) \<Longrightarrow> blocks (free_keys E (sv i) m) (k_mem r) = None"
proof -
  obtain m1 tmp where s: "save_keys E m = (m1, tmp)" by (cases "save_keys E m")
  note a = save_keys_ok [OF L h t(1) s]
  let ?sv1 = "sv(t := tmp)"
  define m2 where "m2 = copy_keys_into_place E (?sv1 i) m1"
  have sep1: "slots_sep E m1 ?sv1" using a(1) unfolding heap_ok_def by blast
  note f2 = copy_keys_into_place_frame [OF L slots_sepD(1) [OF sep1, of i], where m = m1, folded m2_def]
  define m3 where "m3 = clear_keys E (?sv1 i) m2"
  note c = heap_ok_clear [OF L a(1) a(5) f2(1-4), folded m3_def]
  let ?sv3 = "?sv1(i := [])"
  have tmp: "?sv3 t = tmp" using t(2) by simp
  define m4 where "m4 = copy_keys_into_place E (?sv3 t) m3"
  have sep3: "slots_sep E m3 ?sv3" using c(1) unfolding heap_ok_def by blast
  note f4 = copy_keys_into_place_frame [OF L slots_sepD(1) [OF sep3, of t], where m = m3, folded m4_def]
  have tr: "set (tracked m3) = set (all_keys E)"
    using save_keys_effect(1,2) [OF L h] s by (auto simp: c(3))
  then have "fst ` set (?sv3 t) = set (tracked m3)" using a(4) by (simp only: tmp set_map)
  then have h4: "heap_ok E m4 (?sv3(t := []))"
    by (intro heap_ok_install [OF c(1)]) (simp_all only: c(2) f4)
  have free: "free_keys E (sv i) m = m4"
    using t(2) by (simp add: free_keys_def s m2_def m3_def m4_def)
  have sv: "?sv3(t := []) = sv(i := [])" using t by auto
  show "heap_ok E (free_keys E (sv i) m) (sv(i := []))" using h4 by (simp only: free sv)
  have cap: "captures E m3 (?sv3 t) (live m)"
    unfolding tmp by (rule captures_kept [OF a(2)]) (use c(5) [of t] t(2) in simp)
  have "live m3 k = live m k" if "k \<notin> set (all_keys E)" for k using that f2(5) c(4) a(3) by simp
  then have "(\<lambda>k. if k \<in> set (all_keys E) then live m k else live m3 k) = live m" by auto
  then show "live (free_keys E (sv i) m) = resets E (live m)"
    using copy_keys_into_place_live [OF L cap] by (simp add: free m4_def)
  show "blocks (free_keys E (sv i) m) (k_mem r) = blocks m (k_mem r)" if "j \<noteq> i" "(k, r) \<in> set (sv j)" for j k r
  proof -
    have "j \<noteq> t" using that(2) t(1) by auto
    then have "blocks m3 (k_mem r) = blocks m1 (k_mem r)" using c(5) [OF that(1), of k r] that(2) by simp
    also have "\<dots> = blocks m (k_mem r)" by (rule a(6) [OF that(2)])
    finally show ?thesis by (simp add: free f4)
  qed
  show "blocks (free_keys E (sv i) m) (k_mem r) = None" if "(k, r) \<in> set (sv i)" for k r
    using c(6) [of k r] that t(2) by (simp add: free f4)
qed

section \<open>Save states over a whole match\<close>

text \<open>What GGPO and the battle do: save into a free state, load or free a used one,
  and advance the simulation, which changes the live objects only. Index 10, past
  the save states, is the temporary of Free.\<close>

datatype 'c key_op = KSave nat | KLoad nat | KFree nat | KAdvance "(nat \<Rightarrow> 'c) \<Rightarrow> nat \<Rightarrow> 'c"

definition NUM_SAVE_STATES :: nat where "NUM_SAVE_STATES = 10"

fun key_step :: "('c, 'a) engine \<Rightarrow> 'c key_op \<Rightarrow> ('c, 'a) mem \<times> (nat \<Rightarrow> saved_keys) \<Rightarrow>
    ('c, 'a) mem \<times> (nat \<Rightarrow> saved_keys)" where
  "key_step E (KSave i) (m, sv) =
     (if i < NUM_SAVE_STATES \<and> sv i = [] then (let (m', ks) = save_keys E m in (m', sv(i := ks))) else (m, sv))"
| "key_step E (KLoad i) (m, sv) = (if sv i \<noteq> [] then (load_keys E (sv i) m, sv) else (m, sv))"
| "key_step E (KFree i) (m, sv) = (if sv i \<noteq> [] then (free_keys E (sv i) m, sv(i := [])) else (m, sv))"
| "key_step E (KAdvance f) (m, sv) = (m\<lparr>live := f (live m)\<rparr>, sv)"

definition key_run :: "('c, 'a) engine \<Rightarrow> 'c key_op list \<Rightarrow> ('c, 'a) mem \<times> (nat \<Rightarrow> saved_keys) \<Rightarrow>
    ('c, 'a) mem \<times> (nat \<Rightarrow> saved_keys)" where
  "key_run E ops s = fold (key_step E) ops s"

definition store_ok :: "('c, 'a) engine \<Rightarrow> ('c, 'a) mem \<times> (nat \<Rightarrow> saved_keys) \<Rightarrow> bool" where
  "store_ok E s \<longleftrightarrow> heap_ok E (fst s) (snd s) \<and> (\<forall>i\<ge>NUM_SAVE_STATES. snd s i = [])"

definition fresh_store :: "'a \<Rightarrow> (nat \<Rightarrow> 'c) \<Rightarrow> ('c, 'a) mem \<times> (nat \<Rightarrow> saved_keys)" where
  "fresh_store a L = (\<lparr>keys = (\<lambda>_. zero_key), tracked = [], blocks = (\<lambda>_. None), live = L, alloc = a\<rparr>, \<lambda>_. [])"

lemma fresh_store_ok: "en_ok E (\<lambda>_. None) a \<Longrightarrow> store_ok E (fresh_store a L)"
  by (simp add: store_ok_def heap_ok_def fresh_store_def live_sep_def slots_sep_def tight_def)

lemma heap_ok_live [simp]: "heap_ok E (m\<lparr>live := L\<rparr>) sv = heap_ok E m sv"
  by (rule heap_ok_cong) simp_all

lemma key_step_ok:
  assumes L: "engine_laws E" and s: "store_ok E s"
  shows "store_ok E (key_step E op s)"
proof -
  obtain m sv where p: "s = (m, sv)" by (cases s)
  have h: "heap_ok E m sv" and t: "\<forall>i\<ge>NUM_SAVE_STATES. sv i = []" using s by (auto simp: store_ok_def p)
  have h3: "heap_ok E (free_keys E (sv i) m) (sv(i := []))" if "sv i \<noteq> []" for i
  proof (rule free_keys_ok(1) [OF L h])
    show "sv NUM_SAVE_STATES = []" "NUM_SAVE_STATES \<noteq> i" using t that by auto
  qed
  show ?thesis
  proof (cases op)
    case (KSave i)
    obtain m' ks where sk: "save_keys E m = (m', ks)" by (cases "save_keys E m")
    then show ?thesis using KSave h t save_keys_ok(1) [OF L h _ sk, of i] by (auto simp: store_ok_def p)
  next
    case (KLoad i)
    then show ?thesis using h t heap_ok_cong [OF load_keys_ok(1-4) [OF L h]] by (simp add: store_ok_def p)
  next
    case (KFree i)
    then show ?thesis using h t h3 by (simp add: store_ok_def p)
  next
    case (KAdvance f)
    then show ?thesis using h t by (simp add: store_ok_def p)
  qed
qed

lemma key_run_ok: "engine_laws E \<Longrightarrow> store_ok E s \<Longrightarrow> store_ok E (key_run E ops s)"
proof (induction ops arbitrary: s)
  case Nil
  then show ?case by (simp add: key_run_def)
next
  case (Cons op ops)
  from Cons.IH [OF Cons.prems(1) key_step_ok [OF Cons.prems]] show ?case by (simp add: key_run_def)
qed

text \<open>A used state stays what it captured until it is freed.\<close>

lemma key_step_captures:
  assumes L: "engine_laws E" and s: "store_ok E s" and c: "captures E (fst s) (snd s i) S"
    and u: "snd s i \<noteq> []" and op: "op \<noteq> KFree i"
  shows "captures E (fst (key_step E op s)) (snd (key_step E op s) i) S \<and> snd (key_step E op s) i \<noteq> []"
proof -
  obtain m sv where p: "s = (m, sv)" by (cases s)
  have h: "heap_ok E m sv" and t: "\<forall>i\<ge>NUM_SAVE_STATES. sv i = []" using s by (auto simp: store_ok_def p)
  have c': "captures E m (sv i) S" "sv i \<noteq> []" using c u by (simp_all add: p)
  show ?thesis
  proof (cases op)
    case (KSave j)
    obtain m' ks where sk: "save_keys E m = (m', ks)" by (cases "save_keys E m")
    have "captures E m' (sv i) S" if "sv j = []"
      by (rule captures_kept [OF c'(1)]) (rule save_keys_ok(6) [OF L h that sk])
    then show ?thesis using KSave c' by (auto simp: p sk)
  next
    case (KLoad j)
    have "captures E (load_keys E (sv j) m) (sv i) S"
      by (rule captures_kept [OF c'(1)]) (simp add: load_keys_ok(3) [OF L h])
    then show ?thesis using KLoad c' by (simp add: p)
  next
    case (KFree j)
    have "captures E (free_keys E (sv j) m) (sv i) S" if "sv j \<noteq> []"
    proof (rule captures_kept [OF c'(1)])
      show "blocks (free_keys E (sv j) m) (k_mem r) = blocks m (k_mem r)" if "(k, r) \<in> set (sv i)" for k r
      proof (rule free_keys_ok(3) [OF L h _ _ _ that])
        show "sv NUM_SAVE_STATES = []" "NUM_SAVE_STATES \<noteq> j" using t \<open>sv j \<noteq> []\<close> by auto
        show "i \<noteq> j" using op KFree by auto
      qed
    qed
    then show ?thesis using KFree op c' by (auto simp: p)
  next
    case (KAdvance f)
    have "captures E (m\<lparr>live := f (live m)\<rparr>) (sv i) S" by (rule captures_kept [OF c'(1)]) simp
    then show ?thesis using KAdvance c' by (simp add: p)
  qed
qed

lemma key_run_captures:
  assumes L: "engine_laws E"
  shows "store_ok E s \<Longrightarrow> captures E (fst s) (snd s i) S \<Longrightarrow> snd s i \<noteq> [] \<Longrightarrow> KFree i \<notin> set ops \<Longrightarrow>
    captures E (fst (key_run E ops s)) (snd (key_run E ops s) i) S \<and> snd (key_run E ops s) i \<noteq> []"
proof (induction ops arbitrary: s)
  case Nil
  then show ?case by (simp add: key_run_def)
next
  case (Cons op ops)
  then have "op \<noteq> KFree i" by auto
  from key_step_captures [OF L Cons.prems(1,2,3) this] key_step_ok [OF L Cons.prems(1)] Cons
  show ?case by (simp add: key_run_def)
qed



text \<open>
  Freeing a save state leaves the running game as it was, up to the reset
  the engine's restore ends with: although the victim is restored over the live
  objects to make its keys clearable, the live state afterwards is the live
  state before with the two characters reset, and exactly the victim's blocks
  are gone.
\<close>

theorem free_preserves_live:
  assumes "engine_laws E" and "store_ok E (m, sv)" and "sv i \<noteq> []"
  shows "live (free_keys E (sv i) m) = resets E (live m) \<and>
     (\<forall>(k, r)\<in>set (sv i). blocks (free_keys E (sv i) m) (k_mem r) = None) \<and>
     (\<forall>j. j \<noteq> i \<longrightarrow> (\<forall>(k, r)\<in>set (sv j). blocks (free_keys E (sv i) m) (k_mem r) = blocks m (k_mem r)))"
proof -
  have h: "heap_ok E m sv" and t: "sv NUM_SAVE_STATES = []" "NUM_SAVE_STATES \<noteq> i"
    using assms(2,3) by (auto simp: store_ok_def)
  show ?thesis using free_keys_ok(2-4) [OF assms(1) h t] by blast
qed

section \<open>A bump-allocating engine\<close>

text \<open>An engine that meets the laws: two units with one key each, blocks handed out
  in increasing order.\<close>

type_synonym bump_mem = "(nat, nat) mem"

definition bump_clear :: "nat \<Rightarrow> bump_mem \<Rightarrow> bump_mem" where
  "bump_clear k m = m\<lparr>blocks := (blocks m)(k_mem (keys m k) := None), keys := (keys m)(k := zero_key)\<rparr>"

definition bump_init :: "nat \<Rightarrow> nat \<Rightarrow> int \<Rightarrow> bump_mem \<Rightarrow> bump_mem" where
  "bump_init k obj n m = m\<lparr>keys := (keys m)(k := \<lparr>k_obj = obj, k_meta = 0, k_num = n, k_mem = alloc m,
     k_size = 1, k_next = 0\<rparr>), alloc := alloc m + 1\<rparr>"

definition bump_keys :: "munit \<Rightarrow> nat list" where
  "bump_keys u = (if u = U_SYSTEM then [1] else if u = U_CHARA then [2] else [])"

definition bump0 :: "(nat, nat) engine" where
  "bump0 = \<lparr>unit_keys = bump_keys, en_init = bump_init, en_clear = bump_clear,
     en_record = (\<lambda>u i m. m), en_restore = (\<lambda>u i m. m), en_resetLive = (\<lambda>a L. L),
     en_ok = (\<lambda>bl a. 0 < a \<and> bl 0 = None \<and> (\<forall>b\<ge>a. bl b = None))\<rparr>"

definition bump_record1 :: "memento_id \<Rightarrow> nat \<Rightarrow> bump_mem \<Rightarrow> bump_mem" where
  "bump_record1 i k m =
     (let m1 = (if k_mem (keys m k) \<noteq> 0 then key_ClearKey bump0 k m else m);
          m2 = key_Initialize bump0 k k 1 m1
      in m2\<lparr>blocks := (blocks m2)(k_mem (keys m2 k) := Some ((\<lambda>_. None)(i := Some (live m k))))\<rparr>)"

definition bump_restore1 :: "memento_id \<Rightarrow> nat \<Rightarrow> bump_mem \<Rightarrow> bump_mem" where
  "bump_restore1 i k m = (case holds m (keys m k) i of None \<Rightarrow> m | Some c \<Rightarrow> m\<lparr>live := (live m)(k := c)\<rparr>)"

definition bump :: "(nat, nat) engine" where
  "bump = bump0\<lparr>en_record := (\<lambda>u i m. fold (bump_record1 i) (bump_keys u) m),
     en_restore := (\<lambda>u i m. fold (bump_restore1 i) (bump_keys u) m)\<rparr>"

lemma bump_all_keys: "all_keys bump = [1, 2]"
  by (simp add: all_keys_def bump_def bump0_def munits_def bump_keys_def)

lemma bump_fields: "unit_keys bump = bump_keys" "en_clear bump = bump_clear"
  "en_record bump u i m = fold (bump_record1 i) (bump_keys u) m"
  "en_restore bump u i m = fold (bump_restore1 i) (bump_keys u) m"
  "en_resetLive bump a L = L"
  "en_ok bump bl a \<longleftrightarrow> 0 < a \<and> bl 0 = None \<and> (\<forall>b\<ge>a. bl b = None)"
  by (simp_all add: bump_def bump0_def)

lemma bump_record1_eq:
  "keys (bump_record1 i k m) = (keys m)(k := \<lparr>k_obj = k, k_meta = 0, k_num = 1, k_mem = alloc m, k_size = 1, k_next = 0\<rparr>)"
  "alloc (bump_record1 i k m) = alloc m + 1"
  "live (bump_record1 i k m) = live m"
  "blocks (bump_record1 i k m) =
     (if k_mem (keys m k) \<noteq> 0 then (blocks m)(k_mem (keys m k) := None) else blocks m)
       (alloc m := Some ((\<lambda>_. None)(i := Some (live m k))))"
  by (simp_all add: bump_record1_def key_ClearKey_def key_Initialize_def bump0_def bump_clear_def bump_init_def Let_def)

lemma bump_record1_tracked:
  "distinct (tracked m) \<Longrightarrow> set (tracked (bump_record1 i k m)) = set (tracked m) \<union> {k} \<and>
     distinct (tracked (bump_record1 i k m))"
  by (auto simp: bump_record1_def key_ClearKey_def key_Initialize_def bump0_def bump_clear_def bump_init_def
      Let_def set_insort_key distinct_insort)

lemma bump_record1_ok:
  assumes s: "live_sep bump m" and d: "distinct (tracked m)"
  shows "recorded {k} i m (bump_record1 i k m) \<and>
     en_ok bump (blocks (bump_record1 i k m)) (alloc (bump_record1 i k m))"
proof -
  have a: "0 < alloc m" "blocks m 0 = None" "\<And>b. alloc m \<le> b \<Longrightarrow> blocks m b = None"
    using s by (auto simp: live_sep_def bump_fields)
  have k: "k_mem (keys m k) < alloc m"
  proof (rule ccontr)
    assume n: "\<not> ?thesis"
    then have "k_mem (keys m k) \<noteq> 0" using a(1) by simp
    then show False using live_sepD(2) [OF s, of k] a(3) [of "k_mem (keys m k)"] n by simp
  qed
  have "recorded {k} i m (bump_record1 i k m)"
    using a k bump_record1_tracked [OF d, of i k]
    by (auto simp: recorded_def bump_record1_eq holds_def owned_def)
  moreover have "en_ok bump (blocks (bump_record1 i k m)) (alloc (bump_record1 i k m))"
    using a by (simp add: bump_fields bump_record1_eq)
  ultimately show ?thesis by simp
qed

lemma bump_laws: "engine_laws bump"
proof -
  have rec: "recorded (set (bump_keys u)) i m (en_record bump u i m) \<and>
      en_ok bump (blocks (en_record bump u i m)) (alloc (en_record bump u i m))"
    if "live_sep bump m" "distinct (tracked m)" for u i m
  proof (cases "bump_keys u")
    case Nil
    then show ?thesis using that by (simp add: bump_fields recorded_def live_sep_def)
  next
    case (Cons k ks)
    then have "ks = []" by (auto simp: bump_keys_def split: if_splits)
    then show ?thesis using bump_record1_ok [OF that] Cons by (simp add: bump_fields)
  qed
  have res: "restored (set (bump_keys u)) i m (en_restore bump u i m)" for u i and m :: bump_mem
    by (auto simp: bump_fields bump_keys_def restored_def bump_restore1_def split: option.split)
  have clr: "cleared k m (en_clear bump k m) \<and> en_ok bump (blocks (en_clear bump k m)) (alloc (en_clear bump k m))"
    if "en_ok bump (blocks m) (alloc m)" for k and m :: bump_mem
    using that by (simp add: bump_fields bump_clear_def cleared_def)
  show ?thesis
    unfolding engine_laws_def bump_all_keys
    using rec res clr by (simp add: bump_fields)
qed

definition bump_start :: "bump_mem \<times> (nat \<Rightarrow> saved_keys)" where
  "bump_start = fresh_store 1 (\<lambda>k. 40 + k)"

lemma bump_start_ok: "store_ok bump bump_start"
  unfolding bump_start_def by (rule fresh_store_ok) (simp add: bump_fields)

definition bump_after :: "bump_mem \<times> (nat \<Rightarrow> saved_keys)" where
  "bump_after = key_run bump [KAdvance (\<lambda>L k. L k + 7), KSave 1, KFree 1] (key_step bump (KSave 0) bump_start)"



theorem free_preserves_live_witness:
  "\<exists>m sv. sv 0 \<noteq> [] \<and> live (free_keys bump (sv 0) m) = resets bump (live m)"
proof -
  obtain m sv where p: "key_step bump (KSave 0) bump_start = (m, sv)" by (cases "key_step bump (KSave 0) bump_start")
  have ok: "store_ok bump (m, sv)" using key_step_ok [OF bump_laws bump_start_ok, of "KSave 0"] by (simp only: p)
  obtain m0 sv0 where q: "bump_start = (m0, sv0)" by (cases bump_start)
  obtain m' ks where s: "save_keys bump m0 = (m', ks)" by (cases "save_keys bump m0")
  have e: "sv0 0 = []" using q by (auto simp: bump_start_def fresh_store_def)
  have "heap_ok bump m0 sv0" using bump_start_ok by (simp add: q store_ok_def)
  from save_keys_ok(4) [OF bump_laws this e s] have "ks \<noteq> []" by (auto simp: bump_all_keys)
  moreover have "key_step bump (KSave 0) bump_start = (m', sv0(0 := ks))"
    by (simp add: q e s NUM_SAVE_STATES_def)
  ultimately have ne: "sv 0 \<noteq> []" by (simp add: p)
  have "live (free_keys bump (sv 0) m) = resets bump (live m)"
    using free_preserves_live [OF bump_laws ok ne] by simp
  show ?thesis
  proof (rule exI, rule exI, rule conjI)
    show "sv 0 \<noteq> []" by (rule ne)
    show "live (free_keys bump (sv 0) m) = resets bump (live m)" by fact
  qed
qed

end
