(* ===== verification/Pure_Sounds.thy ===== *)
theory Pure_Sounds
  imports Prelude
begin

text \<open>
  Rollback-safe sounds (sf4e__Game__Battle.cxx, SoundPlayerManager; the player
  switch of sf4e__Platform.cxx). The game plays into a stub manager that owns
  no players; SyncState makes the real manager behind it play what the stub's
  metadata says. The sound engine itself is a parameter: its original methods
  are the fields of \<open>sound_engine\<close>, run on an engine state \<open>'e\<close>. A pointer to
  the adapter \<open>i\<close> of a manager is the pair of both.
\<close>

section \<open>Handles, requests, state\<close>

type_synonym mgr = nat

definition ref_index :: "32 word \<Rightarrow> nat" where
  "ref_index h = unat (drop_bit 16 h)"

definition ref_useCount :: "32 word \<Rightarrow> nat" where
  "ref_useCount h = unat (take_bit 16 h)"

text \<open>SoundReference::ToHandle, as written.\<close>

definition ToHandle :: "32 word \<Rightarrow> 32 word \<Rightarrow> 32 word" where
  "ToHandle index useCount = and (push_bit 16 index) useCount"

definition NO_SOUND :: "32 word" where "NO_SOUND = 0xffffffff"

record sound_req =
  bLive :: bool
  nFrame :: int
  currentAdapterHandle :: "32 word"
  cueSheetHandle :: "32 word"
  cueIdx :: "32 word"
  s_type :: "32 word"
  s_flags :: "32 word"
  s_position :: nat

definition zero_req :: sound_req where
  "zero_req = \<lparr>bLive = False, nFrame = 0, currentAdapterHandle = 0, cueSheetHandle = 0, cueIdx = 0,
     s_type = 0, s_flags = 0, s_position = 0\<rparr>"

type_synonym sound_args = "32 word \<times> 32 word \<times> 32 word \<times> 32 word \<times> nat"

definition req_args :: "sound_req \<Rightarrow> sound_args" where
  "req_args r = (cueSheetHandle r, cueIdx r, s_type r, s_flags r, s_position r)"

definition IsEqual :: "sound_req \<Rightarrow> sound_req \<Rightarrow> bool" where
  "IsEqual l r \<longleftrightarrow> cueIdx l = cueIdx r \<and> cueSheetHandle l = cueSheetHandle r \<and>
     s_flags l = s_flags r \<and> s_type l = s_type r \<and> s_position l = s_position r"

record cri_params =
  cri_flags :: int
  cri_position :: nat
  cri_volume :: "32 word"
  cri_fadeScale :: "32 word"
  cri_playState :: "32 word"
  cri_field6 :: "32 word"

record 'e sound_engine =
  en_newPlayer :: "'e \<Rightarrow> 32 word \<times> 'e"
  en_factory :: "bool \<Rightarrow> 'e \<Rightarrow> (mgr \<times> nat) \<times> 'e"
  en_destroy :: "mgr \<Rightarrow> 'e \<Rightarrow> 'e"
  en_play :: "mgr \<Rightarrow> sound_args \<Rightarrow> 'e \<Rightarrow> 32 word \<times> 'e"
  en_stop :: "mgr \<Rightarrow> 32 word \<Rightarrow> 'e \<Rightarrow> 'e"
  en_stopAll :: "mgr \<Rightarrow> 'e \<Rightarrow> 'e"
  en_update :: "mgr \<Rightarrow> 'e \<Rightarrow> 'e"
  en_stillPlaying :: "mgr \<times> nat \<Rightarrow> 'e \<Rightarrow> bool"
  en_params :: "mgr \<times> nat \<Rightarrow> 'e \<Rightarrow> cri_params"
  en_setParams :: "mgr \<times> nat \<Rightarrow> cri_params \<Rightarrow> 'e \<Rightarrow> 'e"
  en_frame :: "'e \<Rightarrow> int"

text \<open>The static members: \<open>shadow\<close> is the map from stub to real manager in key
  order (NULL is None), \<open>current\<close> is adapterToCurrentSound with the default
  value where the map has no entry, \<open>queued\<close> likewise for queuedStops.\<close>

record 'e sounds =
  usePure :: bool
  allowNew :: bool
  shadow :: "(mgr \<times> mgr option) list"
  current :: "mgr \<times> nat \<Rightarrow> sound_req"
  queued :: "mgr \<Rightarrow> sound_req list"
  numAdapters :: "mgr \<Rightarrow> nat"
  eng :: 'e

definition is_stub :: "mgr \<Rightarrow> 'e sounds \<Rightarrow> bool" where
  "is_stub m s \<longleftrightarrow> m \<in> fst ` set (shadow s)"

definition set_req :: "mgr \<times> nat \<Rightarrow> sound_req \<Rightarrow> 'e sounds \<Rightarrow> 'e sounds" where
  "set_req a r s = s\<lparr>current := (current s)(a := r)\<rparr>"

definition queue_stop :: "mgr \<Rightarrow> sound_req \<Rightarrow> 'e sounds \<Rightarrow> 'e sounds" where
  "queue_stop m r s = (if is_stub m s then s\<lparr>queued := (queued s)(m := queued s m @ [r])\<rparr> else s)"

definition GetNewPlayerHandle :: "'e sound_engine \<Rightarrow> 'e sounds \<Rightarrow> 32 word \<times> 'e sounds" where
  "GetNewPlayerHandle E s =
     (if \<not> allowNew s then (NO_SOUND, s)
      else (let (h, e) = en_newPlayer E (eng s) in (h, s\<lparr>eng := e\<rparr>)))"

section \<open>Creating and destroying managers\<close>

definition ResetAdapterMetadata :: "mgr \<Rightarrow> 'e sounds \<Rightarrow> 'e sounds" where
  "ResetAdapterMetadata m s = fold (\<lambda>i. set_req (m, i) zero_req) [0..<numAdapters s m] s"

fun shadow_assign :: "mgr \<Rightarrow> mgr option \<Rightarrow> (mgr \<times> mgr option) list \<Rightarrow> (mgr \<times> mgr option) list" where
  "shadow_assign k v [] = [(k, v)]"
| "shadow_assign k v ((k', v') # m) =
     (if k < k' then (k, v) # (k', v') # m
      else if k = k' then (k, v) # m
      else (k', v') # shadow_assign k v m)"

definition make_manager :: "'e sound_engine \<Rightarrow> bool \<Rightarrow> 'e sounds \<Rightarrow> mgr \<times> 'e sounds" where
  "make_manager E allow s =
     (let ((m, n), e) = en_factory E allow (eng s)
      in (m, s\<lparr>eng := e, numAdapters := (numAdapters s)(m := n)\<rparr>))"

definition Factory :: "'e sound_engine \<Rightarrow> 'e sounds \<Rightarrow> mgr \<times> 'e sounds" where
  "Factory E s =
     (if \<not> usePure s
      then (let (out, s1) = make_manager E (allowNew s) s
            in (out, ResetAdapterMetadata out (s1\<lparr>shadow := shadow_assign out None (shadow s1)\<rparr>)))
      else (let allowed = allowNew s;
                (stub, s1) = make_manager E False (s\<lparr>allowNew := False\<rparr>);
                (real, s2) = make_manager E True (s1\<lparr>allowNew := True\<rparr>);
                s3 = s2\<lparr>allowNew := allowed, shadow := shadow_assign stub (Some real) (shadow s2),
                         queued := (queued s2)(stub := [])\<rparr>
            in (stub, ResetAdapterMetadata real (ResetAdapterMetadata stub s3))))"

definition purge_adapters :: "mgr \<Rightarrow> 'e sounds \<Rightarrow> 'e sounds" where
  "purge_adapters m s = fold (\<lambda>i. set_req (m, i) zero_req) [0..<numAdapters s m] s"

definition shadow_of :: "mgr \<Rightarrow> 'e sounds \<Rightarrow> mgr option" where
  "shadow_of m s = (case map_of (shadow s) m of Some (Some r) \<Rightarrow> Some r | _ \<Rightarrow> None)"

definition destructor :: "'e sound_engine \<Rightarrow> mgr \<Rightarrow> 'e sounds \<Rightarrow> 'e sounds" where
  "destructor E m s =
     (let s1 = (if usePure s
                then (case shadow_of m s of
                        None \<Rightarrow> s
                      | Some real \<Rightarrow> (let s' = purge_adapters real s in s'\<lparr>eng := en_destroy E real (eng s')\<rparr>))
                else s);
          s2 = purge_adapters m s1
      in s2\<lparr>queued := (queued s2)(m := []), shadow := filter (\<lambda>(k, _). k \<noteq> m) (shadow s2),
            eng := en_destroy E m (eng s2)\<rparr>)"

section \<open>Playing and stopping\<close>

definition StopSound :: "'e sound_engine \<Rightarrow> mgr \<Rightarrow> 32 word \<Rightarrow> 'e sounds \<Rightarrow> 'e sounds" where
  "StopSound E m h s =
     (let s1 = (if usePure s
                then (let a = (m, ref_index h); meta = (current s a)\<lparr>bLive := False\<rparr>
                      in queue_stop m meta (set_req a meta s))
                else s)
      in s1\<lparr>eng := en_stop E m h (eng s1)\<rparr>)"

definition older :: "'e sounds \<Rightarrow> mgr \<Rightarrow> nat \<Rightarrow> sound_req option \<Rightarrow> sound_req option" where
  "older s m i best =
     (let r = current s (m, i)
      in if \<not> bLive r then best
         else (case best of None \<Rightarrow> Some r | Some b \<Rightarrow> if nFrame r < nFrame b then Some r else best))"

definition oldest_live :: "mgr \<Rightarrow> 'e sounds \<Rightarrow> sound_req option" where
  "oldest_live m s = fold (older s m) [0..<numAdapters s m] None"

definition engine_play :: "'e sound_engine \<Rightarrow> mgr \<Rightarrow> sound_args \<Rightarrow> 'e sounds \<Rightarrow> 32 word \<times> 'e sounds" where
  "engine_play E m args s = (let (out, e) = en_play E m args (eng s) in (out, s\<lparr>eng := e\<rparr>))"

definition note_play :: "'e sound_engine \<Rightarrow> mgr \<Rightarrow> sound_args \<Rightarrow> 32 word \<Rightarrow> 'e sounds \<Rightarrow> 'e sounds" where
  "note_play E m args out s =
     (let a = (m, ref_index out); meta = current s a;
          s1 = (if bLive meta then queue_stop m meta s else s);
          (sheet, cue, ty, fl, pos) = args
      in set_req a \<lparr>bLive = True, nFrame = en_frame E (eng s1), currentAdapterHandle = out,
           cueSheetHandle = sheet, cueIdx = cue, s_type = ty, s_flags = fl, s_position = pos\<rparr> s1)"

definition free_and_retry :: "'e sound_engine \<Rightarrow> mgr \<Rightarrow> sound_args \<Rightarrow> 'e sounds \<Rightarrow> 32 word \<times> 'e sounds" where
  "free_and_retry E m args s =
     (case oldest_live m s of
        None \<Rightarrow> (NO_SOUND, s)
      | Some r \<Rightarrow> engine_play E m args (StopSound E m (currentAdapterHandle r) s))"

definition PlaySound :: "'e sound_engine \<Rightarrow> mgr \<Rightarrow> sound_args \<Rightarrow> 'e sounds \<Rightarrow> 32 word \<times> 'e sounds" where
  "PlaySound E m args s =
     (let (out, s1) = engine_play E m args s
      in if \<not> usePure s then (out, s1)
         else (let (out, s2) = (if out = NO_SOUND then free_and_retry E m args s1 else (out, s1))
               in if out = NO_SOUND then (out, s2) else (out, note_play E m args out s2)))"

definition stop_meta :: "mgr \<Rightarrow> nat \<Rightarrow> 'e sounds \<Rightarrow> 'e sounds" where
  "stop_meta m i s =
     (let meta = (current s (m, i))\<lparr>bLive := False\<rparr> in queue_stop m meta (set_req (m, i) meta s))"

definition StopAll :: "'e sound_engine \<Rightarrow> mgr \<Rightarrow> 'e sounds \<Rightarrow> 'e sounds" where
  "StopAll E m s =
     (if usePure s then fold (stop_meta m) [0..<numAdapters s m] s
      else s\<lparr>eng := en_stopAll E m (eng s)\<rparr>)"

definition CriPlayerAdapter_IsStillPlaying :: "'e sound_engine \<Rightarrow> mgr \<times> nat \<Rightarrow> 'e sounds \<Rightarrow> bool" where
  "CriPlayerAdapter_IsStillPlaying E a s =
     (if usePure s then bLive (current s a) else en_stillPlaying E a (eng s))"

section \<open>SyncState\<close>

text \<open>Phase one: a queued stop ends at most the one instance it was issued against.\<close>

definition same_instance :: "sound_req \<Rightarrow> sound_req \<Rightarrow> bool" where
  "same_instance stopped r \<longleftrightarrow> bLive r \<and> IsEqual stopped r \<and> nFrame r = nFrame stopped"

definition apply_stop :: "'e sound_engine \<Rightarrow> mgr \<Rightarrow> sound_req \<Rightarrow> 'e sounds \<Rightarrow> 'e sounds" where
  "apply_stop E real stopped s =
     (case find (\<lambda>i. same_instance stopped (current s (real, i))) [0..<numAdapters s real] of
        None \<Rightarrow> s
      | Some i \<Rightarrow> StopSound E real (currentAdapterHandle (current s (real, i))) s)"

text \<open>Phase two: a live real sound no live stub sound asks for is stopped.\<close>

definition wanted :: "mgr \<Rightarrow> sound_req \<Rightarrow> 'e sounds \<Rightarrow> bool" where
  "wanted stub r s \<longleftrightarrow>
     list_ex (\<lambda>j. bLive (current s (stub, j)) \<and> IsEqual (current s (stub, j)) r) [0..<numAdapters s stub]"

definition stop_unwanted :: "'e sound_engine \<Rightarrow> mgr \<Rightarrow> mgr \<Rightarrow> nat \<Rightarrow> 'e sounds \<Rightarrow> 'e sounds" where
  "stop_unwanted E stub real i s =
     (let r = current s (real, i)
      in if bLive r \<and> \<not> wanted stub r s then StopSound E real (currentAdapterHandle r) s else s)"

text \<open>Phase three: every live stub sound claims a matching real player or starts one;
  the claims are the indices found so far.\<close>

definition find_claim :: "mgr \<Rightarrow> mgr \<Rightarrow> sound_req \<Rightarrow> nat list \<Rightarrow> 'e sounds \<Rightarrow> nat option" where
  "find_claim stub real r claimed s =
     find (\<lambda>j. bLive (current s (real, j)) \<and> IsEqual r (current s (real, j)) \<and> j \<notin> set claimed)
       [0..<numAdapters s stub]"

definition mirror :: "'e sound_engine \<Rightarrow> mgr \<times> nat \<Rightarrow> mgr \<times> nat \<Rightarrow> 'e sounds \<Rightarrow> 'e sounds" where
  "mirror E from_a to_a s =
     (let s1 = set_req to_a ((current s to_a)\<lparr>nFrame := nFrame (current s from_a)\<rparr>) s
      in s1\<lparr>eng := en_setParams E to_a (en_params E from_a (eng s1)) (eng s1)\<rparr>)"

definition reconcile :: "'e sound_engine \<Rightarrow> mgr \<Rightarrow> mgr \<Rightarrow> nat \<Rightarrow> nat list \<times> 'e sounds \<Rightarrow> nat list \<times> 'e sounds" where
  "reconcile E stub real i cs =
     (let (claimed, s) = cs; r = current s (stub, i)
      in if \<not> bLive r then (claimed, s)
         else (case find_claim stub real r claimed s of
                 Some j \<Rightarrow> (claimed @ [j], mirror E (stub, i) (real, j) s)
               | None \<Rightarrow> (let (h, s1) = PlaySound E real (req_args r) s
                          in if h = NO_SOUND then (claimed, s1)
                             else (claimed, mirror E (stub, i) (real, ref_index h) s1))))"

definition phase_stops :: "'e sound_engine \<Rightarrow> mgr \<Rightarrow> mgr \<Rightarrow> 'e sounds \<Rightarrow> 'e sounds" where
  "phase_stops E stub real s = fold (apply_stop E real) (queued s stub) s"

definition phase_unwanted :: "'e sound_engine \<Rightarrow> mgr \<Rightarrow> mgr \<Rightarrow> 'e sounds \<Rightarrow> 'e sounds" where
  "phase_unwanted E stub real s = fold (stop_unwanted E stub real) [0..<numAdapters s real] s"

definition phase_reconcile :: "'e sound_engine \<Rightarrow> mgr \<Rightarrow> mgr \<Rightarrow> 'e sounds \<Rightarrow> 'e sounds" where
  "phase_reconcile E stub real s = snd (fold (reconcile E stub real) [0..<numAdapters s stub] ([], s))"

definition sync_manager :: "'e sound_engine \<Rightarrow> mgr \<Rightarrow> mgr \<Rightarrow> 'e sounds \<Rightarrow> 'e sounds" where
  "sync_manager E stub real s =
     (let s3 = phase_reconcile E stub real (phase_unwanted E stub real (phase_stops E stub real s))
      in s3\<lparr>queued := (queued s3)(stub := []), eng := en_update E real (eng s3)\<rparr>)"

text \<open>The loop over the managers; a NULL real manager is dereferenced.\<close>

primrec sync_all :: "'e sound_engine \<Rightarrow> (mgr \<times> mgr option) list \<Rightarrow> 'e sounds \<Rightarrow> 'e sounds option" where
  "sync_all E [] s = Some s"
| "sync_all E (p # ps) s =
     (case snd p of None \<Rightarrow> None | Some real \<Rightarrow> sync_all E ps (sync_manager E (fst p) real s))"

definition SyncState :: "'e sound_engine \<Rightarrow> 'e sounds \<Rightarrow> 'e sounds option" where
  "SyncState E s = sync_all E (shadow s) s"

section \<open>What a synchronisation leaves alone\<close>

text \<open>Live real requests carry the handle of their own adapter.\<close>

definition handles_ok :: "mgr \<Rightarrow> 'e sounds \<Rightarrow> bool" where
  "handles_ok m s \<longleftrightarrow> (\<forall>i<numAdapters s m. bLive (current s (m, i)) \<longrightarrow>
     ref_index (currentAdapterHandle (current s (m, i))) = i)"

definition sync_frame :: "mgr \<Rightarrow> mgr \<Rightarrow> 'e sounds \<Rightarrow> 'e sounds \<Rightarrow> bool" where
  "sync_frame stub real s0 s \<longleftrightarrow> usePure s \<and> stub \<noteq> real \<and> \<not> is_stub real s \<and> handles_ok real s \<and>
     shadow s = shadow s0 \<and> queued s = queued s0 \<and> numAdapters s = numAdapters s0 \<and>
     (\<forall>m j. m \<noteq> real \<longrightarrow> current s (m, j) = current s0 (m, j))"

definition sync_ready :: "mgr \<Rightarrow> mgr \<Rightarrow> 'e sounds \<Rightarrow> bool" where
  "sync_ready stub real s \<longleftrightarrow> usePure s \<and> stub \<noteq> real \<and> \<not> is_stub real s \<and> handles_ok real s"

text \<open>The documented result of the engine's PlaySound: the failure sentinel or a
  handle of one of the manager's adapters.\<close>

definition plays_in_range :: "'e sound_engine \<Rightarrow> mgr \<Rightarrow> nat \<Rightarrow> bool" where
  "plays_in_range E m n \<longleftrightarrow>
     (\<forall>args e. fst (en_play E m args e) \<noteq> NO_SOUND \<longrightarrow> ref_index (fst (en_play E m args e)) < n)"

lemma sync_frame_refl: "sync_ready stub real s \<Longrightarrow> sync_frame stub real s s"
  by (simp add: sync_frame_def sync_ready_def)

lemma IsEqual_args: "IsEqual l r \<longleftrightarrow> req_args l = req_args r"
  by (auto simp: IsEqual_def req_args_def)

lemma is_stub_simps [simp]:
  "is_stub m (set_req a r s) = is_stub m s" "is_stub m (s\<lparr>eng := e\<rparr>) = is_stub m s"
  by (simp_all add: is_stub_def set_req_def)

lemma set_req_simps [simp]:
  "usePure (set_req a r s) = usePure s" "shadow (set_req a r s) = shadow s"
  "queued (set_req a r s) = queued s" "numAdapters (set_req a r s) = numAdapters s"
  "eng (set_req a r s) = eng s" "current (set_req a r s) = (current s)(a := r)"
  by (simp_all add: set_req_def)

text \<open>What StopSound does to a manager that is not a stub.\<close>

lemma StopSound_real:
  "usePure s \<Longrightarrow> \<not> is_stub m s \<Longrightarrow>
   StopSound E m h s = (set_req (m, ref_index h) ((current s (m, ref_index h))\<lparr>bLive := False\<rparr>) s)
     \<lparr>eng := en_stop E m h (eng s)\<rparr>"
  by (simp add: StopSound_def Let_def queue_stop_def)

lemma StopSound_frame [inv_intros]:
  "sync_frame stub real s0 s \<Longrightarrow> sync_frame stub real s0 (StopSound E real h s)"
  by (simp add: sync_frame_def StopSound_real handles_ok_def)

lemma StopSound_live:
  "usePure s \<Longrightarrow> \<not> is_stub m s \<Longrightarrow>
   bLive (current (StopSound E m h s) a) \<longleftrightarrow> a \<noteq> (m, ref_index h) \<and> bLive (current s a)"
  by (simp add: StopSound_real)

lemma StopSound_args:
  "usePure s \<Longrightarrow> \<not> is_stub m s \<Longrightarrow> req_args (current (StopSound E m h s) a) = req_args (current s a)"
  by (simp add: StopSound_real req_args_def)

lemma apply_stop_frame: "sync_frame stub real s0 s \<Longrightarrow> sync_frame stub real s0 (apply_stop E real r s)"
  by (simp add: apply_stop_def StopSound_frame split: option.split)

lemma phase_stops_frame:
  assumes "sync_frame stub real s0 s"
  shows "sync_frame stub real s0 (phase_stops E stub real s)"
proof -
  have "sync_frame stub real s0 (fold (apply_stop E real) rs t)" if "sync_frame stub real s0 t" for rs t
    using that by (induction rs arbitrary: t) (auto intro: apply_stop_frame)
  then show ?thesis using assms by (simp add: phase_stops_def)
qed

text \<open>The two facts of a frame the phases use: a wanted sound stays wanted.\<close>

lemma wanted_frame:
  "sync_frame stub real s0 s \<Longrightarrow> wanted stub r s = wanted stub r s0"
  by (simp add: sync_frame_def wanted_def)

lemma wanted_args: "req_args r = req_args r' \<Longrightarrow> wanted stub r s = wanted stub r' s"
  by (simp add: wanted_def IsEqual_args)

definition stray_free :: "mgr \<Rightarrow> mgr \<Rightarrow> nat \<Rightarrow> 'e sounds \<Rightarrow> bool" where
  "stray_free stub real n s \<longleftrightarrow> (\<forall>i<n. bLive (current s (real, i)) \<longrightarrow> wanted stub (current s (real, i)) s)"

lemma stop_unwanted_frame:
  "sync_frame stub real s0 s \<Longrightarrow> sync_frame stub real s0 (stop_unwanted E stub real i s)"
  by (simp add: stop_unwanted_def Let_def StopSound_frame)

lemma StopSound_stray_free:
  assumes f: "sync_frame stub real s0 s" and sf: "stray_free stub real n s"
  shows "stray_free stub real n (StopSound E real h s)"
proof -
  have r: "usePure s" "\<not> is_stub real s" using f by (auto simp: sync_frame_def)
  have w: "wanted stub q (StopSound E real h s) = wanted stub q s" for q
    using wanted_frame [OF f, of q] wanted_frame [OF StopSound_frame [OF f], of q E h] by simp
  have "wanted stub (current (StopSound E real h s) a) s = wanted stub (current s a) s" for a
    by (rule wanted_args [OF StopSound_args [OF r]])
  then show ?thesis using sf by (simp add: stray_free_def StopSound_live [OF r] w)
qed

lemma stop_unwanted_step:
  assumes f: "sync_frame stub real s0 s" and i: "i < numAdapters s real"
    and sf: "stray_free stub real i s"
  shows "stray_free stub real (Suc i) (stop_unwanted E stub real i s)"
proof (cases "bLive (current s (real, i)) \<and> \<not> wanted stub (current s (real, i)) s")
  case True
  have r: "usePure s" "\<not> is_stub real s" using f by (auto simp: sync_frame_def)
  let ?h = "currentAdapterHandle (current s (real, i))"
  have "ref_index ?h = i" using f i True by (simp add: sync_frame_def handles_ok_def)
  then have "\<not> bLive (current (StopSound E real ?h s) (real, i))" by (simp add: StopSound_live [OF r])
  with StopSound_stray_free [OF f sf] True show ?thesis
    by (simp add: stray_free_def stop_unwanted_def Let_def less_Suc_eq)
next
  case False
  then show ?thesis using sf by (auto simp: stray_free_def stop_unwanted_def Let_def less_Suc_eq)
qed

lemma phase_unwanted_stray_free:
  assumes f: "sync_frame stub real s0 s"
  shows "sync_frame stub real s0 (phase_unwanted E stub real s) \<and>
     stray_free stub real (numAdapters s real) (phase_unwanted E stub real s)"
proof -
  have "k \<le> numAdapters s real \<Longrightarrow>
      sync_frame stub real s0 (fold (stop_unwanted E stub real) [0..<k] s) \<and>
      stray_free stub real k (fold (stop_unwanted E stub real) [0..<k] s)" for k
  proof (induction k)
    case 0
    then show ?case using f by (simp add: stray_free_def)
  next
    case (Suc k)
    let ?t = "fold (stop_unwanted E stub real) [0..<k] s"
    have t: "sync_frame stub real s0 ?t" "stray_free stub real k ?t" using Suc by auto
    have "numAdapters ?t real = numAdapters s real" using t(1) f by (simp add: sync_frame_def)
    then show ?case
      using stop_unwanted_frame [OF t(1)] stop_unwanted_step [OF t(1) _ t(2)] Suc.prems by simp
  qed
  then show ?thesis by (simp add: phase_unwanted_def)
qed

section \<open>Reconciliation\<close>

lemma engine_play_simps [simp]:
  "fst (engine_play E m args s) = fst (en_play E m args (eng s))"
  "snd (engine_play E m args s) = s\<lparr>eng := snd (en_play E m args (eng s))\<rparr>"
  by (simp_all add: engine_play_def case_prod_unfold Let_def)

lemma eng_frame [simp]: "sync_frame stub real s0 (s\<lparr>eng := e\<rparr>) = sync_frame stub real s0 s"
  by (simp add: sync_frame_def handles_ok_def)

lemma eng_stray_free [simp]: "stray_free stub real n (s\<lparr>eng := e\<rparr>) = stray_free stub real n s"
  by (simp add: stray_free_def wanted_def)

lemma set_req_frame:
  "sync_frame stub real s0 s \<Longrightarrow> (bLive r \<Longrightarrow> ref_index (currentAdapterHandle r) = i) \<Longrightarrow>
   sync_frame stub real s0 (set_req (real, i) r s)"
  by (simp add: sync_frame_def handles_ok_def)

lemma set_req_stray_free:
  assumes "sync_frame stub real s0 s" "stray_free stub real n s"
    and "bLive r \<Longrightarrow> wanted stub r s" and "bLive r \<Longrightarrow> ref_index (currentAdapterHandle r) = i"
  shows "stray_free stub real n (set_req (real, i) r s)"
proof -
  have "wanted stub q (set_req (real, i) r s) = wanted stub q s" for q
    using assms(1) by (simp add: sync_frame_def wanted_def)
  then show ?thesis using assms(2,3) by (auto simp: stray_free_def)
qed

definition good :: "mgr \<Rightarrow> mgr \<Rightarrow> nat \<Rightarrow> 'e sounds \<Rightarrow> 'e sounds \<Rightarrow> bool" where
  "good stub real n s0 s \<longleftrightarrow> sync_frame stub real s0 s \<and> stray_free stub real n s"

lemma good_eng [simp]: "good stub real n s0 (s\<lparr>eng := e\<rparr>) = good stub real n s0 s"
  by (simp add: good_def)

lemma good_stop: "good stub real n s0 s \<Longrightarrow> good stub real n s0 (StopSound E real h s)"
  by (auto simp: good_def intro: StopSound_frame StopSound_stray_free)

lemma good_retry: "good stub real n s0 s \<Longrightarrow> good stub real n s0 (snd (free_and_retry E real args s))"
  by (simp add: free_and_retry_def good_stop split: option.split)

lemma good_note:
  assumes g: "good stub real n s0 s" and w: "wanted stub r s0" and a: "req_args r = args"
  shows "good stub real n s0 (note_play E real args h s)"
proof -
  have f: "sync_frame stub real s0 s" using g by (simp add: good_def)
  have q: "queue_stop real m' s = s" for m' using f by (simp add: sync_frame_def queue_stop_def)
  obtain sheet cue ty fl pos where args: "args = (sheet, cue, ty, fl, pos)" by (cases args)
  define r' where "r' = \<lparr>bLive = True, nFrame = en_frame E (eng s), currentAdapterHandle = h,
      cueSheetHandle = sheet, cueIdx = cue, s_type = ty, s_flags = fl, s_position = pos\<rparr>"
  have "req_args r' = req_args r" by (simp add: r'_def req_args_def [of r'] a args) (simp add: req_args_def)
  then have "wanted stub r' s" using w wanted_frame [OF f, of r] wanted_args by metis
  moreover have "note_play E real args h s = set_req (real, ref_index h) r' s"
    by (simp add: note_play_def Let_def q args r'_def)
  moreover have "currentAdapterHandle r' = h" by (simp add: r'_def)
  ultimately show ?thesis
    using g set_req_frame [OF f, of r' "ref_index h"] set_req_stray_free [OF f, of n r' "ref_index h"]
    by (simp add: good_def)
qed

lemma good_play:
  assumes "good stub real n s0 s" "wanted stub r s0"
  shows "good stub real n s0 (snd (PlaySound E real (req_args r) s))"
proof -
  have "usePure s" using assms(1) by (simp add: good_def sync_frame_def)
  moreover have "good stub real n s0 (note_play E real (req_args r) h t)" if "good stub real n s0 t" for h t
    by (rule good_note [OF that assms(2) refl])
  moreover have "good stub real n s0 (s\<lparr>eng := e\<rparr>)" for e using assms(1) by simp
  ultimately show ?thesis
    by (simp add: PlaySound_def Let_def case_prod_unfold good_retry)
qed

lemma good_mirror:
  assumes g: "good stub real n s0 s" and i: "i < numAdapters s real" "numAdapters s real = n"
  shows "good stub real n s0 (mirror E a (real, i) s)"
proof -
  have f: "sync_frame stub real s0 s" using g by (simp add: good_def)
  let ?r = "(current s (real, i))\<lparr>nFrame := nFrame (current s a)\<rparr>"
  have h: "ref_index (currentAdapterHandle ?r) = i" if "bLive ?r"
    using that f i by (simp add: sync_frame_def handles_ok_def)
  have "wanted stub ?r s" if "bLive ?r"
  proof -
    have "wanted stub (current s (real, i)) s" using that g i by (simp add: good_def stray_free_def)
    moreover have "req_args ?r = req_args (current s (real, i))" by (simp add: req_args_def)
    ultimately show ?thesis using wanted_args by metis
  qed
  then have "good stub real n s0 (set_req (real, i) ?r s)"
    using g set_req_frame [OF f h] set_req_stray_free [OF f _ _ h] by (simp add: good_def)
  then show ?thesis by (simp add: mirror_def Let_def)
qed

lemma play_range:
  assumes "plays_in_range E m n" "fst (PlaySound E m args s) \<noteq> NO_SOUND"
  shows "ref_index (fst (PlaySound E m args s)) < n"
proof -
  have L: "ref_index (fst (en_play E m args e)) < n" if "fst (en_play E m args e) \<noteq> NO_SOUND" for e
    using assms(1) that unfolding plays_in_range_def by blast
  show ?thesis using assms(2)
    by (auto simp: PlaySound_def Let_def case_prod_unfold free_and_retry_def intro!: L
        split: if_splits option.splits)
qed

lemma find_claim_Some:
  "find_claim stub real r claimed s = Some j \<Longrightarrow>
   j < numAdapters s stub \<and> bLive (current s (real, j)) \<and> IsEqual r (current s (real, j)) \<and> j \<notin> set claimed"
  unfolding find_claim_def by (auto simp: find_Some_iff)

lemma reconcile_good:
  assumes g: "good stub real n s0 (snd cs)" and E: "plays_in_range E real n"
    and n: "numAdapters s0 stub \<le> n" "numAdapters s0 real = n" and i: "i < numAdapters s0 stub"
  shows "good stub real n s0 (snd (reconcile E stub real i cs))"
proof -
  obtain claimed s where cs: "cs = (claimed, s)" by (cases cs)
  have gs: "good stub real n s0 s" using g cs by simp
  then have f: "sync_frame stub real s0 s" by (simp add: good_def)
  let ?r = "current s (stub, i)"
  show ?thesis
  proof (cases "bLive ?r")
    case False
    then show ?thesis using gs by (simp add: reconcile_def cs)
  next
    case True
    have "?r = current s0 (stub, i)" using f by (simp add: sync_frame_def)
    then have w: "wanted stub ?r s0" using True i by (auto simp: wanted_def list_ex_iff IsEqual_args)
    show ?thesis
    proof (cases "find_claim stub real ?r claimed s")
      case None
      let ?p = "PlaySound E real (req_args ?r) s"
      have gp: "good stub real n s0 (snd ?p)" by (rule good_play [OF gs w])
      have "good stub real n s0 (mirror E (stub, i) (real, ref_index (fst ?p)) (snd ?p))" if "fst ?p \<noteq> NO_SOUND"
        using play_range [OF E that] gp n by (intro good_mirror) (auto simp: good_def sync_frame_def)
      then show ?thesis using True None gp by (simp add: reconcile_def cs Let_def case_prod_unfold)
    next
      case (Some j)
      have "j < numAdapters s real" "numAdapters s real = n"
        using find_claim_Some [OF Some] f n by (auto simp: sync_frame_def)
      then show ?thesis using True Some good_mirror [OF gs] by (simp add: reconcile_def cs)
    qed
  qed
qed

lemma phase_reconcile_good:
  assumes g: "good stub real n s0 s" and E: "plays_in_range E real n"
    and n: "numAdapters s0 stub \<le> n" "numAdapters s0 real = n"
  shows "good stub real n s0 (phase_reconcile E stub real s)"
proof -
  have "k \<le> numAdapters s0 stub \<Longrightarrow> good stub real n s0 (snd (fold (reconcile E stub real) [0..<k] ([], s)))" for k
    by (induction k) (use g reconcile_good [OF _ E n] in auto)
  moreover have "numAdapters s stub = numAdapters s0 stub" using g by (simp add: good_def sync_frame_def)
  ultimately show ?thesis by (simp add: phase_reconcile_def)
qed

lemma sync_manager_good:
  assumes "sync_ready stub real s" "plays_in_range E real (numAdapters s real)"
    and "numAdapters s stub \<le> numAdapters s real"
  shows "good stub real (numAdapters s real) s
     (phase_reconcile E stub real (phase_unwanted E stub real (phase_stops E stub real s)))"
proof -
  have f: "sync_frame stub real s (phase_stops E stub real s)"
    by (rule phase_stops_frame [OF sync_frame_refl [OF assms(1)]])
  have "numAdapters (phase_stops E stub real s) = numAdapters s" using f by (simp add: sync_frame_def)
  then show ?thesis
    using phase_reconcile_good [OF _ assms(2) assms(3) refl] phase_unwanted_stray_free [OF f, of E]
    by (simp add: good_def)
qed

text \<open>
  C20: After a stub and its real manager are synchronised, every sound the real
  manager still has live is one a live stub sound asks for, whatever rollbacks
  did to the stub's metadata before; the stub's own metadata, the other
  managers and the handle invariant are untouched, and the queued stops are
  drained, so a stop is never applied twice.
\<close>

theorem sync_leaves_no_stray_sound:
  assumes "sync_ready stub real s" and "plays_in_range E real (numAdapters s real)"
    and "numAdapters s stub \<le> numAdapters s real"
  shows "(let s' = sync_manager E stub real s
     in stray_free stub real (numAdapters s' real) s' \<and> handles_ok real s' \<and> queued s' stub = [] \<and>
        (\<forall>j. current s' (stub, j) = current s (stub, j)))"
proof -
  define t where "t = phase_reconcile E stub real (phase_unwanted E stub real (phase_stops E stub real s))"
  have "good stub real (numAdapters s real) s t" unfolding t_def by (rule sync_manager_good [OF assms])
  moreover have "sync_manager E stub real s = t\<lparr>queued := (queued t)(stub := []), eng := en_update E real (eng t)\<rparr>"
    by (simp add: sync_manager_def t_def Let_def)
  moreover have "wanted stub r (t\<lparr>queued := q, eng := e\<rparr>) = wanted stub r t" for r q e
    by (simp add: wanted_def)
  ultimately show ?thesis
    by (simp add: Let_def good_def sync_frame_def stray_free_def handles_ok_def)
qed

section \<open>A counting engine\<close>

text \<open>An engine whose state is the number of players handed out and the number of
  stops; a play succeeds while one of its two players is left.\<close>

definition count_engine :: "(nat \<times> nat) sound_engine" where
  "count_engine = \<lparr>en_newPlayer = (\<lambda>e. (0, e)), en_factory = (\<lambda>b e. ((fst e, 2), (fst e + 1, snd e))),
     en_destroy = (\<lambda>m e. e),
     en_play = (\<lambda>m a e. if fst e < 2 then (push_bit 16 (of_nat (fst e)), (fst e + 1, snd e)) else (NO_SOUND, e)),
     en_stop = (\<lambda>m h e. (fst e, snd e + 1)), en_stopAll = (\<lambda>m e. e), en_update = (\<lambda>m e. e),
     en_stillPlaying = (\<lambda>a e. False),
     en_params = (\<lambda>a e. \<lparr>cri_flags = 0, cri_position = 0, cri_volume = 0, cri_fadeScale = 0,
        cri_playState = 0, cri_field6 = 0\<rparr>),
     en_setParams = (\<lambda>a p e. e), en_frame = (\<lambda>e. 60)\<rparr>"

definition cue :: "32 word \<Rightarrow> 32 word \<Rightarrow> sound_req" where
  "cue c h = \<lparr>bLive = True, nFrame = 10, currentAdapterHandle = h, cueSheetHandle = 5, cueIdx = c,
     s_type = 0, s_flags = 0, s_position = 0\<rparr>"

definition stub_and_real :: "sound_req \<Rightarrow> sound_req \<Rightarrow> sound_req \<Rightarrow> (nat \<times> nat) sounds" where
  "stub_and_real a b r = \<lparr>usePure = True, allowNew = True, shadow = [(1, Some 2)],
     current = (\<lambda>_. zero_req)((1, 0) := a, (1, Suc 0) := b, (2, 0) := r), queued = (\<lambda>_. []),
     numAdapters = (\<lambda>_. 2), eng = (0, 0)\<rparr>"

lemma count_engine_range: "plays_in_range count_engine m 2"
proof -
  have "ref_index (push_bit 16 (of_nat i)) < 2" if "i < 2" for i :: nat
  proof -
    have "i = 0 \<or> i = 1" using that by auto
    then show ?thesis by (auto simp: ref_index_def)
  qed
  then show ?thesis by (auto simp: plays_in_range_def count_engine_def)
qed

theorem sync_leaves_no_stray_sound_witness:
  "let s' = sync_manager count_engine 1 2 (stub_and_real (cue 3 0) zero_req (cue 4 0))
   in stray_free 1 2 (numAdapters s' 2) s' \<and> handles_ok 2 s' \<and> queued s' 1 = [] \<and>
      (\<forall>j. current s' (1, j) = current (stub_and_real (cue 3 0) zero_req (cue 4 0)) (1, j))"
  by (rule sync_leaves_no_stray_sound)
    (simp_all add: sync_ready_def stub_and_real_def is_stub_def handles_ok_def cue_def zero_req_def
      ref_index_def count_engine_range)

text \<open>Two identical live stub sounds: the player started for the first is not in the
  claimed set, so the second finds it there and no second player is started.\<close>

lemma parallel_identical_sounds:
  "map (\<lambda>j. bLive (current (sync_manager count_engine 1 2 (stub_and_real (cue 3 0) (cue 3 65536) zero_req)) (2, j)))
     [0, 1] = [True, False]"
  by code_simp

lemma ToHandle_loses_index: "ToHandle 3 7 = 0 \<and> ref_index (ToHandle 3 7) \<noteq> 3"
  by (simp add: ToHandle_def ref_index_def)

end
