(* ===== verification/Sound_Pool.thy ===== *)
theory Sound_Pool
  imports Prelude "HOL-Library.Monad_Syntax"
begin

text \<open>
  The sound object pool (sf4e__Platform.hxx, SoundObjectPool<N>): entries at
  addresses of a heap, on two doubly linked lists kept by head and tail
  pointers, 0 being NULL. Save copies both lists out, Load rebuilds them in
  place. A dereference of NULL is None; the loops that follow pointers are
  partial functions, shown to return on a well-formed pool.
\<close>

section \<open>The pool\<close>

record entry =
  e_handle :: "32 word"
  e_field4 :: "32 word"
  e_prev :: nat
  e_next :: nat
  e_data :: "8 word list"

record pool =
  inactiveHead :: nat
  inactiveTail :: nat
  activeHead :: nat
  activeTail :: nat
  heap :: "nat \<Rightarrow> entry"

record entry_state =
  es_handle :: "32 word"
  es_field4 :: "32 word"
  es_data :: "8 word list"

record pool_state =
  ps_inactive :: "entry_state list"
  ps_active :: "entry_state list"

definition entry_save :: "entry \<Rightarrow> entry_state" where
  "entry_save e = \<lparr>es_handle = e_handle e, es_field4 = e_field4 e, es_data = e_data e\<rparr>"

definition entry_load :: "entry_state \<Rightarrow> entry \<Rightarrow> entry" where
  "entry_load s e = e\<lparr>e_handle := es_handle s, e_field4 := es_field4 s, e_data := es_data s\<rparr>"

section \<open>Save\<close>

partial_function (option) save_list :: "(nat \<Rightarrow> entry) \<Rightarrow> nat \<Rightarrow> entry_state list option" where
  [code]: "save_list h cursor =
     (if cursor = 0 then Some []
      else do { rest \<leftarrow> save_list h (e_next (h cursor)); Some (entry_save (h cursor) # rest) })"

text \<open>Save appends to the vectors of its destination.\<close>

definition pool_Save :: "pool \<Rightarrow> pool_state \<Rightarrow> pool_state option" where
  "pool_Save s dst = do {
     i \<leftarrow> save_list (heap s) (inactiveHead s);
     a \<leftarrow> save_list (heap s) (activeHead s);
     Some \<lparr>ps_inactive = ps_inactive dst @ i, ps_active = ps_active dst @ a\<rparr> }"

definition pool_state_empty :: pool_state where
  "pool_state_empty = \<lparr>ps_inactive = [], ps_active = []\<rparr>"

section \<open>Load\<close>

text \<open>The entry becomes the last one of a list with the given head and tail.\<close>

definition link_last :: "nat \<Rightarrow> (nat \<Rightarrow> entry) \<Rightarrow> nat \<Rightarrow> nat \<Rightarrow> (nat \<Rightarrow> entry)" where
  "link_last cursor h head tail =
     (let h1 = h(cursor := (h cursor)\<lparr>e_prev := tail, e_next := 0\<rparr>)
      in if tail \<noteq> 0 then h1(tail := (h1 tail)\<lparr>e_next := cursor\<rparr>) else h1)"

definition retire_head :: "pool \<Rightarrow> pool" where
  "retire_head s =
     (let c = activeHead s
      in s\<lparr>activeHead := e_next (heap s c),
           heap := link_last c (heap s) (inactiveHead s) (inactiveTail s),
           inactiveHead := (if inactiveHead s = 0 then c else inactiveHead s),
           inactiveTail := c\<rparr>)"

partial_function (option) retire_all :: "pool \<Rightarrow> pool option" where
  [code]: "retire_all s = (if activeHead s = 0 then Some s else retire_all (retire_head s))"

definition activate :: "entry_state \<Rightarrow> pool \<Rightarrow> pool option" where
  "activate es s =
     (let c = inactiveHead s
      in if c = 0 then None
         else let nh = e_next (heap s c);
                  h = (heap s)(c := entry_load es (heap s c))
              in Some (s\<lparr>inactiveHead := nh,
                   inactiveTail := (if nh = 0 then 0 else inactiveTail s),
                   heap := link_last c h (activeHead s) (activeTail s),
                   activeHead := (if activeHead s = 0 then c else activeHead s),
                   activeTail := c\<rparr>))"

primrec activate_all :: "entry_state list \<Rightarrow> pool \<Rightarrow> pool option" where
  "activate_all [] s = Some s"
| "activate_all (es # rest) s = do { s' \<leftarrow> activate es s; activate_all rest s' }"

primrec refill :: "entry_state list \<Rightarrow> nat \<Rightarrow> (nat \<Rightarrow> entry) \<Rightarrow> (nat \<Rightarrow> entry) option" where
  "refill [] cursor h = Some h"
| "refill (es # rest) cursor h =
     (if cursor = 0 then None
      else let h' = h(cursor := entry_load es (h cursor)) in refill rest (e_next (h' cursor)) h')"

definition pool_Load :: "pool_state \<Rightarrow> pool \<Rightarrow> pool option" where
  "pool_Load src s = do {
     s1 \<leftarrow> retire_all s;
     s2 \<leftarrow> activate_all (ps_active src) (s1\<lparr>activeTail := 0\<rparr>);
     h \<leftarrow> refill (ps_inactive src) (inactiveHead s2) (heap s2);
     Some (s2\<lparr>heap := h\<rparr>) }"

section \<open>Linked lists\<close>

fun chain :: "(nat \<Rightarrow> entry) \<Rightarrow> nat \<Rightarrow> nat list \<Rightarrow> bool" where
  "chain h p [] = (p = 0)"
| "chain h p (x # xs) = (p = x \<and> x \<noteq> 0 \<and> chain h (e_next (h x)) xs)"

definition last0 :: "nat list \<Rightarrow> nat" where
  "last0 xs = (if xs = [] then 0 else last xs)"

fun back_linked :: "(nat \<Rightarrow> entry) \<Rightarrow> nat \<Rightarrow> nat list \<Rightarrow> bool" where
  "back_linked h q [] = True"
| "back_linked h q (x # xs) = (e_prev (h x) = q \<and> back_linked h x xs)"

text \<open>A pool with the entries \<open>ins\<close> inactive and \<open>acts\<close> active, in list order.\<close>

definition pool_ok :: "pool \<Rightarrow> nat list \<Rightarrow> nat list \<Rightarrow> bool" where
  "pool_ok s ins acts \<longleftrightarrow> chain (heap s) (inactiveHead s) ins \<and> chain (heap s) (activeHead s) acts \<and>
     inactiveTail s = last0 ins \<and> activeTail s = last0 acts \<and> distinct (ins @ acts)"

lemma last0_simps [simp]: "last0 [] = 0" "last0 (xs @ [x]) = x" "last0 [x] = x"
  "xs \<noteq> [] \<Longrightarrow> last0 (x # xs) = last0 xs"
  by (simp_all add: last0_def)

lemma chain_nonzero: "chain h p xs \<Longrightarrow> 0 \<notin> set xs"
  by (induction xs arbitrary: p) auto

lemma chain_hd: "chain h p xs \<Longrightarrow> p = (case xs of [] \<Rightarrow> 0 | x # _ \<Rightarrow> x)"
  by (cases xs) auto

lemma chain_cong: "(\<And>x. x \<in> set xs \<Longrightarrow> e_next (h x) = e_next (h' x)) \<Longrightarrow> chain h p xs = chain h' p xs"
  by (induction xs arbitrary: p) auto

lemma chain_snoc:
  "chain h p xs \<Longrightarrow> y \<noteq> 0 \<Longrightarrow> y \<notin> set xs \<Longrightarrow> distinct xs \<Longrightarrow>
   chain (link_last y h q (last0 xs)) (if p = 0 then y else p) (xs @ [y])"
proof (induction xs arbitrary: p)
  case Nil
  then show ?case by (simp add: link_last_def)
next
  case (Cons x xs)
  then have x: "p = x" "x \<noteq> 0" "chain h (e_next (h x)) xs" by auto
  show ?case
  proof (cases "xs = []")
    case True
    then show ?thesis using Cons.prems x by (simp add: link_last_def Let_def)
  next
    case False
    then have l: "last0 (x # xs) = last0 xs" "last0 xs \<noteq> x"
      using Cons.prems(4) by (auto simp: last0_def)
    have "chain (link_last y h q (last0 xs)) (if e_next (h x) = 0 then y else e_next (h x)) (xs @ [y])"
      by (rule Cons.IH) (use Cons.prems x in auto)
    moreover have "e_next (h x) \<noteq> 0" using x(3) False chain_hd [OF x(3)] chain_nonzero [OF x(3)]
      by (cases xs) auto
    moreover have "e_next (link_last y h q (last0 xs) x) = e_next (h x)"
      using l(2) Cons.prems(3) by (simp add: link_last_def Let_def)
    ultimately show ?thesis using x by (simp add: l(1))
  qed
qed

lemma link_last_other: "x \<noteq> y \<Longrightarrow> x \<noteq> t \<Longrightarrow> link_last y h q t x = h x"
  by (simp add: link_last_def Let_def)

lemma link_last_save: "entry_save (link_last y h q t x) = entry_save (h x)"
  by (simp add: link_last_def Let_def entry_save_def)

lemma last0_in: "last0 xs = 0 \<or> last0 xs \<in> set xs"
  by (simp add: last0_def)

lemma chain_link_other:
  assumes "chain h p xs" "y \<notin> set xs" "t = 0 \<or> t \<notin> set xs"
  shows "chain (link_last y h q t) p xs"
proof -
  have "link_last y h q t x = h x" if "x \<in> set xs" for x
    using that assms chain_nonzero [OF assms(1)] by (intro link_last_other) auto
  then show ?thesis using assms(1) chain_cong [of xs h "link_last y h q t" p] by simp
qed

lemma save_list_chain: "chain h p xs \<Longrightarrow> save_list h p = Some (map (\<lambda>x. entry_save (h x)) xs)"
  by (induction xs arbitrary: p) (simp_all add: save_list.simps)

lemma pool_Save_ok:
  assumes "pool_ok s ins acts"
  shows "pool_Save s dst = Some \<lparr>
     ps_inactive = ps_inactive dst @ map (\<lambda>x. entry_save (heap s x)) ins,
     ps_active = ps_active dst @ map (\<lambda>x. entry_save (heap s x)) acts\<rparr>"
proof -
  have "chain (heap s) (inactiveHead s) ins" "chain (heap s) (activeHead s) acts"
    using assms by (auto simp: pool_ok_def)
  from this [THEN save_list_chain] show ?thesis by (simp add: pool_Save_def)
qed

section \<open>Load rebuilds what Save read\<close>

lemma pool_ok_retire:
  assumes ok: "pool_ok (s\<lparr>activeTail := last0 (y # acts)\<rparr>) ins (y # acts)"
  shows "pool_ok ((retire_head s)\<lparr>activeTail := last0 acts\<rparr>) (ins @ [y]) acts"
proof -
  from ok have c: "chain (heap s) (inactiveHead s) ins" "activeHead s = y" "y \<noteq> 0"
      "chain (heap s) (e_next (heap s y)) acts" "inactiveTail s = last0 ins"
      "distinct ins" "y \<notin> set ins" "y \<notin> set acts"
      "distinct acts" "set ins \<inter> set acts = {}"
    by (auto simp: pool_ok_def)
  have "last0 ins = 0 \<or> last0 ins \<notin> set acts" using last0_in [of ins] c(10) by auto
  then have "chain (link_last y (heap s) (inactiveHead s) (last0 ins)) (e_next (heap s y)) acts"
    by (intro chain_link_other c)
  then show ?thesis
    using c chain_snoc [OF c(1), of y "inactiveHead s"]
    by (auto simp: pool_ok_def retire_head_def Let_def last0_def)
qed

lemma retire_all_ok:
  assumes "pool_ok (s\<lparr>activeTail := last0 acts\<rparr>) ins acts"
  shows "\<exists>s'. retire_all s = Some s' \<and> pool_ok (s'\<lparr>activeTail := 0\<rparr>) (ins @ acts) [] \<and> activeHead s' = 0"
  using assms
proof (induction acts arbitrary: s ins)
  case Nil
  then show ?case by (auto simp: retire_all.simps [of s] pool_ok_def last0_def)
next
  case (Cons y acts)
  then have "activeHead s \<noteq> 0" by (auto simp: pool_ok_def)
  then have "retire_all s = retire_all (retire_head s)" by (simp add: retire_all.simps [of s])
  with Cons.IH [OF pool_ok_retire [OF Cons.prems]] show ?case by simp
qed

lemma activate_ok:
  assumes ok: "pool_ok s (y # ins) acts"
  shows "\<exists>s'. activate es s = Some s' \<and> pool_ok s' ins (acts @ [y]) \<and>
     entry_save (heap s' y) = es \<and> (\<forall>x\<in>set acts. entry_save (heap s' x) = entry_save (heap s x))"
proof -
  from ok have c: "inactiveHead s = y" "y \<noteq> 0" "chain (heap s) (e_next (heap s y)) ins"
      "chain (heap s) (activeHead s) acts" "inactiveTail s = last0 (y # ins)" "activeTail s = last0 acts"
      "y \<notin> set ins" "y \<notin> set acts" "distinct ins" "distinct acts" "set ins \<inter> set acts = {}"
    by (auto simp: pool_ok_def)
  define h where "h = (heap s)(y := entry_load es (heap s y))"
  have h: "chain h p xs = chain (heap s) p xs" for p xs
    by (rule chain_cong) (simp add: h_def entry_load_def)
  have "last0 acts = 0 \<or> last0 acts \<notin> set ins" using last0_in [of acts] c(11) by auto
  then have i: "chain (link_last y h (activeHead s) (last0 acts)) (e_next (heap s y)) ins"
    by (intro chain_link_other) (simp_all add: h c)
  have a: "chain (link_last y h (activeHead s) (last0 acts))
      (if activeHead s = 0 then y else activeHead s) (acts @ [y])"
    by (rule chain_snoc) (use c h in auto)
  define t where "t = (if e_next (heap s y) = 0 then 0 else inactiveTail s)"
  have "t = last0 ins"
    using chain_hd [OF c(3)] chain_nonzero [OF c(3)] c(5) by (cases ins) (auto simp: t_def last0_def)
  moreover have "activate es s = Some (s\<lparr>inactiveHead := e_next (heap s y), inactiveTail := t,
      heap := link_last y h (activeHead s) (last0 acts),
      activeHead := (if activeHead s = 0 then y else activeHead s), activeTail := y\<rparr>)"
    by (simp add: activate_def Let_def c(1,2,6) h_def t_def del: fun_upd_apply)
  moreover have "entry_save (h y) = es" by (simp add: h_def entry_save_def entry_load_def)
  moreover have "\<forall>x\<in>set acts. entry_save (h x) = entry_save (heap s x)"
    using c(8) by (auto simp: h_def)
  ultimately show ?thesis using i a c by (auto simp: pool_ok_def link_last_save)
qed

lemma activate_all_ok:
  assumes "pool_ok s (ys @ ins) acts" "length ess = length ys"
  shows "\<exists>s'. activate_all ess s = Some s' \<and> pool_ok s' ins (acts @ ys) \<and>
     map (\<lambda>x. entry_save (heap s' x)) ys = ess \<and>
     (\<forall>x\<in>set acts. entry_save (heap s' x) = entry_save (heap s x))"
  using assms
proof (induction ys arbitrary: s acts ess)
  case Nil
  then show ?case by simp
next
  case (Cons y ys)
  then obtain es rest where ess: "ess = es # rest" "length rest = length ys" by (cases ess) auto
  have "pool_ok s (y # ys @ ins) acts" using Cons.prems(1) by simp
  from activate_ok [OF this, of es] obtain s1 where s1: "activate es s = Some s1"
      "pool_ok s1 (ys @ ins) (acts @ [y])" "entry_save (heap s1 y) = es"
      "\<forall>x\<in>set acts. entry_save (heap s1 x) = entry_save (heap s x)"
    by blast
  from Cons.IH [OF s1(2) ess(2)] obtain s2 where s2: "activate_all rest s1 = Some s2"
      "pool_ok s2 ins ((acts @ [y]) @ ys)" "map (\<lambda>x. entry_save (heap s2 x)) ys = rest"
      "\<forall>x\<in>set (acts @ [y]). entry_save (heap s2 x) = entry_save (heap s1 x)"
    by blast
  have "\<forall>x\<in>set acts. entry_save (heap s2 x) = entry_save (heap s x)" "entry_save (heap s2 y) = es"
    using s1(3,4) s2(4) by simp_all
  then show ?case using s1(1) s2(1-3) by (simp add: ess(1))
qed

lemma refill_ok:
  assumes "chain h p xs" "distinct xs" "length ess = length xs"
  shows "\<exists>h'. refill ess p h = Some h' \<and> map (\<lambda>x. entry_save (h' x)) xs = ess \<and>
     (\<forall>x. e_next (h' x) = e_next (h x)) \<and> (\<forall>x. e_prev (h' x) = e_prev (h x)) \<and> (\<forall>x. x \<notin> set xs \<longrightarrow> h' x = h x)"
  using assms
proof (induction xs arbitrary: p h ess)
  case Nil
  then show ?case by simp
next
  case (Cons x xs)
  then obtain es rest where ess: "ess = es # rest" "length rest = length xs" by (cases ess) auto
  define h1 where "h1 = h(x := entry_load es (h x))"
  have n1: "e_next (h1 z) = e_next (h z)" "e_prev (h1 z) = e_prev (h z)" for z
    by (simp_all add: h1_def entry_load_def)
  have "chain h1 (e_next (h1 x)) xs"
    using Cons.prems(1) chain_cong [of xs h h1 "e_next (h x)"] by (simp add: n1)
  from Cons.IH [OF this _ ess(2)] Cons.prems(2) obtain h' where h': "refill rest (e_next (h1 x)) h1 = Some h'"
      "map (\<lambda>x. entry_save (h' x)) xs = rest" "\<forall>x. e_next (h' x) = e_next (h1 x)"
      "\<forall>x. e_prev (h' x) = e_prev (h1 x)" "\<forall>z. z \<notin> set xs \<longrightarrow> h' z = h1 z"
    by auto
  have "refill ess p h = Some h'" using h'(1) Cons.prems(1) by (simp add: ess(1) h1_def)
  moreover have "entry_save (h' x) = es"
    using h'(5) Cons.prems(2) by (simp add: h1_def entry_save_def entry_load_def)
  moreover have "\<forall>z. z \<notin> set (x # xs) \<longrightarrow> h' z = h z" using h'(5) by (simp add: h1_def)
  ultimately show ?case using h'(2-4) n1 by (simp add: ess(1))
qed

lemma pool_Load_ok:
  assumes ok: "pool_ok s ins acts"
    and ps: "length (ps_inactive ps) + length (ps_active ps) = length (ins @ acts)"
  shows "\<exists>s' ins' acts'. pool_Load ps s = Some s' \<and> pool_ok s' ins' acts' \<and> acts' @ ins' = ins @ acts \<and>
     map (\<lambda>x. entry_save (heap s' x)) ins' = ps_inactive ps \<and>
     map (\<lambda>x. entry_save (heap s' x)) acts' = ps_active ps"
proof -
  obtain s1 where s1: "retire_all s = Some s1" "pool_ok (s1\<lparr>activeTail := 0\<rparr>) (ins @ acts) []"
    using retire_all_ok [of acts s ins] ok by (auto simp: pool_ok_def)
  let ?n = "length (ps_active ps)"
  define ys where "ys = take ?n (ins @ acts)"
  define xs where "xs = drop ?n (ins @ acts)"
  have xy: "ys @ xs = ins @ acts" by (simp only: ys_def xs_def append_take_drop_id)
  have len: "length (ps_active ps) = length ys" "length (ps_inactive ps) = length xs"
    using ps by (simp_all add: ys_def xs_def)
  have "pool_ok (s1\<lparr>activeTail := 0\<rparr>) (ys @ xs) []" using s1(2) by (simp only: xy)
  from activate_all_ok [OF this len(1)] obtain s2 where
      s2: "activate_all (ps_active ps) (s1\<lparr>activeTail := 0\<rparr>) = Some s2" "pool_ok s2 xs ys"
        "map (\<lambda>x. entry_save (heap s2 x)) ys = ps_active ps"
    by auto
  have c: "chain (heap s2) (inactiveHead s2) xs" "distinct xs" "set xs \<inter> set ys = {}"
    using s2(2) by (auto simp: pool_ok_def)
  from refill_ok [OF c(1,2) len(2)] obtain h where h: "refill (ps_inactive ps) (inactiveHead s2) (heap s2) = Some h"
      "map (\<lambda>x. entry_save (h x)) xs = ps_inactive ps" "\<forall>x. e_next (h x) = e_next (heap s2 x)"
      "\<forall>x. x \<notin> set xs \<longrightarrow> h x = heap s2 x"
    by blast
  have "chain h p zs = chain (heap s2) p zs" for p zs by (rule chain_cong) (simp add: h(3))
  then have "pool_ok (s2\<lparr>heap := h\<rparr>) xs ys" using s2(2) by (simp add: pool_ok_def)
  moreover have "map (\<lambda>x. entry_save (h x)) ys = map (\<lambda>x. entry_save (heap s2 x)) ys"
    using h(4) c(3) by auto
  moreover have "pool_Load ps s = Some (s2\<lparr>heap := h\<rparr>)" by (simp add: pool_Load_def s1(1) s2(1) h(1))
  ultimately show ?thesis using h(2) s2(3) xy by (intro exI [of _ "s2\<lparr>heap := h\<rparr>"] exI [of _ xs] exI [of _ ys]) simp
qed

lemma pool_restored:
  assumes "pool_ok s0 ins0 acts0" and "pool_ok s ins acts"
    and "length (ins0 @ acts0) = length (ins @ acts)"
    and "pool_Save s0 pool_state_empty = Some ps"
  shows "\<exists>s' ins' acts'. pool_Load ps s = Some s' \<and> pool_ok s' ins' acts' \<and>
     acts' @ ins' = ins @ acts \<and> pool_Save s' pool_state_empty = Some ps"
proof -
  have ps: "ps = \<lparr>ps_inactive = map (\<lambda>x. entry_save (heap s0 x)) ins0,
      ps_active = map (\<lambda>x. entry_save (heap s0 x)) acts0\<rparr>"
    using assms(4) pool_Save_ok [OF assms(1)] by (simp add: pool_state_empty_def)
  have "length (ps_inactive ps) + length (ps_active ps) = length (ins @ acts)"
    using assms(3) by (simp add: ps)
  from pool_Load_ok [OF assms(2) this] obtain s' ins' acts' where
      *: "pool_Load ps s = Some s'" "pool_ok s' ins' acts'" "acts' @ ins' = ins @ acts"
        "map (\<lambda>x. entry_save (heap s' x)) ins' = ps_inactive ps"
        "map (\<lambda>x. entry_save (heap s' x)) acts' = ps_active ps"
    by blast
  then show ?thesis using pool_Save_ok [OF *(2)] by (auto simp: pool_state_empty_def)
qed

text \<open>
  C29: A saved sound pool can be loaded back into the live pool however the
  entries have moved between the active and inactive lists since: the load
  never follows a NULL pointer, leaves both lists well formed over the same
  entries, and saving the result gives the saved state again.
\<close>

theorem pool_roundtrip:
  assumes "pool_ok s0 ins0 acts0" and "pool_ok s ins acts"
    and "length (ins0 @ acts0) = length (ins @ acts)"
    and "pool_Save s0 pool_state_empty = Some ps"
  shows "\<exists>s' ins' acts'. pool_Load ps s = Some s' \<and> pool_ok s' ins' acts' \<and>
     acts' @ ins' = ins @ acts \<and> pool_Save s' pool_state_empty = Some ps"
  by (rule pool_restored [OF assms])

definition entry_at :: "32 word \<Rightarrow> nat \<Rightarrow> nat \<Rightarrow> entry" where
  "entry_at v p n = \<lparr>e_handle = v, e_field4 = 0, e_prev = p, e_next = n, e_data = [1, 2, 3, 4]\<rparr>"

definition two_inactive :: pool where
  "two_inactive = \<lparr>inactiveHead = 1, inactiveTail = 2, activeHead = 0, activeTail = 0,
     heap = (\<lambda>_. entry_at 0 0 0)(1 := entry_at 7 0 2, 2 := entry_at 8 1 0)\<rparr>"

definition one_active :: pool where
  "one_active = \<lparr>inactiveHead = 2, inactiveTail = 2, activeHead = 1, activeTail = 1,
     heap = (\<lambda>_. entry_at 0 0 0)(1 := entry_at 5 0 0, 2 := entry_at 6 0 0)\<rparr>"

theorem pool_roundtrip_witness:
  "\<exists>ps s'. pool_Save one_active pool_state_empty = Some ps \<and> pool_Load ps two_inactive = Some s' \<and>
     pool_Save s' pool_state_empty = Some ps"
proof -
  have "pool_ok one_active [2] [1]" "pool_ok two_inactive [1, 2] []"
    by (simp_all add: pool_ok_def one_active_def two_inactive_def entry_at_def last0_def)
  moreover from pool_Save_ok [OF this(1)] obtain ps where "pool_Save one_active pool_state_empty = Some ps"
    by blast
  ultimately show ?thesis using pool_roundtrip [of one_active "[2]" "[1]" two_inactive "[1, 2]" "[]" ps] by auto
qed

text \<open>The entry that becomes the inactive head keeps a \<open>prev\<close> pointer to the entry
  activated before it.\<close>

lemma stale_prev:
  "map_option (\<lambda>s. (inactiveHead s, e_prev (heap s (inactiveHead s)), activeHead s))
     (pool_Load \<lparr>ps_inactive = [entry_save (entry_at 1 0 0)], ps_active = [entry_save (entry_at 2 0 0)]\<rparr> two_inactive)
   = Some (2, 1, 1)"
  by (simp add: pool_Load_def retire_all.simps activate_def two_inactive_def entry_at_def entry_load_def
      entry_save_def link_last_def Let_def)

end
