(* ===== verification/Save_State.thy ===== *)
theory Save_State
  imports Mementos Pure_Sounds Sound_Pool Protocol
begin

text \<open>
  Save states (sf4e__Game__Battle__System.cxx): SaveState::Save, Load and Free
  with CopyIntoPlace and Clear over the memento keys, the stub managers' sound
  metadata and adapter pools, and the battle flow globals; the ten save slots
  and the save, load and free callbacks GGPO drives. A result None is a
  dereference of NULL in a malformed pool.
\<close>

section \<open>State\<close>

record globals =
  CurrentBattleFlow :: "32 word"
  PreviousBattleFlow :: "32 word"
  CurrentBattleFlowSubstate :: "32 word"
  PreviousBattleFlowSubstate :: "32 word"
  CurrentBattleFlowFrame :: fixed_point
  CurrentBattleFlowSubstateFrame :: fixed_point
  PreviousBattleFlowFrame :: fixed_point
  PreviousBattleFlowSubstateFrame :: fixed_point
  BattleFlowSubstateCallable :: nat
  BattleFlowCallback_CallEveryFrame :: nat
  gameManager :: "8 word list"

record save_state =
  ss_used :: bool
  ss_simulationFrame :: int
  ss_ggpoFrame :: int
  ss_keys :: saved_keys
  ss_cri :: "mgr \<times> nat \<Rightarrow> sound_req"
  ss_mgr :: "mgr \<Rightarrow> pool_state"
  ss_d :: globals

text \<open>The process: the engine's memory, the sound managers, the adapter pool of each
  manager, the battle flow globals, the save slots.\<close>

record ('c, 'a, 'e) sys =
  sy_mem :: "('c, 'a) mem"
  sy_snd :: "'e sounds"
  sy_pools :: "mgr \<Rightarrow> pool"
  sy_glob :: globals
  sy_slots :: "save_state list"
  sy_lastGgpoSaveFrame :: int

text \<open>The game manager's bytes at initialisation are a parameter of the reset below:
  Clear leaves them.\<close>

definition zero_fixed :: fixed_point where
  "zero_fixed = \<lparr>fractional = 0, integral = 0\<rparr>"

definition zero_globals :: globals where
  "zero_globals = \<lparr>CurrentBattleFlow = 0, PreviousBattleFlow = 0, CurrentBattleFlowSubstate = 0,
     PreviousBattleFlowSubstate = 0, CurrentBattleFlowFrame = zero_fixed,
     CurrentBattleFlowSubstateFrame = zero_fixed, PreviousBattleFlowFrame = zero_fixed,
     PreviousBattleFlowSubstateFrame = zero_fixed, BattleFlowSubstateCallable = 0,
     BattleFlowCallback_CallEveryFrame = 0, gameManager = []\<rparr>"

definition new_state :: save_state where
  "new_state = \<lparr>ss_used = False, ss_simulationFrame = -1, ss_ggpoFrame = -1, ss_keys = [],
     ss_cri = (\<lambda>_. zero_req), ss_mgr = (\<lambda>_. pool_state_empty), ss_d = zero_globals\<rparr>"

section \<open>Save\<close>

definition save_cri :: "mgr \<Rightarrow> 'e sounds \<Rightarrow> (mgr \<times> nat \<Rightarrow> sound_req) \<Rightarrow> mgr \<times> nat \<Rightarrow> sound_req" where
  "save_cri m s f = fold (\<lambda>i f. f((m, i) := current s (m, i))) [0..<numAdapters s m] f"

primrec save_sounds :: "(mgr \<times> mgr option) list \<Rightarrow> 'e sounds \<Rightarrow> (mgr \<Rightarrow> pool) \<Rightarrow> save_state \<Rightarrow> save_state option" where
  "save_sounds [] s pools dst = Some dst"
| "save_sounds (p # ps) s pools dst =
     (case pool_Save (pools (fst p)) pool_state_empty of
        None \<Rightarrow> None
      | Some st \<Rightarrow> save_sounds ps s pools
          (dst\<lparr>ss_cri := save_cri (fst p) s (ss_cri dst), ss_mgr := (ss_mgr dst)(fst p := st)\<rparr>))"

definition SaveState_Save :: "('c, 'a) engine \<Rightarrow> ('c, 'a, 'e) sys \<Rightarrow> save_state \<Rightarrow>
    (('c, 'a, 'e) sys \<times> save_state) option" where
  "SaveState_Save E s dst =
     (let m1 = RecordAllToInternalMementos E GGPO_MEMENTO_ID (sy_mem s);
          (m2, ks) = take_keys m1 (ss_keys dst)
      in case save_sounds (shadow (sy_snd s)) (sy_snd s) (sy_pools s) (dst\<lparr>ss_used := True, ss_keys := ks\<rparr>) of
           None \<Rightarrow> None
         | Some dst' \<Rightarrow> Some (s\<lparr>sy_mem := m2\<rparr>, dst'\<lparr>ss_d := sy_glob s\<rparr>))"

section \<open>CopyIntoPlace, Clear\<close>

definition load_cri :: "mgr \<Rightarrow> save_state \<Rightarrow> 'e sounds \<Rightarrow> 'e sounds" where
  "load_cri m src s = fold (\<lambda>i. set_req (m, i) (ss_cri src (m, i))) [0..<numAdapters s m] s"

primrec load_sounds :: "(mgr \<times> mgr option) list \<Rightarrow> save_state \<Rightarrow> 'e sounds \<times> (mgr \<Rightarrow> pool) \<Rightarrow>
    ('e sounds \<times> (mgr \<Rightarrow> pool)) option" where
  "load_sounds [] src sp = Some sp"
| "load_sounds (p # ps) src sp =
     (case pool_Load (ss_mgr src (fst p)) (snd sp (fst p)) of
        None \<Rightarrow> None
      | Some pl \<Rightarrow> load_sounds ps src (load_cri (fst p) src (fst sp), (snd sp)(fst p := pl)))"

definition CopyIntoPlace :: "('c, 'a) engine \<Rightarrow> save_state \<Rightarrow> ('c, 'a, 'e) sys \<Rightarrow> ('c, 'a, 'e) sys option" where
  "CopyIntoPlace E src s =
     (case load_sounds (shadow (sy_snd s)) src (sy_snd s, sy_pools s) of
        None \<Rightarrow> None
      | Some (snd', pools') \<Rightarrow>
          Some (s\<lparr>sy_glob := ss_d src, sy_snd := snd', sy_pools := pools',
                  sy_mem := copy_keys_into_place E (ss_keys src) (sy_mem s)\<rparr>))"

definition clear_state :: "save_state \<Rightarrow> save_state" where
  "clear_state v = v\<lparr>ss_keys := [], ss_used := False, ss_simulationFrame := -1, ss_ggpoFrame := -1,
     ss_d := zero_globals\<lparr>gameManager := gameManager (ss_d v)\<rparr>, ss_cri := (\<lambda>_. zero_req),
     ss_mgr := (\<lambda>_. pool_state_empty)\<rparr>"

definition Clear :: "('c, 'a) engine \<Rightarrow> save_state \<Rightarrow> ('c, 'a, 'e) sys \<Rightarrow> ('c, 'a, 'e) sys \<times> save_state" where
  "Clear E victim s = (s\<lparr>sy_mem := clear_keys E (ss_keys victim) (sy_mem s)\<rparr>, clear_state victim)"

section \<open>Free, Load\<close>

definition SaveState_Free :: "('c, 'a) engine \<Rightarrow> ('c, 'a, 'e) sys \<Rightarrow> save_state \<Rightarrow>
    (('c, 'a, 'e) sys \<times> save_state) option" where
  "SaveState_Free E s victim =
     (case SaveState_Save E s new_state of
        None \<Rightarrow> None
      | Some (s1, tmp) \<Rightarrow>
          (case CopyIntoPlace E victim s1 of
             None \<Rightarrow> None
           | Some s2 \<Rightarrow>
               (let (s3, victim') = Clear E victim s2
                in map_option (\<lambda>s4. (s4, victim')) (CopyIntoPlace E tmp s3))))"

definition drop_queued :: "('c, 'a, 'e) sys \<Rightarrow> ('c, 'a, 'e) sys" where
  "drop_queued s = (if usePure (sy_snd s) then s\<lparr>sy_snd := (sy_snd s)\<lparr>queued := (\<lambda>_. [])\<rparr>\<rparr> else s)"

definition SaveState_Load :: "('c, 'a) engine \<Rightarrow> ('c, 'a, 'e) sys \<Rightarrow> save_state \<Rightarrow> ('c, 'a, 'e) sys option" where
  "SaveState_Load E s0 src =
     (let s = drop_queued s0; (m1, tmp) = take_keys (sy_mem s) []
      in map_option (\<lambda>s2. s2\<lparr>sy_mem := install_keys tmp (zero_keys (ss_keys src) (sy_mem s2))\<rparr>)
           (CopyIntoPlace E src (s\<lparr>sy_mem := m1\<rparr>)))"

section \<open>The slots and the callbacks\<close>

text \<open>The first unused slot is saved into; with none left the callback aborts the
  match (None as the slot).\<close>

definition free_slot :: "save_state list \<Rightarrow> nat option" where
  "free_slot sl = find_index (\<lambda>st. \<not> ss_used st) sl"

definition put_slot :: "nat \<Rightarrow> save_state \<Rightarrow> ('c, 'a, 'e) sys \<Rightarrow> ('c, 'a, 'e) sys" where
  "put_slot i st s = s\<lparr>sy_slots := (sy_slots s)[i := st]\<rparr>"

definition ggpo_save_game_state_callback :: "('c, 'a) engine \<Rightarrow> int \<Rightarrow> int \<Rightarrow> ('c, 'a, 'e) sys \<Rightarrow>
    (('c, 'a, 'e) sys \<times> nat option) option" where
  "ggpo_save_game_state_callback E simFrame frame s0 =
     (let s = s0\<lparr>sy_lastGgpoSaveFrame := frame\<rparr>
      in case free_slot (sy_slots s) of
           None \<Rightarrow> Some (s, None)
         | Some i \<Rightarrow> map_option (\<lambda>(s1, st).
             (put_slot i (st\<lparr>ss_simulationFrame := simFrame, ss_ggpoFrame := frame\<rparr>) s1, Some i))
             (SaveState_Save E s (sy_slots s ! i)))"

definition ggpo_load_game_state_callback :: "('c, 'a) engine \<Rightarrow> nat \<Rightarrow> ('c, 'a, 'e) sys \<Rightarrow> ('c, 'a, 'e) sys option" where
  "ggpo_load_game_state_callback E i s = SaveState_Load E s (sy_slots s ! i)"

definition ggpo_free_buffer :: "('c, 'a) engine \<Rightarrow> nat \<Rightarrow> ('c, 'a, 'e) sys \<Rightarrow> ('c, 'a, 'e) sys option" where
  "ggpo_free_buffer E i s =
     map_option (\<lambda>(s1, st). put_slot i st s1) (SaveState_Free E s (sy_slots s ! i))"

text \<open>The loop of CloseBattle over the slots.\<close>

definition free_if_used :: "('c, 'a) engine \<Rightarrow> nat \<Rightarrow> ('c, 'a, 'e) sys option \<Rightarrow> ('c, 'a, 'e) sys option" where
  "free_if_used E i so =
     (case so of None \<Rightarrow> None
      | Some s \<Rightarrow> if ss_used (sy_slots s ! i) then ggpo_free_buffer E i s else Some s)"

definition free_used_slots :: "('c, 'a) engine \<Rightarrow> ('c, 'a, 'e) sys \<Rightarrow> ('c, 'a, 'e) sys option" where
  "free_used_slots E s = fold (free_if_used E) [0..<NUM_SAVE_STATES] (Some s)"

text \<open>The extended requests of the training mode use slot 0.\<close>

definition extended_load :: "('c, 'a) engine \<Rightarrow> ('c, 'a, 'e) sys \<Rightarrow> ('c, 'a, 'e) sys option" where
  "extended_load E s = (if ss_used (sy_slots s ! 0) then SaveState_Load E s (sy_slots s ! 0) else Some s)"

definition extended_save :: "('c, 'a) engine \<Rightarrow> ('c, 'a, 'e) sys \<Rightarrow> ('c, 'a, 'e) sys option" where
  "extended_save E s =
     (case free_if_used E 0 (Some s) of
        None \<Rightarrow> None
      | Some s1 \<Rightarrow> map_option (\<lambda>(s2, st). put_slot 0 st s2) (SaveState_Save E s1 (sy_slots s1 ! 0)))"

section \<open>The callbacks refine the key operations\<close>

definition slots_wf :: "('c, 'a, 'e) sys \<Rightarrow> bool" where
  "slots_wf s \<longleftrightarrow> length (sy_slots s) = NUM_SAVE_STATES \<and>
     (\<forall>i<NUM_SAVE_STATES. \<not> ss_used (sy_slots s ! i) \<longrightarrow> ss_keys (sy_slots s ! i) = [])"

text \<open>The abstraction: the engine's memory and the keys each slot holds.\<close>

definition slot_keys :: "save_state list \<Rightarrow> nat \<Rightarrow> saved_keys" where
  "slot_keys sl i = (if i < NUM_SAVE_STATES then ss_keys (sl ! i) else [])"

definition sys_store :: "('c, 'a, 'e) sys \<Rightarrow> ('c, 'a) mem \<times> (nat \<Rightarrow> saved_keys)" where
  "sys_store s = (sy_mem s, slot_keys (sy_slots s))"

lemma save_sounds_keeps:
  "save_sounds ps s pools dst = Some dst' \<Longrightarrow> ss_keys dst' = ss_keys dst \<and> ss_used dst' = ss_used dst"
  by (induction ps arbitrary: dst) (auto split: option.splits)

lemma SaveState_Save_mem:
  assumes "SaveState_Save E s dst = Some (s1, st)" "ss_keys dst = []"
  shows "(sy_mem s1, ss_keys st) = save_keys E (sy_mem s)" "ss_used st" "sy_slots s1 = sy_slots s"
    "sy_snd s1 = sy_snd s" "sy_pools s1 = sy_pools s" "sy_glob s1 = sy_glob s"
  using assms
  by (auto simp: SaveState_Save_def save_keys_def case_prod_unfold Let_def prod_eq_iff
      split: option.splits dest!: save_sounds_keeps)

lemma CopyIntoPlace_mem:
  assumes "CopyIntoPlace E src s = Some s1"
  shows "sy_mem s1 = copy_keys_into_place E (ss_keys src) (sy_mem s)" "sy_slots s1 = sy_slots s"
  using assms by (auto simp: CopyIntoPlace_def split: option.splits)

lemma SaveState_Load_mem:
  assumes "SaveState_Load E s src = Some s1"
  shows "sy_mem s1 = load_keys E (ss_keys src) (sy_mem s)" "sy_slots s1 = sy_slots s"
proof -
  obtain m1 tmp where t: "take_keys (sy_mem s) [] = (m1, tmp)" by (cases "take_keys (sy_mem s) []")
  have d: "sy_mem (drop_queued s) = sy_mem s" "sy_slots (drop_queued s) = sy_slots s"
    by (simp_all add: drop_queued_def)
  from assms obtain s2 where c: "CopyIntoPlace E src ((drop_queued s)\<lparr>sy_mem := m1\<rparr>) = Some s2"
      "s1 = s2\<lparr>sy_mem := install_keys tmp (zero_keys (ss_keys src) (sy_mem s2))\<rparr>"
    by (auto simp: SaveState_Load_def d t)
  show "sy_mem s1 = load_keys E (ss_keys src) (sy_mem s)" "sy_slots s1 = sy_slots s"
    using CopyIntoPlace_mem [OF c(1)] by (simp_all add: c(2) load_keys_def t d)
qed

lemma SaveState_Free_mem:
  assumes "SaveState_Free E s victim = Some (s1, v)"
  shows "sy_mem s1 = free_keys E (ss_keys victim) (sy_mem s)" "sy_slots s1 = sy_slots s" "v = clear_state victim"
proof -
  from assms obtain s2 tmp s3 s4 where
      a: "SaveState_Save E s new_state = Some (s2, tmp)" "CopyIntoPlace E victim s2 = Some s3"
        "CopyIntoPlace E tmp (fst (Clear E victim s3)) = Some s4" "s1 = s4" "v = clear_state victim"
    by (auto simp: SaveState_Free_def Clear_def split: option.splits)
  have n: "ss_keys new_state = []" by (simp add: new_state_def)
  note b = SaveState_Save_mem [OF a(1) n] CopyIntoPlace_mem [OF a(2)] CopyIntoPlace_mem [OF a(3)]
  have sk: "save_keys E (sy_mem s) = (sy_mem s2, ss_keys tmp)" using b(1) by simp
  show "sy_mem s1 = free_keys E (ss_keys victim) (sy_mem s)" "sy_slots s1 = sy_slots s" "v = clear_state victim"
    using b(3,7-) a(4,5) by (simp_all add: free_keys_def Clear_def sk)
qed

lemma free_slot_Some:
  "free_slot sl = Some i \<Longrightarrow> i < length sl \<and> \<not> ss_used (sl ! i) \<and> (\<forall>j<i. ss_used (sl ! j))"
  unfolding free_slot_def using find_index_Some [of "\<lambda>st. \<not> ss_used st" sl i] by auto

lemma store_put:
  "length (sy_slots s) = NUM_SAVE_STATES \<Longrightarrow> i < NUM_SAVE_STATES \<Longrightarrow>
   sys_store (put_slot i st s) = (sy_mem s, (snd (sys_store s))(i := ss_keys st))"
  by (auto simp: sys_store_def slot_keys_def put_slot_def fun_eq_iff nth_list_update)

lemma slots_wf_put:
  "slots_wf s \<Longrightarrow> i < NUM_SAVE_STATES \<Longrightarrow> (\<not> ss_used st \<Longrightarrow> ss_keys st = []) \<Longrightarrow> slots_wf (put_slot i st s)"
  by (simp add: slots_wf_def put_slot_def nth_list_update)

text \<open>One callback GGPO makes, and what it is at the level of keys.\<close>

datatype ggpo_cb = CbSave int int | CbLoad nat | CbFree nat

fun cb_step :: "('c, 'a) engine \<Rightarrow> ggpo_cb \<Rightarrow> ('c, 'a, 'e) sys \<Rightarrow> ('c, 'a, 'e) sys option" where
  "cb_step E (CbSave sim frame) s = map_option fst (ggpo_save_game_state_callback E sim frame s)"
| "cb_step E (CbLoad i) s = ggpo_load_game_state_callback E i s"
| "cb_step E (CbFree i) s = ggpo_free_buffer E i s"

text \<open>GGPO loads and frees only what a save returned and it still holds.\<close>

definition cb_legal :: "ggpo_cb \<Rightarrow> ('c, 'a, 'e) sys \<Rightarrow> bool" where
  "cb_legal cb s = (case cb of CbSave _ _ \<Rightarrow> True
     | CbLoad i \<Rightarrow> i < NUM_SAVE_STATES \<and> ss_keys (sy_slots s ! i) \<noteq> []
     | CbFree i \<Rightarrow> i < NUM_SAVE_STATES \<and> ss_keys (sy_slots s ! i) \<noteq> [])"

definition cb_key_op :: "ggpo_cb \<Rightarrow> ('c, 'a, 'e) sys \<Rightarrow> 'c key_op" where
  "cb_key_op cb s = (case cb of
       CbSave _ _ \<Rightarrow> (case free_slot (sy_slots s) of Some i \<Rightarrow> KSave i | None \<Rightarrow> KAdvance (\<lambda>L. L))
     | CbLoad i \<Rightarrow> KLoad i | CbFree i \<Rightarrow> KFree i)"

lemma save_cb_refines:
  assumes w: "slots_wf s" and c: "ggpo_save_game_state_callback E sim frame s = Some (s', r)"
    and i: "free_slot (sy_slots s) = Some i"
  shows "sys_store s' = key_step E (KSave i) (sys_store s) \<and> slots_wf s'"
proof -
  let ?s = "s\<lparr>sy_lastGgpoSaveFrame := frame\<rparr>"
  have fs: "i < NUM_SAVE_STATES" "\<not> ss_used (sy_slots s ! i)" using free_slot_Some [OF i] w by (auto simp: slots_wf_def)
  then have e: "ss_keys (sy_slots s ! i) = []" using w by (simp add: slots_wf_def)
  from c i obtain s1 st where sv: "SaveState_Save E ?s (sy_slots s ! i) = Some (s1, st)"
      "s' = put_slot i (st\<lparr>ss_simulationFrame := sim, ss_ggpoFrame := frame\<rparr>) s1"
    by (auto simp: ggpo_save_game_state_callback_def)
  note m = SaveState_Save_mem [OF sv(1) e]
  have sk: "save_keys E (sy_mem s) = (sy_mem s1, ss_keys st)" using m(1) by simp
  have l: "length (sy_slots s1) = NUM_SAVE_STATES" using w m(3) by (simp add: slots_wf_def)
  have "snd (sys_store s1) = snd (sys_store s)" using m(3) by (simp add: sys_store_def)
  then have "sys_store s' = (sy_mem s1, (snd (sys_store s))(i := ss_keys st))"
    by (simp add: sv(2) store_put [OF l fs(1)])
  moreover have "key_step E (KSave i) (sys_store s) = (sy_mem s1, (snd (sys_store s))(i := ss_keys st))"
    using fs(1) e by (simp add: sys_store_def slot_keys_def sk)
  moreover have "slots_wf s1" using w m(3) by (simp add: slots_wf_def)
  then have "slots_wf s'" unfolding sv(2) using fs(1) m(2) by (intro slots_wf_put) simp_all
  ultimately show ?thesis by simp
qed

lemma load_cb_refines:
  assumes "slots_wf s" "i < NUM_SAVE_STATES" "ss_keys (sy_slots s ! i) \<noteq> []"
    and "ggpo_load_game_state_callback E i s = Some s'"
  shows "sys_store s' = key_step E (KLoad i) (sys_store s) \<and> slots_wf s'"
  using SaveState_Load_mem [OF assms(4) [unfolded ggpo_load_game_state_callback_def]] assms(1-3)
  by (simp add: sys_store_def slots_wf_def slot_keys_def [of "sy_slots s" i])

lemma free_cb_refines:
  assumes w: "slots_wf s" and i: "i < NUM_SAVE_STATES" and k: "ss_keys (sy_slots s ! i) \<noteq> []"
    and c: "ggpo_free_buffer E i s = Some s'"
  shows "sys_store s' = key_step E (KFree i) (sys_store s) \<and> slots_wf s'"
proof -
  from c obtain s1 where f: "SaveState_Free E s (sy_slots s ! i) = Some (s1, clear_state (sy_slots s ! i))"
      "s' = put_slot i (clear_state (sy_slots s ! i)) s1"
    using SaveState_Free_mem(3) by (fastforce simp: ggpo_free_buffer_def)
  note m = SaveState_Free_mem [OF f(1)]
  have l: "length (sy_slots s1) = NUM_SAVE_STATES" "slots_wf s1" using w m(2) by (simp_all add: slots_wf_def)
  have "snd (sys_store s1) = snd (sys_store s)" using m(2) by (simp add: sys_store_def)
  then have "sys_store s' = (sy_mem s1, (snd (sys_store s))(i := []))"
    by (simp add: f(2) store_put [OF l(1) i] clear_state_def)
  then show ?thesis
    using i k m(1) slots_wf_put [OF l(2) i] by (simp add: f(2) sys_store_def slot_keys_def [of "sy_slots s" i] clear_state_def)
qed

text \<open>
  C19: The save, load and free callbacks GGPO makes implement the key store: each
  one that returns is, at the level of the engine's memory and the keys the ten
  slots hold, the corresponding abstract operation, so the ownership and
  rollback theorems above hold of the callbacks.
\<close>

theorem callbacks_refine_keys:
  assumes "slots_wf s" and "cb_legal cb s" and "cb_step E cb s = Some s'"
  shows "sys_store s' = key_step E (cb_key_op cb s) (sys_store s) \<and> slots_wf s'"
proof (cases cb)
  case (CbSave sim frame)
  then obtain r where r: "ggpo_save_game_state_callback E sim frame s = Some (s', r)" using assms(3) by auto
  show ?thesis
  proof (cases "free_slot (sy_slots s)")
    case None
    then have "s' = s\<lparr>sy_lastGgpoSaveFrame := frame\<rparr>" using r by (simp add: ggpo_save_game_state_callback_def)
    then show ?thesis using None CbSave assms(1) by (simp add: sys_store_def slots_wf_def cb_key_op_def)
  next
    case (Some i)
    then show ?thesis using save_cb_refines [OF assms(1) r Some] by (simp add: CbSave cb_key_op_def)
  qed
next
  case (CbLoad i)
  then show ?thesis using load_cb_refines [OF assms(1), of i E s'] assms(2,3) by (simp add: cb_legal_def cb_key_op_def)
next
  case (CbFree i)
  then show ?thesis using free_cb_refines [OF assms(1), of i E s'] assms(2,3) by (simp add: cb_legal_def cb_key_op_def)
qed

section \<open>Sounds and globals\<close>

lemma save_cri_at:
  "save_cri m s f a = (if fst a = m \<and> snd a < numAdapters s m then current s a else f a)"
proof -
  have "fold (\<lambda>i f. f((m, i) := current s (m, i))) [0..<n] f a =
      (if fst a = m \<and> snd a < n then current s a else f a)" for n
  proof (induction n)
    case (Suc n)
    then show ?case by (cases a) (auto simp: less_Suc_eq)
  qed simp
  then show ?thesis by (simp add: save_cri_def)
qed


lemma save_sounds_effect:
  assumes "save_sounds ps s pools dst = Some dst'" "distinct (map fst ps)"
  shows "ss_cri dst' a = (if fst a \<in> fst ` set ps \<and> snd a < numAdapters s (fst a) then current s a else ss_cri dst a)"
    and "m \<in> fst ` set ps \<Longrightarrow> pool_Save (pools m) pool_state_empty = Some (ss_mgr dst' m)"
    and "m \<notin> fst ` set ps \<Longrightarrow> ss_mgr dst' m = ss_mgr dst m"
  using assms
proof (induction ps arbitrary: dst)
  case (Cons p ps)
  {
    case 1
    then obtain st where st: "pool_Save (pools (fst p)) pool_state_empty = Some st" by (auto split: option.splits)
    with 1 Cons.IH(1) [of "dst\<lparr>ss_cri := save_cri (fst p) s (ss_cri dst), ss_mgr := (ss_mgr dst)(fst p := st)\<rparr>"]
    show ?case by (auto simp: save_cri_at)
  next
    case 2
    then obtain st where st: "pool_Save (pools (fst p)) pool_state_empty = Some st" by (auto split: option.splits)
    with 2 Cons.IH(2,3) [of "dst\<lparr>ss_cri := save_cri (fst p) s (ss_cri dst), ss_mgr := (ss_mgr dst)(fst p := st)\<rparr>"]
    show ?case by auto
  next
    case 3
    then obtain st where st: "pool_Save (pools (fst p)) pool_state_empty = Some st" by (auto split: option.splits)
    with 3 Cons.IH(3) [of "dst\<lparr>ss_cri := save_cri (fst p) s (ss_cri dst), ss_mgr := (ss_mgr dst)(fst p := st)\<rparr>"]
    show ?case by auto
  }
qed simp_all

lemma load_cri_effect:
  "current (load_cri m src s) a = (if fst a = m \<and> snd a < numAdapters s m then ss_cri src a else current s a)"
  "usePure (load_cri m src s) = usePure s" "shadow (load_cri m src s) = shadow s"
  "queued (load_cri m src s) = queued s" "numAdapters (load_cri m src s) = numAdapters s"
proof -
  let ?f = "\<lambda>n. fold (\<lambda>i. set_req (m, i) (ss_cri src (m, i))) [0..<n] s"
  have e: "current (?f n) a = (if fst a = m \<and> snd a < n then ss_cri src a else current s a) \<and>
      usePure (?f n) = usePure s \<and> shadow (?f n) = shadow s \<and> queued (?f n) = queued s \<and>
      numAdapters (?f n) = numAdapters s" for n
  proof (induction n)
    case (Suc n)
    then show ?case by (cases a) (auto simp: less_Suc_eq)
  qed simp
  show "current (load_cri m src s) a = (if fst a = m \<and> snd a < numAdapters s m then ss_cri src a else current s a)"
    "usePure (load_cri m src s) = usePure s" "shadow (load_cri m src s) = shadow s"
    "queued (load_cri m src s) = queued s" "numAdapters (load_cri m src s) = numAdapters s"
    using e [of "numAdapters s m"] by (simp_all add: load_cri_def)
qed

text \<open>Loading the sounds returns when every stub's pool loads.\<close>

lemma load_sounds_effect:
  assumes "distinct (map fst ps)" "\<And>m. m \<in> fst ` set ps \<Longrightarrow> pool_Load (ss_mgr src m) (pools m) = Some (pl m)"
  shows "\<exists>snd' pools'. load_sounds ps src (s, pools) = Some (snd', pools') \<and>
     (\<forall>a. current snd' a = (if fst a \<in> fst ` set ps \<and> snd a < numAdapters s (fst a) then ss_cri src a else current s a)) \<and>
     (\<forall>m. pools' m = (if m \<in> fst ` set ps then pl m else pools m)) \<and>
     usePure snd' = usePure s \<and> shadow snd' = shadow s \<and> queued snd' = queued s \<and> numAdapters snd' = numAdapters s"
  using assms
proof (induction ps arbitrary: s pools)
  case (Cons p ps)
  let ?s = "load_cri (fst p) src s" and ?pools = "pools(fst p := pl (fst p))"
  have "pool_Load (ss_mgr src (fst p)) (pools (fst p)) = Some (pl (fst p))" using Cons.prems(2) by simp
  moreover have "\<exists>snd' pools'. load_sounds ps src (?s, ?pools) = Some (snd', pools') \<and>
     (\<forall>a. current snd' a = (if fst a \<in> fst ` set ps \<and> snd a < numAdapters ?s (fst a) then ss_cri src a else current ?s a)) \<and>
     (\<forall>m. pools' m = (if m \<in> fst ` set ps then pl m else ?pools m)) \<and>
     usePure snd' = usePure ?s \<and> shadow snd' = shadow ?s \<and> queued snd' = queued ?s \<and> numAdapters snd' = numAdapters ?s"
  proof (rule Cons.IH)
    show "distinct (map fst ps)" using Cons.prems(1) by simp
  next
    fix m assume m: "m \<in> fst ` set ps"
    have "fst p \<notin> fst ` set ps" using Cons.prems(1) by simp
    then have "m \<noteq> fst p" using m by blast
    then show "pool_Load (ss_mgr src m) (?pools m) = Some (pl m)" using Cons.prems(2) [of m] m by simp
  qed
  ultimately show ?case by (fastforce simp: load_cri_effect)
qed simp


text \<open>A later state a saved one can be loaded into: the same managers, with adapter
  pools over as many entries.\<close>

definition pools_match :: "('c, 'a, 'e) sys \<Rightarrow> ('c, 'a, 'e) sys \<Rightarrow> bool" where
  "pools_match s t \<longleftrightarrow> shadow (sy_snd t) = shadow (sy_snd s) \<and>
     numAdapters (sy_snd t) = numAdapters (sy_snd s) \<and>
     (\<forall>m\<in>fst ` set (shadow (sy_snd s)). \<exists>ins0 acts0 ins acts.
        pool_ok (sy_pools s m) ins0 acts0 \<and> pool_ok (sy_pools t m) ins acts \<and>
        length (ins0 @ acts0) = length (ins @ acts))"

lemma Load_restores_aux:
  assumes s: "save_sounds (shadow (sy_snd s)) (sy_snd s) (sy_pools s) dst = Some st"
    and d: "distinct (map fst (shadow (sy_snd s)))" and m: "pools_match s t"
  shows "\<exists>snd' pools'. load_sounds (shadow (sy_snd s)) st (sy_snd t\<lparr>queued := q\<rparr>, sy_pools t) = Some (snd', pools') \<and>
     (\<forall>m\<in>fst ` set (shadow (sy_snd s)). pool_Save (pools' m) pool_state_empty = pool_Save (sy_pools s m) pool_state_empty \<and>
        (\<forall>i<numAdapters (sy_snd s) m. current snd' (m, i) = current (sy_snd s) (m, i))) \<and>
     queued snd' = q"
proof -
  let ?S = "fst ` set (shadow (sy_snd s))"
  note e = save_sounds_effect [OF s d]
  have "\<exists>pl. pool_Load (ss_mgr st m) (sy_pools t m) = Some pl \<and>
      pool_Save pl pool_state_empty = pool_Save (sy_pools s m) pool_state_empty" if "m \<in> ?S" for m
  proof -
    from assms(3) that obtain ins0 acts0 ins acts where
        "pool_ok (sy_pools s m) ins0 acts0" "pool_ok (sy_pools t m) ins acts"
        "length (ins0 @ acts0) = length (ins @ acts)"
      unfolding pools_match_def by blast
    from pool_restored [OF this e(2) [OF that]] show ?thesis using e(2) [OF that] by auto
  qed
  then obtain pl where pl: "\<And>m. m \<in> ?S \<Longrightarrow> pool_Load (ss_mgr st m) (sy_pools t m) = Some (pl m)"
      "\<And>m. m \<in> ?S \<Longrightarrow> pool_Save (pl m) pool_state_empty = pool_Save (sy_pools s m) pool_state_empty"
    by metis
  from load_sounds_effect [OF d pl(1), of "sy_snd t\<lparr>queued := q\<rparr>"] obtain snd' pools' where
      l: "load_sounds (shadow (sy_snd s)) st (sy_snd t\<lparr>queued := q\<rparr>, sy_pools t) = Some (snd', pools')"
        "\<forall>a. current snd' a = (if fst a \<in> ?S \<and> snd a < numAdapters (sy_snd t) (fst a) then ss_cri st a else current (sy_snd t) a)"
        "\<forall>m. pools' m = (if m \<in> ?S then pl m else sy_pools t m)" "queued snd' = q"
    by auto
  have "numAdapters (sy_snd t) = numAdapters (sy_snd s)" using m by (simp add: pools_match_def)
  then show ?thesis using l pl(2) e(1) by (intro exI [of _ snd'] exI [of _ pools']) simp
qed

text \<open>
  Loading a save state brings the rest of the simulation back too: however
  the sound managers' metadata and pools have changed since, the load returns,
  the battle flow globals and the game manager are the saved ones, every
  stub adapter carries the sound it had, every adapter pool saves as it did,
  stops queued by the abandoned timeline are dropped, and the engine's memory
  is that of the key-level load.
\<close>

theorem load_restores_sounds_and_globals:
  assumes "SaveState_Save E s dst = Some (s1, st)" and "ss_keys dst = []"
    and "distinct (map fst (shadow (sy_snd s)))" and "pools_match s t"
  shows "\<exists>t'. SaveState_Load E t st = Some t' \<and> sy_glob t' = sy_glob s \<and>
     sy_mem t' = load_keys E (ss_keys st) (sy_mem t) \<and>
     (\<forall>m\<in>fst ` set (shadow (sy_snd s)). pool_Save (sy_pools t' m) pool_state_empty = pool_Save (sy_pools s m) pool_state_empty \<and>
        (\<forall>i<numAdapters (sy_snd s) m. current (sy_snd t') (m, i) = current (sy_snd s) (m, i))) \<and>
     queued (sy_snd t') = (if usePure (sy_snd t) then (\<lambda>_. []) else queued (sy_snd t))"
proof -
  define ks where "ks = snd (take_keys (RecordAllToInternalMementos E GGPO_MEMENTO_ID (sy_mem s)) (ss_keys dst))"
  from assms(1) obtain st0 where st0:
      "save_sounds (shadow (sy_snd s)) (sy_snd s) (sy_pools s) (dst\<lparr>ss_used := True, ss_keys := ks\<rparr>) = Some st0"
      "st = st0\<lparr>ss_d := sy_glob s\<rparr>"
    by (auto simp: SaveState_Save_def case_prod_unfold Let_def ks_def split: option.splits)
  have ks: "ss_keys st = ks" using save_sounds_keeps [OF st0(1)] by (simp add: st0(2))
  define q where "q = (if usePure (sy_snd t) then (\<lambda>_. []) else queued (sy_snd t))"
  obtain m1 tmp where tk: "take_keys (sy_mem t) [] = (m1, tmp)" by (cases "take_keys (sy_mem t) []")
  have dq: "drop_queued t = t\<lparr>sy_snd := (sy_snd t)\<lparr>queued := q\<rparr>\<rparr>" by (simp add: drop_queued_def q_def)
  have sh: "shadow (sy_snd t) = shadow (sy_snd s)" using assms(4) by (simp add: pools_match_def)
  have ld: "load_sounds ps st sp = load_sounds ps st0 sp" for ps and sp :: "'e sounds \<times> (mgr \<Rightarrow> pool)"
  proof (induction ps arbitrary: sp)
    case (Cons p ps)
    then show ?case by (simp add: st0(2) load_cri_def cong: option.case_cong)
  qed simp
  from Load_restores_aux [OF st0(1) assms(3,4), of q] obtain snd' pools' where
      l: "load_sounds (shadow (sy_snd s)) st (sy_snd t\<lparr>queued := q\<rparr>, sy_pools t) = Some (snd', pools')"
        "\<forall>m\<in>fst ` set (shadow (sy_snd s)). pool_Save (pools' m) pool_state_empty = pool_Save (sy_pools s m) pool_state_empty \<and>
          (\<forall>i<numAdapters (sy_snd s) m. current snd' (m, i) = current (sy_snd s) (m, i))"
        "queued snd' = q"
    by (auto simp: ld)
  have d: "ss_d st = sy_glob s" by (simp add: st0(2))
  have c: "CopyIntoPlace E st ((drop_queued t)\<lparr>sy_mem := m1\<rparr>) =
      Some (t\<lparr>sy_snd := snd', sy_glob := sy_glob s, sy_pools := pools', sy_mem := copy_keys_into_place E ks m1\<rparr>)"
    by (simp add: CopyIntoPlace_def dq sh l(1) d ks)
  have "SaveState_Load E t st = Some (t\<lparr>sy_snd := snd', sy_glob := sy_glob s, sy_pools := pools',
      sy_mem := load_keys E ks (sy_mem t)\<rparr>)"
    using c by (simp add: SaveState_Load_def dq tk load_keys_def ks)
  then show ?thesis using l(2,3) by (auto simp: ks q_def)
qed

section \<open>Ten slots\<close>

definition used_slots :: "('c, 'a, 'e) sys \<Rightarrow> nat set" where
  "used_slots s = {i. i < NUM_SAVE_STATES \<and> ss_used (sy_slots s ! i)}"

text \<open>
  While GGPO holds fewer than ten states, a save never fails for lack of a
  slot and never overwrites a state GGPO holds: it takes the lowest unused slot,
  stamps it with both frame numbers and leaves every other slot alone. With all
  ten in use it saves nothing.
\<close>

theorem save_takes_a_free_slot:
  assumes "slots_wf s" and "ggpo_save_game_state_callback E sim frame s = Some (s', r)"
  shows "(card (used_slots s) < NUM_SAVE_STATES \<longleftrightarrow> r \<noteq> None) \<and>
     (\<forall>i. r = Some i \<longrightarrow> i \<notin> used_slots s \<and> used_slots s' = insert i (used_slots s) \<and>
        ss_ggpoFrame (sy_slots s' ! i) = frame \<and> ss_simulationFrame (sy_slots s' ! i) = sim \<and>
        (\<forall>j. j \<noteq> i \<longrightarrow> sy_slots s' ! j = sy_slots s ! j)) \<and>
     (r = None \<longrightarrow> sy_slots s' = sy_slots s \<and> sy_mem s' = sy_mem s)"
proof -
  have len: "length (sy_slots s) = NUM_SAVE_STATES" using assms(1) by (simp add: slots_wf_def)
  have sub: "used_slots s \<subseteq> {..<NUM_SAVE_STATES}" by (auto simp: used_slots_def)
  show ?thesis
  proof (cases "free_slot (sy_slots s)")
    case None
    then have all: "\<forall>st\<in>set (sy_slots s). ss_used st" by (simp add: free_slot_def find_index_None)
    have "used_slots s = {..<NUM_SAVE_STATES}"
      using all len by (auto simp: used_slots_def)
    then have "card (used_slots s) = NUM_SAVE_STATES" by simp
    then show ?thesis using None assms(2) by (auto simp: ggpo_save_game_state_callback_def)
  next
    case (Some i)
    note i = free_slot_Some [OF Some]
    then have "i \<in> {..<NUM_SAVE_STATES}" "i \<notin> used_slots s" using len by (auto simp: used_slots_def)
    then have c: "card (used_slots s) < NUM_SAVE_STATES"
      using psubset_card_mono [of "{..<NUM_SAVE_STATES}" "used_slots s"] sub by auto
    have e: "ss_keys (sy_slots s ! i) = []" using assms(1) i len by (simp add: slots_wf_def)
    from assms(2) Some obtain s1 st where sv:
        "SaveState_Save E (s\<lparr>sy_lastGgpoSaveFrame := frame\<rparr>) (sy_slots s ! i) = Some (s1, st)"
        "s' = put_slot i (st\<lparr>ss_simulationFrame := sim, ss_ggpoFrame := frame\<rparr>) s1" "r = Some i"
      by (auto simp: ggpo_save_game_state_callback_def)
    note m = SaveState_Save_mem [OF sv(1) e]
    have "sy_slots s' = (sy_slots s)[i := st\<lparr>ss_simulationFrame := sim, ss_ggpoFrame := frame\<rparr>]"
      using m(3) by (simp add: sv(2) put_slot_def)
    then show ?thesis using c i len m(2) sv(3)
      by (auto simp: used_slots_def nth_list_update)
  qed
qed


lemma save_sounds_total:
  "(\<And>m. m \<in> fst ` set ps \<Longrightarrow> \<exists>ins acts. pool_ok (pools m) ins acts) \<Longrightarrow>
   \<exists>dst'. save_sounds ps s pools dst = Some dst'"
proof (induction ps arbitrary: dst)
  case (Cons p ps)
  from Cons.prems [of "fst p"] obtain ins acts where "pool_ok (pools (fst p)) ins acts" by auto
  from pool_Save_ok [OF this] Cons show ?case by auto
qed simp

lemma SaveState_Save_total:
  assumes "\<And>m. m \<in> fst ` set (shadow (sy_snd s)) \<Longrightarrow> \<exists>ins acts. pool_ok (sy_pools s m) ins acts"
  shows "\<exists>s1 st. SaveState_Save E s dst = Some (s1, st)"
proof -
  have "\<exists>dst'. save_sounds (shadow (sy_snd s)) (sy_snd s) (sy_pools s) (dst\<lparr>ss_used := True,
      ss_keys := snd (take_keys (RecordAllToInternalMementos E GGPO_MEMENTO_ID (sy_mem s)) (ss_keys dst))\<rparr>) = Some dst'"
    by (rule save_sounds_total) (rule assms)
  then obtain dst' where "save_sounds (shadow (sy_snd s)) (sy_snd s) (sy_pools s) (dst\<lparr>ss_used := True,
      ss_keys := snd (take_keys (RecordAllToInternalMementos E GGPO_MEMENTO_ID (sy_mem s)) (ss_keys dst))\<rparr>) = Some dst'" ..
  then show ?thesis by (simp add: SaveState_Save_def case_prod_unfold Let_def)
qed

section \<open>A small process\<close>

definition small_sys :: "(nat, nat, nat \<times> nat) sys" where
  "small_sys = \<lparr>sy_mem = fst bump_start, sy_snd = stub_and_real (cue 3 0) zero_req zero_req,
     sy_pools = (\<lambda>_. one_active), sy_glob = zero_globals, sy_slots = replicate NUM_SAVE_STATES new_state,
     sy_lastGgpoSaveFrame = -1\<rparr>"

lemma small_pool: "\<exists>ins acts. pool_ok (sy_pools small_sys m) ins acts"
proof -
  have "pool_ok (sy_pools small_sys m) [2] [1]"
    by (simp add: small_sys_def pool_ok_def one_active_def entry_at_def last0_def)
  then show ?thesis by blast
qed

lemma small_slot: "i < NUM_SAVE_STATES \<Longrightarrow> sy_slots small_sys ! i = new_state"
  by (simp add: small_sys_def)

lemma small_wf: "slots_wf small_sys" "free_slot (sy_slots small_sys) = Some 0" "used_slots small_sys = {}"
proof -
  have n: "\<not> ss_used new_state" "ss_keys new_state = []" by (simp_all add: new_state_def)
  show "slots_wf small_sys" using n small_slot by (simp add: slots_wf_def) (simp add: small_sys_def)
  show "used_slots small_sys = {}" using n small_slot by (simp add: used_slots_def)
  show "free_slot (sy_slots small_sys) = Some 0"
    using n by (simp add: free_slot_def small_sys_def NUM_SAVE_STATES_def eval_nat_numeral)
qed

lemma small_save: "\<exists>s'. ggpo_save_game_state_callback bump 4 5 small_sys = Some (s', Some 0)"
proof -
  let ?s = "small_sys\<lparr>sy_lastGgpoSaveFrame := 5\<rparr>"
  have "\<exists>s1 st. SaveState_Save bump ?s (sy_slots small_sys ! 0) = Some (s1, st)"
    using small_pool by (intro SaveState_Save_total) simp
  then show ?thesis by (auto simp: ggpo_save_game_state_callback_def small_wf)
qed

theorem callbacks_refine_keys_witness:
  "\<exists>s'. cb_step bump (CbSave 4 5) small_sys = Some s' \<and>
     sys_store s' = key_step bump (KSave 0) (sys_store small_sys) \<and> slots_wf s'"
proof -
  obtain s' where s': "cb_step bump (CbSave 4 5) small_sys = Some s'" using small_save by auto
  have "cb_legal (CbSave 4 5) small_sys" by (simp add: cb_legal_def)
  from callbacks_refine_keys [OF small_wf(1) this s']
  have "sys_store s' = key_step bump (KSave 0) (sys_store small_sys) \<and> slots_wf s'"
    by (simp add: cb_key_op_def small_wf(2))
  with s' show ?thesis by (intro exI [of _ s']) simp
qed

theorem load_restores_sounds_and_globals_witness:
  "\<exists>s1 st t'. SaveState_Save bump small_sys new_state = Some (s1, st) \<and>
     SaveState_Load bump (small_sys\<lparr>sy_pools := (\<lambda>_. two_inactive)\<rparr>) st = Some t' \<and> sy_glob t' = zero_globals"
proof -
  let ?t = "small_sys\<lparr>sy_pools := (\<lambda>_. two_inactive)\<rparr>"
  obtain s1 st where sv: "SaveState_Save bump small_sys new_state = Some (s1, st)"
    using SaveState_Save_total [of small_sys bump new_state] small_pool by blast
  have "pool_ok (sy_pools small_sys m) [2] [1] \<and> pool_ok (sy_pools ?t m) [1, 2] [] \<and>
      length ([2] @ [1::nat]) = length ([1, 2] @ [] :: nat list)" for m
    by (simp add: small_sys_def pool_ok_def one_active_def two_inactive_def entry_at_def last0_def)
  then have "\<exists>ins0 acts0 ins acts. pool_ok (sy_pools small_sys m) ins0 acts0 \<and>
      pool_ok (sy_pools ?t m) ins acts \<and> length (ins0 @ acts0) = length (ins @ acts)" for m
    by blast
  then have m: "pools_match small_sys ?t" by (simp add: pools_match_def del: length_append)
  have d: "distinct (map fst (shadow (sy_snd small_sys)))" "ss_keys new_state = []"
    by (simp_all add: small_sys_def stub_and_real_def new_state_def)
  have "sy_glob small_sys = zero_globals" by (simp add: small_sys_def)
  with load_restores_sounds_and_globals [OF sv d(2,1) m] sv show ?thesis by auto
qed

theorem save_takes_a_free_slot_witness:
  "\<exists>s'. ggpo_save_game_state_callback bump 4 5 small_sys = Some (s', Some 0) \<and> used_slots s' = {0}"
proof -
  obtain s' where s': "ggpo_save_game_state_callback bump 4 5 small_sys = Some (s', Some 0)"
    using small_save by blast
  from save_takes_a_free_slot [OF small_wf(1) s'] s' show ?thesis by (auto simp: small_wf(3))
qed

end
