(* ===== verification/Battle_System.thy ===== *)
theory Battle_System
  imports App_State Save_State
begin

text \<open>
  The battle system's netplay control (sf4e__Game__Battle__System.cxx): the GGPO
  session's start, abort, retirement and deferred close, the callbacks GGPO
  makes, the detoured battle update and the training-mode hooks. The engine and
  the library are the parameter \<open>world\<close>: how one engine update moves the
  simulation, and which save slots the library still holds and frees when a
  session is closed. What a library call returns and the callbacks it makes on
  the way are arguments of the step that makes the call.
\<close>

record world =
  w_step :: "pad duo \<Rightarrow> sim_state \<Rightarrow> sim_state"
  w_held :: "app \<Rightarrow> nat list"

section \<open>Engine update and captures\<close>

definition engine_update :: "world \<Rightarrow> app \<Rightarrow> app" where
  "engine_update W s =
     (let sim' = w_step W (read_pads s) (sim s)
      in act (Act_EngineUpdate (read_pads s)) (s\<lparr>sim := sim', ag := (ag s)\<lparr>g_frame := sim_frame sim'\<rparr>\<rparr>))"

definition CaptureSnapshot :: "app \<Rightarrow> app" where
  "CaptureSnapshot s =
     (let frameIdx = sim_frame (sim s)
      in if frameIdx smod 60 \<noteq> 0 then s
         else s\<lparr>ag := (ag s)\<lparr>g_snaps := om_assign frameIdx
                \<lparr>se_snap = snapshot_of (sim s), se_sent = False, se_confirmed = False\<rparr> (g_snaps (ag s))\<rparr>\<rparr>)"

text \<open>A negative frame's write outside the ring is not followed here.\<close>

definition CaptureCheckpoint :: "app \<Rightarrow> app" where
  "CaptureCheckpoint s =
     (case CaptureHashCheckpoint (sim s) (g_ring (ag s)) of
        None \<Rightarrow> s | Some ring \<Rightarrow> s\<lparr>ag := (ag s)\<lparr>g_ring := ring\<rparr>\<rparr>)"

definition NoteDisconnectFlags :: "int \<Rightarrow> app \<Rightarrow> app" where
  "NoteDisconnectFlags flags s = s\<lparr>lastFlags := flags\<rparr>"

definition SyncSounds :: "app \<Rightarrow> app" where
  "SyncSounds s = (if pureSounds s then act Act_SyncSounds s else s)"

section \<open>Retiring and aborting the session\<close>

definition FreeSlot :: "nat \<Rightarrow> app \<Rightarrow> app" where
  "FreeSlot i s = act (Act_FreeSlot i) (s\<lparr>slotUsed := (slotUsed s)[i := False]\<rparr>)"

definition close_session :: "world \<Rightarrow> app \<Rightarrow> app" where
  "close_session W s = act Act_GgpoClose (fold FreeSlot (w_held W s) s)"

definition RetireGgpoSession :: "world \<Rightarrow> app \<Rightarrow> app" where
  "RetireGgpoSession W s =
     (if \<not> ggpo s then s
      else (let s1 = close_session W s
            in s1\<lparr>ggpo := False, gt := OnSessionClosed (gt s1), interrupted := False,
                  pc := pacer_Reset (pc s1)\<rparr>))"

definition AbortGgpoMatch :: "world \<Rightarrow> alert \<Rightarrow> app \<Rightarrow> app" where
  "AbortGgpoMatch W reason s0 =
     (let s = PushAlert reason s0;
          s1 = RetireGgpoSession W (s\<lparr>gt := OnFatal (gt s), upd := False, interrupted := False\<rparr>)
      in set_leaving (ClearBattleState (TunnelReset s1)))"

definition disconnect_settings :: "netplay_config \<Rightarrow> 16 word \<times> 16 word" where
  "disconnect_settings c =
     (if 8 \<le> nc_version c \<and> nc_ggpoDisconnectTimeoutMs c > 0
      then (nc_ggpoDisconnectTimeoutMs c,
            if nc_ggpoDisconnectNotifyMs c > 0 then nc_ggpoDisconnectNotifyMs c
            else nc_ggpoDisconnectTimeoutMs c div 2)
      else (disconnect_timeout (nc_inputDelay c), disconnect_timeout (nc_inputDelay c) div 2))"

definition ApplyGgpoDisconnectSettings :: "app \<Rightarrow> app" where
  "ApplyGgpoDisconnectSettings s =
     (if \<not> ggpo s then s
      else (let (t, n) = disconnect_settings (cfg s) in act (Act_GgpoTimeouts t n) s))"

section \<open>The callbacks\<close>

datatype ggpo_event = EvConnected | EvSynchronizing | EvSynchronized | EvRunning
  | EvInterrupted "32 word" | EvResumed | EvDisconnected | EvTimesync int

definition on_interrupted :: "32 word \<Rightarrow> app \<Rightarrow> app" where
  "on_interrupted now s =
     (let (g, fresh) = OnConnectionInterrupted now (gt s); s1 = s\<lparr>gt := g\<rparr>
      in if fresh then PushAlert Al_Unstable (s1\<lparr>interrupted := True\<rparr>) else s1)"

definition on_resumed :: "app \<Rightarrow> app" where
  "on_resumed s =
     (let (g, was) = OnConnectionResumed (gt s); s1 = s\<lparr>gt := g\<rparr>
      in if was then PushAlert Al_Restored (s1\<lparr>interrupted := False\<rparr>) else s1)"

definition on_disconnected :: "app \<Rightarrow> app" where
  "on_disconnected s0 =
     (let s = set_leaving s0
      in PushAlert Al_OpponentLeft (s\<lparr>gt := fst (OnConnectionResumed (gt s)), interrupted := False\<rparr>))"

fun ggpo_on_event_callback :: "ggpo_event \<Rightarrow> app \<Rightarrow> app" where
  "ggpo_on_event_callback EvConnected s = NotifyGgpoSyncPhase SP_Connected s"
| "ggpo_on_event_callback EvSynchronizing s = NotifyGgpoSyncPhase SP_Synchronizing s"
| "ggpo_on_event_callback EvSynchronized s = s"
| "ggpo_on_event_callback EvRunning s = NotifyGgpoSyncPhase SP_Running (s\<lparr>gt := OnRunning (gt s)\<rparr>)"
| "ggpo_on_event_callback (EvInterrupted now) s = on_interrupted now s"
| "ggpo_on_event_callback EvResumed s = on_resumed s"
| "ggpo_on_event_callback EvDisconnected s = on_disconnected s"
| "ggpo_on_event_callback (EvTimesync n) s = s\<lparr>pc := OnRecommendation n (pc s)\<rparr>"

definition save_callback :: "world \<Rightarrow> int \<Rightarrow> app \<Rightarrow> app" where
  "save_callback W frame s0 =
     (let s = s0\<lparr>lastSaveFrame := frame\<rparr>
      in case find_index (\<lambda>u. \<not> u) (slotUsed s) of
           Some i \<Rightarrow> act (Act_SaveSlot i frame) (s\<lparr>slotUsed := (slotUsed s)[i := True]\<rparr>)
         | None \<Rightarrow> AbortGgpoMatch W Al_BufferFull s)"

text \<open>A load brings the simulation back to what the slot captured, which the caller
  gives; the memory side is SaveState_Load.\<close>

definition load_callback :: "nat \<Rightarrow> sim_state \<Rightarrow> app \<Rightarrow> app" where
  "load_callback i saved s = act (Act_LoadSlot i) (s\<lparr>sim := saved, ag := (ag s)\<lparr>g_frame := sim_frame saved\<rparr>\<rparr>)"

definition set_playback :: "pad duo \<Rightarrow> app \<Rightarrow> app" where
  "set_playback ins s = s\<lparr>playbackFrame := 0, playbackData := (playbackData s)[0 := ins]\<rparr>"

definition end_playback :: "app \<Rightarrow> app" where
  "end_playback s = s\<lparr>playbackFrame := -1\<rparr>"

text \<open>A callback with what it needs of the library: an advance carries the result of its
  synchronize call with the inputs and flags, the callbacks its own advance_frame
  call makes, and that call's result.\<close>

datatype callback =
    CEvent ggpo_event
  | CSave int
  | CLoad nat sim_state
  | CFree nat
  | CAdvance int "pad duo" int "callback list" int

definition finish_advance :: "world \<Rightarrow> int \<Rightarrow> app \<Rightarrow> app" where
  "finish_advance W code s =
     end_playback (if code \<noteq> 0 then AbortGgpoMatch W Al_SyncFailed s
                   else CaptureCheckpoint (CaptureSnapshot s))"

fun run_cb :: "world \<Rightarrow> callback \<Rightarrow> app \<Rightarrow> app" and run_cbs :: "world \<Rightarrow> callback list \<Rightarrow> app \<Rightarrow> app" where
  "run_cb W (CEvent e) s = ggpo_on_event_callback e s"
| "run_cb W (CSave frame) s = save_callback W frame s"
| "run_cb W (CLoad i saved) s = load_callback i saved s"
| "run_cb W (CFree i) s = FreeSlot i s"
| "run_cb W (CAdvance code ins flags cbs adv) s =
     (if code \<noteq> 0 then AbortGgpoMatch W Al_SyncFailed s
      else finish_advance W adv (run_cbs W cbs (engine_update W (set_playback ins (NoteDisconnectFlags flags s)))))"
| "run_cbs W [] s = s"
| "run_cbs W (c # cs) s = run_cbs W cs (run_cb W c s)"

section \<open>Starting a session\<close>

text \<open>The library's answers: the start result, for each player the add result and the
  handle; the environment variables of the pacing overrides.\<close>

record start_env =
  se_environ :: environment
  se_start :: int
  se_add :: "nat \<Rightarrow> int \<times> int"

definition begin_session :: "world \<Rightarrow> environment \<Rightarrow> app \<Rightarrow> app" where
  "begin_session W env s0 =
     (let s = RetireGgpoSession W (CancelDeferredGgpoClose s0); g = OnSessionStarted (gt s)
      in s\<lparr>gt := g, upd := \<not> manualPause g, pc := ResetPacerForSession env (pc s), lastFlags := 0,
           localHandle := GGPO_INVALID_HANDLE, lastSaveFrame := -1\<rparr>)"

definition set_player_type :: "nat \<Rightarrow> player_type \<Rightarrow> app \<Rightarrow> app" where
  "set_player_type i t s = s\<lparr>plys := (plys s)[i := (plys s ! i)\<lparr>pi_type := t\<rparr>]\<rparr>"

definition set_player_handle :: "nat \<Rightarrow> int \<Rightarrow> app \<Rightarrow> app" where
  "set_player_handle i h s = s\<lparr>plys := (plys s)[i := (plys s ! i)\<lparr>pi_handle := h\<rparr>]\<rparr>"

definition note_local :: "8 word \<Rightarrow> int \<Rightarrow> player_type \<Rightarrow> app \<Rightarrow> app" where
  "note_local delay h t s = (if t = PT_LOCAL then act (Act_FrameDelay h delay) (s\<lparr>localHandle := h\<rparr>) else s)"

text \<open>The two player seats; None when one could not be added and the match was aborted.\<close>

definition add_player :: "start_env \<Rightarrow> 8 word \<Rightarrow> player_type list \<Rightarrow> nat \<Rightarrow> app \<Rightarrow> bool \<times> app" where
  "add_player e delay ps i s =
     (let s1 = set_player_type i (ps ! i) s; (res, h) = se_add e i
      in if res \<noteq> 0 then (False, s1)
         else (True, note_local delay h (ps ! i) (set_player_handle i h s1)))"

definition add_two_players :: "world \<Rightarrow> start_env \<Rightarrow> 8 word \<Rightarrow> player_type list \<Rightarrow> app \<Rightarrow> bool \<times> app" where
  "add_two_players W e delay ps s =
     (case add_player e delay ps 0 s of
        (False, s1) \<Rightarrow> (False, AbortGgpoMatch W Al_CannotAddPlayers s1)
      | (True, s1) \<Rightarrow>
          (case add_player e delay ps 1 s1 of
             (False, s2) \<Rightarrow> (False, AbortGgpoMatch W Al_CannotAddPlayers s2)
           | (True, s2) \<Rightarrow> (True, s2)))"

definition add_spectator :: "start_env \<Rightarrow> player_type list \<Rightarrow> nat \<Rightarrow> app \<Rightarrow> app" where
  "add_spectator e ps i s =
     (let s1 = set_player_type i (ps ! i) s; (res, h) = se_add e i
      in if res \<noteq> 0 then s1 else set_player_handle i h s1)"

text \<open>Spectators are added by the client whose local seat is the first; the last local
  seat found is the one that counts.\<close>

definition local_is_first :: "player_type list \<Rightarrow> bool" where
  "local_is_first ps \<longleftrightarrow> ps ! 0 = PT_LOCAL \<and> ps ! 1 \<noteq> PT_LOCAL"

definition add_spectators :: "start_env \<Rightarrow> player_type list \<Rightarrow> nat \<Rightarrow> app \<Rightarrow> app" where
  "add_spectators e ps n s =
     (if local_is_first ps then fold (add_spectator e ps) [2..<n] s else s)"

definition arm_battle :: "32 word \<Rightarrow> app \<Rightarrow> app" where
  "arm_battle seed s = s\<lparr>nextFlow := BF_MATCH_START, vsTerminate := True, vsOverrideSeed := True, vsSeed := seed\<rparr>"

definition StartGGPO :: "world \<Rightarrow> start_env \<Rightarrow> player_type list \<Rightarrow> nat \<Rightarrow> 16 word \<Rightarrow> 8 word \<Rightarrow> 32 word \<Rightarrow> app \<Rightarrow> app" where
  "StartGGPO W e ps numPlayers port delay seed s0 =
     (let s = (begin_session W (se_environ e) s0)\<lparr>interrupted := False\<rparr>;
          s1 = act (Act_GgpoStart numPlayers port) s
      in if se_start e \<noteq> 0 then AbortGgpoMatch W Al_CannotStart (s1\<lparr>ggpo := False\<rparr>)
         else (case add_two_players W e delay ps (ApplyGgpoDisconnectSettings (s1\<lparr>ggpo := True\<rparr>)) of
                 (False, s2) \<Rightarrow> s2
               | (True, s2) \<Rightarrow> arm_battle seed (add_spectators e ps numPlayers s2)))"

text \<open>\<open>made\<close>: whether the library left a session behind; a failed start is only logged.\<close>

definition StartSpectating :: "world \<Rightarrow> environment \<Rightarrow> bool \<Rightarrow> string \<Rightarrow> 16 word \<Rightarrow> 32 word \<Rightarrow> app \<Rightarrow> app" where
  "StartSpectating W env made host port seed s0 =
     (let s = act (Act_GgpoSpectate host port) (begin_session W env s0)
      in arm_battle seed (ApplyGgpoDisconnectSettings (s\<lparr>ggpo := made\<rparr>)))"

section \<open>The battle update\<close>

text \<open>The library's part of one update: its results and the callbacks each call makes;
  the pair of random buttons of the input fuzzer.\<close>

record update_env =
  ue_random :: pad
  ue_add :: "int \<times> callback list"
  ue_sync :: "int \<times> pad duo \<times> int \<times> callback list"
  ue_adv :: "int \<times> callback list"

definition local_side :: "app \<Rightarrow> nat option" where
  "local_side s = find_index (\<lambda>p. pi_type p = PT_LOCAL) (take 2 (plys s))"

definition random_input :: "pad \<Rightarrow> app \<Rightarrow> app" where
  "random_input r s =
     (let cur = sim_frame (sim s)
      in if lastRandFrame s < 0 \<or> cur - lastRandFrame s > randEvery s
         then s\<lparr>randInputs := r, lastRandFrame := cur\<rparr> else s)"

definition fuzz :: "pad \<Rightarrow> app \<Rightarrow> app" where
  "fuzz r s = (if randEvery s \<noteq> 0 then random_input r s else s)"

text \<open>The buttons sent for a side.\<close>

definition local_input :: "nat \<Rightarrow> app \<Rightarrow> pad" where
  "local_input i s = (if randEvery s \<noteq> 0 then randInputs s else (GetButtons_MappedOn i s, GetButtons_RawOn i s))"

definition add_local_input :: "world \<Rightarrow> update_env \<Rightarrow> app \<Rightarrow> int \<times> app" where
  "add_local_input W e s =
     (if localHandle s = GGPO_INVALID_HANDLE then (0, s)
      else (case local_side s of
              None \<Rightarrow> (0, s)
            | Some i \<Rightarrow>
                (let s1 = fuzz (ue_random e) s
                 in (fst (ue_add e),
                     run_cbs W (snd (ue_add e)) (act (Act_AddInput (pi_handle (plys s1 ! i)) (local_input i s1)) s1)))))"

definition advance_frame :: "world \<Rightarrow> update_env \<Rightarrow> app \<Rightarrow> app" where
  "advance_frame W e s0 =
     (let s = run_cbs W (snd (ue_adv e)) s0
      in if fst (ue_adv e) \<noteq> 0 then AbortGgpoMatch W Al_SyncFailed s
         else CaptureCheckpoint (CaptureSnapshot (SyncSounds (s\<lparr>gt := OnFrameAccepted (gt s)\<rparr>))))"

definition run_synced_frame :: "world \<Rightarrow> update_env \<Rightarrow> app \<Rightarrow> app" where
  "run_synced_frame W e s =
     (let (code, ins, flags, cbs) = ue_sync e
      in advance_frame W e (end_playback (engine_update W (SyncSounds (set_playback ins (NoteDisconnectFlags flags s))))))"

text \<open>True: the update goes on to the extra frames and the halt; False: it returned.\<close>

definition synchronize_frame :: "world \<Rightarrow> update_env \<Rightarrow> app \<Rightarrow> bool \<times> app" where
  "synchronize_frame W e s0 =
     (let (code, ins, flags, cbs) = ue_sync e; s = run_cbs W cbs s0
      in case ClassifyGgpoResult code of
           POLICY_CONTINUE \<Rightarrow> (True, run_synced_frame W e s)
         | POLICY_FATAL \<Rightarrow> (False, AbortGgpoMatch W Al_SyncFailed s)
         | _ \<Rightarrow> (False, s))"

definition ggpo_frame_update :: "world \<Rightarrow> update_env \<Rightarrow> app \<Rightarrow> bool \<times> app" where
  "ggpo_frame_update W e s0 =
     (let (code, s) = add_local_input W e s0
      in case ClassifyGgpoResult code of
           POLICY_CONTINUE \<Rightarrow> synchronize_frame W e s
         | POLICY_STALL_PREDICTION \<Rightarrow> (False, s\<lparr>gt := OnPredictionThreshold (gt s)\<rparr>)
         | POLICY_FATAL \<Rightarrow> (False, AbortGgpoMatch W Al_InputFailed s)
         | _ \<Rightarrow> (False, s))"

definition extra_frame :: "world \<Rightarrow> nat \<Rightarrow> app \<Rightarrow> app" where
  "extra_frame W i s = engine_update W (s\<lparr>playbackFrame := int i\<rparr>)"

definition simulate_extra :: "world \<Rightarrow> app \<Rightarrow> app" where
  "simulate_extra W s =
     (if 0 < extraFrames s
      then (fold (extra_frame W) [0..<nat (extraFrames s)] s)\<lparr>playbackFrame := -1, extraFrames := 0\<rparr>
      else s)"

definition halt_after :: "app \<Rightarrow> app" where
  "halt_after s =
     (if haltAfterNext s then s\<lparr>haltAfterNext := False, upd := False, gt := SetManualPause True (gt s)\<rparr> else s)"

definition BattleUpdate :: "world \<Rightarrow> update_env \<Rightarrow> app \<Rightarrow> app" where
  "BattleUpdate W e s =
     (if \<not> MayAdvanceDeterministicFrame s then s
      else if ggpo s \<and> battle_flow s \<noteq> BF_IDLE
      then (case ggpo_frame_update W e s of
              (False, s1) \<Rightarrow> s1
            | (True, s1) \<Rightarrow> halt_after (simulate_extra W s1))
      else halt_after (simulate_extra W (engine_update W (SyncSounds s))))"

section \<open>Shutting down and closing a battle\<close>

text \<open>ShutdownNetplay and the finalisation of a lost control plane are the facade's; the
  battle close calls them.\<close>

definition drop_client :: "app \<Rightarrow> app" where
  "drop_client s = (if net s \<noteq> None then act Act_Disconnect (s\<lparr>net := None\<rparr>) else s)"

definition drop_server :: "app \<Rightarrow> app" where
  "drop_server s = (if srv s then act Act_ServerClose (s\<lparr>srv := False\<rparr>) else s)"

definition ShutdownNetplay :: "world \<Rightarrow> bool \<Rightarrow> app \<Rightarrow> app" where
  "ShutdownNetplay W closeGgpo s0 =
     (let s = (if closeGgpo \<and> ggpo s0 then RetireGgpoSession W s0 else s0);
          s1 = TunnelReset (s\<lparr>pc := pacer_Reset (pc s)\<rparr>);
          s2 = s1\<lparr>transport := no_transport_status, syncPhase := SP_None, battleStartTick := 0, fallbackTried := False\<rparr>;
          s3 = drop_server (drop_client s2)
      in s3\<lparr>deferClose := False, deferredPending := False, sentSettings := False, brokerHost := [],
            brokerPort := 0, controlLost := False, lostAtFrame := -1\<rparr>)"

definition FinalizeControlPlaneLossAfterBattle :: "world \<Rightarrow> app \<Rightarrow> app" where
  "FinalizeControlPlaneLossAfterBattle W s =
     (if \<not> controlLost s then s else ShutdownNetplay W True (PushAlert Al_ReturnedToMenu s))"

definition close_or_defer :: "world \<Rightarrow> 32 word \<Rightarrow> app \<Rightarrow> app" where
  "close_or_defer W now s =
     (case ShouldDeferGgpoClose now s of
        (True, s1) \<Rightarrow> s1\<lparr>pc := pacer_Reset (pc s1)\<rparr>
      | (False, s1) \<Rightarrow> TunnelReset (RetireGgpoSession W s1))"

definition free_if_used_slot :: "nat \<Rightarrow> app \<Rightarrow> app" where
  "free_if_used_slot i s = (if slotUsed s ! i then FreeSlot i s else s)"

definition CloseBattle :: "world \<Rightarrow> 32 word \<Rightarrow> 32 word \<Rightarrow> app \<Rightarrow> app" where
  "CloseBattle W now1 now2 s0 =
     (let s = (if ggpo s0
               then (close_or_defer W now2 (NotifyMatchEnded now1 (s0\<lparr>gt := OnBattleClosing (gt s0)\<rparr>)))
                      \<lparr>interrupted := False\<rparr>
               else s0);
          s1 = fold free_if_used_slot [0..<NUM_SAVE_STATES] s
      in FinalizeControlPlaneLossAfterBattle W (act Act_EngineCloseBattle s1))"

section \<open>Battle flow and pause hooks\<close>

definition OnBattleFlow_BattleStart :: "app \<Rightarrow> app" where
  "OnBattleFlow_BattleStart s =
     (if -1 < nextFlow s then (act (Act_SetFlow (nextFlow s)) s)\<lparr>nextFlow := -1\<rparr> else s)"

text \<open>Whether the engine's own pause update runs.\<close>

definition SysMain_UpdatePauseState :: "app \<Rightarrow> bool" where
  "SysMain_UpdatePauseState s \<longleftrightarrow> \<not> ggpo s"

end
