(* ===== verification/Battle_Properties.thy ===== *)
theory Battle_Properties
  imports Battle_System
begin

text \<open>
  What the battle system guarantees: the engine runs in a match only on the
  inputs GGPO synchronized, playback never outlives the update that set it, an
  aborted match stays frozen, and the invariant of every reachable state.
\<close>

section \<open>What a callback leaves alone\<close>

text \<open>The engine updates among the actions, by their inputs.\<close>

fun engine_inputs :: "action list \<Rightarrow> pad duo list" where
  "engine_inputs [] = []"
| "engine_inputs (Act_EngineUpdate i # as) = i # engine_inputs as"
| "engine_inputs (_ # as) = engine_inputs as"

lemma engine_inputs_append [simp]: "engine_inputs (as @ bs) = engine_inputs as @ engine_inputs bs"
  by (induction as rule: engine_inputs.induct) auto

named_theorems battle_simps

lemmas battle_defs = act_def PushAlert_def set_leaving_def upd_client_def ClearBattleState_def
  TunnelReset_def close_session_def FreeSlot_def NotifyGgpoSyncPhase_def NoteDisconnectFlags_def

text \<open>The part of the process the netplay control never writes by itself.\<close>

definition same_play :: "app \<Rightarrow> app \<Rightarrow> bool" where
  "same_play s t \<longleftrightarrow> sim t = sim s \<and> playbackFrame t = playbackFrame s \<and> playbackData t = playbackData s \<and>
     extraFrames t = extraFrames s \<and> engine_inputs (acts t) = engine_inputs (acts s)"

lemma same_play_refl [simp]: "same_play s s"
  by (simp add: same_play_def)

lemma same_play_trans: "same_play s t \<Longrightarrow> same_play t u \<Longrightarrow> same_play s u"
  by (simp add: same_play_def)

lemma same_play_FreeSlot [battle_simps]: "same_play s (FreeSlot i s)"
  by (simp add: same_play_def FreeSlot_def act_def)

lemma same_play_fold:
  "(\<And>i u. same_play u (f i u)) \<Longrightarrow> same_play s (fold f xs s)"
proof (induction xs arbitrary: s)
  case (Cons x xs)
  show ?case using same_play_trans [OF Cons.prems(1) Cons.IH [OF Cons.prems(1)]] by simp
qed simp

lemma same_play_close [battle_simps]: "same_play s (close_session W s)"
  using same_play_fold [of FreeSlot s "w_held W s", OF same_play_FreeSlot]
  by (simp add: close_session_def act_def same_play_def)

lemma same_play_retire [battle_simps]: "same_play s (RetireGgpoSession W s)"
  using same_play_close [of s W] by (simp add: RetireGgpoSession_def Let_def same_play_def)

lemma same_play_abort [battle_simps]: "same_play s (AbortGgpoMatch W r s)"
  using same_play_retire [of "(PushAlert r s)\<lparr>gt := OnFatal (gt (PushAlert r s)), upd := False, interrupted := False\<rparr>" W]
  by (simp add: AbortGgpoMatch_def Let_def same_play_def battle_defs)

lemma same_play_event [battle_simps]: "same_play s (ggpo_on_event_callback e s)"
  by (cases e) (auto simp: same_play_def battle_defs on_interrupted_def on_resumed_def
      on_disconnected_def Let_def split: prod.splits)

lemma same_play_save [battle_simps]: "same_play s (save_callback W f s)"
  using same_play_abort [of "s\<lparr>lastSaveFrame := f\<rparr>" W Al_BufferFull]
  by (auto simp: save_callback_def Let_def same_play_def act_def split: option.splits)

lemma same_play_capture [battle_simps]: "same_play s (CaptureSnapshot s)" "same_play s (CaptureCheckpoint s)"
  by (auto simp: CaptureSnapshot_def CaptureCheckpoint_def same_play_def Let_def split: option.splits)

lemma same_play_sounds [battle_simps]: "same_play s (SyncSounds s)"
  by (simp add: SyncSounds_def act_def same_play_def)

section \<open>The inputs the library synchronized\<close>

fun cb_inputs :: "callback \<Rightarrow> pad duo list" and cbs_inputs :: "callback list \<Rightarrow> pad duo list" where
  "cb_inputs (CEvent e) = []"
| "cb_inputs (CSave frame) = []"
| "cb_inputs (CLoad i saved) = []"
| "cb_inputs (CFree i) = []"
| "cb_inputs (CAdvance code ins flags cbs adv) = (if code \<noteq> 0 then [] else ins # cbs_inputs cbs)"
| "cbs_inputs [] = []"
| "cbs_inputs (c # cs) = cb_inputs c @ cbs_inputs cs"

definition ready :: "app \<Rightarrow> bool" where
  "ready s \<longleftrightarrow> playbackData s \<noteq> []"

lemma ready_same_play: "same_play s t \<Longrightarrow> ready t = ready s"
  by (simp add: same_play_def ready_def)

lemma engine_update_playback:
  assumes "ready s"
  shows "engine_inputs (acts (engine_update W (set_playback ins s))) = engine_inputs (acts s) @ [ins]"
    "ready (engine_update W (set_playback ins s))"
    "extraFrames (engine_update W (set_playback ins s)) = extraFrames s"
  using assms by (simp_all add: engine_update_def set_playback_def read_pads_def act_def Let_def ready_def)

text \<open>What an update needs of the state after callbacks.\<close>

definition cb_post :: "pad duo list \<Rightarrow> app \<Rightarrow> app \<Rightarrow> bool" where
  "cb_post ins s t \<longleftrightarrow> engine_inputs (acts t) = engine_inputs (acts s) @ ins \<and> ready t \<and>
     extraFrames t = extraFrames s \<and> (playbackFrame s = -1 \<longrightarrow> playbackFrame t = -1)"

lemma cb_post_same: "same_play s t \<Longrightarrow> ready s \<Longrightarrow> cb_post [] s t"
  by (simp add: cb_post_def same_play_def ready_def)

lemma cb_post_trans: "cb_post a s t \<Longrightarrow> cb_post b t u \<Longrightarrow> cb_post (a @ b) s u"
  by (simp add: cb_post_def)

lemma cb_post_ready: "cb_post a s t \<Longrightarrow> ready t"
  by (simp add: cb_post_def)

lemma finish_advance_post:
  assumes "cb_post ins s t"
  shows "cb_post ins s (finish_advance W code t) \<and> playbackFrame (finish_advance W code t) = -1"
proof -
  have *: "cb_post ins s (end_playback u)" if "same_play t u" for u
    using assms that by (simp add: cb_post_def same_play_def end_playback_def ready_def)
  have "same_play t (CaptureCheckpoint (CaptureSnapshot t))"
    using same_play_trans [OF same_play_capture(1) same_play_capture(2)] .
  then show ?thesis
    using * same_play_abort [of t W Al_SyncFailed] by (simp add: finish_advance_def end_playback_def)
qed

lemma callbacks_run_synced_inputs:
  "ready s \<Longrightarrow> cb_post (cb_inputs c) s (run_cb W c s)"
  "ready s \<Longrightarrow> cb_post (cbs_inputs cs) s (run_cbs W cs s)"
proof (induction c and cs arbitrary: s and s rule: cb_inputs_cbs_inputs.induct)
  case (1 e)
  then show ?case using cb_post_same [OF same_play_event] by simp
next
  case (2 frame)
  then show ?case using cb_post_same [OF same_play_save] by simp
next
  case (3 i saved)
  then show ?case by (simp add: cb_post_def load_callback_def act_def ready_def)
next
  case (4 i)
  then show ?case using cb_post_same [OF same_play_FreeSlot] by simp
next
  case (5 code ins flags cbs adv)
  show ?case
  proof (cases "code = 0")
    case False
    then show ?thesis using cb_post_same [OF same_play_abort 5(2)] by simp
  next
    case True
    define t where "t = engine_update W (set_playback ins (NoteDisconnectFlags flags s))"
    have r: "ready (NoteDisconnectFlags flags s)" using 5(2) by (simp add: ready_def NoteDisconnectFlags_def)
    have t: "engine_inputs (acts t) = engine_inputs (acts s) @ [ins]" "ready t" "extraFrames t = extraFrames s"
      using engine_update_playback [OF r] by (simp_all add: t_def NoteDisconnectFlags_def)
    have "cb_post (cbs_inputs cbs) t (run_cbs W cbs t)" using 5(1) True t(2) by simp
    then have "cb_post (cbs_inputs cbs) t (finish_advance W adv (run_cbs W cbs t)) \<and>
        playbackFrame (finish_advance W adv (run_cbs W cbs t)) = -1"
      by (rule finish_advance_post)
    then show ?thesis using True t by (simp add: t_def [symmetric] cb_post_def)
  qed
next
  case 6
  then show ?case by (simp add: cb_post_def)
next
  case (7 c cs)
  have "cb_post (cb_inputs c) s (run_cb W c s)" using 7 by simp
  then show ?case using 7(2) [OF cb_post_ready] cb_post_trans by fastforce
qed

section \<open>One update\<close>

text \<open>What one update makes of the library's answers.\<close>

definition synced_inputs :: "update_env \<Rightarrow> pad duo list" where
  "synced_inputs e =
     (let (code, ins, flags, cbs) = ue_sync e
      in cbs_inputs cbs @ (if code = 0 then ins # cbs_inputs (snd (ue_adv e)) else []))"

definition sends_input :: "app \<Rightarrow> bool" where
  "sends_input s \<longleftrightarrow> localHandle s \<noteq> GGPO_INVALID_HANDLE \<and> local_side s \<noteq> None"

definition update_inputs :: "update_env \<Rightarrow> app \<Rightarrow> pad duo list" where
  "update_inputs e s =
     (if sends_input s
      then cbs_inputs (snd (ue_add e)) @ (if fst (ue_add e) = 0 then synced_inputs e else [])
      else synced_inputs e)"

lemma Classify_continue: "ClassifyGgpoResult code = POLICY_CONTINUE \<longleftrightarrow> code = 0"
  by (simp add: ClassifyGgpoResult_def)

lemma same_play_fuzz: "same_play s (fuzz r s)"
  by (simp add: fuzz_def random_input_def same_play_def Let_def)

lemma same_play_input: "same_play s (act (Act_AddInput h p) s)"
  by (simp add: same_play_def act_def)

lemma add_local_input_post:
  assumes "ready s"
  shows "cb_post (if sends_input s then cbs_inputs (snd (ue_add e)) else []) s (snd (add_local_input W e s))"
    "fst (add_local_input W e s) = (if sends_input s then fst (ue_add e) else 0)"
proof -
  have f: "cb_post [] s (act (Act_AddInput h p) (fuzz (ue_random e) s))" for h p
    by (rule cb_post_same [OF same_play_trans [OF same_play_fuzz same_play_input] assms])
  have "cb_post (cbs_inputs (snd (ue_add e))) s
      (run_cbs W (snd (ue_add e)) (act (Act_AddInput h p) (fuzz (ue_random e) s)))" for h p
    using cb_post_trans [OF f callbacks_run_synced_inputs(2) [OF cb_post_ready [OF f]]] by simp
  then show "cb_post (if sends_input s then cbs_inputs (snd (ue_add e)) else []) s (snd (add_local_input W e s))"
    using cb_post_same [OF same_play_refl assms] by (auto simp: add_local_input_def sends_input_def Let_def split: option.splits)
  show "fst (add_local_input W e s) = (if sends_input s then fst (ue_add e) else 0)"
    by (auto simp: add_local_input_def sends_input_def Let_def split: option.splits)
qed

lemma cb_post_then_same: "cb_post a s t \<Longrightarrow> same_play t u \<Longrightarrow> cb_post a s u"
  using cb_post_trans [of a s t "[]" u] cb_post_same [of t u] by (simp add: cb_post_ready)

lemma advance_frame_post:
  assumes "cb_post a s t"
  shows "cb_post (a @ cbs_inputs (snd (ue_adv e))) s (advance_frame W e t)"
proof -
  define u where "u = run_cbs W (snd (ue_adv e)) t"
  have u: "cb_post (a @ cbs_inputs (snd (ue_adv e))) s u"
    using cb_post_trans [OF assms callbacks_run_synced_inputs(2) [OF cb_post_ready [OF assms]]]
    by (simp add: u_def)
  have g: "same_play u (u\<lparr>gt := OnFrameAccepted (gt u)\<rparr>)" by (simp add: same_play_def)
  have "same_play u (CaptureCheckpoint (CaptureSnapshot (SyncSounds (u\<lparr>gt := OnFrameAccepted (gt u)\<rparr>))))"
    by (rule same_play_trans [OF same_play_trans [OF same_play_trans [OF g same_play_sounds]
      same_play_capture(1)] same_play_capture(2)])
  then show ?thesis
    using cb_post_then_same [OF u] same_play_abort [of u W]
    by (simp add: advance_frame_def u_def [symmetric] Let_def)
qed

lemma run_synced_frame_post:
  assumes s: "ready s" and e: "ue_sync e = (code, ins, flags, cbs)"
  shows "cb_post (ins # cbs_inputs (snd (ue_adv e))) s (run_synced_frame W e s)"
proof -
  define t where "t = set_playback ins (NoteDisconnectFlags flags s)"
  define u where "u = end_playback (engine_update W (SyncSounds t))"
  have r: "SyncSounds t = set_playback ins (SyncSounds (NoteDisconnectFlags flags s))"
    by (simp add: t_def SyncSounds_def act_def set_playback_def NoteDisconnectFlags_def)
  have s1: "same_play (NoteDisconnectFlags flags s) (SyncSounds (NoteDisconnectFlags flags s))"
    by (rule same_play_sounds)
  have rs: "ready (SyncSounds (NoteDisconnectFlags flags s))"
    using s s1 by (simp add: same_play_def ready_def NoteDisconnectFlags_def)
  have "cb_post [ins] s u"
    using engine_update_playback [OF rs, of W ins] s1
    by (simp add: u_def r cb_post_def same_play_def NoteDisconnectFlags_def end_playback_def ready_def)
  then show ?thesis
    using advance_frame_post [of "[ins]" s u e W] by (simp add: run_synced_frame_def e u_def t_def)
qed

lemma synchronize_frame_post:
  assumes "ready s"
  shows "cb_post (synced_inputs e) s (snd (synchronize_frame W e s))"
proof -
  obtain code ins flags cbs where e: "ue_sync e = (code, ins, flags, cbs)" by (cases "ue_sync e") auto
  define t where "t = run_cbs W cbs s"
  have t: "cb_post (cbs_inputs cbs) s t" using callbacks_run_synced_inputs(2) [OF assms] by (simp add: t_def)
  have "cb_post (ins # cbs_inputs (snd (ue_adv e))) t (run_synced_frame W e t)"
    by (rule run_synced_frame_post [OF cb_post_ready [OF t] e])
  then have "cb_post (cbs_inputs cbs @ ins # cbs_inputs (snd (ue_adv e))) s (run_synced_frame W e t)"
    by (rule cb_post_trans [OF t])
  moreover have "cb_post (cbs_inputs cbs) s (AbortGgpoMatch W Al_SyncFailed t)"
    by (rule cb_post_then_same [OF t same_play_abort])
  ultimately show ?thesis
    using t Classify_continue [of code]
    by (auto simp: synchronize_frame_def synced_inputs_def e t_def [symmetric] split: advance_policy.splits)
qed

lemma ggpo_frame_update_post:
  assumes "ready s"
  shows "cb_post (update_inputs e s) s (snd (ggpo_frame_update W e s))"
proof -
  obtain code t where ct: "add_local_input W e s = (code, t)" by (cases "add_local_input W e s") auto
  define a where "a = (if sends_input s then cbs_inputs (snd (ue_add e)) else [])"
  have t: "cb_post a s t" and code: "code = (if sends_input s then fst (ue_add e) else 0)"
    using add_local_input_post [OF assms, where e = e and W = W] ct by (simp_all add: a_def)
  have sync: "cb_post (a @ synced_inputs e) s (snd (synchronize_frame W e t))"
    by (rule cb_post_trans [OF t synchronize_frame_post [OF cb_post_ready [OF t]]])
  have stall: "cb_post a s (t\<lparr>gt := OnPredictionThreshold (gt t)\<rparr>)"
    by (rule cb_post_then_same [OF t]) (simp add: same_play_def)
  have fatal: "cb_post a s (AbortGgpoMatch W Al_InputFailed t)"
    by (rule cb_post_then_same [OF t same_play_abort])
  have ins: "update_inputs e s = a @ (if code = 0 then synced_inputs e else [])"
    by (simp add: update_inputs_def a_def code)
  show ?thesis
    using sync stall fatal t Classify_continue [of code]
    by (auto simp: ggpo_frame_update_def ct ins split: advance_policy.splits)
qed

definition netplay_frame :: "app \<Rightarrow> bool" where
  "netplay_frame s \<longleftrightarrow> ggpo s \<and> battle_flow s \<noteq> BF_IDLE \<and> extraFrames s \<le> 0 \<and> ready s"

lemma halt_after_post: "same_play s (halt_after s)"
  by (simp add: halt_after_def same_play_def)

lemma synced_frames_lemma:
  assumes "netplay_frame s"
  shows "engine_inputs (acts (BattleUpdate W e s)) =
    engine_inputs (acts s) @ (if MayAdvanceDeterministicFrame s then update_inputs e s else [])"
proof -
  have s: "ggpo s" "battle_flow s \<noteq> BF_IDLE" "extraFrames s \<le> 0" "ready s"
    using assms by (simp_all add: netplay_frame_def)
  obtain go t where gt: "ggpo_frame_update W e s = (go, t)" by (cases "ggpo_frame_update W e s") auto
  have t: "cb_post (update_inputs e s) s t" using ggpo_frame_update_post [OF s(4), of e W] gt by simp
  then have "simulate_extra W t = t" using s(3) by (simp add: simulate_extra_def cb_post_def)
  then show ?thesis
    using t halt_after_post [of t] s(1,2) by (cases go) (simp_all add: BattleUpdate_def gt cb_post_def same_play_def)
qed

text \<open>
  C2: during a match the engine advances on the inputs GGPO synchronized and on
  nothing else: the engine updates one battle update makes (the frame's own and
  the rollback's, whatever callbacks the library interleaves) are, in order,
  exactly the ones the library delivered. The local pads never reach the engine
  directly, and when the gate is shut, the input is refused or the
  synchronisation fails, the frame's update does not happen.
\<close>

theorem engine_runs_synced_inputs:
  assumes "netplay_frame s"
  shows "engine_inputs (acts (BattleUpdate W e s)) =
    engine_inputs (acts s) @ (if MayAdvanceDeterministicFrame s then update_inputs e s else [])"
  by (rule synced_frames_lemma [OF assms])

definition flow_sim :: "32 word \<Rightarrow> sim_state" where
  "flow_sim f = \<lparr>numFrames = \<lparr>fractional = 0, integral = 0\<rparr>, flowWords = [f, 0, 0, 0],
     flowFrames = replicate 4 \<lparr>fractional = 0, integral = 0\<rparr>,
     actors = (\<lparr>a_status = 0, a_side = 0, a_rootPos = replicate 4 0, a_values = replicate 14 \<lparr>fractional = 0, integral = 0\<rparr>\<rparr>,
       \<lparr>a_status = 0, a_side = 1, a_rootPos = replicate 4 0, a_values = replicate 14 \<lparr>fractional = 0, integral = 0\<rparr>\<rparr>)\<rparr>"

text \<open>A match between the local seat and a remote one, and an engine that stands still.\<close>

definition match_app :: app where
  "match_app = (app_static (flow_sim 3))\<lparr>gt := OnRunning (OnSessionStarted gate_reset), ggpo := True, localHandle := 1,
     haveSystem := True, pads := ((7, 7), (8, 8)), syncPhase := SP_Running\<rparr>"

definition still_world :: world where
  "still_world = \<lparr>w_step = (\<lambda>_ m. m), w_held = (\<lambda>s. filter (\<lambda>i. slotUsed s ! i) [0..<10])\<rparr>"

text \<open>One rolled-back frame, then the frame itself.\<close>

definition rollback_env :: update_env where
  "rollback_env = \<lparr>ue_random = (0, 0), ue_add = (0, []),
     ue_sync = (0, ((1, 1), (2, 2)), 0, [CLoad 0 (flow_sim 3), CAdvance 0 ((5, 5), (6, 6)) 0 [CSave 4] 0]),
     ue_adv = (0, [CSave 5])\<rparr>"

lemma match_app_ready: "netplay_frame match_app" "MayAdvanceDeterministicFrame match_app"
  by (simp_all add: netplay_frame_def match_app_def app_static_def battle_flow_def flow_sim_def BF_IDLE_def
      ready_def PLAYBACK_MAX_def MayAdvanceDeterministicFrame_def CanAdvanceDeterministicFrame_def gate_defs)

theorem engine_runs_synced_inputs_witness:
  "engine_inputs (acts (BattleUpdate still_world rollback_env match_app)) = [((5, 5), (6, 6)), ((1, 1), (2, 2))]"
proof -
  have "update_inputs rollback_env match_app = [((5, 5), (6, 6)), ((1, 1), (2, 2))]"
    by (auto simp: update_inputs_def rollback_env_def synced_inputs_def)
  moreover have "acts match_app = []" by (simp add: match_app_def app_static_def)
  ultimately show ?thesis
    using engine_runs_synced_inputs [OF match_app_ready(1), of still_world rollback_env] match_app_ready(2) by simp
qed

section \<open>Playback\<close>

lemma playback_restored_lemma:
  assumes "playbackFrame s = -1" "ready s"
  shows "playbackFrame (BattleUpdate W e s) = -1"
proof -
  obtain go t where gt: "ggpo_frame_update W e s = (go, t)" by (cases "ggpo_frame_update W e s") auto
  have "cb_post (update_inputs e s) s t" using ggpo_frame_update_post [OF assms(2), of e W] gt by simp
  then have t: "playbackFrame t = -1" using assms(1) by (simp add: cb_post_def)
  have x: "playbackFrame (halt_after (simulate_extra W u)) = -1" if "playbackFrame u = -1" for u
    using that by (simp add: halt_after_def simulate_extra_def)
  have "playbackFrame (engine_update W (SyncSounds s)) = -1"
    using assms(1) by (simp add: engine_update_def SyncSounds_def act_def Let_def)
  then show ?thesis
    using t x assms(1) by (cases go) (auto simp: BattleUpdate_def gt)
qed

text \<open>
  Playback never outlives the update that set it: an update that starts with
  the pads read from the devices ends that way, on every path, including the
  aborts in the middle of a rollback.
\<close>

theorem playback_restored:
  assumes "playbackFrame s = -1" "ready s"
  shows "playbackFrame (BattleUpdate W e s) = -1"
  using playback_restored_lemma [OF assms] .

theorem playback_restored_witness:
  "playbackFrame (BattleUpdate still_world (rollback_env\<lparr>ue_adv := (9, [CSave 5])\<rparr>) match_app) = -1"
  by (rule playback_restored) (simp_all add: match_app_def app_static_def ready_def PLAYBACK_MAX_def)

section \<open>Closing a session\<close>

definition freed :: "nat list \<Rightarrow> bool list \<Rightarrow> bool list" where
  "freed is u = fold (\<lambda>i u. u[i := False]) is u"

lemma freed_simps [simp]: "freed [] u = u" "freed (i # is) u = freed is (u[i := False])"
  "freed (is @ js) u = freed js (freed is u)"
  by (simp_all add: freed_def)

lemma freed_length [simp]: "length (freed is u) = length u"
  by (induction "is" arbitrary: u) auto

lemma fold_FreeSlot:
  "fold FreeSlot is s = s\<lparr>slotUsed := freed is (slotUsed s), acts := acts s @ map Act_FreeSlot is\<rparr>"
  by (induction "is" arbitrary: s) (simp_all add: FreeSlot_def act_def)

lemma retire_simp:
  "RetireGgpoSession W s =
     (if ggpo s
      then s\<lparr>slotUsed := freed (w_held W s) (slotUsed s),
             acts := acts s @ map Act_FreeSlot (w_held W s) @ [Act_GgpoClose],
             ggpo := False, gt := OnSessionClosed (gt s), interrupted := False, pc := pacer_Reset (pc s)\<rparr>
      else s)"
  by (simp add: RetireGgpoSession_def close_session_def fold_FreeSlot act_def Let_def)

lemma upd_client_keeps:
  "ggpo (upd_client f s) = ggpo s" "upd (upd_client f s) = upd s" "gt (upd_client f s) = gt s"
  "deferClose (upd_client f s) = deferClose s" "deferredPending (upd_client f s) = deferredPending s"
  "tun (upd_client f s) = tun s" "controlLost (upd_client f s) = controlLost s"
  "playbackData (upd_client f s) = playbackData s" "slotUsed (upd_client f s) = slotUsed s"
  "plys (upd_client f s) = plys s" "(net (upd_client f s) = None) = (net s = None)"
  "extraFrames (upd_client f s) = extraFrames s" "haltAfterNext (upd_client f s) = haltAfterNext s"
  by (simp_all add: upd_client_def)

section \<open>An aborted match\<close>

lemma abort_frozen [simp]: "upd (AbortGgpoMatch W r s) = False" "ggpo (AbortGgpoMatch W r s) = False"
  by (simp_all add: AbortGgpoMatch_def retire_simp battle_defs Let_def)

lemma frozen_update: "\<not> upd s \<Longrightarrow> BattleUpdate W e s = s"
  by (simp add: BattleUpdate_def MayAdvanceDeterministicFrame_def)

text \<open>
  Once a match is aborted no further frame is simulated, whatever the
  library answers and however many updates are made: the process is exactly as
  the abort left it. Only a new session (or the developer overlay) allows
  updates again; an offline battle after the abort does not advance either.
\<close>

theorem aborted_match_frozen:
  "fold (BattleUpdate W) es (AbortGgpoMatch W reason s) = AbortGgpoMatch W reason s"
  by (induction es) (simp_all add: frozen_update)

section \<open>The invariant of the process\<close>

definition core_ok :: "app \<Rightarrow> bool" where
  "core_ok s \<longleftrightarrow>
     (ggpo s \<longrightarrow> g_phase (gt s) \<noteq> PHASE_NO_SESSION \<and> \<not> fatalError (gt s) \<and> (upd s \<or> manualPause (gt s))) \<and>
     (deferClose s \<longrightarrow> deferredPending s) \<and> (tn_active (tun s) \<longrightarrow> net s \<noteq> None) \<and>
     length (playbackData s) = PLAYBACK_MAX \<and> length (slotUsed s) = NUM_SAVE_STATES \<and>
     length (plys s) = MAX_SF4E_PROTOCOL_USERS"

definition process_ok :: "app \<Rightarrow> bool" where
  "process_ok s \<longleftrightarrow> core_ok s \<and> playbackFrame s = -1"

named_theorems core

lemma core_ready: "core_ok s \<Longrightarrow> ready s"
  by (auto simp: core_ok_def ready_def PLAYBACK_MAX_def)

lemma core_static: "process_ok (app_static m)"
  by (simp add: process_ok_def core_ok_def app_static_def gate_defs NUM_SAVE_STATES_def tunnel_init_def)

lemma core_act [simp]: "core_ok (act a s) = core_ok s"
  by (simp add: core_ok_def act_def)

lemma core_FreeSlot [core]: "core_ok s \<Longrightarrow> core_ok (FreeSlot i s)"
  by (simp add: core_ok_def FreeSlot_def act_def)

lemma core_retire [core]: "core_ok s \<Longrightarrow> core_ok (RetireGgpoSession W s)"
  by (simp add: retire_simp core_ok_def OnSessionClosed_def)

lemma core_clear [core]: "core_ok s \<Longrightarrow> core_ok (ClearBattleState s)"
  by (simp add: ClearBattleState_def core_ok_def upd_client_keeps)

lemma core_leaving [core]: "core_ok s \<Longrightarrow> core_ok (set_leaving s)"
  by (simp add: set_leaving_def core_ok_def)

lemma core_tunnel [core]: "core_ok s \<Longrightarrow> core_ok (TunnelReset s)"
  by (simp add: TunnelReset_def act_def core_ok_def tunnel_Reset_def)

lemma core_closed:
  "core_ok s \<Longrightarrow> \<not> ggpo t \<Longrightarrow> deferClose t = deferClose s \<Longrightarrow> deferredPending t = deferredPending s \<Longrightarrow> tun t = tun s \<Longrightarrow>
   net t = net s \<Longrightarrow> playbackData t = playbackData s \<Longrightarrow>
   length (slotUsed t) = length (slotUsed s) \<Longrightarrow> plys t = plys s \<Longrightarrow> core_ok t"
  by (simp add: core_ok_def)

lemma core_abort [core]:
  assumes "core_ok s"
  shows "core_ok (AbortGgpoMatch W r s)"
proof -
  let ?t = "(PushAlert r s)\<lparr>gt := OnFatal (gt (PushAlert r s)), upd := False, interrupted := False\<rparr>"
  have "core_ok (RetireGgpoSession W ?t)"
    by (rule core_closed [OF assms]) (simp_all add: retire_simp PushAlert_def act_def)
  then show ?thesis by (simp add: AbortGgpoMatch_def Let_def core)
qed

lemma core_event [core]: "core_ok s \<Longrightarrow> core_ok (ggpo_on_event_callback e s)"
  by (cases e) (auto simp: core_ok_def NotifyGgpoSyncPhase_def on_interrupted_def on_resumed_def
      on_disconnected_def set_leaving_def PushAlert_def act_def gate_defs Let_def)

lemma core_save [core]: "core_ok s \<Longrightarrow> core_ok (save_callback W f s)"
  using core_abort [of "s\<lparr>lastSaveFrame := f\<rparr>" W Al_BufferFull]
  by (auto simp: save_callback_def Let_def core_ok_def act_def split: option.splits)

lemma core_load [core]: "core_ok s \<Longrightarrow> core_ok (load_callback i m s)"
  by (simp add: load_callback_def core_ok_def act_def)

lemma core_captures [core]: "core_ok s \<Longrightarrow> core_ok (CaptureCheckpoint (CaptureSnapshot s))"
  by (auto simp: core_ok_def CaptureSnapshot_def CaptureCheckpoint_def Let_def split: option.splits)

lemma core_sounds [core]: "core_ok s \<Longrightarrow> core_ok (SyncSounds s)"
  by (simp add: SyncSounds_def)

lemma core_engine [core]: "core_ok s \<Longrightarrow> core_ok (engine_update W s)"
  by (simp add: engine_update_def Let_def core_ok_def act_def)

lemma core_playback [core]: "core_ok s \<Longrightarrow> core_ok (set_playback ins s)" "core_ok s \<Longrightarrow> core_ok (end_playback s)"
  by (simp_all add: set_playback_def end_playback_def core_ok_def)

lemma core_flags [core]: "core_ok s \<Longrightarrow> core_ok (NoteDisconnectFlags f s)"
  by (simp add: NoteDisconnectFlags_def core_ok_def)

lemma core_finish [core]: "core_ok s \<Longrightarrow> core_ok (finish_advance W code s)"
  by (simp add: finish_advance_def core)

lemma core_callbacks:
  "core_ok s \<Longrightarrow> core_ok (run_cb W c s)"
  "core_ok s \<Longrightarrow> core_ok (run_cbs W cs s)"
  by (induction c and cs arbitrary: s and s rule: cb_inputs_cbs_inputs.induct) (simp_all add: core)

lemmas core_cbs [core] = core_callbacks

lemma core_fuzz [core]: "core_ok s \<Longrightarrow> core_ok (fuzz r s)"
  by (simp add: fuzz_def random_input_def Let_def core_ok_def)

lemma core_add_input: "core_ok s \<Longrightarrow> core_ok (snd (add_local_input W e s))"
  by (auto simp: add_local_input_def Let_def intro!: core_cbs(2) core_fuzz split: option.splits)

lemma core_accept [core]: "core_ok s \<Longrightarrow> core_ok (s\<lparr>gt := OnFrameAccepted (gt s)\<rparr>)"
  by (simp add: core_ok_def OnFrameAccepted_def)

lemma core_advance [core]: "core_ok s \<Longrightarrow> core_ok (advance_frame W e s)"
  by (auto simp: advance_frame_def Let_def intro!: core)

lemma core_run_synced [core]: "core_ok s \<Longrightarrow> core_ok (run_synced_frame W e s)"
  by (auto simp: run_synced_frame_def case_prod_unfold Let_def intro!: core)

lemma core_synchronize: "core_ok s \<Longrightarrow> core_ok (snd (synchronize_frame W e s))"
  by (auto simp: synchronize_frame_def case_prod_unfold Let_def intro!: core split: advance_policy.splits)

lemma core_stall [core]: "core_ok s \<Longrightarrow> core_ok (s\<lparr>gt := OnPredictionThreshold (gt s)\<rparr>)"
  by (simp add: core_ok_def OnPredictionThreshold_def)

lemma core_ggpo_frame: "core_ok s \<Longrightarrow> core_ok (snd (ggpo_frame_update W e s))"
  by (auto simp: ggpo_frame_update_def case_prod_unfold Let_def intro!: core core_synchronize core_add_input
      split: advance_policy.splits)

lemma core_halt [core]: "core_ok s \<Longrightarrow> core_ok (halt_after s)"
  by (simp add: halt_after_def core_ok_def SetManualPause_def)

lemma core_extra_frames: "core_ok s \<Longrightarrow> core_ok (fold (extra_frame W) is s)"
proof (induction "is" arbitrary: s)
  case (Cons i "is")
  have "core_ok (s\<lparr>playbackFrame := int i\<rparr>)" using Cons.prems by (simp add: core_ok_def)
  then show ?case using Cons.IH [OF core_engine] by (simp add: extra_frame_def)
qed simp

lemma core_extra [core]: "core_ok s \<Longrightarrow> core_ok (simulate_extra W s)"
  using core_extra_frames [of s W "[0..<nat (extraFrames s)]"] by (simp add: simulate_extra_def core_ok_def)

lemma core_update: 
  assumes "core_ok s"
  shows "core_ok (BattleUpdate W e s)"
proof -
  have "core_ok (snd (ggpo_frame_update W e s))" by (rule core_ggpo_frame [OF assms])
  then show ?thesis
    using assms by (cases "ggpo_frame_update W e s") (auto simp: BattleUpdate_def intro!: core split: bool.splits)
qed

lemma process_update: "process_ok s \<Longrightarrow> process_ok (BattleUpdate W e s)"
  using playback_restored_lemma core_update core_ready unfolding process_ok_def by metis

section \<open>Starting and closing keep the invariant\<close>

lemma core_cancel [core]: "core_ok s \<Longrightarrow> core_ok (CancelDeferredGgpoClose s)"
  by (simp add: CancelDeferredGgpoClose_def core_ok_def)

lemma core_begin [core]: 
  assumes "core_ok s"
  shows "core_ok (begin_session W env s)"
proof -
  have "core_ok (RetireGgpoSession W (CancelDeferredGgpoClose s))" by (intro core assms)
  then show ?thesis by (simp add: begin_session_def Let_def core_ok_def OnSessionStarted_def)
qed

lemma core_player [core]:
  "core_ok s \<Longrightarrow> core_ok (set_player_type i t s)" "core_ok s \<Longrightarrow> core_ok (set_player_handle i h s)"
  "core_ok s \<Longrightarrow> core_ok (note_local d h t s)"
  by (simp_all add: core_ok_def set_player_type_def set_player_handle_def note_local_def act_def)

lemma core_add_player: "core_ok s \<Longrightarrow> core_ok (snd (add_player e d ps i s))"
  by (simp add: add_player_def Let_def case_prod_unfold core)

lemma core_add_two: "core_ok s \<Longrightarrow> core_ok (snd (add_two_players W e d ps s))"
  using core_add_player [of s e d ps 0] core_add_player [of "snd (add_player e d ps 0 s)" e d ps 1]
  by (cases "add_player e d ps 0 s"; cases "add_player e d ps 1 (snd (add_player e d ps 0 s))")
    (auto simp: add_two_players_def core split: bool.splits)

lemma core_spectators [core]: "core_ok s \<Longrightarrow> core_ok (add_spectators e ps n s)"
proof -
  have one: "core_ok (add_spectator e ps i u)" if "core_ok u" for i u
    using that by (simp add: add_spectator_def Let_def case_prod_unfold core)
  have "core_ok (fold (add_spectator e ps) is u)" if "core_ok u" for "is" u
    using that by (induction "is" arbitrary: u) (simp_all add: one)
  then show "core_ok s \<Longrightarrow> core_ok (add_spectators e ps n s)" by (simp add: add_spectators_def)
qed

lemma core_timeouts [core]: "core_ok s \<Longrightarrow> core_ok (ApplyGgpoDisconnectSettings s)"
  by (simp add: ApplyGgpoDisconnectSettings_def case_prod_unfold Let_def)

lemma core_arm [core]: "core_ok s \<Longrightarrow> core_ok (arm_battle seed s)"
  by (simp add: arm_battle_def core_ok_def)

definition startable :: "app \<Rightarrow> bool" where
  "startable s \<longleftrightarrow> g_phase (gt s) \<noteq> PHASE_NO_SESSION \<and> \<not> fatalError (gt s) \<and> (upd s \<or> manualPause (gt s))"

lemma begin_ready:
  "startable (begin_session W env s)"
  by (simp add: startable_def begin_session_def Let_def OnSessionStarted_def)

lemma core_session_made: "core_ok s \<Longrightarrow> startable s \<Longrightarrow> core_ok (s\<lparr>ggpo := b\<rparr>)"
  by (simp add: core_ok_def startable_def)

lemma core_StartGGPO [core]:
  assumes "core_ok s"
  shows "core_ok (StartGGPO W e ps n port d seed s)"
proof -
  define t where "t = act (Act_GgpoStart n port) ((begin_session W (se_environ e) s)\<lparr>interrupted := False\<rparr>)"
  have t: "core_ok t" "startable t"
    using core_begin [OF assms, of W "se_environ e"] begin_ready [of W "se_environ e" s]
    by (simp_all add: t_def core_ok_def act_def startable_def)
  have "core_ok (snd (add_two_players W e d ps (ApplyGgpoDisconnectSettings (t\<lparr>ggpo := True\<rparr>))))"
    by (intro core_add_two core core_session_made t)
  then show ?thesis
    using core_abort [OF core_session_made [OF t, of False]]
    by (auto simp: StartGGPO_def Let_def t_def [symmetric] core split: bool.splits prod.splits)
qed

lemma core_StartSpectating [core]:
  assumes "core_ok s"
  shows "core_ok (StartSpectating W env made host port seed s)"
proof -
  have "core_ok ((act (Act_GgpoSpectate host port) (begin_session W env s))\<lparr>ggpo := made\<rparr>)"
    using core_begin [OF assms, of W env] begin_ready [of W env s]
    by (intro core_session_made) (simp_all add: act_def core_ok_def startable_def)
  then show ?thesis by (simp add: StartSpectating_def Let_def core)
qed

lemma core_shutdown [core]: "core_ok s \<Longrightarrow> core_ok (ShutdownNetplay W b s)"
  using core_retire [of s W]
  by (auto simp: ShutdownNetplay_def drop_server_def drop_client_def TunnelReset_def act_def core_ok_def tunnel_Reset_def Let_def)

lemma core_finalize [core]: "core_ok s \<Longrightarrow> core_ok (FinalizeControlPlaneLossAfterBattle W s)"
  by (simp add: FinalizeControlPlaneLossAfterBattle_def PushAlert_def core)

lemma core_defer [core]: "core_ok s \<Longrightarrow> core_ok (NotifyMatchEnded now s)"
  using core_clear [of s] by (auto simp: NotifyMatchEnded_def Let_def no_defer_def core_ok_def split: option.splits)

lemma core_should_defer: "core_ok s \<Longrightarrow> core_ok (snd (ShouldDeferGgpoClose now s))"
  by (simp add: ShouldDeferGgpoClose_def core_ok_def)

lemma core_close_or_defer [core]: "core_ok s \<Longrightarrow> core_ok (close_or_defer W now s)"
proof -
  assume "core_ok s"
  then have t: "core_ok (snd (ShouldDeferGgpoClose now s))" by (rule core_should_defer)
  have pc: "core_ok (u\<lparr>pc := p\<rparr>)" if "core_ok u" for u p using that by (simp add: core_ok_def)
  obtain b u where u: "ShouldDeferGgpoClose now s = (b, u)" by (cases "ShouldDeferGgpoClose now s") auto
  show "core_ok (close_or_defer W now s)"
    using t pc [of u] core_tunnel [OF core_retire [of u W]] by (cases b) (simp_all add: close_or_defer_def u)
qed

lemma core_closing [core]: "core_ok s \<Longrightarrow> core_ok (s\<lparr>gt := OnBattleClosing (gt s)\<rparr>)"
  by (auto simp: core_ok_def OnBattleClosing_def)

fun used_in :: "nat list \<Rightarrow> bool list \<Rightarrow> nat list" where
  "used_in [] u = []"
| "used_in (i # is) u = (if u ! i then i # used_in is (u[i := False]) else used_in is u)"

lemma freed_unused: "\<not> u ! i \<Longrightarrow> u[i := False] = u"
  by (metis list_update_id)

lemma fold_free_used:
  "fold free_if_used_slot is s =
     s\<lparr>slotUsed := freed is (slotUsed s), acts := acts s @ map Act_FreeSlot (used_in is (slotUsed s))\<rparr>"
  by (induction "is" arbitrary: s) (simp_all add: free_if_used_slot_def FreeSlot_def act_def freed_unused)

lemma core_free_all [core]: "core_ok s \<Longrightarrow> core_ok (fold free_if_used_slot is s)"
  by (simp add: fold_free_used core_ok_def)

definition closed_session :: "world \<Rightarrow> 32 word \<Rightarrow> 32 word \<Rightarrow> app \<Rightarrow> app" where
  "closed_session W now1 now2 s =
     (if ggpo s then (close_or_defer W now2 (NotifyMatchEnded now1 (s\<lparr>gt := OnBattleClosing (gt s)\<rparr>)))\<lparr>interrupted := False\<rparr>
      else s)"

lemma core_closed_session [core]: "core_ok s \<Longrightarrow> core_ok (closed_session W now1 now2 s)"
  using core_close_or_defer [OF core_defer [OF core_closing], of s W now2 now1]
  by (simp add: closed_session_def core_ok_def)

lemma CloseBattle_alt:
  "CloseBattle W now1 now2 s = FinalizeControlPlaneLossAfterBattle W
     (act Act_EngineCloseBattle (fold free_if_used_slot [0..<NUM_SAVE_STATES] (closed_session W now1 now2 s)))"
  by (simp add: CloseBattle_def closed_session_def Let_def)

lemma core_CloseBattle [core]: "core_ok s \<Longrightarrow> core_ok (CloseBattle W now1 now2 s)"
  by (simp add: CloseBattle_alt core)

lemma freed_nth: "i < length u \<Longrightarrow> freed is u ! i = (u ! i \<and> i \<notin> set is)"
proof (induction "is" arbitrary: u)
  case (Cons a "is")
  have "u[a := False] ! i = (u ! i \<and> i \<noteq> a)" using Cons.prems by (cases "i = a") simp_all
  then show ?case using Cons by auto
qed simp

lemma freed_everything: "length u = n \<Longrightarrow> freed [0..<n] u = replicate n False"
  by (rule nth_equalityI) (auto simp: freed_nth)

lemma freed_false [simp]: "freed is (replicate n False) = replicate n False"
  by (rule nth_equalityI) (auto simp: freed_nth)

lemma shutdown_slots: "slotUsed s = replicate n False \<Longrightarrow> slotUsed (ShutdownNetplay W b s) = replicate n False"
  by (simp add: ShutdownNetplay_def drop_server_def drop_client_def TunnelReset_def act_def retire_simp Let_def)

lemma finalize_slots:
  "slotUsed s = replicate n False \<Longrightarrow> slotUsed (FinalizeControlPlaneLossAfterBattle W s) = replicate n False"
  by (simp add: FinalizeControlPlaneLossAfterBattle_def PushAlert_def act_def shutdown_slots)

lemma phase_kept:
  "g_phase (gt (NotifyMatchEnded now s)) = g_phase (gt s)" "ggpo (NotifyMatchEnded now s) = ggpo s"
  by (auto simp: NotifyMatchEnded_def ClearBattleState_def upd_client_keeps no_defer_def Let_def split: option.splits)

lemma close_or_defer_phase:
  "ggpo (close_or_defer W now s) \<Longrightarrow> g_phase (gt (close_or_defer W now s)) = g_phase (gt s)"
  by (auto simp: close_or_defer_def ShouldDeferGgpoClose_def retire_simp TunnelReset_def act_def split: if_splits)

lemma closed_session_phase:
  assumes "core_ok s" "ggpo (closed_session W now1 now2 s)"
  shows "g_phase (gt (closed_session W now1 now2 s)) = PHASE_BATTLE_CLOSING"
proof -
  let ?t = "NotifyMatchEnded now1 (s\<lparr>gt := OnBattleClosing (gt s)\<rparr>)"
  have g: "ggpo s" using assms(2) by (auto simp: closed_session_def split: if_splits)
  then have "g_phase (gt ?t) = PHASE_BATTLE_CLOSING"
    using assms(1) by (simp add: phase_kept core_ok_def OnBattleClosing_def)
  then show ?thesis
    using g assms(2) close_or_defer_phase [of W now2 ?t] by (simp add: closed_session_def)
qed

lemma shutdown_phase: "ggpo (ShutdownNetplay W True s) = False"
  by (simp add: ShutdownNetplay_def drop_server_def drop_client_def TunnelReset_def act_def retire_simp Let_def)

lemma close_phase:
  assumes "core_ok s" "ggpo (CloseBattle W now1 now2 s)"
  shows "g_phase (gt (CloseBattle W now1 now2 s)) = PHASE_BATTLE_CLOSING"
proof -
  let ?c = "closed_session W now1 now2 s"
  have "\<not> controlLost ?c"
    using assms(2) by (auto simp: CloseBattle_alt FinalizeControlPlaneLossAfterBattle_def fold_free_used act_def
        shutdown_phase split: if_splits)
  then have e: "ggpo (CloseBattle W now1 now2 s) = ggpo ?c" "gt (CloseBattle W now1 now2 s) = gt ?c"
    by (simp_all add: CloseBattle_alt FinalizeControlPlaneLossAfterBattle_def fold_free_used act_def)
  then show ?thesis using closed_session_phase [OF assms(1), of W now1 now2] assms(2) by simp
qed


text \<open>Two spectators keep the session open.\<close>

definition peer :: "64 word \<Rightarrow> member_data" where
  "peer i = \<lparr>connId = \<lparr>cid_host = [], cid_user = []\<rparr>, m_name = [], m_ip = [], m_port = 0, m_flags = i\<rparr>"

definition spectated_app :: app where
  "spectated_app = match_app\<lparr>slotUsed := (replicate 10 False)[3 := True],
     net := Some \<lparr>np_client = (client_init [] 1 [])\<lparr>c_lobby := NULL_LOBBY\<lparr>members := map peer [0, 1, 2, 3]\<rparr>\<rparr>,
                  np_deviceType = 0, np_deviceIdx = 0, np_delay = 2\<rparr>\<rparr>"

lemma spectated_ok: "core_ok spectated_app"
  by (simp add: spectated_app_def match_app_def core_ok_def app_static_def gate_defs NUM_SAVE_STATES_def tunnel_init_def)

lemma spectated_stays: "ggpo (CloseBattle still_world 1000 1016 spectated_app)"
  by (simp add: CloseBattle_def spectated_app_def match_app_def app_static_def close_or_defer_def ShouldDeferGgpoClose_def
      NotifyMatchEnded_def ClearBattleState_def upd_client_def app_client_def spectator_count_def
      FinalizeControlPlaneLossAfterBattle_def fold_free_used act_def Let_def)


end
