(* ===== verification/Lobby_Control.thy ===== *)
theory Lobby_Control
  imports Battle_Properties
begin

text \<open>
  The user application's part between lobby and match (sf4e__UserApp.cxx): the
  session client and server it owns, the match started from the lobby or
  deferred until the main menu is there, the rematch reset, and the callbacks of
  one session step. What the game answers (the event tree, a listening socket,
  a created connection) are arguments.
\<close>

section \<open>Session objects\<close>

definition StartServer :: "bool \<Rightarrow> 16 word \<Rightarrow> app \<Rightarrow> bool \<times> app" where
  "StartServer listens port s =
     (let s1 = act (Act_StartServer port) (s\<lparr>srv := True\<rparr>)
      in if \<not> listens then (False, s1\<lparr>srv := False\<rparr>) else (True, s1))"

definition new_netplay :: "conn option \<Rightarrow> 16 word \<Rightarrow> string \<Rightarrow> string \<Rightarrow> 8 word \<Rightarrow> 8 word \<Rightarrow> 8 word \<Rightarrow> bool \<Rightarrow> netplay" where
  "new_netplay created port hash name devType devIdx delay useRelay =
     \<lparr>np_client = connect_addr created ((client_init hash port name)\<lparr>c_useRelay := useRelay\<rparr>),
      np_deviceType = devType, np_deviceIdx = devIdx, np_delay = delay\<rparr>"

text \<open>The old client's destructor closes its connection after the new one is built.\<close>

definition StartSession ::
  "conn option \<Rightarrow> string \<Rightarrow> 16 word \<Rightarrow> string \<Rightarrow> string \<Rightarrow> 8 word \<Rightarrow> 8 word \<Rightarrow> 8 word \<Rightarrow> bool \<Rightarrow> app \<Rightarrow> app" where
  "StartSession created addr port hash name devType devIdx delay useRelay s =
     (let s1 = (if net s \<noteq> None then act Act_Disconnect s else s)
      in act (Act_StartSession addr) (s1\<lparr>net := Some (new_netplay created port hash name devType devIdx delay useRelay)\<rparr>))"

definition UserShutdownNetplay :: "world \<Rightarrow> bool \<Rightarrow> app \<Rightarrow> app" where
  "UserShutdownNetplay W closeGgpo s = ShutdownNetplay W closeGgpo (s\<lparr>pendingStart := False\<rparr>)"

definition ResetLobbyForRematch :: "app \<Rightarrow> app" where
  "ResetLobbyForRematch s =
     (if controlLost s then s
      else if srv s then act Act_ServerResetRematch s
      else if net s \<noteq> None then act Act_SendResetRematch s
      else s)"

section \<open>Starting the match\<close>

record menu_env =
  me_root :: bool
  me_mainMenu :: bool

text \<open>Rounds and time limit of the next battle: the lobby's, or those of the endless
  sparring session of a training lobby.\<close>

definition battle_settings :: "lobby_data \<Rightarrow> int \<times> fixed_point" where
  "battle_settings l =
     (if trainingMode l then (99, \<lparr>fractional = 0, integral = 9999\<rparr>) else (roundCount l, roundTime l))"

definition go_to_versus :: "client \<Rightarrow> app \<Rightarrow> app" where
  "go_to_versus c s =
     (let (rounds, time) = battle_settings (c_lobby c)
      in act (Act_StartMatch (editionSelect (c_lobby c)) rounds time)
           (s\<lparr>skipToVersus := True, preHook := True, battleHook := True\<rparr>))"

definition StartMatchFromLobby :: "menu_env \<Rightarrow> client option \<Rightarrow> app \<Rightarrow> bool \<times> app" where
  "StartMatchFromLobby e client s0 =
     (let s = (ClearBattleState s0)\<lparr>vsSynced := False, vsSentLoaded := False\<rparr>
      in case client of
           None \<Rightarrow> (False, PushAlert Al_WaitOpponentMenu s)
         | Some c \<Rightarrow>
             if length (members (c_lobby c)) < 2 then (False, PushAlert Al_WaitOpponentMenu s)
             else if \<not> me_root e then (False, s)
             else if \<not> me_mainMenu e then (False, s)
             else (True, go_to_versus c s))"

definition OnReady :: "menu_env \<Rightarrow> app \<Rightarrow> app" where
  "OnReady e s =
     (case StartMatchFromLobby e (app_client s) s of
        (True, s1) \<Rightarrow> s1\<lparr>pendingStart := False\<rparr>
      | (False, s1) \<Rightarrow> s1\<lparr>pendingStart := True\<rparr>)"

definition OnBattleSynced :: "app \<Rightarrow> app" where
  "OnBattleSynced s = s\<lparr>vsSynced := True\<rparr>"

definition TryStartPendingMatch :: "menu_env \<Rightarrow> app \<Rightarrow> app" where
  "TryStartPendingMatch e s =
     (case app_client s of
        None \<Rightarrow> s
      | Some c \<Rightarrow>
          if \<not> pendingStart s then s
          else if length (members (c_lobby c)) < 2 then s
          else (case StartMatchFromLobby e (Some c) s of
                  (True, s1) \<Rightarrow> s1\<lparr>pendingStart := False\<rparr>
                | (False, s1) \<Rightarrow> s1))"

section \<open>The pre-battle setup\<close>

text \<open>\<open>mode\<close>: the VSMode event is in the foreground. The two sides' characters and the
  stage of the match data are written into it.\<close>

definition OnVsPreBattleTasksRegistered :: "bool \<Rightarrow> app \<Rightarrow> app" where
  "OnVsPreBattleTasksRegistered mode s =
     (case app_client s of
        None \<Rightarrow> s
      | Some c \<Rightarrow>
          if length (members (c_lobby c)) < 2 then PushAlert Al_WaitOpponentLobby s
          else if \<not> mode then s
          else act (Act_PreBattle (m_chara (c_match c)) (stageID (c_match c))) s)"

section \<open>One session step\<close>

text \<open>What the session client's effects mean for the process; the control plane is the
  facade's.\<close>

definition inject :: "connection_id \<Rightarrow> 8 word list \<Rightarrow> app \<Rightarrow> app" where
  "inject src bytes s =
     (let (tn, out) = InjectFromPeer src bytes (tun s) in fold (\<lambda>d. act (Act_Loopback d)) out (s\<lparr>tun := tn\<rparr>))"

fun run_effect :: "menu_env \<Rightarrow> (app \<Rightarrow> app) \<Rightarrow> 'j effect \<Rightarrow> app \<Rightarrow> app" where
  "run_effect e lost (Send r) s = act Act_SessionSend s"
| "run_effect e lost (CallError t) s = act (Act_ClientError t) s"
| "run_effect e lost CallReady s = OnReady e s"
| "run_effect e lost CallSynced s = OnBattleSynced s"
| "run_effect e lost CloseConnection s = act Act_SessionClose s"
| "run_effect e lost (Inject src bytes) s = inject src bytes s"
| "run_effect e lost (Mismatch f a b c fs) s = s"
| "run_effect e lost (Alert msg) s = PushAlert (Al_Text msg) s"
| "run_effect e lost ControlPlaneLoss s = lost s"

text \<open>The client and the game's share of the state are handed to the client's code and
  written back, then its effects happen, in their order.\<close>

definition install_round :: "menu_env \<Rightarrow> (app \<Rightarrow> app) \<Rightarrow> 'j cround \<Rightarrow> app \<Rightarrow> app" where
  "install_round e lost r s =
     fold (run_effect e lost) (eff r) (upd_client (\<lambda>_. cl r) (s\<lparr>ag := gm r\<rparr>))"

definition app_round :: "client \<Rightarrow> app \<Rightarrow> 'j cround" where
  "app_round c s = \<lparr>cl = c, gm = ag s, eff = []\<rparr>"

definition app_message ::
  "menu_env \<Rightarrow> (app \<Rightarrow> app) \<Rightarrow> 'j codec \<Rightarrow> 'j option \<Rightarrow> app \<Rightarrow> app \<times> bool" where
  "app_message e lost C m s =
     (case app_client s of
        None \<Rightarrow> (s, False)
      | Some c \<Rightarrow> (let (r, goes) = client_message C m (app_round c s) in (install_round e lost r s, goes)))"

fun app_messages ::
  "menu_env \<Rightarrow> (app \<Rightarrow> app) \<Rightarrow> 'j codec \<Rightarrow> 'j option option list \<Rightarrow> app \<Rightarrow> app \<times> bool" where
  "app_messages e lost C [] s = (s, True)"
| "app_messages e lost C (None # ms) s = (s, False)"
| "app_messages e lost C (Some m # ms) s =
     (case app_message e lost C m s of
        (s1, True) \<Rightarrow> app_messages e lost C ms s1
      | (s1, False) \<Rightarrow> (s1, False))"

definition app_reconcile :: "menu_env \<Rightarrow> (app \<Rightarrow> app) \<Rightarrow> (nat \<Rightarrow> bool) \<Rightarrow> bool \<Rightarrow> 'j itself \<Rightarrow> app \<Rightarrow> app" where
  "app_reconcile e lost ok strict _ s =
     (case app_client s of
        None \<Rightarrow> s
      | Some c \<Rightarrow>
          if c_snapshotsEnabled c
          then install_round e lost (Session_Client.reconcile ok strict (app_round c s :: 'j cround)) s
          else s)"

text \<open>The session client's Step over the process: \<open>poll\<close> is the poll's outcome.\<close>

definition app_client_step ::
  "menu_env \<Rightarrow> (app \<Rightarrow> app) \<Rightarrow> 'j codec \<Rightarrow> (nat \<Rightarrow> bool) \<Rightarrow> bool \<Rightarrow> 'j option option list option \<Rightarrow> app \<Rightarrow> app \<times> int" where
  "app_client_step e lost C ok strict poll s =
     (case app_client s of
        None \<Rightarrow> (s, 0)
      | Some c \<Rightarrow>
          if c_conn c = None \<or> \<not> c_connected c then (s, 0)
          else (case poll of
                  None \<Rightarrow> (s, -1)
                | Some ms \<Rightarrow>
                    (case app_messages e lost C ms s of
                       (s1, False) \<Rightarrow> (s1, -1)
                     | (s1, True) \<Rightarrow> (app_reconcile e lost ok strict (TYPE('j)) s1, 0))))"

end
