(* ===== verification/Netplay_Facade.thy ===== *)
theory Netplay_Facade
  imports Lobby_Control Transport
begin

text \<open>
  The netplay facade (sf4e__NetplayFacade.cxx): the payload's configuration, the
  GGPO endpoint of the broker and the transport report, the main-menu tick that
  captures a pad and opens the session, the per-frame tick with its watchdog and
  the deferred close, and the handling of a lost room. UI calls and log lines
  are left out.
\<close>

section \<open>Configuration and endpoints\<close>

definition host_copy :: "string \<Rightarrow> string" where
  "host_copy h = copy_trunc NETPLAY_SESSION_HOST_LEN h"

definition NotifyGameReady :: "app \<Rightarrow> app" where
  "NotifyGameReady s = s\<lparr>gameReady := True, configLogged := True\<rparr>"

definition CaptureBrokerGgpoEndpoint :: "netplay_config \<Rightarrow> app \<Rightarrow> app" where
  "CaptureBrokerGgpoEndpoint c s =
     (if nc_ggpoRemotePort c > 0 \<and> nc_ggpoRemoteHost c \<noteq> []
      then s\<lparr>brokerPort := nc_ggpoRemotePort c, brokerHost := host_copy (nc_ggpoRemoteHost c)\<rparr>
      else s)"

definition has_broker :: "app \<Rightarrow> bool" where
  "has_broker s \<longleftrightarrow> brokerPort s > 0 \<and> brokerHost s \<noteq> []"

definition set_remote :: "string \<Rightarrow> 16 word \<Rightarrow> netplay_config \<Rightarrow> netplay_config" where
  "set_remote h p c = c\<lparr>nc_ggpoRemotePort := p, nc_ggpoRemoteHost := host_copy h\<rparr>"

definition RestoreBrokerGgpoEndpoint :: "app \<Rightarrow> netplay_config \<Rightarrow> netplay_config" where
  "RestoreBrokerGgpoEndpoint s c = (if has_broker s then set_remote (brokerHost s) (brokerPort s) c else c)"

definition env_starts :: "environment \<Rightarrow> string \<Rightarrow> char \<Rightarrow> bool" where
  "env_starts env name ch \<longleftrightarrow> (case env name of Some (x # xs) \<Rightarrow> x = ch | _ \<Rightarrow> False)"

definition payload_config :: "environment \<Rightarrow> netplay_config \<Rightarrow> netplay_config" where
  "payload_config env c =
     (let c1 = (if env_starts env ''SF4E_RELAY'' CHR ''0'' then c\<lparr>nc_useRelay := 0\<rparr> else c)
      in if nc_devOverlay c \<noteq> 0 then c1
         else if env_starts env ''SF4E_NETPLAY_DEV'' CHR ''1'' then c1\<lparr>nc_devOverlay := 1\<rparr> else c1)"

definition pad_chosen :: "netplay_config \<Rightarrow> bool" where
  "pad_chosen c \<longleftrightarrow> nc_deviceIdx c \<noteq> 0xff \<and> nc_deviceType c \<noteq> 0xff"

definition InitFromPayload :: "environment \<Rightarrow> netplay_config \<Rightarrow> app \<Rightarrow> app" where
  "InitFromPayload env c s =
     (let c1 = payload_config env c
      in (CaptureBrokerGgpoEndpoint c s)\<lparr>cfg := c1, autoPending := NetplayConfigIsActive c1, dwellTicks := 0,
            framesSinceReady := 0, configLogged := False, sentSettings := False, padCaptured := pad_chosen c1\<rparr>)"

definition applied_config :: "app \<Rightarrow> netplay_config \<Rightarrow> netplay_config" where
  "applied_config s c =
     (let c0 = (cfg s)\<lparr>nc_ggpoTransport := nc_ggpoTransport c\<rparr>;
          c1 = (if nc_ggpoTransport c \<noteq> 0 then set_remote (nc_ggpoRemoteHost c) (nc_ggpoRemotePort c) c0
                else if has_broker s then set_remote (brokerHost s) (brokerPort s) c0
                else c0)
      in if nc_ggpoRoomToken c \<noteq> [] then c1\<lparr>nc_ggpoRoomToken := nc_ggpoRoomToken c\<rparr> else c1)"

definition ApplyGgpoTransportConfig :: "netplay_config \<Rightarrow> app \<Rightarrow> app" where
  "ApplyGgpoTransportConfig c s = s\<lparr>cfg := applied_config s c\<rparr>"

text \<open>A null remote host is \<open>None\<close>.\<close>

definition ReportGgpoTransport :: "8 word \<Rightarrow> bool \<Rightarrow> string option \<Rightarrow> 16 word \<Rightarrow> app \<Rightarrow> app" where
  "ReportGgpoTransport mode legacy host port s =
     s\<lparr>transport := \<lparr>ts_effectiveMode = mode, ts_legacyTunnel = legacy,
         ts_remoteHost = (case host of Some h \<Rightarrow> host_copy h | None \<Rightarrow> []), ts_remotePort = port\<rparr>\<rparr>"

definition ResetGgpoBattleWatch :: "32 word \<Rightarrow> app \<Rightarrow> app" where
  "ResetGgpoBattleWatch now s = s\<lparr>battleStartTick := now, fallbackTried := False, syncPhase := SP_Starting\<rparr>"

definition MarkGgpoBattleStarted :: "32 word \<Rightarrow> app \<Rightarrow> app" where
  "MarkGgpoBattleStarted now s = s\<lparr>battleStartTick := now, syncPhase := SP_Starting\<rparr>"

definition GgpoTransportModeName :: "8 word \<Rightarrow> string" where
  "GgpoTransportModeName mode =
     (if mode = 1 then ''udp_relay'' else if mode = 2 then ''p2p'' else ''legacy_session_tunnel'')"

definition IsDevOverlayEnabled :: "app \<Rightarrow> bool" where
  "IsDevOverlayEnabled s \<longleftrightarrow> nc_devOverlay (cfg s) \<noteq> 0"

definition IsRelayEnabled :: "app \<Rightarrow> bool" where
  "IsRelayEnabled s \<longleftrightarrow> nc_useRelay (cfg s) \<noteq> 0"

section \<open>Losing the room\<close>

definition leave_battle :: "app \<Rightarrow> app" where
  "leave_battle s = (if haveSystem s \<and> battle_flow s \<noteq> BF_IDLE then set_leaving s else s)"

definition HandleNetplayFailure :: "world \<Rightarrow> alert option \<Rightarrow> bool \<Rightarrow> app \<Rightarrow> app" where
  "HandleNetplayFailure W reason closeGgpo s0 =
     (let s = (case reason of Some a \<Rightarrow> PushAlert a s0 | None \<Rightarrow> s0);
          s1 = (if ggpo s then (let t = leave_battle s in t\<lparr>gt := OnFatal (gt t), upd := False\<rparr>) else s)
      in ShutdownNetplay W closeGgpo s1)"

definition fight_running :: "app \<Rightarrow> bool" where
  "fight_running s \<longleftrightarrow> ggpo s \<and> g_phase (gt s) = PHASE_RUNNING \<and> \<not> fatalError (gt s) \<and> haveSystem s \<and>
     battle_flow s \<noteq> BF_IDLE"

definition degrade :: "app \<Rightarrow> app" where
  "degrade s = PushAlert Al_RoomLost (s\<lparr>controlLost := True, lostAtFrame := sim_frame (sim s)\<rparr>)"

definition HandleControlPlaneLoss :: "world \<Rightarrow> alert \<Rightarrow> app \<Rightarrow> app" where
  "HandleControlPlaneLoss W reason s =
     (if controlLost s then s
      else if \<not> fight_running s \<or> tunnelOn s then HandleNetplayFailure W (Some reason) True s
      else degrade s)"

section \<open>The main menu tick\<close>

definition kMinFramesAfterReady :: int where "kMinFramesAfterReady = 180"
definition kMinDwellBeforeAutoStart :: int where "kMinDwellBeforeAutoStart = 60"

definition IsPadCapturePhaseReady :: "bool \<Rightarrow> app \<Rightarrow> bool" where
  "IsPadCapturePhaseReady padSystem s \<longleftrightarrow>
     autoPending s \<and> gameReady s \<and> \<not> framesSinceReady s < kMinFramesAfterReady \<and>
     \<not> dwellTicks s < kMinDwellBeforeAutoStart \<and> padSystem"

definition IsPadCapturePending :: "bool \<Rightarrow> app \<Rightarrow> bool" where
  "IsPadCapturePending padSystem s \<longleftrightarrow>
     autoPending s \<and> \<not> padCaptured s \<and> \<not> pad_chosen (cfg s) \<and> IsPadCapturePhaseReady padSystem s"

definition CheckGraphicsWarning :: "app \<Rightarrow> app" where
  "CheckGraphicsWarning s =
     (if graphicsWarned s \<or> \<not> NetplayConfigIsActive (cfg s) then s
      else PushAlert Al_Graphics (s\<lparr>graphicsWarned := True\<rparr>))"

text \<open>What the tick asks of the game: the event root, the pad system, a pad captured for
  the first side, the sidecar's hash, a listening server, a created connection.\<close>

record tick_env =
  te_root :: bool
  te_padSystem :: bool
  te_capture :: "(8 word \<times> 8 word) option"
  te_hash :: string
  te_listens :: bool
  te_created :: "conn option"

definition player_name :: "netplay_config \<Rightarrow> string" where
  "player_name c = (if nc_displayName c = [] then ''Player'' else nc_displayName c)"

text \<open>snprintf of host and port into hostAddr: 128 bytes.\<close>

definition addr_text :: "string \<Rightarrow> 16 word \<Rightarrow> string" where
  "addr_text host port = copy_trunc 128 (host @ '':'' @ dec_nat (unat port))"

definition start_from_config :: "tick_env \<Rightarrow> string \<Rightarrow> app \<Rightarrow> app" where
  "start_from_config e addr s =
     (let c = cfg s
      in (StartSession (te_created e) addr (nc_ggpoPort c) (te_hash e) (player_name c) (nc_deviceType c)
            (nc_deviceIdx c) (nc_inputDelay c) (nc_useRelay c \<noteq> 0) s)\<lparr>autoPending := False\<rparr>)"

definition loopback_addr :: "netplay_config \<Rightarrow> string" where
  "loopback_addr c = addr_text ''127.0.0.1'' (nc_sessionPort c)"

definition host_local_server :: "tick_env \<Rightarrow> app \<Rightarrow> app" where
  "host_local_server e s =
     (case StartServer (te_listens e) (nc_sessionPort (cfg s)) s of
        (False, s1) \<Rightarrow> (PushAlert Al_ServerFailed s1)\<lparr>autoPending := False\<rparr>
      | (True, s1) \<Rightarrow> start_from_config e (loopback_addr (cfg s)) s1)"

definition open_session :: "tick_env \<Rightarrow> app \<Rightarrow> app" where
  "open_session e s =
     (let c = cfg s
      in if nc_mode c = mode_int NM_Host then
           (if nc_useCentralSession c = 2 then start_from_config e (addr_text (nc_sessionHost c) (nc_sessionPort c)) s
            else if nc_useCentralSession c = 1 then start_from_config e (loopback_addr c) s
            else host_local_server e s)
         else if nc_mode c = mode_int NM_Join then
           start_from_config e (addr_text (nc_sessionHost c) (nc_sessionPort c)) s
         else s)"

text \<open>False when no pad was captured and the tick returned.\<close>

definition capture_pad :: "tick_env \<Rightarrow> app \<Rightarrow> bool \<times> app" where
  "capture_pad e s =
     (if padCaptured s then (True, s)
      else (case te_capture e of
              None \<Rightarrow> (False, s)
            | Some (idx, ty) \<Rightarrow>
                (True, s\<lparr>padCaptured := True, cfg := (cfg s)\<lparr>nc_deviceIdx := idx, nc_deviceType := ty\<rparr>\<rparr>)))"

definition main_menu_ready :: "tick_env \<Rightarrow> app \<Rightarrow> app" where
  "main_menu_ready e s =
     (case capture_pad e (CheckGraphicsWarning s) of
        (False, s1) \<Rightarrow> s1
      | (True, s1) \<Rightarrow> open_session e s1)"

definition TickMainMenu :: "tick_env \<Rightarrow> app \<Rightarrow> app" where
  "TickMainMenu e s =
     (if \<not> autoPending s \<or> \<not> gameReady s then s
      else (let s1 = s\<lparr>framesSinceReady := framesSinceReady s + 1\<rparr>
            in if framesSinceReady s1 < kMinFramesAfterReady then s1
               else (let s2 = s1\<lparr>dwellTicks := dwellTicks s1 + 1\<rparr>
                     in if \<not> te_root e \<or> \<not> te_padSystem e \<or> dwellTicks s2 < kMinDwellBeforeAutoStart then s2
                        else main_menu_ready e s2)))"

section \<open>The per-frame tick\<close>

text \<open>\<open>fe_sent\<close>: the settings message was accepted by the connection; \<open>fe_len\<close> and
  \<open>fe_waiting\<close>: message lengths and what waits at the tunnel's ports; \<open>fe_now\<close> and
  \<open>fe_close\<close>: the clock at the watchdog and at the deferred close.\<close>

record 'j frame_env =
  fe_menu :: menu_env
  fe_sent :: bool
  fe_len :: "'j request \<Rightarrow> nat"
  fe_waiting :: "connection_id \<Rightarrow> 8 word list option list"
  fe_now :: "32 word"
  fe_close :: "32 word"

definition lobby_settings_of :: "netplay_config \<Rightarrow> lobby_settings" where
  "lobby_settings_of c =
     \<lparr>ls_editionSelect = (nc_editionSelect c \<noteq> 0), ls_roundCount = nc_roundCount c,
      ls_roundTime = \<lparr>fractional = 0, integral = word_of_int (nc_roundTimeIntegral c)\<rparr>,
      ls_trainingMode = (9 \<le> nc_version c \<and> nc_trainingMode c \<noteq> 0)\<rparr>"

definition hosts_own_lobby :: "client \<Rightarrow> bool" where
  "hosts_own_lobby c \<longleftrightarrow> c_connected c \<and>
     (case members (c_lobby c) of [] \<Rightarrow> False | m # _ \<Rightarrow> m_name m = c_name c)"

definition push_settings :: "'j frame_env \<Rightarrow> app \<Rightarrow> app" where
  "push_settings e s =
     (case app_client s of
        None \<Rightarrow> s
      | Some c \<Rightarrow>
          if \<not> sentSettings s \<and> nc_mode (cfg s) = mode_int NM_Host \<and> hosts_own_lobby c
          then (let s1 = act (Act_SendSettings (lobby_settings_of (cfg s))) s
                in if fe_sent e then s1\<lparr>sentSettings := True\<rparr> else s1)
          else s)"

definition pump_tunnel :: "'j frame_env \<Rightarrow> app \<Rightarrow> app" where
  "pump_tunnel e s =
     (case app_client s of
        None \<Rightarrow> s
      | Some c \<Rightarrow>
          if tunnelOn s \<and> c_useRelay c
          then (let (tn, c1, msgs) = Pump (fe_len e) (fe_waiting e) (tun s) c
                in fold (\<lambda>m. act Act_SessionSend) msgs (upd_client (\<lambda>_. c1) (s\<lparr>tun := tn\<rparr>)))
          else s)"

definition sync_timed_out :: "32 word \<Rightarrow> app \<Rightarrow> bool" where
  "sync_timed_out now s \<longleftrightarrow>
     ggpo s \<and> \<not> upd s \<and> \<not> fallbackTried s \<and> ts_effectiveMode (transport s) = 1 \<and> \<not> ts_legacyTunnel (transport s) \<and>
     syncPhase s \<noteq> SP_Running \<and> battleStartTick s \<noteq> 0 \<and> now - battleStartTick s > 20000"

definition sync_watchdog :: "world \<Rightarrow> 32 word \<Rightarrow> app \<Rightarrow> app" where
  "sync_watchdog W now s =
     (if sync_timed_out now s then AbortGgpoMatch W Al_SyncTimeout (s\<lparr>fallbackTried := True\<rparr>) else s)"

definition deferred_close :: "world \<Rightarrow> 32 word \<Rightarrow> app \<Rightarrow> app" where
  "deferred_close W now s =
     (if deferredPending s \<and> ggpo s
      then (case ShouldDeferGgpoClose now s of
              (True, s1) \<Rightarrow> s1
            | (False, s1) \<Rightarrow>
                (TunnelReset (RetireGgpoSession W s1))\<lparr>deferredPending := False, deferClose := False\<rparr>)
      else s)"

definition TickFrame :: "world \<Rightarrow> 'j frame_env \<Rightarrow> app \<Rightarrow> app" where
  "TickFrame W e s =
     deferred_close W (fe_close e)
       (sync_watchdog W (fe_now e)
         (pump_tunnel e (push_settings e (TryStartPendingMatch (fe_menu e) s))))"

section \<open>Status\<close>

record netplay_status =
  st_active :: bool
  st_connected :: bool
  st_inLobby :: bool
  st_inMatch :: bool
  st_pingMs :: int
  st_inputDelay :: "8 word"
  st_opponentName :: string

definition NETPLAY_DISPLAY_NAME_LEN :: nat where "NETPLAY_DISPLAY_NAME_LEN = 32"

definition idle_status :: netplay_status where
  "idle_status = \<lparr>st_active = False, st_connected = False, st_inLobby = False, st_inMatch = False,
     st_pingMs = -1, st_inputDelay = 0, st_opponentName = []\<rparr>"

definition opponent_name :: "client \<Rightarrow> string" where
  "opponent_name c =
     (case find (\<lambda>m. m_name m \<noteq> c_name c) (members (c_lobby c)) of
        Some m \<Rightarrow> copy_trunc NETPLAY_DISPLAY_NAME_LEN (m_name m) | None \<Rightarrow> [])"

text \<open>\<open>ping h\<close>: the network statistics of a player's handle.\<close>

definition remote_ping :: "(int \<Rightarrow> int option) \<Rightarrow> app \<Rightarrow> int" where
  "remote_ping ping s =
     (case find (\<lambda>p. pi_type p = PT_REMOTE) (plys s) of
        Some p \<Rightarrow> (case ping (pi_handle p) of Some ms \<Rightarrow> ms | None \<Rightarrow> -1) | None \<Rightarrow> -1)"

definition GetStatus :: "(int \<Rightarrow> int option) \<Rightarrow> app \<Rightarrow> netplay_status" where
  "GetStatus ping s =
     (case net s of
        None \<Rightarrow> idle_status\<lparr>st_active := srv s\<rparr>
      | Some n \<Rightarrow>
          (let c = np_client n
           in \<lparr>st_active = True, st_connected = c_connected c, st_inLobby = (c_connected c \<and> \<not> ggpo s),
               st_inMatch = ggpo s, st_pingMs = (if ggpo s then remote_ping ping s else -1),
               st_inputDelay = np_delay n, st_opponentName = opponent_name c\<rparr>))"

text \<open>The transport counters of the overlay.\<close>

record transport_diagnostics =
  td_transport :: "8 word"
  td_relay :: transport_stats
  td_tunnel :: tunnel_stats

definition no_tunnel_stats :: tunnel_stats where
  "no_tunnel_stats = \<lparr>sendCount = 0, sendBytes = 0, recvCount = 0, recvBytes = 0\<rparr>"

definition GetTransportDiagnostics :: "app \<Rightarrow> transport_diagnostics" where
  "GetTransportDiagnostics s =
     \<lparr>td_transport = nc_ggpoTransport (cfg s), td_relay = tn_stats (tun s),
      td_tunnel = (case app_client s of Some c \<Rightarrow> c_stats c | None \<Rightarrow> no_tunnel_stats)\<rparr>"

end
