(* ===== verification/User_App.thy ===== *)
theory User_App
  imports Netplay_Facade
begin

text \<open>
  The user application's battle start and frame (sf4e__UserApp.cxx) and the hooks
  of the game's events (sf4e__GameEvents.cxx): the transport chosen for a match,
  the endpoints of the players and spectators, the GGPO session started from the
  lobby, the order of one application tick, and the VsBattle and VsPreBattle
  detours around the engine.
\<close>

section \<open>The transport of a match\<close>

text \<open>What a battle start asks of the world: the resolver and the transport's answers,
  the tunnel's sockets, the server's address text, GGPO's answers, the clock.\<close>

record 'j battle_env =
  be_resolver :: resolver
  be_prep :: "'j prep_env"
  be_menu :: menu_env
  be_startup :: bool
  be_bindable :: "16 word \<Rightarrow> bool"
  be_serverAddr :: string
  be_ggpo :: start_env
  be_made :: bool
  be_now :: "32 word"

definition vps_session :: "netplay_config \<Rightarrow> bool" where
  "vps_session c \<longleftrightarrow> nc_useCentralSession c = 2"

definition battle_config :: "app \<Rightarrow> netplay_config" where
  "battle_config s =
     (let c = cfg s
      in RestoreBrokerGgpoEndpoint s
           (if vps_session c \<and> nc_ggpoTransport c = 0 \<and> nc_ggpoRoomToken c \<noteq> [] \<and> nc_ggpoRemotePort c > 0
            then c\<lparr>nc_ggpoTransport := UdpRelay\<rparr> else c))"

definition release_session :: "world \<Rightarrow> app \<Rightarrow> app" where
  "release_session W s =
     (if ggpo s then TunnelReset (RetireGgpoSession W (CancelDeferredGgpoClose s)) else s)"

text \<open>What the preparation leaves behind. The session client's callbacks during its waits
  are made afterwards: no GGPO session exists then, and the preparation reads
  nothing they write.\<close>

definition install_prep :: "menu_env \<Rightarrow> 'j prep \<Rightarrow> app \<Rightarrow> app" where
  "install_prep e p s =
     (let s1 = (case pr_client p of Some r \<Rightarrow> install_round e (\<lambda>t. t) r s | None \<Rightarrow> s)
      in fold (\<lambda>a. PushAlert (Al_Text a)) (pr_alerts p) s1)"

definition report_prepared :: "transport_mode \<Rightarrow> netplay_config \<Rightarrow> app \<Rightarrow> app" where
  "report_prepared mode c s =
     (if mode = LegacySessionTunnel then ReportGgpoTransport mode True None 0 s
      else ReportGgpoTransport mode False (Some (nc_ggpoRemoteHost c)) (nc_ggpoRemotePort c) s)"

text \<open>The inner option: whether the legacy tunnel is used, or the start was given up. The
  outer: the preparation's waits did not end on the given clock readings.\<close>

definition prepare_transport ::
  "world \<Rightarrow> 'j battle_env \<Rightarrow> netplay_config \<Rightarrow> client \<Rightarrow> app \<Rightarrow> (bool option \<times> app) option" where
  "prepare_transport W e c cli s0 =
     (let s = release_session W s0
      in case PrepareForBattle (be_resolver e) (be_prep e)
                \<lparr>pr_cfg = c, pr_client = Some (app_round cli s), pr_alerts = [], pr_sent = []\<rparr> of
           (None, mode, p) \<Rightarrow> None
         | (Some ok, mode, p) \<Rightarrow>
             (let s1 = ApplyGgpoTransportConfig (pr_cfg p) (install_prep (be_menu e) p s)
              in Some (if \<not> ok
                       then (None, AbortGgpoMatch W Al_RelayUnavailable (ReportGgpoTransport mode False None 0 s1))
                       else (Some (mode = LegacySessionTunnel), report_prepared mode (pr_cfg p) s1))))"

definition choose_transport ::
  "world \<Rightarrow> 'j battle_env \<Rightarrow> client \<Rightarrow> app \<Rightarrow> (bool option \<times> app) option" where
  "choose_transport W e cli s =
     (let c = battle_config s
      in if vps_session c \<and> nc_ggpoTransport c \<noteq> 0 then prepare_transport W e c cli s
         else if vps_session c
         then Some (None, AbortGgpoMatch W Al_RelayRequired (ReportGgpoTransport 1 False None 0 s))
         else Some (Some (c_useRelay cli), s))"

section \<open>Players and spectators\<close>

text \<open>The remote endpoint of a player: the tunnel's port, the configured endpoint, the
  server's address when the member has none of its own, the member's. One of them
  always applies.\<close>

definition remote_endpoint :: "'j battle_env \<Rightarrow> bool \<Rightarrow> member_data \<Rightarrow> app \<Rightarrow> string \<times> 16 word" where
  "remote_endpoint e legacy m s =
     (case (if legacy then GetRemoteEndpoint (connId m) (tun s) else None) of
        Some x \<Rightarrow> x
      | None \<Rightarrow>
          if \<not> legacy \<and> nc_ggpoRemoteHost (cfg s) \<noteq> [] \<and> nc_ggpoRemotePort (cfg s) > 0
          then (copy_trunc 32 (nc_ggpoRemoteHost (cfg s)), nc_ggpoRemotePort (cfg s))
          else if m_ip m = [] then (be_serverAddr e, m_port m)
          else (m_ip m, m_port m))"

definition spectator_endpoint :: "'j battle_env \<Rightarrow> member_data \<Rightarrow> string \<times> 16 word" where
  "spectator_endpoint e m = (if m_ip m = [] then be_serverAddr e else m_ip m, m_port m)"

definition is_local :: "client \<Rightarrow> member_data \<Rightarrow> bool" where
  "is_local c m \<longleftrightarrow> ConnectionID_eq (connId m) (c_cid c)"

definition ggpo_seat :: "'j battle_env \<Rightarrow> bool \<Rightarrow> client \<Rightarrow> app \<Rightarrow> member_data \<Rightarrow> player_type \<times> string \<times> 16 word" where
  "ggpo_seat e legacy c s m =
     (if is_local c m then (PT_LOCAL, [], 0) else (PT_REMOTE, remote_endpoint e legacy m s))"

definition ggpo_players :: "'j battle_env \<Rightarrow> bool \<Rightarrow> client \<Rightarrow> app \<Rightarrow> (player_type \<times> string \<times> 16 word) list" where
  "ggpo_players e legacy c s =
     map (ggpo_seat e legacy c s) (take 2 (members (c_lobby c))) @
     map (\<lambda>m. (PT_SPECTATOR, spectator_endpoint e m)) (drop 2 (members (c_lobby c)))"

text \<open>The chosen device is given to the local player's side.\<close>

definition assign_device :: "client \<Rightarrow> app \<Rightarrow> app" where
  "assign_device c s =
     fold (\<lambda>i t. if is_local c (members (c_lobby c) ! i) then act (Act_BattleAssigned i) t else t) [0..<2] s"

definition start_players :: "world \<Rightarrow> 'j battle_env \<Rightarrow> bool \<Rightarrow> netplay \<Rightarrow> app \<Rightarrow> app" where
  "start_players W e legacy n s =
     (let c = np_client n; ps = ggpo_players e legacy c s; s1 = act (Act_GgpoPlayers ps) (assign_device c s)
      in ResetGgpoBattleWatch (be_now e)
           (StartGGPO W (be_ggpo e) (map fst ps) (length (members (c_lobby c))) (c_ggpoPort c) (np_delay n) (rngSeed (c_match c)) s1))"

definition start_tunnel :: "'j battle_env \<Rightarrow> client \<Rightarrow> app \<Rightarrow> bool \<times> app" where
  "start_tunnel e c s =
     (let (ok, tn) = Start (be_startup e) (be_bindable e) (c_ggpoPort c) (Some c) (tun s)
      in (ok, act Act_TunnelStart (s\<lparr>tun := tn\<rparr>)))"

definition start_on_transport :: "world \<Rightarrow> 'j battle_env \<Rightarrow> bool \<Rightarrow> netplay \<Rightarrow> app \<Rightarrow> app" where
  "start_on_transport W e legacy n s =
     (if legacy
      then (case start_tunnel e (np_client n) s of
              (False, s1) \<Rightarrow> PushAlert Al_TunnelFailed s1
            | (True, s1) \<Rightarrow> start_players W e legacy n s1)
      else start_players W e legacy n s)"

definition start_spectator :: "world \<Rightarrow> 'j battle_env \<Rightarrow> client \<Rightarrow> app \<Rightarrow> app" where
  "start_spectator W e c s =
     (case members (c_lobby c) of
        [] \<Rightarrow> PushAlert Al_NoHost s
      | m # _ \<Rightarrow>
          (let (ip, port) = spectator_endpoint e m
           in StartSpectating W (se_environ (be_ggpo e)) (be_made e) ip port (rngSeed (c_match c)) s))"

text \<open>None: the transport's preparation did not end on the given clock readings.\<close>

definition OnVsBattleTasksRegistered :: "world \<Rightarrow> 'j battle_env \<Rightarrow> app \<Rightarrow> app option" where
  "OnVsBattleTasksRegistered W e s =
     (case net s of
        None \<Rightarrow> Some s
      | Some n \<Rightarrow>
          (let c = np_client n
           in if length (members (c_lobby c)) < 2 then Some (PushAlert Al_WaitOpponentLobby s)
              else if IsLocalPlayer c
              then (case choose_transport W e c s of
                      None \<Rightarrow> None
                    | Some (None, s1) \<Rightarrow> Some s1
                    | Some (Some legacy, s1) \<Rightarrow>
                        Some (case net s1 of None \<Rightarrow> s1 | Some n1 \<Rightarrow> start_on_transport W e legacy n1 s1))
              else Some (start_spectator W e c s)))"

section \<open>The restart on the legacy tunnel\<close>

text \<open>The seats by name; None when a remote seat has no virtual endpoint.\<close>

fun legacy_seats :: "client \<Rightarrow> tunnel \<Rightarrow> member_data list \<Rightarrow> (player_type \<times> string \<times> 16 word) list option" where
  "legacy_seats c tn [] = Some []"
| "legacy_seats c tn (m # ms) =
     (case (if m_name m = c_name c then Some (PT_LOCAL, [], 0)
            else map_option (Pair PT_REMOTE) (GetRemoteEndpoint (connId m) tn)) of
        None \<Rightarrow> None
      | Some p \<Rightarrow> map_option (Cons p) (legacy_seats c tn ms))"

definition in_sync :: "sync_phase \<Rightarrow> bool" where
  "in_sync p \<longleftrightarrow> p = SP_Connected \<or> p = SP_Synchronizing \<or> p = SP_Running"

text \<open>The seats past the two players are handed over as they are on the stack: \<open>stack\<close>.\<close>

definition restart_players ::
  "world \<Rightarrow> 'j battle_env \<Rightarrow> player_type list \<Rightarrow> 8 word \<Rightarrow> client \<Rightarrow> (player_type \<times> string \<times> 16 word) list \<Rightarrow> app \<Rightarrow> app" where
  "restart_players W e stack delay c ps s =
     (let s1 = StartGGPO W (be_ggpo e) (map fst ps @ stack) (length (members (c_lobby c))) (c_ggpoPort c) delay
            (rngSeed (c_match c)) (act (Act_GgpoPlayers ps) s)
      in PushAlert Al_UsingTunnel (MarkGgpoBattleStarted (be_now e) (ReportGgpoTransport 0 True None 0 s1)))"

definition restart_tunnel :: "world \<Rightarrow> 'j battle_env \<Rightarrow> player_type list \<Rightarrow> netplay \<Rightarrow> app \<Rightarrow> app" where
  "restart_tunnel W e stack n s =
     (let c = (np_client n)\<lparr>c_useRelay := True\<rparr>
      in case start_tunnel e c (s\<lparr>net := Some (n\<lparr>np_client := c\<rparr>)\<rparr>) of
           (False, s1) \<Rightarrow> PushAlert Al_GgpoSyncFailed s1
         | (True, s1) \<Rightarrow>
             (case legacy_seats c (tun s1) (take 2 (members (c_lobby c))) of
                None \<Rightarrow> TunnelReset (PushAlert Al_GgpoSyncFailed s1)
              | Some ps \<Rightarrow> restart_players W e stack (np_delay n) c ps s1))"

definition TryRestartGgpoLegacyTunnel :: "world \<Rightarrow> 'j battle_env \<Rightarrow> player_type list \<Rightarrow> app \<Rightarrow> app" where
  "TryRestartGgpoLegacyTunnel W e stack s =
     (case net s of
        None \<Rightarrow> s
      | Some n \<Rightarrow>
          if \<not> ggpo s \<or> in_sync (syncPhase s) then s
          else restart_tunnel W e stack n ((RetireGgpoSession W s)\<lparr>upd := False\<rparr>))"

section \<open>The hooks of the versus events\<close>

text \<open>True when the hook ended the event itself; otherwise the engine's decision runs.\<close>

definition CheckAndMaybeExitBasedOnExitType :: "app \<Rightarrow> bool \<times> app" where
  "CheckAndMaybeExitBasedOnExitType s =
     (if vsTerminate s then (True, act Act_TerminateEvent (s\<lparr>vsTerminate := False\<rparr>)) else (False, s))"

definition HasInitialized :: "bool \<Rightarrow> app \<Rightarrow> bool \<times> app" where
  "HasInitialized engine s =
     (if \<not> engine \<or> vsBlockInit s then (False, s)
      else if net s = None then (True, s)
      else (let s1 = (if vsSentLoaded s then s else act Act_SendLoaded (s\<lparr>vsSentLoaded := True\<rparr>))
            in (vsSynced s1, s1)))"

definition IsTerminationComplete :: "bool \<Rightarrow> app \<Rightarrow> bool" where
  "IsTerminationComplete engine s \<longleftrightarrow> engine \<and> \<not> vsBlockTerm s"

definition PrepareBattleRequest :: "bool \<Rightarrow> app \<Rightarrow> app" where
  "PrepareBattleRequest request s =
     (let s1 = (if request \<and> vsForceOnline s then act Act_SetOnline s else s);
          s2 = (if request \<and> vsOverrideSeed s then act (Act_SetSeed (vsSeed s)) s1 else s1)
      in s2\<lparr>vsForceOnline := False, vsOverrideSeed := False, vsSeed := 0xffffffff\<rparr>)"

definition VsBattle_RegisterTasks :: "world \<Rightarrow> 'j battle_env \<Rightarrow> app \<Rightarrow> app option" where
  "VsBattle_RegisterTasks W e s =
     (if battleHook s then map_option (\<lambda>t. t\<lparr>battleHook := False\<rparr>) (OnVsBattleTasksRegistered W e s) else Some s)"

definition ExitForeground :: "app \<Rightarrow> app" where
  "ExitForeground s =
     (if net s \<noteq> None then ResetLobbyForRematch s else s)\<lparr>vsSentLoaded := False, vsSynced := False\<rparr>"

definition VsPreBattle_RegisterTasks :: "bool \<Rightarrow> app \<Rightarrow> app" where
  "VsPreBattle_RegisterTasks mode s =
     (let s1 = (if skipToVersus s then act Act_ReplaceNextEvent (s\<lparr>skipToVersus := False\<rparr>) else s)
      in if preHook s1 then (OnVsPreBattleTasksRegistered mode s1)\<lparr>preHook := False\<rparr> else s1)"

section \<open>One application tick\<close>

text \<open>The outside of one tick: the menu's answers, the status changes the library reports
  on the session connection, what the client polls, the server's step, the frame's
  answers, the callbacks of the GGPO poll, and a paced wait.\<close>

record 'j post_env =
  po_tick :: tick_env
  po_status :: "(conn_state \<times> conn_state) list"
  po_codec :: "'j codec"
  po_ok :: "nat \<Rightarrow> bool"
  po_strict :: bool
  po_poll :: "'j option option list option"
  po_serverFails :: bool
  po_frame :: "'j frame_env"
  po_idle :: "callback list"
  po_wait :: "rat \<times> paced_result"

text \<open>The status callback of the session client.\<close>

definition status_changed :: "menu_env \<Rightarrow> (app \<Rightarrow> app) \<Rightarrow> conn_state \<times> conn_state \<Rightarrow> app \<Rightarrow> app" where
  "status_changed e lost ch s =
     (case app_client s of
        None \<Rightarrow> s
      | Some c \<Rightarrow>
          (let (c1, fx) = client_conn_changed (ggpo s) (fst ch) (snd ch) c
           in fold (run_effect e lost) (fx :: unit effect list) (upd_client (\<lambda>_. c1) s)))"

definition room_lost :: "world \<Rightarrow> app \<Rightarrow> app" where
  "room_lost W = HandleControlPlaneLoss W (Al_Text ''Lost connection to the game room. Check your internet and try again.'')"

definition server_lost :: "world \<Rightarrow> app \<Rightarrow> app" where
  "server_lost W = HandleControlPlaneLoss W (Al_Text ''Session server error. Check your internet and try again.'')"

definition step_sessions :: "world \<Rightarrow> 'j post_env \<Rightarrow> app \<Rightarrow> app" where
  "step_sessions W e s =
     (let m = fe_menu (po_frame e); (s1, rc) = app_client_step m (room_lost W) (po_codec e) (po_ok e) (po_strict e) (po_poll e) s
      in if rc < 0 then room_lost W s1
         else if srv s1 \<and> po_serverFails e then server_lost W s1
         else s1)"

definition poll_ggpo :: "world \<Rightarrow> callback list \<Rightarrow> app \<Rightarrow> app" where
  "poll_ggpo W cbs s = (if ggpo s then run_cbs W cbs (act Act_GgpoIdle s) else s)"

definition pace :: "rat \<times> paced_result \<Rightarrow> app \<Rightarrow> app" where
  "pace w s =
     s\<lparr>pc := PaceTick (ggpo s) (MayAdvanceDeterministicFrame s) (predictionStalled (gt s)) w (pc s)\<rparr>"

definition Steam_PostUpdate :: "world \<Rightarrow> 'j post_env \<Rightarrow> app \<Rightarrow> app" where
  "Steam_PostUpdate W e s =
     (let s1 = TickMainMenu (po_tick e) s;
          s2 = fold (status_changed (fe_menu (po_frame e)) (room_lost W)) (po_status e) s1;
          s3 = TickFrame W (po_frame e) (step_sessions W e s2)
      in act Act_EnginePostUpdate (pace (po_wait e) (poll_ggpo W (po_idle e) s3)))"

end
