(* ===== verification/Overlay_Control.thy ===== *)
theory Overlay_Control
  imports User_App
begin

text \<open>
  What the in-game overlay (sf4e__Overlay.cxx) does to the process: the lobby's
  Ready and Report win buttons, hosting and joining from the network window, the
  Disconnect button, and the simulation controls with the playback editor.
  Drawing is not modelled; a button is the operation it runs.
\<close>

section \<open>The lobby\<close>

definition GetLocalLobbyActiveSide :: "app \<Rightarrow> nat option" where
  "GetLocalLobbyActiveSide s =
     (case app_client s of None \<Rightarrow> None | Some c \<Rightarrow> player_slot c)"

definition no_ping :: "int \<Rightarrow> int option" where
  "no_ping h = None"

definition CanLobbyReady :: "app \<Rightarrow> bool" where
  "CanLobbyReady s \<longleftrightarrow>
     (case app_client s of
        None \<Rightarrow> False
      | Some c \<Rightarrow>
          (if \<not> st_inLobby (GetStatus no_ping s) then False
           else (case GetLocalLobbyActiveSide s of
                   None \<Rightarrow> False
                 | Some side \<Rightarrow> \<not> -1 < c_outstanding c \<and> \<not> -1 < duo_get (readyMessageNum (c_match c)) side)))"

text \<open>The character, and for the first seat the environment and the stage, then the ready
  request; \<open>number\<close> is its message number when it was sent.\<close>

definition ready_requests :: "nat \<Rightarrow> chara_conditions \<Rightarrow> 32 word \<Rightarrow> int \<Rightarrow> 'j request list" where
  "ready_requests side ch seed stage =
     [PreBattle_SetChara ch] @ (if side = 0 then [PreBattle_SetEnv seed, PreBattle_SetStage stage] else [])"

definition TryLobbyReady ::
  "chara_conditions \<Rightarrow> 32 word \<Rightarrow> int \<Rightarrow> int option \<Rightarrow> app \<Rightarrow> bool \<times> 'j request list \<times> app" where
  "TryLobbyReady ch seed stage number s =
     (if \<not> CanLobbyReady s then (False, [], s)
      else (case (GetLocalLobbyActiveSide s, app_client s) of
              (Some side, Some c) \<Rightarrow>
                (let (c1, ready) = Lobby_Ready number c
                 in (True, ready_requests side ch seed stage @ [ready], upd_client (\<lambda>_. c1) s))
            | _ \<Rightarrow> (False, [], s)))"

definition report_win :: "app \<Rightarrow> 'j request list \<times> app" where
  "report_win s =
     (case GetLocalLobbyActiveSide s of
        None \<Rightarrow> ([], s)
      | Some side \<Rightarrow>
          if controlLost s then ([], PushAlert (Al_Text ''Results unavailable: room connection was lost.'') s)
          else ([Lobby_ReportResults (if side = 0 then 1 else 0)], s))"

definition client_alert :: "error_type \<Rightarrow> string" where
  "client_alert e =
     (case e of
        SCE_JOIN_REJECTED_HASH_INVALID \<Rightarrow> ''Version mismatch - update sf4e to the same build on both PCs.''
      | SCE_JOIN_REJECTED_LOBBY_FULL \<Rightarrow> ''Could not join lobby: lobby full''
      | SCE_JOIN_REJECTED_NAME_TAKEN \<Rightarrow> ''Could not join lobby: name taken''
      | SCE_JOIN_REJECTED_REQUEST_INVALID \<Rightarrow>
          ''Could not join lobby: join request incorrectly formatted- version mismatch?''
      | _ \<Rightarrow> ''An unknown error occurred'')"

section \<open>Hosting, joining, disconnecting\<close>

definition join_button :: "conn option \<Rightarrow> string \<Rightarrow> 16 word \<Rightarrow> string \<Rightarrow> string \<Rightarrow> 8 word \<Rightarrow> 8 word \<Rightarrow> 8 word \<Rightarrow> app \<Rightarrow> app" where
  "join_button created addr port hash name devType devIdx delay s =
     StartSession created addr port hash name devType devIdx delay True s"

text \<open>The host joins through its LAN address; the ports must differ.\<close>

definition host_button ::
  "bool \<Rightarrow> conn option \<Rightarrow> string \<Rightarrow> 16 word \<Rightarrow> 16 word \<Rightarrow> string \<Rightarrow> string \<Rightarrow> 8 word \<Rightarrow> 8 word \<Rightarrow> 8 word \<Rightarrow> app \<Rightarrow> app" where
  "host_button listens created lan hostPort ggpoPort hash name devType devIdx delay s =
     (if hostPort = ggpoPort then s
      else (case StartServer listens hostPort s of
              (False, s1) \<Rightarrow> PushAlert Al_ServerFailed s1
            | (True, s1) \<Rightarrow>
                StartSession created (copy_trunc 64 (lan @ '':'' @ dec_nat (unat hostPort))) ggpoPort hash name devType devIdx
                  delay True s1))"

definition disconnect_button :: "world \<Rightarrow> app \<Rightarrow> app" where
  "disconnect_button W s = UserShutdownNetplay W True s"

section \<open>Simulation control\<close>

definition pause_button :: "app \<Rightarrow> app" where
  "pause_button s = s\<lparr>upd := False, gt := SetManualPause True (gt s)\<rparr>"

definition play_button :: "app \<Rightarrow> app" where
  "play_button s = s\<lparr>upd := True, gt := SetManualPause False (gt s)\<rparr>"

definition halt_button :: "app \<Rightarrow> app" where
  "halt_button s = s\<lparr>haltAfterNext := True\<rparr>"

definition step_button :: "app \<Rightarrow> app" where
  "step_button s = (play_button s)\<lparr>haltAfterNext := True\<rparr>"

definition clamp_skip :: "int \<Rightarrow> int" where
  "clamp_skip n = (let m = (if n < 1 then 1 else n) in if m > int PLAYBACK_MAX then int PLAYBACK_MAX else m)"

definition simulate_button :: "int \<Rightarrow> app \<Rightarrow> app" where
  "simulate_button n s = s\<lparr>extraFrames := clamp_skip n\<rparr>"

section \<open>The playback editor\<close>

text \<open>playbackData is declared [PLAYBACK_MAX][2] and read by frame, then side. The editor
  takes the cell [side][frame]; in the flat array that is the cell \<open>side * 2 + frame\<close>.\<close>

definition flat_get :: "pad duo list \<Rightarrow> nat \<Rightarrow> pad" where
  "flat_get d i = duo_get (d ! (i div 2)) (i mod 2)"

definition flat_set :: "nat \<Rightarrow> pad \<Rightarrow> pad duo list \<Rightarrow> pad duo list" where
  "flat_set i v d = d[i div 2 := duo_set (d ! (i div 2)) (i mod 2) v]"

definition edited_cell :: "nat \<Rightarrow> nat \<Rightarrow> nat" where
  "edited_cell side frame = side * 2 + frame"

definition edit_playback :: "nat \<Rightarrow> nat \<Rightarrow> 32 word \<Rightarrow> app \<Rightarrow> app" where
  "edit_playback side frame raw s =
     (let i = edited_cell side frame
      in s\<lparr>playbackData := flat_set i (fst (flat_get (playbackData s) i), raw) (playbackData s)\<rparr>)"

text \<open>The cell the pads read for a side in a playback frame.\<close>

definition read_cell :: "nat \<Rightarrow> nat \<Rightarrow> nat" where
  "read_cell side frame = frame * 2 + side"

lemma edited_cell_wrong: "side < 2 \<Longrightarrow> edited_cell side frame = read_cell side frame \<longleftrightarrow> frame = side"
  by (auto simp: edited_cell_def read_cell_def)

end
