(* ===== verification/Process.thy ===== *)
theory Process
  imports Overlay_Control Wire
begin

text \<open>
  The sidecar as a transition system: every operation the game, the libraries
  and the overlay drive into it is a step on the process state, and the
  invariant of the battle system holds in every state it can reach. On it rest
  the properties that span the facade, the user application and the battle
  system.
\<close>

section \<open>The lobby keeps the invariant\<close>

lemma core_alert [core]: "core_ok s \<Longrightarrow> core_ok (PushAlert a s)"
  by (simp add: PushAlert_def)

lemma core_upd_client [core]: "core_ok s \<Longrightarrow> core_ok (upd_client f s)"
  by (simp add: core_ok_def upd_client_keeps)

lemma core_acts: "core_ok (fold (\<lambda>d. act (f d)) xs s) = core_ok s"
  by (induction xs arbitrary: s) simp_all

lemma core_StartServer: "core_ok s \<Longrightarrow> core_ok (snd (StartServer b port s))"
  by (simp add: StartServer_def Let_def core_ok_def act_def)

lemma core_StartSession [core]: "core_ok s \<Longrightarrow> core_ok (StartSession cr a port h n t i d r s)"
  by (simp add: StartSession_def Let_def core_ok_def act_def)

lemma core_user_shutdown [core]: "core_ok s \<Longrightarrow> core_ok (UserShutdownNetplay W b s)"
  using core_shutdown [of "s\<lparr>pendingStart := False\<rparr>" W b] by (simp add: UserShutdownNetplay_def core_ok_def)

lemma core_reset_rematch [core]: "core_ok s \<Longrightarrow> core_ok (ResetLobbyForRematch s)"
  by (simp add: ResetLobbyForRematch_def)

lemma core_versus: "core_ok s \<Longrightarrow> core_ok (go_to_versus c s)"
  by (simp add: go_to_versus_def case_prod_unfold Let_def core_ok_def act_def)

lemma core_start_match: "core_ok s \<Longrightarrow> core_ok (snd (StartMatchFromLobby e c s))"
  using core_clear [of s]
  by (auto simp: StartMatchFromLobby_def Let_def core_ok_def PushAlert_def act_def go_to_versus_def case_prod_unfold
      split: option.splits)

lemma core_pending: "core_ok s \<Longrightarrow> core_ok (s\<lparr>pendingStart := b\<rparr>)"
  by (simp add: core_ok_def)

lemma core_OnReady [core]: "core_ok s \<Longrightarrow> core_ok (OnReady e s)"
  using core_start_match [of s e "app_client s"]
  by (cases "StartMatchFromLobby e (app_client s) s") (auto simp: OnReady_def core_pending split: bool.splits)

lemma core_synced [core]: "core_ok s \<Longrightarrow> core_ok (OnBattleSynced s)"
  by (simp add: OnBattleSynced_def core_ok_def)

lemma core_try_start [core]: 
  assumes "core_ok s"
  shows "core_ok (TryStartPendingMatch e s)"
proof (cases "app_client s")
  case (Some c)
  then show ?thesis
    using core_start_match [OF assms, of e "Some c"] assms
    by (cases "StartMatchFromLobby e (Some c) s") (auto simp: TryStartPendingMatch_def core_pending split: bool.splits)
qed (simp add: TryStartPendingMatch_def assms)

lemma core_pre_tasks [core]: "core_ok s \<Longrightarrow> core_ok (OnVsPreBattleTasksRegistered m s)"
  by (auto simp: OnVsPreBattleTasksRegistered_def core split: option.splits)

lemma inject_active: "tn_active (fst (InjectFromPeer src bytes tn)) = tn_active tn"
  by (auto simp: InjectFromPeer_def split: option.splits)

lemma core_tun: "core_ok s \<Longrightarrow> tn_active tn = tn_active (tun s) \<Longrightarrow> core_ok (s\<lparr>tun := tn\<rparr>)"
  by (simp add: core_ok_def)

lemma core_inject [core]: "core_ok s \<Longrightarrow> core_ok (inject src bytes s)"
  by (simp add: inject_def case_prod_unfold Let_def core_acts core_tun inject_active)

lemma core_effect:
  assumes "\<And>t. core_ok t \<Longrightarrow> core_ok (lost t)" "core_ok s"
  shows "core_ok (run_effect e lost x s)"
  using assms by (cases x) (simp_all add: core)

lemma core_effects:
  assumes "\<And>t. core_ok t \<Longrightarrow> core_ok (lost t)" "core_ok s"
  shows "core_ok (fold (run_effect e lost) xs s)"
  using assms(2) by (induction xs arbitrary: s) (simp_all add: core_effect [OF assms(1)])

lemma core_ag: "core_ok s \<Longrightarrow> core_ok (s\<lparr>ag := g\<rparr>)"
  by (simp add: core_ok_def)

lemma core_round:
  assumes "\<And>t. core_ok t \<Longrightarrow> core_ok (lost t)" "core_ok s"
  shows "core_ok (install_round e lost r s)"
  unfolding install_round_def by (rule core_effects [OF assms(1) core_upd_client [OF core_ag [OF assms(2)]]])

lemma core_message:
  assumes "\<And>t. core_ok t \<Longrightarrow> core_ok (lost t)" "core_ok s"
  shows "core_ok (fst (app_message e lost C m s))"
  using core_round [OF assms] assms(2) by (auto simp: app_message_def case_prod_unfold Let_def split: option.splits)

lemma core_messages:
  assumes "\<And>t. core_ok t \<Longrightarrow> core_ok (lost t)"
  shows "core_ok s \<Longrightarrow> core_ok (fst (app_messages e lost C ms s))"
proof (induction ms arbitrary: s)
  case (Cons x ms)
  show ?case
  proof (cases x)
    case (Some m)
    have "core_ok (fst (app_message e lost C m s))" by (rule core_message [OF assms Cons.prems])
    then show ?thesis
      using Cons.IH Some by (cases "app_message e lost C m s") (auto split: bool.splits)
  qed (simp add: Cons.prems)
qed simp

lemma core_reconcile:
  assumes "\<And>t. core_ok t \<Longrightarrow> core_ok (lost t)" "core_ok s"
  shows "core_ok (app_reconcile e lost ok strict T s)"
  using core_round [OF assms] assms(2) by (auto simp: app_reconcile_def split: option.splits)

lemma core_session_step:
  fixes C :: "'j codec"
  assumes "\<And>t. core_ok t \<Longrightarrow> core_ok (lost t)" "core_ok s"
  shows "core_ok (fst (app_client_step e lost C ok strict poll s))"
proof (cases "app_client s")
  case c: (Some c)
  show ?thesis
  proof (cases poll)
    case (Some ms)
    obtain t b where tb: "app_messages e lost C ms s = (t, b)" by (cases "app_messages e lost C ms s")
    have "core_ok (fst (app_messages e lost C ms s))" by (rule core_messages [OF assms])
    then have t: "core_ok t" using tb by simp
    have "core_ok (app_reconcile e lost ok strict T t)" for T :: "'j itself" by (rule core_reconcile [OF assms(1) t])
    then show ?thesis
      using assms(2) t Some c tb by (cases b) (simp_all add: app_client_step_def)
  qed (use assms(2) c in \<open>simp add: app_client_step_def\<close>)
qed (use assms(2) in \<open>simp add: app_client_step_def\<close>)

section \<open>The facade keeps the invariant\<close>

definition keeps_core :: "app \<Rightarrow> app \<Rightarrow> bool" where
  "keeps_core s t \<longleftrightarrow> ggpo t = ggpo s \<and> gt t = gt s \<and> upd t = upd s \<and> deferClose t = deferClose s \<and>
     deferredPending t = deferredPending s \<and> tn_active (tun t) = tn_active (tun s) \<and> (net t = None) = (net s = None) \<and>
     length (playbackData t) = length (playbackData s) \<and> slotUsed t = slotUsed s \<and>
     length (plys t) = length (plys s)"

lemma keeps_core_ok: "keeps_core s t \<Longrightarrow> core_ok s \<Longrightarrow> core_ok t"
  by (auto simp: keeps_core_def core_ok_def)

lemma core_init [core]: "core_ok s \<Longrightarrow> core_ok (InitFromPayload env c s)"
  by (erule keeps_core_ok [rotated]) (simp add: keeps_core_def InitFromPayload_def CaptureBrokerGgpoEndpoint_def Let_def)

lemma core_ready_note [core]: "core_ok s \<Longrightarrow> core_ok (NotifyGameReady s)"
  by (erule keeps_core_ok [rotated]) (simp add: keeps_core_def NotifyGameReady_def)

lemma core_reports [core]:
  "core_ok s \<Longrightarrow> core_ok (ApplyGgpoTransportConfig c s)"
  "core_ok s \<Longrightarrow> core_ok (ReportGgpoTransport m l h p s)"
  "core_ok s \<Longrightarrow> core_ok (ResetGgpoBattleWatch now s)"
  "core_ok s \<Longrightarrow> core_ok (MarkGgpoBattleStarted now s)"
  by (simp_all add: core_ok_def ApplyGgpoTransportConfig_def ReportGgpoTransport_def ResetGgpoBattleWatch_def
      MarkGgpoBattleStarted_def)

lemma shutdown_closed: "core_ok s \<Longrightarrow> t = s\<lparr>ag := a, gt := g, upd := u\<rparr> \<Longrightarrow> core_ok (ShutdownNetplay W True t)"
proof -
  assume "core_ok s" "t = s\<lparr>ag := a, gt := g, upd := u\<rparr>"
  then show ?thesis
    by (simp add: ShutdownNetplay_def retire_simp drop_server_def drop_client_def TunnelReset_def tunnel_Reset_def
        act_def core_ok_def Let_def)
qed

lemma core_failure [core]: "core_ok s \<Longrightarrow> core_ok (HandleNetplayFailure W r True s)"
proof -
  assume s: "core_ok s"
  define a where "a = (case r of Some a \<Rightarrow> PushAlert a s | None \<Rightarrow> s)"
  have a: "core_ok a" using s by (simp add: a_def core split: option.splits)
  define g where "g = (if haveSystem a \<and> battle_flow a \<noteq> BF_IDLE then (ag a)\<lparr>g_leaving := True\<rparr> else ag a)"
  have l: "leave_battle a = a\<lparr>ag := g\<rparr>" by (simp add: leave_battle_def set_leaving_def g_def)
  have "core_ok (ShutdownNetplay W True (let t = leave_battle a in t\<lparr>gt := OnFatal (gt t), upd := False\<rparr>))"
    by (rule shutdown_closed [OF a]) (simp add: l)
  then show ?thesis using a by (simp add: HandleNetplayFailure_def a_def [symmetric] Let_def core)
qed

lemma core_loss [core]: "core_ok s \<Longrightarrow> core_ok (HandleControlPlaneLoss W r s)"
proof -
  assume s: "core_ok s"
  have "core_ok (degrade s)" if "\<not> tunnelOn s" "fight_running s"
    using s that by (simp add: degrade_def PushAlert_def act_def core_ok_def)
  then show ?thesis using s by (simp add: HandleControlPlaneLoss_def core)
qed

lemma core_menu_parts:
  "core_ok s \<Longrightarrow> core_ok (CheckGraphicsWarning s)"
  "core_ok s \<Longrightarrow> core_ok (start_from_config e a s)"
  "core_ok s \<Longrightarrow> core_ok (snd (capture_pad e s))"
proof -
  assume s: "core_ok s"
  show "core_ok (CheckGraphicsWarning s)"
    using s by (simp add: CheckGraphicsWarning_def PushAlert_def act_def core_ok_def)
  show "core_ok (start_from_config e a s)"
    using s by (simp add: start_from_config_def StartSession_def Let_def act_def core_ok_def)
  show "core_ok (snd (capture_pad e s))"
    using s by (simp add: capture_pad_def core_ok_def split: option.splits)
qed

lemma core_local_server [core]: "core_ok s \<Longrightarrow> core_ok (host_local_server e s)"
proof -
  assume s: "core_ok s"
  obtain b t where bt: "StartServer (te_listens e) (nc_sessionPort (cfg s)) s = (b, t)"
    by (cases "StartServer (te_listens e) (nc_sessionPort (cfg s)) s")
  have t: "core_ok t" using core_StartServer [OF s, of "te_listens e" "nc_sessionPort (cfg s)"] bt by simp
  have "core_ok ((PushAlert Al_ServerFailed t)\<lparr>autoPending := False\<rparr>)"
    using t by (simp add: PushAlert_def act_def core_ok_def)
  then show ?thesis
    using t core_menu_parts(2) bt by (cases b) (simp_all add: host_local_server_def)
qed

lemma core_open [core]: "core_ok s \<Longrightarrow> core_ok (open_session e s)"
  by (simp add: open_session_def Let_def core core_menu_parts)

lemma core_menu_ready [core]: "core_ok s \<Longrightarrow> core_ok (main_menu_ready e s)"
  using core_menu_parts(3) [OF core_menu_parts(1), of s e]
  by (cases "capture_pad e (CheckGraphicsWarning s)") (auto simp: main_menu_ready_def core split: bool.splits)

lemma core_TickMainMenu [core]:
  assumes "core_ok s"
  shows "core_ok (TickMainMenu e s)"
proof -
  have a: "core_ok (s\<lparr>framesSinceReady := n\<rparr>)" for n using assms by (simp add: core_ok_def)
  have b: "core_ok (s\<lparr>framesSinceReady := n, dwellTicks := d\<rparr>)" for n d using assms by (simp add: core_ok_def)
  show ?thesis using assms a core_menu_ready [OF b] b by (simp add: TickMainMenu_def Let_def)
qed

lemma pump_peer_active: "tn_active (fst (pump_peer len d ds tn c)) = tn_active tn"
proof (induction ds arbitrary: tn c)
  case (Cons x ds)
  then show ?case by (cases x) (simp_all add: Let_def case_prod_unfold)
qed simp

lemma pump_peers_active: "tn_active (fst (pump_peers len w ps tn c)) = tn_active tn"
  by (induction ps arbitrary: tn c) (simp_all add: Let_def case_prod_unfold pump_peer_active)

lemma pump_active: "tn_active (fst (Pump len w tn c)) = tn_active tn"
  by (simp add: Pump_def pump_peers_active)

lemma core_pump [core]: "core_ok s \<Longrightarrow> core_ok (pump_tunnel e s)"
  by (auto simp: pump_tunnel_def case_prod_unfold Let_def core_acts pump_active intro!: core_upd_client core_tun
      split: option.splits)

lemma core_settings [core]: "core_ok s \<Longrightarrow> core_ok (push_settings e s)"
  by (auto simp: push_settings_def Let_def core_ok_def act_def split: option.splits)

lemma core_watchdog [core]: "core_ok s \<Longrightarrow> core_ok (sync_watchdog W now s)"
  using core_abort [of "s\<lparr>fallbackTried := True\<rparr>" W Al_SyncTimeout] by (simp add: sync_watchdog_def core_ok_def)

lemma core_deferred [core]: "core_ok s \<Longrightarrow> core_ok (deferred_close W now s)"
proof -
  assume s: "core_ok s"
  obtain b t where bt: "ShouldDeferGgpoClose now s = (b, t)" by (cases "ShouldDeferGgpoClose now s")
  have t: "core_ok t" using core_should_defer [OF s, of now] bt by simp
  have "core_ok ((TunnelReset (RetireGgpoSession W t))\<lparr>deferredPending := False, deferClose := False\<rparr>)"
    using core_tunnel [OF core_retire [OF t, of W]] by (simp add: core_ok_def)
  then show ?thesis using s t bt by (cases b) (simp_all add: deferred_close_def)
qed

lemma core_TickFrame [core]: "core_ok s \<Longrightarrow> core_ok (TickFrame W e s)"
  by (simp add: TickFrame_def core)

section \<open>The battle start and the hooks keep the invariant\<close>

lemma core_release [core]: "core_ok s \<Longrightarrow> core_ok (release_session W s)"
  by (simp add: release_session_def core)

lemma core_prep [core]: "core_ok s \<Longrightarrow> core_ok (install_prep e p s)"
proof -
  assume s: "core_ok s"
  have alerts: "core_ok (fold (\<lambda>a. PushAlert (Al_Text a)) xs t)" if "core_ok t" for xs t
    using that by (induction xs arbitrary: t) (simp_all add: core)
  have "core_ok (install_round e (\<lambda>t. t) r s)" for r :: "'j cround"
    by (rule core_round) (simp_all add: s)
  then show ?thesis using s by (auto simp: install_prep_def Let_def intro!: alerts split: option.splits)
qed

lemma core_prepare: "core_ok s \<Longrightarrow> prepare_transport W e c cli s = Some (r, t) \<Longrightarrow> core_ok t"
  by (auto simp: prepare_transport_def Let_def report_prepared_def core split: option.splits prod.splits if_splits)

lemma core_choose: "core_ok s \<Longrightarrow> choose_transport W e cli s = Some (r, t) \<Longrightarrow> core_ok t"
  by (auto simp: choose_transport_def Let_def core split: if_splits dest: core_prepare)

lemma core_device [core]: "core_ok s \<Longrightarrow> core_ok (assign_device c s)"
proof -
  assume s: "core_ok s"
  have "core_ok (fold (\<lambda>i t. if P i then act (f i) t else t) xs s)" for P f xs
    using s by (induction xs arbitrary: s) simp_all
  then show ?thesis by (simp only: assign_device_def)
qed

lemma core_players [core]: "core_ok s \<Longrightarrow> core_ok (start_players W e l n s)"
  by (simp add: start_players_def Let_def core)

lemma core_tunnel_start: "core_ok s \<Longrightarrow> net s \<noteq> None \<Longrightarrow> core_ok (snd (start_tunnel e c s))"
  by (simp add: start_tunnel_def case_prod_unfold Let_def core_ok_def act_def)

lemma core_on_transport: "core_ok s \<Longrightarrow> net s \<noteq> None \<Longrightarrow> core_ok (start_on_transport W e l n s)"
  using core_tunnel_start [of s e "np_client n"]
  by (cases "start_tunnel e (np_client n) s") (auto simp: start_on_transport_def core split: bool.splits)

lemma core_spectator [core]: "core_ok s \<Longrightarrow> core_ok (start_spectator W e c s)"
  by (auto simp: start_spectator_def case_prod_unfold Let_def intro!: core split: list.splits)

lemma core_tasks: "core_ok s \<Longrightarrow> OnVsBattleTasksRegistered W e s = Some t \<Longrightarrow> core_ok t"
  by (auto simp: OnVsBattleTasksRegistered_def Let_def intro!: core core_on_transport
      split: option.splits if_splits dest: core_choose)

lemma core_register: "core_ok s \<Longrightarrow> VsBattle_RegisterTasks W e s = Some t \<Longrightarrow> core_ok t"
proof -
  assume s: "core_ok s" and t: "VsBattle_RegisterTasks W e s = Some t"
  have h: "core_ok (u\<lparr>battleHook := False\<rparr>)" if "core_ok u" for u using that by (simp add: core_ok_def)
  show "core_ok t" using s t h core_tasks [OF s] by (auto simp: VsBattle_RegisterTasks_def split: if_splits)
qed

lemma core_hooks [core]:
  "core_ok s \<Longrightarrow> core_ok (snd (CheckAndMaybeExitBasedOnExitType s))"
  "core_ok s \<Longrightarrow> core_ok (snd (HasInitialized b s))"
  "core_ok s \<Longrightarrow> core_ok (PrepareBattleRequest b s)"
  "core_ok s \<Longrightarrow> core_ok (ExitForeground s)"
  "core_ok s \<Longrightarrow> core_ok (VsPreBattle_RegisterTasks b s)"
proof -
  assume s: "core_ok s"
  have flag: "core_ok (s\<lparr>skipToVersus := False\<rparr>)" using s by (simp add: core_ok_def)
  have hook: "core_ok (t\<lparr>preHook := False\<rparr>)" if "core_ok t" for t using that by (simp add: core_ok_def)
  show "core_ok (snd (CheckAndMaybeExitBasedOnExitType s))"
    using s by (simp add: CheckAndMaybeExitBasedOnExitType_def core_ok_def act_def)
  show "core_ok (snd (HasInitialized b s))" using s by (auto simp: HasInitialized_def Let_def core_ok_def act_def)
  show "core_ok (PrepareBattleRequest b s)" using s by (simp add: PrepareBattleRequest_def Let_def core_ok_def act_def)
  show "core_ok (ExitForeground s)"
    using s core_reset_rematch [OF s] by (auto simp: ExitForeground_def core_ok_def)
  show "core_ok (VsPreBattle_RegisterTasks b s)"
    using s flag by (simp add: VsPreBattle_RegisterTasks_def Let_def hook core)
qed

section \<open>The tick keeps the invariant\<close>

lemma core_lost: "core_ok s \<Longrightarrow> core_ok (room_lost W s)"
  by (simp add: room_lost_def core)

lemma core_status: "core_ok s \<Longrightarrow> core_ok (status_changed e (room_lost W) ch s)"
proof -
  assume s: "core_ok s"
  have "core_ok (fold (run_effect e (room_lost W)) (fx :: unit effect list) (upd_client f s))" for fx f
    by (rule core_effects [OF core_lost core_upd_client [OF s]])
  then show ?thesis using s by (auto simp: status_changed_def case_prod_unfold Let_def split: option.splits)
qed

lemma core_statuses: "core_ok s \<Longrightarrow> core_ok (fold (status_changed e (room_lost W)) chs s)"
  by (induction chs arbitrary: s) (simp_all add: core_status)

lemma core_sessions [core]: "core_ok s \<Longrightarrow> core_ok (step_sessions W e s)"
proof -
  assume s: "core_ok s"
  obtain t rc where t: "app_client_step (fe_menu (po_frame e)) (room_lost W) (po_codec e) (po_ok e) (po_strict e) (po_poll e) s
      = (t, rc)"
    by (cases "app_client_step (fe_menu (po_frame e)) (room_lost W) (po_codec e) (po_ok e) (po_strict e) (po_poll e) s")
  have "core_ok (fst (app_client_step (fe_menu (po_frame e)) (room_lost W) (po_codec e) (po_ok e) (po_strict e) (po_poll e) s))"
    by (rule core_session_step [OF core_lost s])
  then have "core_ok t" using t by simp
  then show ?thesis by (simp add: step_sessions_def Let_def t core_lost server_lost_def core)
qed

lemma core_poll [core]: "core_ok s \<Longrightarrow> core_ok (poll_ggpo W cbs s)"
  by (simp add: poll_ggpo_def core)

lemma core_pace [core]: "core_ok s \<Longrightarrow> core_ok (pace w s)"
  by (simp add: pace_def core_ok_def)

lemma core_tick: "core_ok s \<Longrightarrow> core_ok (Steam_PostUpdate W e s)"
  by (simp add: Steam_PostUpdate_def Let_def core core_statuses)

section \<open>The overlay keeps the invariant\<close>

lemma core_buttons [core]:
  "core_ok s \<Longrightarrow> core_ok (pause_button s)" "core_ok s \<Longrightarrow> core_ok (play_button s)"
  "core_ok s \<Longrightarrow> core_ok (halt_button s)" "core_ok s \<Longrightarrow> core_ok (step_button s)"
  "core_ok s \<Longrightarrow> core_ok (simulate_button n s)" "core_ok s \<Longrightarrow> core_ok (disconnect_button W s)"
  "core_ok s \<Longrightarrow> core_ok (edit_playback side frame raw s)"
proof -
  assume s: "core_ok s"
  show "core_ok (disconnect_button W s)" using s by (simp add: disconnect_button_def core)
qed (simp_all add: core_ok_def pause_button_def play_button_def halt_button_def step_button_def simulate_button_def
    edit_playback_def flat_set_def Let_def SetManualPause_def)

lemma core_lobby_ready: "core_ok s \<Longrightarrow> TryLobbyReady ch seed stage n s = (b, q, t) \<Longrightarrow> core_ok t"
  by (auto simp: TryLobbyReady_def Let_def core split: if_splits option.splits prod.splits)

lemma core_report_win: "core_ok s \<Longrightarrow> core_ok (snd (report_win s))"
  by (auto simp: report_win_def core split: option.splits)

lemma core_join [core]: "core_ok s \<Longrightarrow> core_ok (join_button cr a p h n t i d s)"
  by (simp add: join_button_def core)

lemma core_host [core]: "core_ok s \<Longrightarrow> core_ok (host_button l cr a hp gp h n t i d s)"
  using core_StartServer [of s l hp] core_alert core_StartSession
  by (cases "StartServer l hp s") (auto simp: host_button_def split: bool.splits)

section \<open>The process\<close>

text \<open>The steps: the game's own (its engine, its devices, its events), the tick, the
  battle update and close, the overlay's buttons, the payload. The messages are
  JSON values.\<close>

inductive app_step :: "world \<Rightarrow> app \<Rightarrow> app \<Rightarrow> bool" for W where
  Payload: "app_step W s (InitFromPayload env c s)"
| GameReady: "app_step W s (NotifyGameReady s)"
| Engine: "app_step W s (s\<lparr>sim := m, haveSystem := b, pads := p, ag := (ag s)\<lparr>g_frame := sim_frame m\<rparr>\<rparr>)"
| Tick: "app_step W s (Steam_PostUpdate W (e :: jval post_env) s)"
| Update: "app_step W s (BattleUpdate W u s)"
| Close: "app_step W s (CloseBattle W t1 t2 s)"
| Flow: "app_step W s (OnBattleFlow_BattleStart s)"
| Register: "VsBattle_RegisterTasks W (be :: jval battle_env) s = Some t \<Longrightarrow> app_step W s t"
| PreBattle: "app_step W s (VsPreBattle_RegisterTasks b s)"
| Exit_type: "app_step W s (snd (CheckAndMaybeExitBasedOnExitType s))"
| Initialized: "app_step W s (snd (HasInitialized b s))"
| Request: "app_step W s (PrepareBattleRequest b s)"
| Foreground: "app_step W s (ExitForeground s)"
| Ready: "TryLobbyReady ch seed stage n s = (b, q :: jval request list, t) \<Longrightarrow> app_step W s t"
| Join: "app_step W s (join_button cr a p h nm i d dl s)"
| Host: "app_step W s (host_button l cr a hp gp h nm i d dl s)"
| Leave: "app_step W s (disconnect_button W s)"
| Pause: "app_step W s (pause_button s)"
| Play: "app_step W s (play_button s)"
| Halt: "app_step W s (halt_button s)"
| Step: "app_step W s (step_button s)"
| Skip: "app_step W s (simulate_button n s)"
| Edit: "app_step W s (edit_playback side frame raw s)"

inductive reachable :: "world \<Rightarrow> app \<Rightarrow> bool" for W where
  Loaded: "reachable W (app_static m)"
| Next: "reachable W s \<Longrightarrow> app_step W s t \<Longrightarrow> reachable W t"

lemma core_engine_step: "core_ok s \<Longrightarrow> core_ok (s\<lparr>sim := m, haveSystem := b, pads := p, ag := g\<rparr>)"
  by (simp add: core_ok_def)

lemma core_flow: "core_ok s \<Longrightarrow> core_ok (OnBattleFlow_BattleStart s)"
  by (simp add: OnBattleFlow_BattleStart_def core_ok_def act_def)

lemma core_step:
  assumes "app_step W s t" "core_ok s"
  shows "core_ok t"
  using assms
proof cases
  case (Register be)
  then show ?thesis using core_register assms(2) by blast
next
  case (Ready ch seed stage n b q)
  then show ?thesis using core_lobby_ready assms(2) by blast
qed (use assms(2) in \<open>simp_all add: core core_tick core_update core_engine_step core_flow\<close>)

lemma reachable_core: "reachable W s \<Longrightarrow> core_ok s"
proof (induction rule: reachable.induct)
  case (Loaded m)
  then show ?case using core_static [of m] by (simp add: process_ok_def)
next
  case (Next s t)
  then show ?case using core_step by blast
qed

text \<open>
  C3: in every state the sidecar can reach, over any interleaving of ticks,
  updates, GGPO callbacks, room messages, lost connections and overlay buttons:
  a GGPO session that exists has a phase, is not marked fatal and is allowed to
  update unless it is paused by hand; a deferred close is always pending; the
  tunnel is active only while a session client exists; and the save slots, the
  playback cells and the player table keep their sizes.
\<close>

theorem reachable_ok:
  assumes "reachable W s"
  shows "core_ok s"
  by (rule reachable_core [OF assms])

lemma reachable_some:
  "reachable still_world (BattleUpdate still_world rollback_env (pause_button (app_static (flow_sim 3))))"
  by (rule Next [OF Next [OF Loaded Pause] Update])

theorem reachable_ok_witness:
  "core_ok (BattleUpdate still_world rollback_env (pause_button (app_static (flow_sim 3))))"
  by (rule reachable_ok [OF reachable_some])

end
