(* ===== verification/Process_Properties.thy ===== *)
theory Process_Properties
  imports Process
begin

text \<open>
  What the player can rely on: a lost room does not end a running fight but ends
  everything else, the launcher's session opens once and in time, a match starts
  or waits when both are ready, a session held for spectators is closed at its
  deadline, and two places where the code does not do what it means to.
\<close>

section \<open>The lost room\<close>

lemma degrade_fields:
  "ggpo (degrade s) = ggpo s" "gt (degrade s) = gt s" "upd (degrade s) = upd s" "sim (degrade s) = sim s"
  "net (degrade s) = net s" "localHandle (degrade s) = localHandle s" "plys (degrade s) = plys s"
  "extraFrames (degrade s) = extraFrames s" "playbackData (degrade s) = playbackData s"
  "acts (degrade s) = acts s @ [Act_Alert Al_RoomLost]" "controlLost (degrade s)" "srv (degrade s) = srv s"
  by (simp_all add: degrade_def PushAlert_def act_def)

lemma degrade_update:
  "MayAdvanceDeterministicFrame (degrade s) = MayAdvanceDeterministicFrame s"
  "netplay_frame (degrade s) = netplay_frame s" "update_inputs e (degrade s) = update_inputs e s"
  by (simp_all add: MayAdvanceDeterministicFrame_def netplay_frame_def battle_flow_def ready_def update_inputs_def
      sends_input_def local_side_def degrade_fields)

text \<open>
  C5: losing the room during a running fight over UDP takes nothing from the
  fight: the session, the gate, the client object and the simulation are kept,
  the next update runs the engine on the same inputs as it would have, one alert
  is shown, and further losses of the room change nothing more.
\<close>

theorem room_loss_keeps_fight:
  assumes "fight_running s" "\<not> tunnelOn s" "\<not> controlLost s" "netplay_frame s"
    and "t = HandleControlPlaneLoss W r s"
  shows "ggpo t \<and> gt t = gt s \<and> net t = net s \<and> sim t = sim s \<and> acts t = acts s @ [Act_Alert Al_RoomLost] \<and>
    engine_inputs (acts (BattleUpdate W e t)) = engine_inputs (acts (BattleUpdate W e s)) \<and>
    HandleControlPlaneLoss W r2 t = t"
proof -
  have t: "t = degrade s" using assms by (simp add: HandleControlPlaneLoss_def)
  have "engine_inputs (acts (BattleUpdate W e t)) = engine_inputs (acts (BattleUpdate W e s))"
    using synced_frames_lemma [OF assms(4), of W e] synced_frames_lemma [of "degrade s" W e] assms(4)
    by (simp add: t degrade_update degrade_fields)
  then show ?thesis
    using assms(1) by (simp add: t degrade_fields fight_running_def HandleControlPlaneLoss_def)
qed

lemma match_running: "fight_running match_app" "\<not> tunnelOn match_app" "\<not> controlLost match_app"
  by (simp_all add: match_app_def app_static_def fight_running_def gate_defs battle_flow_def flow_sim_def BF_IDLE_def
      tunnelOn_def tunnel_init_def)

theorem room_loss_keeps_fight_witness:
  "engine_inputs (acts (BattleUpdate still_world rollback_env (HandleControlPlaneLoss still_world Al_NoHost match_app))) =
   engine_inputs (acts (BattleUpdate still_world rollback_env match_app))"
  using room_loss_keeps_fight [OF match_running match_app_ready(1) refl, where W = still_world and e = rollback_env
      and r = Al_NoHost] by blast

definition disconnected :: "app \<Rightarrow> bool" where
  "disconnected s \<longleftrightarrow> net s = None \<and> \<not> srv s \<and> \<not> ggpo s \<and> \<not> tn_active (tun s) \<and> \<not> controlLost s \<and>
     \<not> deferClose s \<and> \<not> deferredPending s \<and> syncPhase s = SP_None \<and> brokerPort s = 0"

lemma shutdown_disconnects: "disconnected (ShutdownNetplay W True s)"
  by (simp add: disconnected_def ShutdownNetplay_def drop_server_def drop_client_def TunnelReset_def tunnel_Reset_def
      act_def retire_simp Let_def)

lemma failure_disconnects: "disconnected (HandleNetplayFailure W r True s)"
  by (simp add: HandleNetplayFailure_def Let_def shutdown_disconnects)



section \<open>The launcher's session\<close>

text \<open>A tick in which the game offers everything: root, pad system, a pad, a port.\<close>

definition ready_tick :: "tick_env \<Rightarrow> bool" where
  "ready_tick e \<longleftrightarrow> te_root e \<and> te_padSystem e \<and> te_capture e \<noteq> None"

definition wait_ticks :: "nat \<Rightarrow> app \<Rightarrow> app" where
  "wait_ticks n s = s\<lparr>framesSinceReady := int n, dwellTicks := int (n - 179)\<rparr>"

definition waiting :: "app \<Rightarrow> bool" where
  "waiting s \<longleftrightarrow> autoPending s \<and> gameReady s \<and> framesSinceReady s = 0 \<and> dwellTicks s = 0"

lemma tick_waits:
  assumes "autoPending s" "gameReady s" "n < 238"
  shows "TickMainMenu e (wait_ticks n s) = wait_ticks (Suc n) s"
proof -
  have "Suc n - 179 = (if Suc n < 180 then 0 else Suc (n - 179))" by auto
  then show ?thesis
    using assms by (auto simp: TickMainMenu_def wait_ticks_def Let_def kMinFramesAfterReady_def kMinDwellBeforeAutoStart_def)
qed

lemma ticks_wait: "waiting s \<Longrightarrow> n \<le> 238 \<Longrightarrow> length es = n \<Longrightarrow> fold TickMainMenu es s = wait_ticks n s"
proof (induction n arbitrary: es)
  case 0
  then show ?case by (simp add: wait_ticks_def waiting_def)
next
  case (Suc n)
  obtain fs e where es: "es = fs @ [e]" using Suc.prems(3) by (cases es rule: rev_cases) auto
  have "fold TickMainMenu fs s = wait_ticks n s" using Suc es by simp
  then show ?case using tick_waits [of s n e] Suc.prems by (simp add: es waiting_def)
qed

lemma started_pending: "NetplayConfigIsActive (cfg s) \<Longrightarrow> \<not> autoPending (open_session e s)"
  by (cases "StartServer (te_listens e) (nc_sessionPort (cfg s)) s")
    (auto simp: open_session_def host_local_server_def start_from_config_def Let_def NetplayConfigIsActive_def
      PushAlert_def act_def split: bool.splits)

lemma capture_cfg:
  "te_capture e \<noteq> None \<Longrightarrow> \<exists>t. capture_pad e s = (True, t) \<and> NetplayConfigIsActive (cfg t) = NetplayConfigIsActive (cfg s)"
  by (auto simp: capture_pad_def NetplayConfigIsActive_def split: option.splits)

lemma menu_ready_starts:
  assumes "te_capture e \<noteq> None" "NetplayConfigIsActive (cfg s)"
  shows "\<not> autoPending (main_menu_ready e s)"
proof -
  have c: "cfg (CheckGraphicsWarning s) = cfg s" by (simp add: CheckGraphicsWarning_def PushAlert_def act_def)
  obtain t where t: "capture_pad e (CheckGraphicsWarning s) = (True, t)" "NetplayConfigIsActive (cfg t)"
    using capture_cfg [OF assms(1), of "CheckGraphicsWarning s"] assms(2) c by auto
  then show ?thesis using started_pending by (simp add: main_menu_ready_def)
qed

lemma idle_ticks: "\<not> autoPending s \<Longrightarrow> fold TickMainMenu es s = s"
  by (induction es) (simp_all add: TickMainMenu_def)


definition host_app :: app where
  "host_app = NotifyGameReady (InitFromPayload (\<lambda>n. None) (default_config\<lparr>nc_mode := 1\<rparr>) (app_static (flow_sim 16)))"

definition menu_tick :: tick_env where
  "menu_tick = \<lparr>te_root = True, te_padSystem = True, te_capture = Some (2, 1), te_hash = ''h'', te_listens = True,
     te_created = Some 7\<rparr>"


section \<open>Ready\<close>

lemma clear_battle:
  "app_client (ClearBattleState s) = map_option (\<lambda>c. c\<lparr>c_pendingSnaps := [], c_pendingHashes := []\<rparr>) (app_client s)"
  "acts (ClearBattleState s) = acts s" "g_snaps (ag (ClearBattleState s)) = []"
  "g_ring (ag (ClearBattleState s)) = ClearHashCheckpoints"
  by (simp_all add: ClearBattleState_def upd_client_def app_client_def option.map_comp comp_def)

definition can_start :: "menu_env \<Rightarrow> client \<Rightarrow> bool" where
  "can_start e c \<longleftrightarrow> 2 \<le> length (members (c_lobby c)) \<and> me_root e \<and> me_mainMenu e"

definition match_start :: "client \<Rightarrow> action" where
  "match_start c = Act_StartMatch (editionSelect (c_lobby c)) (fst (battle_settings (c_lobby c))) (snd (battle_settings (c_lobby c)))"

definition starts_in :: "action list \<Rightarrow> action list" where
  "starts_in as = filter (\<lambda>a. case a of Act_StartMatch b n t \<Rightarrow> True | _ \<Rightarrow> False) as"

lemma start_match_outcome:
  "StartMatchFromLobby e (Some c) s = (b, t) \<Longrightarrow>
   b = can_start e c \<and> starts_in (acts t) = starts_in (acts s) @ (if can_start e c then [match_start c] else []) \<and>
   g_snaps (ag t) = [] \<and> \<not> vsSynced t \<and> \<not> vsSentLoaded t"
  by (auto simp: StartMatchFromLobby_def Let_def can_start_def clear_battle go_to_versus_def case_prod_unfold
      PushAlert_def act_def starts_in_def match_start_def split: if_splits)


definition no_menu :: menu_env where
  "no_menu = \<lparr>me_root = True, me_mainMenu = False\<rparr>"

definition in_menu :: menu_env where
  "in_menu = \<lparr>me_root = True, me_mainMenu = True\<rparr>"


section \<open>The deferred close\<close>

definition holds :: "32 word \<Rightarrow> app \<Rightarrow> bool" where
  "holds t s \<longleftrightarrow> deferredPending s \<and> deferUntil s = t \<and> ggpo s"

lemma holds_client: "holds t (upd_client f s) = holds t s"
  by (simp add: holds_def upd_client_def)

lemma holds_act: "holds t (act a s) = holds t s"
  by (simp add: holds_def act_def)

lemma holds_acts: "holds t (fold (\<lambda>m. act (f m)) xs s) = holds t s"
  by (induction xs arbitrary: s) (simp_all add: holds_act)

lemma holds_try: "holds t (TryStartPendingMatch e s) = holds t s"
proof -
  have "holds t (snd (StartMatchFromLobby e c s)) = holds t s" for c
    by (auto simp: StartMatchFromLobby_def Let_def holds_def ClearBattleState_def upd_client_def PushAlert_def act_def
        go_to_versus_def case_prod_unfold split: option.splits)
  moreover have "holds t (u\<lparr>pendingStart := b\<rparr>) = holds t u" for u b by (simp add: holds_def)
  ultimately show ?thesis
    by (auto simp: TryStartPendingMatch_def split: option.splits prod.splits bool.splits)
      (metis snd_conv)+
qed

lemma holds_settings: "holds t (push_settings e s) = holds t s"
  by (auto simp: push_settings_def Let_def holds_def act_def split: option.splits)

lemma holds_pump: "holds t (pump_tunnel e s) = holds t s"
proof -
  have "holds t (s\<lparr>tun := x\<rparr>) = holds t s" for x by (simp add: holds_def)
  then show ?thesis by (auto simp: pump_tunnel_def case_prod_unfold Let_def holds_acts holds_client split: option.splits)
qed

lemma watchdog_closes: "sync_watchdog W now s = s \<or> \<not> ggpo (sync_watchdog W now s)"
  by (simp add: sync_watchdog_def)

lemma not_held: "\<not> ggpo s \<Longrightarrow> \<not> ggpo (deferred_close W now s)"
  by (simp add: deferred_close_def)

lemma deadline_closes: "deferredPending s \<Longrightarrow> ggpo s \<Longrightarrow> deferUntil s \<le> now \<Longrightarrow> \<not> ggpo (deferred_close W now s)"
  by (auto simp: deferred_close_def ShouldDeferGgpoClose_def retire_simp TunnelReset_def act_def)

text \<open>
  A GGPO session kept open for spectators ends: the first frame at or after
  its deadline closes it, whatever else that frame does.
\<close>

theorem deferred_session_ends:
  assumes "deferredPending s" "ggpo s" "deferUntil s \<le> fe_close e"
  shows "\<not> ggpo (TickFrame W e s)"
proof -
  define t where "t = pump_tunnel e (push_settings e (TryStartPendingMatch (fe_menu e) s))"
  have "holds (deferUntil s) t" using assms(1,2) by (simp add: t_def holds_pump holds_settings holds_try) (simp add: holds_def)
  then have t: "deferredPending t" "ggpo t" "deferUntil t \<le> fe_close e" using assms(3) by (simp_all add: holds_def)
  show ?thesis
    using watchdog_closes [of W "fe_now e" t] not_held [of "sync_watchdog W (fe_now e) t" W "fe_close e"]
      deadline_closes [OF t, of W]
    by (auto simp: TickFrame_def t_def [symmetric])
qed

definition quiet_frame :: "32 word \<Rightarrow> jval frame_env" where
  "quiet_frame now = \<lparr>fe_menu = no_menu, fe_sent = False, fe_len = (\<lambda>r. 0), fe_waiting = (\<lambda>c. []), fe_now = now, fe_close = now\<rparr>"

theorem deferred_session_ends_witness:
  "ggpo (CloseBattle still_world 1000 1016 spectated_app) \<and>
   \<not> ggpo (TickFrame still_world (quiet_frame 121000) (CloseBattle still_world 1000 1016 spectated_app))"
proof -
  let ?s = "CloseBattle still_world 1000 1016 spectated_app"
  have d: "deferredPending ?s" "deferUntil ?s = 121000"
    by (simp_all add: CloseBattle_def spectated_app_def match_app_def app_static_def close_or_defer_def
        ShouldDeferGgpoClose_def NotifyMatchEnded_def ClearBattleState_def upd_client_def app_client_def spectator_count_def
        FinalizeControlPlaneLossAfterBattle_def fold_free_used act_def Let_def)
  show ?thesis
    using deferred_session_ends [OF d(1) spectated_stays, of "quiet_frame 121000" still_world] spectated_stays d(2)
    by (simp add: quiet_frame_def)
qed

section \<open>The synchronisation watchdog\<close>

text \<open>
  The 20 second watchdog of a match that never synchronizes cannot fire: it
  asks for updates to be disallowed, and in every state the process can reach
  with a session and no manual pause they are allowed. A match over the relay
  whose peer never answers is left waiting for ever.
\<close>

theorem sync_watchdog_never_fires:
  assumes "core_ok s" "\<not> manualPause (gt s)"
  shows "sync_watchdog W now s = s"
  using assms by (auto simp: sync_watchdog_def sync_timed_out_def core_ok_def)

definition stuck_app :: app where
  "stuck_app = match_app\<lparr>gt := OnSessionStarted gate_reset, syncPhase := SP_Starting, battleStartTick := 1000,
     transport := no_transport_status\<lparr>ts_effectiveMode := 1\<rparr>\<rparr>"

theorem sync_watchdog_never_fires_witness:
  "syncPhase (sync_watchdog still_world 60000 stuck_app) = SP_Starting \<and> ggpo (sync_watchdog still_world 60000 stuck_app)"
proof -
  have "core_ok stuck_app" "\<not> manualPause (gt stuck_app)"
    by (simp_all add: core_ok_def stuck_app_def match_app_def app_static_def gate_defs NUM_SAVE_STATES_def tunnel_init_def)
  then show ?thesis
    using sync_watchdog_never_fires [of stuck_app still_world 60000] by (simp add: stuck_app_def match_app_def app_static_def)
qed

section \<open>The Ready button\<close>

text \<open>
  The Ready button asks once: it sends only for a player seated in the lobby
  with nothing outstanding, the requests in the order the server needs them
  (the character, for the first seat the seed and the stage, the ready last),
  and once the ready request has its message number the button sends nothing
  more until the server answers.
\<close>

theorem ready_button_asks_once:
  fixes q :: "'j request list"
  assumes "TryLobbyReady ch seed stage (Some n) s = (True, q, t)" "-1 < n"
  shows "CanLobbyReady s \<and> (\<exists>side. GetLocalLobbyActiveSide s = Some side \<and> q = ready_requests side ch seed stage @ [Ready]) \<and>
    TryLobbyReady ch' seed' stage' number t = (False, [] :: 'j request list, t)"
proof -
  have can: "CanLobbyReady s" using assms(1) by (auto simp: TryLobbyReady_def split: if_splits)
  then obtain c side where c: "app_client s = Some c" "GetLocalLobbyActiveSide s = Some side"
    by (auto simp: CanLobbyReady_def split: option.splits if_splits)
  have q: "q = ready_requests side ch seed stage @ [Ready]" "t = upd_client (\<lambda>_. c\<lparr>c_outstanding := n\<rparr>) s"
    using assms(1) can c by (simp_all add: TryLobbyReady_def Lobby_Ready_def Let_def)
  have "app_client t = Some (c\<lparr>c_outstanding := n\<rparr>)"
    using c(1) by (auto simp: q(2) app_client_def upd_client_def)
  then have "\<not> CanLobbyReady t" using assms(2) by (auto simp: CanLobbyReady_def split: option.splits)
  then show ?thesis using can c(2) q(1) by (simp add: TryLobbyReady_def)
qed

definition lobby_app :: app where
  "lobby_app = (app_static (flow_sim 16))\<lparr>net := Some \<lparr>np_client = player_client\<lparr>c_connected := True\<rparr>, np_deviceType = 0,
     np_deviceIdx = 0, np_delay = 2\<rparr>\<rparr>"

theorem ready_button_asks_once_witness:
  "TryLobbyReady zero_chara 9 1 None (snd (snd (TryLobbyReady zero_chara 7 3 (Some 5) lobby_app) :: jval request list \<times> app)) =
    (False, [] :: jval request list, snd (snd (TryLobbyReady zero_chara 7 3 (Some 5) lobby_app) :: jval request list \<times> app))"
proof -
  have can: "CanLobbyReady lobby_app"
    by (simp add: CanLobbyReady_def lobby_app_def app_client_def GetStatus_def GetLocalLobbyActiveSide_def player_slot_def
        player_client_def client_init_def NULL_LOBBY_def app_static_def MatchData_init_def Let_def)
  obtain b and q :: "jval request list" and t where r: "TryLobbyReady zero_chara 7 3 (Some 5) lobby_app = (b, q, t)"
    by (cases "TryLobbyReady zero_chara 7 3 (Some 5) lobby_app :: bool \<times> jval request list \<times> app") auto
  have "b" using r can by (auto simp: TryLobbyReady_def CanLobbyReady_def Let_def case_prod_unfold split: option.splits if_splits)
  then have r1: "TryLobbyReady zero_chara 7 3 (Some 5) lobby_app = (True, q, t)" using r by simp
  show ?thesis using ready_button_asks_once [OF r1] r by simp
qed

section \<open>The playback editor\<close>

lemma flat_other: "i div 2 < length d \<Longrightarrow> j \<noteq> i \<Longrightarrow> flat_get (flat_set i v d) j = flat_get d j"
proof -
  assume i: "i div 2 < length d" and j: "j \<noteq> i"
  show ?thesis
  proof (cases "j div 2 = i div 2")
    case True
    then have "j mod 2 \<noteq> i mod 2" using j by (metis div_mult_mod_eq)
    then show ?thesis using i True by (auto simp: flat_get_def flat_set_def duo_get_def duo_set_def)
  qed (simp add: flat_get_def flat_set_def)
qed

text \<open>
  The editor of the forward simulation writes the wrong pad: except for one
  frame per side, what it enters for a side in a frame is not what the pads read
  for that side in that frame.
\<close>

theorem playback_editor_misses:
  assumes "core_ok s" "side < 2" "frame < PLAYBACK_MAX" "frame \<noteq> side"
  shows "GetButtons_RawOn side ((edit_playback side frame raw s)\<lparr>playbackFrame := int frame\<rparr>) =
    GetButtons_RawOn side (s\<lparr>playbackFrame := int frame\<rparr>)"
proof -
  have r: "GetButtons_RawOn side (u\<lparr>playbackFrame := int frame\<rparr>) = snd (flat_get (playbackData u) (read_cell side frame))" for u
    using assms(2) by (simp add: GetButtons_RawOn_def read_pads_def flat_get_def read_cell_def)
  have l: "edited_cell side frame div 2 < length (playbackData s)"
    using assms(1-3) by (simp add: core_ok_def edited_cell_def PLAYBACK_MAX_def)
  have "read_cell side frame \<noteq> edited_cell side frame"
    using edited_cell_wrong [OF assms(2), of frame] assms(4) by auto
  then show ?thesis unfolding r by (simp add: edit_playback_def Let_def flat_other [OF l])
qed

theorem playback_editor_misses_witness:
  "GetButtons_RawOn 0 ((edit_playback 0 5 0x10 match_app)\<lparr>playbackFrame := 5\<rparr>) = 0"
proof -
  have "core_ok match_app"
    by (simp add: core_ok_def match_app_def app_static_def gate_defs NUM_SAVE_STATES_def tunnel_init_def)
  from playback_editor_misses [OF this, of 0 5 "0x10"] show ?thesis
    by (simp add: PLAYBACK_MAX_def GetButtons_RawOn_def read_pads_def match_app_def app_static_def)
qed

section \<open>The transport of a room match\<close>

lemma report_prepared_fields:
  "mode \<noteq> LegacySessionTunnel \<Longrightarrow> transport (report_prepared mode c s) =
     \<lparr>ts_effectiveMode = mode, ts_legacyTunnel = False, ts_remoteHost = host_copy (nc_ggpoRemoteHost c),
      ts_remotePort = nc_ggpoRemotePort c\<rparr>"
  "cfg (report_prepared mode c s) = cfg s"
  by (simp_all add: report_prepared_def ReportGgpoTransport_def)

lemma applied_fields:
  "nc_ggpoTransport c \<noteq> 0 \<Longrightarrow> nc_ggpoTransport (cfg (ApplyGgpoTransportConfig c s)) = nc_ggpoTransport c \<and>
     nc_ggpoRemoteHost (cfg (ApplyGgpoTransportConfig c s)) = host_copy (nc_ggpoRemoteHost c) \<and>
     nc_ggpoRemotePort (cfg (ApplyGgpoTransportConfig c s)) = nc_ggpoRemotePort c"
  by (simp add: ApplyGgpoTransportConfig_def applied_config_def set_remote_def Let_def)

lemma battle_config_vps: "vps_session (battle_config s) = vps_session (cfg s)"
  by (simp add: battle_config_def RestoreBrokerGgpoEndpoint_def set_remote_def vps_session_def Let_def)

text \<open>
  C22: a match of a VPS room either is given up with its GGPO session closed, or
  goes over the transport that was prepared: never the session tunnel unless the
  environment forces it, with the reported mode, host and port the ones the
  players are then connected to.
\<close>

theorem vps_match_transport:
  assumes "vps_session (cfg s)" "\<not> (\<exists>v. pe_override (be_prep e) = Some v \<and> stricmp_eq v ''legacy'')"
    "choose_transport W e c s = Some (r, t)"
  shows "(r = None \<and> \<not> ggpo t) \<or>
    (r = Some False \<and> ts_effectiveMode (transport t) \<in> {UdpRelay, P2p} \<and>
     ts_effectiveMode (transport t) = nc_ggpoTransport (cfg t) \<and> ts_remoteHost (transport t) = nc_ggpoRemoteHost (cfg t) \<and>
     ts_remotePort (transport t) = nc_ggpoRemotePort (cfg t))"
proof (cases "nc_ggpoTransport (battle_config s) = 0")
  case True
  then show ?thesis using assms(1,3) battle_config_vps [of s] by (auto simp: choose_transport_def Let_def)
next
  case False
  define b where "b = release_session W s"
  obtain res mode p where p: "PrepareForBattle (be_resolver e) (be_prep e) \<lparr>pr_cfg = battle_config s,
      pr_client = Some (app_round c b), pr_alerts = [], pr_sent = []\<rparr> = (res, mode, p)"
    using prod_cases3 by blast
  note m = prepare_modes [OF p assms(2)]
  have pt: "prepare_transport W e (battle_config s) c s = Some (r, t)"
    using assms(1,3) False battle_config_vps [of s] by (simp add: choose_transport_def Let_def)
  show ?thesis
  proof (cases res)
    case None
    then show ?thesis using pt p by (simp add: prepare_transport_def Let_def b_def)
  next
    case (Some okay)
    show ?thesis
    proof (cases okay)
      case True
      then have tr: "nc_ggpoTransport (pr_cfg p) = mode" "mode \<in> {UdpRelay, P2p}" "mode \<noteq> LegacySessionTunnel"
        using m Some by auto
      have z: "nc_ggpoTransport (pr_cfg p) \<noteq> 0" using tr by (auto simp: UdpRelay_def P2p_def)
      show ?thesis
        using pt p Some True tr(2,3) applied_fields [OF z] report_prepared_fields
        by (auto simp: prepare_transport_def Let_def b_def [symmetric] tr(1) dest: sym)
    next
      case False
      then show ?thesis using pt p Some by (auto simp: prepare_transport_def Let_def b_def [symmetric])
    qed
  qed
qed

definition vps_app :: app where
  "vps_app = (app_static (flow_sim 16))\<lparr>cfg := (pr_cfg prep0)\<lparr>nc_useCentralSession := 2\<rparr>\<rparr>"

definition vps_env :: "jval battle_env" where
  "vps_env = \<lparr>be_resolver = resolver0, be_prep = env0, be_menu = in_menu, be_startup = True, be_bindable = (\<lambda>p. True),
     be_serverAddr = [], be_ggpo = \<lparr>se_environ = (\<lambda>n. None), se_start = 0, se_add = (\<lambda>i. (0, int i))\<rparr>, be_made = True,
     be_now = 5\<rparr>"

theorem vps_match_transport_witness:
  "\<exists>r t. choose_transport still_world vps_env player_client vps_app = Some (r, t) \<and> r \<noteq> Some True"
proof -
  have vps: "vps_session (cfg vps_app)" by (simp add: vps_app_def vps_session_def)
  have ov: "\<not> (\<exists>v. pe_override (be_prep vps_env) = Some v \<and> stricmp_eq v ''legacy'')" by (simp add: vps_env_def env0_def)
  have bc: "battle_config vps_app = cfg vps_app" "nc_ggpoTransport (cfg vps_app) = UdpRelay"
    by (simp_all add: battle_config_def vps_app_def RestoreBrokerGgpoEndpoint_def has_broker_def app_static_def prep0_def
        UdpRelay_def Let_def)
  have pm: "\<not> MatchData_IsAllReady (c_match player_client)"
    by (simp add: MatchData_IsAllReady_def player_client_def client_init_def MatchData_init_def)
  have "\<exists>m p. PrepareForBattle resolver0 env0 \<lparr>pr_cfg = cfg vps_app, pr_client = Some (app_round player_client vps_app),
      pr_alerts = [], pr_sent = []\<rparr> = (Some False, m, p)"
    using bc(2) pm by (simp add: PrepareForBattle_def Let_def env0_def [THEN arg_cong [of _ _ pe_override]]
        ParseTransportEnv_def prepare_relay_def case_prod_unfold relay_failed_def app_round_def mode_defs)
  then obtain t where t: "choose_transport still_world vps_env player_client vps_app = Some (None, t)"
    using vps bc by (auto simp: choose_transport_def Let_def prepare_transport_def release_session_def vps_env_def
        UdpRelay_def vps_app_def app_static_def)
  show ?thesis using vps_match_transport [OF vps ov t] t by auto
qed

end
