(* ===== verification/Room_Code.thy ===== *)
theory Room_Code
  imports Net_Util "HOL-Library.Monad_Syntax"
begin

text \<open>
  What the launcher reads and writes as text: room codes
  (launcher/netplay/netplay_room_code.cxx), the room broker's base URL with the
  hosts it may not name (launcher/netplay/room_broker_client.cxx), and the
  checks the controller makes of links and hosts
  (launcher/netplay/netplay_launch_controller.cxx). The environment is a
  function from names to values.
\<close>

section \<open>Outcomes\<close>

text \<open>
  A call returns, throws a C++ exception, or is stopped by the C runtime: a
  strncpy_s with a count that does not fit calls the invalid parameter handler.
\<close>

datatype 'a outcome = Ret 'a | Throws | Aborts

type_synonym environ = "string \<Rightarrow> string option"

text \<open>strncpy_s of the first n characters into a buffer of the given size.\<close>

definition strncpy_count :: "nat \<Rightarrow> nat \<Rightarrow> string \<Rightarrow> string outcome" where
  "strncpy_count cap n s = (if min n (length s) < cap then Ret (take n s) else Aborts)"

definition strnicmp_eq :: "string \<Rightarrow> string \<Rightarrow> bool" where
  "strnicmp_eq s p \<longleftrightarrow> map char_lower (take (length p) s) = map char_lower p"

text \<open>The text before and after the last occurrence.\<close>

definition strrchr_split :: "string \<Rightarrow> char \<Rightarrow> (string \<times> string) option" where
  "strrchr_split s c =
     (if c \<in> set s
      then Some (rev (tl (dropWhile (\<lambda>x. x \<noteq> c) (rev s))), rev (takeWhile (\<lambda>x. x \<noteq> c) (rev s)))
      else None)"

section \<open>Room codes\<close>

definition FormatRoomCode :: "string \<Rightarrow> 16 word \<Rightarrow> nat \<Rightarrow> string" where
  "FormatRoomCode host port outLen = copy_trunc outLen (host @ '':'' @ to_string port)"

definition ParseRoomCode :: "string \<Rightarrow> nat \<Rightarrow> (string \<times> 16 word) option" where
  "ParseRoomCode roomCode hostLen =
     (case strrchr_split (TrimRoomCodeInPlace (copy_trunc 256 roomCode)) CHR '':'' of
        None \<Rightarrow> None
      | Some (left, portStr) \<Rightarrow>
          (let port = atoi portStr; host = copy_trunc hostLen left
           in if left = [] \<or> port < 1 \<or> 65535 < port \<or> host = [] then None
              else Some (host, word_of_int port)))"

definition IsAlnumCodeChar :: "char \<Rightarrow> bool" where
  "IsAlnumCodeChar c \<longleftrightarrow> CHR ''0'' \<le> c \<and> c \<le> CHR ''9'' \<or> CHR ''A'' \<le> c \<and> c \<le> CHR ''Z'' \<or>
     CHR ''a'' \<le> c \<and> c \<le> CHR ''z''"

definition IsShortRoomCode :: "string \<Rightarrow> bool" where
  "IsShortRoomCode roomCode \<longleftrightarrow>
     (let buf = TrimRoomCodeInPlace (copy_trunc 32 roomCode); token = drop 4 buf
      in strnicmp_eq buf ''SF4-'' \<and> 4 \<le> length token \<and> length token \<le> 20 \<and> list_all IsAlnumCodeChar token)"

definition with_prefix :: "string \<Rightarrow> string" where
  "with_prefix buf = (if strnicmp_eq buf ''SF4-'' then buf else copy_trunc 32 (''SF4-'' @ buf))"

definition NormalizeRelayRoomCode :: "string \<Rightarrow> nat \<Rightarrow> string option" where
  "NormalizeRelayRoomCode roomCode outLen =
     (let buf = map char_upper (with_prefix (TrimRoomCodeInPlace (copy_trunc 32 roomCode)))
      in if outLen = 0 \<or> \<not> IsShortRoomCode buf then None else Some (copy_trunc outLen buf))"

definition FormatShortRoomCode :: "string \<Rightarrow> nat \<Rightarrow> string option" where
  "FormatShortRoomCode token outLen = (if outLen = 0 then None else Some (copy_trunc outLen (''SF4-'' @ token)))"

definition ParseShortRoomCode :: "string \<Rightarrow> nat \<Rightarrow> string option" where
  "ParseShortRoomCode roomCode outLen =
     (if \<not> IsShortRoomCode roomCode \<or> outLen = 0 then None
      else (let tok = copy_trunc outLen (drop 4 (TrimRoomCodeInPlace (copy_trunc 32 roomCode)))
            in if tok = [] then None else Some tok))"

definition LooksLikeHostPortAddress :: "string \<Rightarrow> bool" where
  "LooksLikeHostPortAddress roomCode \<longleftrightarrow>
     roomCode \<noteq> [] \<and> \<not> IsShortRoomCode roomCode \<and> ParseRoomCode roomCode 128 \<noteq> None"

section \<open>Addresses as numbers\<close>

text \<open>
  One \<open>%u\<close> of sscanf_s: white space, a sign, digits; read as 64 bits, saturating,
  and cut to 32. What follows the last number is not looked at.
\<close>

definition scan_u :: "string \<Rightarrow> (32 word \<times> string) option" where
  "scan_u s =
     (let t = dropWhile is_space s;
          neg = (t \<noteq> [] \<and> hd t = CHR ''-'');
          u = (if neg \<or> t \<noteq> [] \<and> hd t = CHR ''+'' then tl t else t);
          v = int (read_digits u)
      in if takeWhile is_digit u = [] then None
         else Some (word_of_int (if 2 ^ 64 \<le> v then - 1 else if neg then - v else v), dropWhile is_digit u))"

definition scan_dot :: "string \<Rightarrow> string option" where
  "scan_dot s = (case s of c # cs \<Rightarrow> if c = CHR ''.'' then Some cs else None | [] \<Rightarrow> None)"

definition scan_ipv4 :: "string \<Rightarrow> (32 word \<times> 32 word \<times> 32 word \<times> 32 word) option" where
  "scan_ipv4 s = do {
     (a, s1) \<leftarrow> scan_u s; s2 \<leftarrow> scan_dot s1; (b, s3) \<leftarrow> scan_u s2; s4 \<leftarrow> scan_dot s3;
     (c, s5) \<leftarrow> scan_u s4; s6 \<leftarrow> scan_dot s5; (d, s7) \<leftarrow> scan_u s6; Some (a, b, c, d) }"

definition IsPrivateOrLocalHost :: "string \<Rightarrow> string \<Rightarrow> bool" where
  "IsPrivateOrLocalHost host lanIp \<longleftrightarrow>
     (if host = [] \<or> stricmp_eq host ''127.0.0.1'' \<or> stricmp_eq host ''localhost'' then True
      else if lanIp \<noteq> [] \<and> stricmp_eq host lanIp then True
      else (case scan_ipv4 host of
              None \<Rightarrow> False
            | Some (a, b, _, _) \<Rightarrow> a = 10 \<or> a = 172 \<and> 16 \<le> b \<and> b \<le> 31 \<or> a = 192 \<and> b = 168))"

definition ShouldProbeJoinEndpoint :: "string \<Rightarrow> string \<Rightarrow> string \<Rightarrow> bool" where
  "ShouldProbeJoinEndpoint roomCode host lanIp \<longleftrightarrow>
     IsShortRoomCode roomCode \<and> \<not> IsPrivateOrLocalHost host lanIp"

section \<open>The broker's base URL\<close>

definition env_true :: "environ \<Rightarrow> string \<Rightarrow> bool" where
  "env_true env name \<longleftrightarrow> (case env name of
     None \<Rightarrow> False | Some v \<Rightarrow> v \<noteq> [] \<and> hd v = CHR ''1'' \<or> stricmp_eq v ''true'')"

definition AllowLocalBrokerHost :: "environ \<Rightarrow> bool" where
  "AllowLocalBrokerHost env = env_true env ''SF4E_ALLOW_LOCAL_BROKER''"

definition AllowHttpBroker :: "environ \<Rightarrow> bool" where
  "AllowHttpBroker env = env_true env ''SF4E_ALLOW_HTTP_BROKER''"

definition IsBlockedBrokerHostLiteral :: "environ \<Rightarrow> string \<Rightarrow> bool" where
  "IsBlockedBrokerHostLiteral env host \<longleftrightarrow>
     (if host = [] then True
      else if stricmp_eq host ''localhost'' then \<not> AllowLocalBrokerHost env
      else if stricmp_eq host ''metadata.google.internal'' \<or> stricmp_eq host ''metadata.goog'' then True
      else (case scan_ipv4 host of
              None \<Rightarrow> False
            | Some (a, b, _, _) \<Rightarrow>
                if a = 127 then \<not> AllowLocalBrokerHost env
                else a = 10 \<or> a = 172 \<and> 16 \<le> b \<and> b \<le> 31 \<or> a = 192 \<and> b = 168 \<or> a = 169 \<and> b = 254 \<or>
                  a = 100 \<and> 64 \<le> b \<and> b \<le> 127 \<or> a = 0))"

record broker_url =
  bu_host :: string
  bu_port :: int
  bu_https :: bool
  bu_path :: string

definition broker_scheme :: "string \<Rightarrow> (string \<times> bool \<times> int) option" where
  "broker_scheme buf =
     (if strnicmp_eq buf ''https://'' then Some (drop 8 buf, True, 443)
      else if strnicmp_eq buf ''http://'' then Some (drop 7 buf, False, 80)
      else None)"

text \<open>The host with its port, and the rest from the first slash.\<close>

definition split_host_path :: "string \<Rightarrow> (string \<times> string) outcome" where
  "split_host_path p =
     (case strchr p CHR ''/'' of
        None \<Rightarrow> Ret (copy_trunc 256 p, ''/'')
      | Some slash \<Rightarrow>
          (case strncpy_count 256 (length p - length slash) p of
             Ret hp \<Rightarrow> Ret (hp, copy_trunc 128 slash) | Throws \<Rightarrow> Throws | Aborts \<Rightarrow> Aborts))"

definition broker_host_port :: "environ \<Rightarrow> bool \<Rightarrow> int \<Rightarrow> string \<Rightarrow> string \<Rightarrow> broker_url option" where
  "broker_host_port env https defPort hostPort path =
     (let host = takeWhile (\<lambda>c. c \<noteq> CHR '':'') hostPort;
          port = (case strchr hostPort CHR '':'' of None \<Rightarrow> defPort | Some colon \<Rightarrow> atoi (tl colon))
      in if port < 1 \<or> 65535 < port \<or> host = [] \<or> IsBlockedBrokerHostLiteral env host then None
         else if \<not> https \<and> \<not> AllowHttpBroker env then None
         else Some \<lparr>bu_host = host, bu_port = port, bu_https = https, bu_path = path\<rparr>)"

definition ParseBrokerBaseUrl :: "environ \<Rightarrow> string \<Rightarrow> broker_url option outcome" where
  "ParseBrokerBaseUrl env baseUrl =
     (let buf = TrimRoomCodeInPlace (copy_trunc 512 baseUrl)
      in case broker_scheme buf of
           None \<Rightarrow> Ret None
         | Some (p, https, port) \<Rightarrow>
             (case split_host_path p of
                Ret (hostPort, path) \<Rightarrow> Ret (broker_host_port env https port hostPort path)
              | Throws \<Rightarrow> Throws | Aborts \<Rightarrow> Aborts))"

definition JoinBrokerPath :: "broker_url \<Rightarrow> string \<Rightarrow> nat \<Rightarrow> string" where
  "JoinBrokerPath parts request outLen =
     (let pre = (if bu_path parts = [] then ''/'' else bu_path parts);
          suf = (if request \<noteq> [] \<and> hd request = CHR ''/'' then tl request else request)
      in copy_trunc outLen (if last pre = CHR ''/'' then pre @ suf else pre @ ''/'' @ suf))"

section \<open>Links\<close>

definition external_host :: "string \<Rightarrow> string outcome" where
  "external_host hostStart =
     (case strchr hostStart CHR ''/'' of
        Some pathStart \<Rightarrow> strncpy_count 256 (length hostStart - length pathStart) hostStart
      | None \<Rightarrow> Ret (copy_trunc 256 hostStart))"

definition allowed_host :: "string \<Rightarrow> bool" where
  "allowed_host text \<longleftrightarrow>
     (let afterAt = (case strchr text CHR ''@'' of None \<Rightarrow> text | Some a \<Rightarrow> tl a);
          host = takeWhile (\<lambda>c. c \<noteq> CHR '':'') afterAt
      in stricmp_eq host ''github.com'' \<or> stricmp_eq host ''www.github.com'' \<or>
         10 < length host \<and> stricmp_eq (drop (length host - 10) host) ''.github.io'')"

definition IsAllowedExternalUrl :: "string \<Rightarrow> bool outcome" where
  "IsAllowedExternalUrl url =
     (if \<not> strnicmp_eq url ''https://'' then Ret False
      else case external_host (drop 8 url) of
             Ret host \<Rightarrow> Ret (allowed_host host) | Throws \<Rightarrow> Throws | Aborts \<Rightarrow> Aborts)"

end
