(* ===== verification/Launcher_World.thy ===== *)
theory Launcher_World
  imports Room_Code Wire
begin

text \<open>
  How the launcher's code runs: an action reads and changes a state and returns,
  throws or is stopped (\<open>seq\<close> is the semicolon of the code, \<open>catching\<close> a
  catch-all handler), and what it asks of the outside is a call. The world
  answers a call from the calls made so far, the present one last, so the same
  request may be answered differently later. Among the parameters are the JSON
  library's accessors (\<open>json_ops\<close>), its parser and its printer; the printer
  throws on text that is not UTF-8.
\<close>

section \<open>Actions\<close>

type_synonym ('s, 'a) act = "'s \<Rightarrow> 'a outcome \<times> 's"

definition ret :: "'a \<Rightarrow> ('s, 'a) act" where
  "ret a = (\<lambda>s. (Ret a, s))"

definition lift :: "'a outcome \<Rightarrow> ('s, 'a) act" where
  "lift r = (\<lambda>s. (r, s))"

definition seq :: "('s, 'a) act \<Rightarrow> ('a \<Rightarrow> ('s, 'b) act) \<Rightarrow> ('s, 'b) act" where
  "seq f g = (\<lambda>s. case f s of
     (Ret a, s1) \<Rightarrow> g a s1 | (Throws, s1) \<Rightarrow> (Throws, s1) | (Aborts, s1) \<Rightarrow> (Aborts, s1))"

definition update :: "('s \<Rightarrow> 's) \<Rightarrow> ('s, unit) act" where
  "update f = (\<lambda>s. (Ret (), f s))"

definition reads :: "('s \<Rightarrow> 'a) \<Rightarrow> ('s, 'a) act" where
  "reads f = (\<lambda>s. (Ret (f s), s))"

text \<open>A catch (...) handler: the state is what the body left.\<close>

definition catching :: "('s, 'a) act \<Rightarrow> ('s, 'a) act \<Rightarrow> ('s, 'a) act" where
  "catching body handler = (\<lambda>s. case body s of (Throws, s1) \<Rightarrow> handler s1 | r \<Rightarrow> r)"

text \<open>An action on a part of the state, and the result object a function fills in and returns.\<close>

definition on :: "('s \<Rightarrow> 't) \<Rightarrow> ('t \<Rightarrow> 's \<Rightarrow> 's) \<Rightarrow> ('t, 'a) act \<Rightarrow> ('s, 'a) act" where
  "on get put f = (\<lambda>s. case f (get s) of (r, t) \<Rightarrow> (r, put t s))"

definition filling :: "'r \<Rightarrow> ('r \<times> 's, 'a) act \<Rightarrow> ('s, 'a \<times> 'r) act" where
  "filling r0 f = (\<lambda>s. case f (r0, s) of
     (Ret a, (r, s1)) \<Rightarrow> (Ret (a, r), s1) | (Throws, (_, s1)) \<Rightarrow> (Throws, s1) | (Aborts, (_, s1)) \<Rightarrow> (Aborts, s1))"

definition outside :: "('s, 'a) act \<Rightarrow> ('r \<times> 's, 'a) act" where
  "outside f = on snd (\<lambda>t (r, _). (r, t)) f"

definition result_of :: "('s, 'a \<times> 'r) act \<Rightarrow> ('s, 'r) act" where
  "result_of f = seq f (\<lambda>x. ret (snd x))"

definition fill :: "('r \<Rightarrow> 'r) \<Rightarrow> ('r \<times> 's, unit) act" where
  "fill f = update (\<lambda>(r, s). (f r, s))"

lemma act_simps [simp]:
  "ret a s = (Ret a, s)" "lift r s = (r, s)" "update f s = (Ret (), f s)" "reads h s = (Ret (h s), s)"
  by (simp_all add: ret_def lift_def update_def reads_def)

lemma seq_simps [simp]:
  "seq (ret a) g = g a" "seq (lift (Ret a)) g = g a" "seq (update f) k s = k () (f s)"
  "seq (reads h) g s = g (h s) s" "seq (lift Throws) g = lift Throws" "seq (lift Aborts) g = lift Aborts"
  by (simp_all add: seq_def fun_eq_iff lift_def ret_def)

lemma seq_seq [simp]: "seq (seq f g) h = seq f (\<lambda>a. seq (g a) h)"
  by (simp add: seq_def fun_eq_iff split: outcome.split prod.split)

lemma fill_simps [simp]:
  "fill f (r, s) = (Ret (), (f r, s))" "seq (fill f) k (r, s) = k () (f r, s)"
  by (simp_all add: fill_def seq_def)

section \<open>Calls\<close>

datatype call = HttpGet broker_url string nat
  | HttpPostJson broker_url string string nat
  | MapPort "16 word" bool
  | NatProbe string "16 word"
  | ProbeTcp string "16 word"
  | PublicIp
  | HashSidecar
  | StopRelay "32 word"
  | SpawnRelay "16 word"
  | OpenUrl string
  | CopyText string
  | CheckUpdate
  | ApplyUpdate string string string string
  | ReadVersion
  | GameRunning

type_synonym calls = "call list"

text \<open>What a NAT probe, a UPnP mapping, the hash of the sidecar and a relay host's start meet.\<close>

record probe_env =
  np_winsock :: bool
  np_socket :: bool
  np_pton :: bool
  np_sent :: bool
  np_select :: int

record upnp_env =
  un_nat :: bool
  un_mappings :: bool
  un_added :: bool

record hash_env =
  ha_module :: bool
  ha_spec :: bool
  ha_path :: bool
  ha_provider :: bool
  ha_sizes :: "bool \<times> bool"
  ha_alloc :: "bool \<times> bool"
  ha_create :: bool
  ha_open :: bool
  ha_reads :: "string option list"
  ha_data :: "string \<Rightarrow> bool"
  ha_finish :: "string \<Rightarrow> string option"

record spawn_env =
  sp_module :: bool
  sp_spec :: bool
  sp_path :: bool
  sp_exists :: bool
  sp_created :: "32 word option"
  sp_winsock :: bool
  sp_now :: "64 word \<times> 64 word"
  sp_rounds :: "wait_round list"

record update_check =
  uc_ok :: bool
  uc_error :: string
  uc_installed :: string
  uc_latest :: string
  uc_available :: bool
  uc_notes :: string
  uc_url :: string
  uc_zip :: string
  uc_zipApi :: string
  uc_sha :: string

record 'j launcher_world =
  lw_env :: environ
  lw_json :: "'j json_ops"
  lw_parse :: "string \<Rightarrow> 'j option"
  lw_dump :: "'j \<Rightarrow> string option"
  lw_pretty :: "'j \<Rightarrow> string option"
  lw_lan :: "(bool \<times> string list) list option"
  lw_resolver :: resolver
  lw_http :: "calls \<Rightarrow> http_env"
  lw_probe :: "calls \<Rightarrow> probe_env"
  lw_tcp :: "calls \<Rightarrow> connect_env"
  lw_ip :: "calls \<Rightarrow> http_env \<times> http_env"
  lw_upnp :: "calls \<Rightarrow> upnp_env"
  lw_hash :: "calls \<Rightarrow> hash_env"
  lw_spawn :: "calls \<Rightarrow> spawn_env"
  lw_ok :: "calls \<Rightarrow> bool"
  lw_check :: "calls \<Rightarrow> update_check"
  lw_apply :: "calls \<Rightarrow> string option"
  lw_version :: "calls \<Rightarrow> string"

definition asks :: "('c list \<Rightarrow> 'a) \<Rightarrow> 'c \<Rightarrow> ('c list, 'a) act" where
  "asks answer c = (\<lambda>log. (Ret (answer (log @ [c])), log @ [c]))"

lemma asks_simps [simp]: "asks f c log = (Ret (f (log @ [c])), log @ [c])"
  "seq (asks f c) g log = g (f (log @ [c])) (log @ [c])"
  by (simp_all add: asks_def seq_def)

section \<open>JSON\<close>

text \<open>j.value(k, d): throws when j is not an object or the entry has another type.\<close>

definition or_throw :: "'a option \<Rightarrow> 'a outcome" where
  "or_throw r = (case r of None \<Rightarrow> Throws | Some a \<Rightarrow> Ret a)"

definition value_str :: "'j launcher_world \<Rightarrow> 'j \<Rightarrow> string \<Rightarrow> string \<Rightarrow> ('s, string) act" where
  "value_str W j k d = lift (or_throw (field_default (lw_json W) j k (j_str (lw_json W)) d))"

definition value_int :: "'j launcher_world \<Rightarrow> 'j \<Rightarrow> string \<Rightarrow> int \<Rightarrow> ('s, int) act" where
  "value_int W j k d = lift (or_throw (field_default (lw_json W) j k (j_sint 31 (lw_json W)) d))"

definition value_bool :: "'j launcher_world \<Rightarrow> 'j \<Rightarrow> string \<Rightarrow> bool \<Rightarrow> ('s, bool) act" where
  "value_bool W j k d = lift (or_throw (field_default (lw_json W) j k (j_bool (lw_json W)) d))"

definition contains :: "'j launcher_world \<Rightarrow> 'j \<Rightarrow> string \<Rightarrow> bool" where
  "contains W j k \<longleftrightarrow> j_is_obj (lw_json W) j \<and> j_at (lw_json W) j k \<noteq> None"

text \<open>json::parse of a C string, and dump.\<close>

definition parse_json :: "'j launcher_world \<Rightarrow> string \<Rightarrow> ('s, 'j) act" where
  "parse_json W body = lift (or_throw (lw_parse W (takeWhile (\<lambda>c. c \<noteq> CHR 0x00) body)))"

definition dump_json :: "'j launcher_world \<Rightarrow> (string \<times> 'j) list \<Rightarrow> ('s, string) act" where
  "dump_json W kvs = lift (or_throw (lw_dump W (mk_obj (lw_json W) kvs)))"

section \<open>Requests to the broker\<close>

definition BrokerHttpGet :: "'j launcher_world \<Rightarrow> broker_url \<Rightarrow> string \<Rightarrow> nat \<Rightarrow> (calls, http_result \<times> string) act" where
  "BrokerHttpGet W parts path bodyLen =
     seq (asks (lw_http W) (HttpGet parts (JoinBrokerPath parts path 512) bodyLen))
       (\<lambda>E. ret (HttpRequestUtf8 bodyLen E))"

definition BrokerHttpPostJson ::
  "'j launcher_world \<Rightarrow> broker_url \<Rightarrow> string \<Rightarrow> string \<Rightarrow> nat \<Rightarrow> (calls, http_result \<times> string) act" where
  "BrokerHttpPostJson W parts path jsonBody bodyLen =
     seq (asks (lw_http W) (HttpPostJson parts (JoinBrokerPath parts path 512) jsonBody bodyLen))
       (\<lambda>E. ret (HttpRequestUtf8 bodyLen E))"

end
