(* ===== verification/Connect_Strategy.thy ===== *)
theory Connect_Strategy
  imports Launcher_World
begin

text \<open>
  How the launcher finds its match (launcher/connect_strategy.cxx): an address
  typed in, a room looked up at the broker, the matchmaking queue; creating and
  keeping a room; the connect plan that names the GGPO transport. A C string
  that may be null is empty here, as the code treats both alike; an error text is
  a constructor, shared by like failures, or the broker's own message. Timeouts are not modelled.
\<close>

datatype strategy_error = NoError | EnterCodeOrHost | ShortCodeNeedsRelay | InvalidAddress
  | EnterRoomCode | InvalidRoomCode | BrokerUrlUnset | BrokerOffline | RoomNotFound | BadBrokerAddress
  | BadBrokerData | SidecarUnreadable | MatchmakingOffline | StillLooking | NoMatch | NoRoomReturned
  | AutoNatIsForHosts | CannotCreateRoom | IncompleteRoom | PlanNeedsCode | PlanUnavailable
  | PlanOffline | BadPlan | Message string | TimeoutAt string | RefusedAt string | HttpAt string int | NoAnswerAt string

record strategy_result =
  sr_ok :: bool
  sr_error :: strategy_error
  sr_host :: string
  sr_port :: "16 word"

definition no_join :: strategy_result where
  "no_join = \<lparr>sr_ok = False, sr_error = NoError, sr_host = [], sr_port = 0\<rparr>"

definition join_fails :: "strategy_error \<Rightarrow> strategy_result" where
  "join_fails e = no_join\<lparr>sr_error := e\<rparr>"

definition value_message :: "'j launcher_world \<Rightarrow> 'j \<Rightarrow> strategy_error \<Rightarrow> ('s, strategy_error) act" where
  "value_message W j d =
     lift (or_throw (field_default (lw_json W) j ''message'' (\<lambda>v. map_option Message (j_str (lw_json W) v)) d))"

definition parse_url :: "'j launcher_world \<Rightarrow> string \<Rightarrow> ('s, broker_url option) act" where
  "parse_url W url = lift (ParseBrokerBaseUrl (lw_env W) url)"

definition room_path :: "string \<Rightarrow> string \<Rightarrow> string" where
  "room_path code tail = copy_trunc 160 (''/v1/rooms/'' @ code @ tail)"

definition BrokerMessageFromBody :: "'j launcher_world \<Rightarrow> string \<Rightarrow> ('s, string) act" where
  "BrokerMessageFromBody W body =
     (if body = [] then ret []
      else catching (seq (parse_json W body) (\<lambda>j. value_str W j ''message'' [])) (ret []))"

definition FormatBrokerPostError :: "'j launcher_world \<Rightarrow> string \<Rightarrow> http_result \<Rightarrow> string \<Rightarrow> ('s, strategy_error) act" where
  "FormatBrokerPostError W brokerBaseUrl http body =
     (let url = (if brokerBaseUrl = [] then ''room broker'' else brokerBaseUrl)
      in if hr_error http = HE_Timeout then ret (TimeoutAt url)
         else if hr_error http = HE_ConnectFailed then ret (RefusedAt url)
         else if hr_error http = HE_HttpStatus then
           seq (BrokerMessageFromBody W body) (\<lambda>detail.
             ret (if detail \<noteq> [] then Message detail else HttpAt url (hr_status http)))
         else ret (NoAnswerAt url))"

section \<open>Joining\<close>

definition ResolveJoinDirectIp :: "string \<Rightarrow> strategy_result" where
  "ResolveJoinDirectIp roomCode =
     (if roomCode = [] then join_fails EnterCodeOrHost
      else if IsShortRoomCode roomCode then join_fails ShortCodeNeedsRelay
      else case ParseRoomCode roomCode 64 of
             None \<Rightarrow> join_fails InvalidAddress
           | Some (host, port) \<Rightarrow> \<lparr>sr_ok = True, sr_error = NoError, sr_host = host, sr_port = port\<rparr>)"

text \<open>The body of the try block; the result is filled in as it goes.\<close>

definition read_room :: "'j launcher_world \<Rightarrow> string \<Rightarrow> (strategy_result \<times> calls, unit) act" where
  "read_room W body =
     seq (parse_json W body) (\<lambda>j.
     seq (value_str W j ''error'' []) (\<lambda>e.
     if e \<noteq> [] then seq (value_message W j RoomNotFound) (\<lambda>m. fill (sr_error_update (\<lambda>_. m)))
     else
       seq (value_str W j ''host'' []) (\<lambda>host.
       seq (value_int W j ''port'' 0) (\<lambda>port.
       if host = [] \<or> port < 1 \<or> 65535 < port then fill (sr_error_update (\<lambda>_. BadBrokerAddress))
       else fill (\<lambda>r. r\<lparr>sr_host := copy_trunc 64 host, sr_port := word_of_int port, sr_ok := True\<rparr>)))))"

definition ResolveJoinRelayRoom :: "'j launcher_world \<Rightarrow> string \<Rightarrow> string \<Rightarrow> (calls, strategy_result) act" where
  "ResolveJoinRelayRoom W roomCode brokerBaseUrl =
     (if roomCode = [] then ret (join_fails EnterRoomCode)
      else case NormalizeRelayRoomCode roomCode 32 of
        None \<Rightarrow> ret (join_fails InvalidRoomCode)
      | Some code \<Rightarrow>
          seq (parse_url W brokerBaseUrl) (\<lambda>url. case url of
            None \<Rightarrow> ret (join_fails BrokerUrlUnset)
          | Some parts \<Rightarrow>
              seq (BrokerHttpGet W parts (room_path code []) 4096) (\<lambda>(http, body).
              if \<not> hr_ok http then ret (join_fails BrokerOffline)
              else result_of (filling no_join
                (catching (read_room W body) (fill (sr_error_update (\<lambda>_. BadBrokerData))))))))"

section \<open>The broker's health\<close>

record broker_health =
  bh_ok :: bool
  bh_forceVpsRelay :: bool
  bh_relayHost :: string

definition no_health :: broker_health where
  "no_health = \<lparr>bh_ok = False, bh_forceVpsRelay = False, bh_relayHost = []\<rparr>"

definition read_health :: "'j launcher_world \<Rightarrow> string \<Rightarrow> (broker_health \<times> calls, bool) act" where
  "read_health W body =
     seq (parse_json W body) (\<lambda>j.
     seq (value_bool W j ''ok'' False) (\<lambda>isOk.
     seq (fill (bh_ok_update (\<lambda>_. isOk))) (\<lambda>_.
     seq (value_bool W j ''forceVpsRelay'' False) (\<lambda>vps.
     seq (fill (bh_forceVpsRelay_update (\<lambda>_. vps))) (\<lambda>_.
     seq (value_str W j ''relayHost'' []) (\<lambda>host.
     seq (fill (if host = [] then id else bh_relayHost_update (\<lambda>_. copy_trunc 64 host))) (\<lambda>_.
     ret isOk)))))))"

text \<open>The return value, and the health object the caller reads whatever it is.\<close>

definition FetchBrokerHealth :: "'j launcher_world \<Rightarrow> string \<Rightarrow> (calls, bool \<times> broker_health) act" where
  "FetchBrokerHealth W brokerBaseUrl =
     seq (parse_url W brokerBaseUrl) (\<lambda>url. case url of
       None \<Rightarrow> ret (False, no_health)
     | Some parts \<Rightarrow>
         seq (BrokerHttpGet W parts ''/v1/health'' 4096) (\<lambda>(http, body).
         if \<not> hr_ok http then ret (False, no_health)
         else filling no_health (catching (read_health W body) (ret False))))"

section \<open>The sidecar's hash\<close>

text \<open>A failed read ends the loop like the end of the file.\<close>

fun hash_loop :: "hash_env \<Rightarrow> string option list \<Rightarrow> string \<Rightarrow> string option" where
  "hash_loop E [] fed = Some fed"
| "hash_loop E (None # rs) fed = Some fed"
| "hash_loop E (Some block # rs) fed =
     (if block = [] then Some fed
      else if \<not> ha_data E block then None
      else hash_loop E rs (fed @ block))"

definition hex_char :: "nat \<Rightarrow> char" where
  "hex_char d = (if d < 10 then char_of (48 + d) else char_of (87 + d))"

definition hex_pair :: "char \<Rightarrow> string" where
  "hex_pair c = [hex_char (of_char c div 16), hex_char (of_char c mod 16)]"

definition HashSidecarDllNextToLauncher :: "'j launcher_world \<Rightarrow> nat \<Rightarrow> (calls, string option) act" where
  "HashSidecarDllNextToLauncher W outLen =
     (if outLen = 0 then ret None
      else seq (asks (lw_hash W) HashSidecar) (\<lambda>E. ret
        (if \<not> ha_module E \<or> \<not> ha_spec E \<or> \<not> ha_path E then None
         else if \<not> ha_provider E \<or> \<not> fst (ha_sizes E) \<or> \<not> snd (ha_sizes E) then None
         else if \<not> fst (ha_alloc E) \<or> \<not> snd (ha_alloc E) \<or> \<not> ha_create E \<or> \<not> ha_open E then None
         else (case hash_loop E (ha_reads E) [] of
                 None \<Rightarrow> None
               | Some fed \<Rightarrow>
                   (case ha_finish E fed of
                      None \<Rightarrow> None
                    | Some digest \<Rightarrow>
                        (let hex = copy_trunc outLen (concat (map hex_pair digest))
                         in if hex = [] then None else Some hex))))))"

section \<open>The matchmaking queue\<close>

definition queue_body :: "'j launcher_world \<Rightarrow> string \<Rightarrow> string option \<Rightarrow> ('s, string) act" where
  "queue_body W displayName sidecarHash =
     dump_json W ([(''displayName'', mk_str (lw_json W) (if displayName = [] then ''Player'' else displayName))] @
       (case sidecarHash of None \<Rightarrow> [] | Some h \<Rightarrow> [(''sidecarHash'', mk_str (lw_json W) h)]))"

text \<open>What the queue answered: an error, an address, or the code of a room to look up.\<close>

definition read_queue :: "'j launcher_world \<Rightarrow> string \<Rightarrow> (strategy_result \<times> calls, string) act" where
  "read_queue W body =
     seq (parse_json W body) (\<lambda>j.
     seq (value_str W j ''status'' []) (\<lambda>status.
     if status = ''waiting'' then seq (fill (sr_error_update (\<lambda>_. StillLooking))) (\<lambda>_. ret [])
     else seq (value_str W j ''error'' []) (\<lambda>e.
     if e \<noteq> [] then seq (value_message W j NoMatch) (\<lambda>m. seq (fill (sr_error_update (\<lambda>_. m))) (\<lambda>_. ret []))
     else
       seq (value_str W j ''host'' []) (\<lambda>host.
       seq (value_int W j ''port'' 0) (\<lambda>port.
       seq (value_str W j ''code'' []) (\<lambda>code.
       if code \<noteq> [] then ret code
       else seq (fill (if host = [] \<or> port < 1 then sr_error_update (\<lambda>_. NoRoomReturned)
                       else (\<lambda>r. r\<lparr>sr_host := copy_trunc 64 host, sr_port := word_of_int port, sr_ok := True\<rparr>)))
         (\<lambda>_. ret [])))))))"

text \<open>The room is looked up inside the try block; what it returns is the result.\<close>

definition matched :: "'j launcher_world \<Rightarrow> string \<Rightarrow> string \<Rightarrow> (strategy_result \<times> calls, unit) act" where
  "matched W brokerBaseUrl body =
     seq (read_queue W body) (\<lambda>code.
       if code = [] then ret ()
       else seq (outside (ResolveJoinRelayRoom W code brokerBaseUrl)) (\<lambda>r. fill (\<lambda>_. r)))"

definition join_queue :: "'j launcher_world \<Rightarrow> broker_url \<Rightarrow> string \<Rightarrow> string \<Rightarrow> string option \<Rightarrow> (calls, strategy_result) act" where
  "join_queue W parts brokerBaseUrl displayName sidecarHash =
     seq (queue_body W displayName sidecarHash) (\<lambda>req.
     seq (BrokerHttpPostJson W parts ''/v1/queue/join'' req 4096) (\<lambda>(http, body).
     if \<not> hr_ok http then ret (join_fails MatchmakingOffline)
     else result_of (filling no_join
       (catching (matched W brokerBaseUrl body) (fill (sr_error_update (\<lambda>_. BadBrokerData)))))))"

definition ResolveJoinMatchmaking :: "'j launcher_world \<Rightarrow> string \<Rightarrow> string \<Rightarrow> (calls, strategy_result) act" where
  "ResolveJoinMatchmaking W brokerBaseUrl displayName =
     seq (parse_url W brokerBaseUrl) (\<lambda>url. case url of
       None \<Rightarrow> ret (join_fails BrokerUrlUnset)
     | Some parts \<Rightarrow>
         seq (FetchBrokerHealth W brokerBaseUrl) (\<lambda>(fetched, health).
         if fetched \<and> bh_forceVpsRelay health then
           seq (HashSidecarDllNextToLauncher W 128) (\<lambda>hash. case hash of
             None \<Rightarrow> ret (join_fails SidecarUnreadable)
           | Some h \<Rightarrow> join_queue W parts brokerBaseUrl displayName (Some h))
         else join_queue W parts brokerBaseUrl displayName None))"

definition ResolveJoinAutoNat :: strategy_result where
  "ResolveJoinAutoNat = join_fails AutoNatIsForHosts"

section \<open>UPnP\<close>

datatype nat_status = RouterConfigured | RouterPartly | RouterNotConfigured

definition TryMapUpnpPort :: "'j launcher_world \<Rightarrow> 16 word \<Rightarrow> bool \<Rightarrow> (calls, bool) act" where
  "TryMapUpnpPort W port isTcp =
     (if \<not> fst (DetectLanIPv4 64 (lw_lan W)) then ret False
      else seq (asks (lw_upnp W) (MapPort port isTcp)) (\<lambda>E. ret (un_nat E \<and> un_mappings E \<and> un_added E)))"

definition TryConfigureHostUpnp :: "'j launcher_world \<Rightarrow> 16 word \<Rightarrow> 16 word \<Rightarrow> (calls, nat_status) act" where
  "TryConfigureHostUpnp W sessionPort ggpoPort =
     seq (TryMapUpnpPort W sessionPort True) (\<lambda>tcpOk.
     seq (TryMapUpnpPort W sessionPort False) (\<lambda>udpSession.
     seq (TryMapUpnpPort W ggpoPort False) (\<lambda>udpGgpo.
     ret (if tcpOk \<and> udpSession then RouterConfigured
          else if tcpOk \<or> udpSession then RouterPartly else RouterNotConfigured))))"

end
