(* ===== verification/Relay_Room.thy ===== *)
theory Relay_Room
  imports Connect_Strategy Netplay_Config
begin

text \<open>
  A room at the broker (launcher/connect_strategy.cxx): creating it, its
  heartbeat, the connect plan with the registration of the player's endpoint, the
  events reported to it; the relay host the launcher starts on its own machine
  (launcher/relay/relay_host_spawn.cxx); the settings kept between runs
  (launcher/netplay/netplay_persist.cxx).
\<close>

section \<open>Creating a room\<close>

record room_result =
  rr_ok :: bool
  rr_error :: strategy_error
  rr_shortCode :: string
  rr_hostSecret :: string
  rr_relayHost :: string
  rr_relayPort :: "16 word"
  rr_ggpoPort :: "16 word"
  rr_matchId :: string
  rr_roomToken :: string
  rr_ggpoTransport :: string

definition no_room :: room_result where
  "no_room = \<lparr>rr_ok = False, rr_error = NoError, rr_shortCode = [], rr_hostSecret = [], rr_relayHost = [],
     rr_relayPort = 0, rr_ggpoPort = 0, rr_matchId = [], rr_roomToken = [], rr_ggpoTransport = []\<rparr>"

definition room_fails :: "strategy_error \<Rightarrow> room_result" where
  "room_fails e = no_room\<lparr>rr_error := e\<rparr>"

text \<open>A field copied when it is there and not empty.\<close>

definition keep_str :: "'j launcher_world \<Rightarrow> 'j \<Rightarrow> string \<Rightarrow> (string \<Rightarrow> 'r \<Rightarrow> 'r) \<Rightarrow> ('r \<times> 's, unit) act" where
  "keep_str W j k put = seq (value_str W j k []) (\<lambda>v. fill (if v = [] then id else put v))"

definition keep_int :: "'j launcher_world \<Rightarrow> 'j \<Rightarrow> string \<Rightarrow> (int \<Rightarrow> 'r \<Rightarrow> 'r) \<Rightarrow> ('r \<times> 's, unit) act" where
  "keep_int W j k put = seq (value_int W j k 0) (\<lambda>v. fill (if 0 < v then put v else id))"

definition read_created :: "'j launcher_world \<Rightarrow> string \<Rightarrow> (room_result \<times> calls, unit) act" where
  "read_created W body =
     seq (parse_json W body) (\<lambda>j.
     seq (value_str W j ''error'' []) (\<lambda>e.
     if e \<noteq> [] then seq (value_message W j CannotCreateRoom) (\<lambda>m. fill (rr_error_update (\<lambda>_. m)))
     else
       seq (value_str W j ''code'' []) (\<lambda>code.
       seq (value_str W j ''host'' []) (\<lambda>host.
       seq (value_int W j ''port'' 0) (\<lambda>port.
       if code = [] \<or> host = [] \<or> port < 1 then fill (rr_error_update (\<lambda>_. IncompleteRoom))
       else
         seq (fill (rr_shortCode_update (\<lambda>_. code))) (\<lambda>_.
         seq (value_str W j ''hostSecret'' []) (\<lambda>secret.
         seq (fill (\<lambda>r. r\<lparr>rr_hostSecret := secret, rr_relayHost := copy_trunc 64 host,
                            rr_relayPort := word_of_int port\<rparr>)) (\<lambda>_.
         seq (keep_str W j ''ggpoTransport'' (\<lambda>v. rr_ggpoTransport_update (\<lambda>_. copy_trunc 32 v))) (\<lambda>_.
         seq (keep_int W j ''ggpoPort'' (\<lambda>v. rr_ggpoPort_update (\<lambda>_. word_of_int v))) (\<lambda>_.
         seq (keep_str W j ''matchId'' (\<lambda>v. rr_matchId_update (\<lambda>_. copy_trunc 33 v))) (\<lambda>_.
         seq (keep_str W j ''roomToken'' (\<lambda>v. rr_roomToken_update (\<lambda>_. copy_trunc 33 v))) (\<lambda>_.
         fill (rr_ok_update (\<lambda>_. True))))))))))))))"

definition CreateRelayRoom ::
  "'j launcher_world \<Rightarrow> string \<Rightarrow> string \<Rightarrow> string \<Rightarrow> string \<Rightarrow> (calls, room_result) act" where
  "CreateRelayRoom W brokerBaseUrl displayName relayHost sidecarHash =
     seq (parse_url W brokerBaseUrl) (\<lambda>url. case url of
       None \<Rightarrow> ret (room_fails BrokerUrlUnset)
     | Some parts \<Rightarrow>
         seq (dump_json W ((''displayName'', mk_str (lw_json W) (if displayName = [] then ''Host'' else displayName)) #
           (if sidecarHash \<noteq> [] then [(''sidecarHash'', mk_str (lw_json W) sidecarHash)]
            else if relayHost \<noteq> [] then [(''relayHost'', mk_str (lw_json W) relayHost)] else []))) (\<lambda>req.
         seq (BrokerHttpPostJson W parts ''/v1/rooms'' req 4096) (\<lambda>(http, body).
         if \<not> hr_ok http then seq (FormatBrokerPostError W brokerBaseUrl http body) (\<lambda>e. ret (room_fails e))
         else result_of (filling no_room
           (catching (read_created W body) (fill (rr_error_update (\<lambda>_. BadBrokerData))))))))"

definition FetchAdvertiseRelayHost :: "'j launcher_world \<Rightarrow> nat \<Rightarrow> (calls, bool \<times> string) act" where
  "FetchAdvertiseRelayHost W outLen =
     (if outLen = 0 then ret (False, [])
      else seq (asks (lw_ip W) PublicIp) (\<lambda>(E1, E2). ret
        (case FetchPublicIPv4 outLen E1 E2 of
           Some ip \<Rightarrow> (True, ip) | None \<Rightarrow> DetectLanIPv4 outLen (lw_lan W))))"

section \<open>The heartbeat\<close>

definition read_heartbeat :: "'j launcher_world \<Rightarrow> string \<Rightarrow> (calls, bool) act" where
  "read_heartbeat W body =
     seq (parse_json W body) (\<lambda>j.
       if contains W j ''heartbeatOk'' then value_bool W j ''heartbeatOk'' False else value_bool W j ''ok'' False)"

definition secret_field :: "'j launcher_world \<Rightarrow> string \<Rightarrow> (string \<times> 'j) list" where
  "secret_field W hostSecret = (if hostSecret = [] then [] else [(''hostSecret'', mk_str (lw_json W) hostSecret)])"

definition HeartbeatRelayRoom :: "'j launcher_world \<Rightarrow> string \<Rightarrow> string \<Rightarrow> string \<Rightarrow> (calls, bool) act" where
  "HeartbeatRelayRoom W brokerBaseUrl roomCode hostSecret =
     (if roomCode = [] then ret False
      else case NormalizeRelayRoomCode roomCode 32 of
        None \<Rightarrow> ret False
      | Some code \<Rightarrow>
          seq (parse_url W brokerBaseUrl) (\<lambda>url. case url of
            None \<Rightarrow> ret False
          | Some parts \<Rightarrow>
              seq (dump_json W (secret_field W hostSecret)) (\<lambda>req.
              seq (BrokerHttpPostJson W parts (room_path code ''/heartbeat'') req 512) (\<lambda>(http, body).
              if \<not> hr_ok http then ret False else catching (read_heartbeat W body) (ret False)))))"

section \<open>The connect plan\<close>

record connect_plan =
  cp_ok :: bool
  cp_error :: strategy_error
  cp_transport :: "8 word"
  cp_host :: string
  cp_port :: "16 word"
  cp_matchId :: string
  cp_roomToken :: string

definition no_plan :: connect_plan where
  "no_plan = \<lparr>cp_ok = False, cp_error = NoError, cp_transport = 0, cp_host = [], cp_port = 0,
     cp_matchId = [], cp_roomToken = []\<rparr>"

definition plan_fails :: "strategy_error \<Rightarrow> connect_plan" where
  "plan_fails e = no_plan\<lparr>cp_error := e\<rparr>"

definition TransportFromString :: "string \<Rightarrow> 8 word" where
  "TransportFromString t = (if t = ''udp_relay'' then 1 else if t = ''p2p'' then 2 else 0)"

definition SendBrokerNatProbe :: "'j launcher_world \<Rightarrow> string \<Rightarrow> 16 word \<Rightarrow> (calls, bool) act" where
  "SendBrokerNatProbe W host port =
     (if host = [] \<or> port = 0 then ret False
      else seq (asks (lw_probe W) (NatProbe host port)) (\<lambda>E. ret
        (np_winsock E \<and> np_socket E \<and> ResolveHostToIPv4 (lw_resolver W) host 64 \<noteq> None \<and> np_pton E \<and>
         np_sent E \<and> 0 < np_select E)))"

text \<open>The host and the port of the plan, each from the first field that has one.\<close>

definition plan_host :: "'j launcher_world \<Rightarrow> 'j \<Rightarrow> string \<Rightarrow> ('s, string) act" where
  "plan_host W j transport =
     seq (value_str W j ''host'' []) (\<lambda>d.
     seq (value_str W j ''ggpoRemoteHost'' d) (\<lambda>host.
     if host = [] \<and> transport = ''p2p'' then value_str W j ''peerHost'' [] else ret host))"

definition plan_port :: "'j launcher_world \<Rightarrow> 'j \<Rightarrow> string \<Rightarrow> ('s, int) act" where
  "plan_port W j transport =
     seq (value_int W j ''ggpoRemotePort'' 0) (\<lambda>p.
     seq (if p \<le> 0 then value_int W j ''ggpoPort'' 0 else ret p) (\<lambda>q.
     if q \<le> 0 \<and> transport = ''p2p'' then value_int W j ''peerPort'' 0 else ret q))"

definition ApplyConnectPlanJson :: "'j launcher_world \<Rightarrow> 'j \<Rightarrow> (connect_plan \<times> calls, unit) act" where
  "ApplyConnectPlanJson W j =
     seq (value_str W j ''transport'' ''legacy_session_tunnel'') (\<lambda>transport.
     seq (fill (cp_transport_update (\<lambda>_. TransportFromString transport))) (\<lambda>_.
     seq (plan_host W j transport) (\<lambda>host.
     seq (fill (if host = [] then id else cp_host_update (\<lambda>_. copy_trunc 64 host))) (\<lambda>_.
     seq (plan_port W j transport) (\<lambda>port.
     seq (fill (if 0 < port then cp_port_update (\<lambda>_. word_of_int port) else id)) (\<lambda>_.
     seq (keep_str W j ''matchId'' (\<lambda>v. cp_matchId_update (\<lambda>_. copy_trunc 33 v))) (\<lambda>_.
     seq (keep_str W j ''roomToken'' (\<lambda>v. cp_roomToken_update (\<lambda>_. copy_trunc 33 v))) (\<lambda>_.
     fill (cp_ok_update (\<lambda>_. True))))))))))"

text \<open>What register-endpoint answered: any failure keeps the plan as it is by then.\<close>

definition read_registration :: "'j launcher_world \<Rightarrow> string \<Rightarrow> (connect_plan \<times> calls, unit) act" where
  "read_registration W body =
     seq (parse_json W body) (\<lambda>j.
     seq (value_str W j ''error'' []) (\<lambda>e.
     if e \<noteq> [] then seq (value_str W j ''message'' ''unknown'') (\<lambda>_. ret ())
     else if contains W j ''connectPlan'' then
       (case j_at (lw_json W) j ''connectPlan'' of Some p \<Rightarrow> ApplyConnectPlanJson W p | None \<Rightarrow> ret ())
     else ret ()))"

definition register_endpoint ::
  "'j launcher_world \<Rightarrow> broker_url \<Rightarrow> string \<Rightarrow> string \<Rightarrow> string \<Rightarrow> 16 word \<Rightarrow> (connect_plan \<times> calls, unit) act" where
  "register_endpoint W parts code role hostSecret ggpoPort =
     seq (dump_json W ([(''role'', mk_str (lw_json W) role)] @ secret_field W hostSecret @
       [(''ggpoPort'', mk_word (lw_json W) ggpoPort), (''natType'', mk_str (lw_json W) ''unknown'')])) (\<lambda>req.
     seq (outside (BrokerHttpPostJson W parts (room_path code ''/register-endpoint'') req 4096)) (\<lambda>(http, body).
     if \<not> hr_ok http then seq (outside (BrokerMessageFromBody W body)) (\<lambda>_. ret ())
     else catching (read_registration W body) (ret ())))"

definition read_plan ::
  "'j launcher_world \<Rightarrow> broker_url \<Rightarrow> string \<Rightarrow> string \<Rightarrow> string \<Rightarrow> 16 word \<Rightarrow> string \<Rightarrow> (connect_plan \<times> calls, unit) act" where
  "read_plan W parts code role hostSecret ggpoPort body =
     seq (parse_json W body) (\<lambda>j.
     seq (value_str W j ''error'' []) (\<lambda>e.
     if e \<noteq> [] then seq (value_message W j PlanUnavailable) (\<lambda>m. fill (cp_error_update (\<lambda>_. m)))
     else
       seq (ApplyConnectPlanJson W j) (\<lambda>_.
       if ggpoPort = 0 \<or> role = [] then ret ()
       else
         seq (value_int W j ''natProbePort'' 8790) (\<lambda>probePort.
         seq (outside (SendBrokerNatProbe W (bu_host parts) (word_of_int probePort))) (\<lambda>probed.
         if \<not> probed then ret () else register_endpoint W parts code role hostSecret ggpoPort)))))"

definition plan_path :: "string \<Rightarrow> string \<Rightarrow> string" where
  "plan_path code role =
     copy_trunc 256 (''/v1/rooms/'' @ code @ ''/connect-plan?role='' @ (if role = [] then ''guest'' else role))"

definition FetchConnectPlan ::
  "'j launcher_world \<Rightarrow> string \<Rightarrow> string \<Rightarrow> string \<Rightarrow> string \<Rightarrow> 16 word \<Rightarrow> (calls, connect_plan) act" where
  "FetchConnectPlan W brokerBaseUrl roomCode role hostSecret ggpoPort =
     (if roomCode = [] then ret (plan_fails PlanNeedsCode)
      else case NormalizeRelayRoomCode roomCode 32 of
        None \<Rightarrow> ret (plan_fails InvalidRoomCode)
      | Some code \<Rightarrow>
          seq (parse_url W brokerBaseUrl) (\<lambda>url. case url of
            None \<Rightarrow> ret (plan_fails BrokerUrlUnset)
          | Some parts \<Rightarrow>
              seq (BrokerHttpGet W parts (plan_path code role) 4096) (\<lambda>(http, body).
              if \<not> hr_ok http then ret (plan_fails PlanOffline)
              else result_of (filling no_plan
                (catching (read_plan W parts code role hostSecret ggpoPort body)
                   (fill (cp_error_update (\<lambda>_. BadPlan))))))))"

section \<open>Events\<close>

definition event_detail :: "'j launcher_world \<Rightarrow> string \<Rightarrow> ('s, (string \<times> 'j) list) act" where
  "event_detail W detailJson =
     (if detailJson = [] then ret []
      else seq (catching (parse_json W detailJson) (ret (mk_obj (lw_json W) [])))
             (\<lambda>d. ret [(''detail'', d)]))"

definition PostRoomEvent ::
  "'j launcher_world \<Rightarrow> string \<Rightarrow> string \<Rightarrow> string \<Rightarrow> string \<Rightarrow> string \<Rightarrow> string \<Rightarrow> (calls, bool) act" where
  "PostRoomEvent W brokerBaseUrl roomCode eventType hostSecret transportActive detailJson =
     (if roomCode = [] \<or> eventType = [] then ret False
      else case NormalizeRelayRoomCode roomCode 32 of
        None \<Rightarrow> ret False
      | Some code \<Rightarrow>
          seq (parse_url W brokerBaseUrl) (\<lambda>url. case url of
            None \<Rightarrow> ret False
          | Some parts \<Rightarrow>
              seq (event_detail W detailJson) (\<lambda>detail.
              seq (dump_json W ([(''type'', mk_str (lw_json W) eventType)] @ secret_field W hostSecret @
                (if transportActive = [] then [] else [(''transportActive'', mk_str (lw_json W) transportActive)]) @
                detail)) (\<lambda>req.
              seq (BrokerHttpPostJson W parts (room_path code ''/events'') req 512) (\<lambda>(http, _).
              ret (hr_ok http))))))"

section \<open>The relay host on this machine\<close>

text \<open>The state is the process id kept in g_relayHostPid, and the calls.\<close>

definition StopRelayHost :: "'j launcher_world \<Rightarrow> (32 word \<times> calls, unit) act" where
  "StopRelayHost W =
     (\<lambda>(pid, log). if pid = 0 then (Ret (), (0, log)) else (Ret (), (0, log @ [StopRelay pid])))"

definition relay_listens :: "spawn_env \<Rightarrow> 16 word \<Rightarrow> 32 word \<Rightarrow> bool" where
  "relay_listens E port pid \<longleftrightarrow>
     WaitForLocalTcpPort (sp_winsock E) port 5000 (unat pid) (fst (sp_now E)) (snd (sp_now E)) (sp_rounds E) = Some True"

definition SpawnRelayHost :: "'j launcher_world \<Rightarrow> 16 word \<Rightarrow> (32 word \<times> calls, bool) act" where
  "SpawnRelayHost W port =
     seq (StopRelayHost W) (\<lambda>_.
     seq (outside (asks (lw_spawn W) (SpawnRelay port))) (\<lambda>E.
     if \<not> sp_module E \<or> \<not> sp_spec E \<or> \<not> sp_path E \<or> \<not> sp_exists E then ret False
     else case sp_created E of
            None \<Rightarrow> ret False
          | Some pid \<Rightarrow>
              seq (fill (\<lambda>_. pid)) (\<lambda>_.
              if relay_listens E port pid then ret True
              else seq (StopRelayHost W) (\<lambda>_. ret False))))"

end
