(* ===== verification/Launcher_Settings.thy ===== *)
theory Launcher_Settings
  imports Relay_Room
begin

text \<open>
  The settings the launcher keeps between runs
  (launcher/netplay/netplay_persist.cxx): read from and written to config.json,
  without the room of the last session, and moved off the broker addresses that
  are no longer served. The file is its text, None when there is none.
\<close>

section \<open>Settings\<close>

record settings =
  ps_displayName :: string
  ps_inputDelay :: "8 word"
  ps_sessionPort :: "16 word"
  ps_ggpoPort :: "16 word"
  ps_editionSelect :: "8 word"
  ps_roundCount :: int
  ps_roundTimeIntegral :: int
  ps_useRelay :: "8 word"
  ps_lastJoinHost :: string
  ps_lastAdvertiseHost :: string
  ps_simpleUi :: "8 word"
  ps_defaultConnectMethod :: "8 word"
  ps_relaySessionPort :: "16 word"
  ps_brokerBaseUrl :: string
  ps_relayRoomCode :: string
  ps_relayHostSecret :: string

definition kDefaultBrokerBaseUrl :: string where
  "kDefaultBrokerBaseUrl = ''https://74-208-200-95.nip.io''"

definition default_settings :: settings where
  "default_settings =
     \<lparr>ps_displayName = ''Player'', ps_inputDelay = 2, ps_sessionPort = 23456, ps_ggpoPort = 23457,
      ps_editionSelect = 1, ps_roundCount = 3, ps_roundTimeIntegral = 99, ps_useRelay = 1,
      ps_lastJoinHost = [], ps_lastAdvertiseHost = [], ps_simpleUi = 1, ps_defaultConnectMethod = 1,
      ps_relaySessionPort = 0, ps_brokerBaseUrl = kDefaultBrokerBaseUrl, ps_relayRoomCode = [],
      ps_relayHostSecret = []\<rparr>"

definition BrokerUrlNeedsMigration :: "string \<Rightarrow> bool" where
  "BrokerUrlNeedsMigration url \<longleftrightarrow> url \<noteq> [] \<and>
     (stricmp_eq url ''http://150.136.121.155:8787'' \<or> stricmp_eq url ''http://150.136.121.155:8787/'' \<or>
      stricmp_eq url ''http://74.208.200.95:8787'' \<or> stricmp_eq url ''http://74.208.200.95:8787/'')"

definition ClearSessionRelayFields :: "settings \<Rightarrow> settings" where
  "ClearSessionRelayFields s = s\<lparr>ps_relayRoomCode := [], ps_relayHostSecret := [], ps_relaySessionPort := 0\<rparr>"

definition MigrateDeprecatedBrokerUrl :: "settings \<Rightarrow> settings" where
  "MigrateDeprecatedBrokerUrl s =
     (if BrokerUrlNeedsMigration (ps_brokerBaseUrl s)
      then ClearSessionRelayFields (s\<lparr>ps_brokerBaseUrl := kDefaultBrokerBaseUrl\<rparr>) else s)"

section \<open>The file\<close>

record config_file =
  cf_path :: bool
  cf_readable :: bool
  cf_writable :: bool
  cf_text :: "string option"

definition settings_fields :: "'j json_ops \<Rightarrow> settings \<Rightarrow> (string \<times> 'j) list" where
  "settings_fields J s =
     [(''displayName'', mk_str J (ps_displayName s)), (''inputDelay'', mk_word J (ps_inputDelay s)),
      (''sessionPort'', mk_word J (ps_sessionPort s)), (''ggpoPort'', mk_word J (ps_ggpoPort s)),
      (''editionSelect'', mk_word J (ps_editionSelect s)), (''roundCount'', mk_int J (ps_roundCount s)),
      (''roundTimeIntegral'', mk_int J (ps_roundTimeIntegral s)), (''useRelay'', mk_word J (ps_useRelay s)),
      (''lastJoinHost'', mk_str J (ps_lastJoinHost s)), (''lastAdvertiseHost'', mk_str J (ps_lastAdvertiseHost s)),
      (''simpleUi'', mk_word J (ps_simpleUi s)), (''defaultConnectMethod'', mk_word J (ps_defaultConnectMethod s)),
      (''brokerBaseUrl'', mk_str J (ps_brokerBaseUrl s))]"

text \<open>The stream empties the file when it opens it, before the document is printed.\<close>

definition SavePersistedSettings :: "'j launcher_world \<Rightarrow> settings \<Rightarrow> (config_file, bool) act" where
  "SavePersistedSettings W s = seq (reads id) (\<lambda>f.
     if \<not> cf_path f \<or> \<not> cf_writable f then ret False
     else
       seq (update (cf_text_update (\<lambda>_. Some []))) (\<lambda>_.
       seq (lift (or_throw (lw_pretty W (mk_obj (lw_json W) (settings_fields (lw_json W) s))))) (\<lambda>text.
       seq (update (cf_text_update (\<lambda>_. Some text))) (\<lambda>_. ret True))))"

text \<open>A number read with its default and cut to the field.\<close>

definition load_int :: "'j launcher_world \<Rightarrow> 'j \<Rightarrow> string \<Rightarrow> int \<Rightarrow> (int \<Rightarrow> settings \<Rightarrow> settings) \<Rightarrow>
    (settings \<times> config_file, unit) act" where
  "load_int W j k d put = seq (value_int W j k d) (\<lambda>v. fill (put v))"

definition load_str :: "'j launcher_world \<Rightarrow> 'j \<Rightarrow> string \<Rightarrow> string \<Rightarrow> (string \<Rightarrow> settings \<Rightarrow> settings) \<Rightarrow>
    (settings \<times> config_file, unit) act" where
  "load_str W j k d put = seq (value_str W j k d) (\<lambda>v. fill (put v))"

definition read_fields :: "'j launcher_world \<Rightarrow> 'j \<Rightarrow> (settings \<times> config_file, unit) act" where
  "read_fields W j =
     seq (load_str W j ''displayName'' ''Player'' (\<lambda>v. ps_displayName_update (\<lambda>_. copy_trunc 32 v))) (\<lambda>_.
     seq (load_int W j ''inputDelay'' 2 (\<lambda>v. ps_inputDelay_update (\<lambda>_. word_of_int v))) (\<lambda>_.
     seq (load_int W j ''sessionPort'' 23456 (\<lambda>v. ps_sessionPort_update (\<lambda>_. word_of_int v))) (\<lambda>_.
     seq (load_int W j ''ggpoPort'' 23457 (\<lambda>v. ps_ggpoPort_update (\<lambda>_. word_of_int v))) (\<lambda>_.
     seq (load_int W j ''editionSelect'' 1 (\<lambda>v. ps_editionSelect_update (\<lambda>_. word_of_int v))) (\<lambda>_.
     seq (load_int W j ''roundCount'' 3 (\<lambda>v. ps_roundCount_update (\<lambda>_. v))) (\<lambda>_.
     seq (load_int W j ''roundTimeIntegral'' 99 (\<lambda>v. ps_roundTimeIntegral_update (\<lambda>_. v))) (\<lambda>_.
     seq (load_int W j ''useRelay'' 1 (\<lambda>v. ps_useRelay_update (\<lambda>_. word_of_int v))) (\<lambda>_.
     seq (load_str W j ''lastJoinHost'' [] (\<lambda>v. ps_lastJoinHost_update (\<lambda>_. copy_trunc 128 v))) (\<lambda>_.
     seq (load_str W j ''lastAdvertiseHost'' [] (\<lambda>v. ps_lastAdvertiseHost_update (\<lambda>_. copy_trunc 64 v))) (\<lambda>_.
     seq (load_int W j ''simpleUi'' 1 (\<lambda>v. ps_simpleUi_update (\<lambda>_. word_of_int v))) (\<lambda>_.
     seq (load_int W j ''defaultConnectMethod'' 1 (\<lambda>v. ps_defaultConnectMethod_update (\<lambda>_. word_of_int v))) (\<lambda>_.
     load_str W j ''brokerBaseUrl'' kDefaultBrokerBaseUrl
       (\<lambda>v. ps_brokerBaseUrl_update (\<lambda>_. copy_trunc 256 v))))))))))))))"

text \<open>Whether the document still holds a room: each test is made only when the ones before failed.\<close>

definition stored_str :: "'j launcher_world \<Rightarrow> 'j \<Rightarrow> string \<Rightarrow> ('s, bool) act" where
  "stored_str W j k = (if contains W j k then seq (value_str W j k []) (\<lambda>v. ret (v \<noteq> [])) else ret False)"

definition had_stored_relay :: "'j launcher_world \<Rightarrow> 'j \<Rightarrow> ('s, bool) act" where
  "had_stored_relay W j =
     seq (stored_str W j ''relayRoomCode'') (\<lambda>code. if code then ret True else
     seq (stored_str W j ''relayHostSecret'') (\<lambda>secret. if secret then ret True else
     seq (value_int W j ''relaySessionPort'' 0) (\<lambda>port. ret (port \<noteq> 0))))"

definition load_body :: "'j launcher_world \<Rightarrow> string \<Rightarrow> (settings \<times> config_file, bool) act" where
  "load_body W text =
     seq (lift (or_throw (lw_parse W text))) (\<lambda>j.
     seq (read_fields W j) (\<lambda>_.
     seq (had_stored_relay W j) (\<lambda>had.
     seq (fill ClearSessionRelayFields) (\<lambda>_.
     seq (reads (BrokerUrlNeedsMigration \<circ> ps_brokerBaseUrl \<circ> fst)) (\<lambda>migrated.
     seq (fill MigrateDeprecatedBrokerUrl) (\<lambda>_.
     seq (reads fst) (\<lambda>s.
     seq (if migrated \<or> had then outside (SavePersistedSettings W s) else ret False) (\<lambda>_.
     ret True))))))))"

definition LoadPersistedSettings :: "'j launcher_world \<Rightarrow> (settings \<times> config_file, bool) act" where
  "LoadPersistedSettings W = seq (reads snd) (\<lambda>f.
     if \<not> cf_path f \<or> \<not> cf_readable f then ret False
     else case cf_text f of
            None \<Rightarrow> ret False
          | Some text \<Rightarrow> catching (load_body W text) (ret False))"

end
