(* ===== verification/Launch_Controller.thy ===== *)
theory Launch_Controller
  imports Launcher_Settings
begin

text \<open>
  The launcher's controller (launcher/netplay/netplay_launch_controller.cxx): the
  answer to each message of its window, and the NetplayConfig a start fills in
  for the sidecar; and the worker that calls it (launcher/qt/controller_bridge.cxx).
  An error reply's text is a constructor; the fields of a reply are those the
  code assigns. The conversion to UTF-16 of an opened link is not modelled.
\<close>

section \<open>State and replies\<close>

record controller =
  lc_settings :: settings
  lc_config :: netplay_config
  lc_lanIp :: string
  lc_matchId :: string
  lc_roomToken :: string
  lc_ggpoPort :: "16 word"
  lc_finished :: bool
  lc_cancelled :: bool
  lc_exitForUpdate :: bool
  lc_relayPid :: "32 word"
  lc_calls :: calls

datatype ui_error = ProtocolMismatch | NoPublicIp | NotCopied | NoUrl | OnlyGitHub | UrlNotOpened
  | BadBrokerUrl | CloseGameFirst | UpdateFailed string | NoUpdate | GetCodeFirst | BadSessionPort
  | RelayHostFailed | HostUnreachable string "16 word" | UnknownMessage | Strategy strategy_error | Thrown

datatype 'j ui_reply = NoReply | ErrorReply ui_error | Reply string "(string \<times> 'j) list"

type_synonym 'a ctl = "(controller, 'a) act"

definition calling :: "(calls, 'a) act \<Rightarrow> 'a ctl" where
  "calling f = on lc_calls (\<lambda>t. lc_calls_update (\<lambda>_. t)) f"

definition hosting :: "(32 word \<times> calls, 'a) act \<Rightarrow> 'a ctl" where
  "hosting f = on (\<lambda>s. (lc_relayPid s, lc_calls s)) (\<lambda>(pid, log) s. s\<lparr>lc_relayPid := pid, lc_calls := log\<rparr>) f"

definition in_settings :: "(settings \<Rightarrow> settings) \<Rightarrow> unit ctl" where
  "in_settings f = update (lc_settings_update f)"

definition in_config :: "(netplay_config \<Rightarrow> netplay_config) \<Rightarrow> unit ctl" where
  "in_config f = update (lc_config_update f)"

definition kProtocolVersion :: int where "kProtocolVersion = 1"

definition RequiresProtocolVersion :: "string \<Rightarrow> bool" where
  "RequiresProtocolVersion type \<longleftrightarrow> type \<in>
     {''start'', ''offlineStart'', ''applyUpdate'', ''saveSettings'', ''openUrl'', ''createRelayRoom'', ''relayHeartbeat''}"

definition DefaultConnectMethodString :: "8 word \<Rightarrow> string" where
  "DefaultConnectMethodString m = (if m = 0 then ''relay'' else if m = 2 then ''autoNat'' else ''direct'')"

definition PreviewRoomCode :: "string \<Rightarrow> 16 word \<Rightarrow> string" where
  "PreviewRoomCode shareIp port =
     (if shareIp = [] then ''(enter internet address)'' else FormatRoomCode shareIp port 128)"

section \<open>Construction\<close>

definition ApplyBrokerUrlFromEnvironment :: "environ \<Rightarrow> settings \<Rightarrow> settings outcome" where
  "ApplyBrokerUrlFromEnvironment env s =
     (case env ''SF4E_BROKER_URL'' of
        None \<Rightarrow> Ret s
      | Some url \<Rightarrow>
          if url = [] then Ret s
          else case ParseBrokerBaseUrl env url of
                 Ret (Some _) \<Rightarrow> Ret (s\<lparr>ps_brokerBaseUrl := copy_trunc 256 url\<rparr>)
               | Ret None \<Rightarrow> Ret s
               | Throws \<Rightarrow> Throws | Aborts \<Rightarrow> Aborts)"

definition controller_init :: "'j launcher_world \<Rightarrow> settings \<Rightarrow> netplay_config \<Rightarrow> controller outcome" where
  "controller_init W s c =
     (case ApplyBrokerUrlFromEnvironment (lw_env W) s of
        Ret s1 \<Rightarrow> Ret \<lparr>lc_settings = s1, lc_config = c, lc_lanIp = snd (DetectLanIPv4 64 (lw_lan W)), lc_matchId = [],
          lc_roomToken = [], lc_ggpoPort = 0, lc_finished = False, lc_cancelled = False,
          lc_exitForUpdate = False, lc_relayPid = 0, lc_calls = []\<rparr>
      | Throws \<Rightarrow> Throws | Aborts \<Rightarrow> Aborts)"

section \<open>The state shown\<close>

definition BuildStateJson :: "'j launcher_world \<Rightarrow> 'j ui_reply ctl" where
  "BuildStateJson W =
     seq (reads lc_settings) (\<lambda>p.
     seq (reads lc_lanIp) (\<lambda>lan.
     seq (calling (FetchBrokerHealth W (ps_brokerBaseUrl p))) (\<lambda>(fetched, health).
     seq (calling (asks (lw_version W) ReadVersion)) (\<lambda>version.
     let J = lw_json W; adv = (if ps_lastAdvertiseHost p \<noteq> [] then ps_lastAdvertiseHost p else lan);
         preview = PreviewRoomCode adv (ps_sessionPort p); lanCode = PreviewRoomCode lan (ps_sessionPort p)
     in ret (Reply ''state''
       ([(''displayName'', mk_str J (ps_displayName p)), (''inputDelay'', mk_word J (ps_inputDelay p)),
         (''sessionPort'', mk_word J (ps_sessionPort p)), (''ggpoPort'', mk_word J (ps_ggpoPort p)),
         (''lanIp'', mk_str J lan), (''lastJoinHost'', mk_str J (ps_lastJoinHost p)),
         (''advertiseHost'', mk_str J adv),
         (''roomCodePreview'', mk_str J (if IsShortRoomCode (ps_relayRoomCode p) then ps_relayRoomCode p else preview)),
         (''lanRoomCode'', mk_str J lanCode), (''lanAddress'', mk_str J lanCode), (''wanAddress'', mk_str J preview),
         (''simpleUi'', mk_bool J (ps_simpleUi p \<noteq> 0)), (''brokerBaseUrl'', mk_str J (ps_brokerBaseUrl p)),
         (''defaultConnectMethod'', mk_word J (ps_defaultConnectMethod p))] @
        (if fetched then [(''forceVpsRelay'', mk_bool J (bh_forceVpsRelay health))] else []) @
        [(''featureFlags'', mk_obj J [(''matchmaking'', mk_bool J True), (''autoNat'', mk_bool J True),
           (''relayRoom'', mk_bool J True)]),
         (''installedVersion'', mk_str J (copy_trunc 64 version))]))))))"

section \<open>Small requests\<close>

definition fetch_public_ip :: "'j launcher_world \<Rightarrow> 'j ui_reply ctl" where
  "fetch_public_ip W =
     seq (calling (asks (lw_ip W) PublicIp)) (\<lambda>(E1, E2).
     seq (reads lc_settings) (\<lambda>p.
     case (case FetchPublicIPv4 64 E1 E2 of
             Some ip \<Rightarrow> Some ip
           | None \<Rightarrow> if ps_lastAdvertiseHost p \<noteq> [] then Some (copy_trunc 64 (ps_lastAdvertiseHost p)) else None) of
       None \<Rightarrow> ret (ErrorReply NoPublicIp)
     | Some ip \<Rightarrow>
         seq (in_settings (ps_lastAdvertiseHost_update (\<lambda>_. copy_trunc 64 ip))) (\<lambda>_.
         ret (Reply ''state'' [(''advertiseHost'', mk_str (lw_json W) ip),
           (''roomCodePreview'', mk_str (lw_json W) (PreviewRoomCode ip (ps_sessionPort p)))]))))"

definition copy_text :: "'j launcher_world \<Rightarrow> 'j \<Rightarrow> 'j ui_reply ctl" where
  "copy_text W msg =
     seq (value_str W msg ''text'' []) (\<lambda>t.
     seq (calling (asks (lw_ok W) (CopyText t))) (\<lambda>copied.
     ret (if copied then Reply ''copied'' [] else ErrorReply NotCopied)))"

definition open_url :: "'j launcher_world \<Rightarrow> 'j \<Rightarrow> 'j ui_reply ctl" where
  "open_url W msg =
     seq (value_str W msg ''url'' []) (\<lambda>url.
     if url = [] then ret (ErrorReply NoUrl)
     else
       seq (lift (IsAllowedExternalUrl url)) (\<lambda>allowed.
       if \<not> allowed then ret (ErrorReply OnlyGitHub)
       else
         seq (calling (asks (lw_ok W) (OpenUrl url))) (\<lambda>opened.
         ret (if opened then Reply ''openedUrl'' [] else ErrorReply UrlNotOpened))))"

definition preview_room_code :: "'j launcher_world \<Rightarrow> 'j \<Rightarrow> 'j ui_reply ctl" where
  "preview_room_code W msg =
     seq (value_str W msg ''advertiseHost'' []) (\<lambda>share.
     seq (reads (ps_sessionPort \<circ> lc_settings)) (\<lambda>own.
     seq (value_int W msg ''sessionPort'' (uint own)) (\<lambda>port.
     ret (Reply ''state'' [(''roomCodePreview'', mk_str (lw_json W)
       (PreviewRoomCode share (if port < 1 \<or> 65535 < port then own else word_of_int port)))]))))"

definition set_ui_mode :: "'j launcher_world \<Rightarrow> 'j \<Rightarrow> 'j ui_reply ctl" where
  "set_ui_mode W msg =
     seq (value_bool W msg ''simpleUi'' True) (\<lambda>simple.
     seq (in_settings (ps_simpleUi_update (\<lambda>_. if simple then 1 else 0))) (\<lambda>_. BuildStateJson W))"

text \<open>The address is checked and kept; False ends the message with an error.\<close>

definition save_broker_url :: "'j launcher_world \<Rightarrow> 'j \<Rightarrow> bool ctl" where
  "save_broker_url W msg =
     (if \<not> contains W msg ''brokerBaseUrl'' then ret True
      else
        seq (reads (ps_brokerBaseUrl \<circ> lc_settings)) (\<lambda>own.
        seq (value_str W msg ''brokerBaseUrl'' own) (\<lambda>broker.
        seq (parse_url W broker) (\<lambda>url.
        if url = None then ret False
        else seq (in_settings (ps_brokerBaseUrl_update (\<lambda>_. copy_trunc 256 broker))) (\<lambda>_. ret True)))))"

definition save_settings :: "'j launcher_world \<Rightarrow> 'j \<Rightarrow> 'j ui_reply ctl" where
  "save_settings W msg =
     seq (save_broker_url W msg) (\<lambda>kept.
     if \<not> kept then ret (ErrorReply BadBrokerUrl)
     else
       seq (reads (ps_defaultConnectMethod \<circ> lc_settings)) (\<lambda>own.
       seq (if contains W msg ''defaultConnectMethod''
            then seq (value_int W msg ''defaultConnectMethod'' (uint own)) (\<lambda>m.
              in_settings (ps_defaultConnectMethod_update (\<lambda>_. word_of_int m)))
            else ret ()) (\<lambda>_.
       BuildStateJson W)))"

section \<open>Updates\<close>

definition check_update :: "'j launcher_world \<Rightarrow> 'j ui_reply ctl" where
  "check_update W =
     seq (calling (asks (lw_check W) CheckUpdate)) (\<lambda>u.
     let str = mk_str (lw_json W) in ret (Reply ''updateCheck''
       ((''installedVersion'', str (uc_installed u)) #
        (if \<not> uc_ok u then [(''ok'', mk_bool (lw_json W) False), (''error'', str (uc_error u))]
         else [(''ok'', mk_bool (lw_json W) True), (''latestVersion'', str (uc_latest u)),
           (''updateAvailable'', mk_bool (lw_json W) (uc_available u)), (''releaseNotes'', str (uc_notes u)),
           (''releaseUrl'', str (uc_url u)), (''zipDownloadUrl'', str (uc_zip u)),
           (''zipApiUrl'', str (uc_zipApi u))]))))"

definition apply_update :: "'j launcher_world \<Rightarrow> 'j ui_reply ctl" where
  "apply_update W =
     seq (calling (asks (lw_ok W) GameRunning)) (\<lambda>running.
     if running then ret (ErrorReply CloseGameFirst)
     else
       seq (calling (asks (lw_check W) CheckUpdate)) (\<lambda>u.
       if \<not> uc_ok u then ret (ErrorReply (UpdateFailed (uc_error u)))
       else if \<not> uc_available u then ret (ErrorReply NoUpdate)
       else
         seq (calling (asks (lw_apply W) (ApplyUpdate (uc_zip u) (uc_zipApi u) (uc_latest u) (uc_sha u)))) (\<lambda>r.
         case r of
           Some e \<Rightarrow> ret (ErrorReply (UpdateFailed e))
         | None \<Rightarrow>
             seq (update (lc_exitForUpdate_update (\<lambda>_. True))) (\<lambda>_.
             ret (Reply ''updateApply'' [(''ok'', mk_bool (lw_json W) True),
               (''message'', mk_str (lw_json W) ''Update downloaded. The launcher will close and restart.'')])))))"

section \<open>Rooms\<close>

definition CreateRelayRoomWithAdvertise :: "'j launcher_world \<Rightarrow> string \<Rightarrow> string \<Rightarrow> (calls, room_result) act" where
  "CreateRelayRoomWithAdvertise W brokerBaseUrl displayName =
     seq (FetchBrokerHealth W brokerBaseUrl) (\<lambda>(_, health).
     if bh_forceVpsRelay health then
       seq (HashSidecarDllNextToLauncher W 128) (\<lambda>hash. case hash of
         None \<Rightarrow> ret (room_fails SidecarUnreadable)
       | Some h \<Rightarrow> CreateRelayRoom W brokerBaseUrl displayName [] h)
     else
       seq (FetchAdvertiseRelayHost W 64) (\<lambda>(_, host). CreateRelayRoom W brokerBaseUrl displayName host []))"

definition room_created :: "room_result \<Rightarrow> controller \<Rightarrow> controller" where
  "room_created r s =
     s\<lparr>lc_settings := (lc_settings s)\<lparr>ps_relayRoomCode := copy_trunc 32 (rr_shortCode r),
          ps_relaySessionPort := rr_relayPort r, ps_relayHostSecret := copy_trunc 128 (rr_hostSecret r)\<rparr>,
       lc_matchId := copy_trunc 33 (rr_matchId r), lc_roomToken := copy_trunc 33 (rr_roomToken r),
       lc_ggpoPort := rr_ggpoPort r\<rparr>"

text \<open>The em dash and the arrow of the texts, in UTF-8.\<close>

definition utf8_dash :: string where "utf8_dash = [CHR 0xE2, CHR 0x80, CHR 0x94]"

definition utf8_arrow :: string where "utf8_arrow = [CHR 0xE2, CHR 0x86, CHR 0x92]"

definition room_live :: "string \<Rightarrow> string" where
  "room_live code = copy_trunc 64 (''Room live '' @ utf8_dash @ '' '' @ code)"

definition create_relay_room :: "'j launcher_world \<Rightarrow> 'j \<Rightarrow> 'j ui_reply ctl" where
  "create_relay_room W msg =
     seq (reads lc_settings) (\<lambda>p.
     seq (value_str W msg ''displayName'' (ps_displayName p)) (\<lambda>name.
     seq (calling (CreateRelayRoomWithAdvertise W (ps_brokerBaseUrl p) name)) (\<lambda>r.
     if \<not> rr_ok r then ret (ErrorReply (Strategy (rr_error r)))
     else
       seq (update (room_created r)) (\<lambda>_.
       seq (calling (FetchBrokerHealth W (ps_brokerBaseUrl p))) (\<lambda>(fetched, health).
       ret (Reply ''state''
         [(''roomCodePreview'', mk_str (lw_json W) (rr_shortCode r)), (''relayHost'', mk_str (lw_json W) (rr_relayHost r)),
          (''relayPort'', mk_word (lw_json W) (rr_relayPort r)),
          (''forceVpsRelay'', mk_bool (lw_json W) (fetched \<and> bh_forceVpsRelay health)),
          (''connectionStatus'', mk_str (lw_json W) (room_live (rr_shortCode r)))]))))))"

definition relay_heartbeat :: "'j launcher_world \<Rightarrow> 'j \<Rightarrow> 'j ui_reply ctl" where
  "relay_heartbeat W msg =
     seq (reads lc_settings) (\<lambda>p.
     seq (value_str W msg ''roomCode'' (ps_relayRoomCode p)) (\<lambda>code.
     seq (calling (HeartbeatRelayRoom W (ps_brokerBaseUrl p) code (ps_relayHostSecret p))) (\<lambda>alive.
     ret (Reply ''state'' [(''heartbeatOk'', mk_bool (lw_json W) alive)]))))"

definition nat_text :: "nat_status \<Rightarrow> string \<times> string" where
  "nat_text n = (case n of
     RouterConfigured \<Rightarrow> (''Router configured'',
       ''UPnP opened session ports. Remote friends can try your room code; use Relay if it still fails.'')
   | RouterPartly \<Rightarrow> (''Router partially configured'',
       ''Some ports were opened. Prefer Relay hosting if joiners cannot connect.'')
   | RouterNotConfigured \<Rightarrow> (''Router not configured'',
       ''UPnP is unavailable (common on CGNAT). Use Relay room hosting '' @ utf8_dash @ '' no port forward needed.''))"

definition try_upnp :: "'j launcher_world \<Rightarrow> 'j \<Rightarrow> 'j ui_reply ctl" where
  "try_upnp W msg =
     seq (reads lc_settings) (\<lambda>p.
     seq (value_int W msg ''sessionPort'' (uint (ps_sessionPort p))) (\<lambda>port.
     seq (calling (TryConfigureHostUpnp W (word_of_int port) (ps_ggpoPort p))) (\<lambda>nat.
     ret (Reply ''state'' [(''natStatus'', mk_str (lw_json W) (fst (nat_text nat))),
       (''natDetail'', mk_str (lw_json W) (snd (nat_text nat))), (''natOk'', mk_bool (lw_json W) (nat \<noteq> RouterNotConfigured))]))))"

definition room_list :: "'j launcher_world \<Rightarrow> string \<Rightarrow> ('s, 'j \<times> bool) act" where
  "room_list W body =
     (let J = lw_json W; none = mk_arr J [] in
      catching (seq (parse_json W body) (\<lambda>j. ret
        (case (if contains W j ''rooms'' then j_at J j ''rooms'' else None) of
           None \<Rightarrow> (none, True)
         | Some rooms \<Rightarrow> (if j_arr J rooms = None then none else rooms, True))))
        (ret (none, False)))"

definition list_rooms :: "'j launcher_world \<Rightarrow> 'j ui_reply ctl" where
  "list_rooms W =
     (let J = lw_json W; empty = (''rooms'', mk_arr J []);
          failing = (\<lambda>why. Reply ''state'' [empty, (''listError'', mk_str J why)])
      in seq (reads (ps_brokerBaseUrl \<circ> lc_settings)) (\<lambda>broker.
         seq (parse_url W broker) (\<lambda>url. case url of
           None \<Rightarrow> ret (failing (''Room broker URL is not set. Use Advanced '' @ utf8_arrow @
             '' Room broker URL or SF4E_BROKER_URL.''))
         | Some parts \<Rightarrow>
             seq (calling (BrokerHttpGet W parts ''/v1/rooms'' 8192)) (\<lambda>(http, body).
             if \<not> hr_ok http then ret (failing ''Could not load open rooms.'')
             else
               seq (room_list W body) (\<lambda>(rooms, valid). ret
               (if valid then Reply ''state'' [(''rooms'', rooms)]
                else failing ''Invalid room list from service.''))))))"

section \<open>The transport of a room\<close>

definition ApplyConnectPlanToConfig :: "connect_plan \<Rightarrow> netplay_config \<Rightarrow> netplay_config" where
  "ApplyConnectPlanToConfig plan c =
     (if \<not> cp_ok plan then c
      else c\<lparr>nc_ggpoTransport := cp_transport plan, nc_ggpoRemotePort := cp_port plan,
             nc_ggpoRemoteHost := copy_trunc 64 (cp_host plan), nc_matchId := copy_trunc 33 (cp_matchId plan),
             nc_ggpoRoomToken := copy_trunc 33 (cp_roomToken plan)\<rparr>)"

text \<open>What the room this launcher created adds to the plan, in the code's order.\<close>

definition session_fallbacks :: "controller \<Rightarrow> netplay_config \<Rightarrow> netplay_config" where
  "session_fallbacks s c0 =
     (let c1 = (if lc_roomToken s \<noteq> [] \<and> nc_ggpoRoomToken c0 = [] then c0\<lparr>nc_ggpoRoomToken := lc_roomToken s\<rparr> else c0);
          c2 = (if lc_matchId s \<noteq> [] then c1\<lparr>nc_matchId := lc_matchId s\<rparr> else c1);
          c3 = (if lc_ggpoPort s \<noteq> 0 \<and> nc_ggpoRemotePort c2 = 0
                then c2\<lparr>nc_ggpoRemotePort := lc_ggpoPort s, nc_ggpoRemoteHost := nc_sessionHost c2\<rparr> else c2)
      in if nc_ggpoTransport c3 = 0 \<and> nc_ggpoRemotePort c3 \<noteq> 0 \<and> nc_ggpoRoomToken c3 \<noteq> []
         then c3\<lparr>nc_ggpoTransport := 1\<rparr> else c3)"

definition player_role :: "string \<Rightarrow> netplay_config \<Rightarrow> netplay_config" where
  "player_role role c =
     (if role = ''host'' then c\<lparr>nc_playerRole := 1\<rparr> else if role = ''guest'' then c\<lparr>nc_playerRole := 2\<rparr> else c)"

definition transport_override :: "string option \<Rightarrow> netplay_config \<Rightarrow> netplay_config" where
  "transport_override env c =
     (case env of
        None \<Rightarrow> c
      | Some v \<Rightarrow> if stricmp_eq v ''udp'' then c\<lparr>nc_ggpoTransport := 1\<rparr>
                  else if stricmp_eq v ''p2p'' then c\<lparr>nc_ggpoTransport := 2\<rparr> else c)"

definition legacy_forced :: "string option \<Rightarrow> bool" where
  "legacy_forced env = (case env of None \<Rightarrow> False | Some v \<Rightarrow> stricmp_eq v ''legacy'')"

definition ConfigureGgpoTransportForRelay :: "'j launcher_world \<Rightarrow> string \<Rightarrow> string \<Rightarrow> unit ctl" where
  "ConfigureGgpoTransportForRelay W roomCode role =
     (let env = lw_env W ''SF4E_GGPO_TRANSPORT''
      in if legacy_forced env then in_config (nc_ggpoTransport_update (\<lambda>_. 0))
         else
           seq (reads id) (\<lambda>s.
           seq (calling (FetchConnectPlan W (ps_brokerBaseUrl (lc_settings s)) roomCode role
             (if role = ''host'' then ps_relayHostSecret (lc_settings s) else []) (ps_ggpoPort (lc_settings s)))) (\<lambda>plan.
           in_config (\<lambda>c. transport_override env (player_role role
             (session_fallbacks s (ApplyConnectPlanToConfig plan c)))))))"

section \<open>Starting\<close>

text \<open>What both starts put into the configuration they cleared.\<close>

definition base_config :: "settings \<Rightarrow> netplay_config" where
  "base_config p = zero_config\<lparr>nc_version := SF4E_NETPLAY_CONFIG_VERSION,
     nc_displayName := copy_trunc 32 (ps_displayName p), nc_inputDelay := ps_inputDelay p,
     nc_sessionPort := ps_sessionPort p, nc_ggpoPort := ps_ggpoPort p, nc_editionSelect := ps_editionSelect p,
     nc_roundCount := ps_roundCount p, nc_roundTimeIntegral := ps_roundTimeIntegral p\<rparr>"

definition finish_config :: "netplay_config \<Rightarrow> netplay_config" where
  "finish_config c = NetplayConfigApplyGgpoDisconnectDefaults (c\<lparr>nc_deviceIdx := 0xff, nc_deviceType := 0xff\<rparr>)"

definition finishes :: "'j ui_reply ctl" where
  "finishes = seq (update (\<lambda>s. s\<lparr>lc_finished := True, lc_cancelled := False\<rparr>)) (\<lambda>_. ret NoReply)"

definition offline_start :: "'j launcher_world \<Rightarrow> 'j \<Rightarrow> 'j ui_reply ctl" where
  "offline_start W msg =
     seq (reads lc_settings) (\<lambda>p.
     seq (value_str W msg ''displayName'' (ps_displayName p)) (\<lambda>name.
     seq (in_settings (ps_displayName_update (\<lambda>_. copy_trunc 32 (if name = [] then ''Offline Tester'' else name)))) (\<lambda>_.
     seq (value_int W msg ''inputDelay'' (uint (ps_inputDelay p))) (\<lambda>delay.
     seq (in_settings (ps_inputDelay_update
       (\<lambda>_. word_of_int (if delay < 1 then 1 else if 10 < delay then 10 else delay)))) (\<lambda>_.
     seq (reads lc_settings) (\<lambda>q.
     seq (in_config (\<lambda>_. finish_config (base_config q))) (\<lambda>_.
     seq (value_bool W msg ''devOverlay'' True) (\<lambda>overlay.
     seq (in_config (nc_devOverlay_update (\<lambda>_. if overlay then 1 else 0))) (\<lambda>_.
     finishes)))))))))"

definition UpnpForStart :: "'j launcher_world \<Rightarrow> 16 word \<Rightarrow> unit ctl" where
  "UpnpForStart W port =
     seq (reads (ps_ggpoPort \<circ> lc_settings)) (\<lambda>ggpoPort.
     seq (calling (TryConfigureHostUpnp W port ggpoPort)) (\<lambda>_. ret ()))"

text \<open>The host of a relay room once its address is known; an error reply stops the start.\<close>

definition host_in_room :: "'j launcher_world \<Rightarrow> string \<Rightarrow> ui_error option ctl" where
  "host_in_room W relayCode =
     seq (in_config (nc_useCentralSession_update (\<lambda>_. 1))) (\<lambda>_.
     seq (reads (ps_brokerBaseUrl \<circ> lc_settings)) (\<lambda>broker.
     seq (calling (FetchBrokerHealth W broker)) (\<lambda>(_, health).
     seq (in_config (\<lambda>c. (if bh_forceVpsRelay health then c\<lparr>nc_useCentralSession := 2\<rparr> else c)
            \<lparr>nc_relayRoomCode := copy_trunc 32 relayCode\<rparr>)) (\<lambda>_.
     if bh_forceVpsRelay health then
       seq (ConfigureGgpoTransportForRelay W relayCode ''host'') (\<lambda>_. ret None)
     else
       seq (reads (nc_sessionPort \<circ> lc_config)) (\<lambda>port.
       seq (UpnpForStart W port) (\<lambda>_.
       seq (hosting (SpawnRelayHost W port)) (\<lambda>spawned.
       ret (if spawned then None else Some RelayHostFailed))))))))"

definition host_relay :: "'j launcher_world \<Rightarrow> 'j \<Rightarrow> ui_error option ctl" where
  "host_relay W msg =
     seq (value_str W msg ''relayRoomCode'' []) (\<lambda>typed.
     seq (reads lc_settings) (\<lambda>p.
     let relayCode = (if typed = [] then ps_relayRoomCode p else typed)
     in if relayCode = [] then ret (Some GetCodeFirst)
        else
          seq (calling (ResolveJoinRelayRoom W relayCode (ps_brokerBaseUrl p))) (\<lambda>r.
          if \<not> sr_ok r then ret (Some (Strategy (sr_error r)))
          else
            seq (in_config (\<lambda>c. c\<lparr>nc_sessionHost := copy_trunc 64 (sr_host r), nc_sessionPort := sr_port r\<rparr>)) (\<lambda>_.
            seq (in_settings (\<lambda>s. s\<lparr>ps_relaySessionPort := sr_port r, ps_relayRoomCode := copy_trunc 32 relayCode\<rparr>)) (\<lambda>_.
            host_in_room W relayCode)))))"

definition host_direct :: "'j launcher_world \<Rightarrow> 'j \<Rightarrow> string \<Rightarrow> ui_error option ctl" where
  "host_direct W msg connectMethod =
     seq (reads lc_lanIp) (\<lambda>lan.
     seq (in_config (\<lambda>c. c\<lparr>nc_useCentralSession := 0, nc_sessionHost := copy_trunc 64 lan\<rparr>)) (\<lambda>_.
     seq (value_str W msg ''advertiseHost'' []) (\<lambda>advertise.
     let adv = TrimRoomCodeInPlace (copy_trunc 64 advertise)
     in seq (if adv \<noteq> [] then in_settings (ps_lastAdvertiseHost_update (\<lambda>_. copy_trunc 64 adv)) else ret ()) (\<lambda>_.
        seq (if connectMethod = ''autoNat'' then ret True else value_bool W msg ''tryUpnp'' False) (\<lambda>upnp.
        seq (reads (ps_sessionPort \<circ> lc_settings)) (\<lambda>port.
        seq (if upnp then UpnpForStart W port else ret ()) (\<lambda>_. ret None)))))))"

definition start_host :: "'j launcher_world \<Rightarrow> 'j \<Rightarrow> string \<Rightarrow> ui_error option ctl" where
  "start_host W msg connectMethod =
     seq (in_config (nc_roomKey_update (\<lambda>_. ''1''))) (\<lambda>_.
     if connectMethod = ''relay'' then host_relay W msg else host_direct W msg connectMethod)"

definition join_endpoint :: "'j launcher_world \<Rightarrow> string \<Rightarrow> string \<Rightarrow> strategy_result ctl" where
  "join_endpoint W connectMethod roomCode =
     seq (reads lc_settings) (\<lambda>p.
     if connectMethod = ''matchmaking'' then
       calling (ResolveJoinMatchmaking W (ps_brokerBaseUrl p) (ps_displayName p))
     else if connectMethod = ''autoNat'' then ret ResolveJoinAutoNat
     else if connectMethod = ''relay'' then calling (ResolveJoinRelayRoom W roomCode (ps_brokerBaseUrl p))
     else ret (ResolveJoinDirectIp roomCode))"

text \<open>The host is probed over TCP unless the broker's relay carries the session.\<close>

definition probe_host :: "'j launcher_world \<Rightarrow> bool \<Rightarrow> string \<Rightarrow> strategy_result \<Rightarrow> bool ctl" where
  "probe_host W vpsRelay roomCode r =
     seq (reads lc_lanIp) (\<lambda>lan.
     if \<not> ShouldProbeJoinEndpoint roomCode (sr_host r) lan \<or> vpsRelay then ret True
     else
       seq (calling (asks (lw_tcp W) (ProbeTcp (sr_host r) (sr_port r)))) (\<lambda>E.
       ret (ProbeRemoteTcpConnect (lw_resolver W) (sr_host r) (sr_port r) 5000 E)))"

definition remember_join :: "string \<Rightarrow> string \<Rightarrow> unit ctl" where
  "remember_join connectMethod roomCode =
     seq (reads lc_config) (\<lambda>c.
     in_settings (ps_lastJoinHost_update (\<lambda>_.
       if connectMethod = ''relay'' then copy_trunc 128 roomCode
       else FormatRoomCode (nc_sessionHost c) (nc_sessionPort c) 128)))"

definition joined_config :: "string \<Rightarrow> string \<Rightarrow> bool \<Rightarrow> netplay_config \<Rightarrow> netplay_config" where
  "joined_config connectMethod roomCode vpsRelayJoin c =
     (let c1 = c\<lparr>nc_useCentralSession := (if vpsRelayJoin then 2 else 0)\<rparr>
      in if connectMethod = ''relay'' then c1\<lparr>nc_relayRoomCode := copy_trunc 32 roomCode\<rparr> else c1)"

definition join_at :: "'j launcher_world \<Rightarrow> string \<Rightarrow> string \<Rightarrow> strategy_result \<Rightarrow> ui_error option ctl" where
  "join_at W connectMethod roomCode r =
     seq (in_config (\<lambda>c. c\<lparr>nc_sessionHost := copy_trunc 64 (sr_host r), nc_sessionPort := sr_port r,
                          nc_useCentralSession := 0\<rparr>)) (\<lambda>_.
     seq (reads (ps_brokerBaseUrl \<circ> lc_settings)) (\<lambda>broker.
     seq (calling (FetchBrokerHealth W broker)) (\<lambda>(fetched, health).
     let vpsRelay = (fetched \<and> bh_forceVpsRelay health);
         vpsRelayJoin = (vpsRelay \<and> (connectMethod = ''relay'' \<or> connectMethod = ''matchmaking''))
     in seq (in_config (joined_config connectMethod roomCode vpsRelayJoin)) (\<lambda>_.
        seq (reads (nc_relayRoomCode \<circ> lc_config)) (\<lambda>code.
        seq (if vpsRelayJoin \<and> code \<noteq> [] then ConfigureGgpoTransportForRelay W code ''guest'' else ret ()) (\<lambda>_.
        seq (probe_host W vpsRelay roomCode r) (\<lambda>reachable.
        if \<not> reachable then ret (Some (HostUnreachable (sr_host r) (sr_port r)))
        else seq (remember_join connectMethod roomCode) (\<lambda>_. ret None))))))))"

definition start_join :: "'j launcher_world \<Rightarrow> 'j \<Rightarrow> string \<Rightarrow> ui_error option ctl" where
  "start_join W msg connectMethod =
     seq (value_str W msg ''joinAddress'' []) (\<lambda>address.
     seq (if address = [] then value_str W msg ''roomCode'' [] else ret address) (\<lambda>roomCode.
     seq (join_endpoint W connectMethod roomCode) (\<lambda>r.
     if \<not> sr_ok r then ret (Some (Strategy (sr_error r))) else join_at W connectMethod roomCode r)))"

definition transport_label :: "8 word \<Rightarrow> string" where
  "transport_label t = (if t = 2 then ''p2p'' else if t = 1 then ''udp_relay'' else ''legacy_session_tunnel'')"

definition report_start :: "'j launcher_world \<Rightarrow> unit ctl" where
  "report_start W =
     seq (reads id) (\<lambda>s.
     let c = lc_config s; p = lc_settings s
     in if nc_useCentralSession c = 2 \<and> nc_relayRoomCode c \<noteq> [] then
          seq (calling (PostRoomEvent W (ps_brokerBaseUrl p) (nc_relayRoomCode c) ''battle_start''
            (ps_relayHostSecret p) (transport_label (nc_ggpoTransport c)) [])) (\<lambda>_. ret ())
        else ret ())"

definition start_mode :: "string \<Rightarrow> int" where
  "start_mode m = (if m = ''host'' then mode_int NM_Host else if m = ''join'' then mode_int NM_Join else mode_int NM_Idle)"

text \<open>The settings of the message; False when the port is out of range.\<close>

definition start_settings :: "'j launcher_world \<Rightarrow> 'j \<Rightarrow> bool ctl" where
  "start_settings W msg =
     seq (reads lc_settings) (\<lambda>p.
     seq (value_str W msg ''displayName'' (ps_displayName p)) (\<lambda>name.
     seq (in_settings (ps_displayName_update (\<lambda>_. copy_trunc 32 name))) (\<lambda>_.
     seq (value_int W msg ''inputDelay'' (uint (ps_inputDelay p))) (\<lambda>delay.
     seq (in_settings (ps_inputDelay_update (\<lambda>_. word_of_int (if delay < 1 then 1 else delay)))) (\<lambda>_.
     seq (value_int W msg ''sessionPort'' (uint (ps_sessionPort p))) (\<lambda>port.
     if port < 1 \<or> 65535 < port then ret False
     else seq (in_settings (ps_sessionPort_update (\<lambda>_. word_of_int port))) (\<lambda>_. ret True)))))))"

definition start_config :: "'j launcher_world \<Rightarrow> 'j \<Rightarrow> int \<Rightarrow> unit ctl" where
  "start_config W msg mode =
     seq (reads lc_settings) (\<lambda>p.
     seq (in_config (\<lambda>_. (base_config p)\<lparr>nc_mode := mode\<rparr>)) (\<lambda>_.
     seq (value_bool W msg ''trainingMode'' False) (\<lambda>training.
     in_config (\<lambda>c. finish_config (c\<lparr>nc_trainingMode := (if training then 1 else 0), nc_useRelay := ps_useRelay p\<rparr>)))))"

definition start_connect :: "'j launcher_world \<Rightarrow> 'j \<Rightarrow> int \<Rightarrow> ui_error option ctl" where
  "start_connect W msg mode =
     seq (reads (ps_defaultConnectMethod \<circ> lc_settings)) (\<lambda>method.
     seq (value_str W msg ''connectMethod'' (DefaultConnectMethodString method)) (\<lambda>connectMethod.
     if mode = mode_int NM_Host then start_host W msg connectMethod
     else if mode = mode_int NM_Join then start_join W msg connectMethod
     else ret None))"

definition start_match :: "'j launcher_world \<Rightarrow> 'j \<Rightarrow> 'j ui_reply ctl" where
  "start_match W msg =
     seq (value_str W msg ''mode'' ''offline'') (\<lambda>modeStr.
     seq (start_settings W msg) (\<lambda>valid.
     if \<not> valid then ret (ErrorReply BadSessionPort)
     else
       seq (start_config W msg (start_mode modeStr)) (\<lambda>_.
       seq (start_connect W msg (start_mode modeStr)) (\<lambda>failed. case failed of
         Some e \<Rightarrow> ret (ErrorReply e)
       | None \<Rightarrow> seq (report_start W) (\<lambda>_. finishes)))))"

section \<open>Messages\<close>

definition cancel_launch :: "'j ui_reply ctl" where
  "cancel_launch = seq (update (\<lambda>s. s\<lparr>lc_cancelled := True, lc_finished := True\<rparr>)) (\<lambda>_. ret NoReply)"

definition dispatch :: "'j launcher_world \<Rightarrow> 'j \<Rightarrow> string \<Rightarrow> 'j ui_reply ctl" where
  "dispatch W msg type =
     (if type = ''getState'' then BuildStateJson W
      else if type = ''fetchPublicIp'' then fetch_public_ip W
      else if type = ''copyText'' then copy_text W msg
      else if type = ''openUrl'' then open_url W msg
      else if type = ''previewRoomCode'' then preview_room_code W msg
      else if type = ''setUiMode'' then set_ui_mode W msg
      else if type = ''saveSettings'' then save_settings W msg
      else if type = ''checkUpdate'' then check_update W
      else if type = ''applyUpdate'' then apply_update W
      else if type = ''createRelayRoom'' then create_relay_room W msg
      else if type = ''relayHeartbeat'' then relay_heartbeat W msg
      else if type = ''tryUpnp'' then try_upnp W msg
      else if type = ''listRooms'' then list_rooms W
      else if type = ''cancel'' then cancel_launch
      else if type = ''offlineStart'' then offline_start W msg
      else if type = ''start'' then start_match W msg
      else ret (ErrorReply UnknownMessage))"

definition HandleWebMessage :: "'j launcher_world \<Rightarrow> 'j \<Rightarrow> 'j ui_reply ctl" where
  "HandleWebMessage W msg =
     seq (value_str W msg ''type'' []) (\<lambda>type.
     seq (if RequiresProtocolVersion type then value_int W msg ''v'' 0 else ret kProtocolVersion) (\<lambda>version.
     if version \<noteq> kProtocolVersion then ret (ErrorReply ProtocolMismatch) else dispatch W msg type))"

text \<open>
  The worker's handle: an exception becomes an error reply; a reply that is not
  null is shown, and the controller's flags tell whether to exit.
\<close>

definition bridge_handle :: "'j launcher_world \<Rightarrow> 'j \<Rightarrow> ('j ui_reply \<times> bool \<times> bool) ctl" where
  "bridge_handle W msg =
     seq (catching (HandleWebMessage W msg) (ret (ErrorReply Thrown))) (\<lambda>reply.
     seq (reads (\<lambda>s. (reply, lc_exitForUpdate s, lc_finished s))) ret)"

end
