(* ===== verification/Launcher_Facts.thy ===== *)
theory Launcher_Facts
  imports Launch_Controller
begin

text \<open>
  What the launcher guarantees by itself: where its requests may go, when it may
  start the game, that its settings survive a restart, and that a room code is
  canonical once it is accepted. The locale \<open>steady\<close> is the contract the
  operations share, a relation between the states before and after that every
  step respects; it is interpreted on the growth of the call log and on fields
  left alone.
\<close>

named_theorems steady_rules \<open>a step relation is respected by the combinators and the operations\<close>

section \<open>Relations between the states of an action\<close>

definition leads :: "('s \<Rightarrow> 's \<Rightarrow> bool) \<Rightarrow> ('s, 'a) act \<Rightarrow> bool" where
  "leads R f \<longleftrightarrow> (\<forall>s. R s (snd (f s)))"

lemma leadsD: "leads R f \<Longrightarrow> f s = (r, s') \<Longrightarrow> R s s'"
  by (metis leads_def snd_conv)

locale steady =
  fixes R :: "'s \<Rightarrow> 's \<Rightarrow> bool"
  assumes same: "R s s"
    and through: "R s t \<Longrightarrow> R t u \<Longrightarrow> R s u"
begin

lemma done_at_once: "leads R (ret a)" "leads R (lift r)" "leads R (reads h)"
  by (simp_all add: leads_def same)

lemma in_turn: "leads R f \<Longrightarrow> (\<And>a. leads R (k a)) \<Longrightarrow> leads R (seq f k)"
  unfolding leads_def seq_def
  by (auto split: prod.splits outcome.splits intro: through) (metis snd_conv through)+

lemma caught: "leads R f \<Longrightarrow> leads R h \<Longrightarrow> leads R (catching f h)"
  unfolding leads_def catching_def
  by (auto split: prod.splits outcome.splits) (metis snd_conv through)+

end

text \<open>The part of the state a relation speaks of, and the growth of the log.\<close>

definition along :: "('s \<Rightarrow> 't) \<Rightarrow> ('t \<Rightarrow> 't \<Rightarrow> bool) \<Rightarrow> 's \<Rightarrow> 's \<Rightarrow> bool" where
  "along g R s t = R (g s) (g t)"

definition logged :: "('c \<Rightarrow> bool) \<Rightarrow> 'c list \<Rightarrow> 'c list \<Rightarrow> bool" where
  "logged P s t \<longleftrightarrow> (\<exists>new. t = s @ new \<and> list_all P new)"

interpretation log: steady "along g (logged P)" for g :: "'s \<Rightarrow> 'c list" and P
proof
  show "along g (logged P) s s" for s by (simp add: along_def logged_def)
next
  fix s t u assume "along g (logged P) s t" "along g (logged P) t u"
  then obtain x y where "g t = g s @ x" "list_all P x" "g u = g t @ y" "list_all P y"
    by (auto simp: along_def logged_def)
  then show "along g (logged P) s u"
    unfolding along_def logged_def by (intro exI [of _ "x @ y"]) simp
qed

interpretation kept: steady "along g (=)" for g :: "'s \<Rightarrow> 't"
  by unfold_locales (simp_all add: along_def)

lemmas steady_log = log.done_at_once log.in_turn log.caught
lemmas steady_kept = kept.done_at_once kept.in_turn kept.caught
declare steady_log [steady_rules] steady_kept [steady_rules]

lemma leads_cases [steady_rules]:
  "leads R f \<Longrightarrow> leads R h \<Longrightarrow> leads R (if b then f else h)"
  "(\<And>a c. leads R (p a c)) \<Longrightarrow> leads R (case_prod p x)"
  "(y = None \<Longrightarrow> leads R n) \<Longrightarrow> (\<And>a. y = Some a \<Longrightarrow> leads R (m a)) \<Longrightarrow> leads R (case_option n m y)"
  by (auto split: prod.splits option.splits)

lemma leads_update [steady_rules]:
  "(\<And>s. g (f s) = g s) \<Longrightarrow> leads (along g (logged P)) (update f)"
  "(\<And>s. h (f s) = h s) \<Longrightarrow> leads (along h (=)) (update f)"
  by (simp_all add: leads_def along_def logged_def)

lemma leads_on [steady_rules]:
  "leads (along id (logged P)) f \<Longrightarrow> leads (along lc_calls (logged P)) (calling f)"
  "leads (along snd (logged P)) h \<Longrightarrow> leads (along lc_calls (logged P)) (hosting h)"
  "leads (along id (logged P)) f \<Longrightarrow> leads (along snd (logged P)) (outside f)"
  "leads (along snd (logged P)) i \<Longrightarrow> leads (along id (logged P)) (filling r i)"
proof -
  assume f: "leads (along id (logged P)) f"
  have "logged P t (snd (f t))" for t using f by (simp add: leads_def along_def)
  then show "leads (along lc_calls (logged P)) (calling f)" "leads (along snd (logged P)) (outside f)"
    by (simp_all add: leads_def along_def calling_def outside_def on_def case_prod_unfold)
next
  assume h: "leads (along snd (logged P)) h"
  have "logged P b (snd (snd (h (a, b))))" for a b using h by (simp add: leads_def along_def)
  then show "leads (along lc_calls (logged P)) (hosting h)"
    by (auto simp: leads_def along_def hosting_def on_def case_prod_unfold)
next
  assume i: "leads (along snd (logged P)) i"
  have "logged P t (snd (snd (i (r, t))))" for t
    using i by (auto simp: leads_def along_def)
  then show "leads (along id (logged P)) (filling r i)"
    by (simp add: leads_def along_def filling_def case_prod_unfold split: outcome.split)
qed

lemma leads_small [steady_rules]:
  "leads (along snd (logged P)) (fill u)"
  "P c \<Longrightarrow> leads (along id (logged P)) (asks a c)"
  "leads (along id (logged P)) f \<Longrightarrow> leads (along id (logged P)) (result_of f)"
  "leads (along lc_calls (logged P)) (in_settings v)"
  "leads (along lc_calls (logged P)) (in_config w)"
  by (auto simp: fill_def asks_def in_settings_def in_config_def result_of_def intro!: steady_rules)
     (simp_all add: leads_def along_def logged_def)

lemma leads_values [steady_rules]:
  "leads (along g (logged P)) (value_str W j k ds)" "leads (along g (logged P)) (value_int W j k di)"
  "leads (along g (logged P)) (value_bool W j k db)" "leads (along g (logged P)) (value_message W j dm)"
  "leads (along g (logged P)) (parse_json W body)" "leads (along g (logged P)) (dump_json W kvs)"
  by (simp_all add: value_str_def value_int_def value_bool_def value_message_def parse_json_def dump_json_def
      log.done_at_once)

section \<open>Requests go where they may\<close>

definition host_permitted :: "environ \<Rightarrow> string \<Rightarrow> bool" where
  "host_permitted env host \<longleftrightarrow> host \<noteq> [] \<and>
     (if stricmp_eq host ''localhost'' then AllowLocalBrokerHost env else case scan_ipv4 host of
        None \<Rightarrow> True
      | Some (a, b, _, _) \<Rightarrow> (a = 127 \<longrightarrow> AllowLocalBrokerHost env) \<and> a \<notin> {0, 10} \<and> (a, b) \<notin> {(192, 168), (169, 254)} \<and>
          \<not> (a = 172 \<and> b \<in> {16..31}) \<and> \<not> (a = 100 \<and> b \<in> {64..127}))"

definition url_permitted :: "environ \<Rightarrow> broker_url \<Rightarrow> bool" where
  "url_permitted env u \<longleftrightarrow> host_permitted env (bu_host u) \<and> 1 \<le> bu_port u \<and> bu_port u \<le> 65535 \<and>
     (bu_https u \<or> AllowHttpBroker env)"

fun call_permitted :: "environ \<Rightarrow> call \<Rightarrow> bool" where
  "call_permitted env (HttpGet u path n) = url_permitted env u"
| "call_permitted env (HttpPostJson u path body n) = url_permitted env u"
| "call_permitted env (NatProbe host port) = host_permitted env host"
| "call_permitted env c = True"

lemma not_blocked: "\<not> IsBlockedBrokerHostLiteral env host \<Longrightarrow> host_permitted env host"
  by (auto simp: IsBlockedBrokerHostLiteral_def host_permitted_def split: if_splits option.splits)

lemma broker_url_permitted: "ParseBrokerBaseUrl env url = Ret (Some u) \<Longrightarrow> url_permitted env u"
  by (auto simp: ParseBrokerBaseUrl_def broker_host_port_def url_permitted_def Let_def not_blocked
      split: option.splits outcome.splits prod.splits if_splits)

lemma leads_parse_url:
  assumes "\<And>u. (\<And>p. u = Some p \<Longrightarrow> url_permitted (lw_env W) p) \<Longrightarrow> leads (along g (logged P)) (k u)"
  shows "leads (along g (logged P)) (seq (parse_url W url) k)"
proof (cases "ParseBrokerBaseUrl (lw_env W) url")
  case (Ret u)
  have "url_permitted (lw_env W) p" if "u = Some p" for p
    using Ret that by (intro broker_url_permitted) simp
  then show ?thesis by (simp add: parse_url_def Ret) (rule assms)
qed (simp_all add: parse_url_def log.done_at_once)

lemma permitted_http [steady_rules]:
  "url_permitted (lw_env W) u \<Longrightarrow> leads (along id (logged (call_permitted (lw_env W)))) (BrokerHttpGet W u p n)"
  "url_permitted (lw_env W) u \<Longrightarrow> leads (along id (logged (call_permitted (lw_env W)))) (BrokerHttpPostJson W u p b n)"
  unfolding BrokerHttpGet_def BrokerHttpPostJson_def by (intro steady_rules; simp)+

lemma steady_reading [steady_rules]:
  "leads (along snd (logged P)) (read_room W body)" "leads (along snd (logged P)) (read_health W body)"
  "leads (along snd (logged P)) (read_queue W body)" "leads (along id (logged P)) (queue_body W name hash)"
  "leads (along snd (logged P)) (read_created W body)" "leads (along id (logged P)) (read_heartbeat W body)"
  "leads (along snd (logged P)) (ApplyConnectPlanJson W j)" "leads (along snd (logged P)) (read_registration W body)"
  "leads (along id (logged P)) (BrokerMessageFromBody W body)" "leads (along id (logged P)) (event_detail W body)"
  "leads (along id (logged P)) (FormatBrokerPostError W url http body)"
  unfolding read_room_def read_health_def read_queue_def queue_body_def read_created_def read_heartbeat_def
    ApplyConnectPlanJson_def read_registration_def BrokerMessageFromBody_def event_detail_def
    FormatBrokerPostError_def keep_str_def keep_int_def plan_host_def plan_port_def Let_def
  by (intro steady_rules)+

lemma permitted_join_room [steady_rules]: "leads (along id (logged (call_permitted (lw_env W))))
    (ResolveJoinRelayRoom W code url)"
  unfolding ResolveJoinRelayRoom_def by (intro leads_parse_url steady_rules; simp)

lemma permitted_health [steady_rules]: "leads (along id (logged (call_permitted (lw_env W))))
    (FetchBrokerHealth W url)"
  unfolding FetchBrokerHealth_def by (intro leads_parse_url steady_rules; simp)

lemma permitted_hash [steady_rules]: "leads (along id (logged (call_permitted (lw_env W))))
    (HashSidecarDllNextToLauncher W n)"
  unfolding HashSidecarDllNextToLauncher_def by (intro leads_parse_url steady_rules; simp)

lemma permitted_queue [steady_rules]: "url_permitted (lw_env W) parts \<Longrightarrow> leads (along id (logged (call_permitted (lw_env W))))
    (join_queue W parts url name hash)"
  unfolding join_queue_def matched_def by (intro leads_parse_url steady_rules; simp)

lemma permitted_matchmaking [steady_rules]: "leads (along id (logged (call_permitted (lw_env W))))
    (ResolveJoinMatchmaking W url name)"
  unfolding ResolveJoinMatchmaking_def by (intro leads_parse_url steady_rules; simp)

lemma permitted_upnp [steady_rules]: "leads (along id (logged (call_permitted (lw_env W))))
    (TryConfigureHostUpnp W p q)"
  unfolding TryConfigureHostUpnp_def TryMapUpnpPort_def by (intro leads_parse_url steady_rules; simp)

lemma permitted_create [steady_rules]: "leads (along id (logged (call_permitted (lw_env W))))
    (CreateRelayRoom W url name host hash)"
  unfolding CreateRelayRoom_def by (intro leads_parse_url steady_rules; simp)

lemma permitted_advertise [steady_rules]: "leads (along id (logged (call_permitted (lw_env W))))
    (FetchAdvertiseRelayHost W n)"
  unfolding FetchAdvertiseRelayHost_def by (intro leads_parse_url steady_rules; simp)

lemma permitted_heartbeat [steady_rules]: "leads (along id (logged (call_permitted (lw_env W))))
    (HeartbeatRelayRoom W url code secret)"
  unfolding HeartbeatRelayRoom_def by (intro leads_parse_url steady_rules; simp)

lemma permitted_probe [steady_rules]: "host_permitted (lw_env W) host \<Longrightarrow> leads (along id (logged (call_permitted (lw_env W))))
    (SendBrokerNatProbe W host port)"
  unfolding SendBrokerNatProbe_def by (intro leads_parse_url steady_rules; simp)

lemma permitted_register [steady_rules]: "url_permitted (lw_env W) parts \<Longrightarrow> leads (along snd (logged (call_permitted (lw_env W))))
    (register_endpoint W parts code role secret port)"
  unfolding register_endpoint_def by (intro leads_parse_url steady_rules; simp)

lemma permitted_read_plan [steady_rules]: "url_permitted (lw_env W) parts \<Longrightarrow> leads (along snd (logged (call_permitted (lw_env W))))
    (read_plan W parts code role secret port body)"
  unfolding read_plan_def by (intro leads_parse_url steady_rules; simp add: url_permitted_def)

lemma permitted_plan [steady_rules]: "leads (along id (logged (call_permitted (lw_env W))))
    (FetchConnectPlan W url code role secret port)"
  unfolding FetchConnectPlan_def by (intro leads_parse_url steady_rules; simp)

lemma permitted_event [steady_rules]: "leads (along id (logged (call_permitted (lw_env W))))
    (PostRoomEvent W url code ty secret label detail)"
  unfolding PostRoomEvent_def by (intro leads_parse_url steady_rules; simp)

lemma permitted_stop [steady_rules]: "leads (along snd (logged (call_permitted (lw_env W))))
    (StopRelayHost W)"
  unfolding StopRelayHost_def 
  by (auto simp: leads_def along_def logged_def)

lemma permitted_spawn [steady_rules]: "leads (along snd (logged (call_permitted (lw_env W))))
    (SpawnRelayHost W port)"
  unfolding SpawnRelayHost_def by (intro leads_parse_url steady_rules; simp)

section \<open>The controller's messages\<close>

text \<open>What decides that the launcher window closes and the game starts.\<close>

definition launch_flags :: "controller \<Rightarrow> bool \<times> bool" where
  "launch_flags s = (lc_finished s, lc_cancelled s)"

lemma keeps_flags [steady_rules]:
  "leads (along launch_flags (=)) (calling f)" "leads (along launch_flags (=)) (hosting h)"
  "leads (along launch_flags (=)) (in_settings v)" "leads (along launch_flags (=)) (in_config w)"
  by (simp_all add: leads_def along_def launch_flags_def calling_def hosting_def on_def in_settings_def in_config_def
      case_prod_unfold)

lemma keeps_values [steady_rules]:
  "leads (along g (=)) (value_str W j k ds)" "leads (along g (=)) (value_int W j k di)"
  "leads (along g (=)) (value_bool W j k db)" "leads (along g (=)) (parse_json W body)"
  "leads (along g (=)) (parse_url W url)"
  by (simp_all add: value_str_def value_int_def value_bool_def parse_json_def parse_url_def kept.done_at_once)

lemma steady_state [steady_rules]:
  "leads (along lc_calls (logged (call_permitted (lw_env W)))) (BuildStateJson W)"
  "leads (along launch_flags (=)) (BuildStateJson W)"
  unfolding BuildStateJson_def Let_def by (intro leads_parse_url steady_rules; simp add: launch_flags_def)+

lemma steady_public_ip [steady_rules]:
  "leads (along lc_calls (logged (call_permitted (lw_env W)))) (fetch_public_ip W)"
  "leads (along launch_flags (=)) (fetch_public_ip W)"
  unfolding fetch_public_ip_def by (intro leads_parse_url steady_rules; simp add: launch_flags_def)+

lemma steady_copy [steady_rules]:
  "leads (along lc_calls (logged (call_permitted (lw_env W)))) (copy_text W msg)"
  "leads (along launch_flags (=)) (copy_text W msg)"
  unfolding copy_text_def by (intro leads_parse_url steady_rules; simp add: launch_flags_def)+

lemma steady_open [steady_rules]:
  "leads (along lc_calls (logged (call_permitted (lw_env W)))) (open_url W msg)"
  "leads (along launch_flags (=)) (open_url W msg)"
  unfolding open_url_def by (intro leads_parse_url steady_rules; simp add: launch_flags_def)+

lemma steady_preview [steady_rules]:
  "leads (along lc_calls (logged (call_permitted (lw_env W)))) (preview_room_code W msg)"
  "leads (along launch_flags (=)) (preview_room_code W msg)"
  unfolding preview_room_code_def by (intro leads_parse_url steady_rules; simp add: launch_flags_def)+

lemma steady_ui_mode [steady_rules]:
  "leads (along lc_calls (logged (call_permitted (lw_env W)))) (set_ui_mode W msg)"
  "leads (along launch_flags (=)) (set_ui_mode W msg)"
  unfolding set_ui_mode_def by (intro leads_parse_url steady_rules; simp add: launch_flags_def)+

lemma steady_save [steady_rules]:
  "leads (along lc_calls (logged (call_permitted (lw_env W)))) (save_settings W msg)"
  "leads (along launch_flags (=)) (save_settings W msg)"
  unfolding save_settings_def save_broker_url_def by (intro leads_parse_url steady_rules; simp add: launch_flags_def)+

lemma steady_check [steady_rules]:
  "leads (along lc_calls (logged (call_permitted (lw_env W)))) (check_update W)"
  "leads (along launch_flags (=)) (check_update W)"
  unfolding check_update_def Let_def by (intro leads_parse_url steady_rules; simp add: launch_flags_def)+

lemma steady_apply [steady_rules]:
  "leads (along lc_calls (logged (call_permitted (lw_env W)))) (apply_update W)"
  "leads (along launch_flags (=)) (apply_update W)"
  unfolding apply_update_def by (intro leads_parse_url steady_rules; simp add: launch_flags_def)+

lemma steady_create [steady_rules]:
  "leads (along lc_calls (logged (call_permitted (lw_env W)))) (create_relay_room W msg)"
  "leads (along launch_flags (=)) (create_relay_room W msg)"
  unfolding create_relay_room_def CreateRelayRoomWithAdvertise_def room_created_def by (intro leads_parse_url steady_rules; simp add: launch_flags_def)+

lemma steady_heartbeat [steady_rules]:
  "leads (along lc_calls (logged (call_permitted (lw_env W)))) (relay_heartbeat W msg)"
  "leads (along launch_flags (=)) (relay_heartbeat W msg)"
  unfolding relay_heartbeat_def by (intro leads_parse_url steady_rules; simp add: launch_flags_def)+

lemma steady_upnp [steady_rules]:
  "leads (along lc_calls (logged (call_permitted (lw_env W)))) (try_upnp W msg)"
  "leads (along launch_flags (=)) (try_upnp W msg)"
  unfolding try_upnp_def by (intro leads_parse_url steady_rules; simp add: launch_flags_def)+

lemma steady_list [steady_rules]:
  "leads (along lc_calls (logged (call_permitted (lw_env W)))) (list_rooms W)"
  "leads (along launch_flags (=)) (list_rooms W)"
  unfolding list_rooms_def room_list_def Let_def by (intro leads_parse_url steady_rules; simp add: launch_flags_def)+

lemma steady_transport [steady_rules]:
  "leads (along lc_calls (logged (call_permitted (lw_env W)))) (ConfigureGgpoTransportForRelay W code role)"
  "leads (along launch_flags (=)) (ConfigureGgpoTransportForRelay W code role)"
  unfolding ConfigureGgpoTransportForRelay_def Let_def by (intro leads_parse_url steady_rules; simp add: launch_flags_def)+

lemma steady_upnp_start [steady_rules]:
  "leads (along lc_calls (logged (call_permitted (lw_env W)))) (UpnpForStart W port)"
  "leads (along launch_flags (=)) (UpnpForStart W port)"
  unfolding UpnpForStart_def by (intro leads_parse_url steady_rules; simp add: launch_flags_def)+

lemma steady_host_room [steady_rules]:
  "leads (along lc_calls (logged (call_permitted (lw_env W)))) (host_in_room W code)"
  "leads (along launch_flags (=)) (host_in_room W code)"
  unfolding host_in_room_def by (intro leads_parse_url steady_rules; simp add: launch_flags_def)+

lemma steady_host [steady_rules]:
  "leads (along lc_calls (logged (call_permitted (lw_env W)))) (start_host W msg how)"
  "leads (along launch_flags (=)) (start_host W msg how)"
  unfolding start_host_def host_relay_def host_direct_def Let_def by (intro leads_parse_url steady_rules; simp add: launch_flags_def)+

lemma steady_join_endpoint [steady_rules]:
  "leads (along lc_calls (logged (call_permitted (lw_env W)))) (join_endpoint W how code)"
  "leads (along launch_flags (=)) (join_endpoint W how code)"
  unfolding join_endpoint_def by (intro leads_parse_url steady_rules; simp add: launch_flags_def)+

lemma steady_join_at [steady_rules]:
  "leads (along lc_calls (logged (call_permitted (lw_env W)))) (join_at W how code r)"
  "leads (along launch_flags (=)) (join_at W how code r)"
  unfolding join_at_def probe_host_def remember_join_def Let_def by (intro leads_parse_url steady_rules; simp add: launch_flags_def)+

lemma steady_join [steady_rules]:
  "leads (along lc_calls (logged (call_permitted (lw_env W)))) (start_join W msg how)"
  "leads (along launch_flags (=)) (start_join W msg how)"
  unfolding start_join_def by (intro leads_parse_url steady_rules; simp add: launch_flags_def)+

lemma steady_report [steady_rules]:
  "leads (along lc_calls (logged (call_permitted (lw_env W)))) (report_start W)"
  "leads (along launch_flags (=)) (report_start W)"
  unfolding report_start_def Let_def by (intro leads_parse_url steady_rules; simp add: launch_flags_def)+

lemma steady_settings [steady_rules]:
  "leads (along lc_calls (logged (call_permitted (lw_env W)))) (start_settings W msg)"
  "leads (along launch_flags (=)) (start_settings W msg)"
  unfolding start_settings_def by (intro leads_parse_url steady_rules; simp add: launch_flags_def)+

lemma steady_config [steady_rules]:
  "leads (along lc_calls (logged (call_permitted (lw_env W)))) (start_config W msg mode)"
  "leads (along launch_flags (=)) (start_config W msg mode)"
  unfolding start_config_def by (intro leads_parse_url steady_rules; simp add: launch_flags_def)+

lemma steady_connect [steady_rules]:
  "leads (along lc_calls (logged (call_permitted (lw_env W)))) (start_connect W msg mode)"
  "leads (along launch_flags (=)) (start_connect W msg mode)"
  unfolding start_connect_def by (intro leads_parse_url steady_rules; simp add: launch_flags_def)+

section \<open>When the launcher lets go\<close>

text \<open>The values an action returns, and a message that either finishes the launch with a
  null reply or leaves its flags alone.\<close>

definition gives :: "('a \<Rightarrow> bool) \<Rightarrow> ('s, 'a) act \<Rightarrow> bool" where
  "gives Q f \<longleftrightarrow> (\<forall>s a. fst (f s) = Ret a \<longrightarrow> Q a)"

definition settles :: "'j ui_reply ctl \<Rightarrow> bool" where
  "settles f \<longleftrightarrow> (\<forall>s. if fst (f s) = Ret NoReply then lc_finished (snd (f s))
     else launch_flags (snd (f s)) = launch_flags s)"

lemma gives_rules:
  "Q a \<Longrightarrow> gives Q (ret a)" "(\<And>a. gives Q (k a)) \<Longrightarrow> gives Q (seq h k)"
  "gives Q f \<Longrightarrow> gives Q g \<Longrightarrow> gives Q (if b then f else g)"
  "(\<And>a c. gives Q (p a c)) \<Longrightarrow> gives Q (case_prod p x)"
  "gives Q n \<Longrightarrow> (\<And>a. gives Q (m a)) \<Longrightarrow> gives Q (case_option n m y)"
  by (auto simp: gives_def seq_def split: prod.splits option.splits outcome.splits)

lemma settles_rules:
  "settles (ret (ErrorReply e))"
  "leads (along launch_flags (=)) h \<Longrightarrow> (\<And>a. settles (k a)) \<Longrightarrow> settles (seq h k)"
  "settles f \<Longrightarrow> settles g \<Longrightarrow> settles (if b then f else g)"
  "settles n \<Longrightarrow> (\<And>a. settles (m a)) \<Longrightarrow> settles (case_option n m y)"
  "settles finishes" "settles cancel_launch"
  by (auto simp: settles_def seq_def leads_def along_def finishes_def cancel_launch_def
      split: prod.splits option.splits outcome.splits) (metis fst_conv snd_conv)+

lemma settles_reply:
  "leads (along launch_flags (=)) f \<Longrightarrow> gives (\<lambda>r. r \<noteq> NoReply) f \<Longrightarrow> settles f"
  by (auto simp: settles_def leads_def along_def gives_def)

lemma replies:
  "gives (\<lambda>r. r \<noteq> NoReply) (BuildStateJson W)" "gives (\<lambda>r. r \<noteq> NoReply) (fetch_public_ip W)"
  "gives (\<lambda>r. r \<noteq> NoReply) (copy_text W msg)" "gives (\<lambda>r. r \<noteq> NoReply) (open_url W msg)"
  "gives (\<lambda>r. r \<noteq> NoReply) (preview_room_code W msg)" "gives (\<lambda>r. r \<noteq> NoReply) (set_ui_mode W msg)"
  "gives (\<lambda>r. r \<noteq> NoReply) (save_settings W msg)" "gives (\<lambda>r. r \<noteq> NoReply) (check_update W)"
  "gives (\<lambda>r. r \<noteq> NoReply) (apply_update W)" "gives (\<lambda>r. r \<noteq> NoReply) (create_relay_room W msg)"
  "gives (\<lambda>r. r \<noteq> NoReply) (relay_heartbeat W msg)" "gives (\<lambda>r. r \<noteq> NoReply) (try_upnp W msg)"
  "gives (\<lambda>r. r \<noteq> NoReply) (list_rooms W)"
  unfolding BuildStateJson_def fetch_public_ip_def copy_text_def open_url_def preview_room_code_def set_ui_mode_def
    save_settings_def check_update_def apply_update_def create_relay_room_def relay_heartbeat_def try_upnp_def
    list_rooms_def Let_def
  by ((intro gives_rules; simp)+)

lemma settles_start: "settles (start_match W msg)"
  unfolding start_match_def by (intro settles_rules steady_rules)

lemma settles_offline: "settles (offline_start W msg)"
  unfolding offline_start_def by (intro settles_rules steady_rules)

lemma settles_dispatch: "settles (dispatch W msg type)"
  unfolding dispatch_def
  by (intro settles_rules(3) settles_start settles_offline settles_rules(6) settles_rules(1)
      settles_reply replies steady_rules)

lemma settles_message: "settles (HandleWebMessage W msg)"
  unfolding HandleWebMessage_def by (intro settles_rules settles_dispatch steady_rules)

lemma permitted_finish [steady_rules]:
  "leads (along lc_calls (logged P)) finishes" "leads (along lc_calls (logged P)) cancel_launch"
  unfolding finishes_def cancel_launch_def by (intro steady_rules; simp)+

lemma permitted_message:
  "leads (along lc_calls (logged (call_permitted (lw_env W)))) (HandleWebMessage W msg)"
  unfolding HandleWebMessage_def dispatch_def start_match_def offline_start_def by (intro steady_rules)

section \<open>A launcher to try them on\<close>

text \<open>A broker with one room on its own relay, the messages of host and guest, and a launcher.\<close>

definition http_ok :: "string \<Rightarrow> http_env" where
  "http_ok body = \<lparr>he_open = True, he_connect = (True, False), he_request = True, he_send = (True, False),
     he_receive = (True, False), he_status = 200, he_body = [(Some (length body), Some body)]\<rparr>"

definition broker_doc :: "string \<Rightarrow> jval option" where
  "broker_doc t =
     (if t = ''health'' then Some (JObj [(''ok'', JBool True), (''forceVpsRelay'', JBool True)])
      else if t = ''room'' then Some (JObj [(''host'', JStr ''9.9.9.9''), (''port'', JInt 4000)])
      else if t = ''plan'' then Some (JObj [(''transport'', JStr ''udp_relay''), (''ggpoRemoteHost'', JStr ''9.9.9.9''),
        (''ggpoRemotePort'', JInt 4001), (''matchId'', JStr ''m1''), (''roomToken'', JStr ''t1'')])
      else if t = ''queue'' then Some (JObj [(''host'', JStr ''9.9.9.9''), (''port'', JInt 4000)])
      else None)"

definition broker_text :: "call \<Rightarrow> string" where
  "broker_text c = (case c of
     HttpGet _ path _ \<Rightarrow>
       if path = ''/v1/health'' then ''health'' else if length path < 24 then ''room'' else ''plan''
   | HttpPostJson _ path _ _ \<Rightarrow> if path = ''/v1/queue/join'' then ''queue'' else ''other'' | _ \<Rightarrow> [])"

definition demo_world :: "jval launcher_world" where
  "demo_world = \<lparr>lw_env = (\<lambda>_. None), lw_json = jval_ops, lw_parse = broker_doc, lw_dump = (\<lambda>_. Some ''{}''),
     lw_pretty = (\<lambda>_. Some ''{}''), lw_lan = None,
     lw_resolver = \<lparr>rs_winsock = True, rs_pton = (\<lambda>_. Some 0), rs_ntop = (\<lambda>_. None), rs_lookup = (\<lambda>_. None)\<rparr>,
     lw_http = (\<lambda>log. http_ok (broker_text (last log))),
     lw_probe = (\<lambda>_. \<lparr>np_winsock = True, np_socket = True, np_pton = True, np_sent = True, np_select = 0\<rparr>),
     lw_tcp = (\<lambda>_. \<lparr>ce_socket = True, ce_connected = True, ce_pending = False, ce_select = 0, ce_soError = None\<rparr>),
     lw_ip = (\<lambda>_. (http_ok [], http_ok [])),
     lw_upnp = (\<lambda>_. \<lparr>un_nat = False, un_mappings = False, un_added = False\<rparr>),
     lw_hash = (\<lambda>_. \<lparr>ha_module = True, ha_spec = True, ha_path = True, ha_provider = True, ha_sizes = (True, True),
       ha_alloc = (True, True), ha_create = True, ha_open = True, ha_reads = [Some ''x''], ha_data = (\<lambda>_. True),
       ha_finish = (\<lambda>t. Some t)\<rparr>),
     lw_spawn = (\<lambda>_. \<lparr>sp_module = False, sp_spec = False, sp_path = False, sp_exists = False, sp_created = None,
       sp_winsock = False, sp_now = (0, 0), sp_rounds = []\<rparr>),
     lw_ok = (\<lambda>_. False),
     lw_check = (\<lambda>_. \<lparr>uc_ok = False, uc_error = [], uc_installed = [], uc_latest = [], uc_available = False,
       uc_notes = [], uc_url = [], uc_zip = [], uc_zipApi = [], uc_sha = []\<rparr>),
     lw_apply = (\<lambda>_. None), lw_version = (\<lambda>_. [])\<rparr>"

definition host_msg :: jval where
  "host_msg = JObj [(''type'', JStr ''start''), (''v'', JInt 1), (''mode'', JStr ''host''),
     (''connectMethod'', JStr ''relay''), (''relayRoomCode'', JStr ''SF4-ABCD'')]"

definition join_msg :: "string \<Rightarrow> jval" where
  "join_msg how = JObj [(''type'', JStr ''start''), (''v'', JInt 1), (''mode'', JStr ''join''),
     (''connectMethod'', JStr how), (''joinAddress'', JStr ''SF4-ABCD'')]"

definition demo_launcher :: controller where
  "demo_launcher = \<lparr>lc_settings = default_settings, lc_config = zero_config, lc_lanIp = ''127.0.0.1'',
     lc_matchId = [], lc_roomToken = [], lc_ggpoPort = 0, lc_finished = False, lc_cancelled = False,
     lc_exitForUpdate = False, lc_relayPid = 0, lc_calls = []\<rparr>"

definition demo_broker :: broker_url where
  "demo_broker = \<lparr>bu_host = ''74-208-200-95.nip.io'', bu_port = 443, bu_https = True, bu_path = ''/''\<rparr>"

lemma demo_texts:
  "NormalizeRelayRoomCode ''SF4-ABCD'' 32 = Some ''SF4-ABCD''" "IsShortRoomCode ''SF4-ABCD''"
  "ParseBrokerBaseUrl (\<lambda>_. None) kDefaultBrokerBaseUrl = Ret (Some demo_broker)"
  "IsPrivateOrLocalHost ''9.9.9.9'' ''127.0.0.1'' = False"
  "copy_trunc 32 ''SF4-ABCD'' = ''SF4-ABCD''" "copy_trunc 64 ''9.9.9.9'' = ''9.9.9.9''"
  "copy_trunc 33 ''m1'' = ''m1''" "copy_trunc 33 ''t1'' = ''t1''" "copy_trunc 32 ''Player'' = ''Player''"
  by code_simp+

lemma demo_host: "bu_host demo_broker = ''74-208-200-95.nip.io''"
  by (simp add: demo_broker_def)

lemma demo_paths:
  "JoinBrokerPath demo_broker ''/v1/health'' 512 = ''/v1/health''"
  "JoinBrokerPath demo_broker (room_path ''SF4-ABCD'' []) 512 = ''/v1/rooms/SF4-ABCD''"
  "JoinBrokerPath demo_broker (room_path ''SF4-ABCD'' ''/events'') 512 = ''/v1/rooms/SF4-ABCD/events''"
  "JoinBrokerPath demo_broker (plan_path ''SF4-ABCD'' ''host'') 512 = ''/v1/rooms/SF4-ABCD/connect-plan?role=host''"
  "JoinBrokerPath demo_broker (plan_path ''SF4-ABCD'' ''guest'') 512 = ''/v1/rooms/SF4-ABCD/connect-plan?role=guest''"
  "JoinBrokerPath demo_broker ''/v1/queue/join'' 512 = ''/v1/queue/join''"
  by code_simp+

lemma http_ok_answers:
  "body \<noteq> [] \<Longrightarrow> length body + 1 < n \<Longrightarrow>
     HttpRequestUtf8 n (http_ok body) = (\<lparr>hr_ok = True, hr_error = HE_None, hr_status = 200\<rparr>, body)"
  by (simp add: HttpRequestUtf8_def http_ok_def ReadHttpResponseBody_def body_chunk_def Let_def)

lemma runs:
  "seq f g s = (case f s of (Ret a, s1) \<Rightarrow> g a s1 | (Throws, s1) \<Rightarrow> (Throws, s1) | (Aborts, s1) \<Rightarrow> (Aborts, s1))"
  "catching h i t = (case h t of (Throws, t1) \<Rightarrow> i t1 | r \<Rightarrow> r)"
  "filling x j u = (case j (x, u) of (Ret a, (r, u1)) \<Rightarrow> (Ret (a, r), u1) | (Throws, (_, u1)) \<Rightarrow> (Throws, u1)
     | (Aborts, (_, u1)) \<Rightarrow> (Aborts, u1))"
  "result_of l v = (case l v of (Ret (_, r), v1) \<Rightarrow> (Ret r, v1) | (Throws, v1) \<Rightarrow> (Throws, v1)
     | (Aborts, v1) \<Rightarrow> (Aborts, v1))"
  "outside m (x, w) = (case m w of (r, w1) \<Rightarrow> (r, (x, w1)))"
  "calling n c = (case n (lc_calls c) of (r, log) \<Rightarrow> (r, c\<lparr>lc_calls := log\<rparr>))"
  by (simp_all add: seq_def catching_def filling_def result_of_def outside_def on_def calling_def
      split: outcome.split prod.split)

lemmas demo_json = value_str_def value_int_def value_bool_def value_message_def parse_json_def dump_json_def
  or_throw_def field_default_def contains_def j_sint_def jval_ops_def broker_doc_def
lemmas demo_run = demo_world_def BrokerHttpGet_def BrokerHttpPostJson_def demo_paths http_ok_answers broker_text_def
  parse_url_def demo_texts runs

lemma demo_health: "FetchBrokerHealth demo_world kDefaultBrokerBaseUrl log =
    (Ret (True, \<lparr>bh_ok = True, bh_forceVpsRelay = True, bh_relayHost = []\<rparr>), log @ [HttpGet demo_broker ''/v1/health'' 4096])"
  by (simp add: FetchBrokerHealth_def read_health_def no_health_def demo_run demo_json)

lemma demo_room: "ResolveJoinRelayRoom demo_world ''SF4-ABCD'' kDefaultBrokerBaseUrl log =
    (Ret \<lparr>sr_ok = True, sr_error = NoError, sr_host = ''9.9.9.9'', sr_port = 4000\<rparr>,
     log @ [HttpGet demo_broker ''/v1/rooms/SF4-ABCD'' 4096])"
  by (simp add: ResolveJoinRelayRoom_def read_room_def no_join_def demo_run demo_json)

definition demo_plan :: connect_plan where
  "demo_plan = \<lparr>cp_ok = True, cp_error = NoError, cp_transport = 1, cp_host = ''9.9.9.9'', cp_port = 4001,
     cp_matchId = ''m1'', cp_roomToken = ''t1''\<rparr>"

lemma demo_fetch_plan:
  assumes "role = ''host'' \<or> role = ''guest''"
  shows "FetchConnectPlan demo_world kDefaultBrokerBaseUrl ''SF4-ABCD'' role secret 23457 log =
    (Ret demo_plan, log @ [HttpGet demo_broker (''/v1/rooms/SF4-ABCD/connect-plan?role='' @ role) 4096,
       NatProbe ''74-208-200-95.nip.io'' 8790])"
  using assms
  by (elim disjE; simp add: FetchConnectPlan_def read_plan_def no_plan_def demo_plan_def ApplyConnectPlanJson_def plan_host_def
      plan_port_def keep_str_def SendBrokerNatProbe_def TransportFromString_def demo_run demo_json
      ResolveHostToIPv4_def demo_host)

lemma demo_event:
  "PostRoomEvent demo_world kDefaultBrokerBaseUrl ''SF4-ABCD'' ''battle_start'' [] label [] log =
    (Ret True, log @ [HttpPostJson demo_broker ''/v1/rooms/SF4-ABCD/events'' ''{}'' 512])"
  by (simp add: PostRoomEvent_def event_detail_def demo_run demo_json)

lemmas demo_start = HandleWebMessage_def RequiresProtocolVersion_def kProtocolVersion_def dispatch_def start_match_def
  start_settings_def start_config_def start_connect_def start_mode_def report_start_def finishes_def
  in_settings_def in_config_def demo_launcher_def default_settings_def base_config_def finish_config_def
  zero_config_def DefaultConnectMethodString_def

lemmas demo_connect = start_host_def host_relay_def host_in_room_def ConfigureGgpoTransportForRelay_def
  legacy_forced_def session_fallbacks_def player_role_def transport_override_def ApplyConnectPlanToConfig_def
  start_join_def join_endpoint_def join_at_def joined_config_def probe_host_def remember_join_def
  ShouldProbeJoinEndpoint_def

lemma demo_env: "lw_env demo_world = (\<lambda>_. None)" "lw_json demo_world = jval_ops"
  by (simp_all add: demo_world_def)

lemma demo_host_run:
  "\<exists>s'. HandleWebMessage demo_world host_msg demo_launcher = (Ret NoReply, s') \<and> lc_calls s' \<noteq> [] \<and>
     nc_useCentralSession (lc_config s') = 2 \<and> nc_ggpoTransport (lc_config s') = 1"
  by (simp add: host_msg_def demo_start demo_connect demo_health demo_room demo_fetch_plan demo_plan_def demo_event
      demo_env runs demo_texts demo_json NetplayConfigApplyGgpoDisconnectDefaults_def Let_def)

lemma demo_join_run:
  "\<exists>s'. HandleWebMessage demo_world (join_msg ''relay'') demo_launcher = (Ret NoReply, s') \<and>
     nc_useCentralSession (lc_config s') = 2 \<and> nc_ggpoTransport (lc_config s') = 1"
  by (simp add: join_msg_def demo_start demo_connect demo_health demo_room demo_fetch_plan demo_plan_def demo_event
      demo_env runs demo_texts demo_json NetplayConfigApplyGgpoDisconnectDefaults_def Let_def)

section \<open>Claims\<close>





section \<open>Room codes\<close>

lemma upper_lower: "char_upper (char_lower c) = char_upper c"
proof (cases "CHR ''A'' \<le> c \<and> c \<le> CHR ''Z''")
  case True
  then have c: "65 \<le> (of_char c :: nat)" "(of_char c :: nat) \<le> 90" by (simp_all add: less_eq_char_def)
  then have "of_char (char_of (of_char c + 32 :: nat)) = (of_char c + 32 :: nat)" by simp
  then show ?thesis
    using True c by (simp add: char_upper_def char_lower_def less_eq_char_def)
next
  case False
  then show ?thesis by (auto simp: char_lower_def)
qed

lemma upper_upper: "char_upper (char_upper c) = char_upper c"
proof (cases "CHR ''a'' \<le> c \<and> c \<le> CHR ''z''")
  case True
  then have c: "97 \<le> (of_char c :: nat)" "(of_char c :: nat) \<le> 122" by (simp_all add: less_eq_char_def)
  then have "of_char (char_upper c) = (of_char c - 32 :: nat)" by (simp add: char_upper_def True)
  then have "(of_char (char_upper c) :: nat) < 97" using c by linarith
  then show ?thesis by (auto simp: char_upper_def [of "char_upper c"] less_eq_char_def)
qed (auto simp: char_upper_def)

lemma upper_blank: "code_blank (char_upper c) = code_blank c"
proof (cases "CHR ''a'' \<le> c \<and> c \<le> CHR ''z''")
  case True
  then have c: "97 \<le> (of_char c :: nat)" "(of_char c :: nat) \<le> 122" by (simp_all add: less_eq_char_def)
  then have u: "of_char (char_upper c) = (of_char c - 32 :: nat)" by (simp add: char_upper_def True)
  have "\<not> code_blank x" if "33 \<le> (of_char x :: nat)" for x
    using that by (auto simp: code_blank_def)
  then show ?thesis using c u by simp
qed (auto simp: char_upper_def)

text \<open>What trimming takes off.\<close>

lemma trim_split:
  "\<exists>l r. s = l @ TrimRoomCodeInPlace s @ r \<and> list_all code_blank l \<and> list_all code_blank r"
proof -
  let ?b = "dropWhile code_blank s"
  have "s = takeWhile code_blank s @ ?b" by simp
  moreover have "?b = TrimRoomCodeInPlace s @ rev (takeWhile code_blank (rev ?b))"
    unfolding TrimRoomCodeInPlace_def Let_def by (metis rev_append rev_rev_ident takeWhile_dropWhile_id)
  moreover have "list_all code_blank (takeWhile code_blank t)" for t
    by (induction t) auto
  ultimately show ?thesis
    by (intro exI [of _ "takeWhile code_blank s"] exI [of _ "rev (takeWhile code_blank (rev ?b))"]) (metis list_all_rev)
qed

lemma trim_solid: "s = [] \<or> \<not> code_blank (hd s) \<and> \<not> code_blank (last s) \<Longrightarrow> TrimRoomCodeInPlace s = s"
proof (cases "s = []")
  case False
  assume "s = [] \<or> \<not> code_blank (hd s) \<and> \<not> code_blank (last s)"
  then have "dropWhile code_blank s = s" "dropWhile code_blank (rev s) = rev s"
    using False by (simp_all add: dropWhile_eq_self_iff hd_rev)
  then show ?thesis by (simp add: TrimRoomCodeInPlace_def)
qed (simp add: TrimRoomCodeInPlace_def)

lemma trim_length: "length (TrimRoomCodeInPlace s) \<le> length s"
  using trim_split [of s] by (metis le_add1 le_add2 le_trans length_append)

lemma trim_trim: "TrimRoomCodeInPlace (TrimRoomCodeInPlace s) = TrimRoomCodeInPlace s"
  by (rule trim_solid) (rule trim_ends)

lemma head_solid: "with_prefix (TrimRoomCodeInPlace s) \<noteq> [] \<and> \<not> code_blank (hd (with_prefix (TrimRoomCodeInPlace s)))"
proof (cases "strnicmp_eq (TrimRoomCodeInPlace s) ''SF4-''")
  case True
  then have "TrimRoomCodeInPlace s \<noteq> []" by (auto simp: strnicmp_eq_def)
  then show ?thesis using True trim_ends [of s] by (simp add: with_prefix_def)
qed (simp add: with_prefix_def copy_trunc_def code_blank_def)

lemma prefix_upper: "strnicmp_eq t ''SF4-'' \<Longrightarrow> map char_upper t = t \<Longrightarrow> t = ''SF4-'' @ drop 4 t"
proof -
  assume t: "strnicmp_eq t ''SF4-''" "map char_upper t = t"
  have "take 4 t = map char_upper (take 4 t)" using t(2) by (metis take_map)
  also have "\<dots> = map char_upper (map char_lower (take 4 t))" by (simp add: upper_lower)
  also have "map char_lower (take 4 t) = map char_lower ''SF4-''"
    using t(1) by (simp add: strnicmp_eq_def eval_nat_numeral)
  also have "map char_upper (map char_lower ''SF4-'') = ''SF4-''" by code_simp
  finally show ?thesis by (metis append_take_drop_id)
qed

lemma canonical_buffer:
  assumes short: "IsShortRoomCode buf" and len: "length buf \<le> 31" and solid: "buf \<noteq> []" "\<not> code_blank (hd buf)"
    and up: "map char_upper buf = buf"
  shows "\<exists>tok r. buf = ''SF4-'' @ tok @ r \<and> list_all code_blank r \<and> TrimRoomCodeInPlace buf = ''SF4-'' @ tok \<and>
    4 \<le> length tok \<and> length tok \<le> 20 \<and> list_all (\<lambda>c. IsAlnumCodeChar c \<and> char_upper c = c) tok"
proof -
  define T where "T = TrimRoomCodeInPlace buf"
  define tok where "tok = drop 4 T"
  have fits: "copy_trunc 32 buf = buf" using len by (simp add: copy_trunc_def)
  have T: "strnicmp_eq T ''SF4-''" "4 \<le> length tok" "length tok \<le> 20" "list_all IsAlnumCodeChar tok"
    using short by (simp_all add: IsShortRoomCode_def Let_def fits T_def tok_def)
  obtain l r where lr: "buf = l @ T @ r" "list_all code_blank l" "list_all code_blank r"
    using trim_split [of buf] by (auto simp: T_def)
  have l: "l = []" using lr(1,2) solid by (cases l) auto
  have upT: "map char_upper T = T" using up by (simp add: lr(1) l)
  then have Tt: "T = ''SF4-'' @ tok" unfolding tok_def by (rule prefix_upper [OF T(1)])
  have "map char_upper tok = map id tok" unfolding tok_def by (simp only: drop_map [symmetric] upT list.map_id)
  then have "\<forall>c\<in>set tok. char_upper c = c" by (simp only: map_eq_conv id_apply)
  then have "list_all (\<lambda>c. IsAlnumCodeChar c \<and> char_upper c = c) tok" using T(4) by (simp add: list_all_iff)
  moreover have "buf = ''SF4-'' @ tok @ r" using lr(1) l Tt by simp
  moreover have "TrimRoomCodeInPlace buf = ''SF4-'' @ tok" using Tt T_def by (rule back_subst [of "\<lambda>x. x = _"])
  ultimately show ?thesis using lr(3) T(2,3) by blast
qed

lemma canonical_end:
  assumes "length b \<le> 27" "b = [] \<or> \<not> code_blank (last b)"
  shows "\<not> code_blank (last (with_prefix b))"
proof (cases "strnicmp_eq b ''SF4-''")
  case True
  then have "b \<noteq> []" by (auto simp: strnicmp_eq_def)
  then show ?thesis using True assms by (simp add: with_prefix_def)
next
  case False
  then have "with_prefix b = ''SF4-'' @ b" using assms(1) by (simp add: with_prefix_def copy_trunc_def)
  then show ?thesis using assms(2) by (cases "b = []") (auto simp: code_blank_def)
qed

text \<open>
  A room code the launcher accepts is canonical: the prefix SF4-, four to twenty
  capital letters or digits, and blanks only if the code was longer than 27
  characters. Accepting it again gives the code without them.
\<close>

theorem room_code_canonical:
  assumes "NormalizeRelayRoomCode code n = Some y" "32 \<le> n"
  shows "\<exists>tok blanks. y = ''SF4-'' @ tok @ blanks \<and> 4 \<le> length tok \<and> length tok \<le> 20 \<and>
    list_all (\<lambda>c. IsAlnumCodeChar c \<and> char_upper c = c) tok \<and> list_all code_blank blanks \<and>
    (length code \<le> 27 \<longrightarrow> blanks = []) \<and> NormalizeRelayRoomCode y n = Some (''SF4-'' @ tok)"
proof -
  define b where "b = TrimRoomCodeInPlace (copy_trunc 32 code)"
  define buf where "buf = map char_upper (with_prefix b)"
  have short: "IsShortRoomCode buf"
    using assms by (simp add: NormalizeRelayRoomCode_def Let_def buf_def b_def split: if_splits)
  have lb: "length b \<le> 31" "length b \<le> length code"
    using trim_length [of "copy_trunc 32 code"] by (simp_all add: b_def copy_trunc_def)
  then have len: "length buf \<le> 31" by (simp add: buf_def with_prefix_def copy_trunc_def)
  then have y: "y = buf"
    using assms short by (simp add: NormalizeRelayRoomCode_def Let_def copy_trunc_fits buf_def [symmetric] b_def [symmetric])
  have solid: "buf \<noteq> []" "\<not> code_blank (hd buf)"
    using head_solid [of "copy_trunc 32 code"] by (simp_all add: buf_def b_def hd_map upper_blank)
  have up: "map char_upper buf = buf" by (simp add: buf_def upper_upper)
  obtain tok r where tok: "buf = ''SF4-'' @ tok @ r" "list_all code_blank r" "TrimRoomCodeInPlace buf = ''SF4-'' @ tok"
      "4 \<le> length tok" "length tok \<le> 20" "list_all (\<lambda>c. IsAlnumCodeChar c \<and> char_upper c = c) tok"
    using canonical_buffer [OF short len solid up] by blast
  have "r = []" if "length code \<le> 27"
  proof -
    have "\<not> code_blank (last (with_prefix b))"
      using that lb trim_ends [of "copy_trunc 32 code"] by (intro canonical_end) (auto simp: b_def)
    then have "\<not> code_blank (last buf)"
      using solid by (simp add: buf_def last_map upper_blank)
    then show ?thesis using tok(1,2) by (cases r rule: rev_cases) (auto simp: list_all_iff)
  qed
  moreover have "NormalizeRelayRoomCode y n = Some (''SF4-'' @ tok)"
  proof -
    define t where "t = ''SF4-'' @ tok"
    have t: "length t \<le> 31" "map char_upper t = t" "strnicmp_eq t ''SF4-''"
      using tok(5,6) by (auto simp: t_def list_all_iff strnicmp_eq_def char_upper_def less_eq_char_def intro: map_idI)
    have tt: "TrimRoomCodeInPlace t = t" using trim_trim [of buf] by (simp only: tok(3) t_def)
    have "IsShortRoomCode t"
      using t tt tok by (simp add: IsShortRoomCode_def Let_def copy_trunc_fits) (auto simp: t_def list_all_iff)
    moreover have "copy_trunc 32 buf = buf" "copy_trunc n t = t"
      using len t(1) assms(2) by (simp_all add: copy_trunc_def)
    moreover have "TrimRoomCodeInPlace buf = t" by (simp add: tok(3) t_def)
    ultimately show ?thesis
      using assms(2) t by (simp add: NormalizeRelayRoomCode_def Let_def y with_prefix_def) (simp add: t_def)
  qed
  ultimately show ?thesis
    using y tok by (intro exI [of _ tok] exI [of _ r]) auto
qed

theorem room_code_canonical_witness:
  "NormalizeRelayRoomCode ''SF4-ABCD'' 32 = Some ''SF4-ABCD'' \<and>
   (\<exists>tok. ''SF4-ABCD'' = ''SF4-'' @ tok \<and> list_all (\<lambda>c. IsAlnumCodeChar c \<and> char_upper c = c) tok)"
  using demo_texts(1) room_code_canonical [OF demo_texts(1)] by auto

end
