(* ===== verification/Launcher_Properties.thy ===== *)
theory Launcher_Properties
  imports Launcher_Facts Process_Properties
begin

text \<open>
  What the launcher hands on: its settings survive a restart, an address that is
  shared can be joined, two players of a room get the same transport, and what
  its configurations lead to in the sidecar. At the end the places where the code
  does not do what it means to.
\<close>

section \<open>Settings\<close>

definition wf_settings :: "settings \<Rightarrow> bool" where
  "wf_settings s \<longleftrightarrow> length (ps_displayName s) < 32 \<and> length (ps_lastJoinHost s) < 128 \<and>
     length (ps_lastAdvertiseHost s) < 64 \<and> length (ps_brokerBaseUrl s) < 256 \<and>
     fits 31 (ps_roundCount s) \<and> fits 31 (ps_roundTimeIntegral s)"

lemma fits_word: "LENGTH('a::len) \<le> n \<Longrightarrow> fits n (uint (w :: 'a word))"
  unfolding fits_def
proof
  assume n: "LENGTH('a) \<le> n"
  have "uint w < 2 ^ LENGTH('a)" by (rule uint_lt2p)
  also have "(2 :: int) ^ LENGTH('a) \<le> 2 ^ n" using n by (rule power_increasing) simp
  finally show "uint w < 2 ^ n" .
  show "- (2 ^ n) \<le> uint w" by (rule order_trans [of _ 0]) simp_all
qed

lemma read_fields_back:
  assumes "json_lib (lw_json W)" "wf_settings s"
  shows "read_fields W (mk_obj (lw_json W) (settings_fields (lw_json W) s)) (s0, f) =
    (Ret (), (s\<lparr>ps_relaySessionPort := ps_relaySessionPort s0, ps_relayRoomCode := ps_relayRoomCode s0,
       ps_relayHostSecret := ps_relayHostSecret s0\<rparr>, f))"
proof -
  note J = json_lib.obj_is [OF assms(1)] json_lib.obj_at [OF assms(1)] json_lib.str_str [OF assms(1)]
    json_lib.sint_int [OF assms(1)]
  have w: "fits 31 (uint (x :: 16 word))" "fits 31 (uint (y :: 8 word))" for x y
    by (simp_all add: fits_word)
  show ?thesis
    using assms(2)
    by (simp add: read_fields_def load_str_def load_int_def value_str_def value_int_def or_throw_def field_default_def
        settings_fields_def wf_settings_def copy_trunc_fits mk_word_def J w)
qed

lemma nothing_stored:
  "json_lib (lw_json W) \<Longrightarrow> had_stored_relay W (mk_obj (lw_json W) (settings_fields (lw_json W) s)) x = (Ret False, x)"
  by (simp add: had_stored_relay_def stored_str_def contains_def value_int_def or_throw_def field_default_def
      settings_fields_def json_lib.obj_is json_lib.obj_at)

text \<open>
  What the launcher saves it loads again, except for the room of the session,
  which is forgotten; the file is not written a second time.
\<close>

theorem settings_survive_restart:
  assumes "json_lib (lw_json W)"
    and "lw_pretty W (mk_obj (lw_json W) (settings_fields (lw_json W) s)) = Some doc"
    and "lw_parse W doc = Some (mk_obj (lw_json W) (settings_fields (lw_json W) s))"
    and "cf_path f" "cf_writable f" "cf_readable f" "wf_settings s"
    and "\<not> BrokerUrlNeedsMigration (ps_brokerBaseUrl s)"
    and "SavePersistedSettings W s f = (r, f')"
  shows "r = Ret True \<and> LoadPersistedSettings W (s0, f') = (Ret True, (ClearSessionRelayFields s, f'))"
proof -
  have f': "r = Ret True" "f' = f\<lparr>cf_text := Some doc\<rparr>"
    using assms(2,4,5,9) by (auto simp: SavePersistedSettings_def or_throw_def)
  have "load_body W doc (s0, f') = (Ret True, (ClearSessionRelayFields s, f'))"
    using assms(3,8) read_fields_back [OF assms(1,7), of s0 f']
    by (simp add: nothing_stored [OF assms(1)] load_body_def or_throw_def runs ClearSessionRelayFields_def MigrateDeprecatedBrokerUrl_def)
  then show ?thesis using assms(4,6) f' by (simp add: LoadPersistedSettings_def catching_def)
qed

definition save_world :: "jval launcher_world" where
  "save_world = demo_world\<lparr>lw_pretty := (\<lambda>_. Some ''doc''),
     lw_parse := (\<lambda>_. Some (JObj (settings_fields jval_ops default_settings)))\<rparr>"

theorem settings_survive_restart_witness:
  "\<exists>f'. SavePersistedSettings save_world default_settings \<lparr>cf_path = True, cf_readable = True, cf_writable = True,
       cf_text = None\<rparr> = (Ret True, f') \<and>
     LoadPersistedSettings save_world (default_settings\<lparr>ps_displayName := ''x''\<rparr>, f') = (Ret True, (default_settings, f'))"
proof -
  let ?f = "\<lparr>cf_path = True, cf_readable = True, cf_writable = True, cf_text = None\<rparr>"
  obtain r f' where run: "SavePersistedSettings save_world default_settings ?f = (r, f')" by fastforce
  have w: "wf_settings default_settings" "\<not> BrokerUrlNeedsMigration (ps_brokerBaseUrl default_settings)"
    by code_simp+
  have j: "json_lib (lw_json save_world)" by (simp add: save_world_def demo_world_def jv.json_lib_axioms)
  have "r = Ret True \<and> LoadPersistedSettings save_world (default_settings\<lparr>ps_displayName := ''x''\<rparr>, f') =
      (Ret True, (ClearSessionRelayFields default_settings, f'))"
    by (rule settings_survive_restart [OF j _ _ _ _ _ w run, where doc = "''doc''"])
       (simp_all add: save_world_def demo_world_def jval_ops_def)
  then show ?thesis
    using run by (auto simp: ClearSessionRelayFields_def default_settings_def)
qed

section \<open>Addresses\<close>

lemma strrchr_append: "c \<notin> set t \<Longrightarrow> strrchr_split (h @ c # t) c = Some (h, t)"
  by (simp add: strrchr_split_def takeWhile_append dropWhile_append)

lemma dec_nat_length: "n < 10 ^ Suc k \<Longrightarrow> length (dec_nat n) \<le> Suc k"
proof (induction k arbitrary: n)
  case 0
  then show ?case by (simp add: dec_nat.simps [of n])
next
  case (Suc k)
  then have "n div 10 < 10 ^ Suc k" by auto
  then have "length (dec_nat (n div 10)) \<le> Suc k" by (rule Suc.IH)
  then show ?case by (simp add: dec_nat.simps [of n])
qed

lemma port_text: "length (to_string (p :: 16 word)) \<le> 5" "c \<in> set (to_string p) \<Longrightarrow> is_digit c"
  "atoi (to_string p) = uint p" "to_string p \<noteq> []"
proof -
  have "unat p < 2 ^ LENGTH(16)" by (rule unsigned_less)
  then have p: "unat p < 65536" by simp
  then have "unat p < 10 ^ Suc 4" by simp
  then show "length (to_string p) \<le> 5" unfolding to_string_def using dec_nat_length [of "unat p" 4] by simp
  show "c \<in> set (to_string p) \<Longrightarrow> is_digit c" unfolding to_string_def by (rule dec_nat_digits)
  show "atoi (to_string p) = uint p"
    using atoi_dec_nat [of "unat p" "[]"] p by (simp add: to_string_def)
  show "to_string p \<noteq> []" by (simp add: to_string_def)
qed

text \<open>
  The address a host shares is the address a guest joins: what FormatRoomCode
  writes ParseRoomCode reads back, for any host without blanks at its start and
  short enough for the buffers.
\<close>

theorem shared_address_joins:
  assumes "host \<noteq> []" "\<not> code_blank (hd host)" "port \<noteq> 0" "length host < m" "length host + 6 < n"
    and "length host + 6 < 256"
  shows "ParseRoomCode (FormatRoomCode host port n) m = Some (host, port)"
proof -
  let ?t = "host @ CHR '':'' # to_string port"
  have len: "length ?t < n" "length ?t < 256" using port_text(1) [of port] assms(5,6) by simp_all
  have digit: "is_digit (last ?t)" using port_text(2) [of "last ?t" port] port_text(4) [of port] by simp
  have "\<not> code_blank (last ?t)"
    using digit by (auto simp: is_digit_def code_blank_def less_eq_char_def)
  then have "TrimRoomCodeInPlace ?t = ?t" using assms(1,2) by (intro trim_solid) auto
  moreover have "CHR '':'' \<notin> set (to_string port)"
    using port_text(2) [of "CHR '':''" port] by (auto simp: is_digit_def less_eq_char_def)
  moreover have "1 \<le> uint port" "uint port \<le> 65535"
    using assms(3) uint_lt2p [of port] uint_nonnegative [of port] by (auto simp: uint_0_iff order_le_less) 
  ultimately show ?thesis
    using assms(1,4) len by (simp add: FormatRoomCode_def ParseRoomCode_def copy_trunc_fits strrchr_append port_text(3) Let_def)
qed

theorem shared_address_joins_witness:
  "ParseRoomCode (FormatRoomCode ''1.2.3.4'' 23456 128) 64 = Some (''1.2.3.4'', 23456)"
  by (rule shared_address_joins) (simp_all add: code_blank_def)

section \<open>The transport of a room\<close>

text \<open>The plan as a configuration carries it.\<close>

definition same_path :: "netplay_config \<Rightarrow> netplay_config \<Rightarrow> bool" where
  "same_path c d \<longleftrightarrow> nc_ggpoTransport c = nc_ggpoTransport d \<and> nc_ggpoRemoteHost c = nc_ggpoRemoteHost d \<and>
     nc_ggpoRemotePort c = nc_ggpoRemotePort d \<and> nc_matchId c = nc_matchId d \<and> nc_ggpoRoomToken c = nc_ggpoRoomToken d"

definition complete_plan :: "connect_plan \<Rightarrow> bool" where
  "complete_plan p \<longleftrightarrow> cp_ok p \<and> cp_port p \<noteq> 0 \<and> copy_trunc 33 (cp_roomToken p) \<noteq> []"

definition plan_for :: "'j launcher_world \<Rightarrow> string \<Rightarrow> string \<Rightarrow> controller \<Rightarrow> connect_plan outcome" where
  "plan_for W code role s = fst (FetchConnectPlan W (ps_brokerBaseUrl (lc_settings s)) code role
     (if role = ''host'' then ps_relayHostSecret (lc_settings s) else []) (ps_ggpoPort (lc_settings s)) (lc_calls s))"

lemma configured:
  assumes "lw_env W ''SF4E_GGPO_TRANSPORT'' = None" "plan_for W code role s = Ret p"
    "ConfigureGgpoTransportForRelay W code role s = (r, s')"
  shows "lc_config s' = player_role role (session_fallbacks s (ApplyConnectPlanToConfig p (lc_config s)))"
proof -
  obtain log where "FetchConnectPlan W (ps_brokerBaseUrl (lc_settings s)) code role
      (if role = ''host'' then ps_relayHostSecret (lc_settings s) else []) (ps_ggpoPort (lc_settings s)) (lc_calls s) = (Ret p, log)"
    using assms(2) unfolding plan_for_def by (metis prod.collapse)
  then show ?thesis
    using assms(1,3) by (auto simp: ConfigureGgpoTransportForRelay_def legacy_forced_def transport_override_def runs
        in_config_def)
qed

lemma path_of_plan:
  assumes "complete_plan p"
  shows "same_path (player_role role (session_fallbacks s (ApplyConnectPlanToConfig p c)))
    (c\<lparr>nc_ggpoTransport := (if cp_transport p = 0 then 1 else cp_transport p),
       nc_ggpoRemoteHost := copy_trunc 64 (cp_host p), nc_ggpoRemotePort := cp_port p,
       nc_matchId := (if lc_matchId s = [] then copy_trunc 33 (cp_matchId p) else lc_matchId s),
       nc_ggpoRoomToken := copy_trunc 33 (cp_roomToken p)\<rparr>)"
  using assms
  by (simp add: same_path_def complete_plan_def player_role_def session_fallbacks_def ApplyConnectPlanToConfig_def Let_def)



text \<open>
  A match id kept from a room created earlier in the run wins over the plan of the
  room that is played: the host and its guest then hold different ids.
\<close>

theorem stale_match_id:
  assumes "lw_env W ''SF4E_GGPO_TRANSPORT'' = None" "lw_env V ''SF4E_GGPO_TRANSPORT'' = None"
    and "plan_for W code ''host'' h = Ret p" "plan_for V code' ''guest'' g = Ret p" "complete_plan p"
    and "lc_matchId h \<notin> {[], copy_trunc 33 (cp_matchId p)}" "lc_matchId g = []"
    and "ConfigureGgpoTransportForRelay W code ''host'' h = (r, h')"
    and "ConfigureGgpoTransportForRelay V code' ''guest'' g = (q, g')"
  shows "nc_matchId (lc_config h') \<noteq> nc_matchId (lc_config g')"
  using path_of_plan [OF assms(5), of "''host''" h "lc_config h", folded configured [OF assms(1,3,8)]]
    path_of_plan [OF assms(5), of "''guest''" g "lc_config g", folded configured [OF assms(2,4,9)]] assms(6,7)
  by (simp add: same_path_def)

section \<open>What a start puts into the configuration\<close>

text \<open>A property of the state that a step does not lose.\<close>

definition still :: "('s \<Rightarrow> bool) \<Rightarrow> 's \<Rightarrow> 's \<Rightarrow> bool" where
  "still Q s t \<longleftrightarrow> (Q s \<longrightarrow> Q t)"

interpretation held: steady "still Q" for Q :: "'s \<Rightarrow> bool"
  by unfold_locales (simp_all add: still_def)

lemmas steady_held = held.done_at_once held.in_turn held.caught
declare steady_held [steady_rules]

abbreviation config_still :: "(netplay_config \<Rightarrow> bool) \<Rightarrow> controller \<Rightarrow> controller \<Rightarrow> bool" where
  "config_still Q \<equiv> still (\<lambda>s. Q (lc_config s))"

lemma config_rules [steady_rules]:
  "leads (config_still Q) (calling f)" "leads (config_still Q) (hosting h)" "leads (config_still Q) (in_settings v)"
  "(\<And>c. Q c \<Longrightarrow> Q (w c)) \<Longrightarrow> leads (config_still Q) (in_config w)"
  "leads (still P) (value_str W j k ds)" "leads (still P) (value_int W j k di)" "leads (still P) (value_bool W j k db)"
  by (simp_all add: leads_def still_def calling_def hosting_def on_def in_settings_def in_config_def case_prod_unfold
      value_str_def value_int_def value_bool_def)

text \<open>What every start leaves in the configuration, whatever way it takes.\<close>

definition payload_of :: "int \<Rightarrow> 8 word \<Rightarrow> netplay_config \<Rightarrow> bool" where
  "payload_of mode delay c \<longleftrightarrow> nc_version c = SF4E_NETPLAY_CONFIG_VERSION \<and> nc_mode c = mode \<and> nc_inputDelay c = delay \<and>
     nc_deviceIdx c = 0xff \<and> nc_deviceType c = 0xff \<and> nc_devOverlay c = 0 \<and>
     nc_ggpoDisconnectTimeoutMs c = disconnect_timeout delay \<and> nc_ggpoDisconnectNotifyMs c = disconnect_timeout delay div 2"

lemma payload_simps:
  "payload_of m d (c\<lparr>nc_useCentralSession := u\<rparr>) = payload_of m d c" "payload_of m d (c\<lparr>nc_relayRoomCode := r\<rparr>) = payload_of m d c"
  "payload_of m d (c\<lparr>nc_sessionHost := h\<rparr>) = payload_of m d c" "payload_of m d (c\<lparr>nc_sessionPort := p\<rparr>) = payload_of m d c"
  "payload_of m d (c\<lparr>nc_roomKey := r\<rparr>) = payload_of m d c" "payload_of m d (c\<lparr>nc_ggpoTransport := t\<rparr>) = payload_of m d c"
  by (simp_all add: payload_of_def)

lemma payload_more:
  "payload_of m d (c\<lparr>nc_ggpoRoomToken := x\<rparr>) = payload_of m d c" "payload_of m d (c\<lparr>nc_matchId := x\<rparr>) = payload_of m d c"
  "payload_of m d (c\<lparr>nc_ggpoRemoteHost := x\<rparr>) = payload_of m d c" "payload_of m d (c\<lparr>nc_ggpoRemotePort := y\<rparr>) = payload_of m d c"
  "payload_of m d (c\<lparr>nc_playerRole := z\<rparr>) = payload_of m d c"
  by (simp_all add: payload_of_def)

lemma payload_plan: "payload_of m d (ApplyConnectPlanToConfig p c) = payload_of m d c"
  by (simp add: ApplyConnectPlanToConfig_def payload_simps payload_more)

lemma payload_fallbacks: "payload_of m d (session_fallbacks s c) = payload_of m d c"
  by (simp add: session_fallbacks_def Let_def if_distrib [of "payload_of m d"] payload_simps payload_more)

lemma payload_transport:
  "payload_of m d (transport_override env (player_role role (session_fallbacks s (ApplyConnectPlanToConfig p c)))) = payload_of m d c"
proof -
  have "payload_of m d (transport_override env x) = payload_of m d x" for x
    by (simp add: transport_override_def payload_simps split: option.split)
  moreover have "payload_of m d (player_role role x) = payload_of m d x" for x
    by (simp add: player_role_def payload_more)
  ultimately show ?thesis by (simp add: payload_plan payload_fallbacks)
qed

lemma payload_kept [steady_rules]:
  "leads (config_still (payload_of m d)) (ConfigureGgpoTransportForRelay W code role)"
  "leads (config_still (payload_of m d)) (UpnpForStart W port)"
  "leads (config_still (payload_of m d)) (join_endpoint W how code)"
  "leads (config_still (payload_of m d)) (report_start W)"
  unfolding ConfigureGgpoTransportForRelay_def UpnpForStart_def join_endpoint_def report_start_def Let_def
  by (intro steady_rules; simp add: payload_simps payload_transport)+

lemma payload_host: "leads (config_still (payload_of m d)) (start_host W msg how)"
  unfolding start_host_def host_relay_def host_in_room_def host_direct_def Let_def
  by (intro steady_rules; simp add: payload_simps)

lemma payload_join: "leads (config_still (payload_of m d)) (start_join W msg how)"
  unfolding start_join_def join_at_def joined_config_def probe_host_def remember_join_def Let_def
  by (intro steady_rules; simp add: payload_simps)

lemma payload_connect: "leads (config_still (payload_of m d)) (start_connect W msg mode)"
  unfolding start_connect_def by (intro steady_rules payload_host payload_join)

lemma seq_returns: "seq f k s = (Ret b, t) \<longleftrightarrow> (\<exists>a u. f s = (Ret a, u) \<and> k a u = (Ret b, t))"
  by (auto simp: seq_def split: prod.splits outcome.splits)

text \<open>A text field of a message.\<close>

definition msg_str :: "'j launcher_world \<Rightarrow> 'j \<Rightarrow> string \<Rightarrow> string \<Rightarrow> bool" where
  "msg_str W msg k v \<longleftrightarrow> j_is_obj (lw_json W) msg \<and> (\<exists>x. j_at (lw_json W) msg k = Some x \<and> j_str (lw_json W) x = Some v)"

lemma msg_value: "msg_str W msg k v \<Longrightarrow> value_str W msg k d = ret v"
  by (auto simp: msg_str_def value_str_def or_throw_def field_default_def lift_def ret_def)

lemma start_returns:
  assumes "HandleWebMessage W msg s = (Ret NoReply, s')" "msg_str W msg ''type'' ''start''" "msg_str W msg ''mode'' m"
  shows "\<exists>s1 s2 s3 s4. start_config W msg (start_mode m) s1 = (Ret (), s2) \<and>
    start_connect W msg (start_mode m) s2 = (Ret None, s3) \<and> report_start W s3 = (Ret (), s4) \<and> lc_config s' = lc_config s4"
proof -
  obtain t where "start_match W msg t = (Ret NoReply, s')"
    using assms(1) by (auto simp: HandleWebMessage_def msg_value [OF assms(2)] dispatch_def seq_returns split: if_splits)
  then show ?thesis
    by (auto simp: start_match_def msg_value [OF assms(3)] seq_returns finishes_def update_def ret_def
        split: if_splits option.splits) blast
qed

lemma value_bool_state: "value_bool W j k d s = (Ret b, t) \<Longrightarrow> t = s"
  by (simp add: value_bool_def)

lemma start_config_payload:
  assumes "start_config W msg mode s = (Ret (), t)"
  shows "\<exists>d. payload_of mode d (lc_config t)"
  using assms by (auto dest!: value_bool_state simp: start_config_def seq_returns in_config_def reads_def update_def payload_of_def
      finish_config_def base_config_def zero_config_def NetplayConfigApplyGgpoDisconnectDefaults_def Let_def)

text \<open>
  C7: A start reaches the sidecar: when the launcher finishes a host or join message,
  the configuration it hands over has the current version, the mode that was asked
  for, no pad yet and the timeouts of its input delay, whatever way the connection
  took; the sidecar that is loaded with it will open the session by itself once a
  pad is captured.
\<close>

theorem start_reaches_sidecar:
  assumes "HandleWebMessage W msg s = (Ret NoReply, s')" "msg_str W msg ''type'' ''start''" "msg_str W msg ''mode'' m"
    and "m \<in> {''host'', ''join''}"
  shows "(\<exists>d. payload_of (start_mode m) d (lc_config s')) \<and> autoPending (InitFromPayload env (lc_config s') a) \<and>
    \<not> padCaptured (InitFromPayload env (lc_config s') a) \<and> framesSinceReady (InitFromPayload env (lc_config s') a) = 0"
proof -
  obtain s1 s2 s3 s4 where run: "start_config W msg (start_mode m) s1 = (Ret (), s2)"
      "start_connect W msg (start_mode m) s2 = (Ret None, s3)" "report_start W s3 = (Ret (), s4)" "lc_config s' = lc_config s4"
    using start_returns [OF assms(1-3)] by blast
  obtain d where "payload_of (start_mode m) d (lc_config s2)" using start_config_payload [OF run(1)] by blast
  then have "payload_of (start_mode m) d (lc_config s')"
    using leadsD [OF payload_connect [of "start_mode m" d W msg "start_mode m"] run(2)]
      leadsD [OF payload_kept(4) [of "start_mode m" d W] run(3)] by (simp add: still_def run(4))
  then show ?thesis
    using assms(4) by (auto simp: InitFromPayload_def payload_config_def payload_of_def NetplayConfigIsActive_def
        start_mode_def pad_chosen_def Let_def)
qed

theorem start_reaches_sidecar_witness:
  "\<exists>s'. HandleWebMessage demo_world host_msg demo_launcher = (Ret NoReply, s') \<and>
     autoPending (InitFromPayload (\<lambda>_. None) (lc_config s') (app_static (flow_sim 16)))"
proof -
  obtain s' where s': "HandleWebMessage demo_world host_msg demo_launcher = (Ret NoReply, s')"
    using demo_host_run by blast
  have "msg_str demo_world host_msg ''type'' ''start''" "msg_str demo_world host_msg ''mode'' ''host''"
    by (simp_all add: msg_str_def demo_env host_msg_def jval_ops_def)
  then show ?thesis using start_reaches_sidecar [OF s'] s' by simp
qed

section \<open>Matchmaking on the broker's relay\<close>

text \<open>A configuration without any relay credentials.\<close>

definition no_relay :: "netplay_config \<Rightarrow> bool" where
  "no_relay c \<longleftrightarrow> nc_ggpoTransport c = 0 \<and> nc_ggpoRoomToken c = [] \<and> nc_ggpoRemotePort c = 0 \<and> nc_relayRoomCode c = []"

lemma no_relay_simps:
  "no_relay (c\<lparr>nc_useCentralSession := u\<rparr>) = no_relay c" "no_relay (c\<lparr>nc_sessionHost := h\<rparr>) = no_relay c"
  "no_relay (c\<lparr>nc_sessionPort := p\<rparr>) = no_relay c"
  by (simp_all add: no_relay_def)

lemma no_relay_join_at: "leads (config_still no_relay) (join_at W ''matchmaking'' code r)"
proof -
  have none: "leads (config_still no_relay) (seq (reads (nc_relayRoomCode \<circ> lc_config)) (\<lambda>code.
      seq (if v \<and> code \<noteq> [] then ConfigureGgpoTransportForRelay W code ''guest'' else ret ()) k))"
    if "leads (config_still no_relay) (seq (ret ()) k)" for v and k :: "unit \<Rightarrow> ui_error option ctl"
    using that by (auto simp: leads_def still_def no_relay_def)
  show ?thesis
    unfolding join_at_def joined_config_def probe_host_def remember_join_def Let_def
    by (intro none steady_rules; simp add: no_relay_simps)
qed

lemma no_relay_join:
  assumes "msg_str W msg ''connectMethod'' ''matchmaking''"
  shows "leads (config_still no_relay) (start_connect W msg (mode_int NM_Join))"
proof -
  have "leads (config_still no_relay) (start_join W msg ''matchmaking'')"
    unfolding start_join_def join_endpoint_def by (intro steady_rules no_relay_join_at)
  then show ?thesis
    unfolding start_connect_def msg_value [OF assms]
    by (auto intro!: steady_rules)
qed

lemma no_relay_report: "leads (config_still Q) (report_start W)"
  unfolding report_start_def Let_def by (intro steady_rules)


lemma demo_hash: "HashSidecarDllNextToLauncher demo_world 128 lg = (Ret (Some [char_of (55 :: nat), char_of (56 :: nat)]), lg @ [HashSidecar])"
  by (simp add: HashSidecarDllNextToLauncher_def demo_world_def hex_pair_def hex_char_def copy_trunc_def)

lemma demo_queue: "join_queue demo_world demo_broker kDefaultBrokerBaseUrl name hash lg =
    (Ret \<lparr>sr_ok = True, sr_error = NoError, sr_host = ''9.9.9.9'', sr_port = 4000\<rparr>,
     lg @ [HttpPostJson demo_broker ''/v1/queue/join'' ''{}'' 4096])"
  by (cases hash) (simp_all add: join_queue_def queue_body_def matched_def read_queue_def no_join_def demo_run demo_json)

lemma demo_matchmaking: "ResolveJoinMatchmaking demo_world kDefaultBrokerBaseUrl name lg =
    (Ret \<lparr>sr_ok = True, sr_error = NoError, sr_host = ''9.9.9.9'', sr_port = 4000\<rparr>,
     lg @ [HttpGet demo_broker ''/v1/health'' 4096, HashSidecar, HttpPostJson demo_broker ''/v1/queue/join'' ''{}'' 4096])"
  by (simp add: ResolveJoinMatchmaking_def parse_url_def demo_env demo_texts runs demo_health demo_hash demo_queue)

lemma demo_match_run:
  "\<exists>s'. HandleWebMessage demo_world (join_msg ''matchmaking'') demo_launcher = (Ret NoReply, s') \<and>
     nc_useCentralSession (lc_config s') = 2"
  by (simp add: join_msg_def demo_start demo_connect demo_health demo_matchmaking demo_env runs demo_texts demo_json
      NetplayConfigApplyGgpoDisconnectDefaults_def Let_def)


section \<open>Where the code falls short\<close>

text \<open>Links the check lets through although they lead elsewhere: what follows a question mark is
  taken for the host.\<close>

theorem link_check_bypassed:
  "IsAllowedExternalUrl ''https://evil.example?@github.com/'' = Ret True"
  "IsAllowedExternalUrl ''https://evil.example?.github.io/'' = Ret True"
  by code_simp+

text \<open>An address of this machine the broker's guard lets through: it only knows four numbers.\<close>

theorem broker_guard_bypassed:
  "ParseBrokerBaseUrl (\<lambda>_. None) ''https://127.1/'' =
     Ret (Some \<lparr>bu_host = ''127.1'', bu_port = 443, bu_https = True, bu_path = ''/''\<rparr>)"
  by code_simp

text \<open>A code of more than 27 characters can keep blanks, which then stand in the request's path.\<close>

theorem blanks_in_room_path:
  "NormalizeRelayRoomCode (''ABCD'' @ replicate 23 CHR '' '' @ ''x'') 32 = Some (''SF4-ABCD'' @ replicate 23 CHR '' '')"
  by code_simp

text \<open>Settings that cannot be printed (a name cut inside a character) leave an empty file.\<close>

theorem save_loses_settings:
  assumes "cf_path f" "cf_writable f" "lw_pretty W (mk_obj (lw_json W) (settings_fields (lw_json W) s)) = None"
  shows "SavePersistedSettings W s f = (Throws, f\<lparr>cf_text := Some []\<rparr>)"
  using assms by (simp add: SavePersistedSettings_def or_throw_def)

text \<open>A start keeps any input delay above ten, and one of 256 becomes none.\<close>

theorem start_delay_wraps:
  "\<exists>t. start_settings demo_world (JObj [(''inputDelay'', JInt 256)]) demo_launcher = (Ret True, t) \<and>
     ps_inputDelay (lc_settings t) = 0"
  by (simp add: start_settings_def in_settings_def demo_env demo_json demo_launcher_def default_settings_def)

end
