(* ===== verification/Package_Tree.thy ===== *)
theory Package_Tree
  imports Room_Code
begin

text \<open>
  Release packages on disk: which files one may hold and must hold, the walk over
  a staged directory that checks it, and the search for the package in what an
  archive unpacked to (launcher/update/github_release_client.cxx). The disk is a
  parameter, one record of what the Windows path functions and directory
  searches answer; paths are characters without a terminator. Literals write
  the separator as a slash, which \<open>win\<close> turns round.
\<close>

section \<open>Paths and directories\<close>

text \<open>
  \<open>d_join\<close> is PathCchCombine on a buffer that is long enough, \<open>d_failed\<close> what a
  failed one leaves in the buffer; \<open>d_find\<close> is a whole directory search: the
  names found and whether each is a directory, or None for an invalid handle.
\<close>

record disk =
  d_join :: "string \<Rightarrow> string \<Rightarrow> string option"
  d_failed :: "string \<Rightarrow> string \<Rightarrow> string"
  d_full :: "string \<Rightarrow> string option"
  d_parent :: "string \<Rightarrow> string option"
  d_leaf :: "string \<Rightarrow> string"
  d_attrs :: "string \<Rightarrow> bool option"
  d_find :: "string \<Rightarrow> (string \<times> bool) list option"

definition win :: "string \<Rightarrow> string" where
  "win = map (\<lambda>c. if c = CHR ''/'' then CHR 0x5C else c)"

definition MAX_PATH :: nat where
  "MAX_PATH = 260"

text \<open>A call that succeeds, and the buffer after a call nobody checks.\<close>

definition combine :: "disk \<Rightarrow> nat \<Rightarrow> string \<Rightarrow> string \<Rightarrow> string option" where
  "combine D n a b = (case d_join D a b of Some p \<Rightarrow> if length p < n then Some p else None | None \<Rightarrow> None)"

definition combined :: "disk \<Rightarrow> nat \<Rightarrow> string \<Rightarrow> string \<Rightarrow> string" where
  "combined D n a b = (case combine D n a b of Some p \<Rightarrow> p | None \<Rightarrow> d_failed D a b)"

definition path_exists :: "disk \<Rightarrow> string \<Rightarrow> bool" where
  "path_exists D p \<longleftrightarrow> d_attrs D p \<noteq> None"

definition is_directory :: "disk \<Rightarrow> string \<Rightarrow> bool" where
  "is_directory D p \<longleftrightarrow> d_attrs D p = Some True"

text \<open>The entries a search visits; an entry has a name, and the two dot entries are passed over.\<close>

definition dots :: "string \<Rightarrow> bool" where
  "dots name \<longleftrightarrow> name = ''.'' \<or> name = ''..''"

definition find_files :: "disk \<Rightarrow> string \<Rightarrow> (string \<times> bool) list option" where
  "find_files D pattern = map_option (filter (\<lambda>(name, dir). name \<noteq> [])) (d_find D pattern)"

definition wcsicmp_eq :: "string \<Rightarrow> string \<Rightarrow> bool" where
  "wcsicmp_eq a b = stricmp_eq a b"

section \<open>The lists\<close>

definition kRequiredPackagePaths :: "string list" where
  "kRequiredPackagePaths = map win
     [''Launcher.exe'', ''Sidecar.dll'', ''RelayHost.exe'', ''Updater.exe'', ''spdlog.dll'', ''fmt.dll'',
      ''GameNetworkingSockets.dll'', ''GGPO.dll'', ''libcrypto-3.dll'', ''libprotobuf.dll'', ''abseil_dll.dll'',
      ''Qt6Core.dll'', ''Qt6Gui.dll'', ''Qt6Widgets.dll'', ''qt.conf'', ''plugins/platforms/qwindows.dll'',
      ''preflight.ps1'', ''preflight.cmd'', ''START_HERE.md'', ''BUILD_INFO.txt'']"

definition kAllowedPackagePaths :: "string list" where
  "kAllowedPackagePaths = map win
     [''Launcher.exe'', ''Sidecar.dll'', ''RelayHost.exe'', ''Updater.exe'', ''START_HERE.md'', ''preflight.cmd'',
      ''preflight.ps1'', ''qt.conf'', ''MANIFEST.txt'', ''ATTRIBUTION.md'', ''BUILD_INFO.txt'', ''spdlog.dll'',
      ''fmt.dll'', ''GameNetworkingSockets.dll'', ''GGPO.dll'', ''libcrypto-3.dll'', ''libprotobuf.dll'',
      ''abseil_dll.dll'', ''Qt6Core.dll'', ''Qt6Gui.dll'', ''Qt6Widgets.dll'', ''Qt6Network.dll'',
      ''icudt78.dll'', ''icuin78.dll'', ''icuuc78.dll'', ''double-conversion.dll'', ''pcre2-16.dll'',
      ''md4c.dll'', ''zlib1.dll'', ''plugins/generic/qtuiotouchplugin.dll'',
      ''plugins/imageformats/qgif.dll'', ''plugins/imageformats/qico.dll'', ''plugins/imageformats/qjpeg.dll'',
      ''plugins/networkinformation/qnetworklistmanager.dll'', ''plugins/platforms/qwindows.dll'',
      ''plugins/styles/qmodernwindowsstyle.dll'', ''plugins/tls/qcertonlybackend.dll'',
      ''plugins/tls/qschannelbackend.dll'', ''docs/TROUBLESHOOTING.md'', ''docs/USER_NETPLAY.md'',
      ''docs/BETA_TESTERS.md'', ''docs/SCOPE_AND_LIMITATIONS.md'', ''docs/TEAM_QUICKSTART.md'',
      ''docs/SMOKE_TEST.md'', ''docs/NETPLAY_INVARIANTS.md'', ''docs/WINDOWS_DEFENDER.md'',
      ''docs/CODE_SIGNING.md'']"

text \<open>The last dot and what follows it.\<close>

definition extension :: "string \<Rightarrow> string option" where
  "extension rel = map_option (\<lambda>(a, b). CHR ''.'' # b) (strrchr_split rel CHR ''.'')"

definition IsAllowedPackagePath :: "string \<Rightarrow> bool" where
  "IsAllowedPackagePath rel \<longleftrightarrow>
     (if rel = [] then False
      else if wcsicmp_eq rel ''SECURITY.md'' then True
      else if strnicmp_eq rel (win ''plugins/'') \<and>
          (case extension rel of Some e \<Rightarrow> wcsicmp_eq e ''.dll'' \<or> wcsicmp_eq e ''.pdb'' | None \<Rightarrow> False) then True
      else list_ex (wcsicmp_eq rel) kAllowedPackagePaths)"

definition PathExistsUnderRoot :: "disk \<Rightarrow> string \<Rightarrow> string \<Rightarrow> bool" where
  "PathExistsUnderRoot D baseDir rel \<longleftrightarrow>
     (case combine D (MAX_PATH * 2) baseDir rel of Some p \<Rightarrow> path_exists D p | None \<Rightarrow> False)"

section \<open>The walk over a staged package\<close>

definition join_rel :: "string \<Rightarrow> string \<Rightarrow> string" where
  "join_rel base name = (if base = [] then name else base @ [CHR 0x5C] @ name)"

text \<open>The search pattern of a directory of the package; None when a path does not fit.\<close>

definition walk_pattern :: "disk \<Rightarrow> string \<Rightarrow> string \<Rightarrow> string option" where
  "walk_pattern D root base =
     (case (if base = [] then Some (copy_trunc (MAX_PATH * 2) root) else combine D (MAX_PATH * 2) root base) of
        None \<Rightarrow> None
      | Some dir \<Rightarrow> combine D (MAX_PATH * 2) (copy_trunc (MAX_PATH * 2) dir) ''*'')"

text \<open>
  A relative path grows at every level and has to fit its buffer, so the walk
  ends on any disk. A directory that cannot be searched is passed.
\<close>

function ValidatePackageTree :: "disk \<Rightarrow> string \<Rightarrow> string \<Rightarrow> bool" where
  "ValidatePackageTree D root base \<longleftrightarrow>
     (case walk_pattern D root base of
        None \<Rightarrow> False
      | Some pattern \<Rightarrow>
          (case find_files D pattern of
             None \<Rightarrow> True
           | Some found \<Rightarrow> list_all (\<lambda>(name, dir). dots name \<or>
               (let rel = join_rel base name
                in if MAX_PATH * 2 \<le> length rel then False
                   else if dir then ValidatePackageTree D root rel
                   else IsAllowedPackagePath rel)) found))"
  by pat_completeness auto
termination
  by (relation "measure (\<lambda>(D, root, base). MAX_PATH * 2 - length base)")
     (auto simp: find_files_def join_rel_def)

declare ValidatePackageTree.simps [simp del]

definition ValidateStagedPackage :: "disk \<Rightarrow> string \<Rightarrow> bool" where
  "ValidateStagedPackage D stagingDir \<longleftrightarrow>
     list_all (PathExistsUnderRoot D stagingDir) kRequiredPackagePaths \<and> ValidatePackageTree D stagingDir []"

section \<open>What an archive unpacked to\<close>

text \<open>GetFullPathNameW into its buffer: a path that does not fit is reported as its length, which is not zero.\<close>

definition full_path :: "disk \<Rightarrow> string \<Rightarrow> string option" where
  "full_path D p = map_option (\<lambda>f. if length f < MAX_PATH * 2 then f else []) (d_full D p)"

definition IsPathUnderRoot :: "disk \<Rightarrow> string \<Rightarrow> string \<Rightarrow> bool" where
  "IsPathUnderRoot D root candidate \<longleftrightarrow>
     (case (full_path D root, full_path D candidate) of
        (Some rootFull, Some candidateFull) \<Rightarrow>
          (let dir = (if rootFull \<noteq> [] \<and> last rootFull \<noteq> CHR 0x5C then rootFull @ [CHR 0x5C] else rootFull)
           in strnicmp_eq candidateFull dir)
      | _ \<Rightarrow> False)"

text \<open>
  Two recursions over directories by path, with fuel: None when it runs out. The
  loop over the entries stops at the first that decides.
\<close>

fun all_entries :: "(string \<Rightarrow> bool \<Rightarrow> bool option) \<Rightarrow> (string \<times> bool) list \<Rightarrow> bool option" where
  "all_entries ok [] = Some True"
| "all_entries ok ((name, dir) # es) =
     (case ok name dir of None \<Rightarrow> None | Some False \<Rightarrow> Some False | Some True \<Rightarrow> all_entries ok es)"

fun ValidateExtractedTree :: "nat \<Rightarrow> disk \<Rightarrow> string \<Rightarrow> bool option" where
  "ValidateExtractedTree 0 D extractRoot = None"
| "ValidateExtractedTree (Suc fuel) D extractRoot =
     (if extractRoot = [] then Some False
      else (case find_files D (combined D (MAX_PATH * 2) (copy_trunc (MAX_PATH * 2) extractRoot) ''*'') of
         None \<Rightarrow> Some False
       | Some found \<Rightarrow> all_entries (\<lambda>name dir.
           if dots name then Some True
           else (let entry = combined D (MAX_PATH * 2) extractRoot name
                 in if \<not> IsPathUnderRoot D extractRoot entry then Some False
                    else if dir then ValidateExtractedTree fuel D entry
                    else Some True)) found))"

definition holds_package :: "disk \<Rightarrow> string \<Rightarrow> string \<Rightarrow> bool" where
  "holds_package D searchRoot launcherPath \<longleftrightarrow>
     path_exists D launcherPath \<and>
     ((case combine D MAX_PATH searchRoot (win ''dll/Sidecar.dll'') of
         Some p \<Rightarrow> path_exists D p | None \<Rightarrow> False) \<or>
      (case combine D MAX_PATH searchRoot ''Sidecar.dll'' of Some p \<Rightarrow> path_exists D p | None \<Rightarrow> False))"

fun first_root :: "(string \<Rightarrow> string option option) \<Rightarrow> (string \<times> bool) list \<Rightarrow> string option option" where
  "first_root search [] = Some None"
| "first_root search ((name, dir) # es) =
     (if \<not> dir \<or> dots name then first_root search es
      else (case search name of
              None \<Rightarrow> None
            | Some (Some root) \<Rightarrow> Some (Some root)
            | Some None \<Rightarrow> first_root search es))"

fun FindPackageRoot :: "nat \<Rightarrow> disk \<Rightarrow> nat \<Rightarrow> string \<Rightarrow> string option option" where
  "FindPackageRoot 0 D outRootChars searchRoot = None"
| "FindPackageRoot (Suc fuel) D outRootChars searchRoot =
     (if outRootChars = 0 then Some None
      else (case combine D MAX_PATH searchRoot ''Launcher.exe'' of
         None \<Rightarrow> Some None
       | Some launcherPath \<Rightarrow>
           if holds_package D searchRoot launcherPath then Some (Some (copy_trunc outRootChars searchRoot))
           else (case find_files D (combined D MAX_PATH (copy_trunc MAX_PATH searchRoot) ''*'') of
              None \<Rightarrow> Some None
            | Some found \<Rightarrow>
                first_root (\<lambda>name. FindPackageRoot fuel D outRootChars (combined D MAX_PATH searchRoot name)) found)))"

end
