(* ===== verification/Install_Paths.thy ===== *)
theory Install_Paths
  imports Package_Tree Launcher_World
begin

text \<open>
  Where the program is installed and where its libraries are found
  (common/install_paths.cxx), and the stub that starts the launcher proper
  (launcher/launcher_stub.cxx). What the process is told about itself is
  \<open>install_env\<close>; the search order it sets up is the state \<open>dll_search\<close>.
\<close>

section \<open>The install root\<close>

definition kDllDirName :: string where
  "kDllDirName = ''dll''"

text \<open>The path of the executable is cut to its buffer, which is not an error.\<close>

definition GetInstallRoot :: "disk \<Rightarrow> string option \<Rightarrow> nat \<Rightarrow> string option" where
  "GetInstallRoot D module n =
     (if n = 0 then None
      else (case module of
         None \<Rightarrow> None
       | Some exe \<Rightarrow>
           (case d_parent D (copy_trunc n exe) of
              None \<Rightarrow> None
            | Some dir \<Rightarrow> if wcsicmp_eq (d_leaf D dir) kDllDirName then d_parent D dir else Some dir)))"

definition DirExists :: "disk \<Rightarrow> string \<Rightarrow> bool" where
  "DirExists D path \<longleftrightarrow> path \<noteq> [] \<and> is_directory D path"

definition GetPackageDllDirectory :: "disk \<Rightarrow> string option \<Rightarrow> nat \<Rightarrow> string option" where
  "GetPackageDllDirectory D module n =
     (case GetInstallRoot D module MAX_PATH of
        None \<Rightarrow> None
      | Some root \<Rightarrow>
          (case combine D n root kDllDirName of
             None \<Rightarrow> None
           | Some dir \<Rightarrow> if DirExists D dir then Some dir else if length root < n then Some root else None))"

definition UsesDllSubdirectory :: "disk \<Rightarrow> string option \<Rightarrow> bool" where
  "UsesDllSubdirectory D module \<longleftrightarrow>
     (case GetInstallRoot D module MAX_PATH of
        None \<Rightarrow> False
      | Some root \<Rightarrow>
          (case combine D MAX_PATH root kDllDirName of None \<Rightarrow> False | Some dir \<Rightarrow> DirExists D dir))"

definition in_dll_dir :: "disk \<Rightarrow> string option \<Rightarrow> string \<Rightarrow> string \<Rightarrow> nat \<Rightarrow> string option" where
  "in_dll_dir D module root rel n =
     (if \<not> UsesDllSubdirectory D module then None
      else (case combine D MAX_PATH root kDllDirName of
         None \<Rightarrow> None
       | Some dir \<Rightarrow> (case combine D n dir rel of Some p \<Rightarrow> if path_exists D p then Some p else None | None \<Rightarrow> None)))"

definition ResolveInstallFile :: "disk \<Rightarrow> string option \<Rightarrow> string \<Rightarrow> nat \<Rightarrow> string option" where
  "ResolveInstallFile D module rel n =
     (if rel = [] \<or> n = 0 then None
      else (case GetInstallRoot D module MAX_PATH of
         None \<Rightarrow> None
       | Some root \<Rightarrow>
           (case in_dll_dir D module root rel n of
              Some p \<Rightarrow> Some p
            | None \<Rightarrow> (case combine D n root rel of
                  Some p \<Rightarrow> if path_exists D p then Some p else None | None \<Rightarrow> None))))"

section \<open>The search order\<close>

record dll_search =
  ds_path :: "string option"
  ds_dir :: "string option"
  ds_default :: bool
  ds_added :: "string list"

text \<open>Whether the two allocations succeed and whether the variable can be set.\<close>

record path_env =
  pa_read :: bool
  pa_write :: bool
  pa_set :: bool

definition kMaxEnv :: nat where
  "kMaxEnv = 32767"

definition set_path :: "path_env \<Rightarrow> string \<Rightarrow> (dll_search, bool) act" where
  "set_path E value = (if pa_set E then seq (update (ds_path_update (\<lambda>_. Some value))) (\<lambda>_. ret True) else ret False)"

definition PrependPath :: "path_env \<Rightarrow> string \<Rightarrow> (dll_search, bool) act" where
  "PrependPath E dir =
     (if dir = [] then ret False
      else seq (reads ds_path) (\<lambda>path. case path of
         None \<Rightarrow> set_path E dir
       | Some existing \<Rightarrow>
           if \<not> pa_read E then ret False
           else if kMaxEnv < length existing + 1 + length dir + 4 then ret False
           else if \<not> pa_write E then ret False
           else set_path E (dir @ '';'' @ existing)))"

text \<open>\<open>newer\<close>: kernel32 has SetDefaultDllDirectories and AddDllDirectory.\<close>

definition add_user_dir :: "bool \<Rightarrow> string \<Rightarrow> dll_search \<Rightarrow> dll_search" where
  "add_user_dir newer dir s =
     (if newer then s\<lparr>ds_default := True, ds_added := ds_added s @ [dir]\<rparr> else s)"

definition ConfigureDllSearch :: "disk \<Rightarrow> string option \<Rightarrow> path_env \<Rightarrow> bool \<Rightarrow> (dll_search, bool) act" where
  "ConfigureDllSearch D module E newer =
     (case GetInstallRoot D module MAX_PATH of
        None \<Rightarrow> ret False
      | Some root \<Rightarrow>
          (case combine D MAX_PATH root kDllDirName of
             None \<Rightarrow> ret False
           | Some dllDir \<Rightarrow>
               if \<not> DirExists D dllDir
               then seq (update (ds_dir_update (\<lambda>_. Some root))) (\<lambda>_.
                    seq (PrependPath E root) (\<lambda>_. ret True))
               else seq (update (add_user_dir newer dllDir)) (\<lambda>_.
                    seq (update (ds_dir_update (\<lambda>_. Some dllDir))) (\<lambda>_.
                    seq (PrependPath E dllDir) (\<lambda>_. ret True)))))"

section \<open>The stub\<close>

text \<open>
  The command line of the process, and for a program started on it in a
  directory its exit code, None when it cannot be started. A stub that started
  the program ends with its exit code; otherwise it returns its own.
\<close>

record stub_env =
  se_disk :: disk
  se_module :: "string option"
  se_path :: path_env
  se_newer :: bool
  se_cmdLine :: "string option"
  se_run :: "string \<Rightarrow> string \<Rightarrow> string \<Rightarrow> 32 word option"

datatype stub_end = Exits "32 word" | Returns int | ShowsMissing int

definition LaunchApp :: "stub_env \<Rightarrow> string \<Rightarrow> string \<Rightarrow> 32 word option" where
  "LaunchApp E appPath workDir =
     (case se_cmdLine E of
        None \<Rightarrow> None
      | Some raw \<Rightarrow> if 32768 \<le> length raw then None else se_run E appPath raw workDir)"

definition launched :: "32 word option \<Rightarrow> stub_end" where
  "launched r = (case r of None \<Rightarrow> Returns 1 | Some code \<Rightarrow> Exits code)"

definition stub_main :: "stub_env \<Rightarrow> stub_end" where
  "stub_main E =
     (let D = se_disk E in
      case GetInstallRoot D (se_module E) MAX_PATH of
        None \<Rightarrow> Returns 1
      | Some root \<Rightarrow>
          (case ResolveInstallFile D (se_module E) ''LauncherApp.exe'' MAX_PATH of
             Some appPath \<Rightarrow> launched (LaunchApp E appPath root)
           | None \<Rightarrow>
               (case combine D MAX_PATH root ''LauncherApp.exe'' of
                  None \<Rightarrow> Returns 1
                | Some appPath \<Rightarrow>
                    if \<not> path_exists D appPath then ShowsMissing 1 else launched (LaunchApp E appPath root))))"

definition stub_search :: "stub_env \<Rightarrow> (dll_search, stub_end) act" where
  "stub_search E =
     seq (ConfigureDllSearch (se_disk E) (se_module E) (se_path E) (se_newer E)) (\<lambda>_. ret (stub_main E))"

section \<open>Facts\<close>

lemma combine_Some: "combine D n a b = Some p \<Longrightarrow> d_join D a b = Some p \<and> length p < n"
  by (auto simp: combine_def split: option.splits if_splits)

text \<open>The file that is started exists, and in the package's own directory when it has one there.\<close>

lemma resolved_exists: "ResolveInstallFile D m rel n = Some p \<Longrightarrow> path_exists D p"
  by (auto simp: ResolveInstallFile_def in_dll_dir_def split: option.splits if_splits)

lemma dll_dir_first:
  assumes "GetInstallRoot D m MAX_PATH = Some root" "combine D MAX_PATH root kDllDirName = Some dir"
    "DirExists D dir" "combine D n dir rel = Some p" "path_exists D p" "rel \<noteq> []" "0 < n"
  shows "ResolveInstallFile D m rel n = Some p"
  using assms by (simp add: ResolveInstallFile_def in_dll_dir_def UsesDllSubdirectory_def)

text \<open>The last place the stub looks is one it has looked at: it starts what ResolveInstallFile finds or nothing.\<close>

lemma stub_fallback_is_dead:
  assumes "GetInstallRoot D m MAX_PATH = Some root" "ResolveInstallFile D m ''LauncherApp.exe'' MAX_PATH = None"
    "combine D MAX_PATH root ''LauncherApp.exe'' = Some p"
  shows "\<not> path_exists D p"
  using assms by (auto simp: ResolveInstallFile_def MAX_PATH_def split: option.splits if_splits)

text \<open>The variable stays within the system's limit, and keeps what it held.\<close>

lemma PrependPath_path:
  "PrependPath E dir s = (r, s') \<Longrightarrow> ds_path s' = ds_path s \<or>
     dir \<noteq> [] \<and> ds_path s' = Some (case ds_path s of None \<Rightarrow> dir | Some old \<Rightarrow> dir @ '';'' @ old) \<and>
     (ds_path s \<noteq> None \<longrightarrow> length (the (ds_path s')) < kMaxEnv)"
  by (auto simp: PrependPath_def set_path_def split: option.splits if_splits)

end
