(* ===== verification/Release_Text.thy ===== *)
theory Release_Text
  imports Launcher_World
begin

text \<open>
  The text side of the release client (launcher/update/github_release_client.cxx):
  version tags and their order, the hosts a download may name, the label in
  BUILD_INFO.txt, the digest GitHub publishes, tags as file names and the words
  for a failed download.
\<close>

section \<open>Versions\<close>

text \<open>
  One \<open>%d\<close> of sscanf_s: white space, a sign, digits; read as a signed 64-bit
  number, saturating, and cut to 32 bits.
\<close>

definition scan_d :: "string \<Rightarrow> (32 word \<times> string) option" where
  "scan_d s =
     (let t = dropWhile is_space s;
          neg = (t \<noteq> [] \<and> hd t = CHR ''-'');
          u = (if neg \<or> t \<noteq> [] \<and> hd t = CHR ''+'' then tl t else t);
          v = int (read_digits u)
      in if takeWhile is_digit u = [] then None
         else Some (word_of_int (if neg then (if 2 ^ 63 < v then - (2 ^ 63) else - v)
                                 else if 2 ^ 63 \<le> v then 2 ^ 63 - 1 else v), dropWhile is_digit u))"

type_synonym version = "32 word \<times> 32 word \<times> 32 word"

definition ParseVersionTriple :: "string \<Rightarrow> version" where
  "ParseVersionTriple tag =
     (case scan_d (dropWhile (\<lambda>c. c = CHR ''v'' \<or> c = CHR ''V'') tag) of
        None \<Rightarrow> (0, 0, 0)
      | Some (major, s1) \<Rightarrow>
          (case Option.bind (scan_dot s1) scan_d of
             None \<Rightarrow> (major, 0, 0)
           | Some (minor, s2) \<Rightarrow>
               (case Option.bind (scan_dot s2) scan_d of
                  None \<Rightarrow> (major, minor, 0)
                | Some (patch, _) \<Rightarrow> (major, minor, patch))))"

text \<open>The differences wrap around.\<close>

definition CompareVersions :: "string \<Rightarrow> string \<Rightarrow> int" where
  "CompareVersions a b =
     (case (ParseVersionTriple a, ParseVersionTriple b) of
        ((am, amin, ap), (bm, bmin, bp)) \<Rightarrow>
          sint (if am \<noteq> bm then am - bm else if amin \<noteq> bmin then amin - bmin else ap - bp))"

section \<open>Where a download may go\<close>

definition ParseHttpsHostFromUrl :: "string \<Rightarrow> nat \<Rightarrow> string option outcome" where
  "ParseHttpsHostFromUrl url outHostLen =
     (if outHostLen = 0 \<or> \<not> strnicmp_eq url ''https://'' then Ret None
      else (let hostStart = drop 8 url in
        case (case strchr hostStart CHR ''/'' of
                Some pathStart \<Rightarrow> strncpy_count outHostLen (length hostStart - length pathStart) hostStart
              | None \<Rightarrow> Ret (copy_trunc outHostLen hostStart)) of
          Throws \<Rightarrow> Throws
        | Aborts \<Rightarrow> Aborts
        | Ret copied \<Rightarrow>
            (let shown = (case strchr copied CHR ''@'' of Some from_at \<Rightarrow> tl from_at | None \<Rightarrow> copied);
                 host = takeWhile (\<lambda>c. c \<noteq> CHR '':'') shown
             in Ret (if host = [] then None else Some host))))"

definition allowed_hosts :: "string list" where
  "allowed_hosts = [''api.github.com'', ''github.com'', ''www.github.com'', ''objects.githubusercontent.com'',
     ''codeload.github.com'']"

definition IsAllowedUpdateHost :: "string \<Rightarrow> bool" where
  "IsAllowedUpdateHost host \<longleftrightarrow> host \<noteq> [] \<and> list_ex (stricmp_eq host) allowed_hosts"

definition IsAllowedUpdateUrl :: "string \<Rightarrow> bool outcome" where
  "IsAllowedUpdateUrl url =
     (case ParseHttpsHostFromUrl url 256 of
        Throws \<Rightarrow> Throws
      | Aborts \<Rightarrow> Aborts
      | Ret r \<Rightarrow> Ret (case r of None \<Rightarrow> False | Some host \<Rightarrow> IsAllowedUpdateHost host))"

section \<open>The installed version\<close>

text \<open>The line after a label, without blanks around it.\<close>

definition label_text :: "nat \<Rightarrow> string \<Rightarrow> string" where
  "label_text n val =
     rev (dropWhile (\<lambda>c. c = CHR '' '' \<or> c = CHR 0x0D)
       (rev (copy_trunc n (dropWhile (\<lambda>c. c = CHR '' '' \<or> c = CHR 0x09) val))))"

definition line_label :: "nat \<Rightarrow> string \<Rightarrow> string option" where
  "line_label n line =
     (let l = dropWhile (\<lambda>c. c = CHR '' '' \<or> c = CHR 0x09 \<or> c = CHR 0x0D) line
      in if strnicmp_eq l ''Release:'' then Some (label_text n (drop 8 l))
         else if strnicmp_eq l ''Label:'' then Some (label_text n (drop 6 l))
         else None)"

function find_label :: "nat \<Rightarrow> string \<Rightarrow> string option" where
  "find_label n [] = None"
| "find_label n (c # cs) =
     (case line_label n (takeWhile (\<lambda>x. x \<noteq> CHR 0x0A) (c # cs)) of
        Some v \<Rightarrow> Some v
      | None \<Rightarrow> find_label n (drop 1 (dropWhile (\<lambda>x. x \<noteq> CHR 0x0A) (c # cs))))"
  by pat_completeness auto
termination
proof (relation "measure (\<lambda>(n, buf). length buf)")
  fix n c cs
  have "length (drop 1 (dropWhile (\<lambda>x. x \<noteq> CHR 0x0A) (c # cs))) \<le> length cs"
    using length_dropWhile_le [of "\<lambda>x. x \<noteq> CHR 0x0A" cs] by (cases "c = CHR 0x0A") simp_all
  then show "((n, drop 1 (dropWhile (\<lambda>x. x \<noteq> CHR 0x0A) (c # cs))), (n, c # cs)) \<in> measure (\<lambda>(n, buf). length buf)"
    by simp
qed simp

section \<open>Tags, digests and messages\<close>

definition GetGithubRepo :: "environ \<Rightarrow> nat \<Rightarrow> string" where
  "GetGithubRepo env n =
     copy_trunc n (case env ''SF4E_GITHUB_REPO'' of
       Some repo \<Rightarrow> if repo = [] then ''Confetti3/SF4-Netplay-Launcher'' else repo
     | None \<Rightarrow> ''Confetti3/SF4-Netplay-Launcher'')"

definition path_breaker :: "char \<Rightarrow> bool" where
  "path_breaker c \<longleftrightarrow> c \<in> {CHR 0x5C, CHR ''/'', CHR '':'', CHR ''*'', CHR ''?'', CHR 0x22, CHR ''<'', CHR ''>'', CHR ''|''}"

definition SanitizeTagForPath :: "string \<Rightarrow> nat \<Rightarrow> string" where
  "SanitizeTagForPath tag outLen = map (\<lambda>c. if path_breaker c then CHR ''_'' else c) (copy_trunc outLen tag)"

definition parseSha256Digest :: "string \<Rightarrow> string" where
  "parseSha256Digest digest = (if 7 < length digest \<and> starts ''sha256:'' digest then drop 7 digest else [])"

definition HexEqualsIgnoreCase :: "string \<Rightarrow> string \<Rightarrow> bool" where
  "HexEqualsIgnoreCase a b \<longleftrightarrow> length a = length b \<and> list_all (\<lambda>(x, y). char_lower x = char_lower y) (zip a b)"

definition show_int :: "int \<Rightarrow> string" where
  "show_int i = (if i < 0 then CHR ''-'' # dec_nat (nat (- i)) else dec_nat (nat i))"

definition with_win32 :: "string \<Rightarrow> 32 word \<Rightarrow> string" where
  "with_win32 what code = what @ '' (Win32 '' @ to_string code @ '')''"

fun HttpDownloadErrorMessage :: "http_error \<Rightarrow> int \<Rightarrow> 32 word \<Rightarrow> string" where
  "HttpDownloadErrorMessage HE_HttpStatus status e = (if 0 < status then ''HTTP '' @ show_int status else ''HTTP error'')"
| "HttpDownloadErrorMessage HE_Timeout status e = ''timed out''"
| "HttpDownloadErrorMessage HE_ConnectFailed status e = with_win32 ''could not connect'' e"
| "HttpDownloadErrorMessage HE_ReceiveFailed status e = with_win32 ''transfer interrupted'' e"
| "HttpDownloadErrorMessage HE_EmptyBody status e = ''empty response''"
| "HttpDownloadErrorMessage HE_SendFailed status e = with_win32 ''request failed'' e"
| "HttpDownloadErrorMessage HE_OpenFailed status e = with_win32 ''connection open failed'' e"
| "HttpDownloadErrorMessage HE_WriteFailed status e = with_win32 ''could not write temp file'' e"
| "HttpDownloadErrorMessage HE_InvalidArgs status e = ''invalid download URL''"
| "HttpDownloadErrorMessage HE_None status e = ''unknown error (kind 0, Win32 '' @ to_string e @ '')''"

end
