(* ===== verification/Release_Client.thy ===== *)
theory Release_Client
  imports Install_Paths Release_Text Connect_Strategy
begin

text \<open>
  The release client (launcher/update/github_release_client.cxx): the check for
  a newer release, and the download, verification, unpacking and hand-over of
  one. What it does is a list of \<open>ucall\<close>; what the system answers, the disk
  included, is a function of the calls made so far. Lines for the log file are
  left out.
\<close>

section \<open>The world of the release client\<close>

datatype ucall = GetRelease string
  | MakeDir string
  | Download string string string
  | DeleteFile string
  | HashFile string
  | RunHidden string
  | StartUpdater string string

type_synonym ucalls = "ucall list"

record 'j update_world =
  uw_base :: "'j launcher_world"
  uw_module :: "string option"
  uw_version :: "string option"
  uw_pid :: "32 word"
  uw_disk :: "ucalls \<Rightarrow> disk"
  uw_read :: "ucalls \<Rightarrow> string \<Rightarrow> string option"
  uw_temp :: "ucalls \<Rightarrow> string option"
  uw_procs :: "ucalls \<Rightarrow> string list option"
  uw_get :: "ucalls \<Rightarrow> http_env"
  uw_mkdir :: "ucalls \<Rightarrow> int"
  uw_download :: "ucalls \<Rightarrow> http_env \<times> bool \<times> download_round list"
  uw_error :: "ucalls \<Rightarrow> 32 word"
  uw_hash :: "ucalls \<Rightarrow> hash_env"
  uw_run :: "ucalls \<Rightarrow> 32 word option"
  uw_shell :: "ucalls \<Rightarrow> bool"
  uw_narrow :: "string \<Rightarrow> bool"

type_synonym 'a uact = "(ucalls, 'a) act"

definition c_str :: "string \<Rightarrow> string" where
  "c_str = takeWhile (\<lambda>c. c \<noteq> CHR 0x00)"

section \<open>The installed version and the running game\<close>

definition GetLauncherInstallDir :: "'j update_world \<Rightarrow> nat \<Rightarrow> string option uact" where
  "GetLauncherInstallDir U n = reads (\<lambda>log. GetInstallRoot (uw_disk U log) (uw_module U) n)"

definition info_path :: "disk \<Rightarrow> string \<Rightarrow> string option" where
  "info_path D installDir =
     (case combine D MAX_PATH installDir (win ''readme/BUILD_INFO.txt'') of
        Some p \<Rightarrow> if path_exists D p then Some p else combine D MAX_PATH installDir ''BUILD_INFO.txt''
      | None \<Rightarrow> combine D MAX_PATH installDir ''BUILD_INFO.txt'')"

text \<open>The return value and the buffer, which holds the version the program was built with unless a label is found.\<close>

definition ReadInstalledVersion :: "'j update_world \<Rightarrow> nat \<Rightarrow> (bool \<times> string) uact" where
  "ReadInstalledVersion U n =
     (if n = 0 then ret (False, [])
      else
        (let built = copy_trunc n (case uw_version U of Some v \<Rightarrow> v | None \<Rightarrow> ''dev'') in
         seq (GetLauncherInstallDir U MAX_PATH) (\<lambda>root. case root of
           None \<Rightarrow> ret (False, built)
         | Some installDir \<Rightarrow>
             seq (reads (\<lambda>log. Option.bind (info_path (uw_disk U log) installDir) (uw_read U log))) (\<lambda>content. case content of
               None \<Rightarrow> ret (False, built)
             | Some text \<Rightarrow>
                 (case find_label n (c_str (take 4095 text)) of
                    None \<Rightarrow> ret (False, built)
                  | Some v \<Rightarrow> ret (True, v))))))"

definition IsGameProcessRunning :: "'j update_world \<Rightarrow> bool uact" where
  "IsGameProcessRunning U = reads (\<lambda>log. case uw_procs U log of
     None \<Rightarrow> False | Some names \<Rightarrow> list_ex (\<lambda>n. wcsicmp_eq n ''SSFIV.exe'') names)"

section \<open>The check\<close>

definition no_update :: "string \<Rightarrow> update_check" where
  "no_update installed =
     \<lparr>uc_ok = False, uc_error = [], uc_installed = installed, uc_latest = [], uc_available = False,
      uc_notes = [], uc_url = [], uc_zip = [], uc_zipApi = [], uc_sha = []\<rparr>"

type_synonym 'a chk = "(update_check \<times> ucalls, 'a) act"

text \<open>The assets, up to the first zip with the present name; the older name is remembered.\<close>

fun read_assets :: "'j update_world \<Rightarrow> 'j list \<Rightarrow> string \<times> string \<times> string \<Rightarrow> (string \<times> string \<times> string) chk" where
  "read_assets U [] legacy = ret legacy"
| "read_assets U (asset # assets) legacy =
     seq (value_str (uw_base U) asset ''name'' []) (\<lambda>name.
     if strstr name ''.zip'' = None then read_assets U assets legacy
     else if strstr name ''sf4-netplay-launcher'' \<noteq> None then
       seq (value_str (uw_base U) asset ''browser_download_url'' []) (\<lambda>link.
       seq (fill (uc_zip_update (\<lambda>_. link))) (\<lambda>_.
       seq (value_str (uw_base U) asset ''url'' []) (\<lambda>api.
       seq (fill (uc_zipApi_update (\<lambda>_. api))) (\<lambda>_.
       seq (value_str (uw_base U) asset ''digest'' []) (\<lambda>digest.
       seq (fill (uc_sha_update (\<lambda>_. parseSha256Digest digest))) (\<lambda>_.
       ret legacy))))))
     else if strstr name ''sf4-enhanced-team'' \<noteq> None then
       seq (value_str (uw_base U) asset ''browser_download_url'' []) (\<lambda>link.
       seq (value_str (uw_base U) asset ''url'' []) (\<lambda>api.
       seq (value_str (uw_base U) asset ''digest'' []) (\<lambda>digest.
       read_assets U assets (link, api, parseSha256Digest digest))))
     else read_assets U assets legacy)"

definition use_legacy :: "string \<times> string \<times> string \<Rightarrow> update_check \<Rightarrow> update_check" where
  "use_legacy legacy r =
     (case legacy of (link, api, sha) \<Rightarrow>
        if uc_zip r = [] \<and> link \<noteq> [] then r\<lparr>uc_zip := link, uc_zipApi := api, uc_sha := sha\<rparr> else r)"

definition release_assets :: "'j update_world \<Rightarrow> 'j \<Rightarrow> 'j list option" where
  "release_assets U release =
     (let J = lw_json (uw_base U) in
      if contains (uw_base U) release ''assets'' then Option.bind (j_at J release ''assets'') (j_arr J) else None)"

definition read_links :: "'j update_world \<Rightarrow> 'j \<Rightarrow> unit chk" where
  "read_links U release =
     (case release_assets U release of
        None \<Rightarrow> ret ()
      | Some assets \<Rightarrow> seq (read_assets U assets ([], [], [])) (\<lambda>legacy. fill (use_legacy legacy)))"

definition cut_notes :: "string \<Rightarrow> string" where
  "cut_notes notes = (if 2000 < length notes then take 2000 notes @ ''...'' else notes)"

definition decide_update :: "update_check \<Rightarrow> update_check" where
  "decide_update r =
     (if uc_zip r = [] then r\<lparr>uc_error := ''Latest release has no sf4-netplay-launcher zip asset.''\<rparr>
      else r\<lparr>uc_available := (0 < CompareVersions (c_str (uc_latest r)) (uc_installed r)), uc_ok := True\<rparr>)"

definition read_release :: "'j update_world \<Rightarrow> string \<Rightarrow> unit chk" where
  "read_release U body =
     seq (parse_json (uw_base U) body) (\<lambda>release.
     seq (value_str (uw_base U) release ''tag_name'' []) (\<lambda>tag.
     seq (fill (uc_latest_update (\<lambda>_. tag))) (\<lambda>_.
     seq (value_str (uw_base U) release ''body'' []) (\<lambda>notes.
     seq (fill (uc_notes_update (\<lambda>_. notes))) (\<lambda>_.
     seq (value_str (uw_base U) release ''html_url'' []) (\<lambda>url.
     seq (fill (uc_url_update (\<lambda>_. url))) (\<lambda>_.
     seq (fill (\<lambda>r. r\<lparr>uc_notes := cut_notes (uc_notes r)\<rparr>)) (\<lambda>_.
     if tag = [] then fill (uc_error_update (\<lambda>_. ''GitHub release has no version tag.''))
     else seq (read_links U release) (\<lambda>_. fill decide_update)))))))))"

definition release_path :: "environ \<Rightarrow> string" where
  "release_path env = copy_trunc 256 (''/repos/'' @ GetGithubRepo env 128 @ ''/releases/latest'')"

definition CheckForUpdate :: "'j update_world \<Rightarrow> update_check uact" where
  "CheckForUpdate U =
     seq (ReadInstalledVersion U 64) (\<lambda>(_, installed).
     seq (asks (uw_get U) (GetRelease (release_path (lw_env (uw_base U))))) (\<lambda>E.
     case HttpGetUtf8WithHeadersInternal 65536 E of
       (False, _) \<Rightarrow> ret ((no_update installed)\<lparr>uc_error :=
           ''Could not reach GitHub. Check your internet connection and try again.''\<rparr>)
     | (True, body) \<Rightarrow>
         result_of (filling (no_update installed) (catching (read_release U body)
           (fill (uc_error_update (\<lambda>_. ''Could not parse GitHub release response.'')))))))"

section \<open>Directories and downloads\<close>

text \<open>None when the directory is there, else the error.\<close>

definition EnsureDirectoryExistsW :: "'j update_world \<Rightarrow> string \<Rightarrow> string option uact" where
  "EnsureDirectoryExistsW U dir =
     (if dir = [] then ret (Some ''empty directory path'')
      else seq (reads (\<lambda>log. d_attrs (uw_disk U log) dir)) (\<lambda>attrs. case attrs of
        Some True \<Rightarrow> ret None
      | Some False \<Rightarrow> ret (Some ''path exists but is not a directory'')
      | None \<Rightarrow>
          seq (asks (uw_mkdir U) (MakeDir dir)) (\<lambda>createResult.
          seq (reads (\<lambda>log. is_directory (uw_disk U log) dir)) (\<lambda>there.
          if (createResult = 0 \<or> createResult = 183) \<and> there then ret None
          else ret (Some (''could not create directory (Win32 '' @ show_int createResult @ '')''))))))"

definition EnsureParentDirectoryExistsW :: "'j update_world \<Rightarrow> string \<Rightarrow> string option uact" where
  "EnsureParentDirectoryExistsW U filePath =
     (if filePath = [] then ret (Some ''empty file path'')
      else seq (reads (\<lambda>log. d_parent (uw_disk U log) (copy_trunc MAX_PATH filePath))) (\<lambda>parent. case parent of
        None \<Rightarrow> ret (Some ''could not resolve parent directory'')
      | Some dir \<Rightarrow> EnsureDirectoryExistsW U dir))"

text \<open>From here on a result None is success and Some an error. A download whose rounds
  end before the loop does is cut off.\<close>

definition http_download :: "'j update_world \<Rightarrow> string \<Rightarrow> string \<Rightarrow> string \<Rightarrow> string option uact" where
  "http_download U url headers path =
     seq (asks (uw_download U) (Download url headers path)) (\<lambda>(E, created, rounds).
     case HttpDownloadUrlUtf8 url (path \<noteq> []) E created rounds of
       None \<Rightarrow> lift Aborts
     | Some (_, err) \<Rightarrow>
         if err = HE_None then ret None
         else seq (reads (uw_error U)) (\<lambda>code.
           ret (Some (HttpDownloadErrorMessage err (sint (he_status E)) code))))"

definition TryHttpDownload :: "'j update_world \<Rightarrow> string \<Rightarrow> string \<Rightarrow> string \<Rightarrow> string option uact" where
  "TryHttpDownload U url headers zipPath =
     (if url = [] then ret (Some ''missing URL'')
      else seq (lift (IsAllowedUpdateUrl url)) (\<lambda>allowed.
        if \<not> allowed then ret (Some ''download URL host is not allowlisted'')
        else seq (EnsureParentDirectoryExistsW U zipPath) (\<lambda>r. case r of
          Some e \<Rightarrow> ret (Some e)
        | None \<Rightarrow> http_download U url headers zipPath)))"

definition crlf :: string where
  "crlf = [CHR 0x0D, CHR 0x0A]"

definition agent_header :: string where
  "agent_header = ''User-Agent: sf4e-updater/1.0'' @ crlf"

text \<open>One way to fetch the file: None when it worked, else the failures so far. A missing URL is no attempt.\<close>

definition try_one :: "'j update_world \<Rightarrow> string \<Rightarrow> string \<Rightarrow> string \<Rightarrow> string \<Rightarrow> string list \<Rightarrow> string list option uact" where
  "try_one U label url headers zipPath attempts =
     (if url = [] then ret (Some attempts)
      else seq (TryHttpDownload U url headers zipPath) (\<lambda>r. case r of
        None \<Rightarrow> ret None
      | Some e \<Rightarrow>
          seq (asks (\<lambda>_. ()) (DeleteFile zipPath)) (\<lambda>_.
          ret (Some (if e = [] then attempts else attempts @ [label @ '': '' @ e])))))"

fun joined :: "string list \<Rightarrow> string" where
  "joined [] = []"
| "joined [a] = a"
| "joined (a # as) = a @ ''; '' @ joined as"

definition DownloadReleaseZip :: "'j update_world \<Rightarrow> string \<Rightarrow> string \<Rightarrow> string \<Rightarrow> string option uact" where
  "DownloadReleaseZip U zipApiUrl zipDownloadUrl zipPath =
     seq (try_one U ''browser'' zipDownloadUrl agent_header zipPath []) (\<lambda>first. case first of
       None \<Rightarrow> ret None
     | Some attempts \<Rightarrow>
         seq (try_one U ''api'' zipApiUrl (''Accept: application/octet-stream'' @ crlf @ agent_header) zipPath attempts)
           (\<lambda>second. case second of
             None \<Rightarrow> ret None
           | Some failures \<Rightarrow>
               ret (Some (if joined failures = [] then ''all download methods failed'' else joined failures))))"

section \<open>Verifying and unpacking\<close>

text \<open>Unlike the sidecar's hash, a failed read fails the computation.\<close>

fun file_hash_loop :: "hash_env \<Rightarrow> string option list \<Rightarrow> string \<Rightarrow> string option" where
  "file_hash_loop E [] fed = Some fed"
| "file_hash_loop E (None # rs) fed = None"
| "file_hash_loop E (Some block # rs) fed =
     (if block = [] then Some fed
      else if \<not> ha_data E block then None
      else file_hash_loop E rs (fed @ block))"

definition ComputeFileSha256Hex :: "hash_env \<Rightarrow> string option" where
  "ComputeFileSha256Hex E =
     (if \<not> ha_provider E \<or> \<not> fst (ha_sizes E) \<or> \<not> snd (ha_sizes E) then None
      else if \<not> fst (ha_alloc E) \<or> \<not> snd (ha_alloc E) \<or> \<not> ha_create E \<or> \<not> ha_open E then None
      else (case file_hash_loop E (ha_reads E) [] of
         None \<Rightarrow> None
       | Some fed \<Rightarrow> map_option (\<lambda>digest. concat (map hex_pair digest)) (ha_finish E fed)))"

definition verify_zip :: "'j update_world \<Rightarrow> string \<Rightarrow> string \<Rightarrow> string option uact" where
  "verify_zip U zipPath expectedSha256 =
     (if expectedSha256 = [] then ret None
      else seq (asks (uw_hash U) (HashFile zipPath)) (\<lambda>E.
        case ComputeFileSha256Hex E of
          None \<Rightarrow> ret (Some ''Could not verify the update download. Try again.'')
        | Some actual \<Rightarrow>
            if \<not> HexEqualsIgnoreCase actual expectedSha256
            then ret (Some (''The update download failed its integrity check and was not installed. '' @
              ''This can happen if the download was corrupted; try again, or download '' @
              ''the release manually from GitHub.''))
            else ret None))"

definition quoted :: "string \<Rightarrow> string" where
  "quoted s = CHR 0x22 # s @ [CHR 0x22]"

definition tar_line :: "string \<Rightarrow> string \<Rightarrow> string" where
  "tar_line zipPath destDir = ''tar.exe -xf '' @ quoted zipPath @ '' -C '' @ quoted destDir"

text \<open>Whether tar ran and returned zero.\<close>

definition ExpandZipArchive :: "'j update_world \<Rightarrow> string \<Rightarrow> string \<Rightarrow> bool uact" where
  "ExpandZipArchive U zipPath destDir =
     seq (asks (uw_run U) (RunHidden (tar_line zipPath destDir))) (\<lambda>exit.
     ret (exit = Some 0))"

definition updater_params :: "string \<Rightarrow> string \<Rightarrow> 32 word \<Rightarrow> string" where
  "updater_params installDir stagingDir waitPid =
     ''-InstallDir '' @ quoted installDir @ '' -StagingDir '' @ quoted stagingDir @ '' -WaitPid '' @ to_string waitPid"

definition SpawnUpdater :: "'j update_world \<Rightarrow> string \<Rightarrow> string \<Rightarrow> 32 word \<Rightarrow> bool uact" where
  "SpawnUpdater U installDir stagingDir waitPid =
     seq (reads (\<lambda>log. Option.bind (combine (uw_disk U log) MAX_PATH installDir ''Updater.exe'')
           (\<lambda>p. if path_exists (uw_disk U log) p then Some p else None))) (\<lambda>updater. case updater of
       None \<Rightarrow> ret False
     | Some path \<Rightarrow> asks (uw_shell U) (StartUpdater path (updater_params installDir stagingDir waitPid)))"

text \<open>Deep enough for any path: one more than the length of the longest.\<close>

definition kDepth :: nat where
  "kDepth = Suc (MAX_PATH * 2)"

definition install_package :: "'j update_world \<Rightarrow> string \<Rightarrow> string \<Rightarrow> string option uact" where
  "install_package U installDir extractDir =
     seq (reads (uw_disk U)) (\<lambda>D. case ValidateExtractedTree kDepth D extractDir of
       None \<Rightarrow> lift Aborts
     | Some False \<Rightarrow> ret (Some ''Downloaded package contains invalid paths.'')
     | Some True \<Rightarrow>
         (case FindPackageRoot kDepth D MAX_PATH extractDir of
            None \<Rightarrow> lift Aborts
          | Some None \<Rightarrow> ret (Some ''Downloaded package is missing Launcher.exe or Sidecar.dll.'')
          | Some (Some stagingDir) \<Rightarrow>
              if \<not> uw_narrow U stagingDir then ret (Some ''Could not read staging path.'')
              else if \<not> ValidateStagedPackage D stagingDir
              then ret (Some ''Downloaded package failed validation (missing required files).'')
              else seq (SpawnUpdater U installDir stagingDir (uw_pid U)) (\<lambda>started.
                ret (if started then None
                     else Some ''Could not start Updater.exe. Reinstall from a fresh zip.''))))"

section \<open>Download and apply\<close>

definition BuildUpdateTempRoot :: "'j update_world \<Rightarrow> string \<Rightarrow> nat \<Rightarrow> (string + string) uact" where
  "BuildUpdateTempRoot U safeTag n =
     seq (reads (uw_temp U)) (\<lambda>temp. case temp of
       None \<Rightarrow> ret (Inl ''GetTempPathW failed'')
     | Some tempBase \<Rightarrow>
         seq (reads (\<lambda>log. combine (uw_disk U log) n tempBase (''sf4-netplay-update-'' @ safeTag))) (\<lambda>p. case p of
           None \<Rightarrow> ret (Inl ''PathCchCombine failed'')
         | Some tempRoot \<Rightarrow> ret (Inr tempRoot)))"

definition build_zip_path :: "'j update_world \<Rightarrow> string \<Rightarrow> (string + string) uact" where
  "build_zip_path U safeTag =
     seq (reads (uw_temp U)) (\<lambda>temp. case temp of
       None \<Rightarrow> ret (Inl ''Could not access temp directory.'')
     | Some tempBase \<Rightarrow>
         seq (reads (\<lambda>log. combine (uw_disk U log) MAX_PATH tempBase
               (''sf4-netplay-update-package-'' @ safeTag @ ''.zip''))) (\<lambda>p. case p of
           None \<Rightarrow> ret (Inl ''Could not build update zip path.'')
         | Some zipPath \<Rightarrow> ret (Inr zipPath)))"

text \<open>The path of the archive and the directory to unpack into.\<close>

definition prepare_paths :: "'j update_world \<Rightarrow> string \<Rightarrow> (string + string \<times> string) uact" where
  "prepare_paths U safeTag =
     seq (BuildUpdateTempRoot U safeTag MAX_PATH) (\<lambda>built. case built of
       Inl e \<Rightarrow> ret (Inl (''Could not build update temp path ('' @ e @ '').''))
     | Inr tempRoot \<Rightarrow>
         seq (EnsureDirectoryExistsW U tempRoot) (\<lambda>made. case made of
           Some e \<Rightarrow> ret (Inl (''Could not create update temp folder ('' @ e @ '').''))
         | None \<Rightarrow>
             seq (build_zip_path U safeTag) (\<lambda>archive. case archive of
               Inl e \<Rightarrow> ret (Inl e)
             | Inr zipPath \<Rightarrow>
                 seq (reads (\<lambda>log. combined (uw_disk U log) MAX_PATH tempRoot ''extract'')) (\<lambda>extractDir.
                 seq (EnsureDirectoryExistsW U extractDir) (\<lambda>made2. case made2 of
                   Some e \<Rightarrow> ret (Inl (''Could not create update extract folder ('' @ e @ '').''))
                 | None \<Rightarrow> ret (Inr (zipPath, extractDir)))))))"

definition download_failed :: "environ \<Rightarrow> string \<Rightarrow> string \<Rightarrow> string" where
  "download_failed env tag e =
     ''Download failed ('' @ e @ ''). Manual download: '' @
     copy_trunc 256 (''https://github.com/'' @ GetGithubRepo env 128 @ ''/releases/tag/'' @ tag) @
     '' '' @ [CHR 0xE2, CHR 0x80, CHR 0x94] @ win '' details in %TEMP%/sf4-netplay-update.log''"

definition fetch_and_install :: "'j update_world \<Rightarrow> string \<Rightarrow> string \<Rightarrow> string \<Rightarrow> string \<Rightarrow> string \<Rightarrow> string option uact" where
  "fetch_and_install U installDir zipDownloadUrl zipApiUrl tag expectedSha256 =
     seq (prepare_paths U (SanitizeTagForPath tag 64)) (\<lambda>paths. case paths of
       Inl e \<Rightarrow> ret (Some e)
     | Inr (zipPath, extractDir) \<Rightarrow>
         seq (DownloadReleaseZip U zipApiUrl zipDownloadUrl zipPath) (\<lambda>got. case got of
           Some e \<Rightarrow> ret (Some (download_failed (lw_env (uw_base U)) tag e))
         | None \<Rightarrow>
             seq (verify_zip U zipPath expectedSha256) (\<lambda>verified. case verified of
               Some e \<Rightarrow> ret (Some e)
             | None \<Rightarrow>
                 seq (ExpandZipArchive U zipPath extractDir) (\<lambda>unpacked.
                 if \<not> unpacked then ret (Some ''Could not extract update package.'')
                 else install_package U installDir extractDir))))"

definition DownloadAndApplyUpdate :: "'j update_world \<Rightarrow> string \<Rightarrow> string \<Rightarrow> string \<Rightarrow> string \<Rightarrow> string option uact" where
  "DownloadAndApplyUpdate U zipDownloadUrl zipApiUrl latestVersionTag expectedSha256 =
     (if zipDownloadUrl = [] \<and> zipApiUrl = [] then ret (Some ''Missing download URL.'')
      else if latestVersionTag = [] then ret (Some ''Missing version tag.'')
      else seq (IsGameProcessRunning U) (\<lambda>running.
        if running then ret (Some ''Close Ultra Street Fighter IV before installing an update.'')
        else seq (GetLauncherInstallDir U MAX_PATH) (\<lambda>root. case root of
          None \<Rightarrow> ret (Some ''Could not determine install directory.'')
        | Some installDir \<Rightarrow>
            fetch_and_install U installDir zipDownloadUrl zipApiUrl latestVersionTag expectedSha256)))"

end
