(* ===== verification/Updater.thy ===== *)
theory Updater
  imports Release_Client
begin

text \<open>
  The updater program (launcher/updater.cxx): started by the launcher with the
  install and the staging directory, it validates the staged package against its
  own copy of the lists, waits for the launcher to end, stops the relay host,
  mirrors the package over the installation and starts the launcher again. How
  the C runtime splits the command line into arguments is written out here. What
  the updater does is a list of \<open>upcall\<close>; what the system answers is a
  function of the calls made so far.
\<close>

section \<open>The lists of the updater\<close>

definition upd_kRequiredPackagePaths :: "string list" where
  "upd_kRequiredPackagePaths = map win
     [''Launcher.exe'', ''Sidecar.dll'', ''RelayHost.exe'', ''Updater.exe'', ''spdlog.dll'', ''fmt.dll'',
      ''GameNetworkingSockets.dll'', ''GGPO.dll'', ''libcrypto-3.dll'', ''libprotobuf.dll'', ''abseil_dll.dll'',
      ''Qt6Core.dll'', ''Qt6Gui.dll'', ''Qt6Widgets.dll'', ''qt.conf'', ''plugins/platforms/qwindows.dll'',
      ''preflight.ps1'', ''preflight.cmd'', ''START_HERE.md'', ''BUILD_INFO.txt'']"

definition upd_kAllowedPackagePaths :: "string list" where
  "upd_kAllowedPackagePaths = map win
     [''Launcher.exe'', ''Sidecar.dll'', ''RelayHost.exe'', ''Updater.exe'', ''START_HERE.md'', ''preflight.cmd'',
      ''preflight.ps1'', ''qt.conf'', ''MANIFEST.txt'', ''ATTRIBUTION.md'', ''BUILD_INFO.txt'', ''spdlog.dll'',
      ''fmt.dll'', ''GameNetworkingSockets.dll'', ''GGPO.dll'', ''libcrypto-3.dll'', ''libprotobuf.dll'',
      ''abseil_dll.dll'', ''Qt6Core.dll'', ''Qt6Gui.dll'', ''Qt6Widgets.dll'', ''Qt6Network.dll'',
      ''icudt78.dll'', ''icuin78.dll'', ''icuuc78.dll'', ''double-conversion.dll'', ''pcre2-16.dll'',
      ''md4c.dll'', ''zlib1.dll'', ''plugins/generic/qtuiotouchplugin.dll'',
      ''plugins/imageformats/qgif.dll'', ''plugins/imageformats/qico.dll'', ''plugins/imageformats/qjpeg.dll'',
      ''plugins/networkinformation/qnetworklistmanager.dll'', ''plugins/platforms/qwindows.dll'',
      ''plugins/styles/qmodernwindowsstyle.dll'', ''plugins/tls/qcertonlybackend.dll'',
      ''plugins/tls/qschannelbackend.dll'', ''docs/TROUBLESHOOTING.md'', ''docs/USER_NETPLAY.md'',
      ''docs/BETA_TESTERS.md'', ''docs/SCOPE_AND_LIMITATIONS.md'', ''docs/TEAM_QUICKSTART.md'',
      ''docs/SMOKE_TEST.md'', ''docs/NETPLAY_INVARIANTS.md'', ''docs/WINDOWS_DEFENDER.md'',
      ''docs/CODE_SIGNING.md'']"

definition upd_IsAllowedPackagePath :: "string \<Rightarrow> bool" where
  "upd_IsAllowedPackagePath rel \<longleftrightarrow>
     (if rel = [] then False
      else if wcsicmp_eq rel ''SECURITY.md'' then True
      else if strnicmp_eq rel (win ''plugins/'') \<and>
          (case extension rel of Some e \<Rightarrow> wcsicmp_eq e ''.dll'' \<or> wcsicmp_eq e ''.pdb'' | None \<Rightarrow> False) then True
      else list_ex (wcsicmp_eq rel) upd_kAllowedPackagePaths)"

definition upd_PathExistsUnderRoot :: "disk \<Rightarrow> string \<Rightarrow> string \<Rightarrow> bool" where
  "upd_PathExistsUnderRoot D root rel \<longleftrightarrow>
     (case combine D (MAX_PATH * 2) root rel of Some p \<Rightarrow> path_exists D p | None \<Rightarrow> False)"

function upd_ValidatePackageTree :: "disk \<Rightarrow> string \<Rightarrow> string \<Rightarrow> bool" where
  "upd_ValidatePackageTree D root base \<longleftrightarrow>
     (case walk_pattern D root base of
        None \<Rightarrow> False
      | Some pattern \<Rightarrow>
          (case find_files D pattern of
             None \<Rightarrow> True
           | Some found \<Rightarrow> list_all (\<lambda>(name, dir). dots name \<or>
               (let rel = join_rel base name
                in if MAX_PATH * 2 \<le> length rel then False
                   else if dir then upd_ValidatePackageTree D root rel
                   else upd_IsAllowedPackagePath rel)) found))"
  by pat_completeness auto
termination
  by (relation "measure (\<lambda>(D, root, base). MAX_PATH * 2 - length base)")
     (auto simp: find_files_def join_rel_def)

declare upd_ValidatePackageTree.simps [simp del]

definition upd_ValidateStagedPackage :: "disk \<Rightarrow> string \<Rightarrow> bool" where
  "upd_ValidateStagedPackage D stagingDir \<longleftrightarrow>
     list_all (upd_PathExistsUnderRoot D stagingDir) upd_kRequiredPackagePaths \<and>
     upd_ValidatePackageTree D stagingDir []"

section \<open>Arguments\<close>

text \<open>
  The C runtime's reading of one argument: in quotes or not, and the backslashes
  just read. Backslashes stand for themselves unless a quote follows; then two
  make one, and an odd one takes the quote literally. A doubled quote inside
  quotes is a quote.
\<close>

fun arg_chars :: "bool \<Rightarrow> nat \<Rightarrow> string \<Rightarrow> string \<times> string" where
  "arg_chars q n [] = (replicate n (CHR 0x5C), [])"
| "arg_chars q n (c # cs) =
     (if c = CHR 0x5C then arg_chars q (Suc n) cs
      else if c = CHR 0x22 \<and> odd n then
        (case arg_chars q 0 cs of (a, r) \<Rightarrow> (replicate (n div 2) (CHR 0x5C) @ CHR 0x22 # a, r))
      else if c = CHR 0x22 \<and> q \<and> cs \<noteq> [] \<and> hd cs = CHR 0x22 then
        (case arg_chars q 0 (tl cs) of (a, r) \<Rightarrow> (replicate (n div 2) (CHR 0x5C) @ CHR 0x22 # a, r))
      else if c = CHR 0x22 then
        (case arg_chars (\<not> q) 0 cs of (a, r) \<Rightarrow> (replicate (n div 2) (CHR 0x5C) @ a, r))
      else if \<not> q \<and> (c = CHR '' '' \<or> c = CHR 0x09) then (replicate n (CHR 0x5C), cs)
      else (case arg_chars q 0 cs of (a, r) \<Rightarrow> (replicate n (CHR 0x5C) @ c # a, r)))"

lemma arg_chars_shorter: "length (snd (arg_chars q n s)) \<le> length s"
  by (induction q n s rule: arg_chars.induct) (auto split: prod.splits simp: le_Suc_eq)

lemma arg_chars_progress: "length (snd (arg_chars q n (c # cs))) \<le> length cs"
  using arg_chars_shorter [of q "Suc n" cs] arg_chars_shorter [of q 0 cs] arg_chars_shorter [of q 0 "tl cs"]
    arg_chars_shorter [of "\<not> q" 0 cs]
  by (auto split: prod.splits)

function split_args :: "string \<Rightarrow> string list" where
  "split_args s =
     (case dropWhile (\<lambda>c. c = CHR '' '' \<or> c = CHR 0x09) s of
        [] \<Rightarrow> []
      | c # cs \<Rightarrow> (case arg_chars False 0 (c # cs) of (a, rest) \<Rightarrow> a # split_args rest))"
  by pat_completeness auto
termination
proof (relation "measure length")
  fix s :: string and c cs a rest
  assume s: "dropWhile (\<lambda>c. c = CHR '' '' \<or> c = CHR 0x09) s = c # cs"
    and r: "(a, rest) = arg_chars False 0 (c # cs)"
  have "length rest \<le> length cs"
    using arg_chars_progress [of False 0 c cs] r by (metis snd_conv)
  moreover have "length (c # cs) \<le> length s"
    using length_dropWhile_le [of "\<lambda>c. c = CHR '' '' \<or> c = CHR 0x09" s] by (simp add: s)
  ultimately show "(rest, s) \<in> measure length" by simp
qed simp

declare split_args.simps [simp del]

definition wtoi :: "string \<Rightarrow> 32 word" where
  "wtoi s = word_of_int (atoi s)"

text \<open>The arguments after the program's name; a switch that is the last argument is passed over.\<close>

fun parse_switches :: "string list \<Rightarrow> string \<times> string \<times> 32 word \<Rightarrow> string \<times> string \<times> 32 word" where
  "parse_switches (a # v # rest) (installDir, stagingDir, waitPid) =
     (if wcsicmp_eq a ''-InstallDir'' then parse_switches rest (copy_trunc MAX_PATH v, stagingDir, waitPid)
      else if wcsicmp_eq a ''-StagingDir'' then parse_switches rest (installDir, copy_trunc MAX_PATH v, waitPid)
      else if wcsicmp_eq a ''-WaitPid'' then parse_switches rest (installDir, stagingDir, wtoi v)
      else parse_switches (v # rest) (installDir, stagingDir, waitPid))"
| "parse_switches _ r = r"

definition ParseArgs :: "string list \<Rightarrow> (string \<times> string \<times> 32 word) option" where
  "ParseArgs argv =
     (case parse_switches (tl argv) ([], [], 0) of
        (installDir, stagingDir, waitPid) \<Rightarrow>
          if installDir \<noteq> [] \<and> stagingDir \<noteq> [] then Some (installDir, stagingDir, waitPid) else None)"

section \<open>Running\<close>

datatype upcall = WaitFor "32 word" nat
  | Terminate "32 word"
  | SleepFor nat
  | RunTool string
  | StartProgram string string

type_synonym upcalls = "upcall list"

datatype wait_result = Signaled | TimedOut | WaitFailed

record updater_world =
  up_disk :: "upcalls \<Rightarrow> disk"
  up_open :: "upcalls \<Rightarrow> 32 word \<Rightarrow> bool"
  up_openKill :: "upcalls \<Rightarrow> 32 word \<Rightarrow> bool"
  up_wait :: "upcalls \<Rightarrow> wait_result"
  up_procs :: "upcalls \<Rightarrow> (string \<times> 32 word) list option"
  up_run :: "upcalls \<Rightarrow> 32 word option"
  up_shell :: "upcalls \<Rightarrow> bool"

definition WaitForProcessExit :: "updater_world \<Rightarrow> 32 word \<Rightarrow> nat \<Rightarrow> (upcalls, bool) act" where
  "WaitForProcessExit U pid timeoutMs =
     (if pid = 0 then ret True
      else seq (reads (\<lambda>log. up_open U log pid)) (\<lambda>opened.
        if \<not> opened then ret True
        else seq (asks (up_wait U) (WaitFor pid timeoutMs)) (\<lambda>r. ret (r = Signaled \<or> r = TimedOut))))"

fun stop_each :: "updater_world \<Rightarrow> string \<Rightarrow> (string \<times> 32 word) list \<Rightarrow> (upcalls, unit) act" where
  "stop_each U exeName [] = ret ()"
| "stop_each U exeName ((name, pid) # entries) =
     seq (reads (\<lambda>log. wcsicmp_eq name exeName \<and> up_openKill U log pid)) (\<lambda>stop.
     seq (if stop then asks (\<lambda>_. ()) (Terminate pid) else ret ()) (\<lambda>_.
     stop_each U exeName entries))"

definition StopProcessesByName :: "updater_world \<Rightarrow> string \<Rightarrow> (upcalls, unit) act" where
  "StopProcessesByName U exeName =
     seq (reads (up_procs U)) (\<lambda>procs. case procs of
       None \<Rightarrow> ret () | Some entries \<Rightarrow> stop_each U exeName entries)"

definition robocopy_line :: "string \<Rightarrow> string \<Rightarrow> string" where
  "robocopy_line stagingDir installDir =
     ''robocopy.exe '' @ quoted stagingDir @ '' '' @ quoted installDir @ '' /MIR /R:2 /W:2 /NFL /NDL /NJH /NJS''"

text \<open>Robocopy reports success with the codes up to 7.\<close>

definition RunRobocopyMirror :: "updater_world \<Rightarrow> string \<Rightarrow> string \<Rightarrow> (upcalls, bool) act" where
  "RunRobocopyMirror U stagingDir installDir =
     seq (asks (up_run U) (RunTool (robocopy_line stagingDir installDir))) (\<lambda>exit. case exit of
       None \<Rightarrow> ret False | Some code \<Rightarrow> ret (code \<le> 7))"

definition StartLauncher :: "updater_world \<Rightarrow> string \<Rightarrow> (upcalls, bool) act" where
  "StartLauncher U installDir =
     seq (reads (\<lambda>log. Option.bind (combine (up_disk U log) MAX_PATH installDir ''Launcher.exe'')
           (\<lambda>p. if path_exists (up_disk U log) p then Some p else None))) (\<lambda>launcher. case launcher of
       None \<Rightarrow> ret False
     | Some path \<Rightarrow> asks (up_shell U) (StartProgram path installDir))"

definition replace_and_restart :: "updater_world \<Rightarrow> string \<Rightarrow> string \<Rightarrow> 32 word \<Rightarrow> (upcalls, int) act" where
  "replace_and_restart U installDir stagingDir waitPid =
     seq (WaitForProcessExit U waitPid 30000) (\<lambda>_.
     seq (StopProcessesByName U ''RelayHost.exe'') (\<lambda>_.
     seq (asks (\<lambda>_. ()) (SleepFor 500)) (\<lambda>_.
     seq (RunRobocopyMirror U stagingDir installDir) (\<lambda>mirrored.
     if \<not> mirrored then ret 1
     else seq (StartLauncher U installDir) (\<lambda>started. ret (if started then 0 else 1))))))"

definition updater_main :: "updater_world \<Rightarrow> string list \<Rightarrow> (upcalls, int) act" where
  "updater_main U argv =
     (case ParseArgs argv of
        None \<Rightarrow> ret 1
      | Some (installDir, stagingDir, waitPid) \<Rightarrow>
          seq (reads (up_disk U)) (\<lambda>D.
          if \<not> path_exists D installDir then ret 1
          else if \<not> path_exists D stagingDir then ret 1
          else if \<not> upd_ValidateStagedPackage D stagingDir then ret 1
          else replace_and_restart U installDir stagingDir waitPid))"

end
