(* ===== verification/Update_Facts.thy ===== *)
theory Update_Facts
  imports Launcher_Facts Updater
begin

text \<open>
  The path of an update: which files a validated package holds, that launcher
  and updater agree on it, that the walks end, what the launcher has made sure of
  when it starts the updater, what the updater has made sure of when it mirrors,
  and that the command line carries the directories from one to the other.
\<close>

section \<open>Validated packages\<close>

text \<open>The files the walk meets below a directory of the package, by their path in it.\<close>

inductive package_file :: "disk \<Rightarrow> string \<Rightarrow> string \<Rightarrow> string \<Rightarrow> bool" for D root where
  here: "walk_pattern D root base = Some pattern \<Longrightarrow> find_files D pattern = Some found \<Longrightarrow>
    (name, False) \<in> set found \<Longrightarrow> \<not> dots name \<Longrightarrow> package_file D root base (join_rel base name)"
| below: "walk_pattern D root base = Some pattern \<Longrightarrow> find_files D pattern = Some found \<Longrightarrow>
    (name, True) \<in> set found \<Longrightarrow> \<not> dots name \<Longrightarrow> package_file D root (join_rel base name) rel \<Longrightarrow>
    package_file D root base rel"

lemma tree_entry:
  assumes "ValidatePackageTree D root base" "walk_pattern D root base = Some pattern"
    "find_files D pattern = Some found" "(name, dir) \<in> set found" "\<not> dots name"
  shows "length (join_rel base name) < MAX_PATH * 2"
    "dir \<Longrightarrow> ValidatePackageTree D root (join_rel base name)"
    "\<not> dir \<Longrightarrow> IsAllowedPackagePath (join_rel base name)"
  using assms by (subst (asm) ValidatePackageTree.simps; force simp: list_all_iff Let_def split: if_splits)+

lemma validated_file:
  "package_file D root base rel \<Longrightarrow> ValidatePackageTree D root base \<Longrightarrow>
     IsAllowedPackagePath rel \<and> length rel < MAX_PATH * 2"
  by (induction rule: package_file.induct) (auto dest: tree_entry)

lemma validated_required:
  "ValidateStagedPackage D root \<Longrightarrow> rel \<in> set kRequiredPackagePaths \<Longrightarrow> PathExistsUnderRoot D root rel"
  by (simp add: ValidateStagedPackage_def list_all_iff)

text \<open>The two programs keep a copy each of the lists and of the walk.\<close>

lemma lists_agree: "upd_kRequiredPackagePaths = kRequiredPackagePaths" "upd_kAllowedPackagePaths = kAllowedPackagePaths"
  by (simp_all only: upd_kRequiredPackagePaths_def kRequiredPackagePaths_def upd_kAllowedPackagePaths_def
      kAllowedPackagePaths_def)

lemma paths_agree: "upd_IsAllowedPackagePath = IsAllowedPackagePath" "upd_PathExistsUnderRoot = PathExistsUnderRoot"
  by (simp_all only: fun_eq_iff upd_IsAllowedPackagePath_def IsAllowedPackagePath_def lists_agree
      upd_PathExistsUnderRoot_def PathExistsUnderRoot_def simp_thms)

lemma walks_agree: "upd_ValidatePackageTree D root base = ValidatePackageTree D root base"
proof (induction D root base rule: ValidatePackageTree.induct)
  case (1 D root base)
  show ?case
    unfolding upd_ValidatePackageTree.simps [of D root base] ValidatePackageTree.simps [of D root base] paths_agree
    by (auto split: option.splits simp: Let_def list_all_iff intro!: ball_cong dest: 1)
qed

lemma staged_agree: "upd_ValidateStagedPackage D root = ValidateStagedPackage D root"
  by (simp add: upd_ValidateStagedPackage_def ValidateStagedPackage_def lists_agree paths_agree walks_agree)

section \<open>The walks end\<close>

text \<open>What the documentation says of the path functions: a name makes a path longer, and no path is empty.\<close>

definition growing :: "disk \<Rightarrow> bool" where
  "growing D \<longleftrightarrow> (\<forall>a b p. d_join D a b = Some p \<longrightarrow> b \<noteq> [] \<longrightarrow> \<not> dots b \<longrightarrow> length a < length p) \<and>
     (\<forall>a b. d_failed D a b = []) \<and> d_full D [] = None"

lemma growing_join: "growing D \<Longrightarrow> combine D n a b = Some p \<Longrightarrow> b \<noteq> [] \<Longrightarrow> \<not> dots b \<Longrightarrow> length a < length p \<and> length p < n"
  by (auto simp: growing_def dest: combine_Some)

lemma found_named: "find_files D pat = Some found \<Longrightarrow> (name, dir) \<in> set found \<Longrightarrow> name \<noteq> []"
  by (auto simp: find_files_def)

lemma all_entries_return:
  "(\<And>name dir. (name, dir) \<in> set es \<Longrightarrow> ok name dir \<noteq> None) \<Longrightarrow> all_entries ok es \<noteq> None"
proof (induction es)
  case (Cons e es)
  obtain name dir where e: "e = (name, dir)" by fastforce
  have "ok name dir \<noteq> None" "all_entries ok es \<noteq> None"
    using Cons.prems [of name dir] Cons.IH Cons.prems by (auto simp: e)
  then show ?case by (auto simp: e split: option.split bool.split)
qed simp

lemma empty_outside:
  assumes "growing D"
  shows "\<not> IsPathUnderRoot D root []"
proof -
  have "full_path D [] = None" using assms by (simp add: growing_def full_path_def)
  then show ?thesis by (cases "full_path D root") (simp_all add: IsPathUnderRoot_def)
qed

lemma extracted_returns:
  assumes "growing D"
  shows "MAX_PATH * 2 - length root < k \<Longrightarrow> ValidateExtractedTree k D root \<noteq> None"
proof (induction k arbitrary: root)
  case (Suc k)
  have entry: "ValidateExtractedTree k D (combined D (MAX_PATH * 2) root name) \<noteq> None"
    if "name \<noteq> []" "\<not> dots name" "IsPathUnderRoot D root (combined D (MAX_PATH * 2) root name)" for name
  proof (cases "combine D (MAX_PATH * 2) root name")
    case None
    then have "combined D (MAX_PATH * 2) root name = []" using assms by (simp add: combined_def growing_def)
    then show ?thesis using that empty_outside [OF assms] by simp
  next
    case (Some p)
    then have "combined D (MAX_PATH * 2) root name = p" "length root < length p" "length p < MAX_PATH * 2"
      using growing_join [OF assms Some] that by (auto simp: combined_def Some)
    then show ?thesis using Suc.prems Suc.IH [of p] by simp
  qed
  have "all_entries (\<lambda>name dir. if dots name then Some True
      else (let entry = combined D (MAX_PATH * 2) root name
            in if \<not> IsPathUnderRoot D root entry then Some False
               else if dir then ValidateExtractedTree k D entry else Some True)) found \<noteq> None"
    if "find_files D pat = Some found" for pat found
    using found_named [OF that] entry by (intro all_entries_return) (auto simp: Let_def)
  then show ?case by (auto split: option.split)
qed simp

section \<open>One step after another\<close>

lemma seq_cases:
  "seq f g s = (r, s') \<Longrightarrow>
    (\<exists>a s1. f s = (Ret a, s1) \<and> g a s1 = (r, s')) \<or> (f s = (Throws, s') \<or> f s = (Aborts, s')) \<and> (\<forall>b. r \<noteq> Ret b)"
  by (cases "f s") (auto simp: seq_def split: outcome.splits)

definition no_start :: "ucall \<Rightarrow> bool" where
  "no_start c \<longleftrightarrow> (case c of StartUpdater _ _ \<Rightarrow> False | _ \<Rightarrow> True)"

lemma no_start_simps [simp]:
  "no_start (GetRelease p)" "no_start (MakeDir d)" "no_start (Download u h p)" "no_start (DeleteFile p)"
  "no_start (HashFile p)" "no_start (RunHidden l)" "\<not> no_start (StartUpdater p a)"
  by (simp_all add: no_start_def)

lemma leads_more [steady_rules]:
  "(\<And>a. leads R (p a)) \<Longrightarrow> (\<And>b. leads R (q b)) \<Longrightarrow> leads R (case_sum p q x)"
  "leads R f \<Longrightarrow> leads R h \<Longrightarrow> leads R (case_bool f h b)"
  by (auto split: sum.split bool.split)

lemma leads_asks [steady_rules]: "P c \<Longrightarrow> leads (along id (logged P)) (asks a c)"
  by (simp add: leads_def along_def logged_def asks_def)

lemma quiet_paths:
  "leads (along id (logged no_start)) (prepare_paths U safe)"
  "leads (along id (logged no_start)) (DownloadReleaseZip U api link zipPath)"
  "leads (along id (logged no_start)) (verify_zip U zipPath sha)"
  "leads (along id (logged no_start)) (ExpandZipArchive U zipPath dir)"
  unfolding prepare_paths_def BuildUpdateTempRoot_def build_zip_path_def EnsureDirectoryExistsW_def
    DownloadReleaseZip_def try_one_def TryHttpDownload_def EnsureParentDirectoryExistsW_def http_download_def
    verify_zip_def ExpandZipArchive_def Let_def
  by (intro steady_rules; simp)+

lemma quiet_grows: "leads (along id (logged P)) f \<Longrightarrow> f log = (r, log') \<Longrightarrow> \<exists>new. log' = log @ new \<and> list_all P new"
  by (drule leadsD) (auto simp: along_def logged_def)

text \<open>What is known of the package when the updater is started, the log before it being given.\<close>

definition staged :: "'j update_world \<Rightarrow> string \<Rightarrow> ucalls \<Rightarrow> ucall \<Rightarrow> bool" where
  "staged U installDir pre c \<longleftrightarrow> (\<exists>path staging. c = StartUpdater path (updater_params installDir staging (uw_pid U)) \<and>
     ValidateStagedPackage (uw_disk U pre) staging \<and>
     combine (uw_disk U pre) MAX_PATH installDir ''Updater.exe'' = Some path \<and> path_exists (uw_disk U pre) path)"

lemma install_run:
  "install_package U installDir extractDir log = (r, log') \<Longrightarrow>
     log' = log \<or> (\<exists>c. log' = log @ [c] \<and> staged U installDir log c)"
  by (auto simp: install_package_def SpawnUpdater_def seq_def staged_def bind_eq_Some_conv
      split: option.splits bool.splits if_splits)

text \<open>The archive unpacked last; when a digest was published, the file hashed right before is the same and has it.\<close>

definition verified_archive :: "'j update_world \<Rightarrow> string \<Rightarrow> ucalls \<Rightarrow> bool" where
  "verified_archive U sha log \<longleftrightarrow> (\<exists>earlier zipPath dir. log = earlier @ [RunHidden (tar_line zipPath dir)] \<and>
     (sha = [] \<or> (\<exists>b actual. earlier = b @ [HashFile zipPath] \<and>
        ComputeFileSha256Hex (uw_hash U earlier) = Some actual \<and> HexEqualsIgnoreCase actual sha)))"

lemma verify_run:
  assumes "verify_zip U zipPath sha log = (Ret None, log1)" "ExpandZipArchive U zipPath dir log1 = (Ret done_ok, log2)"
  shows "verified_archive U sha log2"
proof -
  have "log2 = log1 @ [RunHidden (tar_line zipPath dir)]"
    using assms(2) by (simp add: ExpandZipArchive_def seq_def asks_def)
  moreover have "sha = [] \<or> (\<exists>actual. log1 = log @ [HashFile zipPath] \<and>
      ComputeFileSha256Hex (uw_hash U log1) = Some actual \<and> HexEqualsIgnoreCase actual sha)"
    using assms(1) by (auto simp: verify_zip_def seq_def asks_def split: option.splits if_splits)
  ultimately show ?thesis unfolding verified_archive_def by blast
qed

definition handed_over :: "'j update_world \<Rightarrow> string \<Rightarrow> string \<Rightarrow> ucalls \<Rightarrow> ucalls \<Rightarrow> bool" where
  "handed_over U installDir sha log log' \<longleftrightarrow> (\<exists>new. log' = log @ new \<and> list_all no_start new) \<or>
     (\<exists>pre c. log' = pre @ [c] \<and> (\<exists>new. pre = log @ new \<and> list_all no_start new) \<and>
        staged U installDir pre c \<and> verified_archive U sha pre)"

lemma handed_over_quiet: "leads (along id (logged no_start)) f \<Longrightarrow> f log = (r, log') \<Longrightarrow> handed_over U installDir sha log log'"
  by (auto simp: handed_over_def dest: quiet_grows)

lemma handed_over_later:
  assumes "leads (along id (logged no_start)) f" "f log = (r, log1)" "handed_over U installDir sha log1 log'"
  shows "handed_over U installDir sha log log'"
proof -
  obtain new where "log1 = log @ new" "list_all no_start new" using quiet_grows [OF assms(1,2)] by blast
  then show ?thesis using assms(3) unfolding handed_over_def by (elim disjE exE conjE) force+
qed

lemma install_handed_over:
  assumes "install_package U installDir extractDir log = (r, log')" "verified_archive U sha log"
  shows "handed_over U installDir sha log log'"
  using install_run [OF assms(1)] assms(2) unfolding handed_over_def by force

lemma handed_over_seq:
  assumes "leads (along id (logged no_start)) f" "seq f k log = (r, log')"
    "\<And>a log1. f log = (Ret a, log1) \<Longrightarrow> k a log1 = (r, log') \<Longrightarrow> handed_over U installDir sha log1 log'"
  shows "handed_over U installDir sha log log'"
  using seq_cases [OF assms(2)] handed_over_quiet [OF assms(1)] handed_over_later [OF assms(1)] assms(3) by blast

lemma handed_over_ret: "ret a log = (r, log') \<Longrightarrow> handed_over U installDir sha log log'"
  by (auto simp: handed_over_def intro: exI [of _ "[]"])

lemma fetch_handed_over:
  assumes "fetch_and_install U installDir link api tag sha log = (r, log')"
  shows "handed_over U installDir sha log log'"
  using assms unfolding fetch_and_install_def
proof (rule handed_over_seq [OF quiet_paths(1)], goal_cases)
  case (1 paths log1)
  then show ?case
  proof (cases paths)
    case (Inr zd)
    obtain zipPath dir where zd: "zd = (zipPath, dir)" by fastforce
    show ?thesis using 1(2) unfolding Inr zd sum.case prod.case
    proof (rule handed_over_seq [OF quiet_paths(2)], goal_cases)
      case (1 got log2)
      then show ?case
      proof (cases got)
        case None
        show ?thesis using 1(2) unfolding None option.case
        proof (rule handed_over_seq [OF quiet_paths(3)], goal_cases)
          case (1 verified log3)
          then show ?case
          proof (cases verified)
            case None
            show ?thesis using 1(2) unfolding None option.case
            proof (rule handed_over_seq [OF quiet_paths(4)], goal_cases)
              case (1 unpacked log4)
              then show ?case
                using verify_run [OF \<open>verify_zip U zipPath sha log2 = (Ret verified, log3)\<close> [unfolded None] 1(1)]
                by (auto simp del: act_simps split: if_splits intro: handed_over_ret install_handed_over)
            qed
          qed (simp add: handed_over_ret)
        qed
      qed (simp add: handed_over_ret)
    qed
  qed (simp add: handed_over_ret)
qed

section \<open>The command line\<close>

text \<open>A path that can stand between quotes: no quote in it and no backslash at its end.\<close>

definition quotable :: "string \<Rightarrow> bool" where
  "quotable p \<longleftrightarrow> CHR 0x22 \<notin> set p \<and> (p \<noteq> [] \<longrightarrow> last p \<noteq> CHR 0x5C)"

lemma inside_quotes:
  "CHR 0x22 \<notin> set p \<Longrightarrow> (if p = [] then n = 0 else last p \<noteq> CHR 0x5C) \<Longrightarrow>
     arg_chars True n (p @ CHR 0x22 # CHR '' '' # rest) = (replicate n (CHR 0x5C) @ p, rest)"
proof (induction p arbitrary: n)
  case (Cons c p)
  have c: "c \<noteq> CHR 0x22" using Cons.prems by auto
  show ?case
  proof (cases "c = CHR 0x5C")
    case True
    then have "arg_chars True (Suc n) (p @ CHR 0x22 # CHR '' '' # rest) = (replicate (Suc n) (CHR 0x5C) @ p, rest)"
      using Cons.prems by (intro Cons.IH) (auto split: if_splits)
    then show ?thesis by (simp add: True replicate_app_Cons_same)
  next
    case False
    have "arg_chars True 0 (p @ CHR 0x22 # CHR '' '' # rest) = (replicate 0 (CHR 0x5C) @ p, rest)"
      using Cons.prems False by (intro Cons.IH) (auto split: if_splits)
    then show ?thesis by (simp add: False c)
  qed
qed simp

lemma quoted_argument: "quotable p \<Longrightarrow> arg_chars False 0 (quoted p @ CHR '' '' # rest) = (p, rest)"
  using inside_quotes [of p 0 rest] by (auto simp: quoted_def quotable_def)

lemma plain_argument:
  "\<forall>c\<in>set w. c \<notin> {CHR 0x5C, CHR 0x22, CHR '' '', CHR 0x09} \<Longrightarrow>
     arg_chars False 0 (w @ CHR '' '' # rest) = (w, rest) \<and> arg_chars False 0 w = (w, [])"
  by (induction w) auto

lemma split_argument:
  "s \<noteq> [] \<Longrightarrow> hd s \<noteq> CHR '' '' \<and> hd s \<noteq> CHR 0x09 \<Longrightarrow> arg_chars False 0 s = (a, rest) \<Longrightarrow>
     split_args s = a # split_args rest"
  by (subst split_args.simps) (cases s; simp)

lemma split_plain:
  "w \<noteq> [] \<Longrightarrow> \<forall>c\<in>set w. c \<notin> {CHR 0x5C, CHR 0x22, CHR '' '', CHR 0x09} \<Longrightarrow>
     split_args (w @ CHR '' '' # rest) = w # split_args rest \<and> split_args w = [w]"
  using plain_argument [of w rest] split_argument [of "w @ CHR '' '' # rest" w rest] split_argument [of w w "[]"]
  by (cases w) (auto simp: split_args.simps [of "[]"])

lemma split_quoted: "quotable p \<Longrightarrow> split_args (quoted p @ CHR '' '' # rest) = p # split_args rest"
  using quoted_argument [of p rest] split_argument [of "quoted p @ CHR '' '' # rest" p rest] by (simp add: quoted_def)

lemma digit_plain: "is_digit c \<Longrightarrow> c \<notin> {CHR 0x5C, CHR 0x22, CHR '' '', CHR 0x09}"
  by (auto simp: is_digit_def less_eq_char_def)

lemma digits_plain: "\<forall>c\<in>set (to_string v). c \<notin> {CHR 0x5C, CHR 0x22, CHR '' '', CHR 0x09}" "to_string v \<noteq> []"
  using dec_nat_digits [of _ "unat v"] digit_plain by (auto simp: to_string_def)

lemma params_split:
  assumes "quotable installDir" "quotable stagingDir"
  shows "split_args (updater_params installDir stagingDir pid) =
    [''-InstallDir'', installDir, ''-StagingDir'', stagingDir, ''-WaitPid'', to_string pid]"
proof -
  have "split_args (''-InstallDir'' @ CHR '' '' # x) = ''-InstallDir'' # split_args x"
    "split_args (''-StagingDir'' @ CHR '' '' # x) = ''-StagingDir'' # split_args x"
    "split_args (''-WaitPid'' @ CHR '' '' # x) = ''-WaitPid'' # split_args x" for x
    by (rule split_plain [THEN conjunct1]; simp)+
  then show ?thesis
    using split_quoted [OF assms(1)] split_quoted [OF assms(2)] split_plain [OF digits_plain(2,1) [of pid]]
    by (simp add: updater_params_def)
qed

lemma wtoi_pid: "unat pid < 2 ^ 31 \<Longrightarrow> wtoi (to_string pid) = pid"
  using atoi_dec_nat [of "unat pid" "[]"] by (simp add: wtoi_def to_string_def)

lemma arguments_arrive:
  assumes "quotable installDir" "quotable stagingDir" "installDir \<noteq> []" "stagingDir \<noteq> []"
    "length installDir < MAX_PATH" "length stagingDir < MAX_PATH" "unat pid < 2 ^ 31"
  shows "ParseArgs (exe # split_args (updater_params installDir stagingDir pid)) = Some (installDir, stagingDir, pid)"
  using assms
  by (simp add: params_split ParseArgs_def wcsicmp_eq_def stricmp_eq_def char_lower_def copy_trunc_fits wtoi_pid)

section \<open>The updater's run\<close>

definition terminates :: "upcall \<Rightarrow> bool" where
  "terminates c \<longleftrightarrow> (case c of Terminate _ \<Rightarrow> True | _ \<Rightarrow> False)"

lemma stop_each_log: "\<exists>ts. stop_each U exeName es log = (Ret (), log @ ts) \<and> list_all terminates ts"
proof (induction es arbitrary: log)
  case (Cons e es)
  obtain name pid where e: "e = (name, pid)" by fastforce
  obtain ts where ts: "stop_each U exeName es (log @ [Terminate pid]) = (Ret (), (log @ [Terminate pid]) @ ts)"
    "list_all terminates ts" using Cons.IH [of "log @ [Terminate pid]"] by blast
  moreover have "terminates (Terminate pid)" by (simp add: terminates_def)
  ultimately show ?case using Cons.IH [of log] by (auto simp: e)
qed simp

lemma stop_log: "\<exists>ts. StopProcessesByName U exeName log = (Ret (), log @ ts) \<and> list_all terminates ts"
  using stop_each_log [of U exeName _ log] by (auto simp: StopProcessesByName_def split: option.split)

lemma wait_log: "\<exists>w ok. WaitForProcessExit U pid ms log = (Ret ok, log @ w) \<and> set w \<subseteq> {WaitFor pid ms}"
  by (auto simp: WaitForProcessExit_def)

text \<open>Wait, stop the relay host, pause, mirror, and start the launcher only after a mirror that succeeded.\<close>

definition replaced :: "updater_world \<Rightarrow> string \<Rightarrow> string \<Rightarrow> 32 word \<Rightarrow> upcalls \<Rightarrow> bool" where
  "replaced U installDir stagingDir waitPid log \<longleftrightarrow>
     (\<exists>w ts pre s. pre = w @ ts @ [SleepFor 500, RunTool (robocopy_line stagingDir installDir)] \<and> log = pre @ s \<and>
        set w \<subseteq> {WaitFor waitPid 30000} \<and> list_all terminates ts \<and>
        (s = [] \<or> (\<exists>path code. s = [StartProgram path installDir] \<and> up_run U pre = Some code \<and> code \<le> 7)))"

lemma replace_run: "\<exists>r log. replace_and_restart U installDir stagingDir waitPid [] = (Ret r, log) \<and>
  replaced U installDir stagingDir waitPid log"
proof -
  obtain w ok where w: "WaitForProcessExit U waitPid 30000 [] = (Ret ok, w)" "set w \<subseteq> {WaitFor waitPid 30000}"
    using wait_log [of U waitPid 30000 "[]"] by auto
  obtain ts where ts: "StopProcessesByName U ''RelayHost.exe'' w = (Ret (), w @ ts)" "list_all terminates ts"
    using stop_log [of U "''RelayHost.exe''" w] by blast
  let ?pre = "w @ ts @ [SleepFor 500, RunTool (robocopy_line stagingDir installDir)]"
  have "\<exists>r log. replace_and_restart U installDir stagingDir waitPid [] = (Ret r, log) \<and>
     (\<exists>s. log = ?pre @ s \<and> (s = [] \<or>
        (\<exists>path code. s = [StartProgram path installDir] \<and> up_run U ?pre = Some code \<and> code \<le> 7)))"
    by (simp add: replace_and_restart_def seq_def [of "WaitForProcessExit _ _ _"] seq_def [of "StopProcessesByName _ _"]
        w(1) ts(1) RunRobocopyMirror_def StartLauncher_def split: option.split)
  then show ?thesis using w(2) ts(2) unfolding replaced_def by blast
qed

lemma replaced_tool:
  assumes "replaced U installDir stagingDir waitPid log" "RunTool line \<in> set log"
  shows "line = robocopy_line stagingDir installDir"
proof -
  obtain w ts s where l: "log = (w @ ts @ [SleepFor 500, RunTool (robocopy_line stagingDir installDir)]) @ s"
    "set w \<subseteq> {WaitFor waitPid 30000}" "list_all terminates ts" "s = [] \<or> (\<exists>path. s = [StartProgram path installDir])"
    using assms(1) unfolding replaced_def by blast
  have "RunTool line \<notin> set w" "RunTool line \<notin> set ts" using l(2,3) by (auto simp: list_all_iff terminates_def)
  then show ?thesis using l(1,4) assms(2) by auto
qed

lemma updater_run:
  "(\<exists>r. updater_main U argv [] = (Ret r, []) \<and> r = 1 \<and> (\<forall>installDir stagingDir pid.
       ParseArgs argv = Some (installDir, stagingDir, pid) \<longrightarrow> \<not> (path_exists (up_disk U []) installDir \<and>
         path_exists (up_disk U []) stagingDir \<and> upd_ValidateStagedPackage (up_disk U []) stagingDir))) \<or>
   (\<exists>installDir stagingDir pid r log. ParseArgs argv = Some (installDir, stagingDir, pid) \<and>
       updater_main U argv [] = (Ret r, log) \<and> upd_ValidateStagedPackage (up_disk U []) stagingDir \<and>
       replaced U installDir stagingDir pid log)"
proof (cases "ParseArgs argv")
  case (Some p)
  obtain i s pid where p: "p = (i, s, pid)" by (cases p)
  show ?thesis using replace_run [of U i s pid] by (auto simp: updater_main_def Some p)
qed (simp add: updater_main_def)

section \<open>Versions\<close>

text \<open>The order of versions whose numbers are not negative.\<close>

definition newer :: "version \<Rightarrow> version \<Rightarrow> bool" where
  "newer v w \<longleftrightarrow> (case (v, w) of ((a, b, c), (a', b', c')) \<Rightarrow> a' < a \<or> a = a' \<and> (b' < b \<or> b = b' \<and> c' < c))"

definition small_version :: "version \<Rightarrow> bool" where
  "small_version v \<longleftrightarrow> (case v of (a, b, c) \<Rightarrow> uint a < 2 ^ 31 \<and> uint b < 2 ^ 31 \<and> uint c < 2 ^ 31)"

lemma sint_small:
  assumes "uint a < 2 ^ 31"
  shows "sint (a :: 32 word) = uint a"
proof -
  have "- (2 ^ 31) \<le> uint a" by (rule order_trans [OF _ uint_ge_0]) simp
  then show ?thesis using signed_take_bit_int_eq_self [of 31 "uint a"] assms by (simp add: sint_uint)
qed

lemma sint_diff:
  assumes "uint a < 2 ^ 31" "uint b < 2 ^ 31"
  shows "sint (a - b :: 32 word) = uint a - uint b"
proof -
  have "- (2 ^ 31) \<le> uint a - uint b" "uint a - uint b < 2 ^ 31"
    using assms uint_ge_0 [of a] uint_ge_0 [of b] by linarith+
  moreover have "sint (a - b) = signed_take_bit 31 (uint a - uint b)"
    using sint_small [OF assms(1)] sint_small [OF assms(2)] by (simp add: sint_word_diff)
  ultimately show ?thesis using signed_take_bit_int_eq_self [of 31 "uint a - uint b"] by simp
qed

lemma compare_newer:
  assumes "small_version (ParseVersionTriple a)" "small_version (ParseVersionTriple b)"
  shows "0 < CompareVersions a b \<longleftrightarrow> newer (ParseVersionTriple a) (ParseVersionTriple b)"
    "CompareVersions b a = - CompareVersions a b"
proof -
  obtain p q r where a: "ParseVersionTriple a = (p, q, r)" by (cases "ParseVersionTriple a")
  obtain x y z where b: "ParseVersionTriple b = (x, y, z)" by (cases "ParseVersionTriple b")
  have small: "uint p < 2 ^ 31" "uint q < 2 ^ 31" "uint r < 2 ^ 31" "uint x < 2 ^ 31" "uint y < 2 ^ 31" "uint z < 2 ^ 31"
    using assms by (simp_all add: a b small_version_def)
  show "0 < CompareVersions a b \<longleftrightarrow> newer (ParseVersionTriple a) (ParseVersionTriple b)"
    using small by (auto simp: CompareVersions_def newer_def a b sint_diff word_less_def)
  show "CompareVersions b a = - CompareVersions a b"
    using small by (auto simp: CompareVersions_def a b sint_diff)
qed

section \<open>Where downloads go\<close>

lemma until_first: "c \<notin> set q \<Longrightarrow> takeWhile (\<lambda>x. x \<noteq> c) (q @ c # u) = q"
  by (induction q) auto

lemma strchr_take:
  assumes "strchr s c = Some t"
  shows "take (length s - length t) s = takeWhile (\<lambda>x. x \<noteq> c) s"
proof -
  obtain q u where "s = q @ t" "c \<notin> set q" "t = c # u" using strchr_Some [OF assms] by blast
  then show ?thesis by (simp add: until_first)
qed

text \<open>The part of a URL that names the server.\<close>

definition authority :: "string \<Rightarrow> string" where
  "authority url = takeWhile (\<lambda>c. c \<noteq> CHR ''/'') (drop 8 url)"

definition plain_url :: "string \<Rightarrow> bool" where
  "plain_url url \<longleftrightarrow> CHR ''/'' \<in> set (drop 8 url) \<and> CHR ''@'' \<notin> set (authority url)"

lemma allowed_host:
  assumes "IsAllowedUpdateUrl url = Ret True" "plain_url url"
  shows "strnicmp_eq url ''https://''" "IsAllowedUpdateHost (takeWhile (\<lambda>c. c \<noteq> CHR '':'') (authority url))"
proof -
  obtain h where h: "ParseHttpsHostFromUrl url 256 = Ret (Some h)" "IsAllowedUpdateHost h"
    using assms(1) by (auto simp: IsAllowedUpdateUrl_def split: outcome.splits option.splits)
  show "strnicmp_eq url ''https://''" using h(1) by (auto simp: ParseHttpsHostFromUrl_def split: if_splits)
  obtain t where t: "strchr (drop 8 url) CHR ''/'' = Some t"
    using assms(2) strchr_None [of "drop 8 url" "CHR ''/''"] by (auto simp: plain_url_def)
  then have "take (length (drop 8 url) - length t) (drop 8 url) = authority url"
    by (simp only: strchr_take authority_def)
  moreover have "strchr (authority url) CHR ''@'' = None" using assms(2) by (simp add: strchr_None plain_url_def)
  ultimately have "h = takeWhile (\<lambda>c. c \<noteq> CHR '':'') (authority url)"
    using h(1) t by (auto simp: ParseHttpsHostFromUrl_def strncpy_count_def Let_def split: if_splits)
  with h(2) show "IsAllowedUpdateHost (takeWhile (\<lambda>c. c \<noteq> CHR '':'') (authority url))" by simp
qed

lemma connected_host:
  assumes "ParseHttpUrl url 256 2048 = Some u" "plain_url url" "strnicmp_eq url ''https://''"
  shows "u_host u = takeWhile (\<lambda>c. c \<noteq> CHR '':'') (authority url)" "u_https u"
proof -
  have "\<not> starts ''http://'' url"
  proof
    assume "starts ''http://'' url"
    then show False using assms(3) by (auto simp: starts_prefix prefix_def strnicmp_eq_def char_lower_def)
  qed
  then have scheme: "url_scheme url = Some (drop 8 url, True, 443)"
    using assms(1) by (auto simp: ParseHttpUrl_def url_scheme_def split: if_splits)
  obtain t where t: "strchr (drop 8 url) CHR ''/'' = Some t"
    using assms(2) strchr_None [of "drop 8 url" "CHR ''/''"] by (auto simp: plain_url_def)
  let ?p = "drop 8 url"
  obtain q v where q: "?p = q @ t" "CHR ''/'' \<notin> set q" "t = CHR ''/'' # v" using strchr_Some [OF t] by blast
  have auth: "authority url = q" using q by (simp add: authority_def until_first)
  show "u_https u" using assms(1) by (auto simp: ParseHttpUrl_def scheme t Let_def split: if_splits)
  show "u_host u = takeWhile (\<lambda>c. c \<noteq> CHR '':'') (authority url)"
  proof (cases "\<exists>k. strchr ?p CHR '':'' = Some k \<and> length t < length k")
    case True
    then obtain k where k: "strchr ?p CHR '':'' = Some k" "length t < length k" by blast
    obtain a b where a: "?p = a @ k" "CHR '':'' \<notin> set a" "k = CHR '':'' # b" using strchr_Some [OF k(1)] by blast
    have same: "a @ k = q @ t" using a(1) q(1) by simp
    then have "length a + length k = length q + length t" by (metis length_append)
    then have "length a < length q" using k(2) by simp
    then obtain us where us: "q = a @ us" "k = us @ t" using same by (auto simp: append_eq_append_conv2)
    then obtain e where e: "q = a @ CHR '':'' # e" using a(3) \<open>length a < length q\<close> by (cases us) auto
    have "u_host u = take (length ?p - length k) ?p"
      using assms(1) by (auto simp: ParseHttpUrl_def scheme t k Let_def split: if_splits)
    then show ?thesis by (simp add: strchr_take [OF k(1)] auth a(1,3) e until_first [OF a(2)])
  next
    case False
    have "CHR '':'' \<notin> set q"
    proof
      assume "CHR '':'' \<in> set q"
      then obtain x y where "q = x @ CHR '':'' # y" "CHR '':'' \<notin> set x" by (metis split_list_first)
      then have "strchr ?p CHR '':'' = Some (CHR '':'' # y @ t)" using strchr_append [of "CHR '':''" x "y @ t"] q(1) by simp
      then show False using False by simp
    qed
    then have "takeWhile (\<lambda>c. c \<noteq> CHR '':'') q = q" by (auto simp: takeWhile_eq_all_conv)
    moreover have "u_host u = take (length ?p - length t) ?p"
      using assms(1) False by (auto simp: ParseHttpUrl_def scheme t Let_def split: if_splits option.splits)
    then have "u_host u = q" by (simp add: q(1))
    ultimately show ?thesis unfolding auth by (rule trans [OF _ sym, rotated])
  qed
qed

definition download_allowed :: "ucall \<Rightarrow> bool" where
  "download_allowed c \<longleftrightarrow> (case c of Download url h p \<Rightarrow> IsAllowedUpdateUrl url = Ret True | _ \<Rightarrow> True)"

lemma allowed_try: "leads (along id (logged download_allowed)) (TryHttpDownload U url headers zipPath)"
proof (cases "IsAllowedUpdateUrl url = Ret True")
  case True
  then show ?thesis
    unfolding TryHttpDownload_def EnsureParentDirectoryExistsW_def EnsureDirectoryExistsW_def http_download_def
    by (intro steady_rules; simp add: download_allowed_def)
next
  case False
  then have blocked: "leads (along id (logged download_allowed)) (seq (lift (IsAllowedUpdateUrl url)) k)"
    if "leads (along id (logged download_allowed)) (k False)" for k :: "bool \<Rightarrow> string option uact"
    using that by (cases "IsAllowedUpdateUrl url") (simp_all add: log.done_at_once)
  show ?thesis unfolding TryHttpDownload_def by (rule leads_cases(1), simp add: log.done_at_once, rule blocked, simp add: log.done_at_once)
qed

lemma allowed_apply: "leads (along id (logged download_allowed)) (DownloadAndApplyUpdate U link api tag sha)"
  unfolding DownloadAndApplyUpdate_def fetch_and_install_def IsGameProcessRunning_def GetLauncherInstallDir_def
    prepare_paths_def BuildUpdateTempRoot_def build_zip_path_def EnsureDirectoryExistsW_def DownloadReleaseZip_def
    try_one_def verify_zip_def ExpandZipArchive_def install_package_def SpawnUpdater_def Let_def
  by (intro steady_rules allowed_try; simp add: download_allowed_def)+

section \<open>The check\<close>

definition check_state :: "update_check \<times> ucalls \<Rightarrow> bool \<times> string \<times> string" where
  "check_state s = (uc_ok (fst s), uc_latest (fst s), uc_installed (fst s))"

lemma keeps_links: "leads (along check_state (=)) (read_links U release)"
proof -
  have reading: "leads (along check_state (=)) (value_str W j k d)" for W :: "'z launcher_world" and j k d
    by (simp add: value_str_def kept.done_at_once)
  have fills: "leads (along check_state (=)) (fill f)"
    if "\<And>r. (uc_ok (f r), uc_latest (f r), uc_installed (f r)) = (uc_ok r, uc_latest r, uc_installed r)" for f
    using that by (auto simp: leads_def along_def fill_def check_state_def)
  have "leads (along check_state (=)) (read_assets U assets legacy)" for assets legacy
  proof (induction assets arbitrary: legacy)
    case Nil
    show ?case unfolding read_assets.simps by (rule kept.done_at_once)
  next
    case (Cons asset assets)
    show ?case unfolding read_assets.simps by (intro steady_rules reading fills Cons.IH) simp_all
  qed
  then show ?thesis unfolding read_links_def
    by (intro steady_rules fills) (simp_all add: use_legacy_def split: prod.split)
qed

text \<open>An answer that is ok names a version and a file, and says whether the version is a later one.\<close>

definition sound_check :: "update_check \<Rightarrow> bool" where
  "sound_check r \<longleftrightarrow> (uc_ok r \<longrightarrow> uc_latest r \<noteq> [] \<and> uc_zip r \<noteq> [] \<and>
     uc_available r = (0 < CompareVersions (c_str (uc_latest r)) (uc_installed r)))"

lemma sound_decide: "\<not> uc_ok r \<Longrightarrow> uc_latest r \<noteq> [] \<Longrightarrow> sound_check (decide_update r)"
  by (simp add: sound_check_def decide_update_def)

lemma sound_links:
  assumes "seq (read_links U j) (\<lambda>_. fill decide_update) (r, log) = (out, (r', log'))" "\<not> uc_ok r" "uc_latest r \<noteq> []"
  shows "sound_check r' \<and> (out \<noteq> Ret () \<longrightarrow> \<not> uc_ok r')"
proof -
  obtain o1 r1 log1 where one: "read_links U j (r, log) = (o1, (r1, log1))" by (metis prod.exhaust)
  have "\<not> uc_ok r1" "uc_latest r1 \<noteq> []"
    using leadsD [OF keeps_links one] assms(2,3) by (simp_all add: along_def check_state_def)
  then show ?thesis
    using assms(1) sound_decide [of r1] by (cases o1; auto simp: seq_def one sound_check_def)
qed

lemma sound_release:
  assumes "read_release U body (r, log) = (out, (r', log'))" "\<not> uc_ok r"
  shows "sound_check r' \<and> (out \<noteq> Ret () \<longrightarrow> \<not> uc_ok r')"
  using assms
  by (auto simp: read_release_def parse_json_def value_str_def or_throw_def sound_check_def
      dest!: sound_links split: option.splits if_splits)

lemma check_sound:
  assumes "CheckForUpdate U log = (Ret r, log')"
  shows "sound_check r"
proof -
  have unreached: "sound_check ((no_update installed)\<lparr>uc_error := e\<rparr>)" for installed e
    by (simp add: sound_check_def no_update_def)
  have read: "sound_check r1"
    if "read_release U body (no_update installed, l) = (out, (r1, l1))" for body installed l out r1 l1
    using sound_release [OF that] by (simp add: no_update_def)
  have failed: "sound_check (r1\<lparr>uc_error := e\<rparr>)"
    if "read_release U body (no_update installed, l) = (Throws, (r1, l1))" for body installed l r1 l1 e
    using sound_release [OF that] by (simp add: no_update_def sound_check_def)
  show ?thesis
    using assms
    by (auto simp: CheckForUpdate_def filling_def catching_def result_of_def seq_def
        split: outcome.splits prod.splits bool.splits
        intro: unreached dest: read failed)
qed

end
