(* ===== verification/Launcher_Start.thy ===== *)
theory Launcher_Start
  imports Launch_Controller Install_Paths
begin

text \<open>
  Ways into a match without the window, and the game's start: the configuration
  the command line fills in (launcher/netplay/netplay_wizard.cxx), the JSON-lines
  bridge on standard input (launcher/ipc/electron_ipc.cxx), the search for the
  game, the search path, the Steam app id and the injected process
  (launcher/launcher.cxx).
\<close>

section \<open>The configuration from the command line\<close>

definition cli_config :: "settings \<Rightarrow> int \<Rightarrow> netplay_config" where
  "cli_config p mode =
     NetplayConfigApplyGgpoDisconnectDefaults ((base_config p)\<lparr>nc_mode := mode, nc_useRelay := ps_useRelay p,
       nc_deviceIdx := 0xff, nc_deviceType := 0xff\<rparr>)"

definition cli_broker :: "environ \<Rightarrow> settings \<Rightarrow> settings" where
  "cli_broker env p =
     (case env ''SF4E_BROKER_URL'' of
        Some url \<Rightarrow> if url = [] then p else p\<lparr>ps_brokerBaseUrl := copy_trunc 256 url\<rparr> | None \<Rightarrow> p)"

text \<open>Whether the configuration is complete, with it and the settings.\<close>

type_synonym cli_result = "bool \<times> netplay_config \<times> settings"

definition cli_join_room :: "'j launcher_world \<Rightarrow> string \<Rightarrow> netplay_config \<Rightarrow> settings \<Rightarrow> (calls, cli_result) act" where
  "cli_join_room W room c p =
     seq (ResolveJoinRelayRoom W room (ps_brokerBaseUrl p)) (\<lambda>sr.
     if \<not> sr_ok sr then ret (False, c, p)
     else ret (True, c\<lparr>nc_sessionHost := copy_trunc 64 (sr_host sr), nc_sessionPort := sr_port sr\<rparr>,
               p\<lparr>ps_lastJoinHost := copy_trunc 128 room\<rparr>))"

definition cli_join_address :: "string \<Rightarrow> netplay_config \<Rightarrow> settings \<Rightarrow> cli_result" where
  "cli_join_address room c p =
     (case ParseRoomCode room 64 of
        None \<Rightarrow> (False, c, p)
      | Some (host, port) \<Rightarrow>
          (True, c\<lparr>nc_sessionHost := host, nc_sessionPort := port\<rparr>,
           p\<lparr>ps_lastJoinHost := FormatRoomCode host port 128\<rparr>))"

definition ApplyNetplayConfigFromWizard ::
  "'j launcher_world \<Rightarrow> settings \<Rightarrow> int \<Rightarrow> string option \<Rightarrow> (calls, cli_result) act" where
  "ApplyNetplayConfigFromWizard W p mode joinRoomCode =
     (let c = cli_config p mode in
      if mode = mode_int NM_Host then
        ret (True, c\<lparr>nc_sessionHost := copy_trunc 64 (snd (DetectLanIPv4 64 (lw_lan W))), nc_roomKey := ''1''\<rparr>, p)
      else if mode = mode_int NM_Join then
        (let room = (case joinRoomCode of Some r \<Rightarrow> if r = [] then ps_lastJoinHost p else r | None \<Rightarrow> ps_lastJoinHost p);
             p1 = cli_broker (lw_env W) p
         in if room = [] then ret (False, c, p)
            else if IsShortRoomCode room then cli_join_room W room c p1
            else ret (cli_join_address room c p1))
      else ret (True, c, p))"

section \<open>The bridge on standard input\<close>

datatype 'j ipc_line = IpcReply "'j ui_reply" | IpcExitForUpdate | IpcFinished bool | IpcInvalid

type_synonym ('j, 'a) ipc = "('j ipc_line list \<times> controller, 'a) act"

text \<open>A line is printed unless the document holds text that is not UTF-8; then dump throws.\<close>

definition WriteJsonLine :: "('j ipc_line \<Rightarrow> bool) \<Rightarrow> 'j ipc_line \<Rightarrow> ('j, unit) ipc" where
  "WriteJsonLine prints l = (if prints l then fill (\<lambda>out. out @ [l]) else lift Throws)"

definition strip_eol :: "string \<Rightarrow> string" where
  "strip_eol line = rev (dropWhile (\<lambda>c. c = CHR 0x0D \<or> c = CHR 0x0A) (rev line))"

text \<open>One message: None to go on, else whether the launcher proceeds.\<close>

definition ipc_message :: "'j launcher_world \<Rightarrow> ('j ipc_line \<Rightarrow> bool) \<Rightarrow> string \<Rightarrow> ('j, bool option) ipc" where
  "ipc_message W prints line =
     seq (lift (or_throw (lw_parse W line))) (\<lambda>msg.
     seq (outside (HandleWebMessage W msg)) (\<lambda>reply.
     seq (case reply of NoReply \<Rightarrow> ret () | _ \<Rightarrow> WriteJsonLine prints (IpcReply reply)) (\<lambda>_.
     seq (outside (reads id)) (\<lambda>s.
     if lc_exitForUpdate s then seq (WriteJsonLine prints IpcExitForUpdate) (\<lambda>_. ret (Some False))
     else if lc_finished s then seq (WriteJsonLine prints (IpcFinished (lc_cancelled s))) (\<lambda>_.
       ret (Some (\<not> lc_cancelled s)))
     else ret None))))"

fun ipc_loop :: "'j launcher_world \<Rightarrow> ('j ipc_line \<Rightarrow> bool) \<Rightarrow> string list \<Rightarrow> ('j, bool) ipc" where
  "ipc_loop W prints [] = ret False"
| "ipc_loop W prints (line # rest) =
     (if strip_eol line = [] then ipc_loop W prints rest
      else seq (catching (ipc_message W prints (strip_eol line))
                 (seq (WriteJsonLine prints IpcInvalid) (\<lambda>_. ret None))) (\<lambda>r. case r of
        Some proceed \<Rightarrow> ret proceed
      | None \<Rightarrow> ipc_loop W prints rest))"

definition RunElectronIpcBridge ::
  "'j launcher_world \<Rightarrow> ('j ipc_line \<Rightarrow> bool) \<Rightarrow> string list \<Rightarrow> ('j, bool) ipc" where
  "RunElectronIpcBridge W prints input =
     seq (outside (BuildStateJson W)) (\<lambda>state.
     seq (WriteJsonLine prints (IpcReply state)) (\<lambda>_.
     ipc_loop W prints input))"

section \<open>Finding the game\<close>

definition szGameFilename :: string where
  "szGameFilename = ''SSFIV.exe''"

definition szLibrarySuffix :: string where
  "szLibrarySuffix = win ''steamapps/common/Super Street Fighter IV - Arcade Edition''"

definition FindSF4ByEnvironmentVariable :: "disk \<Rightarrow> environ \<Rightarrow> (string \<times> string) option" where
  "FindSF4ByEnvironmentVariable D env =
     (case env ''STEAM_APP_PATH'' of
        None \<Rightarrow> None
      | Some dir \<Rightarrow>
          if dir = [] \<or> 1024 \<le> length dir then None
          else (case combine D 1024 dir szGameFilename of
             None \<Rightarrow> None
           | Some exe \<Rightarrow> if path_exists D exe then Some (dir, exe) else None))"

text \<open>
  The libraries found: the Steam directory itself, and the folders its file
  lists, written into an array of eight. A ninth is written past the end, and a
  path that does not fit leaves its row without a terminator: undefined
  behaviour, where the model stops. The parser of the file is a parameter.
\<close>

definition steam_libraries :: "disk \<Rightarrow> string option \<Rightarrow> (string \<Rightarrow> string list outcome) \<Rightarrow> string list outcome" where
  "steam_libraries D steamPath vdf =
     (case steamPath of
        None \<Rightarrow> Ret []
      | Some steam \<Rightarrow>
          if 512 \<le> length steam then Ret []
          else (case combine D 1024 steam (win ''steamapps/libraryfolders.vdf'') of
             None \<Rightarrow> Ret []
           | Some file_path \<Rightarrow>
               (case vdf file_path of
                  Throws \<Rightarrow> Throws
                | Aborts \<Rightarrow> Aborts
                | Ret folders \<Rightarrow>
                    if 7 < length folders \<or> \<not> list_all (\<lambda>f. length f < 1024) folders then Aborts
                    else Ret (steam # folders))))"

fun search_libraries :: "disk \<Rightarrow> string list \<Rightarrow> (string \<times> string) option" where
  "search_libraries D [] = None"
| "search_libraries D (library # rest) =
     (if \<not> is_directory D library then search_libraries D rest
      else (case combine D 1024 library szLibrarySuffix of
         None \<Rightarrow> search_libraries D rest
       | Some dir \<Rightarrow>
           if \<not> is_directory D dir then search_libraries D rest
           else (case combine D 1024 dir szGameFilename of
              None \<Rightarrow> search_libraries D rest
            | Some exe \<Rightarrow> if path_exists D exe then Some (dir, exe) else search_libraries D rest)))"

definition FindSF4ByEstimatedSteamPath ::
  "disk \<Rightarrow> string option \<Rightarrow> (string \<Rightarrow> string list outcome) \<Rightarrow> (string \<times> string) option outcome" where
  "FindSF4ByEstimatedSteamPath D steamPath vdf =
     (case steam_libraries D steamPath vdf of
        Throws \<Rightarrow> Throws | Aborts \<Rightarrow> Aborts | Ret libraries \<Rightarrow> Ret (search_libraries D libraries))"

definition FindSF4 ::
  "disk \<Rightarrow> environ \<Rightarrow> string option \<Rightarrow> (string \<Rightarrow> string list outcome) \<Rightarrow> (string \<times> string) option outcome" where
  "FindSF4 D env steamPath vdf =
     (case FindSF4ByEnvironmentVariable D env of
        Some found \<Rightarrow> Ret (Some found)
      | None \<Rightarrow> FindSF4ByEstimatedSteamPath D steamPath vdf)"

end
