(* ===== verification/Launcher_Main.thy ===== *)
theory Launcher_Main
  imports Launcher_Start Updater
begin

text \<open>
  The launcher's main function (launcher/launcher.cxx): the search path, the
  command line, the update, the choice of a mode, and the game's start with the
  sidecar injected. The command-line library, the window, Windows and Detours
  are parameters; what it does to the outside is a list of \<open>gcall\<close>.
\<close>

section \<open>The world of the main function\<close>

record cli_flags =
  cl_console :: bool
  cl_offline :: bool
  cl_host :: bool
  cl_join :: string
  cl_devOverlay :: bool
  cl_applyUpdate :: bool
  cl_electronIpc :: bool
  cl_headless :: bool

datatype shown = PathUnreadable | PathOutOfMemory | PathTooLong | PathNotMade
  | CannotUpdate string | NoUpdateAvailable | GameNotFound | HostNotConfigured | BadJoinAddress
  | CreateFailed "32 word" | NotSameBits | PayloadFailed

datatype gcall = Shows shown
  | SetsVariable string string
  | WritesAppId string
  | CreatesSuspended string string string
  | CopiesPayload bool netplay_config bool
  | Resumes
  | WaitsForSync
  | WaitsForGame
  | StopsRelayHost "32 word"

record game_env =
  ge_event :: bool
  ge_created :: bool
  ge_error :: "32 word"
  ge_duplicated :: bool
  ge_copied :: bool

record 'j main_world =
  mw_base :: "'j launcher_world"
  mw_update :: "'j update_world"
  mw_disk :: disk
  mw_module :: "string option"
  mw_search :: path_env
  mw_path :: path_env
  mw_pathError :: bool
  mw_newer :: bool
  mw_argv :: "string list"
  mw_parse :: "string list \<Rightarrow> int + cli_flags"
  mw_steam :: "string option"
  mw_vdf :: "string \<Rightarrow> string list outcome"
  mw_input :: "string list"
  mw_prints :: "'j ipc_line \<Rightarrow> bool"
  mw_window :: "controller \<Rightarrow> controller"
  mw_writable :: bool
  mw_game :: game_env

record main_state =
  ms_search :: dll_search
  ms_file :: config_file
  ms_calls :: calls
  ms_ucalls :: ucalls
  ms_did :: "gcall list"

type_synonym 'a mact = "(main_state, 'a) act"

definition does :: "gcall \<Rightarrow> unit mact" where
  "does c = update (\<lambda>s. s\<lparr>ms_did := ms_did s @ [c]\<rparr>)"

definition in_search :: "(dll_search, 'a) act \<Rightarrow> 'a mact" where
  "in_search f = on ms_search (\<lambda>t. ms_search_update (\<lambda>_. t)) f"

definition in_file :: "(config_file, 'a) act \<Rightarrow> 'a mact" where
  "in_file f = on ms_file (\<lambda>t. ms_file_update (\<lambda>_. t)) f"

definition in_calls :: "(calls, 'a) act \<Rightarrow> 'a mact" where
  "in_calls f = on ms_calls (\<lambda>t. ms_calls_update (\<lambda>_. t)) f"

definition in_ucalls :: "'a uact \<Rightarrow> 'a mact" where
  "in_ucalls f = on ms_ucalls (\<lambda>t. ms_ucalls_update (\<lambda>_. t)) f"

section \<open>The search path of the game\<close>

text \<open>
  The value found missing is an error without a message, another failure to read
  it one with a message (\<open>failed\<close>). Setting the variable is not checked.
\<close>

definition UpdatePath :: "path_env \<Rightarrow> bool \<Rightarrow> string \<Rightarrow> (dll_search, shown option + unit) act" where
  "UpdatePath E failed launcherDir =
     seq (reads ds_path) (\<lambda>path. case path of
       None \<Rightarrow> ret (Inl (if failed then Some PathUnreadable else None))
     | Some old \<Rightarrow>
         if \<not> pa_read E then ret (Inl (Some PathOutOfMemory))
         else if kMaxEnv < length old + 1 + length launcherDir + 2 then ret (Inl (Some PathTooLong))
         else if \<not> pa_write E then ret (Inl (Some PathOutOfMemory))
         else seq (update (if pa_set E then ds_path_update (\<lambda>_. Some (launcherDir @ '';'' @ old)) else id)) (\<lambda>_.
              ret (Inr ())))"

text \<open>The directory of the libraries when the package has one, else the launcher's own.\<close>

definition launcher_dir :: "disk \<Rightarrow> string option \<Rightarrow> string" where
  "launcher_dir D module =
     (let exe = (case module of Some m \<Rightarrow> copy_trunc 1024 m | None \<Rightarrow> [])
      in case d_parent D exe of Some dir \<Rightarrow> dir | None \<Rightarrow> exe)"

definition path_target :: "disk \<Rightarrow> string option \<Rightarrow> string" where
  "path_target D module =
     (if UsesDllSubdirectory D module then
        (case GetPackageDllDirectory D module MAX_PATH of
           Some dir \<Rightarrow> if dir = [] then launcher_dir D module else dir
         | None \<Rightarrow> launcher_dir D module)
      else launcher_dir D module)"

definition sidecar_path :: "disk \<Rightarrow> string option \<Rightarrow> string" where
  "sidecar_path D module =
     (case ResolveInstallFile D module ''Sidecar.dll'' 1024 of
        Some p \<Rightarrow> p | None \<Rightarrow> combined D MAX_PATH (launcher_dir D module) ''Sidecar.dll'')"

section \<open>Arguments\<close>

text \<open>A link's code is taken from the first argument that is one; one that does not fit its buffer is left without a terminator.\<close>

fun uri_code :: "string list \<Rightarrow> string option outcome" where
  "uri_code [] = Ret None"
| "uri_code (arg # rest) =
     (if 12 < length arg \<and> strnicmp_eq arg ''sf4e://join/''
      then (if length (drop 12 arg) < 64 then Ret (Some (drop 12 arg)) else Aborts)
      else uri_code rest)"

text \<open>The exit code of a command line that is refused, or the flags.\<close>

definition read_arguments :: "'j main_world \<Rightarrow> (int + cli_flags) mact" where
  "read_arguments M =
     (case mw_parse M (mw_argv M) of
        Inl code \<Rightarrow> ret (Inl code)
      | Inr flags \<Rightarrow>
          seq (lift (uri_code (tl (mw_argv M)))) (\<lambda>code.
          ret (Inr (case code of Some c \<Rightarrow> flags\<lparr>cl_join := c\<rparr> | None \<Rightarrow> flags))))"

section \<open>The update from the command line\<close>

definition apply_update_only :: "'j main_world \<Rightarrow> int mact" where
  "apply_update_only M =
     seq (in_ucalls (CheckForUpdate (mw_update M))) (\<lambda>check.
     if \<not> uc_ok check then seq (does (Shows (CannotUpdate (uc_error check)))) (\<lambda>_. ret 1)
     else if \<not> uc_available check then seq (does (Shows NoUpdateAvailable)) (\<lambda>_. ret 0)
     else seq (in_ucalls (DownloadAndApplyUpdate (mw_update M) (c_str (uc_zip check)) (c_str (uc_zipApi check))
                (c_str (uc_latest check)) (c_str (uc_sha check)))) (\<lambda>applied. case applied of
       Some e \<Rightarrow> seq (does (Shows (CannotUpdate e))) (\<lambda>_. ret 1)
     | None \<Rightarrow> ret 0))"

section \<open>The game\<close>

definition CreateAppIDFile :: "'j main_world \<Rightarrow> string \<Rightarrow> unit mact" where
  "CreateAppIDFile M gameDir =
     seq (does (SetsVariable ''SteamAppId'' ''45760'')) (\<lambda>_.
     seq (does (SetsVariable ''SteamGameId'' ''45760'')) (\<lambda>_.
     let appId = combined (mw_disk M) MAX_PATH gameDir ''steam_appid.txt'' in
     if path_exists (mw_disk M) appId then ret ()
     else (case lw_env (mw_base M) ''SF4E_ALLOW_STEAM_APPID_WRITE'' of
        None \<Rightarrow> ret ()
      | Some allow \<Rightarrow> if allow = [] \<or> \<not> mw_writable M then ret () else does (WritesAppId appId))))"

text \<open>The process: started suspended with the sidecar, given its payload and resumed; or the code it exits with.\<close>

definition CreateSF4Process :: "game_env \<Rightarrow> netplay_config \<Rightarrow> bool \<Rightarrow> string \<Rightarrow> string \<Rightarrow> string \<Rightarrow> (int + unit) mact" where
  "CreateSF4Process E config console gameDir exe dll =
     (if \<not> ge_created E then
        seq (does (Shows (CreateFailed (ge_error E)))) (\<lambda>_.
        seq (if ge_error E = 6 then does (Shows NotSameBits) else ret ()) (\<lambda>_. ret (Inl 9009)))
      else
        seq (does (CreatesSuspended exe gameDir dll)) (\<lambda>_.
        if \<not> ge_copied E then seq (does (Shows PayloadFailed)) (\<lambda>_. ret (Inl 9008))
        else seq (does (CopiesPayload console config (ge_event E \<and> ge_duplicated E))) (\<lambda>_.
             seq (does Resumes) (\<lambda>_.
             seq (if ge_event E then does WaitsForSync else ret ()) (\<lambda>_.
             ret (Inr ()))))))"

definition run_game :: "'j main_world \<Rightarrow> cli_flags \<Rightarrow> netplay_config \<Rightarrow> 32 word \<Rightarrow> string \<Rightarrow> string \<Rightarrow> int mact" where
  "run_game M flags config relayPid gameDir exe =
     seq (CreateAppIDFile M gameDir) (\<lambda>_.
     seq (CreateSF4Process (mw_game M) config (cl_console flags) gameDir exe
           (sidecar_path (mw_disk M) (mw_module M))) (\<lambda>started. case started of
       Inl code \<Rightarrow> ret code
     | Inr _ \<Rightarrow>
         if relayPid = 0 then ret 0
         else seq (does WaitsForGame) (\<lambda>_. seq (does (StopsRelayHost relayPid)) (\<lambda>_. ret 0))))"

section \<open>Choosing a mode\<close>

definition offline_config :: "settings \<Rightarrow> netplay_config \<Rightarrow> netplay_config" where
  "offline_config p c =
     c\<lparr>nc_version := SF4E_NETPLAY_CONFIG_VERSION, nc_mode := mode_int NM_Idle,
       nc_displayName := copy_trunc 32 (ps_displayName p), nc_inputDelay := ps_inputDelay p,
       nc_sessionPort := ps_sessionPort p, nc_ggpoPort := ps_ggpoPort p, nc_editionSelect := ps_editionSelect p,
       nc_roundCount := ps_roundCount p, nc_roundTimeIntegral := ps_roundTimeIntegral p,
       nc_deviceIdx := 0xff, nc_deviceType := 0xff\<rparr>"

text \<open>What a mode gives: the exit code of a launcher that ends here, or the configuration and the relay host's id.\<close>

type_synonym chosen = "int + netplay_config \<times> 32 word"

definition save_settings_file :: "'j main_world \<Rightarrow> settings \<Rightarrow> unit mact" where
  "save_settings_file M p = seq (in_file (SavePersistedSettings (mw_base M) p)) (\<lambda>_. ret ())"

definition choose_cli :: "'j main_world \<Rightarrow> settings \<Rightarrow> int \<Rightarrow> string option \<Rightarrow> shown \<Rightarrow> chosen mact" where
  "choose_cli M p mode code complaint =
     seq (in_calls (ApplyNetplayConfigFromWizard (mw_base M) p mode code)) (\<lambda>(complete, c, p1).
     if \<not> complete then seq (does (Shows complaint)) (\<lambda>_. ret (Inl 1))
     else seq (save_settings_file M p1) (\<lambda>_. ret (Inr (c, 0))))"

text \<open>A controller is made on the settings and the configuration; the bridge or the window runs it.\<close>

definition run_bridge :: "'j main_world \<Rightarrow> controller \<Rightarrow> (bool \<times> controller) outcome" where
  "run_bridge M s =
     (case RunElectronIpcBridge (mw_base M) (mw_prints M) (mw_input M) ([], s) of
        (Ret proceed, (_, s1)) \<Rightarrow> Ret (proceed, s1)
      | (Throws, _) \<Rightarrow> Throws | (Aborts, _) \<Rightarrow> Aborts)"

text \<open>The window returns when it is closed; the flags of the controller tell whether to go on.\<close>

definition RunNetplayWizard :: "'j main_world \<Rightarrow> controller \<Rightarrow> bool \<times> controller" where
  "RunNetplayWizard M s = (let s1 = mw_window M s in (lc_finished s1 \<and> \<not> lc_cancelled s1, s1))"

definition choose_ui :: "'j main_world \<Rightarrow> cli_flags \<Rightarrow> settings \<Rightarrow> netplay_config \<Rightarrow> chosen mact" where
  "choose_ui M flags p c =
     seq (lift (controller_init (mw_base M) p c)) (\<lambda>s.
     seq (lift (if cl_electronIpc flags \<or> cl_headless flags then run_bridge M s
                else Ret (RunNetplayWizard M s))) (\<lambda>(proceed, s1).
     seq (update (\<lambda>m. m\<lparr>ms_calls := ms_calls m @ lc_calls s1\<rparr>)) (\<lambda>_.
     if \<not> proceed then ret (Inl 0)
     else seq (save_settings_file M (lc_settings s1)) (\<lambda>_. ret (Inr (lc_config s1, lc_relayPid s1))))))"

definition choose_mode :: "'j main_world \<Rightarrow> cli_flags \<Rightarrow> settings \<Rightarrow> chosen mact" where
  "choose_mode M flags p =
     (let c = default_config\<lparr>nc_version := 0, nc_devOverlay := (if cl_devOverlay flags then 1 else 0)\<rparr> in
      if cl_offline flags then ret (Inr (offline_config p c, 0))
      else if cl_host flags \<and> cl_join flags = [] then choose_cli M p (mode_int NM_Host) None HostNotConfigured
      else if cl_join flags \<noteq> [] then choose_cli M p (mode_int NM_Join) (Some (cl_join flags)) BadJoinAddress
      else choose_ui M flags p c)"

section \<open>The main function\<close>

definition launch_flow :: "'j main_world \<Rightarrow> cli_flags \<Rightarrow> int mact" where
  "launch_flow M flags =
     seq (lift (FindSF4 (mw_disk M) (lw_env (mw_base M)) (mw_steam M) (mw_vdf M))) (\<lambda>found. case found of
       None \<Rightarrow> seq (does (Shows GameNotFound)) (\<lambda>_. ret 1)
     | Some (gameDir, exe) \<Rightarrow>
         seq (in_file (result_of (filling default_settings (LoadPersistedSettings (mw_base M))))) (\<lambda>p.
         seq (choose_mode M flags p) (\<lambda>chosen. case chosen of
           Inl code \<Rightarrow> ret code
         | Inr (config, relayPid) \<Rightarrow> run_game M flags config relayPid gameDir exe)))"

definition launcher_main :: "'j main_world \<Rightarrow> int mact" where
  "launcher_main M =
     seq (in_search (ConfigureDllSearch (mw_disk M) (mw_module M) (mw_search M) (mw_newer M))) (\<lambda>_.
     seq (read_arguments M) (\<lambda>args. case args of
       Inl code \<Rightarrow> ret code
     | Inr flags \<Rightarrow>
         seq (in_search (UpdatePath (mw_path M) (mw_pathError M) (path_target (mw_disk M) (mw_module M)))) (\<lambda>path.
         case path of
           Inl complaint \<Rightarrow>
             seq (case complaint of Some e \<Rightarrow> does (Shows e) | None \<Rightarrow> ret ()) (\<lambda>_. ret 1)
         | Inr _ \<Rightarrow> if cl_applyUpdate flags then apply_update_only M else launch_flow M flags)))"

end
