(* ===== verification/Start_Properties.thy ===== *)
theory Start_Properties
  imports Update_Properties Launcher_Main
begin

text \<open>
  The properties of the launcher's main function: the game only ever runs with a
  payload, an offline start asks nothing of the network, and the bridge lets the
  launcher go on only behind a finished start; with what modelling it showed.
\<close>

section \<open>What the parts log\<close>

text \<open>Calls that do not touch a game process.\<close>

definition prepares :: "gcall \<Rightarrow> bool" where
  "prepares c \<longleftrightarrow> (case c of Shows _ \<Rightarrow> True | SetsVariable _ _ \<Rightarrow> True | WritesAppId _ \<Rightarrow> True | _ \<Rightarrow> False)"

lemma prepares_simps [simp]:
  "prepares (Shows m)" "prepares (SetsVariable a b)" "prepares (WritesAppId p)" "\<not> prepares Resumes"
  "\<not> prepares (CreatesSuspended a b c)" "\<not> prepares (CopiesPayload x y z)"
  by (simp_all add: prepares_def)

lemma leads_parts [steady_rules]:
  "leads (along ms_did (logged P)) (in_search f)" "leads (along ms_did (logged P)) (in_file g)"
  "leads (along ms_did (logged P)) (in_calls h)" "leads (along ms_did (logged P)) (in_ucalls k)"
  by (simp_all add: leads_def along_def logged_def in_search_def in_file_def in_calls_def in_ucalls_def on_def
      split: prod.split)

lemma leads_does [steady_rules]: "P c \<Longrightarrow> leads (along ms_did (logged P)) (does c)"
  by (simp add: leads_def along_def logged_def does_def)

lemma leads_outcome [steady_rules]: "leads (along ms_did (logged P)) (lift r)"
  by (rule log.done_at_once)

lemma quiet_choice: "leads (along ms_did (logged prepares)) (choose_mode M flags p)"
  unfolding choose_mode_def choose_cli_def choose_ui_def save_settings_file_def Let_def
  by (intro steady_rules; simp)

lemma quiet_update: "leads (along ms_did (logged prepares)) (apply_update_only M)"
  unfolding apply_update_only_def by (intro steady_rules; simp)

lemma quiet_app_id: "leads (along ms_did (logged prepares)) (CreateAppIDFile M dir)"
  unfolding CreateAppIDFile_def Let_def by (intro steady_rules; simp)

lemma found_exists:
  "FindSF4 D env steam vdf = Ret (Some (dir, exe)) \<Longrightarrow> path_exists D exe"
proof -
  have lib: "search_libraries D libs = Some (dir, exe) \<Longrightarrow> path_exists D exe" for libs
    by (induction libs) (auto split: if_splits option.splits)
  assume "FindSF4 D env steam vdf = Ret (Some (dir, exe))"
  then show ?thesis
    by (auto simp: FindSF4_def FindSF4ByEnvironmentVariable_def FindSF4ByEstimatedSteamPath_def
        split: option.splits if_splits outcome.splits dest: lib)
qed

text \<open>The game's process in the log: made with its payload and resumed, once, and what follows ends with it.\<close>

definition follows :: "gcall \<Rightarrow> bool" where
  "follows c \<longleftrightarrow> (case c of WaitsForSync \<Rightarrow> True | WaitsForGame \<Rightarrow> True | StopsRelayHost _ \<Rightarrow> True | _ \<Rightarrow> False)"

definition game_calls :: "string \<Rightarrow> gcall list \<Rightarrow> bool" where
  "game_calls exe log \<longleftrightarrow> (\<exists>pre dir dll console config sync post. log = pre @
     [CreatesSuspended exe dir dll, CopiesPayload console config sync, Resumes] @ post \<and>
     list_all prepares pre \<and> list_all follows post)"

lemma seq_Ret:
  assumes "seq f g s = (Ret b, s')"
  obtains a s1 where "f s = (Ret a, s1)" "g a s1 = (Ret b, s')"
  using seq_cases [OF assms] by auto

lemma run_game_log:
  assumes "run_game M flags config pid dir exe s = (Ret code, s')" "list_all prepares (ms_did s)"
    "Resumes \<in> set (ms_did s')"
  shows "game_calls exe (ms_did s') \<and> code = 0"
proof -
  obtain s1 where one: "CreateAppIDFile M dir s = (Ret (), s1)"
    "seq (CreateSF4Process (mw_game M) config (cl_console flags) dir exe (sidecar_path (mw_disk M) (mw_module M)))
       (\<lambda>started. case started of Inl code \<Rightarrow> ret code
        | Inr _ \<Rightarrow> if pid = 0 then ret 0
            else seq (does WaitsForGame) (\<lambda>_. seq (does (StopsRelayHost pid)) (\<lambda>_. ret 0))) s1 = (Ret code, s')"
    using assms(1) unfolding run_game_def by (rule seq_Ret) auto
  have "list_all prepares (ms_did s1)"
    using leadsD [OF quiet_app_id one(1)] assms(2) by (auto simp: along_def logged_def)
  moreover have "Resumes \<notin> set (ms_did s1)" using calculation by (auto simp: list_all_iff)
  ultimately show ?thesis
    using one(2) assms(3) unfolding game_calls_def
    by (auto simp: CreateSF4Process_def does_def follows_def split: if_splits intro!: exI [of _ "ms_did s1"])
qed

lemma quiet_run:
  "leads (along ms_did (logged prepares)) f \<Longrightarrow> f s = (r, s') \<Longrightarrow> list_all prepares (ms_did s) \<Longrightarrow>
     list_all prepares (ms_did s')"
  by (drule leadsD) (auto simp: along_def logged_def)

lemma prepared_idle: "list_all prepares log \<Longrightarrow> Resumes \<notin> set log"
  by (auto simp: list_all_iff)

lemma idle_seq:
  assumes "seq f g s = (Ret b, s')" "leads (along ms_did (logged prepares)) f" "list_all prepares (ms_did s)"
  obtains a s1 where "f s = (Ret a, s1)" "list_all prepares (ms_did s1)" "g a s1 = (Ret b, s')"
  using assms by (auto elim!: seq_Ret dest: quiet_run)

lemma launch_flow_log:
  assumes "launch_flow M flags s = (Ret code, s')" "list_all prepares (ms_did s)" "Resumes \<in> set (ms_did s')"
  shows "\<exists>exe. path_exists (mw_disk M) exe \<and> game_calls exe (ms_did s') \<and> code = 0"
proof -
  have idle: "Resumes \<notin> set (ms_did s1)" if "list_all prepares (ms_did s1)" for s1
    by (rule prepared_idle [OF that])
  obtain found where found: "FindSF4 (mw_disk M) (lw_env (mw_base M)) (mw_steam M) (mw_vdf M) = Ret found"
    using assms(1) by (cases "FindSF4 (mw_disk M) (lw_env (mw_base M)) (mw_steam M) (mw_vdf M)")
      (auto simp: launch_flow_def)
  show ?thesis
  proof (cases found)
    case None
    then show ?thesis using assms idle [OF assms(2)] by (auto simp: launch_flow_def found does_def)
  next
    case (Some game)
    obtain dir exe where game: "game = (dir, exe)" by fastforce
    have run: "seq (in_file (result_of (filling default_settings (LoadPersistedSettings (mw_base M))))) (\<lambda>p.
        seq (choose_mode M flags p) (\<lambda>chosen. case chosen of Inl code \<Rightarrow> ret code
         | Inr (config, relayPid) \<Rightarrow> run_game M flags config relayPid dir exe)) s = (Ret code, s')"
      using assms(1) by (simp add: launch_flow_def found Some game)
    show ?thesis
    proof (rule idle_seq [OF run leads_parts(2) assms(2)], erule (1) idle_seq [OF _ quiet_choice])
      fix chosen s2
      assume s2: "list_all prepares (ms_did s2)" and "(case chosen of Inl code \<Rightarrow> ret code
         | Inr (config, relayPid) \<Rightarrow> run_game M flags config relayPid dir exe) s2 = (Ret code, s')"
      then show ?thesis
        using run_game_log [OF _ s2 assms(3)] found_exists [of "mw_disk M"] found Some game idle [OF s2] assms(3)
        by (cases chosen) (fastforce split: prod.splits)+
    qed
  qed
qed

lemma quiet_arguments: "leads (along ms_did (logged prepares)) (read_arguments M)"
  unfolding read_arguments_def by (cases "mw_parse M (mw_argv M)") (auto intro!: steady_rules)

section \<open>An offline start\<close>

text \<open>What an offline start may do to the outside: the payload it hands over has the idle mode.\<close>

definition local_start :: "gcall \<Rightarrow> bool" where
  "local_start c \<longleftrightarrow> (case c of CopiesPayload _ config _ \<Rightarrow> nc_mode config = mode_int NM_Idle
     | WaitsForGame \<Rightarrow> False | StopsRelayHost _ \<Rightarrow> False | _ \<Rightarrow> True)"

text \<open>The logs of an offline start: the requests of the two clients are left alone.\<close>

definition stays_local :: "main_state \<Rightarrow> main_state \<Rightarrow> bool" where
  "stays_local s t \<longleftrightarrow> ms_calls t = ms_calls s \<and> ms_ucalls t = ms_ucalls s \<and> logged local_start (ms_did s) (ms_did t)"

interpretation offline: steady stays_local
  by unfold_locales (auto simp: stays_local_def logged_def list_all_append)

lemmas offline_rules [steady_rules] = offline.done_at_once offline.in_turn

lemma leads_local [steady_rules]:
  "local_start c \<Longrightarrow> leads stays_local (does c)" "leads stays_local (in_search f)" "leads stays_local (in_file g)"
  by (simp_all add: leads_def stays_local_def logged_def does_def in_search_def in_file_def on_def split: prod.split)

lemma local_simps [simp]: "local_start (Shows m)" "local_start (SetsVariable a b)" "local_start (WritesAppId p)"
  "local_start (CreatesSuspended x y z)" "local_start Resumes" "local_start WaitsForSync"
  "local_start (CopiesPayload console config sync) \<longleftrightarrow> nc_mode config = mode_int NM_Idle"
  by (simp_all add: local_start_def)

lemma seq_Pair: "seq (Pair (Ret a)) k = k a"
  by (simp add: seq_def fun_eq_iff)

lemma leads_sum [steady_rules]: "leads R (case_sum f g x)"
  if "\<And>a. x = Inl a \<Longrightarrow> leads R (f a)" "\<And>b. x = Inr b \<Longrightarrow> leads R (g b)"
  using that by (cases x) simp_all

lemma local_game:
  assumes "nc_mode config = mode_int NM_Idle"
  shows "leads stays_local (run_game M flags config 0 dir exe)"
  unfolding run_game_def CreateAppIDFile_def CreateSF4Process_def Let_def refl [of "0 :: 32 word", THEN eqTrueI] if_True
  using assms by (intro steady_rules; simp)

lemma local_choice: "cl_offline flags \<Longrightarrow> leads stays_local (seq (choose_mode M flags p) (\<lambda>chosen. case chosen of
    Inl code \<Rightarrow> ret code | Inr (config, pid) \<Rightarrow> run_game M flags config pid dir exe))"
  by (simp add: choose_mode_def local_game offline_config_def)

lemma local_flow: "cl_offline flags \<Longrightarrow> leads stays_local (launch_flow M flags)"
  unfolding launch_flow_def by (intro leads_sum leads_cases offline_rules leads_local local_choice; simp)

section \<open>The bridge\<close>

lemma bridge_message:
  assumes "ipc_message W prints line (out, s) = (Ret (Some True), (out', s'))"
  shows "lc_finished s' \<and> \<not> lc_cancelled s' \<and> \<not> lc_exitForUpdate s' \<and> out' \<noteq> [] \<and> last out' = IpcFinished False"
  using assms unfolding ipc_message_def
  by (auto elim!: seq_Ret simp: outside_def on_def WriteJsonLine_def fill_def split: if_splits prod.splits)

lemma bridge_loop:
  assumes "ipc_loop W prints input (out, s) = (Ret True, (out', s'))"
  shows "lc_finished s' \<and> \<not> lc_cancelled s' \<and> \<not> lc_exitForUpdate s' \<and> out' \<noteq> [] \<and> last out' = IpcFinished False"
  using assms
proof (induction input arbitrary: out s)
  case Nil
  then show ?case by simp
next
  case (Cons line rest)
  show ?case
  proof (cases "strip_eol line = []")
    case True
    then show ?thesis using Cons by simp
  next
    case False
    obtain next_act out1 s1 where step: "catching (ipc_message W prints (strip_eol line))
        (seq (WriteJsonLine prints IpcInvalid) (\<lambda>_. ret None)) (out, s) = (Ret next_act, (out1, s1))"
      "(case next_act of Some proceed \<Rightarrow> ret proceed | None \<Rightarrow> ipc_loop W prints rest) (out1, s1) = (Ret True, (out', s'))"
      using Cons.prems False by (auto elim!: seq_Ret)
    show ?thesis
    proof (cases next_act)
      case None
      then show ?thesis using step(2) Cons.IH by simp
    next
      case (Some proceed)
      have "ipc_message W prints (strip_eol line) (out, s) = (Ret (Some True), (out', s'))"
        using step Some by (auto simp: catching_def seq_def WriteJsonLine_def split: prod.splits outcome.splits if_splits)
      then show ?thesis by (rule bridge_message)
    qed
  qed
qed

section \<open>An instance\<close>

text \<open>An offline start: the game is where the variable says, and the settings cannot be read.\<close>

definition demo_flags :: cli_flags where
  "demo_flags = \<lparr>cl_console = False, cl_offline = True, cl_host = False, cl_join = [], cl_devOverlay = False,
     cl_applyUpdate = False, cl_electronIpc = False, cl_headless = False\<rparr>"

definition demo_path :: path_env where
  "demo_path = \<lparr>pa_read = True, pa_write = True, pa_set = True\<rparr>"

definition demo_main :: "jval main_world" where
  "demo_main =
     \<lparr>mw_base = demo_world\<lparr>lw_env := (\<lambda>k. if k = ''STEAM_APP_PATH'' then Some ''G'' else None)\<rparr>,
      mw_update = demo_update, mw_disk = demo_disk, mw_module = Some ''I/Launcher.exe'', mw_search = demo_path,
      mw_path = demo_path, mw_pathError = False, mw_newer = True, mw_argv = [''Launcher.exe'', ''--offline''],
      mw_parse = (\<lambda>argv. if argv = [''Launcher.exe'', ''--offline''] then Inr demo_flags else Inl 109),
      mw_steam = None, mw_vdf = (\<lambda>_. Ret []), mw_input = [], mw_prints = (\<lambda>_. True), mw_window = id,
      mw_writable = False,
      mw_game = \<lparr>ge_event = True, ge_created = True, ge_error = 0, ge_duplicated = True, ge_copied = True\<rparr>\<rparr>"

definition demo_start :: main_state where
  "demo_start =
     \<lparr>ms_search = \<lparr>ds_path = Some ''C'', ds_dir = None, ds_default = False, ds_added = []\<rparr>,
      ms_file = \<lparr>cf_path = False, cf_readable = False, cf_writable = False, cf_text = None\<rparr>, ms_calls = [], ms_ucalls = [], ms_did = []\<rparr>"

lemma demo_search: "GetInstallRoot demo_disk (Some ''I/Launcher.exe'') MAX_PATH = Some ''I''"
  "UsesDllSubdirectory demo_disk (Some ''I/Launcher.exe'')"
  "GetPackageDllDirectory demo_disk (Some ''I/Launcher.exe'') MAX_PATH = Some (win ''I/dll'')"
  "ConfigureDllSearch demo_disk (Some ''I/Launcher.exe'') demo_path True (ms_search demo_start) =
     (Ret True, \<lparr>ds_path = Some (win ''I/dll;C''), ds_dir = Some (win ''I/dll''), ds_default = True,
        ds_added = [win ''I/dll'']\<rparr>)"
proof -
  show a: "GetInstallRoot demo_disk (Some ''I/Launcher.exe'') MAX_PATH = Some ''I''" by code_simp
  show "UsesDllSubdirectory demo_disk (Some ''I/Launcher.exe'')" by code_simp
  show "GetPackageDllDirectory demo_disk (Some ''I/Launcher.exe'') MAX_PATH = Some (win ''I/dll'')" by code_simp
  show "ConfigureDllSearch demo_disk (Some ''I/Launcher.exe'') demo_path True (ms_search demo_start) =
     (Ret True, \<lparr>ds_path = Some (win ''I/dll;C''), ds_dir = Some (win ''I/dll''), ds_default = True,
        ds_added = [win ''I/dll'']\<rparr>)"
    unfolding ConfigureDllSearch_def a
    by (simp add: demo_disk_def demo_path_def demo_start_def combine_def kDllDirName_def MAX_PATH_def DirExists_def
        is_directory_def PrependPath_def set_path_def add_user_dir_def kMaxEnv_def win_def)
qed

lemma demo_flag: "cl_offline demo_flags" "\<not> cl_applyUpdate demo_flags" "\<not> cl_console demo_flags"
  by (simp_all add: demo_flags_def)

lemma demo_main_parts: "mw_disk demo_main = demo_disk" "mw_module demo_main = Some ''I/Launcher.exe''"
  "mw_search demo_main = demo_path" "mw_path demo_main = demo_path" "mw_newer demo_main"
  "mw_game demo_main = \<lparr>ge_event = True, ge_created = True, ge_error = 0, ge_duplicated = True, ge_copied = True\<rparr>"
  "lw_env (mw_base demo_main) ''STEAM_APP_PATH'' = Some ''G''"
  by (simp_all add: demo_main_def)

lemma demo_found: "FindSF4 (mw_disk demo_main) (lw_env (mw_base demo_main)) steam vdf = Ret (Some (''G'', win ''G/SSFIV.exe''))"
  by (simp add: FindSF4_def FindSF4ByEnvironmentVariable_def demo_main_parts combine_def demo_disk_def szGameFilename_def
      path_exists_def win_def)

lemma demo_steps:
  "in_search (ConfigureDllSearch (mw_disk demo_main) (mw_module demo_main) (mw_search demo_main) (mw_newer demo_main))
     demo_start = (Ret True, demo_start\<lparr>ms_search := \<lparr>ds_path = Some (win ''I/dll;C''), ds_dir = Some (win ''I/dll''),
       ds_default = True, ds_added = [win ''I/dll'']\<rparr>\<rparr>)"
  "read_arguments demo_main s = (Ret (Inr demo_flags), s)"
  "ds_path (ms_search t) = Some (win ''I/dll;C'') \<Longrightarrow> in_search (UpdatePath (mw_path demo_main) (mw_pathError demo_main)
     (path_target (mw_disk demo_main) (mw_module demo_main))) t =
     (Ret (Inr ()), t\<lparr>ms_search := (ms_search t)\<lparr>ds_path := Some (win ''I/dll;I/dll;C'')\<rparr>\<rparr>)"
  "\<not> cf_path (ms_file u) \<Longrightarrow> in_file (result_of (filling default_settings (LoadPersistedSettings (mw_base demo_main)))) u =
     (Ret default_settings, u)"
  "choose_mode demo_main demo_flags p = ret (Inr (offline_config p (default_config\<lparr>nc_version := 0, nc_devOverlay := 0\<rparr>), 0))"
  "run_game demo_main demo_flags config 0 dir exe v = (Ret 0, v\<lparr>ms_did := ms_did v @
     [SetsVariable ''SteamAppId'' ''45760'', SetsVariable ''SteamGameId'' ''45760'',
      CreatesSuspended exe dir (sidecar_path demo_disk (Some ''I/Launcher.exe'')), CopiesPayload False config True, Resumes, WaitsForSync]\<rparr>)"
proof -
  show "read_arguments demo_main s = (Ret (Inr demo_flags), s)"
    by (simp add: read_arguments_def demo_main_def seq_def)
  show "in_search (ConfigureDllSearch (mw_disk demo_main) (mw_module demo_main) (mw_search demo_main) (mw_newer demo_main))
     demo_start = (Ret True, demo_start\<lparr>ms_search := \<lparr>ds_path = Some (win ''I/dll;C''), ds_dir = Some (win ''I/dll''),
       ds_default = True, ds_added = [win ''I/dll'']\<rparr>\<rparr>)"
    by (simp add: in_search_def on_def demo_search demo_main_parts)
  show "in_search (UpdatePath (mw_path demo_main) (mw_pathError demo_main)
     (path_target (mw_disk demo_main) (mw_module demo_main))) t =
     (Ret (Inr ()), t\<lparr>ms_search := (ms_search t)\<lparr>ds_path := Some (win ''I/dll;I/dll;C'')\<rparr>\<rparr>)"
    if "ds_path (ms_search t) = Some (win ''I/dll;C'')"
    using that by (simp add: in_search_def on_def demo_search demo_main_parts path_target_def UpdatePath_def demo_path_def
        kMaxEnv_def win_def)
  show "in_file (result_of (filling default_settings (LoadPersistedSettings (mw_base demo_main)))) u =
     (Ret default_settings, u)" if "\<not> cf_path (ms_file u)"
    using that by (simp add: in_file_def on_def LoadPersistedSettings_def runs)
  show "choose_mode demo_main demo_flags p = ret (Inr (offline_config p (default_config\<lparr>nc_version := 0, nc_devOverlay := 0\<rparr>), 0))"
    by (simp add: choose_mode_def demo_flags_def)
  show "run_game demo_main demo_flags config 0 dir exe v = (Ret 0, v\<lparr>ms_did := ms_did v @
     [SetsVariable ''SteamAppId'' ''45760'', SetsVariable ''SteamGameId'' ''45760'',
      CreatesSuspended exe dir (sidecar_path demo_disk (Some ''I/Launcher.exe'')), CopiesPayload False config True, Resumes, WaitsForSync]\<rparr>)"
    by (simp add: run_game_def CreateAppIDFile_def CreateSF4Process_def does_def demo_main_parts demo_flag Let_def
        path_exists_def demo_disk_def)
qed

definition demo_bridge :: "jval launcher_world" where
  "demo_bridge = demo_world\<lparr>lw_parse := (\<lambda>t. if t = ''m'' then Some (JObj [(''type'', JStr ''offlineStart''), (''v'', JInt 1)]) else None)\<rparr>"

lemma demo_bridge_parse: "lw_parse demo_bridge ''m'' = Some (JObj [(''type'', JStr ''offlineStart''), (''v'', JInt 1)])"
  by (simp add: demo_bridge_def)

lemma demo_bridge_state: "\<exists>reply log. BuildStateJson demo_bridge demo_launcher = (Ret reply, demo_launcher\<lparr>lc_calls := log\<rparr>)"
  by (simp add: BuildStateJson_def FetchBrokerHealth_def read_health_def no_health_def demo_bridge_def demo_run demo_json demo_launcher_def default_settings_def Let_def)

lemma demo_bridge_message: "\<exists>t. HandleWebMessage demo_bridge (JObj [(''type'', JStr ''offlineStart''), (''v'', JInt 1)]) (demo_launcher\<lparr>lc_calls := log\<rparr>) = (Ret NoReply, t) \<and>
   lc_finished t \<and> \<not> lc_cancelled t \<and> \<not> lc_exitForUpdate t"
  by (simp add: demo_bridge_def offline_start_def demo_start demo_env runs demo_texts demo_json NetplayConfigApplyGgpoDisconnectDefaults_def Let_def)

section \<open>Properties\<close>

text \<open>C13: When the launcher lets a game run, it has found the executable, made the process suspended, given it its payload
  and resumed it, in this order and once; what follows is only waiting for it and stopping the relay host.\<close>
theorem game_runs_with_payload:
  assumes "launcher_main M s = (Ret code, s')" "ms_did s = []" "Resumes \<in> set (ms_did s')"
  shows "\<exists>exe. path_exists (mw_disk M) exe \<and> game_calls exe (ms_did s') \<and> code = 0"
proof -
  have "list_all prepares (ms_did s)" by (simp add: assms(2))
  show ?thesis
  proof (rule idle_seq [OF assms(1) [unfolded launcher_main_def] leads_parts(1) \<open>list_all prepares (ms_did s)\<close>],
      erule (1) idle_seq [OF _ quiet_arguments])
    fix args s2
    assume s2: "list_all prepares (ms_did s2)" and args: "(case args of Inl code \<Rightarrow> ret code | Inr flags \<Rightarrow>
       seq (in_search (UpdatePath (mw_path M) (mw_pathError M) (path_target (mw_disk M) (mw_module M)))) (\<lambda>path.
         case path of
           Inl complaint \<Rightarrow> seq (case complaint of Some e \<Rightarrow> does (Shows e) | None \<Rightarrow> ret ()) (\<lambda>_. ret 1)
         | Inr _ \<Rightarrow> if cl_applyUpdate flags then apply_update_only M else launch_flow M flags)) s2 = (Ret code, s')"
    show ?thesis
    proof (cases args)
      case (Inl c)
      then show ?thesis using args assms(3) prepared_idle [OF s2] by simp
    next
      case (Inr flags)
      show ?thesis
      proof (rule idle_seq [OF args [unfolded Inr sum.case] leads_parts(1) s2])
        fix path s3
        assume s3: "list_all prepares (ms_did s3)" and path: "(case path of
           Inl complaint \<Rightarrow> seq (case complaint of Some e \<Rightarrow> does (Shows e) | None \<Rightarrow> ret ()) (\<lambda>_. ret 1)
         | Inr _ \<Rightarrow> if cl_applyUpdate flags then apply_update_only M else launch_flow M flags) s3 = (Ret code, s')"
        have updated: "Resumes \<notin> set (ms_did t)" if "apply_update_only M s3 = (r, t)" for r t
          using quiet_run [OF quiet_update that s3] by (rule prepared_idle)
        show ?thesis
          using path assms(3) launch_flow_log [OF _ s3] prepared_idle [OF s3]
          by (auto dest: updated split: sum.splits option.splits if_splits simp: does_def)
      qed
    qed
  qed
qed

theorem game_runs_with_payload_witness:
  "\<exists>s'. launcher_main demo_main demo_start = (Ret 0, s') \<and>
     (\<exists>exe. path_exists demo_disk exe \<and> game_calls exe (ms_did s'))"
proof -
  have main: "\<exists>s'. launcher_main demo_main demo_start = (Ret 0, s') \<and> Resumes \<in> set (ms_did s')"
    by (simp add: launcher_main_def launch_flow_def runs demo_steps demo_flag demo_found)
       (simp add: demo_start_def runs demo_steps)
  then show ?thesis using game_runs_with_payload [of demo_main demo_start 0] by (auto simp: demo_main_def demo_start_def)
qed

text \<open>C16: An offline start (--offline without --apply-update) sends no request and asks the update client nothing,
  whatever happens on the way: the only payload it hands the game has the idle mode, and it stops no relay host.\<close>
theorem offline_stays_local:
  assumes "mw_parse M (mw_argv M) = Inr flags" "cl_offline flags" "\<not> cl_applyUpdate flags"
    "launcher_main M s = (r, s')"
  shows "stays_local s s'"
proof -
  have args: "leads stays_local (seq (read_arguments M) (\<lambda>args. case args of Inl code \<Rightarrow> ret code | Inr flags \<Rightarrow> k flags))"
    if "\<And>flags. cl_offline flags \<Longrightarrow> \<not> cl_applyUpdate flags \<Longrightarrow> leads stays_local (k flags)" for k
    using that assms(1-3)
    by (cases "uri_code (tl (mw_argv M))")
       (auto simp: read_arguments_def seq_Pair offline.done_at_once split: option.split)
  have flow: "leads stays_local (if cl_applyUpdate f then apply_update_only M else launch_flow M f)"
    if "cl_offline f" "\<not> cl_applyUpdate f" for f
    using that by (simp add: local_flow)
  have "leads stays_local (launcher_main M)"
    unfolding launcher_main_def
    by (intro offline.in_turn [OF leads_local(2)] args leads_sum flow leads_cases offline_rules leads_local; simp)
  then show ?thesis using assms(4) by (rule leadsD)
qed

theorem offline_stays_local_witness:
  "stays_local demo_start (snd (launcher_main demo_main demo_start))"
  by (rule offline_stays_local [of demo_main demo_flags _ "fst (launcher_main demo_main demo_start)"])
     (simp_all add: demo_flag demo_main_def)

text \<open>C18: The bridge lets the launcher go on to start the game only behind a start that was finished, not cancelled and
  not left for an update, and the last line it prints says so.\<close>
theorem bridge_proceeds_when_finished:
  assumes "RunElectronIpcBridge W prints input ([], s) = (Ret True, (out, s'))"
  shows "lc_finished s' \<and> \<not> lc_cancelled s' \<and> \<not> lc_exitForUpdate s' \<and> out \<noteq> [] \<and> last out = IpcFinished False"
  using assms unfolding RunElectronIpcBridge_def by (elim seq_Ret) (metis bridge_loop prod.exhaust)

theorem bridge_proceeds_when_finished_witness:
  "\<exists>out s'. RunElectronIpcBridge demo_bridge (\<lambda>_. True) [''m''] ([], demo_launcher) = (Ret True, (out, s')) \<and>
     last out = IpcFinished False"
proof -
  obtain reply log where state: "BuildStateJson demo_bridge demo_launcher = (Ret reply, demo_launcher\<lparr>lc_calls := log\<rparr>)"
    using demo_bridge_state by blast
  obtain t where t: "HandleWebMessage demo_bridge (JObj [(''type'', JStr ''offlineStart''), (''v'', JInt 1)])
      (demo_launcher\<lparr>lc_calls := log\<rparr>) = (Ret NoReply, t)" "lc_finished t" "\<not> lc_cancelled t" "\<not> lc_exitForUpdate t"
    using demo_bridge_message by blast
  have "\<exists>out s'. RunElectronIpcBridge demo_bridge (\<lambda>_. True) [''m''] ([], demo_launcher) = (Ret True, (out, s'))"
    by (simp add: RunElectronIpcBridge_def ipc_message_def strip_eol_def WriteJsonLine_def runs state t or_throw_def
        demo_bridge_parse)
  then show ?thesis using bridge_proceeds_when_finished [of demo_bridge "\<lambda>_. True" "[''m'']" demo_launcher] by blast
qed

section \<open>What modelling showed\<close>

text \<open>
  The developer overlay asked for on the command line is lost in the two modes
  that fill in the configuration anew.
\<close>

lemma dev_overlay_lost:
  "ApplyNetplayConfigFromWizard W p mode code log = (Ret (complete, c, p'), log') \<Longrightarrow> nc_devOverlay c = 0"
  by (auto simp: ApplyNetplayConfigFromWizard_def cli_config_def base_config_def zero_config_def Let_def
      cli_join_room_def cli_join_address_def NetplayConfigApplyGgpoDisconnectDefaults_def elim!: seq_Ret
      split: if_splits option.splits prod.splits)

text \<open>A Steam installation with eight library folders writes past the end of the array of eight.\<close>

lemma library_overrun:
  assumes "length steam < 512" "combine D 1024 steam (win ''steamapps/libraryfolders.vdf'') = Some path"
    "vdf path = Ret folders" "8 \<le> length folders"
  shows "FindSF4ByEstimatedSteamPath D (Some steam) vdf = Aborts"
  using assms by (simp add: FindSF4ByEstimatedSteamPath_def steam_libraries_def)

text \<open>When the payload cannot be copied the launcher exits and leaves the suspended process behind.\<close>

lemma suspended_left_behind:
  assumes "ge_created E" "\<not> ge_copied E"
  shows "CreateSF4Process E config console dir exe dll s =
    (Ret (Inl 9008), s\<lparr>ms_did := ms_did s @ [CreatesSuspended exe dir dll, Shows PayloadFailed]\<rparr>)"
  using assms by (simp add: CreateSF4Process_def does_def)

text \<open>A room joined from the command line is joined at its host's address, without the room's own transport.\<close>

lemma cli_join_is_direct:
  "ApplyNetplayConfigFromWizard W p (mode_int NM_Join) code log = (Ret (complete, c, p'), log') \<Longrightarrow>
     nc_useCentralSession c = 0 \<and> nc_ggpoTransport c = 0 \<and> nc_relayRoomCode c = []"
  by (auto simp: ApplyNetplayConfigFromWizard_def cli_config_def base_config_def zero_config_def Let_def
      cli_join_room_def cli_join_address_def NetplayConfigApplyGgpoDisconnectDefaults_def elim!: seq_Ret
      split: if_splits option.splits prod.splits)

end
