(* ===== verification/Overlay_Prefs.thy ===== *)
theory Overlay_Prefs
  imports Launcher_Settings Overlay_Control
begin

text \<open>
  What the overlay remembers between runs (sf4e/sf4e__OverlayPrefs.cxx and the
  first part of sf4e/sf4e__Overlay.cxx): its statics and the debug switches of
  the other components are copied into a structure, clamped and written to
  overlay_prefs.json, and read back when the next process draws its first frame.
  The structure is a record of records, one for each group of its fields and
  section of the document. The game's table of editions is a parameter, None
  before it was located.
\<close>

section \<open>The structure\<close>

record chara_pick =
  ck_charaID :: "8 word"
  ck_costume :: "8 word"
  ck_color :: "8 word"
  ck_personalAction :: "8 word"
  ck_winQuote :: "8 word"
  ck_ultraCombo :: "8 word"
  ck_handicap :: "8 word"
  ck_edition :: "8 word"

record host_panel =
  hp_delay :: "8 word"
  hp_name :: string
  hp_port :: "16 word"
  hp_ggpoPort :: "16 word"
  hp_roundCountIdx :: int
  hp_roundTimeIdx :: int
  hp_editionSelect :: bool

record join_panel =
  jp_delay :: "8 word"
  jp_ggpoPort :: "16 word"
  jp_name :: string
  jp_addr :: string

record menu_prefs =
  mn_shouldJump :: bool
  mn_stageID :: int
  mn_p1 :: chara_pick
  mn_p2 :: chara_pick
  mn_roundCountIdx :: int
  mn_roundTimeIdx :: int
  mn_editionSelect :: bool

record window_flags =
  show_chara :: bool
  show_command :: bool
  show_demo :: bool
  show_event :: bool
  show_gfxapp :: bool
  show_help :: bool
  show_hud :: bool
  show_log :: bool
  show_main_menu :: bool
  show_memento :: bool
  show_network :: bool
  show_pad :: bool
  show_sound :: bool
  show_system :: bool
  show_task :: bool
  show_vfx :: bool
  show_vsbattle :: bool
  show_vscharaselect :: bool
  show_vsstageselect :: bool

record debug_prefs =
  db_verbose :: bool
  db_network :: bool
  db_trackSounds :: bool
  db_pureSounds :: bool
  db_soundDetails :: bool
  db_blockInit :: bool
  db_blockTerm :: bool
  db_forceOnline :: bool
  db_terminate :: bool
  db_overrideSeed :: bool
  db_seed :: "32 word"
  db_forceTimer :: bool
  db_randEvery :: int
  db_extraFrames :: int

record prefs =
  pf_lobby :: chara_pick
  pf_stageID :: int
  pf_host :: host_panel
  pf_join :: join_panel
  pf_menu :: menu_prefs
  pf_windows :: window_flags
  pf_debug :: debug_prefs
  pf_deviceIdx :: "8 word"
  pf_deviceType :: "8 word"

definition default_pick :: chara_pick where
  "default_pick = \<lparr>ck_charaID = 0, ck_costume = 0, ck_color = 0, ck_personalAction = 0, ck_winQuote = 0,
     ck_ultraCombo = 0, ck_handicap = 0, ck_edition = 14\<rparr>"

definition no_windows :: window_flags where
  "no_windows = \<lparr>show_chara = False, show_command = False, show_demo = False, show_event = False,
     show_gfxapp = False, show_help = False, show_hud = False, show_log = False, show_main_menu = False,
     show_memento = False, show_network = False, show_pad = False, show_sound = False, show_system = False,
     show_task = False, show_vfx = False, show_vsbattle = False, show_vscharaselect = False,
     show_vsstageselect = False\<rparr>"

definition default_prefs :: prefs where
  "default_prefs =
     \<lparr>pf_lobby = default_pick, pf_stageID = 0,
      pf_host = \<lparr>hp_delay = 1, hp_name = [], hp_port = 23456, hp_ggpoPort = 23457, hp_roundCountIdx = 1,
        hp_roundTimeIdx = 2, hp_editionSelect = True\<rparr>,
      pf_join = \<lparr>jp_delay = 1, jp_ggpoPort = 23456, jp_name = [], jp_addr = []\<rparr>,
      pf_menu = \<lparr>mn_shouldJump = False, mn_stageID = 0, mn_p1 = default_pick, mn_p2 = default_pick,
        mn_roundCountIdx = 1, mn_roundTimeIdx = 2, mn_editionSelect = True\<rparr>,
      pf_windows = no_windows,
      pf_debug = \<lparr>db_verbose = False, db_network = False, db_trackSounds = False, db_pureSounds = True,
        db_soundDetails = False, db_blockInit = False, db_blockTerm = False, db_forceOnline = False,
        db_terminate = False, db_overrideSeed = False, db_seed = 0, db_forceTimer = False, db_randEvery = 0,
        db_extraFrames = 1\<rparr>,
      pf_deviceIdx = 0xff, pf_deviceType = 0xff\<rparr>"

text \<open>From the conditions the game confirms and back; the unused byte is dropped and zeroed.\<close>

definition FromConfirmed :: "chara_conditions \<Rightarrow> chara_pick" where
  "FromConfirmed c = \<lparr>ck_charaID = charaID c, ck_costume = costume c, ck_color = color c,
     ck_personalAction = personalAction c, ck_winQuote = winQuote c, ck_ultraCombo = ultraCombo c,
     ck_handicap = handicap c, ck_edition = unc_edition c\<rparr>"

definition ToConfirmed :: "chara_pick \<Rightarrow> chara_conditions" where
  "ToConfirmed c = \<lparr>charaID = ck_charaID c, costume = ck_costume c, color = ck_color c, unused_byte = 0,
     personalAction = ck_personalAction c, winQuote = ck_winQuote c, ultraCombo = ck_ultraCombo c,
     handicap = ck_handicap c, unc_edition = ck_edition c\<rparr>"

section \<open>Clamping\<close>

type_synonym edition_table = "(8 word \<Rightarrow> nat \<Rightarrow> bool) option"

definition NUM_VALID_EDITIONS :: nat where "NUM_VALID_EDITIONS = 7"

text \<open>SF4, SSF4, AE2011, none, AE2012, USF4, OMEGA.\<close>

definition orderedEditions :: "int list" where
  "orderedEditions = [13, 1, 2, 0, 4, 14, 16]"

definition edition_ok :: "edition_table \<Rightarrow> chara_pick \<Rightarrow> bool" where
  "edition_ok T c \<longleftrightarrow> (case T of None \<Rightarrow> False
     | Some valid \<Rightarrow> list_ex (\<lambda>i. valid (ck_charaID c) i \<and> orderedEditions ! i = uint (ck_edition c)) [0..<NUM_VALID_EDITIONS])"

text \<open>The oldest edition the character has, or Ultra.\<close>

definition first_edition :: "edition_table \<Rightarrow> 8 word \<Rightarrow> 8 word" where
  "first_edition T chara = (case T of None \<Rightarrow> 14
     | Some valid \<Rightarrow> (case find (valid chara) [0..<NUM_VALID_EDITIONS] of
                        None \<Rightarrow> 14 | Some i \<Rightarrow> word_of_int (orderedEditions ! i)))"

definition ClampChara :: "edition_table \<Rightarrow> chara_pick \<Rightarrow> chara_pick" where
  "ClampChara T c0 =
     (let c = (if ck_charaID c0 \<ge> 0x2c then c0\<lparr>ck_charaID := 0\<rparr> else c0)
      in if edition_ok T c then c else c\<lparr>ck_edition := first_edition T (ck_charaID c)\<rparr>)"

text \<open>An index outside its table becomes the table's default.\<close>

definition in_table :: "int \<Rightarrow> int \<Rightarrow> int \<Rightarrow> int" where
  "in_table n d i = (if i < 0 \<or> i \<ge> n then d else i)"

definition Clamp :: "edition_table \<Rightarrow> prefs \<Rightarrow> prefs" where
  "Clamp T d = d
     \<lparr>pf_lobby := ClampChara T (pf_lobby d),
      pf_stageID := in_table 30 0 (pf_stageID d),
      pf_host := (pf_host d)\<lparr>hp_roundCountIdx := in_table 4 1 (hp_roundCountIdx (pf_host d)),
                             hp_roundTimeIdx := in_table 3 2 (hp_roundTimeIdx (pf_host d))\<rparr>,
      pf_menu := (pf_menu d)\<lparr>mn_p1 := ClampChara T (mn_p1 (pf_menu d)), mn_p2 := ClampChara T (mn_p2 (pf_menu d)),
                             mn_stageID := in_table 30 0 (mn_stageID (pf_menu d)),
                             mn_roundCountIdx := in_table 4 1 (mn_roundCountIdx (pf_menu d)),
                             mn_roundTimeIdx := in_table 3 2 (mn_roundTimeIdx (pf_menu d))\<rparr>,
      pf_debug := (pf_debug d)\<lparr>db_extraFrames := (if db_extraFrames (pf_debug d) < 1 then 1
                                                   else db_extraFrames (pf_debug d))\<rparr>\<rparr>"

section \<open>Writing the document\<close>

definition CharaToJson :: "'j json_ops \<Rightarrow> chara_pick \<Rightarrow> 'j" where
  "CharaToJson J c = mk_obj J
     [(''charaID'', mk_word J (ck_charaID c)), (''costume'', mk_word J (ck_costume c)),
      (''color'', mk_word J (ck_color c)), (''personalAction'', mk_word J (ck_personalAction c)),
      (''winQuote'', mk_word J (ck_winQuote c)), (''ultraCombo'', mk_word J (ck_ultraCombo c)),
      (''handicap'', mk_word J (ck_handicap c)), (''unc_edition'', mk_word J (ck_edition c))]"

definition host_json :: "'j json_ops \<Rightarrow> host_panel \<Rightarrow> 'j" where
  "host_json J h = mk_obj J
     [(''delay'', mk_word J (hp_delay h)), (''name'', mk_str J (hp_name h)), (''hostPort'', mk_word J (hp_port h)),
      (''ggpoPort'', mk_word J (hp_ggpoPort h)), (''roundCountIdx'', mk_int J (hp_roundCountIdx h)),
      (''roundTimeIdx'', mk_int J (hp_roundTimeIdx h)), (''editionSelect'', mk_bool J (hp_editionSelect h))]"

definition join_json :: "'j json_ops \<Rightarrow> join_panel \<Rightarrow> 'j" where
  "join_json J p = mk_obj J
     [(''delay'', mk_word J (jp_delay p)), (''ggpoPort'', mk_word J (jp_ggpoPort p)),
      (''name'', mk_str J (jp_name p)), (''joinAddr'', mk_str J (jp_addr p))]"

definition menu_json :: "'j json_ops \<Rightarrow> menu_prefs \<Rightarrow> 'j" where
  "menu_json J m = mk_obj J
     [(''shouldJump'', mk_bool J (mn_shouldJump m)), (''stageID'', mk_int J (mn_stageID m)),
      (''roundCountIdx'', mk_int J (mn_roundCountIdx m)), (''roundTimeIdx'', mk_int J (mn_roundTimeIdx m)),
      (''editionSelect'', mk_bool J (mn_editionSelect m)), (''p1'', CharaToJson J (mn_p1 m)),
      (''p2'', CharaToJson J (mn_p2 m))]"

definition windows_json :: "'j json_ops \<Rightarrow> window_flags \<Rightarrow> 'j" where
  "windows_json J w = mk_obj J
     [(''chara'', mk_bool J (show_chara w)), (''command'', mk_bool J (show_command w)),
      (''demo'', mk_bool J (show_demo w)), (''event'', mk_bool J (show_event w)),
      (''gfxapp'', mk_bool J (show_gfxapp w)), (''help'', mk_bool J (show_help w)),
      (''hud'', mk_bool J (show_hud w)), (''log'', mk_bool J (show_log w)),
      (''mainMenu'', mk_bool J (show_main_menu w)), (''memento'', mk_bool J (show_memento w)),
      (''network'', mk_bool J (show_network w)), (''pad'', mk_bool J (show_pad w)),
      (''sound'', mk_bool J (show_sound w)), (''system'', mk_bool J (show_system w)),
      (''task'', mk_bool J (show_task w)), (''vfx'', mk_bool J (show_vfx w)),
      (''vsbattle'', mk_bool J (show_vsbattle w)), (''vscharaselect'', mk_bool J (show_vscharaselect w)),
      (''vsstageselect'', mk_bool J (show_vsstageselect w))]"

definition debug_json :: "'j json_ops \<Rightarrow> debug_prefs \<Rightarrow> 'j" where
  "debug_json J d = mk_obj J
     [(''verboseLogging'', mk_bool J (db_verbose d)), (''networkDebug'', mk_bool J (db_network d)),
      (''trackSoundRequests'', mk_bool J (db_trackSounds d)), (''usePureSounds'', mk_bool J (db_pureSounds d)),
      (''soundShowDetails'', mk_bool J (db_soundDetails d)), (''blockBattleInit'', mk_bool J (db_blockInit d)),
      (''blockBattleTermination'', mk_bool J (db_blockTerm d)),
      (''forceNextMatchOnline'', mk_bool J (db_forceOnline d)),
      (''terminateOnNextLeftBattle'', mk_bool J (db_terminate d)),
      (''overrideNextRandomSeed'', mk_bool J (db_overrideSeed d)),
      (''nextMatchRandomSeed'', mk_word J (db_seed d)),
      (''forceTimerOnNextStageSelect'', mk_bool J (db_forceTimer d)),
      (''randomizeLocalInputsEveryXFrames'', mk_int J (db_randEvery d)),
      (''extraFramesToSimulate'', mk_int J (db_extraFrames d))]"

definition prefs_json :: "'j json_ops \<Rightarrow> prefs \<Rightarrow> 'j" where
  "prefs_json J d = mk_obj J
     [(''lobby'', CharaToJson J (pf_lobby d)), (''stageID'', mk_int J (pf_stageID d)),
      (''host'', host_json J (pf_host d)), (''join'', join_json J (pf_join d)),
      (''mainMenu'', menu_json J (pf_menu d)), (''windows'', windows_json J (pf_windows d)),
      (''debug'', debug_json J (pf_debug d)),
      (''device'', mk_obj J [(''idx'', mk_word J (pf_deviceIdx d)), (''type'', mk_word J (pf_deviceType d))])]"

text \<open>The stream empties the file when it opens it, before the document is printed.\<close>

definition SavePrefs :: "'j launcher_world \<Rightarrow> edition_table \<Rightarrow> prefs \<Rightarrow> (config_file, bool) act" where
  "SavePrefs W T d = seq (reads id) (\<lambda>f.
     if \<not> cf_path f then ret False
     else if \<not> cf_writable f then ret False
     else
       seq (update (cf_text_update (\<lambda>_. Some []))) (\<lambda>_.
       seq (lift (or_throw (lw_pretty W (prefs_json (lw_json W) (Clamp T d))))) (\<lambda>text.
       seq (update (cf_text_update (\<lambda>_. Some text))) (\<lambda>_. ret True))))"

section \<open>Reading the document\<close>

text \<open>A field read with its present value as default: \<open>x = j.value(k, x)\<close>. What was
  read before an exception stays.\<close>

type_synonym 'r reading = "('r \<times> config_file, unit) act"

definition take_int :: "'j launcher_world \<Rightarrow> 'j \<Rightarrow> string \<Rightarrow> ('r \<Rightarrow> int) \<Rightarrow> (int \<Rightarrow> 'r \<Rightarrow> 'r) \<Rightarrow> 'r reading" where
  "take_int W j k get put = seq (reads (get \<circ> fst)) (\<lambda>d. seq (value_int W j k d) (\<lambda>v. fill (put v)))"

definition take_word :: "'j launcher_world \<Rightarrow> 'j \<Rightarrow> string \<Rightarrow> ('r \<Rightarrow> 'a::len word) \<Rightarrow> ('a word \<Rightarrow> 'r \<Rightarrow> 'r) \<Rightarrow> 'r reading" where
  "take_word W j k get put = take_int W j k (\<lambda>r. uint (get r)) (\<lambda>v. put (word_of_int v))"

definition take_bool :: "'j launcher_world \<Rightarrow> 'j \<Rightarrow> string \<Rightarrow> ('r \<Rightarrow> bool) \<Rightarrow> (bool \<Rightarrow> 'r \<Rightarrow> 'r) \<Rightarrow> 'r reading" where
  "take_bool W j k get put = seq (reads (get \<circ> fst)) (\<lambda>d. seq (value_bool W j k d) (\<lambda>v. fill (put v)))"

definition take_str :: "'j launcher_world \<Rightarrow> 'j \<Rightarrow> string \<Rightarrow> nat \<Rightarrow> ('r \<Rightarrow> string) \<Rightarrow> (string \<Rightarrow> 'r \<Rightarrow> 'r) \<Rightarrow> 'r reading" where
  "take_str W j k n get put =
     seq (reads (get \<circ> fst)) (\<lambda>d. seq (value_str W j k d) (\<lambda>v.
       fill (put (copy_trunc n (takeWhile (\<lambda>c. c \<noteq> CHR 0x00) v)))))"

definition take_seed :: "'j launcher_world \<Rightarrow> 'j \<Rightarrow> debug_prefs reading" where
  "take_seed W j = seq (reads (db_seed \<circ> fst)) (\<lambda>d.
     seq (lift (or_throw (field_default (lw_json W) j ''nextMatchRandomSeed'' (j_word (lw_json W)) d))) (\<lambda>v.
     fill (db_seed_update (\<lambda>_. v))))"

text \<open>Reading into a part of the structure, and a section of the document when it is there.\<close>

definition part :: "('r \<Rightarrow> 'p) \<Rightarrow> ('p \<Rightarrow> 'r \<Rightarrow> 'r) \<Rightarrow> 'p reading \<Rightarrow> 'r reading" where
  "part get put f = on (\<lambda>(r, s). (get r, s)) (\<lambda>(p, s) (r, _). (put p r, s)) f"

definition section_of :: "'j json_ops \<Rightarrow> 'j \<Rightarrow> string \<Rightarrow> ('j \<Rightarrow> 'r reading) \<Rightarrow> 'r reading" where
  "section_of J j k f = (case j_at J j k of None \<Rightarrow> ret () | Some h \<Rightarrow> if j_is_obj J h then f h else ret ())"

definition CharaFromJson :: "'j launcher_world \<Rightarrow> 'j \<Rightarrow> chara_pick reading" where
  "CharaFromJson W j =
     (if \<not> j_is_obj (lw_json W) j then ret ()
      else seq (take_word W j ''charaID'' ck_charaID (\<lambda>v. ck_charaID_update (\<lambda>_. v))) (\<lambda>_.
           seq (take_word W j ''costume'' ck_costume (\<lambda>v. ck_costume_update (\<lambda>_. v))) (\<lambda>_.
           seq (take_word W j ''color'' ck_color (\<lambda>v. ck_color_update (\<lambda>_. v))) (\<lambda>_.
           seq (take_word W j ''personalAction'' ck_personalAction (\<lambda>v. ck_personalAction_update (\<lambda>_. v))) (\<lambda>_.
           seq (take_word W j ''winQuote'' ck_winQuote (\<lambda>v. ck_winQuote_update (\<lambda>_. v))) (\<lambda>_.
           seq (take_word W j ''ultraCombo'' ck_ultraCombo (\<lambda>v. ck_ultraCombo_update (\<lambda>_. v))) (\<lambda>_.
           seq (take_word W j ''handicap'' ck_handicap (\<lambda>v. ck_handicap_update (\<lambda>_. v))) (\<lambda>_.
           take_word W j ''unc_edition'' ck_edition (\<lambda>v. ck_edition_update (\<lambda>_. v))))))))))"

text \<open>A character under a key: any value is passed on, and one that is no object is ignored.\<close>

definition chara_at :: "'j launcher_world \<Rightarrow> 'j \<Rightarrow> string \<Rightarrow> chara_pick reading" where
  "chara_at W j k = (case j_at (lw_json W) j k of None \<Rightarrow> ret () | Some c \<Rightarrow> CharaFromJson W c)"

definition read_host :: "'j launcher_world \<Rightarrow> 'j \<Rightarrow> host_panel reading" where
  "read_host W h =
     seq (take_word W h ''delay'' hp_delay (\<lambda>v. hp_delay_update (\<lambda>_. v))) (\<lambda>_.
     seq (take_str W h ''name'' 32 hp_name (\<lambda>v. hp_name_update (\<lambda>_. v))) (\<lambda>_.
     seq (take_word W h ''hostPort'' hp_port (\<lambda>v. hp_port_update (\<lambda>_. v))) (\<lambda>_.
     seq (take_word W h ''ggpoPort'' hp_ggpoPort (\<lambda>v. hp_ggpoPort_update (\<lambda>_. v))) (\<lambda>_.
     seq (take_int W h ''roundCountIdx'' hp_roundCountIdx (\<lambda>v. hp_roundCountIdx_update (\<lambda>_. v))) (\<lambda>_.
     seq (take_int W h ''roundTimeIdx'' hp_roundTimeIdx (\<lambda>v. hp_roundTimeIdx_update (\<lambda>_. v))) (\<lambda>_.
     take_bool W h ''editionSelect'' hp_editionSelect (\<lambda>v. hp_editionSelect_update (\<lambda>_. v))))))))"

definition read_join :: "'j launcher_world \<Rightarrow> 'j \<Rightarrow> join_panel reading" where
  "read_join W h =
     seq (take_word W h ''delay'' jp_delay (\<lambda>v. jp_delay_update (\<lambda>_. v))) (\<lambda>_.
     seq (take_word W h ''ggpoPort'' jp_ggpoPort (\<lambda>v. jp_ggpoPort_update (\<lambda>_. v))) (\<lambda>_.
     seq (take_str W h ''name'' 32 jp_name (\<lambda>v. jp_name_update (\<lambda>_. v))) (\<lambda>_.
     take_str W h ''joinAddr'' 64 jp_addr (\<lambda>v. jp_addr_update (\<lambda>_. v)))))"

definition read_menu :: "'j launcher_world \<Rightarrow> 'j \<Rightarrow> menu_prefs reading" where
  "read_menu W m =
     seq (take_bool W m ''shouldJump'' mn_shouldJump (\<lambda>v. mn_shouldJump_update (\<lambda>_. v))) (\<lambda>_.
     seq (take_int W m ''stageID'' mn_stageID (\<lambda>v. mn_stageID_update (\<lambda>_. v))) (\<lambda>_.
     seq (take_int W m ''roundCountIdx'' mn_roundCountIdx (\<lambda>v. mn_roundCountIdx_update (\<lambda>_. v))) (\<lambda>_.
     seq (take_int W m ''roundTimeIdx'' mn_roundTimeIdx (\<lambda>v. mn_roundTimeIdx_update (\<lambda>_. v))) (\<lambda>_.
     seq (take_bool W m ''editionSelect'' mn_editionSelect (\<lambda>v. mn_editionSelect_update (\<lambda>_. v))) (\<lambda>_.
     seq (part mn_p1 (\<lambda>p. mn_p1_update (\<lambda>_. p)) (chara_at W m ''p1'')) (\<lambda>_.
     part mn_p2 (\<lambda>p. mn_p2_update (\<lambda>_. p)) (chara_at W m ''p2'')))))))"

definition read_windows :: "'j launcher_world \<Rightarrow> 'j \<Rightarrow> window_flags reading" where
  "read_windows W w =
     seq (take_bool W w ''chara'' show_chara (\<lambda>v. show_chara_update (\<lambda>_. v))) (\<lambda>_.
     seq (take_bool W w ''command'' show_command (\<lambda>v. show_command_update (\<lambda>_. v))) (\<lambda>_.
     seq (take_bool W w ''demo'' show_demo (\<lambda>v. show_demo_update (\<lambda>_. v))) (\<lambda>_.
     seq (take_bool W w ''event'' show_event (\<lambda>v. show_event_update (\<lambda>_. v))) (\<lambda>_.
     seq (take_bool W w ''gfxapp'' show_gfxapp (\<lambda>v. show_gfxapp_update (\<lambda>_. v))) (\<lambda>_.
     seq (take_bool W w ''help'' show_help (\<lambda>v. show_help_update (\<lambda>_. v))) (\<lambda>_.
     seq (take_bool W w ''hud'' show_hud (\<lambda>v. show_hud_update (\<lambda>_. v))) (\<lambda>_.
     seq (take_bool W w ''log'' show_log (\<lambda>v. show_log_update (\<lambda>_. v))) (\<lambda>_.
     seq (take_bool W w ''mainMenu'' show_main_menu (\<lambda>v. show_main_menu_update (\<lambda>_. v))) (\<lambda>_.
     seq (take_bool W w ''memento'' show_memento (\<lambda>v. show_memento_update (\<lambda>_. v))) (\<lambda>_.
     seq (take_bool W w ''network'' show_network (\<lambda>v. show_network_update (\<lambda>_. v))) (\<lambda>_.
     seq (take_bool W w ''pad'' show_pad (\<lambda>v. show_pad_update (\<lambda>_. v))) (\<lambda>_.
     seq (take_bool W w ''sound'' show_sound (\<lambda>v. show_sound_update (\<lambda>_. v))) (\<lambda>_.
     seq (take_bool W w ''system'' show_system (\<lambda>v. show_system_update (\<lambda>_. v))) (\<lambda>_.
     seq (take_bool W w ''task'' show_task (\<lambda>v. show_task_update (\<lambda>_. v))) (\<lambda>_.
     seq (take_bool W w ''vfx'' show_vfx (\<lambda>v. show_vfx_update (\<lambda>_. v))) (\<lambda>_.
     seq (take_bool W w ''vsbattle'' show_vsbattle (\<lambda>v. show_vsbattle_update (\<lambda>_. v))) (\<lambda>_.
     seq (take_bool W w ''vscharaselect'' show_vscharaselect (\<lambda>v. show_vscharaselect_update (\<lambda>_. v))) (\<lambda>_.
     take_bool W w ''vsstageselect'' show_vsstageselect (\<lambda>v. show_vsstageselect_update (\<lambda>_. v))))))))))))))))))))"

definition read_debug :: "'j launcher_world \<Rightarrow> 'j \<Rightarrow> debug_prefs reading" where
  "read_debug W d =
     seq (take_bool W d ''verboseLogging'' db_verbose (\<lambda>v. db_verbose_update (\<lambda>_. v))) (\<lambda>_.
     seq (take_bool W d ''networkDebug'' db_network (\<lambda>v. db_network_update (\<lambda>_. v))) (\<lambda>_.
     seq (take_bool W d ''trackSoundRequests'' db_trackSounds (\<lambda>v. db_trackSounds_update (\<lambda>_. v))) (\<lambda>_.
     seq (take_bool W d ''usePureSounds'' db_pureSounds (\<lambda>v. db_pureSounds_update (\<lambda>_. v))) (\<lambda>_.
     seq (take_bool W d ''soundShowDetails'' db_soundDetails (\<lambda>v. db_soundDetails_update (\<lambda>_. v))) (\<lambda>_.
     seq (take_bool W d ''blockBattleInit'' db_blockInit (\<lambda>v. db_blockInit_update (\<lambda>_. v))) (\<lambda>_.
     seq (take_bool W d ''blockBattleTermination'' db_blockTerm (\<lambda>v. db_blockTerm_update (\<lambda>_. v))) (\<lambda>_.
     seq (take_bool W d ''forceNextMatchOnline'' db_forceOnline (\<lambda>v. db_forceOnline_update (\<lambda>_. v))) (\<lambda>_.
     seq (take_bool W d ''terminateOnNextLeftBattle'' db_terminate (\<lambda>v. db_terminate_update (\<lambda>_. v))) (\<lambda>_.
     seq (take_bool W d ''overrideNextRandomSeed'' db_overrideSeed (\<lambda>v. db_overrideSeed_update (\<lambda>_. v))) (\<lambda>_.
     seq (take_seed W d) (\<lambda>_.
     seq (take_bool W d ''forceTimerOnNextStageSelect'' db_forceTimer (\<lambda>v. db_forceTimer_update (\<lambda>_. v))) (\<lambda>_.
     seq (take_int W d ''randomizeLocalInputsEveryXFrames'' db_randEvery (\<lambda>v. db_randEvery_update (\<lambda>_. v))) (\<lambda>_.
     take_int W d ''extraFramesToSimulate'' db_extraFrames (\<lambda>v. db_extraFrames_update (\<lambda>_. v)))))))))))))))"

definition read_device :: "'j launcher_world \<Rightarrow> 'j \<Rightarrow> prefs reading" where
  "read_device W d =
     seq (take_word W d ''idx'' pf_deviceIdx (\<lambda>v. pf_deviceIdx_update (\<lambda>_. v))) (\<lambda>_.
     take_word W d ''type'' pf_deviceType (\<lambda>v. pf_deviceType_update (\<lambda>_. v)))"

definition read_prefs :: "'j launcher_world \<Rightarrow> 'j \<Rightarrow> prefs reading" where
  "read_prefs W j = (let J = lw_json W in
     seq (part pf_lobby (\<lambda>p. pf_lobby_update (\<lambda>_. p)) (chara_at W j ''lobby'')) (\<lambda>_.
     seq (take_int W j ''stageID'' pf_stageID (\<lambda>v. pf_stageID_update (\<lambda>_. v))) (\<lambda>_.
     seq (section_of J j ''host'' (part pf_host (\<lambda>p. pf_host_update (\<lambda>_. p)) \<circ> read_host W)) (\<lambda>_.
     seq (section_of J j ''join'' (part pf_join (\<lambda>p. pf_join_update (\<lambda>_. p)) \<circ> read_join W)) (\<lambda>_.
     seq (section_of J j ''mainMenu'' (part pf_menu (\<lambda>p. pf_menu_update (\<lambda>_. p)) \<circ> read_menu W)) (\<lambda>_.
     seq (section_of J j ''windows'' (part pf_windows (\<lambda>p. pf_windows_update (\<lambda>_. p)) \<circ> read_windows W)) (\<lambda>_.
     seq (section_of J j ''debug'' (part pf_debug (\<lambda>p. pf_debug_update (\<lambda>_. p)) \<circ> read_debug W)) (\<lambda>_.
     section_of J j ''device'' (read_device W)))))))))"

definition LoadPrefs :: "'j launcher_world \<Rightarrow> edition_table \<Rightarrow> (prefs \<times> config_file, bool) act" where
  "LoadPrefs W T = seq (reads snd) (\<lambda>f.
     if \<not> cf_path f then ret False
     else if \<not> cf_readable f then ret False
     else case cf_text f of
            None \<Rightarrow> ret False
          | Some text \<Rightarrow>
              catching
                (seq (lift (or_throw (lw_parse W text))) (\<lambda>j.
                 if \<not> j_is_obj (lw_json W) j then ret False
                 else seq (read_prefs W j) (\<lambda>_. seq (fill (Clamp T)) (\<lambda>_. ret True))))
                (ret False))"

section \<open>The overlay\<close>

text \<open>The statics of the overlay that are remembered, and the switches of components
  whose other state is not in \<open>app\<close>; the switches of the battle system and the VsBattle
  event are in \<open>app\<close>.\<close>

record overlay =
  ov_lobby :: chara_conditions
  ov_stageID :: int
  ov_menuCharaID :: int
  ov_host :: host_panel
  ov_join :: join_panel
  ov_shouldJump :: bool
  ov_jumpStageID :: int
  ov_jumpCharas :: "chara_conditions duo"
  ov_jumpIDs :: "int duo"
  ov_roundCountIdx :: int
  ov_roundTimeIdx :: int
  ov_editionSelect :: bool
  ov_windows :: window_flags
  ov_verbose :: bool
  ov_netDebug :: bool
  ov_trackSounds :: bool
  ov_soundDetails :: bool
  ov_forceTimer :: bool
  ov_extraFrames :: int
  ov_deviceIdx :: "8 word"
  ov_deviceType :: "8 word"

definition overlay_static :: overlay where
  "overlay_static =
     \<lparr>ov_lobby = zero_chara\<lparr>unc_edition := 14\<rparr>, ov_stageID = 0, ov_menuCharaID = 0,
      ov_host = pf_host default_prefs, ov_join = pf_join default_prefs, ov_shouldJump = False, ov_jumpStageID = 0,
      ov_jumpCharas = (zero_chara\<lparr>unc_edition := 14\<rparr>, zero_chara\<lparr>unc_edition := 14\<rparr>), ov_jumpIDs = (0, 0),
      ov_roundCountIdx = 1, ov_roundTimeIdx = 2, ov_editionSelect = True, ov_windows = no_windows,
      ov_verbose = False, ov_netDebug = False, ov_trackSounds = False, ov_soundDetails = False,
      ov_forceTimer = False, ov_extraFrames = 1, ov_deviceIdx = 0xff, ov_deviceType = 0xff\<rparr>"

definition CaptureOverlayPrefs :: "overlay \<times> app \<Rightarrow> prefs" where
  "CaptureOverlayPrefs = (\<lambda>(v, s).
     \<lparr>pf_lobby = FromConfirmed (ov_lobby v), pf_stageID = ov_stageID v,
      pf_host = (ov_host v)\<lparr>hp_name := copy_trunc 32 (hp_name (ov_host v))\<rparr>,
      pf_join = (ov_join v)\<lparr>jp_name := copy_trunc 32 (jp_name (ov_join v)), jp_addr := copy_trunc 64 (jp_addr (ov_join v))\<rparr>,
      pf_menu = \<lparr>mn_shouldJump = ov_shouldJump v, mn_stageID = ov_jumpStageID v,
        mn_p1 = FromConfirmed (fst (ov_jumpCharas v)), mn_p2 = FromConfirmed (snd (ov_jumpCharas v)),
        mn_roundCountIdx = ov_roundCountIdx v, mn_roundTimeIdx = ov_roundTimeIdx v,
        mn_editionSelect = ov_editionSelect v\<rparr>,
      pf_windows = ov_windows v,
      pf_debug = \<lparr>db_verbose = ov_verbose v, db_network = ov_netDebug v, db_trackSounds = ov_trackSounds v,
        db_pureSounds = pureSounds s, db_soundDetails = ov_soundDetails v, db_blockInit = vsBlockInit s,
        db_blockTerm = vsBlockTerm s, db_forceOnline = vsForceOnline s, db_terminate = vsTerminate s,
        db_overrideSeed = vsOverrideSeed s, db_seed = vsSeed s, db_forceTimer = ov_forceTimer v,
        db_randEvery = randEvery s, db_extraFrames = ov_extraFrames v\<rparr>,
      pf_deviceIdx = ov_deviceIdx v, pf_deviceType = ov_deviceType v\<rparr>)"

definition ApplyOverlayPrefs :: "prefs \<Rightarrow> overlay \<times> app \<Rightarrow> overlay \<times> app" where
  "ApplyOverlayPrefs d = (\<lambda>(v, s).
     (let l = ToConfirmed (pf_lobby d); m = pf_menu d; p1 = ToConfirmed (mn_p1 m); p2 = ToConfirmed (mn_p2 m); b = pf_debug d in
      (v\<lparr>ov_lobby := l, ov_stageID := pf_stageID d, ov_menuCharaID := uint (charaID l),
         ov_host := (pf_host d)\<lparr>hp_name := copy_trunc 32 (hp_name (pf_host d))\<rparr>,
         ov_join := (pf_join d)\<lparr>jp_name := copy_trunc 32 (jp_name (pf_join d)), jp_addr := copy_trunc 64 (jp_addr (pf_join d))\<rparr>,
         ov_shouldJump := mn_shouldJump m, ov_jumpStageID := mn_stageID m, ov_jumpCharas := (p1, p2),
         ov_jumpIDs := (uint (charaID p1), uint (charaID p2)), ov_roundCountIdx := mn_roundCountIdx m,
         ov_roundTimeIdx := mn_roundTimeIdx m, ov_editionSelect := mn_editionSelect m, ov_windows := pf_windows d,
         ov_verbose := db_verbose b, ov_netDebug := db_network b, ov_trackSounds := db_trackSounds b,
         ov_soundDetails := db_soundDetails b, ov_forceTimer := db_forceTimer b, ov_extraFrames := db_extraFrames b,
         ov_deviceIdx := pf_deviceIdx d, ov_deviceType := pf_deviceType d\<rparr>,
       s\<lparr>pureSounds := db_pureSounds b, vsBlockInit := db_blockInit b, vsBlockTerm := db_blockTerm b,
         vsForceOnline := db_forceOnline b, vsTerminate := db_terminate b, vsOverrideSeed := db_overrideSeed b,
         vsSeed := db_seed b, randEvery := db_randEvery b\<rparr>)))"

definition PersistOverlayPrefsNow :: "'j launcher_world \<Rightarrow> edition_table \<Rightarrow> overlay \<times> app \<Rightarrow> (config_file, unit) act" where
  "PersistOverlayPrefsNow W T v = seq (SavePrefs W T (CaptureOverlayPrefs v)) (\<lambda>_. ret ())"

text \<open>Every frame: the structure last written is kept, None before the first. The
  structures are compared by their fields; the code compares their bytes.\<close>

definition MaybePersistOverlayPrefs :: "'j launcher_world \<Rightarrow> edition_table \<Rightarrow> overlay \<times> app \<Rightarrow>
    (prefs option \<times> config_file, unit) act" where
  "MaybePersistOverlayPrefs W T v =
     (let current = Clamp T (CaptureOverlayPrefs v) in
      seq (reads fst) (\<lambda>last.
      if last = Some current then ret ()
      else seq (outside (SavePrefs W T current)) (\<lambda>saved.
           if saved then fill (\<lambda>_. Some current) else ret ())))"

text \<open>The preferences' part of \<open>InitializeOverlay\<close>.\<close>

definition InitializeOverlay_prefs :: "'j launcher_world \<Rightarrow> edition_table \<Rightarrow> ((overlay \<times> app) \<times> config_file, unit) act" where
  "InitializeOverlay_prefs W T =
     seq (outside (filling default_prefs (LoadPrefs W T))) (\<lambda>(loaded, d).
     if loaded then fill (ApplyOverlayPrefs d) else ret ())"

end
