(* ===== verification/Prefs_Properties.thy ===== *)
theory Prefs_Properties
  imports Overlay_Prefs Launcher_Properties
begin

text \<open>
  The overlay's preferences survive a restart, clamped; a frame leaves the file
  current and writes nothing when nothing changed. At the end what the file also
  carries over: the switches of a match that was running.
\<close>

section \<open>Clamping\<close>

lemma find_holds: "find P xs = Some x \<Longrightarrow> P x \<and> x \<in> set xs"
  by (auto simp: find_Some_iff)

lemma edition_fits: "i < NUM_VALID_EDITIONS \<Longrightarrow> uint (word_of_int (orderedEditions ! i) :: 8 word) = orderedEditions ! i"
  by (auto simp: NUM_VALID_EDITIONS_def orderedEditions_def nth_Cons' take_bit_eq_mod split: if_splits)

lemma first_edition_ok:
  "edition_ok T (c\<lparr>ck_edition := first_edition T (ck_charaID c)\<rparr>) \<or> first_edition T (ck_charaID c) = 14"
proof (cases T)
  case (Some valid)
  show ?thesis
  proof (cases "find (valid (ck_charaID c)) [0..<NUM_VALID_EDITIONS]")
    case (Some i)
    then have "valid (ck_charaID c) i" "i < NUM_VALID_EDITIONS"
      using find_holds [OF Some] by auto
    then show ?thesis
      using Some \<open>T = Some valid\<close> by (auto simp: edition_ok_def first_edition_def list_ex_iff edition_fits)
  qed (simp add: first_edition_def \<open>T = Some valid\<close>)
qed (simp add: first_edition_def)

lemma clamped_chara: "ck_charaID (ClampChara T c) < 0x2c"
  by (simp add: ClampChara_def Let_def word_less_alt word_le_def)

lemma ClampChara_idem [simp]: "ClampChara T (ClampChara T c) = ClampChara T c"
proof -
  let ?c = "if ck_charaID c \<ge> 0x2c then c\<lparr>ck_charaID := 0\<rparr> else c"
  have id: "\<not> (0x2c :: 8 word) \<le> ck_charaID ?c" by (simp add: word_le_def)
  show ?thesis
  proof (cases "edition_ok T ?c")
    case True
    then have "ClampChara T c = ?c" by (simp add: ClampChara_def Let_def)
    then show ?thesis using id True by (simp add: ClampChara_def Let_def)
  next
    case False
    let ?d = "?c\<lparr>ck_edition := first_edition T (ck_charaID ?c)\<rparr>"
    have d: "ClampChara T c = ?d" using False by (simp add: ClampChara_def Let_def)
    have "\<not> (0x2c :: 8 word) \<le> ck_charaID ?d" using id by simp
    then have "ClampChara T ?d = (if edition_ok T ?d then ?d else ?d\<lparr>ck_edition := first_edition T (ck_charaID ?d)\<rparr>)"
      by (simp add: ClampChara_def Let_def)
    then show ?thesis unfolding d by simp
  qed
qed

lemma in_table_idem [simp]: "0 \<le> d \<Longrightarrow> d < n \<Longrightarrow> in_table n d (in_table n d i) = in_table n d i"
  by (simp add: in_table_def)

lemma Clamp_idem [simp]: "Clamp T (Clamp T d) = Clamp T d"
  by (simp add: Clamp_def)

section \<open>What was written is read back\<close>

definition wf_name :: "nat \<Rightarrow> string \<Rightarrow> bool" where
  "wf_name n s \<longleftrightarrow> length s < n \<and> CHR 0x00 \<notin> set s"

lemma wf_name_cut [simp]:
  "wf_name n s \<Longrightarrow> copy_trunc n (takeWhile (\<lambda>c. c \<noteq> CHR 0x00) s) = s"
  "wf_name n s \<Longrightarrow> copy_trunc n s = s"
proof -
  assume s: "wf_name n s"
  have "takeWhile (\<lambda>c. c \<noteq> CHR 0x00) s = s"
    unfolding takeWhile_eq_all_conv using s by (auto simp: wf_name_def)
  then show "copy_trunc n (takeWhile (\<lambda>c. c \<noteq> CHR 0x00) s) = s" "copy_trunc n s = s"
    using s by (simp_all only: wf_name_def copy_trunc_fits)
qed

text \<open>A field of a document of the library's own making.\<close>

lemma take_int_back:
  assumes "json_lib (lw_json W)" "map_of kvs k = Some (mk_int (lw_json W) i)" "fits 31 i"
  shows "take_int W (mk_obj (lw_json W) kvs) k get put (r, f) = (Ret (), (put i r, f))"
  using assms(2,3) json_lib.obj_is [OF assms(1)] json_lib.obj_at [OF assms(1)] json_lib.sint_int [OF assms(1)]
  by (simp add: take_int_def value_int_def or_throw_def field_default_def)

lemma take_word_back:
  assumes "json_lib (lw_json W)" "map_of kvs k = Some (mk_word (lw_json W) w)" "fits 31 (uint w)"
  shows "take_word W (mk_obj (lw_json W) kvs) k get put (r, f) = (Ret (), (put w r, f))"
  using take_int_back [OF assms(1) _ assms(3), of kvs k "\<lambda>r. uint (get r)" "\<lambda>v. put (word_of_int v)"] assms(2)
  by (simp add: take_word_def mk_word_def)

lemma take_bool_back:
  assumes "json_lib (lw_json W)" "map_of kvs k = Some (mk_bool (lw_json W) b)"
  shows "take_bool W (mk_obj (lw_json W) kvs) k get put (r, f) = (Ret (), (put b r, f))"
  using assms(2) json_lib.obj_is [OF assms(1)] json_lib.obj_at [OF assms(1)] json_lib.bool_bool [OF assms(1)]
  by (simp add: take_bool_def value_bool_def or_throw_def field_default_def)

lemma take_str_back:
  assumes "json_lib (lw_json W)" "map_of kvs k = Some (mk_str (lw_json W) t)" "wf_name n t"
  shows "take_str W (mk_obj (lw_json W) kvs) k n get put (r, f) = (Ret (), (put t r, f))"
  using assms(2,3) json_lib.obj_is [OF assms(1)] json_lib.obj_at [OF assms(1)] json_lib.str_str [OF assms(1)]
  by (simp add: take_str_def value_str_def or_throw_def field_default_def)

lemma take_seed_back:
  assumes "json_lib (lw_json W)" "map_of kvs ''nextMatchRandomSeed'' = Some (mk_word (lw_json W) w)"
  shows "take_seed W (mk_obj (lw_json W) kvs) (r, f) = (Ret (), (r\<lparr>db_seed := w\<rparr>, f))"
  using assms(2)
  by (simp add: take_seed_def or_throw_def field_default_def json_lib.obj_is [OF assms(1)]
      json_lib.obj_at [OF assms(1)] json_lib.word_word [OF assms(1)])

lemma part_back: "f (get r, s) = (Ret (), (p, s1)) \<Longrightarrow> part get put f (r, s) = (Ret (), (put p r, s1))"
  by (simp add: part_def on_def)

lemma small_words [simp]: "fits 31 (uint (x :: 8 word))" "fits 31 (uint (y :: 16 word))"
  by (simp_all add: fits_word)

text \<open>The same before the rest of a reading.\<close>

lemma seq_taken:
  assumes "json_lib (lw_json W)"
  shows "map_of kvs k = Some (mk_int (lw_json W) i) \<Longrightarrow> fits 31 i \<Longrightarrow>
      seq (take_int W (mk_obj (lw_json W) kvs) k geti puti) g (r, f) = g () (puti i r, f)"
    and "map_of kvs k = Some (mk_word (lw_json W) w) \<Longrightarrow> fits 31 (uint w) \<Longrightarrow>
      seq (take_word W (mk_obj (lw_json W) kvs) k getw putw) g (r, f) = g () (putw w r, f)"
    and "map_of kvs k = Some (mk_bool (lw_json W) b) \<Longrightarrow>
      seq (take_bool W (mk_obj (lw_json W) kvs) k getb putb) g (r, f) = g () (putb b r, f)"
    and "map_of kvs k = Some (mk_str (lw_json W) t) \<Longrightarrow> wf_name n t \<Longrightarrow>
      seq (take_str W (mk_obj (lw_json W) kvs) k n gets puts) g (r, f) = g () (puts t r, f)"
  by (simp_all add: seq_def take_int_back [OF assms] take_word_back [OF assms] take_bool_back [OF assms]
      take_str_back [OF assms])

lemma seq_seed:
  assumes "json_lib (lw_json W)" "map_of kvs ''nextMatchRandomSeed'' = Some (mk_word (lw_json W) w)"
  shows "seq (take_seed W (mk_obj (lw_json W) kvs)) g (r, f) = g () (r\<lparr>db_seed := w\<rparr>, f)"
  by (simp add: seq_def take_seed_back [OF assms])

lemmas takes_back = seq_taken seq_seed take_int_back take_word_back take_bool_back take_str_back

lemma part_then: "f (get r, s) = (Ret (), (p, s1)) \<Longrightarrow> seq (part get put f) g (r, s) = g () (put p r, s1)"
  by (simp add: seq_def part_back)

lemma CharaFromJson_back:
  assumes "json_lib (lw_json W)"
  shows "CharaFromJson W (CharaToJson (lw_json W) c) (c0, f) = (Ret (), (c, f))"
  using json_lib.obj_is [OF assms]
  by (simp add: CharaFromJson_def CharaToJson_def takes_back [OF assms])

lemma read_join_back:
  assumes "json_lib (lw_json W)" "wf_name 32 (jp_name p)" "wf_name 64 (jp_addr p)"
  shows "read_join W (join_json (lw_json W) p) (p0, f) = (Ret (), (p, f))"
  using assms(2,3)
  by (simp add: read_join_def join_json_def takes_back [OF assms(1)])

lemma read_host_back:
  assumes "json_lib (lw_json W)" "wf_name 32 (hp_name h)" "fits 31 (hp_roundCountIdx h)" "fits 31 (hp_roundTimeIdx h)"
  shows "read_host W (host_json (lw_json W) h) (h0, f) = (Ret (), (h, f))"
  using assms(2-4)
  by (simp add: read_host_def host_json_def takes_back [OF assms(1)])

lemma read_windows_back:
  assumes "json_lib (lw_json W)"
  shows "read_windows W (windows_json (lw_json W) w) (w0, f) = (Ret (), (w, f))"
  by (simp add: read_windows_def windows_json_def takes_back [OF assms(1)])

lemma read_debug_back:
  assumes "json_lib (lw_json W)" "fits 31 (db_randEvery d)" "fits 31 (db_extraFrames d)"
  shows "read_debug W (debug_json (lw_json W) d) (d0, f) = (Ret (), (d, f))"
  using assms(2,3)
  by (simp add: read_debug_def debug_json_def takes_back [OF assms(1)])

lemma chara_at_back:
  assumes "json_lib (lw_json W)" "map_of kvs k = Some (CharaToJson (lw_json W) c)"
  shows "chara_at W (mk_obj (lw_json W) kvs) k (c0, f) = (Ret (), (c, f))"
  using assms(2) json_lib.obj_at [OF assms(1)] by (simp add: chara_at_def CharaFromJson_back [OF assms(1)])

lemma chara_parts:
  assumes "json_lib (lw_json W)" "map_of kvs k = Some (CharaToJson (lw_json W) c)"
  shows "part get put (chara_at W (mk_obj (lw_json W) kvs) k) (r, f) = (Ret (), (put c r, f))"
    and "seq (part get put (chara_at W (mk_obj (lw_json W) kvs) k)) g (r, f) = g () (put c r, f)"
  using chara_at_back [OF assms] by (simp_all add: part_back part_then)

lemma read_menu_back:
  assumes "json_lib (lw_json W)" "fits 31 (mn_stageID m)" "fits 31 (mn_roundCountIdx m)" "fits 31 (mn_roundTimeIdx m)"
  shows "read_menu W (menu_json (lw_json W) m) (m0, f) = (Ret (), (m, f))"
  using assms(2-4)
  by (simp add: read_menu_def menu_json_def takes_back [OF assms(1)] chara_parts [OF assms(1)])

text \<open>A section of the document that its reading gives back as \<open>p\<close>.\<close>

lemma section_parts:
  assumes "json_lib (lw_json W)" "\<And>r0. rd h (r0, f) = (Ret (), (p, f))" "j_is_obj (lw_json W) h"
    "map_of kvs k = Some h"
  shows "section_of (lw_json W) (mk_obj (lw_json W) kvs) k (part get put \<circ> rd) (r, f) = (Ret (), (put p r, f))"
    and "seq (section_of (lw_json W) (mk_obj (lw_json W) kvs) k (part get put \<circ> rd)) g (r, f) = g () (put p r, f)"
  using assms(2-4) by (simp_all add: seq_def section_of_def json_lib.obj_at [OF assms(1)] part_def on_def)

lemma json_objects:
  assumes "json_lib J"
  shows "j_is_obj J (host_json J h)" "j_is_obj J (join_json J p)" "j_is_obj J (menu_json J m)"
    "j_is_obj J (windows_json J w)" "j_is_obj J (debug_json J d)" "j_is_obj J (mk_obj J kvs)"
  by (simp_all add: host_json_def join_json_def menu_json_def windows_json_def debug_json_def json_lib.obj_is [OF assms])

lemma read_device_back:
  assumes "json_lib (lw_json W)"
  shows "read_device W (mk_obj (lw_json W) [(''idx'', mk_word (lw_json W) i), (''type'', mk_word (lw_json W) t)]) (d, f) =
    (Ret (), (d\<lparr>pf_deviceIdx := i, pf_deviceType := t\<rparr>, f))"
  by (simp add: read_device_def takes_back [OF assms])

definition wf_prefs :: "prefs \<Rightarrow> bool" where
  "wf_prefs d \<longleftrightarrow> fits 31 (pf_stageID d) \<and> wf_name 32 (hp_name (pf_host d)) \<and>
     fits 31 (hp_roundCountIdx (pf_host d)) \<and> fits 31 (hp_roundTimeIdx (pf_host d)) \<and>
     wf_name 32 (jp_name (pf_join d)) \<and> wf_name 64 (jp_addr (pf_join d)) \<and>
     fits 31 (mn_stageID (pf_menu d)) \<and> fits 31 (mn_roundCountIdx (pf_menu d)) \<and>
     fits 31 (mn_roundTimeIdx (pf_menu d)) \<and> fits 31 (db_randEvery (pf_debug d)) \<and>
     fits 31 (db_extraFrames (pf_debug d))"

lemma read_prefs_back:
  assumes "json_lib (lw_json W)" "wf_prefs d"
  shows "read_prefs W (prefs_json (lw_json W) d) (d0, f) = (Ret (), (d, f))"
proof -
  note J = assms(1)
  have host: "read_host W (host_json (lw_json W) (pf_host d)) (h0, f) = (Ret (), (pf_host d, f))" for h0
    using assms(2) by (simp add: read_host_back [OF J] wf_prefs_def)
  have join: "read_join W (join_json (lw_json W) (pf_join d)) (p0, f) = (Ret (), (pf_join d, f))" for p0
    using assms(2) by (simp add: read_join_back [OF J] wf_prefs_def)
  have menu: "read_menu W (menu_json (lw_json W) (pf_menu d)) (m0, f) = (Ret (), (pf_menu d, f))" for m0
    using assms(2) by (simp add: read_menu_back [OF J] wf_prefs_def)
  have debug: "read_debug W (debug_json (lw_json W) (pf_debug d)) (b0, f) = (Ret (), (pf_debug d, f))" for b0
    using assms(2) by (simp add: read_debug_back [OF J] wf_prefs_def)
  have stage: "fits 31 (pf_stageID d)" using assms(2) by (simp add: wf_prefs_def)
  show ?thesis
    unfolding read_prefs_def prefs_json_def Let_def
    by (simp add: chara_parts [OF J] takes_back [OF J] stage json_objects [OF J]
        section_parts(2) [where rd = "read_host W", OF J host] section_parts(2) [where rd = "read_join W", OF J join]
        section_parts(2) [where rd = "read_menu W", OF J menu] section_parts(2) [where rd = "read_debug W", OF J debug]
        section_parts(2) [where rd = "read_windows W", OF J read_windows_back [OF J]])
      (simp add: section_of_def json_lib.obj_at [OF J] json_objects [OF J] read_device_back [OF J])
qed

section \<open>Properties\<close>

lemma fits_in_table: "fits 31 i \<Longrightarrow> fits 31 d \<Longrightarrow> fits 31 (in_table n d i)"
  by (simp add: in_table_def)

lemma wf_Clamp: "wf_prefs d \<Longrightarrow> wf_prefs (Clamp T d)"
  by (auto simp: wf_prefs_def Clamp_def intro!: fits_in_table) (simp_all add: fits_def)

lemma Confirmed_back [simp]: "FromConfirmed (ToConfirmed c) = c"
  by (simp add: FromConfirmed_def ToConfirmed_def)

lemma captured_back: "wf_prefs d \<Longrightarrow> CaptureOverlayPrefs (ApplyOverlayPrefs d v) = d"
  by (cases v) (simp add: CaptureOverlayPrefs_def ApplyOverlayPrefs_def wf_prefs_def Let_def)

text \<open>A save that succeeds, and the load of a document that is there.\<close>

lemma SavePrefs_run:
  assumes "cf_path f" "cf_writable f" "lw_pretty W (prefs_json (lw_json W) (Clamp T d)) = Some doc"
  shows "SavePrefs W T d f = (Ret True, f\<lparr>cf_text := Some doc\<rparr>)"
  using assms by (simp add: SavePrefs_def or_throw_def)

lemma LoadPrefs_run:
  assumes "json_lib (lw_json W)" "wf_prefs d" "lw_parse W doc = Some (prefs_json (lw_json W) d)"
    "cf_path f" "cf_readable f" "cf_text f = Some doc"
  shows "LoadPrefs W T (d0, f) = (Ret True, (Clamp T d, f))"
proof -
  have "j_is_obj (lw_json W) (prefs_json (lw_json W) d)"
    by (simp add: prefs_json_def json_objects [OF assms(1)])
  moreover have "seq (read_prefs W (prefs_json (lw_json W) d)) g (d0, f) = g () (d, f)"
    for g :: "unit \<Rightarrow> (prefs \<times> config_file, bool) act"
    by (simp add: seq_def read_prefs_back [OF assms(1,2)])
  ultimately show ?thesis using assms(3-6) by (simp add: LoadPrefs_def catching_def or_throw_def)
qed

lemma next_process_applies:
  assumes "json_lib (lw_json W)" "wf_prefs d" "lw_parse W doc = Some (prefs_json (lw_json W) d)"
    "cf_path f" "cf_readable f" "cf_text f = Some doc"
  shows "InitializeOverlay_prefs W T (v0, f) = (Ret (), (ApplyOverlayPrefs (Clamp T d) v0, f))"
  by (simp add: InitializeOverlay_prefs_def seq_def outside_def on_def filling_def LoadPrefs_run [OF assms])

text \<open>A save in one process, and the initialisation of the overlay in the next.\<close>

lemma restart_run:
  assumes "json_lib (lw_json W)" "wf_prefs (CaptureOverlayPrefs v)" "d = Clamp T (CaptureOverlayPrefs v)"
    and "lw_pretty W (prefs_json (lw_json W) d) = Some doc" "lw_parse W doc = Some (prefs_json (lw_json W) d)"
    and "cf_path f" "cf_writable f" "cf_readable f"
  shows "\<exists>f1. PersistOverlayPrefsNow W T v f = (Ret (), f1) \<and>
    InitializeOverlay_prefs W T (v0, f1) = (Ret (), (ApplyOverlayPrefs d v0, f1))"
proof -
  let ?f = "f\<lparr>cf_text := Some doc\<rparr>"
  have "PersistOverlayPrefsNow W T v f = (Ret (), ?f)"
    using assms(4,6,7) SavePrefs_run [of f W T "CaptureOverlayPrefs v" doc]
    by (simp add: PersistOverlayPrefsNow_def seq_def assms(3))
  moreover have "InitializeOverlay_prefs W T (v0, ?f) = (Ret (), (ApplyOverlayPrefs (Clamp T d) v0, ?f))"
    by (rule next_process_applies [OF assms(1) _ assms(5)]) (simp_all add: assms(2,3,6,8) wf_Clamp)
  ultimately show ?thesis by (auto simp: assms(3))
qed

text \<open>
  C26: What the overlay writes the next process reads: after a save, a process with
  any statics that initialises its overlay holds the preferences that were saved,
  clamped, and would save them again unchanged.
\<close>

theorem prefs_survive_restart:
  assumes "json_lib (lw_json W)" "wf_prefs (CaptureOverlayPrefs v)" "d = Clamp T (CaptureOverlayPrefs v)"
    and "lw_pretty W (prefs_json (lw_json W) d) = Some doc" "lw_parse W doc = Some (prefs_json (lw_json W) d)"
    and "cf_path f" "cf_writable f" "cf_readable f"
    and "PersistOverlayPrefsNow W T v f = (r, f')" "InitializeOverlay_prefs W T (v0, f') = (r', (v', f''))"
  shows "r = Ret () \<and> r' = Ret () \<and> f'' = f' \<and> v' = ApplyOverlayPrefs d v0 \<and> CaptureOverlayPrefs v' = d"
  using restart_run [OF assms(1-8), of v0] assms(9,10) captured_back [OF wf_Clamp [OF assms(2)], of T v0]
  by (auto simp: assms(3))

definition prefs_app :: "overlay \<times> app" where
  "prefs_app = (overlay_static\<lparr>ov_host := \<lparr>hp_delay = 3, hp_name = ''me'', hp_port = 1, hp_ggpoPort = 2,
     hp_roundCountIdx = 9, hp_roundTimeIdx = 0, hp_editionSelect = True\<rparr>\<rparr>, app_static (flow_sim 16))"

definition prefs_world :: "jval launcher_world" where
  "prefs_world = demo_world\<lparr>lw_pretty := (\<lambda>_. Some ''doc''),
     lw_parse := (\<lambda>_. Some (prefs_json jval_ops (Clamp None (CaptureOverlayPrefs prefs_app))))\<rparr>"

definition prefs_file :: config_file where
  "prefs_file = \<lparr>cf_path = True, cf_readable = True, cf_writable = True, cf_text = None\<rparr>"

lemma prefs_demo:
  "json_lib (lw_json prefs_world)" "wf_prefs (CaptureOverlayPrefs prefs_app)" "cf_path prefs_file"
  "cf_writable prefs_file" "cf_readable prefs_file" "lw_pretty prefs_world j = Some ''doc''"
  "lw_parse prefs_world t = Some (prefs_json (lw_json prefs_world) (Clamp None (CaptureOverlayPrefs prefs_app)))"
  by (simp_all add: prefs_world_def demo_world_def jv.json_lib_axioms prefs_file_def wf_prefs_def CaptureOverlayPrefs_def
      prefs_app_def overlay_static_def default_prefs_def app_static_def fits_def wf_name_def copy_trunc_def)

theorem prefs_survive_restart_witness:
  "\<exists>f' v'. PersistOverlayPrefsNow prefs_world None prefs_app prefs_file = (Ret (), f') \<and>
     InitializeOverlay_prefs prefs_world None ((overlay_static, app_static (flow_sim 3)), f') = (Ret (), (v', f')) \<and>
     hp_roundCountIdx (ov_host (fst v')) = 1 \<and> hp_delay (ov_host (fst v')) = 3"
proof -
  obtain r f' r' v' f'' where run: "PersistOverlayPrefsNow prefs_world None prefs_app prefs_file = (r, f')"
    "InitializeOverlay_prefs prefs_world None ((overlay_static, app_static (flow_sim 3)), f') = (r', (v', f''))"
    by (metis prod.exhaust)
  have "r = Ret () \<and> r' = Ret () \<and> f'' = f' \<and>
      v' = ApplyOverlayPrefs (Clamp None (CaptureOverlayPrefs prefs_app)) (overlay_static, app_static (flow_sim 3)) \<and>
      CaptureOverlayPrefs v' = Clamp None (CaptureOverlayPrefs prefs_app)"
    by (rule prefs_survive_restart [OF prefs_demo(1,2) refl prefs_demo(6,7,3-5) run])
  then show ?thesis
    using run by (simp add: ApplyOverlayPrefs_def Let_def Clamp_def CaptureOverlayPrefs_def prefs_app_def in_table_def)
qed

text \<open>What was last written is what the file holds.\<close>

definition file_current :: "'j launcher_world \<Rightarrow> edition_table \<Rightarrow> prefs option \<times> config_file \<Rightarrow> bool" where
  "file_current W T x \<longleftrightarrow> (\<forall>p. fst x = Some p \<longrightarrow> Clamp T p = p \<and> cf_text (snd x) \<noteq> None \<and>
     lw_pretty W (prefs_json (lw_json W) p) = cf_text (snd x))"

text \<open>
  A frame keeps the file current: what was last written is what the file holds,
  a frame in which nothing changed does not touch the file, and one that ends with
  the file writable leaves the present preferences in it.
\<close>

theorem frame_keeps_file_current:
  assumes "file_current W T (prev, f)" "MaybePersistOverlayPrefs W T v (prev, f) = (Ret (), x)"
  shows "file_current W T x \<and>
    (prev = Some (Clamp T (CaptureOverlayPrefs v)) \<longrightarrow> x = (prev, f)) \<and>
    (cf_path f \<and> cf_writable f \<longrightarrow> fst x = Some (Clamp T (CaptureOverlayPrefs v)))"
proof (cases "prev = Some (Clamp T (CaptureOverlayPrefs v)) \<or> \<not> cf_path f \<or> \<not> cf_writable f")
  case True
  then have "x = (prev, f) \<and> (cf_path f \<and> cf_writable f \<longrightarrow> prev = Some (Clamp T (CaptureOverlayPrefs v)))"
    using assms(2) by (auto simp: MaybePersistOverlayPrefs_def Let_def SavePrefs_def outside_def on_def seq_def split: if_splits)
  then show ?thesis using assms(1) by auto
next
  case False
  then show ?thesis
    using assms(2) by (cases "lw_pretty W (prefs_json (lw_json W) (Clamp T (CaptureOverlayPrefs v)))")
      (auto simp: MaybePersistOverlayPrefs_def Let_def SavePrefs_def outside_def on_def seq_def or_throw_def file_current_def
        lift_def update_def)
qed

theorem frame_keeps_file_current_witness:
  "\<exists>x. MaybePersistOverlayPrefs prefs_world None prefs_app (None, prefs_file) = (Ret (), x) \<and>
     file_current prefs_world None x \<and> fst x = Some (Clamp None (CaptureOverlayPrefs prefs_app))"
proof -
  have current: "file_current prefs_world None (None, prefs_file)" by (simp add: file_current_def)
  obtain x where run: "MaybePersistOverlayPrefs prefs_world None prefs_app (None, prefs_file) = (Ret (), x)"
    by (simp add: MaybePersistOverlayPrefs_def Let_def outside_def on_def seq_def SavePrefs_run prefs_demo)
  show ?thesis
    using frame_keeps_file_current [OF current run] run prefs_demo(3,4) by blast
qed

section \<open>What modelling showed\<close>

text \<open>
  The start of a netplay match arms switches of the VsBattle event, which the
  overlay writes to the file with its own. A process that ends during the match
  leaves them there, and the next one starts with them: its first battle, an
  offline one included, ends on its own when it is left.
\<close>

theorem match_switches_outlive_process:
  assumes "json_lib (lw_json W)" "wf_prefs (CaptureOverlayPrefs v)" "d = Clamp T (CaptureOverlayPrefs v)"
    and "lw_pretty W (prefs_json (lw_json W) d) = Some doc" "lw_parse W doc = Some (prefs_json (lw_json W) d)"
    and "cf_path f" "cf_writable f" "cf_readable f"
    and "v = (ov, arm_battle seed s)"
  shows "\<exists>f1 ov1 s1. PersistOverlayPrefsNow W T v f = (Ret (), f1) \<and>
    InitializeOverlay_prefs W T ((overlay_static, app_static m), f1) = (Ret (), ((ov1, s1), f1)) \<and>
    vsOverrideSeed s1 \<and> vsSeed s1 = seed \<and> fst (CheckAndMaybeExitBasedOnExitType s1) \<and>
    \<not> fst (CheckAndMaybeExitBasedOnExitType (app_static m))"
proof -
  obtain f1 where "PersistOverlayPrefsNow W T v f = (Ret (), f1)"
    "InitializeOverlay_prefs W T ((overlay_static, app_static m), f1) =
       (Ret (), (ApplyOverlayPrefs d (overlay_static, app_static m), f1))"
    using restart_run [OF assms(1-8), of "(overlay_static, app_static m)"] by blast
  then show ?thesis
    by (simp add: assms(3,9) ApplyOverlayPrefs_def Let_def Clamp_def CaptureOverlayPrefs_def arm_battle_def
        CheckAndMaybeExitBasedOnExitType_def app_static_def)
qed

text \<open>
  Preferences that cannot be printed empty the file, and the exception leaves the
  frame: a name in the file that is longer than its buffer is cut to it, inside a
  character when it falls so.
\<close>

lemma frame_loses_prefs:
  assumes "cf_path f" "cf_writable f" "lw_pretty W (prefs_json (lw_json W) (Clamp T (CaptureOverlayPrefs v))) = None"
    and "prev \<noteq> Some (Clamp T (CaptureOverlayPrefs v))"
  shows "MaybePersistOverlayPrefs W T v (prev, f) = (Throws, (prev, f\<lparr>cf_text := Some []\<rparr>))"
  using assms by (simp add: MaybePersistOverlayPrefs_def Let_def SavePrefs_def outside_def on_def seq_def or_throw_def
      lift_def update_def)

end
