(* ===== verification/Diagnostics.thy ===== *)
theory Diagnostics
  imports Pacing Launcher_World
begin

text \<open>
  Rollback diagnostics (common/sf4e__RollbackDiagnostics.hxx and .cxx): the timing
  histograms, the counters of skipped frames, stalls, bursts and connection
  events, and the summary text. \<open>timing_stat\<close> and \<open>diag\<close> are the structures
  TimingStat and RollbackDiagnostics; operations, reasons and call sites are the
  integers of their enumerations. The doubles are exact rationals: rounding,
  infinities and NaN are not modelled.
\<close>

section \<open>Names\<close>

definition timed_op_names :: "string list" where
  "timed_op_names =
     [''battle_update'', ''engine_update'', ''add_local_input'', ''sync_input'', ''advance_frame'', ''rollback_cb'',
      ''client_step'', ''server_step'', ''facade_tick'', ''ggpo_idle'', ''steam_post_update'', ''outer_tick'',
      ''save'', ''save.mementos'', ''save.keys'', ''save.sound'', ''save.globals'', ''semantic_hash'',
      ''load'', ''load.key_backup'', ''load.copy_into_place'', ''load.restore_keys'',
      ''free'', ''free.tmp_save'', ''free.victim_install'', ''free.clear'', ''free.live_restore'',
      ''timesync_sleep'', ''pacing_wait'']"

definition OP_COUNT :: nat where "OP_COUNT = 29"
definition OP_TIMESYNC_SLEEP :: nat where "OP_TIMESYNC_SLEEP = 27"
definition OP_PACING_WAIT :: nat where "OP_PACING_WAIT = 28"

definition enum_name :: "string list \<Rightarrow> int \<Rightarrow> string" where
  "enum_name names i = (if 0 \<le> i \<and> i < int (length names) then names ! nat i else ''?'')"

definition TimedOpName :: "int \<Rightarrow> string" where
  "TimedOpName op = enum_name timed_op_names op"

definition SKIP_PREDICTION_THRESHOLD :: int where "SKIP_PREDICTION_THRESHOLD = 1"
definition SKIP_COUNT :: nat where "SKIP_COUNT = 5"

definition SkipReasonName :: "int \<Rightarrow> string" where
  "SkipReasonName r = enum_name
     [''update_gate'', ''prediction_threshold'', ''not_synchronized'', ''add_input_error'', ''sync_input_error''] r"

definition CALL_COUNT :: nat where "CALL_COUNT = 4"
definition NUM_RESULT_SLOTS :: nat where "NUM_RESULT_SLOTS = 13"

definition CallSiteName :: "int \<Rightarrow> string" where
  "CallSiteName c = enum_name [''add_local_input'', ''sync_input'', ''advance_frame'', ''get_network_stats''] c"

section \<open>Histograms\<close>

definition kBucketUpperMs :: "rat list" where
  "kBucketUpperMs = [1 / 4, 1 / 2, 1, 2, 4, 8, 1667 / 100, 33, 50, 10 ^ 300]"

definition kHitchThresholdMs :: "rat list" where
  "kHitchThresholdMs = [1667 / 100, 25, 3333 / 100, 50, 100]"

record timing_stat =
  ts_count :: "64 word"
  ts_totalMs :: rat
  ts_maxMs :: rat
  ts_lastMs :: rat
  ts_buckets :: "32 word list"
  ts_hitchCounts :: "64 word list"

definition TimingStat_Reset :: timing_stat where
  "TimingStat_Reset = \<lparr>ts_count = 0, ts_totalMs = 0, ts_maxMs = 0, ts_lastMs = 0,
     ts_buckets = replicate 10 0, ts_hitchCounts = replicate 5 0\<rparr>"

definition bump :: "nat \<Rightarrow> 'a::len word list \<Rightarrow> 'a word list" where
  "bump i xs = xs[i := xs ! i + 1]"

definition bucket_of :: "rat \<Rightarrow> nat" where
  "bucket_of ms = (case find_index (\<lambda>u. ms < u) kBucketUpperMs of Some i \<Rightarrow> i | None \<Rightarrow> 9)"

definition TimingStat_Record :: "rat \<Rightarrow> timing_stat \<Rightarrow> timing_stat" where
  "TimingStat_Record ms0 s =
     (let ms = (if ms0 < 0 then 0 else ms0)
      in s\<lparr>ts_count := ts_count s + 1, ts_totalMs := ts_totalMs s + ms, ts_lastMs := ms,
           ts_maxMs := (if ms > ts_maxMs s then ms else ts_maxMs s),
           ts_hitchCounts := map2 (\<lambda>t c. if t \<le> ms then c + 1 else c) kHitchThresholdMs (ts_hitchCounts s),
           ts_buckets := bump (bucket_of ms) (ts_buckets s)\<rparr>)"

text \<open>The loop over the buckets from one on, with what the buckets before hold.\<close>

fun percentile_loop :: "64 word \<Rightarrow> rat \<Rightarrow> 64 word \<Rightarrow> (rat \<times> 32 word) list \<Rightarrow> rat" where
  "percentile_loop rank maxMs cumulative [] = maxMs"
| "percentile_loop rank maxMs cumulative ((upper, n) # rest) =
     (let c = cumulative + ucast n
      in if rank < c then (if rest = [] then maxMs else upper) else percentile_loop rank maxMs c rest)"

definition ApproxPercentileMs :: "rat \<Rightarrow> timing_stat \<Rightarrow> rat" where
  "ApproxPercentileMs p0 s =
     (if ts_count s = 0 then 0
      else (let p = (if p0 < 0 then 0 else if p0 > 1 then 1 else p0);
                r = word_of_int \<lfloor>p * of_nat (unat (ts_count s))\<rfloor>;
                rank = (if ts_count s \<le> r then ts_count s - 1 else r)
            in percentile_loop rank (ts_maxMs s) 0 (zip kBucketUpperMs (ts_buckets s))))"

definition MeanMs :: "timing_stat \<Rightarrow> rat" where
  "MeanMs s = (if ts_count s = 0 then 0 else ts_totalMs s / of_nat (unat (ts_count s)))"

section \<open>The component\<close>

record gauge =
  ga_current :: "32 word"
  ga_max :: "32 word"

definition Gauge_Update :: "32 word \<Rightarrow> gauge \<Rightarrow> gauge" where
  "Gauge_Update v g = \<lparr>ga_current = v, ga_max = (if v > ga_max g then v else ga_max g)\<rparr>"

definition kBurstUpper :: "32 word list" where
  "kBurstUpper = [1, 2, 3, 4, 6, 8, 12, 0xffffffff]"

record diag =
  rd_enabled :: bool
  rd_ops :: "timing_stat list"
  rd_skipReasons :: "64 word list"
  rd_ggpoResults :: "32 word list list"
  rd_totalRollbackCallbacks :: "64 word"
  rd_rollbackCallbacksThisOuterFrame :: "32 word"
  rd_maxRollbackCallbacksPerOuterFrame :: "32 word"
  rd_outerFramesWithRollback :: "64 word"
  rd_outerFrames :: "64 word"
  rd_currentResimBurst :: "32 word"
  rd_maxResimBurst :: "32 word"
  rd_resimBurstBuckets :: "32 word list"
  rd_resimBursts :: "64 word"
  rd_connectionWarnings :: "32 word"
  rd_connectionResumes :: "32 word"
  rd_terminalDisconnects :: "32 word"
  rd_connectionWarningStartMs :: rat
  rd_connectionWarningDuration :: timing_stat
  rd_timesyncEvents :: "32 word"
  rd_timesyncFramesTotal :: "64 word"
  rd_timesyncMaxFrames :: "32 word"
  rd_predictionStalls :: "32 word"
  rd_predictionStallStartMs :: rat
  rd_predictionStallDuration :: timing_stat
  rd_gauges :: "gauge list"
  rd_matchStartMs :: rat
  rd_lastPeriodicEmitMs :: rat

text \<open>All bytes zero; \<open>rd_gauges\<close> are the eight gauges from trackedKeys to occupiedSaveSlots.\<close>

definition zero_diag :: diag where
  "zero_diag = \<lparr>rd_enabled = False, rd_ops = replicate OP_COUNT TimingStat_Reset,
     rd_skipReasons = replicate SKIP_COUNT 0, rd_ggpoResults = replicate CALL_COUNT (replicate NUM_RESULT_SLOTS 0),
     rd_totalRollbackCallbacks = 0, rd_rollbackCallbacksThisOuterFrame = 0, rd_maxRollbackCallbacksPerOuterFrame = 0,
     rd_outerFramesWithRollback = 0, rd_outerFrames = 0, rd_currentResimBurst = 0, rd_maxResimBurst = 0,
     rd_resimBurstBuckets = replicate 8 0, rd_resimBursts = 0, rd_connectionWarnings = 0, rd_connectionResumes = 0,
     rd_terminalDisconnects = 0, rd_connectionWarningStartMs = 0, rd_connectionWarningDuration = TimingStat_Reset,
     rd_timesyncEvents = 0, rd_timesyncFramesTotal = 0, rd_timesyncMaxFrames = 0, rd_predictionStalls = 0,
     rd_predictionStallStartMs = 0, rd_predictionStallDuration = TimingStat_Reset,
     rd_gauges = replicate 8 \<lparr>ga_current = 0, ga_max = 0\<rparr>, rd_matchStartMs = 0, rd_lastPeriodicEmitMs = 0\<rparr>"

definition ResetForMatch :: "rat \<Rightarrow> diag \<Rightarrow> diag" where
  "ResetForMatch nowMs d = zero_diag\<lparr>rd_enabled := rd_enabled d, rd_connectionWarningStartMs := -1,
     rd_predictionStallStartMs := -1, rd_matchStartMs := nowMs, rd_lastPeriodicEmitMs := nowMs\<rparr>"

definition RecordOp :: "int \<Rightarrow> rat \<Rightarrow> diag \<Rightarrow> diag" where
  "RecordOp op ms d =
     (if \<not> rd_enabled d \<or> op < 0 \<or> int OP_COUNT \<le> op then d
      else d\<lparr>rd_ops := (rd_ops d)[nat op := TimingStat_Record ms (rd_ops d ! nat op)]\<rparr>)"

definition RecordSkip :: "int \<Rightarrow> rat \<Rightarrow> diag \<Rightarrow> diag" where
  "RecordSkip reason nowMs d =
     (if \<not> rd_enabled d \<or> reason < 0 \<or> int SKIP_COUNT \<le> reason then d
      else let d1 = d\<lparr>rd_skipReasons := bump (nat reason) (rd_skipReasons d)\<rparr>
           in if reason = SKIP_PREDICTION_THRESHOLD \<and> rd_predictionStallStartMs d1 < 0
              then d1\<lparr>rd_predictionStalls := rd_predictionStalls d1 + 1, rd_predictionStallStartMs := nowMs\<rparr>
              else d1)"

definition RecordGgpoResult :: "int \<Rightarrow> int \<Rightarrow> diag \<Rightarrow> diag" where
  "RecordGgpoResult callSite code d =
     (if \<not> rd_enabled d \<or> callSite < 0 \<or> int CALL_COUNT \<le> callSite then d
      else let slot = (if 0 \<le> code \<and> code \<le> 11 then nat code + 1 else 0)
           in d\<lparr>rd_ggpoResults := (rd_ggpoResults d)[nat callSite := bump slot (rd_ggpoResults d ! nat callSite)]\<rparr>)"

text \<open>The end of a prediction stall and the end of a burst, which several operations share.\<close>

definition close_stall :: "rat \<Rightarrow> diag \<Rightarrow> diag" where
  "close_stall nowMs d =
     (if 0 \<le> rd_predictionStallStartMs d
      then d\<lparr>rd_predictionStallDuration :=
               TimingStat_Record (nowMs - rd_predictionStallStartMs d) (rd_predictionStallDuration d),
             rd_predictionStallStartMs := -1\<rparr>
      else d)"

definition close_burst :: "diag \<Rightarrow> diag" where
  "close_burst d =
     (if 0 < rd_currentResimBurst d
      then d\<lparr>rd_maxResimBurst := (if rd_currentResimBurst d > rd_maxResimBurst d then rd_currentResimBurst d
                                   else rd_maxResimBurst d),
             rd_resimBursts := rd_resimBursts d + 1,
             rd_resimBurstBuckets := (case find_index (\<lambda>u. rd_currentResimBurst d \<le> u) kBurstUpper of
               Some i \<Rightarrow> bump i (rd_resimBurstBuckets d) | None \<Rightarrow> rd_resimBurstBuckets d),
             rd_currentResimBurst := 0\<rparr>
      else d)"

definition close_warning :: "rat \<Rightarrow> diag \<Rightarrow> diag" where
  "close_warning nowMs d =
     (if 0 \<le> rd_connectionWarningStartMs d
      then d\<lparr>rd_connectionWarningDuration :=
               TimingStat_Record (nowMs - rd_connectionWarningStartMs d) (rd_connectionWarningDuration d),
             rd_connectionWarningStartMs := -1\<rparr>
      else d)"

definition diag_OnFrameAdvanced :: "rat \<Rightarrow> diag \<Rightarrow> diag" where
  "diag_OnFrameAdvanced nowMs d = (if \<not> rd_enabled d then d else close_burst (close_stall nowMs d))"

definition OnRollbackCallback :: "diag \<Rightarrow> diag" where
  "OnRollbackCallback d =
     (if \<not> rd_enabled d then d
      else d\<lparr>rd_totalRollbackCallbacks := rd_totalRollbackCallbacks d + 1,
             rd_rollbackCallbacksThisOuterFrame := rd_rollbackCallbacksThisOuterFrame d + 1,
             rd_currentResimBurst := rd_currentResimBurst d + 1\<rparr>)"

definition OnOuterFrame :: "diag \<Rightarrow> diag" where
  "OnOuterFrame d =
     (if \<not> rd_enabled d then d
      else let d1 = d\<lparr>rd_outerFrames := rd_outerFrames d + 1\<rparr>;
               n = rd_rollbackCallbacksThisOuterFrame d1;
               d2 = (if 0 < n
                     then d1\<lparr>rd_outerFramesWithRollback := rd_outerFramesWithRollback d1 + 1,
                             rd_maxRollbackCallbacksPerOuterFrame :=
                               (if n > rd_maxRollbackCallbacksPerOuterFrame d1 then n
                                else rd_maxRollbackCallbacksPerOuterFrame d1),
                             rd_rollbackCallbacksThisOuterFrame := 0\<rparr>
                     else d1)
           in close_burst d2)"

definition OnSessionEnded :: "rat \<Rightarrow> diag \<Rightarrow> diag" where
  "OnSessionEnded nowMs d =
     (if \<not> rd_enabled d then d
      else let d1 = close_stall nowMs d in if 0 < rd_currentResimBurst d1 then OnOuterFrame d1 else d1)"

definition diag_OnConnectionInterrupted :: "rat \<Rightarrow> diag \<Rightarrow> diag" where
  "diag_OnConnectionInterrupted nowMs d =
     (if \<not> rd_enabled d \<or> \<not> rd_connectionWarningStartMs d < 0 then d
      else d\<lparr>rd_connectionWarnings := rd_connectionWarnings d + 1, rd_connectionWarningStartMs := nowMs\<rparr>)"

definition diag_OnConnectionResumed :: "rat \<Rightarrow> diag \<Rightarrow> diag" where
  "diag_OnConnectionResumed nowMs d =
     (if \<not> rd_enabled d then d
      else close_warning nowMs (d\<lparr>rd_connectionResumes := rd_connectionResumes d + 1\<rparr>))"

definition OnTerminalDisconnect :: "rat \<Rightarrow> diag \<Rightarrow> diag" where
  "OnTerminalDisconnect nowMs d =
     (if \<not> rd_enabled d then d
      else close_warning nowMs (d\<lparr>rd_terminalDisconnects := rd_terminalDisconnects d + 1\<rparr>))"

definition OnTimesyncEvent :: "int \<Rightarrow> diag \<Rightarrow> diag" where
  "OnTimesyncEvent framesAhead d =
     (if \<not> rd_enabled d then d
      else let d1 = d\<lparr>rd_timesyncEvents := rd_timesyncEvents d + 1\<rparr>
           in if 0 < framesAhead
              then d1\<lparr>rd_timesyncFramesTotal := rd_timesyncFramesTotal d1 + word_of_int framesAhead,
                      rd_timesyncMaxFrames := (if word_of_int framesAhead > rd_timesyncMaxFrames d1
                        then word_of_int framesAhead else rd_timesyncMaxFrames d1)\<rparr>
              else d1)"

definition PeriodicSummaryDue :: "rat \<Rightarrow> rat \<Rightarrow> diag \<Rightarrow> bool \<times> diag" where
  "PeriodicSummaryDue nowMs periodSec d =
     (if \<not> rd_enabled d then (False, d)
      else if nowMs - rd_lastPeriodicEmitMs d \<ge> periodSec * 1000
      then (True, d\<lparr>rd_lastPeriodicEmitMs := nowMs\<rparr>) else (False, d))"

section \<open>The summary\<close>

text \<open>
  What printf makes of a double with k decimals (ties to even), and a string
  padded on the right. A line feed is a character of its own.
\<close>

definition round_even :: "rat \<Rightarrow> int" where
  "round_even x = (let f = \<lfloor>x\<rfloor>; e = x - of_int f
     in if e < 1 / 2 then f else if e > 1 / 2 then f + 1 else if even f then f else f + 1)"

definition pad_left :: "nat \<Rightarrow> char \<Rightarrow> string \<Rightarrow> string" where
  "pad_left k c s = replicate (k - length s) c @ s"

definition pad_right :: "nat \<Rightarrow> string \<Rightarrow> string" where
  "pad_right k s = s @ replicate (k - length s) (CHR '' '')"

definition show_fixed :: "nat \<Rightarrow> rat \<Rightarrow> string" where
  "show_fixed k x =
     (let n = nat (round_even (\<bar>x\<bar> * 10 ^ k))
      in (if x < 0 then ''-'' else []) @ dec_nat (n div 10 ^ k) @ ''.'' @ pad_left k (CHR ''0'') (dec_nat (n mod 10 ^ k)))"

definition lf :: string where
  "lf = [CHR 0x0A]"

text \<open>One call of Append: the buffer's text, cut to leave room for the terminator.\<close>

definition Append :: "nat \<Rightarrow> string \<Rightarrow> string \<Rightarrow> string" where
  "Append cap buf s = (if cap \<le> length buf then buf else buf @ take (cap - length buf - 1) s)"

fun separated :: "string \<Rightarrow> string list \<Rightarrow> string" where
  "separated sep [] = []"
| "separated sep [a] = a"
| "separated sep (a # as) = a @ sep @ separated sep as"

definition AppendStatLine :: "string \<Rightarrow> timing_stat \<Rightarrow> string list" where
  "AppendStatLine name s =
     (if ts_count s = 0 then []
      else [''  '' @ pad_right 22 name @ '' n='' @ to_string (ts_count s) @
        '' p50='' @ show_fixed 2 (ApproxPercentileMs (1 / 2) s) @ '' p95='' @ show_fixed 2 (ApproxPercentileMs (19 / 20) s) @
        '' p99='' @ show_fixed 2 (ApproxPercentileMs (99 / 100) s) @ '' max='' @ show_fixed 2 (ts_maxMs s) @
        '' mean='' @ show_fixed 3 (MeanMs s) @ '' ms hitch[>=16.67,25,33.33,50,100]='' @
        separated '','' (map to_string (ts_hitchCounts s)) @ lf])"

definition hard_stalls :: "diag \<Rightarrow> string list" where
  "hard_stalls d =
     [('' hard stalls:'' @ lf)] @
     concat (map (\<lambda>i. if rd_skipReasons d ! i = 0 then []
       else [''  skip['' @ SkipReasonName (int i) @ '']='' @ to_string (rd_skipReasons d ! i) @ lf]) [0..<SKIP_COUNT]) @
     [''  prediction stalls='' @ to_string (rd_predictionStalls d) @ '' (active='' @
        (if 0 \<le> rd_predictionStallStartMs d then ''yes'' else ''no'') @ '')'' @ lf] @
     AppendStatLine ''stall_duration'' (rd_predictionStallDuration d) @
     [''  conn warnings='' @ to_string (rd_connectionWarnings d) @ '' resumes='' @ to_string (rd_connectionResumes d) @
        '' terminal='' @ to_string (rd_terminalDisconnects d) @ lf] @
     AppendStatLine ''warning_duration'' (rd_connectionWarningDuration d) @
     [''  timesync events='' @ to_string (rd_timesyncEvents d) @ '' framesTotal='' @ to_string (rd_timesyncFramesTotal d) @
        '' max='' @ to_string (rd_timesyncMaxFrames d) @ lf] @
     AppendStatLine ''timesync_sleep'' (rd_ops d ! OP_TIMESYNC_SLEEP) @
     AppendStatLine ''pacing_wait'' (rd_ops d ! OP_PACING_WAIT)"

text \<open>The listed operations are those before the two waits, in their order.\<close>

definition hitch_lines :: "diag \<Rightarrow> string list" where
  "hitch_lines d = ('' simulation hitches:'' @ lf) #
     concat (map (\<lambda>op. AppendStatLine (TimedOpName (int op)) (rd_ops d ! op)) [0..<OP_TIMESYNC_SLEEP])"

definition correction_lines :: "diag \<Rightarrow> string list" where
  "correction_lines d =
     ['' visible corrections (burst = proxy, not exact distance):'' @ lf,
      ''  rollback callbacks='' @ to_string (rd_totalRollbackCallbacks d) @ '' outerFramesWithRollback='' @
        to_string (rd_outerFramesWithRollback d) @ '' maxPerOuterFrame='' @
        to_string (rd_maxRollbackCallbacksPerOuterFrame d) @ lf,
      ''  resim bursts='' @ to_string (rd_resimBursts d) @ '' maxBurst='' @ to_string (rd_maxResimBurst d) @
        '' buckets[<=1,2,3,4,6,8,12,+]=''] @
     map (\<lambda>i. (if i = 0 then [] else '','') @ to_string (rd_resimBurstBuckets d ! i)) [0..<8] @ [lf]"

definition slot_text :: "nat \<Rightarrow> string" where
  "slot_text s = (if s = 0 then ''-1'' else dec_nat (s - 1))"

definition result_lines :: "diag \<Rightarrow> string list" where
  "result_lines d = ('' ggpo results (slot0=other/-1, slotN=code N-1):'' @ lf) #
     concat (map (\<lambda>c. let results = rd_ggpoResults d ! c in
       if sum_list (map ucast results) = (0 :: 64 word) then []
       else [''  '' @ pad_right 18 (CallSiteName (int c))] @
         concat (map (\<lambda>s. if results ! s = 0 then []
           else ['' ['' @ slot_text s @ '']='' @ to_string (results ! s)]) [0..<NUM_RESULT_SLOTS]) @ [lf]) [0..<CALL_COUNT])"

definition gauge_text :: "gauge \<Rightarrow> string" where
  "gauge_text g = to_string (ga_current g) @ ''/'' @ to_string (ga_max g)"

definition size_line :: "diag \<Rightarrow> string" where
  "size_line d = '' state sizes (cur/max):'' @ concat (map2 (\<lambda>name g. '' '' @ name @ ''='' @ gauge_text g)
     [''trackedKeys'', ''keyVec'', ''keyCap'', ''sndMgr'', ''sndAdpt'', ''criState'', ''mgrState'', ''slots'']
     (rd_gauges d)) @ lf"

definition summary_pieces :: "string option \<Rightarrow> diag \<Rightarrow> string list" where
  "summary_pieces label d =
     [''RollbackDiag ['' @ (case label of Some l \<Rightarrow> l | None \<Rightarrow> ''-'') @ ''] outerFrames='' @
        to_string (rd_outerFrames d) @ lf] @
     hard_stalls d @ hitch_lines d @ correction_lines d @ result_lines d @ [size_line d]"

text \<open>The text in a buffer of cap characters, or None when nothing is written; what is returned is its length.\<close>

definition FormatSummary :: "nat \<Rightarrow> string option \<Rightarrow> diag \<Rightarrow> string option" where
  "FormatSummary cap label d =
     (if \<not> rd_enabled d \<or> cap < 2 then None else Some (foldl (Append cap) [] (summary_pieces label d)))"

section \<open>The global instance\<close>

definition InitFromEnvironment :: "environ \<Rightarrow> diag \<Rightarrow> diag" where
  "InitFromEnvironment env d =
     (case env ''SF4E_ROLLBACK_DIAGNOSTICS'' of
        Some v \<Rightarrow> if v \<noteq> [] \<and> hd v = CHR ''1'' then d\<lparr>rd_enabled := True\<rparr> else d | None \<Rightarrow> d)
     \<lparr>rd_connectionWarningStartMs := -1, rd_predictionStallStartMs := -1\<rparr>"

definition SetEnabled :: "bool \<Rightarrow> diag \<Rightarrow> diag" where
  "SetEnabled flag d =
     (let d1 = d\<lparr>rd_enabled := flag\<rparr>;
          d2 = (if rd_connectionWarningStartMs d1 = 0 then d1\<lparr>rd_connectionWarningStartMs := -1\<rparr> else d1)
      in if rd_predictionStallStartMs d2 = 0 then d2\<lparr>rd_predictionStallStartMs := -1\<rparr> else d2)"

text \<open>A timed scope: armed when the diagnostics are enabled at its start, recorded at its end.\<close>

definition ScopedTimer :: "bool \<Rightarrow> int \<Rightarrow> rat \<Rightarrow> rat \<Rightarrow> diag \<Rightarrow> diag" where
  "ScopedTimer armed op t0 t1 d = (if armed then RecordOp op (t1 - t0) d else d)"

end
