(* ===== verification/Diagnostics_Properties.thy ===== *)
theory Diagnostics_Properties
  imports Diagnostics
begin

text \<open>
  What the diagnostics' numbers mean: the histograms count what was recorded,
  a percentile read off one is never too low, what was opened is closed or still
  open, and the summary is its full text cut to the buffer.
\<close>

section \<open>Counting\<close>

lemma ucast_inc: "(ucast (c + 1 :: 64 word) :: 32 word) = ucast c + 1"
proof -
  have "(x mod 18446744073709551616 + 1) mod 4294967296 = (x + 1) mod (4294967296 :: int)" for x
    by (subst (1 2) mod_add_left_eq [symmetric]) (simp add: mod_mod_cancel)
  then show ?thesis by transfer (simp add: take_bit_eq_mod mod_mod_cancel mod_simps)
qed

lemma sum_bump: "i < length xs \<Longrightarrow> sum_list (bump i xs) = sum_list xs + 1"
  unfolding bump_def by (induction xs arbitrary: i) (auto split: nat.split simp: algebra_simps)

lemma length_bump [simp]: "length (bump i xs) = length xs"
  by (simp add: bump_def)

lemma nth_bump: "i < length xs \<Longrightarrow> bump i xs ! j = (if i = j then xs ! j + 1 else xs ! j)"
  by (auto simp: bump_def)

lemma bucket_less: "bucket_of ms < 10"
  using find_index_Some [of "\<lambda>u. ms < u" kBucketUpperMs]
  by (auto simp: bucket_of_def kBucketUpperMs_def split: option.split)

lemma bucket_upper: "bucket_of ms < 9 \<Longrightarrow> ms < kBucketUpperMs ! bucket_of ms"
  using find_index_Some [of "\<lambda>u. ms < u" kBucketUpperMs]
  by (auto simp: bucket_of_def split: option.splits)

lemma len_uppers: "length kBucketUpperMs = 10"
  by (simp add: kBucketUpperMs_def)

lemma uppers_sorted: "sorted kBucketUpperMs"
  by (simp add: kBucketUpperMs_def)

lemma unat_up: "unat (ucast n :: 64 word) = unat (n :: 32 word)"
  by transfer simp

section \<open>What a histogram holds\<close>

definition record_all :: "rat list \<Rightarrow> timing_stat" where
  "record_all ms = fold TimingStat_Record ms TimingStat_Reset"

lemma record_all_snoc: "record_all (ms @ [m]) = TimingStat_Record m (record_all ms)"
  by (simp add: record_all_def)

lemma record_all_nil: "record_all [] = TimingStat_Reset"
  by (simp add: record_all_def)

definition clamped :: "rat \<Rightarrow> rat" where
  "clamped m = (if m < 0 then 0 else m)"

lemma unat_inc: "unat w < 2 ^ LENGTH('a) - 1 \<Longrightarrow> unat (w + 1 :: 'a::len word) = unat w + 1"
  by (simp add: unat_word_ariths)

lemma record_all_holds:
  assumes "length ms < 2 ^ 32"
  shows "unat (ts_count (record_all ms)) = length ms \<and> length (ts_buckets (record_all ms)) = 10 \<and>
    (\<forall>i<10. unat (ts_buckets (record_all ms) ! i) = length (filter (\<lambda>m. bucket_of (clamped m) = i) ms)) \<and>
    (\<forall>m\<in>set ms. clamped m \<le> ts_maxMs (record_all ms))"
  using assms
proof (induction ms rule: rev_induct)
  case Nil
  then show ?case by (simp add: record_all_nil TimingStat_Reset_def)
next
  case (snoc m ms)
  let ?s = "record_all ms"
  have IH: "unat (ts_count ?s) = length ms" "length (ts_buckets ?s) = 10"
    "\<And>i. i < 10 \<Longrightarrow> unat (ts_buckets ?s ! i) = length (filter (\<lambda>m. bucket_of (clamped m) = i) ms)"
    "\<forall>m\<in>set ms. clamped m \<le> ts_maxMs ?s" "length ms < 2 ^ 32 - 1"
    using snoc by auto
  have "unat (ts_buckets ?s ! i) < 2 ^ 32 - 1" if "i < 10" for i
    unfolding IH(3) [OF that] using IH(5) by (rule le_less_trans [OF length_filter_le])
  then have "unat (ts_buckets ?s ! i + 1) = unat (ts_buckets ?s ! i) + 1" if "i < 10" for i
    using that by (intro unat_inc) simp
  moreover have "unat (ts_count ?s + 1) = Suc (length ms)"
    using unat_inc [of "ts_count ?s"] IH(1,5) by simp
  ultimately show ?case
    using IH bucket_less [of "clamped m"]
    by (fastforce simp: record_all_snoc TimingStat_Record_def clamped_def [symmetric] nth_bump Let_def)
qed

section \<open>Percentiles\<close>

lemma filter_grows: "(\<And>x. P x \<Longrightarrow> Q x) \<Longrightarrow> length (filter P xs) \<le> length (filter Q xs)"
  by (induction xs) (auto intro: le_SucI)

lemma below_sum:
  "sum_list (map (\<lambda>j. length (filter (\<lambda>m. b m = j) ms)) [0..<i]) = length (filter (\<lambda>m. b m < (i :: nat)) ms)"
proof (induction i)
  case (Suc i)
  have "length (filter (\<lambda>m. b m < Suc i) ms) = length (filter (\<lambda>m. b m < i) ms) + length (filter (\<lambda>m. b m = i) ms)"
    by (induction ms) auto
  then show ?case using Suc by simp
qed simp

lemma percentile_loop_cases:
  "unat cum + sum_list (map (unat \<circ> snd) xs) < 2 ^ 64 \<Longrightarrow>
     percentile_loop rank mx cum xs = mx \<or>
     (\<exists>i. Suc i < length xs \<and> percentile_loop rank mx cum xs = fst (xs ! i) \<and>
        unat rank < unat cum + sum_list (map (unat \<circ> snd) (take (Suc i) xs)))"
proof (induction xs arbitrary: cum)
  case (Cons x xs)
  obtain u n where x: "x = (u, n)" by fastforce
  have c: "unat (cum + ucast n) = unat cum + unat n"
    using Cons.prems by (simp add: x unat_word_ariths unat_up)
  show ?case
  proof (cases "rank < cum + ucast n")
    case True
    then have "unat rank < unat cum + unat n" using c by (simp add: word_less_nat_alt)
    then show ?thesis using True by (cases xs) (auto simp: x Let_def intro: exI [of _ 0])
  next
    case False
    have "percentile_loop rank mx (cum + ucast n) xs = mx \<or>
       (\<exists>i. Suc i < length xs \<and> percentile_loop rank mx (cum + ucast n) xs = fst (xs ! i) \<and>
        unat rank < unat (cum + ucast n) + sum_list (map (unat \<circ> snd) (take (Suc i) xs)))"
      by (rule Cons.IH) (use Cons.prems c in \<open>simp add: x\<close>)
    then show ?thesis
    proof (elim disjE exE conjE)
      fix i assume "Suc i < length xs" "percentile_loop rank mx (cum + ucast n) xs = fst (xs ! i)"
        "unat rank < unat (cum + ucast n) + sum_list (map (unat \<circ> snd) (take (Suc i) xs))"
      then show ?thesis using False c by (intro disjI2 exI [of _ "Suc i"]) (simp add: x Let_def comp_def add.assoc)
    qed (use False in \<open>simp add: x Let_def\<close>)
  qed
qed simp

lemma rank_small:
  assumes "0 \<le> p" "p \<le> 1" "n < 2 ^ 32"
  shows "unat (word_of_int \<lfloor>p * of_nat n\<rfloor> :: 64 word) = nat \<lfloor>p * of_nat n\<rfloor>"
proof -
  have "p * of_nat n \<le> of_nat n" using mult_right_mono [of p 1 "of_nat n"] assms(2) by simp
  from floor_mono [OF this] have "\<lfloor>p * of_nat n\<rfloor> \<le> int n" by simp
  moreover have "0 \<le> \<lfloor>p * of_nat n\<rfloor>" using assms(1) by simp
  moreover have "unat (word_of_int k :: 64 word) = nat k" if "0 \<le> k" "k \<le> int n" for k
    using that assms(3) by (simp add: unsigned_of_int take_bit_int_eq_self)
  ultimately show ?thesis by blast
qed

lemma buckets_below:
  assumes "length ms < 2 ^ 32" "i < 10"
  shows "sum_list (map (unat \<circ> snd) (take (Suc i) (zip kBucketUpperMs (ts_buckets (record_all ms))))) =
    length (filter (\<lambda>m. bucket_of (clamped m) \<le> i) ms)"
proof -
  note holds = record_all_holds [OF assms(1)]
  have "map (unat \<circ> snd) (take (Suc i) (zip kBucketUpperMs (ts_buckets (record_all ms)))) =
      map (\<lambda>j. length (filter (\<lambda>m. bucket_of (clamped m) = j) ms)) [0..<Suc i]"
    using holds assms(2) by (intro nth_equalityI) (auto simp: len_uppers nth_append less_Suc_eq)
  then show ?thesis using below_sum [of "\<lambda>m. bucket_of (clamped m)" ms "Suc i"] by (simp only: less_Suc_eq_le)
qed

lemma bucket_bound:
  assumes "bucket_of m \<le> i" "i < 9"
  shows "m < kBucketUpperMs ! i"
proof -
  have "m < kBucketUpperMs ! bucket_of m" using assms by (intro bucket_upper) simp
  also have "\<dots> \<le> kBucketUpperMs ! i"
    using uppers_sorted assms by (intro sorted_nth_mono) (simp_all add: len_uppers)
  finally show ?thesis .
qed

section \<open>The summary\<close>

lemma append_cut: "0 < cap \<Longrightarrow> Append cap (take (cap - 1) text) s = take (cap - 1) (text @ s)"
  by (auto simp: Append_def min_def)

lemma appends_cut: "0 < cap \<Longrightarrow> foldl (Append cap) (take (cap - 1) t) ss = take (cap - 1) (t @ concat ss)"
proof (induction ss arbitrary: t)
  case (Cons s ss)
  have "Append cap (take (cap - 1) t) s = take (cap - 1) (t @ s)" by (rule append_cut [OF Cons.prems])
  then show ?case using Cons.IH [OF Cons.prems, of "t @ s"] by (simp del: take_append)
qed simp

section \<open>Accounts\<close>

definition stat_ok :: "timing_stat \<Rightarrow> bool" where
  "stat_ok s \<longleftrightarrow> length (ts_buckets s) = 10 \<and> sum_list (ts_buckets s) = ucast (ts_count s)"

text \<open>An episode: how often it began is how often it ended, and once more while one is open.\<close>

definition episode_ok :: "32 word \<Rightarrow> rat \<Rightarrow> timing_stat \<Rightarrow> bool" where
  "episode_ok begun start durations \<longleftrightarrow> stat_ok durations \<and> start \<noteq> 0 \<and>
     begun = ucast (ts_count durations) + (if 0 < start then 1 else 0)"

definition diag_ok :: "diag \<Rightarrow> bool" where
  "diag_ok d \<longleftrightarrow> list_all stat_ok (rd_ops d) \<and> length (rd_ops d) = OP_COUNT \<and>
     episode_ok (rd_predictionStalls d) (rd_predictionStallStartMs d) (rd_predictionStallDuration d) \<and>
     episode_ok (rd_connectionWarnings d) (rd_connectionWarningStartMs d) (rd_connectionWarningDuration d) \<and>
     length (rd_resimBurstBuckets d) = 8 \<and> sum_list (rd_resimBurstBuckets d) = ucast (rd_resimBursts d)"

datatype diag_event = EvOp int rat | EvSkip int rat | EvResult int int | EvAdvanced rat | EvRollback | EvOuter
  | EvEnded rat | EvInterrupted rat | EvResumed rat | EvTerminal rat | EvTimesync int | EvPeriodic rat rat
  | EvEnable bool

fun diag_step :: "diag_event \<Rightarrow> diag \<Rightarrow> diag" where
  "diag_step (EvOp op ms) d = RecordOp op ms d"
| "diag_step (EvSkip r now) d = RecordSkip r now d"
| "diag_step (EvResult site code) d = RecordGgpoResult site code d"
| "diag_step (EvAdvanced now) d = diag_OnFrameAdvanced now d"
| "diag_step EvRollback d = OnRollbackCallback d"
| "diag_step EvOuter d = OnOuterFrame d"
| "diag_step (EvEnded now) d = OnSessionEnded now d"
| "diag_step (EvInterrupted now) d = diag_OnConnectionInterrupted now d"
| "diag_step (EvResumed now) d = diag_OnConnectionResumed now d"
| "diag_step (EvTerminal now) d = OnTerminalDisconnect now d"
| "diag_step (EvTimesync n) d = OnTimesyncEvent n d"
| "diag_step (EvPeriodic now period) d = snd (PeriodicSummaryDue now period d)"
| "diag_step (EvEnable flag) d = SetEnabled flag d"

text \<open>The clock has run when an episode starts.\<close>

fun starts_late :: "diag_event \<Rightarrow> bool" where
  "starts_late (EvSkip r now) \<longleftrightarrow> 0 < now"
| "starts_late (EvInterrupted now) \<longleftrightarrow> 0 < now"
| "starts_late e \<longleftrightarrow> True"

lemma stat_ok_record [simp]: "stat_ok s \<Longrightarrow> stat_ok (TimingStat_Record ms s)"
  using bucket_less by (simp add: stat_ok_def TimingStat_Record_def Let_def sum_bump ucast_inc)

lemma stat_ok_reset [simp]: "stat_ok TimingStat_Reset"
  by (simp add: stat_ok_def TimingStat_Reset_def sum_list_replicate)

lemma episode_close: "episode_ok n start s \<Longrightarrow> 0 \<le> start \<Longrightarrow> episode_ok n (-1) (TimingStat_Record ms s)"
  by (auto simp: episode_ok_def) (simp_all add: TimingStat_Record_def Let_def ucast_inc)

lemma episode_open: "episode_ok n start s \<Longrightarrow> start < 0 \<Longrightarrow> 0 < now \<Longrightarrow> episode_ok (n + 1) now s"
  by (auto simp: episode_ok_def)

lemma episode_reset: "episode_ok 0 (-1) TimingStat_Reset"
  by (simp add: episode_ok_def) (simp add: TimingStat_Reset_def)

lemma ok_close_stall: "diag_ok d \<Longrightarrow> diag_ok (close_stall now d)"
  by (auto simp: close_stall_def diag_ok_def intro: episode_close)

lemma ok_close_warning: "diag_ok d \<Longrightarrow> diag_ok (close_warning now d)"
  by (auto simp: close_warning_def diag_ok_def intro: episode_close)

lemma burst_bucket: "\<exists>i<8. find_index (\<lambda>u. n \<le> u) kBurstUpper = Some i"
proof -
  have "find_index (\<lambda>u. n \<le> u) kBurstUpper \<noteq> None"
  proof -
    have "(4294967295 :: 32 word) = - 1" by simp
    then have "n \<le> 4294967295" using word_n1_ge [of n] by metis
    then show ?thesis by (simp add: find_index_None kBurstUpper_def)
  qed
  then obtain i where i: "find_index (\<lambda>u. n \<le> u) kBurstUpper = Some i" by blast
  have "length kBurstUpper = 8" by (simp add: kBurstUpper_def)
  then show ?thesis using i find_index_Some [OF i] by simp
qed

lemma ok_close_burst: "diag_ok d \<Longrightarrow> diag_ok (close_burst d)"
  using burst_bucket [of "rd_currentResimBurst d"]
  by (auto simp: close_burst_def diag_ok_def sum_bump ucast_inc)

lemma diag_ok_frames:
  "diag_ok (d\<lparr>rd_skipReasons := a\<rparr>) = diag_ok d" "diag_ok (d\<lparr>rd_ggpoResults := b\<rparr>) = diag_ok d"
  "diag_ok (d\<lparr>rd_totalRollbackCallbacks := e, rd_rollbackCallbacksThisOuterFrame := f, rd_currentResimBurst := g\<rparr>) = diag_ok d"
  "diag_ok (d\<lparr>rd_outerFrames := h\<rparr>) = diag_ok d"
  "diag_ok (d\<lparr>rd_outerFramesWithRollback := i, rd_maxRollbackCallbacksPerOuterFrame := j, rd_rollbackCallbacksThisOuterFrame := k\<rparr>) = diag_ok d"
  "diag_ok (d\<lparr>rd_connectionResumes := l\<rparr>) = diag_ok d" "diag_ok (d\<lparr>rd_terminalDisconnects := m\<rparr>) = diag_ok d"
  "diag_ok (d\<lparr>rd_timesyncEvents := n\<rparr>) = diag_ok d"
  "diag_ok (d\<lparr>rd_timesyncFramesTotal := p, rd_timesyncMaxFrames := q\<rparr>) = diag_ok d"
  "diag_ok (d\<lparr>rd_lastPeriodicEmitMs := r\<rparr>) = diag_ok d" "diag_ok (d\<lparr>rd_enabled := t\<rparr>) = diag_ok d"
  by (simp_all add: diag_ok_def)

lemma ok_outer: "diag_ok d \<Longrightarrow> diag_ok (OnOuterFrame d)"
  by (simp add: OnOuterFrame_def Let_def ok_close_burst diag_ok_frames)

lemma ok_op: "diag_ok d \<Longrightarrow> diag_ok (RecordOp op ms d)"
  by (auto simp: RecordOp_def diag_ok_def list_all_length nth_list_update)

lemma ok_step: "starts_late e \<Longrightarrow> diag_ok d \<Longrightarrow> diag_ok (diag_step e d)"
proof (induction e d rule: diag_step.induct)
  case (2 r now d)
  then show ?case by (auto simp: RecordSkip_def Let_def diag_ok_def intro: episode_open)
next
  case (8 now d)
  then show ?case by (auto simp: diag_OnConnectionInterrupted_def diag_ok_def intro: episode_open)
next
  case (13 flag d)
  then show ?case by (auto simp: SetEnabled_def Let_def diag_ok_def episode_ok_def)
qed (simp_all add: ok_op RecordGgpoResult_def diag_OnFrameAdvanced_def OnRollbackCallback_def ok_outer OnSessionEnded_def
  diag_OnConnectionResumed_def OnTerminalDisconnect_def OnTimesyncEvent_def PeriodicSummaryDue_def diag_ok_frames
  ok_close_stall ok_close_burst ok_close_warning Let_def)

text \<open>Switched off, the component does nothing but take the switch.\<close>

lemma off_is_silent: "\<not> rd_enabled d \<Longrightarrow> \<nexists>flag. e = EvEnable flag \<Longrightarrow> diag_step e d = d"
  by (cases e) (simp_all add: RecordOp_def RecordSkip_def RecordGgpoResult_def diag_OnFrameAdvanced_def
    OnRollbackCallback_def OnOuterFrame_def OnSessionEnded_def diag_OnConnectionInterrupted_def
    diag_OnConnectionResumed_def OnTerminalDisconnect_def OnTimesyncEvent_def PeriodicSummaryDue_def)

section \<open>Properties\<close>

text \<open>C27: A percentile read off a histogram is never too low: after fewer than 2^32 records, strictly more durations than
  the requested rank are at most the value returned, and the value is a bound of a bucket or the longest duration.\<close>
theorem percentile_conservative:
  assumes "length ms < 2 ^ 32" "ms \<noteq> []" "0 \<le> p" "p \<le> 1"
  shows "min (nat \<lfloor>p * of_nat (length ms)\<rfloor>) (length ms - 1) <
      length (filter (\<lambda>m. m \<le> ApproxPercentileMs p (record_all ms)) ms) \<and>
    ApproxPercentileMs p (record_all ms) \<in> set (ts_maxMs (record_all ms) # kBucketUpperMs)"
proof -
  let ?s = "record_all ms" and ?r = "ApproxPercentileMs p (record_all ms)"
  let ?rank = "min (nat \<lfloor>p * of_nat (length ms)\<rfloor>) (length ms - 1)"
  note holds = record_all_holds [OF assms(1)]
  have some: "ts_count ?s \<noteq> 0" using holds assms(2) by (auto simp: unat_eq_zero [symmetric])
  define w where "w = (word_of_int \<lfloor>p * of_nat (length ms)\<rfloor> :: 64 word)"
  define rank where "rank = (if ts_count ?s \<le> w then ts_count ?s - 1 else w)"
  have w: "unat w = nat \<lfloor>p * of_nat (length ms)\<rfloor>"
    unfolding w_def by (rule rank_small [OF assms(3,4,1)])
  have "unat (ts_count ?s - 1) = length ms - 1" using holds some by (simp add: unat_minus_one)
  then have rank: "unat rank = ?rank" using holds w by (auto simp: rank_def word_le_nat_alt)
  have r: "?r = percentile_loop rank (ts_maxMs ?s) 0 (zip kBucketUpperMs (ts_buckets ?s))"
    using some assms(3,4) holds by (simp add: ApproxPercentileMs_def w_def rank_def Let_def)
  have all: "sum_list (map (unat \<circ> snd) (zip kBucketUpperMs (ts_buckets ?s))) \<le> length ms"
    using buckets_below [OF assms(1), of 9] holds by (simp add: len_uppers)
  have "?r = ts_maxMs ?s \<or> (\<exists>i<9. ?r = kBucketUpperMs ! i \<and> unat rank < length (filter (\<lambda>m. bucket_of (clamped m) \<le> i) ms))"
    using percentile_loop_cases [of 0 "zip kBucketUpperMs (ts_buckets ?s)" rank "ts_maxMs ?s"] all assms(1) holds
      buckets_below [OF assms(1)] unfolding r by (auto simp: len_uppers)
  then show ?thesis
  proof (elim disjE exE conjE)
    assume max: "?r = ts_maxMs ?s"
    have "m \<le> ?r" if "m \<in> set ms" for m using holds that by (force simp: max clamped_def split: if_splits)
    then have "filter (\<lambda>m. m \<le> ?r) ms = ms" by (simp add: filter_id_conv)
    then show ?thesis using assms(2) max by (simp add: min_less_iff_disj)
  next
    fix i assume i: "i < 9" "?r = kBucketUpperMs ! i" "unat rank < length (filter (\<lambda>m. bucket_of (clamped m) \<le> i) ms)"
    have "m \<le> ?r" if "bucket_of (clamped m) \<le> i" for m
      using bucket_bound [OF that i(1)] unfolding i(2) clamped_def by (auto split: if_splits)
    then have "length (filter (\<lambda>m. bucket_of (clamped m) \<le> i) ms) \<le> length (filter (\<lambda>m. m \<le> ?r) ms)"
      by (rule filter_grows)
    then show ?thesis using i rank nth_mem [of i kBucketUpperMs] by (simp add: len_uppers)
  qed
qed

theorem percentile_conservative_witness:
  "1 < length (filter (\<lambda>m. m \<le> ApproxPercentileMs (1 / 3) (record_all [1 / 10, 3, 40 :: rat])) [1 / 10, 3, 40])"
  using percentile_conservative [of "[1 / 10, 3, 40]" "1 / 3"] by (simp del: filter.simps)

text \<open>The accounts balance: from a match's start on, whatever is recorded in whatever order, every histogram's buckets
  add up to its count, every stall and every connection warning that began has ended or is the one still open, and the
  burst histogram adds up to the bursts, all at the counters' width.\<close>
theorem accounts_balance:
  assumes "list_all starts_late es"
  shows "diag_ok (fold diag_step es (ResetForMatch nowMs d))"
proof -
  have "diag_ok (ResetForMatch nowMs d)"
    by (simp add: ResetForMatch_def zero_diag_def diag_ok_def episode_reset list_all_length sum_list_replicate)
  then show ?thesis
    using assms by (induction es arbitrary: d rule: rev_induct) (auto simp: ok_step)
qed

theorem accounts_balance_witness:
  "diag_ok (fold diag_step [EvEnable True, EvSkip 1 5, EvInterrupted 6, EvAdvanced 7] (ResetForMatch 0 zero_diag))"
  by (rule accounts_balance) simp

text \<open>The summary is its full text cut to the buffer, with room for the terminator: a short buffer loses the end and
  nothing else.\<close>
theorem summary_is_cut:
  assumes "rd_enabled d" "2 \<le> cap"
  shows "FormatSummary cap label d = Some (take (cap - 1) (concat (summary_pieces label d)))"
  using assms appends_cut [of cap "[]"] by (simp add: FormatSummary_def)

theorem summary_is_cut_witness:
  "FormatSummary 10 None (zero_diag\<lparr>rd_enabled := True\<rparr>) =
     Some (take 9 (concat (summary_pieces None (zero_diag\<lparr>rd_enabled := True\<rparr>))))"
  using summary_is_cut [of "zero_diag\<lparr>rd_enabled := True\<rparr>" 10] by simp

end
