(* ===== verification/Relay_Hosts.thy ===== *)
theory Relay_Hosts
  imports Session_Server Connect_Strategy
begin

text \<open>
  The two programs that run a session server without a game: the relay host the
  launcher starts beside itself (relay/relay_host.cxx) and the relay on a VPS
  (relay/session_relay.cxx). The command-line library, the hash provider, the
  sockets and the clock are parameters; a run is what each round of the loop
  sees, and the list ending is the run being cut off.
\<close>

section \<open>The loop\<close>

text \<open>The connection changes that are called back, what the poll returns and the clock after the step.\<close>

record 'j host_round =
  hr_changes :: "(bool \<times> conn_state \<times> conn_state \<times> conn) list"
  hr_poll :: "'j delivery option list option"
  hr_now :: "64 word"

definition called_back :: "(bool \<times> conn_state \<times> conn_state \<times> conn) list \<Rightarrow> server \<Rightarrow> server" where
  "called_back changes st = fold (\<lambda>(acc, new, old, c) st. fst (server_conn_changed acc new old c st)) changes st"

text \<open>The time since which nobody has been connected, and whether anybody ever was.\<close>

type_synonym idle = "64 word \<times> bool"

definition idle_check :: "int \<Rightarrow> 64 word \<Rightarrow> nat \<Rightarrow> idle \<Rightarrow> bool \<times> idle" where
  "idle_check idleExitSec nowMs clientCount i =
     (case i of (emptySinceMs, hadClients) \<Rightarrow>
        if 0 < clientCount then (False, (nowMs, True))
        else (let since = (if emptySinceMs = 0 then nowMs else emptySinceMs);
                  emptyMs = nowMs - since
              in (hadClients \<and> 30000 \<le> emptyMs \<or> word_of_int idleExitSec * 1000 \<le> emptyMs, (since, hadClients))))"

datatype host_end = StepFailed | NobodyThere | CutOff | Undefined

fun host_loop :: "'j codec \<Rightarrow> int \<Rightarrow> 'j host_round list \<Rightarrow> idle \<Rightarrow> server \<Rightarrow> host_end \<times> server" where
  "host_loop C idleExitSec [] i st = (CutOff, st)"
| "host_loop C idleExitSec (r # rs) i st =
     (case server_step C (hr_poll r) (called_back (hr_changes r) st) of
        None \<Rightarrow> (Undefined, st)
      | Some (st1, outs, rc) \<Rightarrow>
          if rc \<noteq> 0 then (StepFailed, st1)
          else if idleExitSec \<le> 0 then host_loop C idleExitSec rs i st1
          else (case idle_check idleExitSec (hr_now r) (length (clients st1)) i of
             (True, i1) \<Rightarrow> (NobodyThere, st1)
           | (False, i1) \<Rightarrow> host_loop C idleExitSec rs i1 st1))"

section \<open>The relay host\<close>

record host_env =
  rh_hash :: hash_env
  rh_lan :: "(bool \<times> string list) list option"
  rh_sockets :: bool
  rh_listens :: bool
  rh_start :: "64 word"

definition HashSidecarDllNextToExe :: "hash_env \<Rightarrow> nat \<Rightarrow> string option" where
  "HashSidecarDllNextToExe E outLen =
     (if \<not> ha_module E \<or> \<not> ha_spec E \<or> \<not> ha_path E then None
      else if \<not> ha_provider E \<or> \<not> fst (ha_sizes E) \<or> \<not> snd (ha_sizes E) then None
      else if \<not> fst (ha_alloc E) \<or> \<not> snd (ha_alloc E) \<or> \<not> ha_create E \<or> \<not> ha_open E then None
      else (case hash_loop E (ha_reads E) [] of
         None \<Rightarrow> None
       | Some fed \<Rightarrow>
           (case ha_finish E fed of
              None \<Rightarrow> None
            | Some digest \<Rightarrow>
                (let hex = copy_trunc outLen (concat (map hex_pair digest)) in if hex = [] then None else Some hex))))"

definition host_server :: "string \<Rightarrow> string \<Rightarrow> server" where
  "host_server ident hash = fst (server_listen True (server_init ident hash True 3 \<lparr>fractional = 0, integral = 99\<rparr>))"

text \<open>The exit code, how the loop ended and the server that was closed; None when the loop was not reached.\<close>

type_synonym host_result = "int \<times> (host_end \<times> server) option"

definition serve_host :: "'j codec \<Rightarrow> host_env \<Rightarrow> 'j host_round list \<Rightarrow> int \<Rightarrow> string \<Rightarrow> string \<Rightarrow> host_result" where
  "serve_host C E rounds idleExitSec ident hash =
     (if \<not> rh_sockets E then (1, None)
      else if \<not> rh_listens E then (1, None)
      else (case host_loop C idleExitSec rounds (rh_start E, False) (host_server ident hash) of
              (how, st) \<Rightarrow> (0, Some (how, if how \<in> {CutOff, Undefined} then st else fst (fst (server_close st))))))"

definition relay_host_main :: "'j codec \<Rightarrow> host_env \<Rightarrow> 'j host_round list \<Rightarrow> int + string \<times> int \<Rightarrow> host_result" where
  "relay_host_main C E rounds args =
     (case args of
        Inl code \<Rightarrow> (code, None)
      | Inr (given, idleExitSec) \<Rightarrow>
          (case HashSidecarDllNextToExe (rh_hash E) 128 of
             None \<Rightarrow> (1, None)
           | Some hash \<Rightarrow>
               serve_host C E rounds idleExitSec (if given = [] then snd (DetectLanIPv4 64 (rh_lan E)) else given) hash))"

section \<open>The session relay\<close>

text \<open>The arguments are the identity, the expected hash and the idle time.\<close>

definition session_relay_main ::
  "'j codec \<Rightarrow> host_env \<Rightarrow> 'j host_round list \<Rightarrow> int + string \<times> string \<times> int \<Rightarrow> host_result" where
  "session_relay_main C E rounds args =
     (case args of
        Inl code \<Rightarrow> (code, None)
      | Inr (given, hash, idleExitSec) \<Rightarrow>
          if hash = [] then (1, None)
          else serve_host C E rounds idleExitSec (if given = [] then ''relay-vps'' else given) hash)"

section \<open>Facts\<close>

lemma reach_called_back: "server_reach C st \<Longrightarrow> server_reach C (called_back changes st)"
  unfolding called_back_def by (induction changes arbitrary: st) (auto intro: reach_conn)

lemma reach_loop: "server_reach C st \<Longrightarrow> host_loop C idle rounds i st = (how, st') \<Longrightarrow> server_reach C st'"
proof (induction rounds arbitrary: i st)
  case (Cons r rs)
  have b: "server_reach C (called_back (hr_changes r) st)" by (rule reach_called_back [OF Cons.prems(1)])
  show ?case
  proof (cases "server_step C (hr_poll r) (called_back (hr_changes r) st)")
    case None
    then show ?thesis using Cons.prems by simp
  next
    case (Some x)
    obtain st1 outs rc where x: "x = (st1, outs, rc)" by (cases x)
    have "server_reach C st1" using reach_step [OF b] Some x by simp
    then show ?thesis using Cons.prems(2) Cons.IH Some x by (auto split: if_splits prod.splits bool.splits)
  qed
qed simp

lemma reach_host: "server_reach C (host_server ident hash)"
  unfolding host_server_def by (intro reach_listen reach_init)

text \<open>What the idle rule has seen: the clock and the number of clients after each completed step.\<close>

fun host_trace :: "'j codec \<Rightarrow> 'j host_round list \<Rightarrow> server \<Rightarrow> (64 word \<times> nat) list" where
  "host_trace C [] st = []"
| "host_trace C (r # rs) st =
     (case server_step C (hr_poll r) (called_back (hr_changes r) st) of
        None \<Rightarrow> []
      | Some (st1, outs, rc) \<Rightarrow> if rc \<noteq> 0 then [] else (hr_now r, length (clients st1)) # host_trace C rs st1)"

text \<open>The rule by itself: the round it ends at.\<close>

fun idle_exit :: "int \<Rightarrow> idle \<Rightarrow> (64 word \<times> nat) list \<Rightarrow> nat option" where
  "idle_exit idle i [] = None"
| "idle_exit idle i ((now, n) # tr) =
     (if fst (idle_check idle now n i) then Some 0
      else map_option Suc (idle_exit idle (snd (idle_check idle now n i)) tr))"

lemma loop_follows_rule:
  assumes "0 < idle"
  shows "fst (host_loop C idle rounds i st) = NobodyThere \<longleftrightarrow> idle_exit idle i (host_trace C rounds st) \<noteq> None"
proof (induction rounds arbitrary: i st)
  case (Cons r rs)
  then show ?case
    using assms by (auto split: option.splits prod.splits bool.splits)
qed simp

lemma check_empty: "fst (idle_check idle now n i) \<Longrightarrow> n = 0"
  by (auto simp: idle_check_def split: prod.splits if_splits)

lemma loop_nobody: "host_loop C idle rounds i st = (NobodyThere, st') \<Longrightarrow> clients st' = []"
proof (induction rounds arbitrary: i st)
  case (Cons r rs)
  then show ?case
    by (auto split: option.splits prod.splits bool.splits if_splits dest: check_empty [of _ _ _ i, simplified]
        simp: check_empty) (metis check_empty fst_conv length_0_conv)
qed simp

lemma word_gap: "unat s \<le> unat n \<Longrightarrow> unat (n - s :: 64 word) = unat n - unat s"
  by (simp add: unat_sub word_le_nat_alt)

lemma idle_ms: "0 < idle \<Longrightarrow> idle < 2 ^ 31 \<Longrightarrow> unat (word_of_int idle * 1000 :: 64 word) = nat idle * 1000"
proof -
  assume i: "0 < idle" "idle < 2 ^ 31"
  then have "unat (word_of_int idle :: 64 word) = nat idle" by (simp add: unsigned_of_int take_bit_int_eq_self)
  then show ?thesis using i by (simp add: unat_word_ariths)
qed

lemma exit_seen:
  assumes "idle_exit idle (since, had) tr = Some k" "0 < idle" "idle < 2 ^ 31" "0 < unat since"
    "sorted (unat since # map (\<lambda>x. unat (fst x)) tr)"
  shows "k < length tr \<and> snd (tr ! k) = 0 \<and>
    (\<forall>j<k. 0 < snd (tr ! j) \<longrightarrow> min 30000 (nat idle * 1000) \<le> unat (fst (tr ! k)) - unat (fst (tr ! j))) \<and>
    ((\<forall>j\<le>k. snd (tr ! j) = 0) \<longrightarrow>
       (if had then min 30000 (nat idle * 1000) else nat idle * 1000) \<le> unat (fst (tr ! k)) - unat since)"
  using assms
proof (induction tr arbitrary: since had k)
  case (Cons x tr)
  obtain now n where x: "x = (now, n)" by fastforce
  have sorted: "unat since \<le> unat now" "sorted (unat now # map (\<lambda>x. unat (fst x)) tr)" "since \<noteq> 0"
    using Cons.prems by (auto simp: x)
  show ?case
  proof (cases "fst (idle_check idle now n (since, had))")
    case True
    then have "n = 0" by (rule check_empty)
    moreover have "had \<and> 30000 \<le> now - since \<or> word_of_int idle * 1000 \<le> now - since"
      using True sorted(3) calculation by (auto simp: idle_check_def Let_def)
    then have "had \<and> 30000 \<le> unat now - unat since \<or> nat idle * 1000 \<le> unat now - unat since"
      using word_gap [OF sorted(1)] idle_ms [OF Cons.prems(2,3)] by (simp add: word_le_nat_alt)
    ultimately show ?thesis using Cons.prems(1) True by (auto simp: x)
  next
    case False
    then obtain k' where k': "idle_exit idle (snd (idle_check idle now n (since, had))) tr = Some k'" "k = Suc k'"
      using Cons.prems(1) by (auto simp: x)
    show ?thesis
    proof (cases "0 < n")
      case True
      then have "idle_exit idle (now, True) tr = Some k'" using k'(1) by (simp add: idle_check_def)
      then have "k' < length tr \<and> snd (tr ! k') = 0 \<and>
         (\<forall>j<k'. 0 < snd (tr ! j) \<longrightarrow> min 30000 (nat idle * 1000) \<le> unat (fst (tr ! k')) - unat (fst (tr ! j))) \<and>
         ((\<forall>j\<le>k'. snd (tr ! j) = 0) \<longrightarrow> min 30000 (nat idle * 1000) \<le> unat (fst (tr ! k')) - unat now)"
        using Cons.IH [of now True k'] Cons.prems(2-4) sorted by simp
      moreover have "min 30000 (nat idle * 1000) \<le> unat (fst (tr ! k')) - unat now"
      proof (cases "\<forall>j\<le>k'. snd (tr ! j) = 0")
        case False
        then obtain j where "j < k'" "0 < snd (tr ! j)" using calculation by (metis gr0I le_neq_implies_less less_numeral_extra(3))
        moreover have "unat now \<le> unat (fst (tr ! j))" using sorted(2) \<open>j < k'\<close> calculation
          \<open>k' < length tr \<and> _\<close> by (simp add: nth_mem)
        ultimately show ?thesis using \<open>k' < length tr \<and> _\<close> by fastforce
      qed (use calculation in simp)
      ultimately show ?thesis using k'(2) True by (auto simp: x nth_Cons split: nat.splits)
    next
      case False
      then have "idle_exit idle (since, had) tr = Some k'" using k'(1) sorted(3) by (simp add: idle_check_def Let_def)
      moreover have "sorted (unat since # map (\<lambda>x. unat (fst x)) tr)" using sorted by auto
      ultimately show ?thesis
        using Cons.IH [of since had k'] Cons.prems(2-4) k'(2) False by (auto simp: x nth_Cons split: nat.splits)
    qed
  qed
qed simp

lemma exit_due:
  assumes "k < length tr" "\<forall>j\<le>k. snd (tr ! j) = 0" "nat idle * 1000 \<le> unat (fst (tr ! k)) - unat since"
    "0 < idle" "idle < 2 ^ 31" "0 < unat since" "\<forall>x\<in>set tr. unat since \<le> unat (fst x)"
  shows "idle_exit idle (since, had) tr \<noteq> None"
  using assms
proof (induction tr arbitrary: k)
  case (Cons x tr)
  obtain now n where x: "x = (now, n)" by fastforce
  have n: "n = 0" and since: "since \<noteq> 0" "unat since \<le> unat now" using Cons.prems by (auto simp: x)
  show ?case
  proof (cases "fst (idle_check idle now n (since, had))")
    case False
    have "k \<noteq> 0"
    proof
      assume "k = 0"
      then have "word_of_int idle * 1000 \<le> now - since"
        using Cons.prems(3) word_gap [OF since(2)] idle_ms [OF Cons.prems(4,5)] by (simp add: x word_le_nat_alt)
      then show False using False n since(1) by (simp add: idle_check_def Let_def)
    qed
    then obtain k' where k: "k = Suc k'" by (cases k) auto
    have "snd (idle_check idle now n (since, had)) = (since, had)" using n since(1) by (simp add: idle_check_def Let_def)
    moreover have "snd (tr ! j) = 0" if "j \<le> k'" for j using Cons.prems(2) that by (auto simp: k dest: spec [of _ "Suc j"])
    then have "idle_exit idle (since, had) tr \<noteq> None"
      using Cons.IH [of k'] Cons.prems by (auto simp: k)
    ultimately show ?thesis using False by (simp add: x)
  qed (simp add: x)
qed simp

section \<open>Properties\<close>

text \<open>C25: A relay host that leaves for want of clients is empty, nobody has been connected to it for 30 seconds or the idle
  time, whichever is shorter, and if nobody ever was, the whole idle time has gone by since its start.\<close>
theorem host_leaves_when_empty:
  assumes "host_loop C idle rounds (start, False) st = (NobodyThere, st')" "0 < idle" "idle < 2 ^ 31" "0 < unat start"
    "tr = host_trace C rounds st" "sorted (unat start # map (\<lambda>x. unat (fst x)) tr)"
  shows "clients st' = [] \<and> (\<exists>k<length tr. snd (tr ! k) = 0 \<and>
    (\<forall>j<k. 0 < snd (tr ! j) \<longrightarrow> min 30000 (nat idle * 1000) \<le> unat (fst (tr ! k)) - unat (fst (tr ! j))) \<and>
    ((\<forall>j\<le>k. snd (tr ! j) = 0) \<longrightarrow> nat idle * 1000 \<le> unat (fst (tr ! k)) - unat start))"
proof -
  have "idle_exit idle (start, False) tr \<noteq> None"
    using loop_follows_rule [OF assms(2), of C rounds "(start, False)" st] assms(1,5) by simp
  then obtain k where k: "idle_exit idle (start, False) tr = Some k" by blast
  show ?thesis
    using exit_seen [OF k assms(2-4,6)] unfolding if_False
    by (intro conjI loop_nobody [OF assms(1)] exI [of _ k]) blast+
qed

definition quiet_round :: "64 word \<Rightarrow> 'j host_round" where
  "quiet_round now = \<lparr>hr_changes = [], hr_poll = Some [], hr_now = now\<rparr>"

theorem host_leaves_when_empty_witness:
  "\<exists>st'. host_loop (std_codec jval_ops) 2 [quiet_round 500, quiet_round 2500] (400, False) (host_server ''h'' ''x'') = (NobodyThere, st') \<and>
     clients st' = []"
proof -
  have run: "host_loop (std_codec jval_ops) 2 [quiet_round 500, quiet_round 2500] (400, False) (host_server ''h'' ''x'') =
      (NobodyThere, host_server ''h'' ''x'')"
    and tr: "host_trace (std_codec jval_ops) [quiet_round 500, quiet_round 2500] (host_server ''h'' ''x'') = [(500, 0), (2500, 0)]"
    by (simp_all add: quiet_round_def called_back_def server_step_def flush_round_def host_server_def server_listen_def
        server_init_def idle_check_def)
  show ?thesis using host_leaves_when_empty [OF run _ _ _ tr [symmetric]] run by simp
qed

text \<open>A relay host that nobody finds does leave: once the idle time has gone by since its start with nobody there at
  any step, the loop has ended.\<close>
theorem host_leaves_in_time:
  assumes "0 < idle" "idle < 2 ^ 31" "0 < unat start" "tr = host_trace C rounds st"
    "\<forall>x\<in>set tr. unat start \<le> unat (fst x)"
    "k < length tr" "\<forall>j\<le>k. snd (tr ! j) = 0" "nat idle * 1000 \<le> unat (fst (tr ! k)) - unat start"
  shows "fst (host_loop C idle rounds (start, False) st) = NobodyThere"
  using exit_due [OF assms(6-8) assms(1-3,5)] loop_follows_rule [OF assms(1)] assms(4) by metis

theorem host_leaves_in_time_witness:
  "fst (host_loop (std_codec jval_ops) 2 [quiet_round 500, quiet_round 2500] (400, False) (host_server ''h'' ''x'')) = NobodyThere"
proof -
  have tr: "host_trace (std_codec jval_ops) [quiet_round 500, quiet_round 2500] (host_server ''h'' ''x'') = [(500, 0), (2500, 0)]"
    by (simp add: quiet_round_def called_back_def server_step_def flush_round_def host_server_def server_listen_def
        server_init_def)
  show ?thesis by (rule host_leaves_in_time [OF _ _ _ tr [symmetric], of _ _ 1]) (auto simp: le_Suc_eq)
qed

text \<open>The server a relay host or a session relay runs satisfies the server's invariant at every moment of its life, and
  a relay that ends by itself returns 0 and has closed it.\<close>
theorem hosts_keep_the_invariant:
  assumes "relay_host_main C E rounds args = (code, Some (how, st)) \<or>
    session_relay_main C E' rounds' args' = (code, Some (how, st))"
  shows "server_ok st \<and> code = 0 \<and> (how \<in> {StepFailed, NobodyThere} \<longrightarrow> clients st = [] \<and> \<not> listening st)"
proof -
  have served: "server_ok st \<and> code = 0 \<and> (how \<in> {StepFailed, NobodyThere} \<longrightarrow> clients st = [] \<and> \<not> listening st)"
    if "serve_host C W rs idle ident hash = (code, Some (how, st))" for W rs idle ident hash
  proof -
    obtain how0 st0 where run: "host_loop C idle rs (rh_start W, False) (host_server ident hash) = (how0, st0)"
      by fastforce
    have r: "server_reach C st0" by (rule reach_loop [OF reach_host run])
    have "server_ok st0" "server_ok (fst (fst (server_close st0)))" by (rule reach_ok [OF r], rule reach_ok [OF reach_close [OF r]])
    moreover have "code = 0" "how = how0" "st = (if how0 \<in> {CutOff, Undefined} then st0 else fst (fst (server_close st0)))"
      using that by (auto simp: serve_host_def run split: if_splits)
    ultimately show ?thesis by (auto simp: server_close_def)
  qed
  obtain W rs idle ident hash where "serve_host C W rs idle ident hash = (code, Some (how, st))"
    using assms unfolding relay_host_main_def session_relay_main_def
    by (cases args; cases args'; cases "HashSidecarDllNextToExe (rh_hash E) 128") (auto split: if_splits)
  then show ?thesis by (rule served)
qed

definition demo_host :: host_env where
  "demo_host = \<lparr>rh_hash = \<lparr>ha_module = True, ha_spec = True, ha_path = True, ha_provider = True, ha_sizes = (True, True),
     ha_alloc = (True, True), ha_create = True, ha_open = True, ha_reads = [], ha_data = (\<lambda>_. True),
     ha_finish = (\<lambda>s. None)\<rparr>, rh_lan = None, rh_sockets = True, rh_listens = True, rh_start = 400\<rparr>"

theorem hosts_keep_the_invariant_witness:
  "\<exists>how st. session_relay_main (std_codec jval_ops) demo_host [quiet_round 500, quiet_round 2500] (Inr ([], ''x'', 2)) = (0, Some (how, st)) \<and>
     how = NobodyThere \<and> server_ok st \<and> clients st = []"
proof -
  have run: "host_loop (std_codec jval_ops) 2 [quiet_round 500, quiet_round 2500] (400, False) (host_server ''relay-vps'' ''x'') =
      (NobodyThere, host_server ''relay-vps'' ''x'')"
    by (simp add: quiet_round_def called_back_def server_step_def flush_round_def host_server_def server_listen_def
        server_init_def idle_check_def)
  have main: "session_relay_main (std_codec jval_ops) demo_host [quiet_round 500, quiet_round 2500] (Inr ([], ''x'', 2)) =
      (0, Some (NobodyThere, fst (fst (server_close (host_server ''relay-vps'' ''x'')))))"
    by (simp add: session_relay_main_def serve_host_def demo_host_def run del: host_loop.simps)
  show ?thesis using hosts_keep_the_invariant [OF disjI2 [OF main]] main by simp
qed

section \<open>What modelling showed\<close>

text \<open>An idle time longer than 30 seconds is not kept once anybody has been connected.\<close>

lemma early_exit: "0 < since \<Longrightarrow> fst (idle_check idle (since + 30000) 0 (since, True))"
  by (auto simp: idle_check_def Let_def word_less_nat_alt)

end
