(* ===== verification/Spec2Isabelle.thy ===== *)
theory Spec2Isabelle
  imports Gate Server_Properties Transport Tunnel Process_Properties Launcher_Properties Start_Properties
    Prefs_Properties Diagnostics_Properties Relay_Hosts
begin

text \<open>
  Verification development of the SF4 netplay launcher: the sidecar that runs
  inside Ultra Street Fighter IV and gives it rollback netplay, the session
  server and client it speaks to, the UDP relay, and the launcher that prepares
  a match. Paths below are under src/src/.

  \<^bold>\<open>The program and its model.\<close> A match has two players' processes, a session
  server that seats them, and a path for the GGPO datagrams: the UDP relay, a
  direct connection, or a tunnel through the session. The launcher resolves a
  room, fills in a NetplayConfig and starts the game with it; the sidecar's
  facade (sf4e__NetplayFacade.cxx) opens the session from the main menu; its user
  application (sf4e__UserApp.cxx) runs the client, prepares the transport and
  starts GGPO; its battle system (sf4e__Game__Battle__System.cxx) detours the
  engine's update and answers GGPO's callbacks with save states.

  \<^item> Prelude, C_Strings, Ordered_Map: the shared vocabulary; the collections
    \<open>guard_simps\<close>, \<open>inv_intros\<close>, \<open>frame_simps\<close>; the C string functions; the
    interface locale of std::map with its interpretation.
  \<^item> Gate (common/sf4e__GgpoGate): the simulation gate and its history rule.
  \<^item> Protocol, Wire (session/sf4e__SessionProtocol): data, JSON tables; the locale
    \<open>json_lib\<close> states what the JSON library promises, interpreted on \<open>jval\<close>.
  \<^item> Session_Server, Server_Properties (session/sf4e__SessionServer.cxx): one
    definition per handler, \<open>server_step\<close> is Step; the invariant \<open>server_ok\<close>.
  \<^item> Session_Client (session/sf4e__SessionClient.cxx): \<open>client_step\<close>,
    \<open>reconcile\<close>, and what they emit.
  \<^item> Udp_Relay (relay/ggpo_udp_relay.cxx), Net_Util (common/sf4e__NetUtil.cxx),
    Netplay_Config, Transport (session/sf4e__GgpoTransport.cxx), Tunnel
    (session/sf4e__GgpoRelay.cxx): the paths of a datagram and their preparation.
  \<^item> State_Hash (common/sf4e__StateHash.hxx and the checkpoints), Pacing
    (common/sf4e__PacingController.hxx).
  \<^item> Sound_Pool, Pure_Sounds (sf4e__Platform.hxx, sf4e__Game__Battle.cxx):
    rollback-safe sounds and the pool they live in.
  \<^item> Mementos, Save_State (sf4e__Game.cxx, sf4e__Game__Battle__System.cxx): the
    memento keys as owners of memory, the ten save slots over them, the GGPO
    callbacks as a refinement of the key operations.
  \<^item> App_State, Battle_System, Battle_Properties: the process state \<open>app\<close>, a list
    of actions for what leaves it, and the battle system on it.
  \<^item> Lobby_Control, Netplay_Facade, User_App, Overlay_Control: the operations of
    the facade, the user application and the overlay's buttons on \<open>app\<close>.
  \<^item> Process, Process_Properties: \<open>app_step\<close>, one constructor per operation the
    game, the libraries or the player drive in; \<open>reachable\<close>; the properties that
    span the parts.
  \<^item> Room_Code (netplay_room_code.cxx, room_broker_client.cxx), Connect_Strategy
    (connect_strategy.cxx), Relay_Room (relay_host_spawn.cxx and the broker's
    rooms), all under launcher/: room codes and address scanning, the decision
    between relay, direct and forwarded ports, the room's life at the broker.
  \<^item> Launcher_World: what the launcher does to the world, a list \<open>call list\<close>;
    what the world answers, a function of the calls made so far
    (\<open>launcher_world\<close>). An operation ends in \<open>Ret\<close>, \<open>Throws\<close> or \<open>Aborts\<close>.
  \<^item> Launcher_Settings (launcher/netplay/netplay_persist.cxx): the settings text.
  \<^item> Launch_Controller (launcher/netplay/netplay_launch_controller.cxx,
    launcher/qt/controller_bridge.cxx): one definition per message of the window
    and \<open>HandleWebMessage\<close>, which dispatches them.
  \<^item> Launcher_Facts, Launcher_Properties: the interface locale \<open>steady\<close>, a relation
    every action keeps, interpreted on the log and on the settings; the
    launcher's properties.
  \<^item> Package_Tree, Install_Paths (common/install_paths.cxx,
    launcher/launcher_stub.cxx): the disk as a record of what the path functions
    and directory searches answer; the files a package may hold, the walks over
    an unpacked one, the directories of the libraries, the stub.
  \<^item> Release_Text, Release_Client (launcher/update/github_release_client.cxx),
    Updater (launcher/updater.cxx): the check for a release, the download and
    its digest, the hand-over to the updater process and its replacement of the
    installation. Calls are the lists \<open>ucall\<close> and \<open>upcall\<close>.
  \<^item> Launcher_Start, Launcher_Main (launcher/launcher.cxx,
    launcher/netplay/netplay_wizard.cxx, launcher/ipc/electron_ipc.cxx): the
    command line's configuration, the bridge on standard input, the search for
    the game, and \<open>launcher_main\<close>, which starts it with its payload.
  \<^item> Update_Facts, Update_Properties, Start_Properties: the update across its two
    processes, the main function's log, and what modelling them showed.
  \<^item> Overlay_Prefs, Prefs_Properties (sf4e/sf4e__OverlayPrefs.cxx and the first part
    of sf4e/sf4e__Overlay.cxx): what the overlay keeps between runs, from its statics
    and the switches in \<open>app\<close> to the document and back.
  \<^item> Diagnostics, Diagnostics_Properties (common/sf4e__RollbackDiagnostics.cxx): the
    counters, histograms and the summary of a match; the events are \<open>diag_step\<close>.
  \<^item> Relay_Hosts (relay/relay_host.cxx, relay/session_relay.cxx): the two programs
    that run the session server alone, and when they leave.
  This theory composes server and client, the relay and its users, and the
  tunnel and its two ends.

  \<^bold>\<open>What the lemmas show.\<close> Each component has its invariant, kept by every
  operation (\<open>server_ok\<close>, \<open>relay_ok\<close>, \<open>tunnel_ok\<close>, \<open>pacer_ok\<close>, \<open>heap_ok\<close>,
  \<open>pool_ok\<close>, \<open>core_ok\<close>), and the behaviour of its operations on every branch.
  On top of them: a rollback restores the engine state and no save slot shares
  memory with another; the engine runs in a match on exactly the inputs GGPO
  synchronized; a lost room takes nothing from a running fight and tears
  everything else down; an update a server published reaches every client; a
  datagram crosses relay and tunnel unchanged and reaches only its peer.
  For the launcher: settings survive a restart, both players settle on the same
  transport, every request stays on a permitted address, the game is launched
  only behind a successful reply, and what the window chose is what the sidecar
  reads from its configuration. An update is handed over only when its digest and
  its files have been checked and its installation is what was handed over; a
  game that runs has its payload; an offline start asks nothing of the network.
  A relay host leaves only when it is empty. The overlay's preferences survive a
  restart; the diagnostics' accounts balance and its percentiles are never too low.

  \<^bold>\<open>Parameters.\<close> Code outside the repository is an argument: the game engine
  (\<open>engine\<close> with \<open>engine_laws\<close>, \<open>world\<close>, \<open>sound_engine\<close>), GGPO (the callbacks
  it makes on the way are arguments of the step, in the order it makes them),
  JSON, GameNetworkingSockets, WinHTTP, sockets, clocks. Their hypotheses state
  documented behaviour only and every property that has one has a witness on a
  concrete instance.

  \<^bold>\<open>Loops, bounds, fuel.\<close> Loops over pointers are partial functions into an
  option with a theorem that they return on a well-formed pool. Loops bounded by
  a clock run over the list of what each round sees; the list ending is the run
  being cut off, and a loop whose deadline is among the rounds returns. The
  walk over a staged package ends because relative paths grow against their
  buffer. The walk over an unpacked archive has the fuel \<open>kDepth\<close> and ends within
  it on any disk whose path functions do what is documented; the search for the
  package has the same fuel, and the model stops there: on a path too long for
  its buffer the code starts over elsewhere. The
  pacing debt is repaid within a stated number of waits. Machine integers keep
  their width; strings are without terminator and cut where the code cuts them.

  \<^bold>\<open>Simplifications.\<close> The pacing doubles are exact rationals. Log lines, drawing and
  the calls to the diagnostics are left out of the operations that make them. A Windows error number carried beside a result is
  left out.

  \<^bold>\<open>Not modelled.\<close> The engine's bindings (Dimps) and its hooks' installation: raw
  memory and calls into the game. The overlay's windows (ImGui) and the
  launcher's (Qt): drawing; the overlay's buttons are in Overlay_Control.
  The additional mementos of single engine objects (HUD, effects, Chara): copies
  of fields at engine addresses. The main menu and stage select overrides and
  the event-flow text of sf4e__GameEvents.cxx. Rollback diagnostics: text files
  for developers. The sidecar's entry points and what Detours does with the
  payload once the launcher has copied it: the loader's work. The configuration
  of logs. The tests, and the
  services written in other languages.
\<close>

section \<open>Server and client together\<close>

text \<open>A data update as it arrives: over the wire, the members' flags are cleared.\<close>

definition received_lobby :: "server \<Rightarrow> lobby_data" where
  "received_lobby st = (lobbyData st)\<lparr>members := map (\<lambda>m. (mdata m)\<lparr>m_flags := 0\<rparr>) (clients st)\<rparr>"

lemma update_received:
  assumes "json_lib J" "fits 31 (roundCount (lobbyData st))" "wf_match (matchData st)"
  shows "fst (client_message (std_codec J) (Some (to_reply J (data_update st))) r) =
    client_dataupdate (received_lobby st) (matchData st) r"
  using assms json_lib.lobby_wire [OF assms(1), of "(lobbyData st)\<lparr>members := map mdata (clients st)\<rparr>"]
  by (simp add: client_message_def std_codec_def data_update_def received_lobby_def
      json_lib.type_type json_lib.tagged_field json_lib.match_match comp_def)

lemma dataupdate_view [simp]:
  "c_lobby (cl (client_dataupdate l m r)) = l" "c_match (cl (client_dataupdate l m r)) = m"
  "c_cid (cl (client_dataupdate l m r)) = c_cid (cl r)"
  by (simp_all add: client_dataupdate_def Let_def split: option.splits)

lemma side_of_None: "side_of c st = None \<longleftrightarrow> (\<forall>m\<in>set (take 2 (clients st)). mconn m \<noteq> c)"
  by (simp add: side_of_def find_index_None)

lemma seat_seen:
  assumes "server_ok st" "c_cid x = own_cid st c" "c_lobby x = received_lobby st"
  shows "IsLocalPlayer x \<longleftrightarrow> side_of c st \<noteq> None"
proof -
  have "connId (mdata m) = own_cid st c \<longleftrightarrow> mconn m = c" if "m \<in> set (take 2 (clients st))" for m
    using server_ok_member [OF assms(1) in_set_takeD [OF that]] by (simp add: member_ok_def)
  then show ?thesis
    by (auto simp: IsLocalPlayer_def assms(2,3) received_lobby_def side_of_None take_map)
qed

text \<open>
  C32: replication end to end. When a poll of a reachable server ends with
  something to publish, every client it is sent to, on reading the message it
  received, holds the server's lobby settings, match data and member list, and
  takes itself for a player exactly when the server has it in one of the two
  player seats.
\<close>

theorem replica_agrees:
  assumes "json_lib J" "server_reach C st" "server_step C (Some ds) st = Some (st', outs, 0)"
    "(c, u) \<in> set outs" "is_update u" "fits 31 (roundCount (lobbyData st'))" "wf_match (matchData st')"
    "c_cid (cl r) = own_cid st' c" "r' = fst (client_message (std_codec J) (Some (to_reply J u)) r)"
  shows "c_lobby (cl r') = received_lobby st' \<and> c_match (cl r') = matchData st' \<and>
    (IsLocalPlayer (cl r') \<longleftrightarrow> side_of c st' \<noteq> None)"
proof -
  have u: "u = data_update st'"
    using server_update_final [OF assms(3,4,5)] by blast
  have r': "r' = client_dataupdate (received_lobby st') (matchData st') r"
    using update_received [OF assms(1,6,7)] by (simp add: assms(9) u)
  have ok: "server_ok st'" by (rule server_ok_step [OF reach_ok [OF assms(2)] assms(3)])
  have "IsLocalPlayer (cl r') \<longleftrightarrow> side_of c st' \<noteq> None"
    by (rule seat_seen [OF ok]) (simp_all add: r' assms(8))
  then show ?thesis by (simp add: r')
qed

theorem replica_agrees_witness:
  "\<exists>st' outs u. server_step jc (Some [Some (ask 1 (SetStage 5))]) srv2 = Some (st', outs, 0) \<and> (1, u) \<in> set outs \<and>
     stageID (c_match (cl (fst (client_message (std_codec jval_ops) (Some (to_reply jval_ops u))
       \<lparr>cl = (client_init ''k'' 7 ''a'')\<lparr>c_cid := own_cid st' 1\<rparr>, gm = game0, eff = []\<rparr>)))) = 5"
proof -
  obtain outs where s: "server_step jc (Some [Some (ask 1 (SetStage 5))]) srv2 = Some (srv2_staged, outs, 0)"
    using srv2_stage_step by blast
  let ?u = "data_update srv2_staged"
  let ?r = "\<lparr>cl = (client_init ''k'' 7 ''a'')\<lparr>c_cid := own_cid srv2_staged 1\<rparr>, gm = game0, eff = []\<rparr> :: jval cround"
  have "(1, ?u) \<in> set (filter (is_update \<circ> snd) outs)"
    using server_updates_all [OF s] srv2_staged_view by (simp add: srv2_staged_def)
  then have u: "(1, ?u) \<in> set outs" by simp
  have "c_match (cl (fst (client_message (std_codec jval_ops) (Some (to_reply jval_ops ?u)) ?r))) = matchData srv2_staged"
    using replica_agrees [OF jv.json_lib_axioms srv2_reach s u _ _ _ _ refl, of ?r]
    by (simp add: srv2_staged_def srv2_def srv0_def server_init_def fits_def wf_match_def MatchData_init_def)
  with s u show ?thesis
    by (intro exI [of _ srv2_staged] exI [of _ outs] exI [of _ ?u]) (simp add: srv2_staged_def MatchData_init_def)
qed

text \<open>One exchange: the server handles a client's message and the client reads the answer.\<close>

definition serve :: "'j json_ops \<Rightarrow> conn \<Rightarrow> 'j request \<Rightarrow> 'j round \<Rightarrow> 'j round option" where
  "serve J c q r = handle_delivery (std_codec J)
     \<lparr>d_conn = c, d_body = Some (to_request J q), d_number = 1, d_local = True, d_addr = []\<rparr> r"



section \<open>GGPO over the session tunnel\<close>

lemma find_seat:
  assumes "server_ok st" "m \<in> set (clients st)"
  shows "\<exists>m'. find (\<lambda>x. connId (mdata x) = connId (mdata m)) (clients st) = Some m' \<and> mconn m' = mconn m"
proof (cases "find (\<lambda>x. connId (mdata x) = connId (mdata m)) (clients st)")
  case None
  then show ?thesis using assms(2) by (auto simp: find_None_iff)
next
  case (Some m')
  then have m': "m' \<in> set (clients st)" "connId (mdata m') = connId (mdata m)"
    by (auto simp: find_Some_iff)
  then have "own_cid st (mconn m') = own_cid st (mconn m)"
    using server_ok_member [OF assms(1) m'(1)] server_ok_member [OF assms] by (simp add: member_ok_def)
  then show ?thesis using Some by (simp add: own_cid_def)
qed

text \<open>
  C35: the tunnel carries GGPO. Two members of a lobby have started their tunnels.
  A datagram the first one's GGPO sends to the port that stands for the second
  goes through the session and reaches the second one's GGPO unchanged, on its own
  port, from the port that stands there for the first; and nobody else is sent it.
\<close>

theorem tunnel_end_to_end:
  assumes "json_lib J" "server_ok (sv r)" "cidMap (sv r) c = Some (c_cid kA)" "c_cid kA = own_cid (sv r) c"
    "m \<in> set (clients (sv r))" "c_cid (cl kB) = connId (mdata m)" "c_conn kA \<noteq> None"
    "Start sA bindA portA (Some kA) tA0 = (True, tA)" "Start sB bindB portB (Some (cl kB)) tB0 = (True, tB)"
    "c_cid kA \<in> connId ` set (members (c_lobby (cl kB)))" "c_cid kA \<noteq> c_cid (cl kB)"
    "bytes \<noteq> []" "length bytes \<le> 2048"
  shows "\<exists>q v. snd (snd (pump_peer len (c_cid (cl kB)) [Some bytes] tA kA)) = [q] \<and>
    serve J c q r = Some (r\<lparr>sent := sent r @ [(mconn m, Relayed (to_request J q))]\<rparr>) \<and>
    eff (fst (client_message (std_codec J) (Some (to_reply J (Relayed (to_request J q)))) kB)) =
      eff kB @ [Inject (c_cid kA) bytes] \<and>
    GetRemoteEndpoint (c_cid kA) tB = Some (''127.0.0.1'', v) \<and>
    snd (InjectFromPeer (c_cid kA) bytes tB) = [(v, portB, bytes)]"
proof -
  let ?q = "FrameMsg \<lparr>gf_src = c_cid kA, gf_dest = c_cid (cl kB), gf_data = bytes\<rparr>"
  have 1: "snd (snd (pump_peer len (c_cid (cl kB)) [Some bytes] tA kA)) = [?q]"
    using pump_one [OF assms(12,13,7)] .
  obtain m' where m': "find (\<lambda>x. connId (mdata x) = connId (mdata m)) (clients (sv r)) = Some m'" "mconn m' = mconn m"
    using find_seat [OF assms(2,5)] by blast
  have 2: "serve J c ?q r = Some (r\<lparr>sent := sent r @ [(mconn m, Relayed (to_request J ?q))]\<rparr>)"
    using assms(1,3) m'
    by (simp add: serve_def handle_delivery_def handle_known_def handle_frame_def std_codec_def
        json_lib.message_types json_lib.message_message assms(4,6) own_cid_def Respond_def)
  have 3: "eff (fst (client_message (std_codec J) (Some (to_reply J (Relayed (to_request J ?q)))) kB)) =
      eff kB @ [Inject (c_cid kA) bytes]"
    using assms(1) by (simp add: client_message_def std_codec_def json_lib.message_types json_lib.message_message
        OnGgpoFrameReceived_def)
  obtain v where "GetRemoteEndpoint (c_cid kA) tB = Some (''127.0.0.1'', v)"
    "snd (InjectFromPeer (c_cid kA) bytes tB) = [(v, portB, bytes)]"
    using start_endpoint [OF assms(9,10,11)] assms(12) by blast
  with 1 2 3 show ?thesis by blast
qed

definition seated_client :: "conn \<Rightarrow> client" where
  "seated_client c = (client_init ''k'' 7 ''a'')\<lparr>c_cid := own_cid srv2 c, c_lobby := received_lobby srv2, c_conn := Some c\<rparr>"

theorem tunnel_end_to_end_witness:
  "\<exists>q tB v. Start True (\<lambda>p. True) 8 (Some (seated_client 2)) tunnel_init = (True, tB) \<and>
     serve jval_ops 1 q (round0 srv2) = Some ((round0 srv2)\<lparr>sent := [(2, Relayed (to_request jval_ops q))]\<rparr>) \<and>
     snd (InjectFromPeer (own_cid srv2 1) [5, 6] tB) = [(v, 8, [5, 6])]"
proof -
  let ?kB = "\<lparr>cl = seated_client 2, gm = game0, eff = []\<rparr> :: jval cround"
  obtain tA where tA: "Start True (\<lambda>p. True) 9 (Some (seated_client 1)) tunnel_init = (True, tA)"
    using start_succeeds [of "\<lambda>p. True" 9] by auto
  obtain tB where tB: "Start True (\<lambda>p. True) 8 (Some (cl ?kB)) tunnel_init = (True, tB)"
    using start_succeeds [of "\<lambda>p. True" 8] by auto
  have ok: "server_ok (sv (round0 srv2 :: jval round))" using reach_ok [OF srv2_reach] by simp
  have m: "seat 2 ''b'' \<in> set (clients (sv (round0 srv2 :: jval round)))" by (simp add: srv2_def)
  have digit: "to_string (1 :: conn) = ''1''" by code_simp
  have cid: "cidMap (sv (round0 srv2 :: jval round)) 1 = Some (c_cid (seated_client 1))"
    "c_cid (seated_client 1) = own_cid (sv (round0 srv2 :: jval round)) 1"
    "c_cid (cl ?kB) = connId (mdata (seat 2 ''b''))" "c_conn (seated_client 1) \<noteq> None"
    "c_cid (seated_client 1) \<in> connId ` set (members (c_lobby (cl ?kB)))" "c_cid (seated_client 1) \<noteq> c_cid (cl ?kB)"
    by (simp_all add: seated_client_def srv2_def srv0_def server_init_def own_cid_def digit seat_def new_member_def
        received_lobby_def)
  have b: "[5, 6 :: 8 word] \<noteq> []" "length [5, 6 :: 8 word] \<le> 2048" by simp_all
  obtain q v where "serve jval_ops 1 q (round0 srv2) =
      Some ((round0 srv2)\<lparr>sent := sent (round0 srv2 :: jval round) @ [(mconn (seat 2 ''b''), Relayed (to_request jval_ops q))]\<rparr>)"
    "snd (InjectFromPeer (c_cid (seated_client 1)) [5, 6] tB) = [(v, 8, [5, 6])]"
    using tunnel_end_to_end [OF jv.json_lib_axioms ok cid(1,2) m cid(3,4) tA tB cid(5,6) b, of "\<lambda>q. 0"]
    by (elim exE conjE) (rule that)
  moreover have "Start True (\<lambda>p. True) 8 (Some (seated_client 2)) tunnel_init = (True, tB)" using tB by simp
  ultimately show ?thesis
    by (intro exI [of _ q] exI [of _ tB] exI [of _ v]) (simp add: seated_client_def seat_def)
qed

end
